(* ===== verification/Sidewalk_Prelude.thy ===== *)
theory Sidewalk_Prelude
  imports Main "HOL-Library.Word"
begin

text \<open>
  Shared vocabulary of the development: the machine integers of the 32-bit target, the
  \<^verbatim>\<open>errno\<close> values the sources return, byte-level memory with \<^verbatim>\<open>memcpy\<close>-like block
  operations, and the generic lemmas on words, lists and memory that the component
  theories use.
\<close>

unbundle bit_operations_syntax

section \<open>Machine integers\<close>

type_synonym u8 = "8 word"
type_synonym u16 = "16 word"
type_synonym u32 = "32 word"
type_synonym u64 = "64 word"

text \<open>
  The named collections: \<open>mem_simps\<close> for reading back after block writes, \<open>nowrap\<close> for the
  arithmetic of word sums that stay below the word size.
\<close>

named_theorems mem_simps
named_theorems nowrap

lemma unat_add_nowrap [nowrap]:
  fixes a b :: "'a::len word"
  assumes "unat a + unat b < 2 ^ LENGTH('a)"
  shows "unat (a + b) = unat a + unat b"
  using assms by (simp add: unat_word_ariths)

lemma unat_of_nat_u32 [nowrap]: "n < 4294967296 \<Longrightarrow> unat (word_of_nat n :: u32) = n"
  by (simp add: unat_of_nat)

lemma unat_of_nat_u16 [nowrap]: "n < 65536 \<Longrightarrow> unat (word_of_nat n :: u16) = n"
  by (simp add: unat_of_nat)

lemma unat_of_nat_u8 [nowrap]: "n < 256 \<Longrightarrow> unat (word_of_nat n :: u8) = n"
  by (simp add: unat_of_nat)

lemma of_nat_unat_add: "(w :: 'a::len word) + word_of_nat k = word_of_nat (unat w + k)"
  by simp

lemma of_nat_eq_u32:
  "a < 4294967296 \<Longrightarrow> b < 4294967296 \<Longrightarrow> ((word_of_nat a :: u32) = word_of_nat b) = (a = b)"
  by (metis unat_of_nat_u32)

lemma of_nat_le_u32:
  "a < 4294967296 \<Longrightarrow> b < 4294967296 \<Longrightarrow> ((word_of_nat a :: u32) \<le> word_of_nat b) = (a \<le> b)"
  by (simp add: word_le_nat_alt unat_of_nat_u32)

lemma unat_u8_lt [simp]: "unat (b :: u8) < 256"
  using unsigned_less [of b] by simp

lemma unat_u16_lt [simp]: "unat (b :: u16) < 65536"
  using unsigned_less [of b] by simp

lemma unat_u32_lt [simp]: "unat (b :: u32) < 4294967296"
  using unsigned_less [of b] by simp

lemma unat_ucast_u8_u32 [simp]: "unat (ucast (b :: u8) :: u32) = unat b"
proof -
  have "unat b < 2 ^ 32" by (rule less_trans [OF unat_u8_lt]) simp
  then show ?thesis by (simp add: unsigned_ucast_eq take_bit_nat_eq_self)
qed

lemma unat_ucast_u16_u32 [simp]: "unat (ucast (b :: u16) :: u32) = unat b"
proof -
  have "unat b < 2 ^ 32" by (rule less_trans [OF unat_u16_lt]) simp
  then show ?thesis by (simp add: unsigned_ucast_eq take_bit_nat_eq_self)
qed

lemma and_mask_u8 [simp]: "(b :: u8) AND 0xFF = b"
proof -
  have "(0xFF :: u8) = - 1" by simp
  then show ?thesis by (simp only: and.right_neutral)
qed

section \<open>Return codes\<close>

text \<open>
  Functions that return \<^verbatim>\<open>int\<close> return 0 or a negated \<^verbatim>\<open>errno\<close> value. A function that also
  fills an output buffer is modelled with a sum: \<open>Inl ret\<close> is a non-zero return code (the
  buffer is not to be used), \<open>Inr v\<close> is return code 0 and the buffer's contents.
\<close>

abbreviation (input) ENOENT :: int where "ENOENT \<equiv> 2"
abbreviation (input) EIO :: int where "EIO \<equiv> 5"
abbreviation (input) EBADF :: int where "EBADF \<equiv> 9"
abbreviation (input) ENOMEM :: int where "ENOMEM \<equiv> 12"
abbreviation (input) EACCES :: int where "EACCES \<equiv> 13"
abbreviation (input) EFAULT :: int where "EFAULT \<equiv> 14"
abbreviation (input) EEXIST :: int where "EEXIST \<equiv> 17"
abbreviation (input) ENODEV :: int where "ENODEV \<equiv> 19"
abbreviation (input) EINVAL :: int where "EINVAL \<equiv> 22"
abbreviation (input) EBADR :: int where "EBADR \<equiv> 53"
abbreviation (input) ENODATA :: int where "ENODATA \<equiv> 61"
abbreviation (input) EALREADY :: int where "EALREADY \<equiv> 120"

section \<open>Sidewalk errors\<close>

text \<open>The values of the enumeration \<^verbatim>\<open>sid_error_t\<close> that the modelled code returns.\<close>

type_synonym sid_error = int

abbreviation (input) SID_ERROR_NONE :: sid_error where "SID_ERROR_NONE \<equiv> 0"
abbreviation (input) SID_ERROR_GENERIC :: sid_error where "SID_ERROR_GENERIC \<equiv> - 1"
abbreviation (input) SID_ERROR_TIMEOUT :: sid_error where "SID_ERROR_TIMEOUT \<equiv> - 2"
abbreviation (input) SID_ERROR_OUT_OF_RESOURCES :: sid_error where "SID_ERROR_OUT_OF_RESOURCES \<equiv> - 3"
abbreviation (input) SID_ERROR_OOM :: sid_error where "SID_ERROR_OOM \<equiv> - 4"
abbreviation (input) SID_ERROR_NOSUPPORT :: sid_error where "SID_ERROR_NOSUPPORT \<equiv> - 6"
abbreviation (input) SID_ERROR_NO_PERMISSION :: sid_error where "SID_ERROR_NO_PERMISSION \<equiv> - 7"
abbreviation (input) SID_ERROR_NOT_FOUND :: sid_error where "SID_ERROR_NOT_FOUND \<equiv> - 8"
abbreviation (input) SID_ERROR_NULL_POINTER :: sid_error where "SID_ERROR_NULL_POINTER \<equiv> - 9"
abbreviation (input) SID_ERROR_PARAM_OUT_OF_RANGE :: sid_error where "SID_ERROR_PARAM_OUT_OF_RANGE \<equiv> - 10"
abbreviation (input) SID_ERROR_INVALID_ARGS :: sid_error where "SID_ERROR_INVALID_ARGS \<equiv> - 11"
abbreviation (input) SID_ERROR_INCOMPATIBLE_PARAMS :: sid_error where "SID_ERROR_INCOMPATIBLE_PARAMS \<equiv> - 12"
abbreviation (input) SID_ERROR_IO_ERROR :: sid_error where "SID_ERROR_IO_ERROR \<equiv> - 13"
abbreviation (input) SID_ERROR_BUSY :: sid_error where "SID_ERROR_BUSY \<equiv> - 15"
abbreviation (input) SID_ERROR_BUFFER_OVERFLOW :: sid_error where "SID_ERROR_BUFFER_OVERFLOW \<equiv> - 18"
abbreviation (input) SID_ERROR_IN_PROGRESS :: sid_error where "SID_ERROR_IN_PROGRESS \<equiv> - 19"
abbreviation (input) SID_ERROR_PORT_NOT_OPEN :: sid_error where "SID_ERROR_PORT_NOT_OPEN \<equiv> - 24"
abbreviation (input) SID_ERROR_UNINITIALIZED :: sid_error where "SID_ERROR_UNINITIALIZED \<equiv> - 25"
abbreviation (input) SID_ERROR_ALREADY_INITIALIZED :: sid_error where "SID_ERROR_ALREADY_INITIALIZED \<equiv> - 26"
abbreviation (input) SID_ERROR_ALREADY_EXISTS :: sid_error where "SID_ERROR_ALREADY_EXISTS \<equiv> - 27"
abbreviation (input) SID_ERROR_STORAGE_READ_FAIL :: sid_error where "SID_ERROR_STORAGE_READ_FAIL \<equiv> - 30"
abbreviation (input) SID_ERROR_STORAGE_WRITE_FAIL :: sid_error where "SID_ERROR_STORAGE_WRITE_FAIL \<equiv> - 31"
abbreviation (input) SID_ERROR_STORAGE_ERASE_FAIL :: sid_error where "SID_ERROR_STORAGE_ERASE_FAIL \<equiv> - 32"
abbreviation (input) SID_ERROR_STORAGE_FULL :: sid_error where "SID_ERROR_STORAGE_FULL \<equiv> - 33"
abbreviation (input) SID_ERROR_INVALID_STATE :: sid_error where "SID_ERROR_INVALID_STATE \<equiv> - 40"

section \<open>Byte memory\<close>

text \<open>
  A byte memory addressed by 32-bit offsets. \<open>mem_read\<close> is \<^verbatim>\<open>memcpy\<close> out of it,
  \<open>mem_write\<close> is \<^verbatim>\<open>memcpy\<close> into it, \<open>mem_fill\<close> is \<^verbatim>\<open>memset\<close>; addresses wrap as
  pointers of the target do.
\<close>

type_synonym mem = "u32 \<Rightarrow> u8"

definition mem_read :: "mem \<Rightarrow> u32 \<Rightarrow> nat \<Rightarrow> u8 list" where
  "mem_read m a n = map (\<lambda>i. m (a + word_of_nat i)) [0..<n]"

fun mem_write :: "mem \<Rightarrow> u32 \<Rightarrow> u8 list \<Rightarrow> mem" where
  "mem_write m a [] = m"
| "mem_write m a (b # bs) = mem_write (m(a := b)) (a + 1) bs"

definition mem_fill :: "mem \<Rightarrow> u32 \<Rightarrow> u8 \<Rightarrow> nat \<Rightarrow> mem" where
  "mem_fill m a b n = mem_write m a (replicate n b)"

lemma length_mem_read [simp, mem_simps]: "length (mem_read m a n) = n"
  by (simp add: mem_read_def)

lemma mem_read_conv:
  "mem_read m (word_of_nat n) k = map (\<lambda>i. m (word_of_nat i)) [n..<n + k]"
  unfolding mem_read_def by (rule nth_equalityI) simp_all

lemma mem_write_at [mem_simps]:
  assumes "n + length bs \<le> 4294967296" and "k < 4294967296"
  shows "mem_write m (word_of_nat n) bs (word_of_nat k) =
    (if n \<le> k \<and> k < n + length bs then bs ! (k - n) else m (word_of_nat k))"
  using assms
proof (induction bs arbitrary: m n)
  case Nil
  then show ?case by auto
next
  case (Cons b bs)
  have step: "mem_write m (word_of_nat n) (b # bs) =
      mem_write (m(word_of_nat n := b)) (word_of_nat (Suc n)) bs"
    by (simp add: add.commute)
  have IH: "mem_write (m(word_of_nat n := b)) (word_of_nat (Suc n)) bs (word_of_nat k) =
      (if Suc n \<le> k \<and> k < Suc n + length bs then bs ! (k - Suc n)
       else (m(word_of_nat n := b)) (word_of_nat k))"
    using Cons.prems by (intro Cons.IH) simp_all
  have "n < 4294967296" using Cons.prems by simp
  with Cons.prems show ?case
    unfolding step IH by (auto simp: of_nat_eq_u32 nth_Cons' Suc_le_eq)
qed

section \<open>Lists\<close>

lemma nth_upt_map [simp]: "i < k \<Longrightarrow> map f [n..<n + k] ! i = f (n + i)"
  by simp

lemma list_all_replicate_iff: "(\<forall>b\<in>set bs. b = x) \<longleftrightarrow> bs = replicate (length bs) x"
  by (metis in_set_replicate replicate_length_same)

section \<open>Little-endian words\<close>

text \<open>The bytes of a 32-bit word as the target stores it, and the word four bytes make.\<close>

definition u32_to_le :: "u32 \<Rightarrow> u8 list" where
  "u32_to_le w = [ucast w, ucast (drop_bit 8 w), ucast (drop_bit 16 w), ucast (drop_bit 24 w)]"

definition u32_of_le :: "u8 list \<Rightarrow> u32" where
  "u32_of_le bs =
     (ucast (bs ! 0) OR push_bit 8 (ucast (bs ! 1)) OR push_bit 16 (ucast (bs ! 2)) OR
      push_bit 24 (ucast (bs ! 3)))"

lemma length_u32_to_le [simp]: "length (u32_to_le w) = 4"
  by (simp add: u32_to_le_def)

lemma u32_of_to_le [simp]: "u32_of_le (u32_to_le w @ bs) = w"
proof (rule bit_word_eqI)
  fix n assume n: "n < LENGTH(32)"
  show "bit (u32_of_le (u32_to_le w @ bs)) n = bit w n"
  proof (cases "n < 16")
    case True
    with n show ?thesis by (auto simp: u32_to_le_def u32_of_le_def bit_simps)
  next
    case False
    then obtain m where m: "n = 16 + m" by (auto simp: not_less dest: le_Suc_ex)
    show ?thesis
    proof (cases "m < 8")
      case True
      with n m show ?thesis by (auto simp: u32_to_le_def u32_of_le_def bit_simps)
    next
      case False
      then obtain k where "m = 8 + k" by (auto simp: not_less dest: le_Suc_ex)
      with n m show ?thesis by (auto simp: u32_to_le_def u32_of_le_def bit_simps)
    qed
  qed
qed

lemma u32_of_to_le_nil [simp]: "u32_of_le (u32_to_le w) = w"
  using u32_of_to_le [of w "[]"] by simp

end
