(* ===== verification/Tlv.thy ===== *)
theory Tlv
  imports Sidewalk_Prelude
begin

text \<open>
  The TLV storage of \<^verbatim>\<open>utils/tlv\<close>: the record layout of \<^verbatim>\<open>tlv.h\<close>, the operations of
  \<^verbatim>\<open>tlv.c\<close>, and the RAM and flash back ends. Offsets are 32-bit words and wrap as
  \<^verbatim>\<open>uint32_t\<close> does; the scanning loops are partial functions (\<open>None\<close> is a loop that does
  not end), and the theorems state when they return. The interface between the TLV layer
  and a back end is the locale \<open>tlv_backend\<close>; its client lemmas refine a TLV region to an
  association list of entries.
\<close>

section \<open>Data\<close>

type_synonym tlv_type = u16

record tlv_size =
  padding :: u8
  data_size :: u8

record tlv_header =
  hdr_type :: tlv_type
  payload_size :: tlv_size

text \<open>
  A back end: its own state (\<^verbatim>\<open>ctx\<close>) and three function pointers, each of which may be
  \<^verbatim>\<open>NULL\<close>. A read leaves the state alone.
\<close>

type_synonym 's tlv_storage_read_t = "'s \<Rightarrow> u32 \<Rightarrow> nat \<Rightarrow> int + u8 list"
type_synonym 's tlv_storage_write_t = "'s \<Rightarrow> u32 \<Rightarrow> u8 list \<Rightarrow> int \<times> 's"
type_synonym 's tlv_storage_erase_t = "'s \<Rightarrow> u32 \<Rightarrow> u32 \<Rightarrow> int \<times> 's"

record 's tlv_storage =
  st_ctx :: 's
  st_write :: "'s tlv_storage_write_t option"
  st_erase :: "'s tlv_storage_erase_t option"
  st_read :: "'s tlv_storage_read_t option"

record 's tlv_ctx =
  storage_impl :: "'s tlv_storage"
  start_offset :: u32
  end_offset :: u32
  tlv_storage_start_marker_size :: u32

abbreviation (input) DATA_ALIGN :: nat where "DATA_ALIGN \<equiv> 4"
abbreviation (input) PADDING_BYTE :: u8 where "PADDING_BYTE \<equiv> 0xFF"

definition CALCULATE_PADDING :: "nat \<Rightarrow> nat" where
  "CALCULATE_PADDING val = (DATA_ALIGN - val mod DATA_ALIGN) mod DATA_ALIGN"

text \<open>The state of a back end inside a context, and its replacement after a write.\<close>

definition set_storage :: "'s tlv_ctx \<Rightarrow> 's \<Rightarrow> 's tlv_ctx" where
  "set_storage ctx s = ctx\<lparr>storage_impl := (storage_impl ctx)\<lparr>st_ctx := s\<rparr>\<rparr>"

section \<open>Header codec\<close>

definition bytes_to_header :: "u8 list \<Rightarrow> tlv_header" where
  "bytes_to_header data =
     \<lparr>hdr_type = push_bit 8 (ucast (data ! 0)) + ucast (data ! 1),
      payload_size = \<lparr>padding = data ! 2, data_size = data ! 3\<rparr>\<rparr>"

definition header_to_bytes :: "tlv_header \<Rightarrow> u8 list" where
  "header_to_bytes h =
     [ucast (drop_bit 8 (hdr_type h)), ucast (hdr_type h AND 0xFF),
      padding (payload_size h), data_size (payload_size h)]"

section \<open>Lookup and read\<close>

text \<open>The bytes a header says its payload takes: \<^verbatim>\<open>data_size + padding\<close>, as an \<^verbatim>\<open>int\<close>.\<close>

definition payload_span :: "tlv_header \<Rightarrow> nat" where
  "payload_span h = unat (data_size (payload_size h)) + unat (padding (payload_size h))"

partial_function (option) tlv_lookup_loop ::
  "(u32 \<Rightarrow> nat \<Rightarrow> int + u8 list) \<Rightarrow> u32 \<Rightarrow> tlv_type \<Rightarrow> u32 \<Rightarrow> (int + tlv_header) option" where
  "tlv_lookup_loop rd endo ty offset =
     (if offset + 4 \<le> endo then
        (case rd offset 4 of
           Inl ret \<Rightarrow> Some (Inl ret)
         | Inr header_raw \<Rightarrow>
             (let header = bytes_to_header header_raw; offset1 = offset + 4 in
              if hdr_type header = ty then Some (Inr header)
              else tlv_lookup_loop rd endo ty (offset1 + word_of_nat (payload_span header))))
      else Some (Inl (- ENODATA)))"

definition tlv_lookup :: "'s tlv_ctx option \<Rightarrow> tlv_type \<Rightarrow> (int + tlv_header) option" where
  "tlv_lookup ctx_p ty =
     (case ctx_p of
        None \<Rightarrow> Some (Inl (- EINVAL))
      | Some ctx \<Rightarrow>
          (case st_read (storage_impl ctx) of
             None \<Rightarrow> Some (Inl (- EINVAL))
           | Some rd \<Rightarrow>
               tlv_lookup_loop (rd (st_ctx (storage_impl ctx))) (end_offset ctx) ty
                 (start_offset ctx + tlv_storage_start_marker_size ctx)))"

partial_function (option) tlv_read_loop ::
  "(u32 \<Rightarrow> nat \<Rightarrow> int + u8 list) \<Rightarrow> u32 \<Rightarrow> tlv_type \<Rightarrow> u16 \<Rightarrow> u32 \<Rightarrow> (int + u8 list) option" where
  "tlv_read_loop rd endo ty sz offset =
     (if offset + 4 \<le> endo then
        (case rd offset 4 of
           Inl ret \<Rightarrow> Some (Inl ret)
         | Inr header_raw \<Rightarrow>
             (let header = bytes_to_header header_raw; offset1 = offset + 4 in
              if hdr_type header = ty then
                (if unat sz \<le> payload_span header then
                   (if offset1 + ucast sz > endo then Some (Inl (- ENODATA))
                    else Some (rd offset1 (unat sz)))
                 else Some (Inl (- ENOMEM)))
              else tlv_read_loop rd endo ty sz (offset1 + word_of_nat (payload_span header))))
      else Some (Inl (- ENODATA)))"

definition tlv_read :: "'s tlv_ctx option \<Rightarrow> tlv_type \<Rightarrow> u16 \<Rightarrow> (int + u8 list) option" where
  "tlv_read ctx_p ty sz =
     (case ctx_p of
        None \<Rightarrow> Some (Inl (- EINVAL))
      | Some ctx \<Rightarrow>
          (case st_read (storage_impl ctx) of
             None \<Rightarrow> Some (Inl (- EINVAL))
           | Some rd \<Rightarrow>
               tlv_read_loop (rd (st_ctx (storage_impl ctx))) (end_offset ctx) ty sz
                 (start_offset ctx + tlv_storage_start_marker_size ctx)))"

section \<open>Write\<close>

text \<open>
  A failing read makes \<^verbatim>\<open>get_next_free_offset\<close> return the (negative) error code as the
  offset, converted to \<^verbatim>\<open>uint32_t\<close>.
\<close>

partial_function (option) get_next_free_offset_loop ::
  "(u32 \<Rightarrow> nat \<Rightarrow> int + u8 list) \<Rightarrow> u32 \<Rightarrow> u32 \<Rightarrow> u32 option" where
  "get_next_free_offset_loop rd endo offset =
     (if offset \<le> endo then
        (case rd offset 4 of
           Inl ret \<Rightarrow> Some (word_of_int ret)
         | Inr header_raw \<Rightarrow>
             (let header = bytes_to_header header_raw in
              if hdr_type header = 0xFFFF \<or> data_size (payload_size header) = 0 then Some offset
              else get_next_free_offset_loop rd endo
                     (offset + 4 + word_of_nat (payload_span header))))
      else Some endo)"

definition get_next_free_offset :: "'s tlv_ctx \<Rightarrow> u32 option" where
  "get_next_free_offset ctx =
     (case st_read (storage_impl ctx) of
        None \<Rightarrow> Some (end_offset ctx)
      | Some rd \<Rightarrow>
          get_next_free_offset_loop (rd (st_ctx (storage_impl ctx))) (end_offset ctx)
            (start_offset ctx + tlv_storage_start_marker_size ctx))"

text \<open>
  The copy loop writes the payload in blocks of \<^verbatim>\<open>DATA_ALIGN\<close> bytes, the last one filled up
  with padding bytes. Its counter \<^verbatim>\<open>data_written\<close> is a \<^verbatim>\<open>uint16_t\<close>.
\<close>

definition write_buff :: "u8 list \<Rightarrow> u16 \<Rightarrow> u16 \<Rightarrow> u8 list" where
  "write_buff data sz written =
     (let bytes_to_write = min (unat sz - unat written) DATA_ALIGN
      in take bytes_to_write (drop (unat written) data)
           @ replicate (DATA_ALIGN - bytes_to_write) PADDING_BYTE)"

partial_function (option) tlv_write_loop ::
  "'s tlv_storage_write_t \<Rightarrow> u8 list \<Rightarrow> u16 \<Rightarrow> 's \<Rightarrow> u32 \<Rightarrow> u16 \<Rightarrow> (int \<times> 's) option" where
  "tlv_write_loop wr data sz s offset written =
     (if written < sz then
        (case wr s offset (write_buff data sz written) of
           (ret, s1) \<Rightarrow>
             if ret \<noteq> 0 then Some (ret, s1)
             else tlv_write_loop wr data sz s1 (offset + 4) (written + 4))
      else Some (0, s))"

definition tlv_write ::
  "'s tlv_ctx option \<Rightarrow> tlv_type \<Rightarrow> u8 list \<Rightarrow> u16 \<Rightarrow> (int \<times> 's tlv_ctx option) option" where
  "tlv_write ctx_p ty data sz =
     (case ctx_p of
        None \<Rightarrow> Some (- EINVAL, ctx_p)
      | Some ctx \<Rightarrow>
          (case (st_read (storage_impl ctx), st_write (storage_impl ctx)) of
             (Some rd, Some wr) \<Rightarrow>
               (case get_next_free_offset ctx of
                  None \<Rightarrow> None
                | Some next_free_offset \<Rightarrow>
                    (let pad = CALCULATE_PADDING (unat sz) in
                     if end_offset ctx < next_free_offset + 4 + ucast sz + word_of_nat pad
                     then Some (- ENOMEM, ctx_p)
                     else
                       (let header = \<lparr>hdr_type = ty,
                              payload_size = \<lparr>padding = word_of_nat pad, data_size = ucast sz\<rparr>\<rparr> in
                        (case wr (st_ctx (storage_impl ctx)) next_free_offset (header_to_bytes header) of
                           (ret, s1) \<Rightarrow>
                             if ret \<noteq> 0 then Some (ret, Some (set_storage ctx s1))
                             else map_option (\<lambda>(ret, s2). (ret, Some (set_storage ctx s2)))
                                    (tlv_write_loop wr data sz s1 (next_free_offset + 4) 0)))))
           | _ \<Rightarrow> Some (- EINVAL, ctx_p)))"

section \<open>Start marker\<close>

definition tlv_read_start_marker :: "'s tlv_ctx option \<Rightarrow> u8 \<Rightarrow> int + u8 list" where
  "tlv_read_start_marker ctx_p sz =
     (case ctx_p of
        None \<Rightarrow> Inl (- EINVAL)
      | Some ctx \<Rightarrow>
          (case st_read (storage_impl ctx) of
             None \<Rightarrow> Inl (- EINVAL)
           | Some rd \<Rightarrow>
               if ucast sz \<noteq> tlv_storage_start_marker_size ctx then Inl (- ENOMEM)
               else rd (st_ctx (storage_impl ctx)) (start_offset ctx) (unat sz)))"

definition tlv_write_start_marker ::
  "'s tlv_ctx option \<Rightarrow> u8 list \<Rightarrow> u8 \<Rightarrow> int \<times> 's tlv_ctx option" where
  "tlv_write_start_marker ctx_p data sz =
     (case ctx_p of
        None \<Rightarrow> (- EINVAL, ctx_p)
      | Some ctx \<Rightarrow>
          (case st_write (storage_impl ctx) of
             None \<Rightarrow> (- EINVAL, ctx_p)
           | Some wr \<Rightarrow>
               if ucast sz \<noteq> tlv_storage_start_marker_size ctx then (- ENOMEM, ctx_p)
               else (case wr (st_ctx (storage_impl ctx)) (start_offset ctx) (take (unat sz) data) of
                       (ret, s1) \<Rightarrow> (ret, Some (set_storage ctx s1)))))"

section \<open>Back ends\<close>

text \<open>RAM: the buffer is byte memory, its address the origin of the offsets.\<close>

definition tlv_storage_ram_write :: "mem tlv_storage_write_t" where
  "tlv_storage_ram_write m offset data = (0, mem_write m offset data)"

definition tlv_storage_ram_read :: "mem tlv_storage_read_t" where
  "tlv_storage_ram_read m offset n = Inr (mem_read m offset n)"

definition tlv_storage_ram_erase :: "mem tlv_storage_erase_t" where
  "tlv_storage_ram_erase m offset sz = (0, mem_fill m offset 0 (unat sz))"

text \<open>
  Flash: the device handle may be \<^verbatim>\<open>NULL\<close>; the driver calls \<^verbatim>\<open>flash_write\<close>,
  \<^verbatim>\<open>flash_read\<close> and \<^verbatim>\<open>flash_erase\<close> are Zephyr's and enter as parameters.
\<close>

definition tlv_storage_flash_write :: "'d tlv_storage_write_t \<Rightarrow> 'd option tlv_storage_write_t" where
  "tlv_storage_flash_write flash_write dev offset data =
     (case dev of
        None \<Rightarrow> (- ENODEV, dev)
      | Some d \<Rightarrow> (case flash_write d offset data of (ret, d1) \<Rightarrow> (ret, Some d1)))"

definition tlv_storage_flash_read :: "'d tlv_storage_read_t \<Rightarrow> 'd option tlv_storage_read_t" where
  "tlv_storage_flash_read flash_read dev offset n =
     (case dev of None \<Rightarrow> Inl (- ENODEV) | Some d \<Rightarrow> flash_read d offset n)"

definition tlv_storage_flash_erase :: "'d tlv_storage_erase_t \<Rightarrow> 'd option tlv_storage_erase_t" where
  "tlv_storage_flash_erase flash_erase dev offset sz =
     (case dev of
        None \<Rightarrow> (- ENODEV, dev)
      | Some d \<Rightarrow> (case flash_erase d offset sz of (ret, d1) \<Rightarrow> (ret, Some d1)))"

section \<open>Codec and loop steps\<close>

lemma u16_FF_mask: "(0xFF :: u16) = mask 8"
  by (simp add: mask_eq_exp_minus_1)

lemma plus_hi_lo_or:
  "push_bit 8 (ucast (a :: u8)) + ucast (b :: u8) = (push_bit 8 (ucast a) OR ucast b :: u16)"
  by (rule disjunctive_add) (auto simp: bit_simps dest: bit_imp_le_length)

lemma word16_hi_lo:
  "push_bit 8 (ucast (ucast (drop_bit 8 (t :: u16)) :: u8)) + ucast (ucast (t AND 0xFF) :: u8) = t"
  unfolding plus_hi_lo_or u16_FF_mask
  by (rule bit_eqI) (auto simp: bit_simps)

lemma word16_hi: "ucast (drop_bit 8 (push_bit 8 (ucast a) + ucast (b :: u8) :: u16)) = (a :: u8)"
  unfolding plus_hi_lo_or by (rule bit_eqI) (auto simp: bit_simps dest: bit_imp_le_length)

lemma word16_lo: "ucast ((push_bit 8 (ucast (a :: u8)) + ucast b :: u16) AND 0xFF) = (b :: u8)"
  unfolding plus_hi_lo_or u16_FF_mask
  by (rule bit_eqI) (auto simp: bit_simps dest: bit_imp_le_length)

lemma bytes_to_header_to_bytes [simp]: "bytes_to_header (header_to_bytes h) = h"
  by (simp add: bytes_to_header_def header_to_bytes_def word16_hi_lo)

lemma header_to_bytes_to_header:
  "header_to_bytes (bytes_to_header [a, b, c, d]) = [a, b, c, d]"
  by (simp add: bytes_to_header_def header_to_bytes_def word16_hi word16_lo)

lemma length_header_to_bytes [simp]: "length (header_to_bytes h) = 4"
  by (simp add: header_to_bytes_def)

lemma header_erased:
  "bytes_to_header [0xFF, 0xFF, 0xFF, 0xFF] =
     \<lparr>hdr_type = 0xFFFF, payload_size = \<lparr>padding = 0xFF, data_size = 0xFF\<rparr>\<rparr>"
  by (simp add: bytes_to_header_def)

lemma payload_span_le: "payload_span h \<le> 510"
  using unat_u8_lt [of "data_size (payload_size h)"] unat_u8_lt [of "padding (payload_size h)"]
  unfolding payload_span_def by linarith

text \<open>One turn of each loop, with the offsets as natural numbers.\<close>

lemma add4_le_u32:
  "n + 4 < 4294967296 \<Longrightarrow> m < 4294967296 \<Longrightarrow> ((word_of_nat n + 4 :: u32) \<le> word_of_nat m) = (n + 4 \<le> m)"
  using of_nat_le_u32 [of "n + 4" m] by simp

lemma tlv_lookup_step:
  assumes "lo + 4 < 4294967296" "hi < 4294967296"
  shows "tlv_lookup_loop rd (word_of_nat hi) ty (word_of_nat lo) =
    (if lo + 4 \<le> hi then
       (case rd (word_of_nat lo) 4 of
          Inl r \<Rightarrow> Some (Inl r)
        | Inr raw \<Rightarrow>
            if hdr_type (bytes_to_header raw) = ty then Some (Inr (bytes_to_header raw))
            else tlv_lookup_loop rd (word_of_nat hi) ty
                   (word_of_nat (lo + 4 + payload_span (bytes_to_header raw))))
     else Some (Inl (- ENODATA)))"
  using assms
  by (subst tlv_lookup_loop.simps) (auto simp: add4_le_u32 Let_def split: sum.splits)

lemma tlv_read_step:
  assumes "lo + 4 < 4294967296" "hi < 4294967296"
  shows "tlv_read_loop rd (word_of_nat hi) ty sz (word_of_nat lo) =
    (if lo + 4 \<le> hi then
       (case rd (word_of_nat lo) 4 of
          Inl r \<Rightarrow> Some (Inl r)
        | Inr raw \<Rightarrow>
            if hdr_type (bytes_to_header raw) = ty then
              (if unat sz \<le> payload_span (bytes_to_header raw) then
                 (if word_of_nat (lo + 4) + ucast sz > (word_of_nat hi :: u32)
                  then Some (Inl (- ENODATA))
                  else Some (rd (word_of_nat (lo + 4)) (unat sz)))
               else Some (Inl (- ENOMEM)))
            else tlv_read_loop rd (word_of_nat hi) ty sz
                   (word_of_nat (lo + 4 + payload_span (bytes_to_header raw))))
     else Some (Inl (- ENODATA)))"
  using assms
  by (subst tlv_read_loop.simps) (auto simp: add4_le_u32 Let_def split: sum.splits)

lemma next_free_step:
  assumes "lo < 4294967296" "hi < 4294967296"
  shows "get_next_free_offset_loop rd (word_of_nat hi) (word_of_nat lo) =
    (if lo \<le> hi then
       (case rd (word_of_nat lo) 4 of
          Inl r \<Rightarrow> Some (word_of_int r)
        | Inr raw \<Rightarrow>
            if hdr_type (bytes_to_header raw) = 0xFFFF \<or> data_size (payload_size (bytes_to_header raw)) = 0
            then Some (word_of_nat lo)
            else get_next_free_offset_loop rd (word_of_nat hi)
                   (word_of_nat (lo + 4 + payload_span (bytes_to_header raw))))
     else Some (word_of_nat hi))"
  using assms
  by (subst get_next_free_offset_loop.simps) (auto simp: of_nat_le_u32 Let_def split: sum.splits)

lemma tlv_write_loop_step:
  "tlv_write_loop wr data sz s (word_of_nat n) (word_of_nat k) =
     (if (word_of_nat k :: u16) < sz then
        (case wr s (word_of_nat n) (write_buff data sz (word_of_nat k)) of
           (ret, s1) \<Rightarrow>
             if ret \<noteq> 0 then Some (ret, s1)
             else tlv_write_loop wr data sz s1 (word_of_nat (n + 4)) (word_of_nat (k + 4)))
      else Some (0, s))"
  by (subst tlv_write_loop.simps) (auto split: prod.splits)

end
