(* ===== verification/Tlv_Refine.thy ===== *)
theory Tlv_Refine
  imports Tlv
begin

text \<open>
  What the TLV layer promises: a region of storage holds a list of entries, and
  \<^verbatim>\<open>tlv_lookup\<close>, \<^verbatim>\<open>tlv_read\<close> and \<^verbatim>\<open>tlv_write\<close> act on it as lookup and append act on
  an association list. The contract of a back end is the locale \<open>tlv_backend\<close>; RAM storage
  is interpreted here.
\<close>

section \<open>The abstract region\<close>

type_synonym entry = "tlv_type \<times> u8 list"

definition entry_header :: "entry \<Rightarrow> tlv_header" where
  "entry_header e =
     \<lparr>hdr_type = fst e,
      payload_size = \<lparr>padding = word_of_nat (CALCULATE_PADDING (length (snd e))),
                      data_size = word_of_nat (length (snd e))\<rparr>\<rparr>"

definition payload_bytes :: "u8 list \<Rightarrow> u8 list" where
  "payload_bytes d = d @ replicate (CALCULATE_PADDING (length d)) PADDING_BYTE"

definition entry_bytes :: "entry \<Rightarrow> u8 list" where
  "entry_bytes e = header_to_bytes (entry_header e) @ payload_bytes (snd e)"

definition entry_len :: "entry \<Rightarrow> nat" where
  "entry_len e = 4 + length (snd e) + CALCULATE_PADDING (length (snd e))"

text \<open>
  An entry the layer can represent: its type is not the erased pattern and its payload has
  between 1 and 255 bytes.
\<close>

definition entry_ok :: "entry \<Rightarrow> bool" where
  "entry_ok e \<longleftrightarrow> fst e \<noteq> 0xFFFF \<and> 0 < length (snd e) \<and> length (snd e) < 256"

text \<open>The bytes from \<open>lo\<close> to \<open>hi\<close> are the entries, one after the other, then erased space.\<close>

fun tlv_region :: "(nat \<Rightarrow> u8) \<Rightarrow> nat \<Rightarrow> nat \<Rightarrow> entry list \<Rightarrow> bool" where
  "tlv_region c lo hi [] \<longleftrightarrow> lo \<le> hi \<and> (\<forall>i. lo \<le> i \<and> i < hi \<longrightarrow> c i = 0xFF)"
| "tlv_region c lo hi (e # es) \<longleftrightarrow>
     entry_ok e \<and> map c [lo..<lo + entry_len e] = entry_bytes e \<and>
     tlv_region c (lo + entry_len e) hi es"

definition tlv_used :: "entry list \<Rightarrow> nat" where
  "tlv_used es = sum_list (map entry_len es)"

lemma tlv_used_simps [simp]:
  "tlv_used [] = 0" "tlv_used (e # es) = entry_len e + tlv_used es"
  by (simp_all add: tlv_used_def)

lemma padding_mod4: "(n + CALCULATE_PADDING n) mod 4 = 0"
proof -
  have "n mod 4 = 0 \<or> n mod 4 = 1 \<or> n mod 4 = 2 \<or> n mod 4 = 3" by arith
  then show ?thesis
    by (subst mod_add_left_eq [symmetric]) (auto simp: CALCULATE_PADDING_def)
qed

lemma padding_lt4 [simp]: "CALCULATE_PADDING n < 4"
  by (simp add: CALCULATE_PADDING_def)

lemma entry_len_dvd4: "4 dvd entry_len e"
  using padding_mod4 [of "length (snd e)"] by (simp add: entry_len_def add.assoc mod_eq_0_iff_dvd)

lemma tlv_used_dvd4: "4 dvd tlv_used es"
  by (induction es) (auto simp: entry_len_dvd4)

lemma entry_len_ge4: "4 \<le> entry_len e"
  by (simp add: entry_len_def)

lemma length_payload_bytes [simp]: "length (payload_bytes d) = length d + CALCULATE_PADDING (length d)"
  by (simp add: payload_bytes_def)

lemma length_entry_bytes [simp]: "length (entry_bytes e) = entry_len e"
  by (simp add: entry_bytes_def entry_len_def)

lemma padding_u8: "unat (word_of_nat (CALCULATE_PADDING n) :: u8) = CALCULATE_PADDING n"
  by (rule unat_of_nat_u8) (rule less_trans [OF padding_lt4], simp)

lemma span_entry_header: "length (snd e) < 256 \<Longrightarrow> payload_span (entry_header e) + 4 = entry_len e"
  by (simp add: payload_span_def entry_header_def entry_len_def unat_of_nat_u8 padding_u8)

lemma hdr_type_entry_header [simp]: "hdr_type (entry_header e) = fst e"
  by (simp add: entry_header_def)

lemma data_size_entry_header:
  "entry_ok e \<Longrightarrow> data_size (payload_size (entry_header e)) \<noteq> 0"
  by (auto simp: entry_header_def entry_ok_def word_unat_eq_iff unat_of_nat_u8)

lemma tlv_region_bounds: "tlv_region c lo hi es \<Longrightarrow> lo + tlv_used es \<le> hi"
  by (induction es arbitrary: lo) fastforce+

lemma tlv_region_cong:
  "(\<And>i. lo \<le> i \<Longrightarrow> i < hi \<Longrightarrow> c i = c' i) \<Longrightarrow> tlv_region c lo hi es \<Longrightarrow> tlv_region c' lo hi es"
proof (induction es arbitrary: lo)
  case (Cons e es)
  have "lo + entry_len e \<le> hi"
    using tlv_region_bounds [OF Cons.prems(2)] by simp
  with Cons.prems(1) have "map c [lo..<lo + entry_len e] = map c' [lo..<lo + entry_len e]"
    by simp
  moreover have "tlv_region c' (lo + entry_len e) hi es"
    using Cons.prems by (intro Cons.IH) auto
  ultimately show ?case using Cons.prems(2) by (simp del: map_eq_conv)
qed simp

text \<open>Appending an entry: the region keeps its entries and the new one follows them.\<close>

lemma tlv_region_append:
  assumes "tlv_region c lo hi es" "entry_ok e" "lo + tlv_used es + entry_len e \<le> hi"
    and "map c' [lo + tlv_used es..<lo + tlv_used es + entry_len e] = entry_bytes e"
    and "\<And>i. lo \<le> i \<Longrightarrow> i < hi \<Longrightarrow>
           \<not> (lo + tlv_used es \<le> i \<and> i < lo + tlv_used es + entry_len e) \<Longrightarrow> c' i = c i"
  shows "tlv_region c' lo hi (es @ [e])"
  using assms
proof (induction es arbitrary: lo)
  case Nil
  then show ?case by simp
next
  case (Cons a es)
  have "map c' [lo..<lo + entry_len a] = map c [lo..<lo + entry_len a]"
    using Cons.prems(3) by (intro map_cong refl Cons.prems(5)) auto
  moreover have "tlv_region c' (lo + entry_len a) hi (es @ [e])"
    using Cons.prems by (intro Cons.IH) (simp_all add: add.assoc)
  ultimately show ?case using Cons.prems(1) by (simp del: map_eq_conv)
qed

text \<open>The erased space behind the entries.\<close>

lemma tlv_region_free:
  "tlv_region c lo hi es \<Longrightarrow> lo + tlv_used es \<le> i \<Longrightarrow> i < hi \<Longrightarrow> c i = 0xFF"
  by (induction es arbitrary: lo) (auto simp: add.assoc)

lemma tlv_region_trim: "tlv_region c lo hi es \<Longrightarrow> tlv_region c lo (lo + tlv_used es) es"
proof (induction es arbitrary: lo)
  case (Cons e es)
  then show ?case using Cons.IH [of "lo + entry_len e"] by (simp add: add.assoc del: map_eq_conv)
qed simp

text \<open>The copy loop's blocks are the payload with its padding, four bytes at a time.\<close>

lemma payload_len_dvd4: "4 dvd length (payload_bytes d)"
  using padding_mod4 [of "length d"] by (simp add: mod_eq_0_iff_dvd)

lemma payload_next_block:
  assumes "4 dvd k" "k < length d"
  shows "k + 4 \<le> length (payload_bytes d)"
proof -
  obtain p where "length (payload_bytes d) = 4 * p" using payload_len_dvd4 [of d] by (rule dvdE)
  moreover obtain q where "k = 4 * q" using assms(1) by (rule dvdE)
  moreover have "k < length (payload_bytes d)" using assms(2) by simp
  ultimately show ?thesis by simp
qed

lemma payload_last_block:
  assumes "4 dvd k" "\<not> k < length d" "k \<le> length (payload_bytes d)"
  shows "k = length (payload_bytes d)"
proof -
  obtain p where "length (payload_bytes d) = 4 * p" using payload_len_dvd4 [of d] by (rule dvdE)
  moreover obtain q where "k = 4 * q" using assms(1) by (rule dvdE)
  moreover have "length (payload_bytes d) < k + 4"
    using assms(2) padding_lt4 [of "length d"] unfolding length_payload_bytes by linarith
  ultimately show ?thesis using assms(3) by simp
qed

lemma write_buff_block:
  assumes "unat sz = length d" "unat k = kn" "4 dvd kn" "kn < length d"
  shows "write_buff d sz k = take 4 (drop kn (payload_bytes d))"
proof (cases "length d - kn \<ge> 4")
  case True
  with assms show ?thesis by (simp add: write_buff_def payload_bytes_def)
next
  case False
  have "4 dvd length (payload_bytes d) - kn"
    using assms(3) payload_len_dvd4 by (rule dvd_diff_nat [OF _ _, rotated])
  moreover have "0 < length (payload_bytes d) - kn" "length (payload_bytes d) - kn < 8"
    using assms(4) False padding_lt4 [of "length d"] by (simp_all, linarith)
  ultimately have "length (payload_bytes d) - kn = 4" by (auto elim!: dvdE)
  then have "CALCULATE_PADDING (length d) = 4 - (length d - kn)"
    using assms(4) by simp
  with assms False show ?thesis
    by (simp add: write_buff_def payload_bytes_def)
qed

text \<open>Offsets stay this far below the top of the 32-bit space, so that no sum of the layer wraps.\<close>

abbreviation (input) tlv_limit :: nat where "tlv_limit \<equiv> 4294960000"

section \<open>Contexts\<close>

text \<open>
  A context on a back end: both function pointers are set, the first entry's offset is
  word-aligned and inside the region, and the region lies inside the storage and ends below
  the top of the 32-bit offset space.
\<close>

definition ctx_lo :: "'s tlv_ctx \<Rightarrow> nat" where
  "ctx_lo ctx = unat (start_offset ctx) + unat (tlv_storage_start_marker_size ctx)"

definition ctx_hi :: "'s tlv_ctx \<Rightarrow> nat" where
  "ctx_hi ctx = unat (end_offset ctx)"

definition tlv_holds ::
  "'s tlv_storage_read_t \<Rightarrow> 's tlv_storage_write_t \<Rightarrow> ('s \<Rightarrow> nat \<Rightarrow> u8) \<Rightarrow> ('s \<Rightarrow> nat) \<Rightarrow>
   's tlv_ctx \<Rightarrow> entry list \<Rightarrow> bool" where
  "tlv_holds rd wr content capacity ctx es \<longleftrightarrow>
     st_read (storage_impl ctx) = Some rd \<and> st_write (storage_impl ctx) = Some wr \<and>
     4 dvd ctx_lo ctx \<and> ctx_hi ctx \<le> capacity (st_ctx (storage_impl ctx)) \<and>
     ctx_hi ctx + 70000 \<le> tlv_limit \<and>
     tlv_region (content (st_ctx (storage_impl ctx))) (ctx_lo ctx) (ctx_hi ctx) es"

lemma ctx_words:
  "start_offset ctx + tlv_storage_start_marker_size ctx = word_of_nat (ctx_lo ctx)"
  "end_offset ctx = word_of_nat (ctx_hi ctx)"
  by (simp_all add: ctx_lo_def ctx_hi_def)

lemma set_storage_simps [simp]:
  "st_ctx (storage_impl (set_storage ctx s)) = s"
  "st_read (storage_impl (set_storage ctx s)) = st_read (storage_impl ctx)"
  "st_write (storage_impl (set_storage ctx s)) = st_write (storage_impl ctx)"
  "st_erase (storage_impl (set_storage ctx s)) = st_erase (storage_impl ctx)"
  "start_offset (set_storage ctx s) = start_offset ctx"
  "end_offset (set_storage ctx s) = end_offset ctx"
  "tlv_storage_start_marker_size (set_storage ctx s) = tlv_storage_start_marker_size ctx"
  by (simp_all add: set_storage_def)

lemma ctx_set_storage [simp]:
  "ctx_lo (set_storage ctx s) = ctx_lo ctx" "ctx_hi (set_storage ctx s) = ctx_hi ctx"
  by (simp_all add: ctx_lo_def ctx_hi_def)

section \<open>The back-end contract\<close>

text \<open>
  \<open>content s i\<close> is the byte stored at offset \<open>i\<close>. A read inside the capacity succeeds and
  returns the stored bytes. A write succeeds when it is word-aligned, a multiple of the word
  size long, inside the capacity and aimed at erased bytes; it changes exactly those bytes.
\<close>

locale tlv_backend =
  fixes rd :: "'s tlv_storage_read_t"
    and wr :: "'s tlv_storage_write_t"
    and content :: "'s \<Rightarrow> nat \<Rightarrow> u8"
    and capacity :: "'s \<Rightarrow> nat"
  assumes rd_ok: "0 < capacity s \<Longrightarrow> n + k \<le> capacity s \<Longrightarrow> n + k \<le> tlv_limit \<Longrightarrow>
      rd s (word_of_nat n) k = Inr (map (content s) [n..<n + k])"
    and wr_ok: "0 < capacity s \<Longrightarrow> n + length bs \<le> capacity s \<Longrightarrow> n + length bs \<le> tlv_limit \<Longrightarrow>
      4 dvd n \<Longrightarrow> 4 dvd length bs \<Longrightarrow>
      (\<And>i. n \<le> i \<Longrightarrow> i < n + length bs \<Longrightarrow> content s i = 0xFF) \<Longrightarrow>
      \<exists>s'. wr s (word_of_nat n) bs = (0, s') \<and> capacity s' = capacity s \<and>
        (\<forall>i < capacity s. i < tlv_limit \<longrightarrow>
           content s' i = (if n \<le> i \<and> i < n + length bs then bs ! (i - n) else content s i))"
begin

abbreviation holds :: "'s tlv_ctx \<Rightarrow> entry list \<Rightarrow> bool" where
  "holds \<equiv> tlv_holds rd wr content capacity"

lemma rd_entry_header:
  assumes "map (content s) [lo..<lo + entry_len e] = entry_bytes e"
    and "lo + entry_len e \<le> capacity s" "lo + entry_len e \<le> tlv_limit"
  shows "rd s (word_of_nat lo) 4 = Inr (header_to_bytes (entry_header e))"
proof -
  have "map (content s) [lo..<lo + 4] = take 4 (map (content s) [lo..<lo + entry_len e])"
    using entry_len_ge4 [of e] by (simp add: take_map)
  also have "\<dots> = header_to_bytes (entry_header e)"
    unfolding assms(1) by (simp add: entry_bytes_def)
  finally show ?thesis
    using assms(2,3) entry_len_ge4 [of e] by (simp add: rd_ok)
qed

lemma rd_entry_payload:
  assumes "map (content s) [lo..<lo + entry_len e] = entry_bytes e"
    and "lo + entry_len e \<le> capacity s" "lo + entry_len e \<le> tlv_limit"
    and "k + 4 \<le> entry_len e"
  shows "rd s (word_of_nat (lo + 4)) k = Inr (take k (payload_bytes (snd e)))"
proof -
  have "map (content s) [lo + 4..<lo + 4 + k] =
      take k (drop 4 (map (content s) [lo..<lo + entry_len e]))"
    using assms(4) by (simp add: take_map drop_map)
  also have "\<dots> = take k (payload_bytes (snd e))"
    unfolding assms(1) by (simp add: entry_bytes_def)
  finally show ?thesis
    using assms(2-4) rd_ok [of s "lo + 4" k] by (simp del: of_nat_add)
qed

lemma rd_erased:
  assumes "\<And>i. lo \<le> i \<Longrightarrow> i < lo + 4 \<Longrightarrow> content s i = 0xFF"
    and "lo + 4 \<le> capacity s" "lo + 4 \<le> tlv_limit"
  shows "rd s (word_of_nat lo) 4 = Inr [0xFF, 0xFF, 0xFF, 0xFF]"
proof -
  have "[lo..<lo + 4] = [lo, lo + 1, lo + 2, lo + 3]"
    by (simp add: upt_conv_Cons)
  with assms show ?thesis by (simp add: rd_ok)
qed

subsection \<open>Lookup and read\<close>

lemma lookup_erased:
  assumes "\<And>i. lo \<le> i \<Longrightarrow> i < hi \<Longrightarrow> content s i = 0xFF"
    and "hi \<le> capacity s" "hi + 600 \<le> tlv_limit" "lo \<le> hi + 514" "ty \<noteq> 0xFFFF"
  shows "tlv_lookup_loop (rd s) (word_of_nat hi) ty (word_of_nat lo) = Some (Inl (- ENODATA))"
  using assms(1,4)
proof (induction "hi - lo" arbitrary: lo rule: less_induct)
  case less
  show ?case
  proof (cases "lo + 4 \<le> hi")
    case True
    have "rd s (word_of_nat lo) 4 = Inr [0xFF, 0xFF, 0xFF, 0xFF]"
      using True assms(2,3) less.prems(1) by (intro rd_erased) auto
    moreover have "tlv_lookup_loop (rd s) (word_of_nat hi) ty (word_of_nat (514 + lo)) =
        Some (Inl (- ENODATA))"
      using True less.prems by (intro less.hyps) auto
    ultimately show ?thesis
      using True assms(3,5)
      by (subst tlv_lookup_step) (simp_all add: header_erased payload_span_def del: of_nat_add)
  next
    case False
    with assms(3) less.prems(2) show ?thesis
      by (subst tlv_lookup_step) auto
  qed
qed

lemma lookup_region:
  assumes "tlv_region (content s) lo hi es"
    and "hi \<le> capacity s" "hi + 600 \<le> tlv_limit" "ty \<noteq> 0xFFFF"
  shows "tlv_lookup_loop (rd s) (word_of_nat hi) ty (word_of_nat lo) =
    Some (case map_of es ty of None \<Rightarrow> Inl (- ENODATA) | Some d \<Rightarrow> Inr (entry_header (ty, d)))"
  using assms(1)
proof (induction es arbitrary: lo)
  case Nil
  with assms(2-4) show ?case by (simp add: lookup_erased)
next
  case (Cons e es)
  have le: "lo + entry_len e \<le> hi"
    using tlv_region_bounds [OF Cons.prems] by simp
  have hdr: "rd s (word_of_nat lo) 4 = Inr (header_to_bytes (entry_header e))"
    using Cons.prems le assms(2,3) by (intro rd_entry_header) auto
  have span: "lo + 4 + payload_span (entry_header e) = lo + entry_len e"
    using span_entry_header [of e] Cons.prems by (simp add: entry_ok_def)
  have IH: "tlv_lookup_loop (rd s) (word_of_nat hi) ty (word_of_nat (lo + entry_len e)) =
      Some (case map_of es ty of None \<Rightarrow> Inl (- ENODATA) | Some d \<Rightarrow> Inr (entry_header (ty, d)))"
    using Cons.prems by (intro Cons.IH) simp
  from le entry_len_ge4 [of e] assms(3) show ?case
    by (subst tlv_lookup_step) (auto simp: hdr span IH simp del: of_nat_add)
qed

lemma read_erased:
  assumes "\<And>i. lo \<le> i \<Longrightarrow> i < hi \<Longrightarrow> content s i = 0xFF"
    and "hi \<le> capacity s" "hi + 600 \<le> tlv_limit" "lo \<le> hi + 514" "ty \<noteq> 0xFFFF"
  shows "tlv_read_loop (rd s) (word_of_nat hi) ty sz (word_of_nat lo) = Some (Inl (- ENODATA))"
  using assms(1,4)
proof (induction "hi - lo" arbitrary: lo rule: less_induct)
  case less
  show ?case
  proof (cases "lo + 4 \<le> hi")
    case True
    have "rd s (word_of_nat lo) 4 = Inr [0xFF, 0xFF, 0xFF, 0xFF]"
      using True assms(2,3) less.prems(1) by (intro rd_erased) auto
    moreover have "tlv_read_loop (rd s) (word_of_nat hi) ty sz (word_of_nat (514 + lo)) =
        Some (Inl (- ENODATA))"
      using True less.prems by (intro less.hyps) auto
    ultimately show ?thesis
      using True assms(3,5)
      by (subst tlv_read_step) (simp_all add: header_erased payload_span_def del: of_nat_add)
  next
    case False
    with assms(3) less.prems(2) show ?thesis
      by (subst tlv_read_step) auto
  qed
qed

text \<open>What a read of \<open>k\<close> bytes returns for the first entry of its type.\<close>

lemma read_region:
  assumes "tlv_region (content s) lo hi es"
    and "hi \<le> capacity s" "hi + 600 \<le> tlv_limit" "ty \<noteq> 0xFFFF"
  shows "tlv_read_loop (rd s) (word_of_nat hi) ty sz (word_of_nat lo) =
    Some (case map_of es ty of
            None \<Rightarrow> Inl (- ENODATA)
          | Some d \<Rightarrow> if unat sz \<le> length (payload_bytes d) then Inr (take (unat sz) (payload_bytes d))
                      else Inl (- ENOMEM))"
  using assms(1)
proof (induction es arbitrary: lo)
  case Nil
  with assms(2-4) show ?case by (simp add: read_erased)
next
  case (Cons e es)
  have le: "lo + entry_len e \<le> hi"
    using tlv_region_bounds [OF Cons.prems] by simp
  have hdr: "rd s (word_of_nat lo) 4 = Inr (header_to_bytes (entry_header e))"
    using Cons.prems le assms(2,3) by (intro rd_entry_header) auto
  have span4: "payload_span (entry_header e) + 4 = entry_len e"
    using span_entry_header [of e] Cons.prems by (simp add: entry_ok_def)
  then have len: "payload_span (entry_header e) = length (payload_bytes (snd e))"
    by (simp add: entry_len_def)
  have span: "lo + 4 + length (payload_bytes (snd e)) = lo + entry_len e"
    by (simp add: entry_len_def)
  have IH: "tlv_read_loop (rd s) (word_of_nat hi) ty sz (word_of_nat (lo + entry_len e)) =
      Some (case map_of es ty of
            None \<Rightarrow> Inl (- ENODATA)
          | Some d \<Rightarrow> if unat sz \<le> length (payload_bytes d) then Inr (take (unat sz) (payload_bytes d))
                      else Inl (- ENOMEM))"
    using Cons.prems by (intro Cons.IH) simp
  have data: "rd s (word_of_nat (lo + 4)) (unat sz) = Inr (take (unat sz) (payload_bytes (snd e)))"
    and fits: "\<not> word_of_nat (lo + 4) + ucast sz > (word_of_nat hi :: u32)"
    if "unat sz \<le> length (payload_bytes (snd e))"
  proof -
    have k: "unat sz + 4 \<le> entry_len e" using that len span4 by simp
    show "rd s (word_of_nat (lo + 4)) (unat sz) = Inr (take (unat sz) (payload_bytes (snd e)))"
      using Cons.prems le assms(2,3) k by (intro rd_entry_payload) auto
    have "word_of_nat (lo + 4) + ucast sz = (word_of_nat (lo + 4 + unat sz) :: u32)"
      by (simp add: word_unat_eq_iff unat_word_ariths unat_of_nat)
    then show "\<not> word_of_nat (lo + 4) + ucast sz > (word_of_nat hi :: u32)"
      using k le assms(3) by (simp add: not_less of_nat_le_u32 del: of_nat_add)
  qed
  from le entry_len_ge4 [of e] assms(3) show ?case
    by (subst tlv_read_step) (auto simp: hdr span len IH data fits simp del: of_nat_add length_payload_bytes)
qed

subsection \<open>Write\<close>

lemma next_free_beyond:
  assumes "lo \<le> hi" "lo + 4 \<le> capacity s" "hi + 600 \<le> tlv_limit" "hi < lo + 4"
  shows "\<exists>r. get_next_free_offset_loop (rd s) (word_of_nat hi) (word_of_nat lo) = Some (word_of_nat r)
    \<and> lo \<le> r \<and> r \<le> hi"
proof -
  obtain raw where raw: "rd s (word_of_nat lo) 4 = Inr raw"
    using rd_ok [of s lo 4] assms by auto
  have "get_next_free_offset_loop (rd s) (word_of_nat hi)
      (word_of_nat (lo + 4 + payload_span (bytes_to_header raw))) = Some (word_of_nat hi)"
    using assms payload_span_le [of "bytes_to_header raw"]
    by (subst next_free_step) (auto simp del: of_nat_add)
  with assms show ?thesis
    by (subst next_free_step) (auto simp: raw simp del: of_nat_add)
qed

lemma next_free_skip:
  assumes "tlv_region (content s) lo mid es" "mid \<le> hi" "hi \<le> capacity s" "hi + 600 \<le> tlv_limit"
  shows "get_next_free_offset_loop (rd s) (word_of_nat hi) (word_of_nat lo) =
    get_next_free_offset_loop (rd s) (word_of_nat hi) (word_of_nat (lo + tlv_used es))"
  using assms(1)
proof (induction es arbitrary: lo)
  case (Cons e es)
  have le: "lo + entry_len e \<le> hi"
    using tlv_region_bounds [OF Cons.prems] assms(2) by simp
  have hdr: "rd s (word_of_nat lo) 4 = Inr (header_to_bytes (entry_header e))"
    using Cons.prems le assms(3,4) by (intro rd_entry_header) auto
  have span: "lo + 4 + payload_span (entry_header e) = lo + entry_len e"
    using span_entry_header [of e] Cons.prems by (simp add: entry_ok_def)
  have "get_next_free_offset_loop (rd s) (word_of_nat hi) (word_of_nat lo) =
      get_next_free_offset_loop (rd s) (word_of_nat hi) (word_of_nat (lo + entry_len e))"
    using le entry_len_ge4 [of e] assms(4) Cons.prems data_size_entry_header [of e]
    by (subst next_free_step) (auto simp: hdr span entry_ok_def simp del: of_nat_add)
  also have "\<dots> = get_next_free_offset_loop (rd s) (word_of_nat hi)
      (word_of_nat (lo + entry_len e + tlv_used es))"
    using Cons.prems by (intro Cons.IH) simp
  finally show ?case by (simp add: add.assoc)
qed simp

lemma next_free_region:
  assumes "tlv_region (content s) lo hi es"
    and "hi \<le> capacity s" "hi + 600 \<le> tlv_limit"
    and "lo + tlv_used es + 4 \<le> hi \<or> hi + 4 \<le> capacity s"
  shows "\<exists>r. get_next_free_offset_loop (rd s) (word_of_nat hi) (word_of_nat lo) = Some (word_of_nat r)
    \<and> lo + tlv_used es \<le> r \<and> r \<le> hi \<and> (lo + tlv_used es + 4 \<le> hi \<longrightarrow> r = lo + tlv_used es)"
proof (cases "lo + tlv_used es + 4 \<le> hi")
  case True
  have "rd s (word_of_nat (lo + tlv_used es)) 4 = Inr [0xFF, 0xFF, 0xFF, 0xFF]"
    using True tlv_region_free [OF assms(1)] assms(2,3) by (intro rd_erased) auto
  with True assms(3) have "get_next_free_offset_loop (rd s) (word_of_nat hi)
      (word_of_nat (lo + tlv_used es)) = Some (word_of_nat (lo + tlv_used es))"
    by (subst next_free_step) (simp_all add: header_erased del: of_nat_add)
  with True next_free_skip [OF assms(1) _ assms(2,3)] show ?thesis by auto
next
  case False
  with assms(2-4) tlv_region_bounds [OF assms(1)] next_free_beyond [of "lo + tlv_used es" hi s]
    next_free_skip [OF assms(1) _ assms(2,3)]
  show ?thesis by (auto simp del: of_nat_add)
qed

text \<open>The copy loop stores the rest of the padded payload and nothing else.\<close>

lemma write_loop_region:
  assumes "unat sz = length d" "length d \<le> 65532"
    and "k \<le> length (payload_bytes d)" "4 dvd k" "4 dvd n"
    and "n + (length (payload_bytes d) - k) \<le> capacity s"
    and "n + (length (payload_bytes d) - k) \<le> tlv_limit"
    and "\<And>i. n \<le> i \<Longrightarrow> i < n + (length (payload_bytes d) - k) \<Longrightarrow> content s i = 0xFF"
  shows "\<exists>s'. tlv_write_loop wr d sz s (word_of_nat n) (word_of_nat k) = Some (0, s') \<and>
    capacity s' = capacity s \<and>
    (\<forall>i < capacity s. i < tlv_limit \<longrightarrow> content s' i =
       (if n \<le> i \<and> i < n + (length (payload_bytes d) - k)
        then payload_bytes d ! (k + (i - n)) else content s i))"
  using assms(3-)
proof (induction "length (payload_bytes d) - k" arbitrary: k n s rule: less_induct)
  case less
  let ?P = "length (payload_bytes d)"
  have k16: "unat (word_of_nat k :: u16) = k"
  proof (rule unat_of_nat_u16)
    have "?P mod 4 = 0" using payload_len_dvd4 by (simp add: mod_eq_0_iff_dvd)
    moreover have "?P \<le> 65535"
      using assms(2) padding_lt4 [of "length d"] unfolding length_payload_bytes by linarith
    ultimately show "k < 65536" using less.prems(1) by linarith
  qed
  show ?case
  proof (cases "k < length d")
    case True
    have kP: "k + 4 \<le> ?P" using less.prems(2) True by (rule payload_next_block)
    let ?b = "write_buff d sz (word_of_nat k)"
    have b: "?b = take 4 (drop k (payload_bytes d))"
      using assms(1) k16 less.prems(2) True by (intro write_buff_block)
    then have lb: "length ?b = 4" using kP by simp
    have room: "n + length ?b \<le> capacity s" "n + length ?b \<le> tlv_limit"
      using less.prems(4,5) kP lb by linarith+
    have erased: "content s i = 0xFF" if "n \<le> i" "i < n + length ?b" for i
      using that kP lb by (intro less.prems(6)) linarith+
    obtain s1 where w: "wr s (word_of_nat n) ?b = (0, s1)" and c1: "capacity s1 = capacity s"
      and e1: "\<And>i. i < capacity s \<Longrightarrow> i < tlv_limit \<Longrightarrow>
        content s1 i = (if n \<le> i \<and> i < n + 4 then ?b ! (i - n) else content s i)"
      using wr_ok [OF _ room(1,2) less.prems(3) _ erased] room(1) lb by auto
    have "\<exists>s'. tlv_write_loop wr d sz s1 (word_of_nat (n + 4)) (word_of_nat (k + 4)) = Some (0, s') \<and>
      capacity s' = capacity s1 \<and>
      (\<forall>i < capacity s1. i < tlv_limit \<longrightarrow> content s' i =
         (if n + 4 \<le> i \<and> i < n + 4 + (?P - (k + 4))
          then payload_bytes d ! (k + 4 + (i - (n + 4))) else content s1 i))"
    proof (rule less.hyps)
      fix i assume "n + 4 \<le> i" "i < n + 4 + (?P - (k + 4))"
      with less.prems kP e1 [of i] show "content s1 i = 0xFF" by auto
    qed (use less.prems kP c1 in auto)
    then obtain s' where s': "tlv_write_loop wr d sz s1 (word_of_nat (n + 4)) (word_of_nat (k + 4)) = Some (0, s')"
      and c': "capacity s' = capacity s"
      and e': "\<And>i. i < capacity s \<Longrightarrow> i < tlv_limit \<Longrightarrow> content s' i =
         (if n + 4 \<le> i \<and> i < n + 4 + (?P - (k + 4))
          then payload_bytes d ! (k + 4 + (i - (n + 4))) else content s1 i)"
      using c1 by auto
    have step: "tlv_write_loop wr d sz s (word_of_nat n) (word_of_nat k) = Some (0, s')"
      using True assms(1) k16
      by (subst tlv_write_loop_step) (simp add: w s' word_less_nat_alt del: of_nat_add)
    have "content s' i = (if n \<le> i \<and> i < n + (?P - k) then payload_bytes d ! (k + (i - n)) else content s i)"
      if "i < capacity s" "i < tlv_limit" for i
      using e' [OF that] e1 [OF that] kP b by (auto simp: nth_append not_le less_diff_conv2)
    with step c' show ?thesis by blast
  next
    case False
    have "k = ?P" using less.prems(2) False less.prems(1) by (rule payload_last_block)
    with False assms(1) k16 show ?thesis
      by (subst tlv_write_loop_step) (auto simp: word_less_nat_alt)
  qed
qed

subsection \<open>Operations on contexts\<close>

lemma lookup_holds:
  assumes "holds ctx es" "ty \<noteq> 0xFFFF"
  shows "tlv_lookup (Some ctx) ty =
    Some (case map_of es ty of None \<Rightarrow> Inl (- ENODATA) | Some d \<Rightarrow> Inr (entry_header (ty, d)))"
  using assms lookup_region [of "st_ctx (storage_impl ctx)" "ctx_lo ctx" "ctx_hi ctx" es ty]
  by (simp add: tlv_lookup_def tlv_holds_def ctx_words)

lemma read_holds:
  assumes "holds ctx es" "ty \<noteq> 0xFFFF"
  shows "tlv_read (Some ctx) ty sz =
    Some (case map_of es ty of
            None \<Rightarrow> Inl (- ENODATA)
          | Some d \<Rightarrow> if unat sz \<le> length (payload_bytes d) then Inr (take (unat sz) (payload_bytes d))
                      else Inl (- ENOMEM))"
  using assms read_region [of "st_ctx (storage_impl ctx)" "ctx_lo ctx" "ctx_hi ctx" es ty sz]
  by (simp add: tlv_read_def tlv_holds_def ctx_words)

text \<open>The size check of \<^verbatim>\<open>tlv_write\<close> does not wrap inside the limit.\<close>

lemma size_check:
  assumes "r \<le> hi" "hi + 70000 \<le> tlv_limit"
  shows "((word_of_nat hi :: u32) < word_of_nat r + 4 + ucast sz + word_of_nat (CALCULATE_PADDING (unat (sz :: u16))))
    = (hi < r + 4 + unat sz + CALCULATE_PADDING (unat sz))"
proof -
  have "word_of_nat r + 4 + ucast sz + word_of_nat (CALCULATE_PADDING (unat sz)) =
      (word_of_nat (r + 4 + unat sz + CALCULATE_PADDING (unat sz)) :: u32)"
    by (simp add: word_unat_eq_iff unat_word_ariths unat_of_nat mod_simps)
  moreover have "r + 4 + unat sz + CALCULATE_PADDING (unat sz) < 4294967296"
    using assms unat_u16_lt [of sz] padding_lt4 [of "unat sz"] by linarith
  ultimately show ?thesis
    using assms by (simp add: word_less_nat_alt unat_of_nat_u32 del: of_nat_add)
qed

lemma next_free_holds:
  assumes "holds ctx es"
    and "ctx_lo ctx + tlv_used es + 4 \<le> ctx_hi ctx \<or>
      ctx_hi ctx + 4 \<le> capacity (st_ctx (storage_impl ctx))"
  shows "\<exists>r. get_next_free_offset ctx = Some (word_of_nat r) \<and> ctx_lo ctx + tlv_used es \<le> r \<and>
    r \<le> ctx_hi ctx \<and> (ctx_lo ctx + tlv_used es + 4 \<le> ctx_hi ctx \<longrightarrow> r = ctx_lo ctx + tlv_used es)"
  using assms next_free_region [of "st_ctx (storage_impl ctx)" "ctx_lo ctx" "ctx_hi ctx" es]
  by (simp add: get_next_free_offset_def tlv_holds_def ctx_words)

lemma write_full:
  assumes "holds ctx es"
    and "ctx_lo ctx + tlv_used es + 4 \<le> ctx_hi ctx \<or>
      ctx_hi ctx + 4 \<le> capacity (st_ctx (storage_impl ctx))"
    and "ctx_hi ctx < ctx_lo ctx + tlv_used es + 4 + unat sz + CALCULATE_PADDING (unat sz)"
  shows "tlv_write (Some ctx) ty d sz = Some (- ENOMEM, Some ctx)"
proof -
  obtain r where r: "get_next_free_offset ctx = Some (word_of_nat r)"
    "ctx_lo ctx + tlv_used es \<le> r" "r \<le> ctx_hi ctx"
    using next_free_holds [OF assms(1,2)] by auto
  have "(word_of_nat (ctx_hi ctx) :: u32) <
      word_of_nat r + 4 + ucast sz + word_of_nat (CALCULATE_PADDING (unat sz))"
    using assms r(2,3) size_check [of r "ctx_hi ctx" sz] by (simp add: tlv_holds_def)
  with assms(1) r(1) show ?thesis
    by (simp add: tlv_write_def tlv_holds_def ctx_words)
qed

text \<open>
  What \<^verbatim>\<open>tlv_write\<close> stores when it succeeds: the header for the (truncated) size, the
  payload and its padding, at the next free offset.
\<close>

lemma write_raw:
  assumes "st_read (storage_impl ctx) = Some rd" "st_write (storage_impl ctx) = Some wr"
    and nf: "get_next_free_offset ctx = Some (word_of_nat n)" and n4: "4 dvd n"
    and sz: "unat sz = length d" "length d \<le> 65532"
    and fits: "n + 4 + length (payload_bytes d) \<le> ctx_hi ctx"
    and cap: "ctx_hi ctx \<le> capacity (st_ctx (storage_impl ctx))" "ctx_hi ctx + 70000 \<le> tlv_limit"
    and free: "\<And>i. n \<le> i \<Longrightarrow> i < n + 4 + length (payload_bytes d) \<Longrightarrow>
      content (st_ctx (storage_impl ctx)) i = 0xFF"
  shows "\<exists>s'. tlv_write (Some ctx) ty d sz = Some (0, Some (set_storage ctx s')) \<and>
    capacity s' = capacity (st_ctx (storage_impl ctx)) \<and>
    (\<forall>i < capacity (st_ctx (storage_impl ctx)). i < tlv_limit \<longrightarrow> content s' i =
      (if n \<le> i \<and> i < n + 4 + length (payload_bytes d)
       then (header_to_bytes (entry_header (ty, d)) @ payload_bytes d) ! (i - n)
       else content (st_ctx (storage_impl ctx)) i))"
proof -
  let ?s = "st_ctx (storage_impl ctx)" and ?h = "header_to_bytes (entry_header (ty, d))"
  let ?P = "length (payload_bytes d)"
  have room: "\<not> (word_of_nat (ctx_hi ctx) :: u32) <
      word_of_nat n + 4 + ucast sz + word_of_nat (CALCULATE_PADDING (length d))"
    using size_check [of n "ctx_hi ctx" sz] cap fits sz by simp
  have hdr: "\<lparr>hdr_type = ty, payload_size =
      \<lparr>padding = word_of_nat (CALCULATE_PADDING (length d)), data_size = ucast sz\<rparr>\<rparr> = entry_header (ty, d)"
    unfolding entry_header_def fst_conv snd_conv sz(1) [symmetric] by simp
  have "n + length ?h \<le> capacity ?s" "n + length ?h \<le> tlv_limit"
    using fits cap by simp_all
  then obtain s1 where s1: "wr ?s (word_of_nat n) ?h = (0, s1)" "capacity s1 = capacity ?s"
    "\<And>i. i < capacity ?s \<Longrightarrow> i < tlv_limit \<Longrightarrow>
       content s1 i = (if n \<le> i \<and> i < n + 4 then ?h ! (i - n) else content ?s i)"
    using wr_ok [of ?s n ?h] n4 free by auto
  have "\<exists>s'. tlv_write_loop wr d sz s1 (word_of_nat (n + 4)) (word_of_nat 0) = Some (0, s') \<and>
    capacity s' = capacity s1 \<and>
    (\<forall>i < capacity s1. i < tlv_limit \<longrightarrow> content s' i =
       (if n + 4 \<le> i \<and> i < n + 4 + (?P - 0) then payload_bytes d ! (0 + (i - (n + 4))) else content s1 i))"
  proof (rule write_loop_region)
    show "n + 4 + (?P - 0) \<le> capacity s1" "n + 4 + (?P - 0) \<le> tlv_limit"
      using fits cap s1(2) by linarith+
    fix i assume i: "n + 4 \<le> i" "i < n + 4 + (?P - 0)"
    then have "i < capacity ?s" "i < tlv_limit" using fits cap by linarith+
    with s1(3) free i show "content s1 i = 0xFF" by simp
  qed (use sz n4 in simp_all)
  then obtain s' where s': "tlv_write_loop wr d sz s1 (word_of_nat (n + 4)) 0 = Some (0, s')"
    "capacity s' = capacity ?s"
    "\<And>i. i < capacity ?s \<Longrightarrow> i < tlv_limit \<Longrightarrow> content s' i =
       (if n + 4 \<le> i \<and> i < n + 4 + ?P then payload_bytes d ! (i - (n + 4)) else content s1 i)"
    using s1(2) by auto
  have "tlv_write (Some ctx) ty d sz = Some (0, Some (set_storage ctx s'))"
    using room s'(1) s1(1) by (simp add: tlv_write_def assms(1,2) nf Let_def sz ctx_words hdr)
  moreover have "content s' i = (if n \<le> i \<and> i < n + 4 + ?P then (?h @ payload_bytes d) ! (i - n)
      else content ?s i)" if "i < capacity ?s" "i < tlv_limit" for i
    using that by (auto simp: s'(3) s1(3) nth_append)
  ultimately show ?thesis using s'(2) by blast
qed

lemma used_aligned: "holds ctx es \<Longrightarrow> 4 dvd ctx_lo ctx + tlv_used es"
  unfolding tlv_holds_def by (intro dvd_add tlv_used_dvd4) simp

text \<open>A write that fits appends the entry and touches no other byte of the storage.\<close>

lemma write_holds:
  assumes holds: "holds ctx es" and ok: "entry_ok (ty, d)" and sz: "unat sz = length d"
    and fits: "ctx_lo ctx + tlv_used es + entry_len (ty, d) \<le> ctx_hi ctx"
  shows "\<exists>s'. tlv_write (Some ctx) ty d sz = Some (0, Some (set_storage ctx s')) \<and>
    holds (set_storage ctx s') (es @ [(ty, d)]) \<and>
    (\<forall>i < capacity (st_ctx (storage_impl ctx)). i < tlv_limit \<longrightarrow>
       \<not> (ctx_lo ctx + tlv_used es \<le> i \<and> i < ctx_lo ctx + tlv_used es + entry_len (ty, d)) \<longrightarrow>
       content s' i = content (st_ctx (storage_impl ctx)) i)"
proof -
  let ?s = "st_ctx (storage_impl ctx)" and ?n = "ctx_lo ctx + tlv_used es" and ?e = "(ty, d)"
  have elen: "?n + 4 + length (payload_bytes d) = ?n + entry_len ?e" by (simp add: entry_len_def)
  have h: "st_read (storage_impl ctx) = Some rd" "st_write (storage_impl ctx) = Some wr"
    "ctx_hi ctx \<le> capacity ?s" "ctx_hi ctx + 70000 \<le> tlv_limit"
    "tlv_region (content ?s) (ctx_lo ctx) (ctx_hi ctx) es"
    using holds by (simp_all add: tlv_holds_def)
  have nf: "get_next_free_offset ctx = Some (word_of_nat ?n)"
    using next_free_holds [OF holds] fits entry_len_ge4 [of ?e] by simp
  obtain s' where s': "tlv_write (Some ctx) ty d sz = Some (0, Some (set_storage ctx s'))"
    "capacity s' = capacity ?s"
    "\<And>i. i < capacity ?s \<Longrightarrow> i < tlv_limit \<Longrightarrow> content s' i =
      (if ?n \<le> i \<and> i < ?n + entry_len ?e then entry_bytes ?e ! (i - ?n) else content ?s i)"
    using write_raw [OF h(1,2) nf used_aligned [OF holds] sz, of ty] ok fits h(3,4)
      tlv_region_free [OF h(5)] unfolding elen by (auto simp: entry_ok_def entry_bytes_def)
  have "map (content s') [?n..<?n + entry_len ?e] = entry_bytes ?e"
    using fits h(3,4) by (intro nth_equalityI) (auto simp: s'(3))
  moreover have "content s' i = content ?s i"
    if "ctx_lo ctx \<le> i" "i < ctx_hi ctx" "\<not> (?n \<le> i \<and> i < ?n + entry_len ?e)" for i
    using that h(3,4) by (subst s'(3)) auto
  ultimately have "tlv_region (content s') (ctx_lo ctx) (ctx_hi ctx) (es @ [?e])"
    using h(5) ok fits by (intro tlv_region_append)
  with holds s'(2) have "holds (set_storage ctx s') (es @ [?e])"
    by (simp add: tlv_holds_def)
  with s'(1,3) show ?thesis by auto
qed

end

section \<open>RAM storage meets the contract\<close>

interpretation ram: tlv_backend tlv_storage_ram_read tlv_storage_ram_write
  "\<lambda>m i. m (word_of_nat i)" "\<lambda>_. 4294967296"
proof
  fix n k and s :: mem
  show "tlv_storage_ram_read s (word_of_nat n) k = Inr (map (\<lambda>i. s (word_of_nat i)) [n..<n + k])"
    by (simp add: tlv_storage_ram_read_def mem_read_conv)
next
  fix n and bs :: "u8 list" and s :: mem
  assume "n + length bs \<le> tlv_limit"
  then show "\<exists>s'. tlv_storage_ram_write s (word_of_nat n) bs = (0, s') \<and>
      (4294967296 :: nat) = 4294967296 \<and>
      (\<forall>i < 4294967296. i < tlv_limit \<longrightarrow> s' (word_of_nat i) =
         (if n \<le> i \<and> i < n + length bs then bs ! (i - n) else s (word_of_nat i)))"
    by (auto simp: tlv_storage_ram_write_def mem_write_at)
qed

end
