(* ===== verification/Tlv_Props.thy ===== *)
theory Tlv_Props
  imports Tlv_Refine
begin

text \<open>
  The properties of the TLV storage: termination for every back end, the refinement to
  association lists on RAM storage, what a failing or oversized operation does, and the
  flash back end as an instance of the same contract.
\<close>

section \<open>Termination\<close>

lemma lookup_loop_returns:
  assumes "hi + 600 \<le> tlv_limit" "lo \<le> hi + 514"
  shows "\<exists>r. tlv_lookup_loop rd (word_of_nat hi) ty (word_of_nat lo) = Some r"
  using assms(2)
proof (induction "hi + 600 - lo" arbitrary: lo rule: less_induct)
  case less
  have "\<exists>r. tlv_lookup_loop rd (word_of_nat hi) ty
      (word_of_nat (lo + 4 + payload_span (bytes_to_header raw))) = Some r"
    if "lo + 4 \<le> hi" for raw
    using that less.prems payload_span_le [of "bytes_to_header raw"] by (intro less.hyps) linarith+
  with less.prems assms(1) show ?case
    by (subst tlv_lookup_step) (auto split: sum.splits simp del: of_nat_add)
qed

lemma read_loop_returns:
  assumes "hi + 600 \<le> tlv_limit" "lo \<le> hi + 514"
  shows "\<exists>r. tlv_read_loop rd (word_of_nat hi) ty sz (word_of_nat lo) = Some r"
  using assms(2)
proof (induction "hi + 600 - lo" arbitrary: lo rule: less_induct)
  case less
  have "\<exists>r. tlv_read_loop rd (word_of_nat hi) ty sz
      (word_of_nat (lo + 4 + payload_span (bytes_to_header raw))) = Some r"
    if "lo + 4 \<le> hi" for raw
    using that less.prems payload_span_le [of "bytes_to_header raw"] by (intro less.hyps) linarith+
  with less.prems assms(1) show ?case
    by (subst tlv_read_step) (auto split: sum.splits simp del: of_nat_add)
qed

lemma next_free_loop_returns:
  assumes "hi + 600 \<le> tlv_limit" "lo \<le> hi + 514"
  shows "\<exists>r. get_next_free_offset_loop rd (word_of_nat hi) (word_of_nat lo) = Some r"
  using assms(2)
proof (induction "hi + 600 - lo" arbitrary: lo rule: less_induct)
  case less
  have "\<exists>r. get_next_free_offset_loop rd (word_of_nat hi)
      (word_of_nat (lo + 4 + payload_span (bytes_to_header raw))) = Some r"
    if "lo \<le> hi" for raw
    using that less.prems payload_span_le [of "bytes_to_header raw"] by (intro less.hyps) linarith+
  with less.prems assms(1) show ?case
    by (subst next_free_step) (auto split: sum.splits simp del: of_nat_add)
qed

lemma write_loop_returns:
  assumes "unat sz \<le> 65532" "k \<le> unat sz + 3"
  shows "\<exists>r. tlv_write_loop wr d sz s (word_of_nat n) (word_of_nat k) = Some r"
  using assms(2)
proof (induction "unat sz + 3 - k" arbitrary: k n s rule: less_induct)
  case less
  have k: "unat (word_of_nat k :: u16) = k"
    using less.prems assms(1) by (intro unat_of_nat_u16) linarith
  have "\<exists>r. tlv_write_loop wr d sz s1 (word_of_nat (n + 4)) (word_of_nat (k + 4)) = Some r"
    if "k < unat sz" for s1
    using that less.prems by (intro less.hyps) linarith+
  with k show ?case
    by (subst tlv_write_loop_step) (auto simp: word_less_nat_alt split: prod.splits simp del: of_nat_add)
qed

text \<open>
  C4. For every storage back end, whatever its reads and writes return, \<^verbatim>\<open>tlv_lookup\<close>,
  \<^verbatim>\<open>tlv_read\<close> and \<^verbatim>\<open>tlv_write\<close> return on a region that lies below the top of the 32-bit
  offset space, for payloads of at most 65532 bytes.
\<close>

theorem tlv_operations_return:
  assumes "unat (start_offset ctx) + unat (tlv_storage_start_marker_size ctx) \<le> unat (end_offset ctx)"
    and "unat (end_offset ctx) + 70000 \<le> tlv_limit" and "unat sz \<le> 65532"
  shows "(\<exists>r. tlv_lookup (Some ctx) ty = Some r) \<and> (\<exists>r. tlv_read (Some ctx) ty sz = Some r) \<and>
    (\<exists>r. tlv_write (Some ctx) ty d sz = Some r)"
proof -
  have b: "ctx_hi ctx + 600 \<le> tlv_limit" "ctx_lo ctx \<le> ctx_hi ctx + 514"
    using assms(1,2) by (simp_all add: ctx_lo_def ctx_hi_def)
  have nf: "\<exists>r. get_next_free_offset ctx = Some r"
    using next_free_loop_returns [OF b]
    by (auto simp: get_next_free_offset_def ctx_words split: option.splits)
  have wl: "\<exists>r. tlv_write_loop wr d sz s off 0 = Some r" for wr s off
    using write_loop_returns [OF assms(3), of 0 wr d s "unat off"] by simp
  have "\<exists>r. tlv_write (Some ctx) ty d sz = Some r"
    using nf wl by (fastforce simp: tlv_write_def Let_def split: option.splits prod.splits)
  with lookup_loop_returns [OF b] read_loop_returns [OF b] show ?thesis
    by (auto simp: tlv_lookup_def tlv_read_def ctx_words split: option.splits)
qed


text \<open>A RAM region of 64 erased bytes behind an 8-byte start marker, for the concrete instances.\<close>

definition erased_ram_ctx :: "mem tlv_ctx" where
  "erased_ram_ctx =
     \<lparr>storage_impl = \<lparr>st_ctx = (\<lambda>_. 0xFF), st_write = Some tlv_storage_ram_write,
        st_erase = Some tlv_storage_ram_erase, st_read = Some tlv_storage_ram_read\<rparr>,
      start_offset = 0, end_offset = 64, tlv_storage_start_marker_size = 8\<rparr>"

theorem tlv_operations_return_witness:
  "(\<exists>r. tlv_lookup (Some erased_ram_ctx) 4 = Some r) \<and> (\<exists>r. tlv_read (Some erased_ram_ctx) 4 2 = Some r) \<and>
   (\<exists>r. tlv_write (Some erased_ram_ctx) 4 [1, 2] 2 = Some r)"
  by (rule tlv_operations_return) (simp_all add: erased_ram_ctx_def)

section \<open>Codec\<close>

text \<open>
  The header codec loses nothing: decoding an encoded header gives it back, and encoding
  a decoded header gives back the same four bytes, so a header and its four bytes determine
  each other.
\<close>

theorem tlv_header_roundtrip:
  "bytes_to_header (header_to_bytes h) = h \<and>
   header_to_bytes (bytes_to_header [a, b, c, d]) = [a, b, c, d]"
  by (simp add: header_to_bytes_to_header)

section \<open>RAM storage as an association list\<close>

definition ram_holds :: "mem tlv_ctx \<Rightarrow> entry list \<Rightarrow> bool" where
  "ram_holds = tlv_holds tlv_storage_ram_read tlv_storage_ram_write (\<lambda>m i. m (word_of_nat i)) (\<lambda>_. 4294967296)"

lemma ram_holds_erased: "ram_holds erased_ram_ctx []"
  by (simp add: ram_holds_def tlv_holds_def erased_ram_ctx_def ctx_lo_def ctx_hi_def)

lemma ctx_erased [simp]: "ctx_lo erased_ram_ctx = 8" "ctx_hi erased_ram_ctx = 64"
  by (simp_all add: ctx_lo_def ctx_hi_def erased_ram_ctx_def)

text \<open>
  C2. On RAM storage that holds the entries \<open>es\<close>, \<^verbatim>\<open>tlv_lookup\<close> and \<^verbatim>\<open>tlv_read\<close> are lookup in
  the association list \<open>es\<close>: an absent type is \<^verbatim>\<open>-ENODATA\<close>; a present one gives the header of
  its first entry, and a read of at most its padded size gives that many bytes of the padded
  payload, a longer one \<^verbatim>\<open>-ENOMEM\<close>.
\<close>

theorem tlv_ram_refines_map:
  assumes "ram_holds ctx es" and "ty \<noteq> 0xFFFF"
  shows "tlv_lookup (Some ctx) ty =
      Some (case map_of es ty of None \<Rightarrow> Inl (- ENODATA) | Some d \<Rightarrow> Inr (entry_header (ty, d))) \<and>
    tlv_read (Some ctx) ty sz =
      Some (case map_of es ty of
              None \<Rightarrow> Inl (- ENODATA)
            | Some d \<Rightarrow> if unat sz \<le> length (payload_bytes d) then Inr (take (unat sz) (payload_bytes d))
                        else Inl (- ENOMEM))"
  using assms unfolding ram_holds_def by (simp add: ram.lookup_holds ram.read_holds)

theorem tlv_ram_refines_map_witness:
  "tlv_lookup (Some erased_ram_ctx) 4 = Some (Inl (- ENODATA)) \<and>
   tlv_read (Some erased_ram_ctx) 4 2 = Some (Inl (- ENODATA))"
  using tlv_ram_refines_map [OF ram_holds_erased, of 4 2] by simp

text \<open>
  C1. A write that fits appends: it returns 0, the region then holds \<open>es\<close> followed by the new
  entry, every byte of the storage outside the new entry keeps its value, a new type reads
  back exactly the data written, and every type already present still reads as before (an
  older entry of the same type shadows the new one).
\<close>

theorem tlv_ram_write_appends:
  assumes holds: "ram_holds ctx es" and ok: "entry_ok (ty, d)" and sz: "unat sz = length d"
    and fits: "ctx_lo ctx + tlv_used es + entry_len (ty, d) \<le> ctx_hi ctx"
  shows "\<exists>m'. tlv_write (Some ctx) ty d sz = Some (0, Some (set_storage ctx m')) \<and>
    ram_holds (set_storage ctx m') (es @ [(ty, d)]) \<and>
    (\<forall>i < tlv_limit. \<not> (ctx_lo ctx + tlv_used es \<le> i \<and> i < ctx_lo ctx + tlv_used es + entry_len (ty, d)) \<longrightarrow>
       m' (word_of_nat i) = st_ctx (storage_impl ctx) (word_of_nat i)) \<and>
    (map_of es ty = None \<longrightarrow> tlv_read (Some (set_storage ctx m')) ty sz = Some (Inr d)) \<and>
    (\<forall>ty' n. ty' \<noteq> 0xFFFF \<longrightarrow> map_of es ty' \<noteq> None \<or> ty' \<noteq> ty \<longrightarrow>
       tlv_read (Some (set_storage ctx m')) ty' n = tlv_read (Some ctx) ty' n)"
proof -
  obtain m' where w: "tlv_write (Some ctx) ty d sz = Some (0, Some (set_storage ctx m'))"
    and h: "ram_holds (set_storage ctx m') (es @ [(ty, d)])"
    and fr: "\<forall>i < 4294967296. i < tlv_limit \<longrightarrow>
      \<not> (ctx_lo ctx + tlv_used es \<le> i \<and> i < ctx_lo ctx + tlv_used es + entry_len (ty, d)) \<longrightarrow>
      m' (word_of_nat i) = st_ctx (storage_impl ctx) (word_of_nat i)"
    using ram.write_holds [OF holds [unfolded ram_holds_def] ok sz fits] unfolding ram_holds_def by auto
  have "tlv_read (Some (set_storage ctx m')) ty sz = Some (Inr d)" if "map_of es ty = None"
    using that ok sz ram.read_holds [OF h [unfolded ram_holds_def], of ty sz]
    by (simp add: map_add_def entry_ok_def payload_bytes_def)
  moreover have "tlv_read (Some (set_storage ctx m')) ty' n = tlv_read (Some ctx) ty' n"
    if "ty' \<noteq> 0xFFFF" "map_of es ty' \<noteq> None \<or> ty' \<noteq> ty" for ty' n
    using that ram.read_holds [OF h [unfolded ram_holds_def], of ty' n]
      ram.read_holds [OF holds [unfolded ram_holds_def], of ty' n]
    by (auto simp: map_add_def split: option.splits)
  ultimately show ?thesis using w h fr by auto
qed

theorem tlv_ram_write_appends_witness:
  "\<exists>m'. tlv_write (Some erased_ram_ctx) 4 [1, 2, 3, 4, 5] 5 = Some (0, Some (set_storage erased_ram_ctx m')) \<and>
     ram_holds (set_storage erased_ram_ctx m') [(4, [1, 2, 3, 4, 5])] \<and>
     tlv_read (Some (set_storage erased_ram_ctx m')) 4 5 = Some (Inr [1, 2, 3, 4, 5])"
  using tlv_ram_write_appends [OF ram_holds_erased, of 4 "[1, 2, 3, 4, 5]" 5]
  by (auto simp: entry_ok_def entry_len_def CALCULATE_PADDING_def)

text \<open>
  A write that does not fit behind the entries returns \<^verbatim>\<open>-ENOMEM\<close> and leaves the context
  and its storage unchanged.
\<close>

theorem tlv_ram_write_full:
  assumes "ram_holds ctx es"
    and "ctx_hi ctx < ctx_lo ctx + tlv_used es + 4 + unat sz + CALCULATE_PADDING (unat sz)"
  shows "tlv_write (Some ctx) ty d sz = Some (- ENOMEM, Some ctx)"
  using assms ram.write_full [of ctx es sz ty d] by (auto simp: ram_holds_def tlv_holds_def)

theorem tlv_ram_write_full_witness:
  "tlv_write (Some erased_ram_ctx) 4 [] 53 = Some (- ENOMEM, Some erased_ram_ctx)"
  by (rule tlv_ram_write_full [OF ram_holds_erased]) (simp add: CALCULATE_PADDING_def)

section \<open>Flash storage\<close>

text \<open>
  What the TLV layer relies on of the flash driver (Zephyr's \<^verbatim>\<open>flash_read\<close> and
  \<^verbatim>\<open>flash_write\<close>): reads inside the device return its bytes; an aligned write of whole words
  to erased bytes inside the device stores them and leaves the other bytes alone.
\<close>

definition flash_driver_ok ::
  "'d tlv_storage_read_t \<Rightarrow> 'd tlv_storage_write_t \<Rightarrow> ('d \<Rightarrow> nat \<Rightarrow> u8) \<Rightarrow> ('d \<Rightarrow> nat) \<Rightarrow> bool" where
  "flash_driver_ok flash_read flash_write cell sz \<longleftrightarrow>
     (\<forall>d n k. n + k \<le> sz d \<longrightarrow> n + k \<le> tlv_limit \<longrightarrow>
        flash_read d (word_of_nat n) k = Inr (map (cell d) [n..<n + k])) \<and>
     (\<forall>d n bs. n + length bs \<le> sz d \<longrightarrow> n + length bs \<le> tlv_limit \<longrightarrow> 4 dvd n \<longrightarrow> 4 dvd length bs \<longrightarrow>
        (\<forall>i. n \<le> i \<and> i < n + length bs \<longrightarrow> cell d i = 0xFF) \<longrightarrow>
        fst (flash_write d (word_of_nat n) bs) = 0 \<and> sz (snd (flash_write d (word_of_nat n) bs)) = sz d \<and>
        (\<forall>i < sz d. cell (snd (flash_write d (word_of_nat n) bs)) i =
           (if n \<le> i \<and> i < n + length bs then bs ! (i - n) else cell d i)))"

definition dev_cell :: "('d \<Rightarrow> nat \<Rightarrow> u8) \<Rightarrow> 'd option \<Rightarrow> nat \<Rightarrow> u8" where
  "dev_cell cell dev i = (case dev of None \<Rightarrow> 0 | Some d \<Rightarrow> cell d i)"

definition dev_size :: "('d \<Rightarrow> nat) \<Rightarrow> 'd option \<Rightarrow> nat" where
  "dev_size sz dev = (case dev of None \<Rightarrow> 0 | Some d \<Rightarrow> sz d)"

lemma flash_backend:
  assumes "flash_driver_ok fr fw cell sz"
  shows "tlv_backend (tlv_storage_flash_read fr) (tlv_storage_flash_write fw) (dev_cell cell) (dev_size sz)"
proof
  fix s :: "'a option" and n k
  assume "0 < dev_size sz s" "n + k \<le> dev_size sz s" "n + k \<le> tlv_limit"
  then show "tlv_storage_flash_read fr s (word_of_nat n) k = Inr (map (dev_cell cell s) [n..<n + k])"
    using assms
    by (cases s) (auto simp: flash_driver_ok_def tlv_storage_flash_read_def dev_size_def dev_cell_def)
next
  fix s :: "'a option" and n and bs :: "u8 list"
  assume pos: "0 < dev_size sz s" and room: "n + length bs \<le> dev_size sz s" "n + length bs \<le> tlv_limit"
    and al: "4 dvd n" "4 dvd length bs"
    and free: "\<And>i. n \<le> i \<Longrightarrow> i < n + length bs \<Longrightarrow> dev_cell cell s i = 255"
  from pos obtain d where s: "s = Some d" by (cases s) (auto simp: dev_size_def)
  have "fst (fw d (word_of_nat n) bs) = 0 \<and> sz (snd (fw d (word_of_nat n) bs)) = sz d \<and>
     (\<forall>i < sz d. cell (snd (fw d (word_of_nat n) bs)) i =
        (if n \<le> i \<and> i < n + length bs then bs ! (i - n) else cell d i))"
    using assms room al free unfolding flash_driver_ok_def s dev_size_def dev_cell_def by auto
  then show "\<exists>s'. tlv_storage_flash_write fw s (word_of_nat n) bs = (0, s') \<and>
      dev_size sz s' = dev_size sz s \<and>
      (\<forall>i < dev_size sz s. i < tlv_limit \<longrightarrow> dev_cell cell s' i =
         (if n \<le> i \<and> i < n + length bs then bs ! (i - n) else dev_cell cell s i))"
    by (auto simp: s tlv_storage_flash_write_def dev_size_def dev_cell_def split: prod.splits)
qed

definition flash_holds ::
  "'d tlv_storage_read_t \<Rightarrow> 'd tlv_storage_write_t \<Rightarrow> ('d \<Rightarrow> nat \<Rightarrow> u8) \<Rightarrow> ('d \<Rightarrow> nat) \<Rightarrow>
   'd option tlv_ctx \<Rightarrow> entry list \<Rightarrow> bool" where
  "flash_holds fr fw cell sz =
     tlv_holds (tlv_storage_flash_read fr) (tlv_storage_flash_write fw) (dev_cell cell) (dev_size sz)"

text \<open>
  C3. On flash storage, with a driver that keeps its contract, a region behaves as the same
  association list: lookups follow \<open>map_of\<close>, and a write that fits returns 0, appends its entry
  and (for a type not yet present) reads back what was written.
\<close>

theorem tlv_flash_write_read:
  assumes drv: "flash_driver_ok fr fw cell cap" and holds: "flash_holds fr fw cell cap ctx es"
    and ok: "entry_ok (ty, d)" and sz: "unat sz = length d"
    and fits: "ctx_lo ctx + tlv_used es + entry_len (ty, d) \<le> ctx_hi ctx"
  shows "\<exists>s'. tlv_write (Some ctx) ty d sz = Some (0, Some (set_storage ctx s')) \<and>
    flash_holds fr fw cell cap (set_storage ctx s') (es @ [(ty, d)]) \<and>
    (\<forall>ty'. ty' \<noteq> 0xFFFF \<longrightarrow> tlv_lookup (Some (set_storage ctx s')) ty' =
       Some (case map_of (es @ [(ty, d)]) ty' of
               None \<Rightarrow> Inl (- ENODATA) | Some d' \<Rightarrow> Inr (entry_header (ty', d')))) \<and>
    (map_of es ty = None \<longrightarrow> tlv_read (Some (set_storage ctx s')) ty sz = Some (Inr d))"
proof -
  note be = flash_backend [OF drv]
  obtain s' where w: "tlv_write (Some ctx) ty d sz = Some (0, Some (set_storage ctx s'))"
    and h: "flash_holds fr fw cell cap (set_storage ctx s') (es @ [(ty, d)])"
    using tlv_backend.write_holds [OF be holds [unfolded flash_holds_def] ok sz fits]
    unfolding flash_holds_def by auto
  have "tlv_read (Some (set_storage ctx s')) ty sz = Some (Inr d)" if "map_of es ty = None"
    using that ok sz tlv_backend.read_holds [OF be h [unfolded flash_holds_def], of ty sz]
    by (simp add: map_add_def entry_ok_def payload_bytes_def)
  moreover have "tlv_lookup (Some (set_storage ctx s')) ty' =
       Some (case map_of (es @ [(ty, d)]) ty' of
               None \<Rightarrow> Inl (- ENODATA) | Some d' \<Rightarrow> Inr (entry_header (ty', d')))" if "ty' \<noteq> 0xFFFF" for ty'
    using that tlv_backend.lookup_holds [OF be h [unfolded flash_holds_def], of ty'] by simp
  ultimately show ?thesis using w h by auto
qed

text \<open>A NOR flash of 4096 bytes: programming clears bits, so a write stores the conjunction.\<close>

definition nor_read :: "mem tlv_storage_read_t" where
  "nor_read m off n = (if unat off + n \<le> 4096 then Inr (mem_read m off n) else Inl (- EINVAL))"

definition nor_write :: "mem tlv_storage_write_t" where
  "nor_write m off bs =
     (if unat off + length bs \<le> 4096 \<and> 4 dvd unat off \<and> 4 dvd length bs
      then (0, mem_write m off (map2 (AND) bs (mem_read m off (length bs)))) else (- EINVAL, m))"

lemma nor_driver_ok: "flash_driver_ok nor_read nor_write (\<lambda>m i. m (word_of_nat i)) (\<lambda>_. 4096)"
proof -
  have "fst (nor_write d (word_of_nat n) bs) = 0 \<and>
      (\<forall>i < 4096. snd (nor_write d (word_of_nat n) bs) (word_of_nat i) =
        (if n \<le> i \<and> i < n + length bs then bs ! (i - n) else d (word_of_nat i)))"
    if a: "n + length bs \<le> 4096" "4 dvd n" "4 dvd length bs"
      "\<forall>i. n \<le> i \<and> i < n + length bs \<longrightarrow> d (word_of_nat i) = 0xFF" for d n bs
  proof -
    have n: "unat (word_of_nat n :: u32) = n" using a(1) by (intro unat_of_nat_u32) simp
    have "map2 (AND) bs (mem_read d (word_of_nat n) (length bs)) = bs"
      using a(4) by (intro nth_equalityI) (simp_all add: mem_read_conv del: of_nat_add)
    with a show ?thesis by (simp add: nor_write_def n mem_write_at)
  qed
  then show ?thesis
    by (simp add: flash_driver_ok_def nor_read_def mem_read_conv unat_of_nat_u32)
qed

definition erased_flash_ctx :: "mem option tlv_ctx" where
  "erased_flash_ctx =
     \<lparr>storage_impl = \<lparr>st_ctx = Some (\<lambda>_. 0xFF), st_write = Some (tlv_storage_flash_write nor_write),
        st_erase = None, st_read = Some (tlv_storage_flash_read nor_read)\<rparr>,
      start_offset = 0, end_offset = 4096, tlv_storage_start_marker_size = 8\<rparr>"

theorem tlv_flash_write_read_witness:
  "\<exists>s'. tlv_write (Some erased_flash_ctx) 4 [1, 2, 3] 3 = Some (0, Some (set_storage erased_flash_ctx s')) \<and>
     tlv_read (Some (set_storage erased_flash_ctx s')) 4 3 = Some (Inr [1, 2, 3])"
proof -
  have "flash_holds nor_read nor_write (\<lambda>m i. m (word_of_nat i)) (\<lambda>_. 4096) erased_flash_ctx []"
    by (simp add: flash_holds_def tlv_holds_def erased_flash_ctx_def ctx_lo_def ctx_hi_def
        dev_size_def dev_cell_def)
  from tlv_flash_write_read [OF nor_driver_ok this, of 4 "[1, 2, 3]" 3] show ?thesis
    by (auto simp: entry_ok_def entry_len_def CALCULATE_PADDING_def erased_flash_ctx_def
        ctx_lo_def ctx_hi_def)
qed

section \<open>Limits of the layer\<close>

lemma data_size_256: "length d = 256 \<Longrightarrow> data_size (payload_size (entry_header (ty, d))) = 0"
  by (simp add: entry_header_def word_unat_eq_iff unat_of_nat)

text \<open>
  The entry's size field has eight bits, so a payload of 256 bytes is stored under the
  size 0: the write returns 0, but the next free offset has not moved, so the next write
  overwrites the payload.
\<close>

theorem tlv_write_256_is_lost:
  assumes holds: "ram_holds ctx es" and d: "length d = 256"
    and fits: "ctx_lo ctx + tlv_used es + 260 \<le> ctx_hi ctx"
  shows "\<exists>m'. tlv_write (Some ctx) ty d 256 = Some (0, Some (set_storage ctx m')) \<and>
    get_next_free_offset (set_storage ctx m') = get_next_free_offset ctx"
proof -
  let ?s = "st_ctx (storage_impl ctx)" and ?n = "ctx_lo ctx + tlv_used es"
  note rh = holds [unfolded ram_holds_def]
  have h: "st_read (storage_impl ctx) = Some tlv_storage_ram_read"
    "st_write (storage_impl ctx) = Some tlv_storage_ram_write" "ctx_hi ctx + 70000 \<le> tlv_limit"
    "tlv_region (\<lambda>i. ?s (word_of_nat i)) (ctx_lo ctx) (ctx_hi ctx) es"
    using rh by (simp_all add: tlv_holds_def)
  have len: "length (payload_bytes d) = 256" using d by (simp add: CALCULATE_PADDING_def)
  have nf: "get_next_free_offset ctx = Some (word_of_nat ?n)"
    using ram.next_free_holds [OF rh] fits by simp
  obtain m' where w: "tlv_write (Some ctx) ty d 256 = Some (0, Some (set_storage ctx m'))"
    and c: "\<And>i. i < tlv_limit \<Longrightarrow> m' (word_of_nat i) = (if ?n \<le> i \<and> i < ?n + 4 + length (payload_bytes d)
       then (header_to_bytes (entry_header (ty, d)) @ payload_bytes d) ! (i - ?n) else ?s (word_of_nat i))"
    using ram.write_raw [OF h(1,2) nf ram.used_aligned [OF rh], of 256 d ty] d fits h(3) len
      tlv_region_free [OF h(4)] by auto
  have "tlv_region (\<lambda>i. m' (word_of_nat i)) (ctx_lo ctx) ?n es"
    using h(3) fits by (intro tlv_region_cong [OF _ tlv_region_trim [OF h(4)]]) (simp add: c)
  from ram.next_free_skip [OF this] h(3) fits
  have skip: "get_next_free_offset_loop (tlv_storage_ram_read m') (word_of_nat (ctx_hi ctx))
      (word_of_nat (ctx_lo ctx)) = get_next_free_offset_loop (tlv_storage_ram_read m')
      (word_of_nat (ctx_hi ctx)) (word_of_nat ?n)"
    by simp
  have "tlv_storage_ram_read m' (word_of_nat ?n) 4 = Inr (header_to_bytes (entry_header (ty, d)))"
    using fits h(3) unfolding tlv_storage_ram_read_def mem_read_conv
    by (auto intro!: nth_equalityI simp: c nth_append simp del: of_nat_add)
  then have "get_next_free_offset (set_storage ctx m') = Some (word_of_nat ?n)"
    using fits h(3) by (simp add: get_next_free_offset_def h(1) ctx_words skip next_free_step
        data_size_256 [OF d] del: of_nat_add)
  with w nf show ?thesis by auto
qed

definition large_ram_ctx :: "mem tlv_ctx" where
  "large_ram_ctx = erased_ram_ctx\<lparr>end_offset := 1024\<rparr>"

theorem tlv_write_256_is_lost_witness:
  "\<exists>m'. tlv_write (Some large_ram_ctx) 4 (replicate 256 7) 256 = Some (0, Some (set_storage large_ram_ctx m')) \<and>
     get_next_free_offset (set_storage large_ram_ctx m') = get_next_free_offset large_ram_ctx"
proof (rule tlv_write_256_is_lost)
  show "ram_holds large_ram_ctx []"
    by (simp add: ram_holds_def tlv_holds_def large_ram_ctx_def erased_ram_ctx_def ctx_lo_def ctx_hi_def)
  show "ctx_lo large_ram_ctx + tlv_used [] + 260 \<le> ctx_hi large_ram_ctx"
    by (simp add: large_ram_ctx_def erased_ram_ctx_def ctx_lo_def ctx_hi_def)
qed simp

text \<open>
  When the first header cannot be read, \<^verbatim>\<open>get_next_free_offset\<close> returns the error code
  (as a \<^verbatim>\<open>uint32_t\<close>) where its caller expects an offset: with \<^verbatim>\<open>-EIO\<close> and a payload of four
  bytes \<^verbatim>\<open>tlv_write\<close> passes its size check, stores the header at offset 0xFFFFFFFB and the
  payload at 0xFFFFFFFF, outside the region, and reports success.
\<close>

theorem tlv_write_after_failed_read:
  assumes "st_read (storage_impl ctx) = Some rd" "st_write (storage_impl ctx) = Some wr"
    and "start_offset ctx + tlv_storage_start_marker_size ctx \<le> end_offset ctx" "3 \<le> end_offset ctx"
    and "rd (st_ctx (storage_impl ctx)) (start_offset ctx + tlv_storage_start_marker_size ctx) 4 = Inl (- EIO)"
    and "length d = 4"
    and "wr (st_ctx (storage_impl ctx)) 0xFFFFFFFB (header_to_bytes (entry_header (ty, d))) = (0, s1)"
    and "wr s1 0xFFFFFFFF d = (0, s2)"
  shows "tlv_write (Some ctx) ty d 4 = Some (0, Some (set_storage ctx s2))"
proof -
  have nf: "get_next_free_offset ctx = Some 0xFFFFFFFB"
    using assms(1,3,5) by (simp add: get_next_free_offset_def get_next_free_offset_loop.simps)
  have hdr: "entry_header (ty, d) = \<lparr>hdr_type = ty, payload_size = \<lparr>padding = 0, data_size = 4\<rparr>\<rparr>"
    using assms(6) by (simp add: entry_header_def CALCULATE_PADDING_def)
  have "tlv_write_loop wr d 4 s1 0xFFFFFFFF 0 = Some (0, s2)"
    using assms(6,8) by (simp add: tlv_write_loop.simps write_buff_def)
  moreover have w3: "(4294967299 :: u32) = 3" by (simp add: word_unat_eq_iff)
  ultimately show ?thesis
    using assms(1,2,4,7) nf by (simp add: tlv_write_def CALCULATE_PADDING_def hdr not_less w3)
qed

theorem tlv_write_after_failed_read_witness:
  "\<exists>s2. tlv_write (Some (erased_ram_ctx\<lparr>storage_impl := (storage_impl erased_ram_ctx)
       \<lparr>st_read := Some (\<lambda>_ _ _. Inl (- EIO))\<rparr>\<rparr>)) 4 [1, 2, 3, 4] 4 =
     Some (0, Some (set_storage (erased_ram_ctx\<lparr>storage_impl := (storage_impl erased_ram_ctx)
       \<lparr>st_read := Some (\<lambda>_ _ _. Inl (- EIO))\<rparr>\<rparr>) s2))"
  by (rule exI, rule tlv_write_after_failed_read [where rd = "\<lambda>_ _ _. Inl (- EIO)" and wr = tlv_storage_ram_write])
    (simp_all add: erased_ram_ctx_def tlv_storage_ram_write_def)

end
