(* ===== verification/Crypto_Keys.thy ===== *)
theory Crypto_Keys
  imports Sidewalk_Prelude
begin

text \<open>
  The persistent keys of \<^verbatim>\<open>sid_crypto_keys.c\<close>: key identifiers, import, generation,
  deletion, and the key reference a buffer carries instead of the key bytes. The PSA Crypto
  functions are parameters, gathered in the record \<open>psa_ops\<close>; \<open>psa_contract\<close> states what
  their documentation promises of the key store.
\<close>

section \<open>Key identifiers\<close>

datatype sid_crypto_key =
    SID_CRYPTO_MFG_ED25519_PRIV_KEY
  | SID_CRYPTO_MFG_SECP_256R1_PRIV_KEY
  | SID_CRYPTO_KV_WAN_MASTER_KEY
  | SID_CRYPTO_KV_APP_KEY_KEY
  | SID_CRYPTO_KV_D2D_KEY

text \<open>
  The build selects the key store: ordinary persistent identifiers from
  \<^verbatim>\<open>PSA_KEY_ID_USER_MIN\<close> (1), or key management unit slots, whose identifier for a slot
  offset is the macro \<^verbatim>\<open>SID_CRYPTO_KMU_KEY_ID\<close> of the CRACEN driver.
\<close>

datatype key_storage = KeyStoragePersistent | KeyStorageKMU "nat \<Rightarrow> u32"

fun sid_crypto_key_id :: "key_storage \<Rightarrow> sid_crypto_key \<Rightarrow> u32" where
  "sid_crypto_key_id KeyStoragePersistent SID_CRYPTO_MFG_ED25519_PRIV_KEY = 1"
| "sid_crypto_key_id KeyStoragePersistent SID_CRYPTO_MFG_SECP_256R1_PRIV_KEY = 2"
| "sid_crypto_key_id KeyStoragePersistent SID_CRYPTO_KV_WAN_MASTER_KEY = 3"
| "sid_crypto_key_id KeyStoragePersistent SID_CRYPTO_KV_APP_KEY_KEY = 4"
| "sid_crypto_key_id KeyStoragePersistent SID_CRYPTO_KV_D2D_KEY = 5"
| "sid_crypto_key_id (KeyStorageKMU slot) SID_CRYPTO_MFG_ED25519_PRIV_KEY = slot 0"
| "sid_crypto_key_id (KeyStorageKMU slot) SID_CRYPTO_MFG_SECP_256R1_PRIV_KEY = slot 2"
| "sid_crypto_key_id (KeyStorageKMU slot) SID_CRYPTO_KV_WAN_MASTER_KEY = slot 4"
| "sid_crypto_key_id (KeyStorageKMU slot) SID_CRYPTO_KV_APP_KEY_KEY = slot 5"
| "sid_crypto_key_id (KeyStorageKMU slot) SID_CRYPTO_KV_D2D_KEY = slot 6"

definition SID_CRYPTO_KEYS_ID_IS_SIDEWALK_KEY :: "key_storage \<Rightarrow> u32 \<Rightarrow> bool" where
  "SID_CRYPTO_KEYS_ID_IS_SIDEWALK_KEY cfg i \<longleftrightarrow>
     i = sid_crypto_key_id cfg SID_CRYPTO_MFG_ED25519_PRIV_KEY \<or>
     i = sid_crypto_key_id cfg SID_CRYPTO_MFG_SECP_256R1_PRIV_KEY \<or>
     i = sid_crypto_key_id cfg SID_CRYPTO_KV_WAN_MASTER_KEY \<or>
     i = sid_crypto_key_id cfg SID_CRYPTO_KV_APP_KEY_KEY \<or>
     i = sid_crypto_key_id cfg SID_CRYPTO_KV_D2D_KEY"

section \<open>Key attributes\<close>

datatype psa_algorithm =
    PSA_ALG_NONE | PSA_ALG_PURE_EDDSA | PSA_ALG_ECDSA_SHA_256 | PSA_ALG_ECDH
  | PSA_ALG_SHA_256 | PSA_ALG_SHA_512 | PSA_ALG_HMAC psa_algorithm
  | PSA_ALG_CMAC | PSA_ALG_CTR | PSA_ALG_GCM | PSA_ALG_CCM
  | PSA_ALG_AEAD_WITH_SHORTENED_TAG psa_algorithm nat

datatype psa_key_type =
    PSA_KEY_TYPE_NONE | PSA_KEY_TYPE_ECC_KEY_PAIR_TWISTED_EDWARDS
  | PSA_KEY_TYPE_ECC_KEY_PAIR_SECP_R1 | PSA_KEY_TYPE_ECC_KEY_PAIR_MONTGOMERY
  | PSA_KEY_TYPE_ECC_PUBLIC_KEY_TWISTED_EDWARDS | PSA_KEY_TYPE_ECC_PUBLIC_KEY_SECP_R1
  | PSA_KEY_TYPE_AES | PSA_KEY_TYPE_HMAC

datatype psa_key_usage =
    PSA_KEY_USAGE_NONE | PSA_KEY_USAGE_SIGN_MESSAGE | PSA_KEY_USAGE_VERIFY_MESSAGE | PSA_KEY_USAGE_SIGN_HASH
  | PSA_KEY_USAGE_ENCRYPT | PSA_KEY_USAGE_DECRYPT | PSA_KEY_USAGE_DERIVE | PSA_KEY_USAGE_EXPORT

datatype psa_key_lifetime = PSA_KEY_LIFETIME_PERSISTENT | PSA_KEY_LIFETIME_KMU | PSA_KEY_LIFETIME_VOLATILE

record psa_key_attributes =
  usage_flags :: psa_key_usage
  key_alg :: psa_algorithm
  key_type :: psa_key_type
  key_bits :: nat
  key_lifetime :: psa_key_lifetime
  attr_key_id :: u32

definition sid_crypto_keys_attributes_set :: "key_storage \<Rightarrow> u32 \<Rightarrow> psa_key_attributes" where
  "sid_crypto_keys_attributes_set cfg sid_key_id =
     (let (usage, alg, ty, bits) =
        (if sid_key_id = sid_crypto_key_id cfg SID_CRYPTO_MFG_ED25519_PRIV_KEY then
           (PSA_KEY_USAGE_SIGN_MESSAGE, PSA_ALG_PURE_EDDSA, PSA_KEY_TYPE_ECC_KEY_PAIR_TWISTED_EDWARDS, 255)
         else if sid_key_id = sid_crypto_key_id cfg SID_CRYPTO_MFG_SECP_256R1_PRIV_KEY then
           (PSA_KEY_USAGE_SIGN_MESSAGE, PSA_ALG_ECDSA_SHA_256, PSA_KEY_TYPE_ECC_KEY_PAIR_SECP_R1, 256)
         else if sid_key_id = sid_crypto_key_id cfg SID_CRYPTO_KV_WAN_MASTER_KEY
               \<or> sid_key_id = sid_crypto_key_id cfg SID_CRYPTO_KV_APP_KEY_KEY
               \<or> sid_key_id = sid_crypto_key_id cfg SID_CRYPTO_KV_D2D_KEY then
           (PSA_KEY_USAGE_SIGN_MESSAGE, PSA_ALG_CMAC, PSA_KEY_TYPE_AES, 128)
         else (PSA_KEY_USAGE_NONE, PSA_ALG_NONE, PSA_KEY_TYPE_NONE, 0))
      in \<lparr>usage_flags = usage, key_alg = alg, key_type = ty, key_bits = bits,
          key_lifetime = (case cfg of KeyStoragePersistent \<Rightarrow> PSA_KEY_LIFETIME_PERSISTENT
                                    | KeyStorageKMU _ \<Rightarrow> PSA_KEY_LIFETIME_KMU),
          attr_key_id = sid_key_id\<rparr>)"

section \<open>The PSA functions\<close>

abbreviation (input) PSA_SUCCESS :: int where "PSA_SUCCESS \<equiv> 0"
abbreviation (input) PSA_ERROR_INVALID_HANDLE :: int where "PSA_ERROR_INVALID_HANDLE \<equiv> - 136"
abbreviation (input) PSA_KEY_ID_NULL :: u32 where "PSA_KEY_ID_NULL \<equiv> 0"

text \<open>
  Each function takes the key store and gives its status, its outputs and the store after it.
  \<^verbatim>\<open>psa_export_public_key\<close> gives the bytes it wrote and the length it reported.
\<close>

record 'k psa_ops =
  psa_destroy_key :: "'k \<Rightarrow> u32 \<Rightarrow> int \<times> 'k"
  psa_import_key :: "'k \<Rightarrow> psa_key_attributes \<Rightarrow> u8 list \<Rightarrow> int \<times> u32 \<times> 'k"
  psa_generate_key :: "'k \<Rightarrow> psa_key_attributes \<Rightarrow> int \<times> u32 \<times> 'k"
  psa_export_public_key :: "'k \<Rightarrow> u32 \<Rightarrow> nat \<Rightarrow> int \<times> u8 list \<times> nat"
  psa_purge_key :: "'k \<Rightarrow> u32 \<Rightarrow> int \<times> 'k"
  psa_get_key_attributes :: "'k \<Rightarrow> u32 \<Rightarrow> int"

section \<open>Operations\<close>

text \<open>
  A buffer argument is the memory it points to, or \<open>None\<close> for \<^verbatim>\<open>NULL\<close>. \<^verbatim>\<open>*data_id\<close> reads four
  bytes whatever the size argument says; the outcome \<open>None\<close> is such a read past the memory.
\<close>

definition sid_crypto_keys_init :: "(unit \<Rightarrow> bool) \<Rightarrow> bool \<Rightarrow> int \<times> bool" where
  "sid_crypto_keys_init sid_pal_crypto_init initialized =
     (if \<not> initialized then
        (if \<not> sid_pal_crypto_init () then (- EINVAL, initialized) else (0, True))
      else (0, initialized))"

definition sid_crypto_keys_buffer_get ::
  "key_storage \<Rightarrow> u8 list option \<Rightarrow> nat \<Rightarrow> (int \<times> u32) option" where
  "sid_crypto_keys_buffer_get cfg data_p sz =
     (case data_p of
        None \<Rightarrow> Some (- EINVAL, PSA_KEY_ID_NULL)
      | Some data \<Rightarrow>
          if sz = 0 then Some (- EINVAL, PSA_KEY_ID_NULL)
          else if length data < max 4 sz then None
          else if \<not> SID_CRYPTO_KEYS_ID_IS_SIDEWALK_KEY cfg (u32_of_le (take 4 data))
          then Some (- ENOENT, PSA_KEY_ID_NULL)
          else if \<exists>b \<in> set (drop 4 (take sz data)). b \<noteq> 0 then Some (- ENOENT, PSA_KEY_ID_NULL)
          else Some (0, u32_of_le (take 4 data)))"

definition sid_crypto_keys_new_import ::
  "'k psa_ops \<Rightarrow> key_storage \<Rightarrow> 'k \<Rightarrow> u32 \<Rightarrow> u8 list option \<Rightarrow> nat \<Rightarrow> (int \<times> 'k) option" where
  "sid_crypto_keys_new_import psa cfg ks i data_p sz =
     (if i = PSA_KEY_ID_NULL \<or> data_p = None \<or> sz = 0 then Some (- EINVAL, ks)
      else
        (case sid_crypto_keys_buffer_get cfg data_p sz of
           None \<Rightarrow> None
         | Some (ret, _) \<Rightarrow>
             if ret = 0 then Some (- EBADR, ks)
             else
               (let ks1 = snd (psa_destroy_key psa ks i) in
                case psa_import_key psa ks1 (sid_crypto_keys_attributes_set cfg i) (take sz (the data_p)) of
                  (status, out_id, ks2) \<Rightarrow>
                    if \<not> (status = PSA_SUCCESS \<and> out_id = i) then Some (- EACCES, ks2)
                    else (case psa_purge_key psa ks2 i of
                            (status, ks3) \<Rightarrow>
                              if status \<noteq> PSA_SUCCESS then Some (- EFAULT, ks3) else Some (0, ks3)))))"

abbreviation (input) MAX_PUBLIC_KEY_LENGTH :: nat where "MAX_PUBLIC_KEY_LENGTH \<equiv> 65"

text \<open>
  Generation copies the public key out of a 65-byte local buffer; a request beyond it is the
  outcome \<open>None\<close>. The buffer is filled whether or not the export succeeded.
\<close>

definition sid_crypto_keys_new_generate ::
  "'k psa_ops \<Rightarrow> key_storage \<Rightarrow> 'k \<Rightarrow> u32 \<Rightarrow> u8 list option \<Rightarrow> nat \<Rightarrow> (int \<times> u8 list option \<times> 'k) option" where
  "sid_crypto_keys_new_generate psa cfg ks i puk puk_size =
     (if i = PSA_KEY_ID_NULL \<or> puk = None \<or> puk_size = 0 then Some (- EINVAL, puk, ks)
      else
        (let ks1 = snd (psa_destroy_key psa ks i) in
         case psa_generate_key psa ks1 (sid_crypto_keys_attributes_set cfg i) of
           (status, out_id, ks2) \<Rightarrow>
             if \<not> (status = PSA_SUCCESS \<and> out_id = i) then Some (- EACCES, puk, ks2)
             else
               (let off = (if i = sid_crypto_key_id cfg SID_CRYPTO_MFG_SECP_256R1_PRIV_KEY then 1 else 0)
                in if puk_size + off > MAX_PUBLIC_KEY_LENGTH then None
                   else (case psa_export_public_key psa ks2 i (puk_size + off) of
                     (status, written, out_size) \<Rightarrow>
                       let public_key = take MAX_PUBLIC_KEY_LENGTH
                             (written @ replicate MAX_PUBLIC_KEY_LENGTH 0);
                           puk1 = map_option (\<lambda>p. take puk_size (drop off public_key) @ drop puk_size p) puk
                       in if \<not> (status = PSA_SUCCESS \<and> out_size = puk_size + off)
                          then Some (- EBADF, puk1, ks2)
                          else (case psa_purge_key psa ks2 i of
                                  (status, ks3) \<Rightarrow>
                                    if status \<noteq> PSA_SUCCESS then Some (- EFAULT, puk1, ks3)
                                    else Some (0, puk1, ks3))))))"

definition sid_crypto_keys_buffer_set ::
  "'k psa_ops \<Rightarrow> 'k \<Rightarrow> u32 \<Rightarrow> u8 list option \<Rightarrow> nat \<Rightarrow> int \<times> u8 list option" where
  "sid_crypto_keys_buffer_set psa ks i data_p sz =
     (case data_p of
        None \<Rightarrow> (- EINVAL, data_p)
      | Some data \<Rightarrow>
          if i = PSA_KEY_ID_NULL \<or> sz < 4 then (- EINVAL, data_p)
          else if psa_get_key_attributes psa ks i \<noteq> PSA_SUCCESS then (- EACCES, data_p)
          else (0, Some (u32_to_le i @ replicate (sz - 4) 0 @ drop sz data)))"

definition sid_crypto_keys_delete :: "'k psa_ops \<Rightarrow> key_storage \<Rightarrow> 'k \<Rightarrow> u32 \<Rightarrow> int \<times> 'k" where
  "sid_crypto_keys_delete psa cfg ks i =
     (if i = PSA_KEY_ID_NULL then (- EINVAL, ks)
      else if \<not> SID_CRYPTO_KEYS_ID_IS_SIDEWALK_KEY cfg i then (- ENOENT, ks)
      else (case psa_destroy_key psa ks i of
              (status, ks1) \<Rightarrow>
                if status = PSA_ERROR_INVALID_HANDLE then (- EINVAL, ks1)
                else if status \<noteq> PSA_SUCCESS then (- EFAULT, ks1)
                else (0, ks1)))"

definition sid_crypto_keys_deinit :: "unit \<Rightarrow> int" where
  "sid_crypto_keys_deinit _ = 0"

section \<open>The key store contract\<close>

text \<open>
  What the PSA Crypto documentation says of a key store \<open>keys\<close> that maps an identifier to its
  attributes and key material: destroying a key removes it or, with an error, does nothing;
  importing succeeds only under an unused identifier and then stores the material there, which
  for a key that is not volatile is the attributes' identifier; purging drops cached copies
  only.
\<close>

definition psa_contract :: "'k psa_ops \<Rightarrow> ('k \<Rightarrow> u32 \<Rightarrow> (psa_key_attributes \<times> u8 list) option) \<Rightarrow> bool" where
  "psa_contract psa keys \<longleftrightarrow>
     (\<forall>ks i. case psa_destroy_key psa ks i of
        (st, ks1) \<Rightarrow> keys ks1 = (if st = PSA_SUCCESS then (keys ks)(i := None) else keys ks)) \<and>
     (\<forall>ks at d. case psa_import_key psa ks at d of
        (st, out, ks1) \<Rightarrow>
          (if st = PSA_SUCCESS
           then keys ks out = None \<and> keys ks1 = (keys ks)(out \<mapsto> (at, d)) \<and>
                (key_lifetime at \<noteq> PSA_KEY_LIFETIME_VOLATILE \<longrightarrow> out = attr_key_id at)
           else keys ks1 = keys ks)) \<and>
     (\<forall>ks i. keys (snd (psa_purge_key psa ks i)) = keys ks) \<and>
     (\<forall>ks i. psa_get_key_attributes psa ks i = PSA_SUCCESS \<longrightarrow> keys ks i \<noteq> None)"

lemma psa_destroyD:
  "psa_contract psa keys \<Longrightarrow> psa_destroy_key psa ks i = (st, ks1) \<Longrightarrow>
   keys ks1 = (if st = PSA_SUCCESS then (keys ks)(i := None) else keys ks)"
  by (auto simp: psa_contract_def split: prod.splits)

lemma psa_importD:
  "psa_contract psa keys \<Longrightarrow> psa_import_key psa ks at d = (st, out, ks1) \<Longrightarrow>
   (if st = PSA_SUCCESS
    then keys ks out = None \<and> keys ks1 = (keys ks)(out \<mapsto> (at, d)) \<and>
         (key_lifetime at \<noteq> PSA_KEY_LIFETIME_VOLATILE \<longrightarrow> out = attr_key_id at)
    else keys ks1 = keys ks)"
  unfolding psa_contract_def by (drule conjunct2, drule conjunct1, drule spec [of _ ks], drule spec [of _ at], drule spec [of _ d]) simp

lemma psa_purgeD:
  "psa_contract psa keys \<Longrightarrow> psa_purge_key psa ks i = (st, ks1) \<Longrightarrow> keys ks1 = keys ks"
  unfolding psa_contract_def by (metis snd_conv)

lemma attr_id_attributes_set [simp]: "attr_key_id (sid_crypto_keys_attributes_set cfg i) = i"
  by (simp add: sid_crypto_keys_attributes_set_def split: prod.splits)

lemma lifetime_attributes_set [simp]:
  "key_lifetime (sid_crypto_keys_attributes_set cfg i) \<noteq> PSA_KEY_LIFETIME_VOLATILE"
  by (simp add: sid_crypto_keys_attributes_set_def split: prod.splits key_storage.splits)

text \<open>When a buffer of at least four bytes is a key reference.\<close>

definition is_key_reference :: "key_storage \<Rightarrow> u8 list \<Rightarrow> bool" where
  "is_key_reference cfg data \<longleftrightarrow>
     SID_CRYPTO_KEYS_ID_IS_SIDEWALK_KEY cfg (u32_of_le (take 4 data)) \<and> (\<forall>b \<in> set (drop 4 data). b = 0)"

lemma buffer_get_conv:
  "4 \<le> sz \<Longrightarrow> length data = sz \<Longrightarrow>
   sid_crypto_keys_buffer_get cfg (Some data) sz =
     Some (if is_key_reference cfg data then (0, u32_of_le (take 4 data)) else (- ENOENT, PSA_KEY_ID_NULL))"
  by (auto simp: sid_crypto_keys_buffer_get_def is_key_reference_def)

section \<open>Properties\<close>

text \<open>
  A key reference survives its trip through a buffer: when the key exists,
  \<^verbatim>\<open>sid_crypto_keys_buffer_set\<close> leaves only the key identifier and zeros in the buffer, and
  \<^verbatim>\<open>sid_crypto_keys_buffer_get\<close> finds that identifier there; importing such a buffer as key
  material is refused with \<^verbatim>\<open>-EBADR\<close> and leaves the key store alone.
\<close>

theorem key_reference_roundtrip:
  assumes "SID_CRYPTO_KEYS_ID_IS_SIDEWALK_KEY cfg i" "i \<noteq> PSA_KEY_ID_NULL"
    and "4 \<le> sz" "length data = sz" "psa_get_key_attributes psa ks i = PSA_SUCCESS"
  shows "\<exists>data'. sid_crypto_keys_buffer_set psa ks i (Some data) sz = (0, Some data') \<and>
    data' = u32_to_le i @ replicate (sz - 4) 0 \<and>
    sid_crypto_keys_buffer_get cfg (Some data') sz = Some (0, i) \<and>
    (j \<noteq> PSA_KEY_ID_NULL \<longrightarrow>
      sid_crypto_keys_new_import psa cfg ks j (Some data') sz = Some (- EBADR, ks))"
proof -
  let ?d = "u32_to_le i @ replicate (sz - 4) 0"
  have "length ?d = sz" using assms(3,4) by simp
  moreover have "is_key_reference cfg ?d" using assms(1) by (auto simp: is_key_reference_def)
  ultimately have get: "sid_crypto_keys_buffer_get cfg (Some ?d) sz = Some (0, i)"
    using buffer_get_conv [of sz ?d cfg] assms(3,4) by simp
  have "sid_crypto_keys_buffer_set psa ks i (Some data) sz = (0, Some ?d)"
    using assms by (simp add: sid_crypto_keys_buffer_set_def)
  moreover have "j \<noteq> PSA_KEY_ID_NULL \<longrightarrow>
      sid_crypto_keys_new_import psa cfg ks j (Some ?d) sz = Some (- EBADR, ks)"
    using get assms(3,4) by (auto simp: sid_crypto_keys_new_import_def)
  ultimately show ?thesis using get by blast
qed

text \<open>The outcomes of an import.\<close>

lemma import_effect:
  assumes psa: "psa_contract psa keys" and len: "4 \<le> sz" "length data = sz" and i: "i \<noteq> PSA_KEY_ID_NULL"
  shows "\<exists>ret ks'. sid_crypto_keys_new_import psa cfg ks i (Some data) sz = Some (ret, ks') \<and>
    (\<forall>j. j \<noteq> i \<longrightarrow> keys ks' j = keys ks j) \<and>
    (ret = 0 \<or> ret = - EFAULT \<longrightarrow> keys ks' i = Some (sid_crypto_keys_attributes_set cfg i, data)) \<and>
    (ret = - EACCES \<longrightarrow> keys ks' i = keys ks i \<or> keys ks' i = None) \<and>
    (ret = - EBADR \<longleftrightarrow> is_key_reference cfg data) \<and> (ret = - EBADR \<longrightarrow> ks' = ks) \<and>
    ret \<in> {0, - EBADR, - EACCES, - EFAULT}"
proof (cases "is_key_reference cfg data")
  case True
  then show ?thesis
    using len i by (auto simp: sid_crypto_keys_new_import_def buffer_get_conv)
next
  case False
  obtain st1 ks1 where d: "psa_destroy_key psa ks i = (st1, ks1)" by fastforce
  obtain st2 out ks2 where m: "psa_import_key psa ks1 (sid_crypto_keys_attributes_set cfg i) data = (st2, out, ks2)"
    by (metis prod_cases3)
  obtain st3 ks3 where p: "psa_purge_key psa ks2 i = (st3, ks3)" by fastforce
  note facts = psa_destroyD [OF psa d] psa_importD [OF psa m] psa_purgeD [OF psa p]
  show ?thesis
    using len i False facts
    by (auto simp: sid_crypto_keys_new_import_def buffer_get_conv d m p split: if_splits)
qed

text \<open>
  Importing a key on a key store that keeps the PSA contract: the call returns; on
  success exactly the given bytes are stored under the identifier with the attributes of
  that identifier; on any failure no key other than the one addressed has changed, and that
  one is either untouched or gone; a key reference is refused before the old key is destroyed.
\<close>

theorem key_import_stores:
  assumes psa: "psa_contract psa keys" and len: "4 \<le> sz" "length data = sz" and i: "i \<noteq> PSA_KEY_ID_NULL"
  shows "\<exists>ret ks'. sid_crypto_keys_new_import psa cfg ks i (Some data) sz = Some (ret, ks') \<and>
    (\<forall>j. j \<noteq> i \<longrightarrow> keys ks' j = keys ks j) \<and>
    (ret = 0 \<or> ret = - EFAULT \<longrightarrow> keys ks' i = Some (sid_crypto_keys_attributes_set cfg i, data)) \<and>
    (ret = - EACCES \<longrightarrow> keys ks' i = keys ks i \<or> keys ks' i = None) \<and>
    (ret = - EBADR \<longleftrightarrow> is_key_reference cfg data) \<and> (ret = - EBADR \<longrightarrow> ks' = ks) \<and>
    ret \<in> {0, - EBADR, - EACCES, - EFAULT}"
  by (rule import_effect [OF assms])

text \<open>
  Deleting a key: only Sidewalk's own identifiers are accepted, success removes exactly
  that key, and every failure leaves the key store's contents as they were.
\<close>

theorem key_delete_removes:
  assumes psa: "psa_contract psa keys" and r: "sid_crypto_keys_delete psa cfg ks i = (ret, ks')"
  shows "(ret = 0 \<longrightarrow> SID_CRYPTO_KEYS_ID_IS_SIDEWALK_KEY cfg i \<and> keys ks' = (keys ks)(i := None)) \<and>
    (ret \<noteq> 0 \<longrightarrow> keys ks' = keys ks) \<and>
    (i \<noteq> PSA_KEY_ID_NULL \<and> \<not> SID_CRYPTO_KEYS_ID_IS_SIDEWALK_KEY cfg i \<longrightarrow> ret = - ENOENT \<and> ks' = ks)"
proof -
  obtain st ks1 where d: "psa_destroy_key psa ks i = (st, ks1)" by fastforce
  show ?thesis
    using r psa_destroyD [OF psa d] by (auto simp: sid_crypto_keys_delete_def d split: if_splits)
qed

section \<open>Concrete instances\<close>

text \<open>A key store that keeps the contract: a finite map, with every call succeeding where it may.\<close>

type_synonym key_map = "u32 \<Rightarrow> (psa_key_attributes \<times> u8 list) option"

definition map_psa :: "key_map psa_ops" where
  "map_psa =
     \<lparr>psa_destroy_key = (\<lambda>ks i. if ks i = None then (PSA_ERROR_INVALID_HANDLE, ks) else (0, ks(i := None))),
      psa_import_key = (\<lambda>ks at d.
         let i = (if key_lifetime at = PSA_KEY_LIFETIME_VOLATILE then 0x40000000 else attr_key_id at)
         in if ks i = None then (0, i, ks(i \<mapsto> (at, d))) else (- 139, 0, ks)),
      psa_generate_key = (\<lambda>ks at. (- 134, 0, ks)),
      psa_export_public_key = (\<lambda>ks i n. (- 134, [], 0)),
      psa_purge_key = (\<lambda>ks i. (0, ks)),
      psa_get_key_attributes = (\<lambda>ks i. if ks i = None then PSA_ERROR_INVALID_HANDLE else 0)\<rparr>"

lemma map_psa_contract: "psa_contract map_psa (\<lambda>ks. ks)"
  by (simp add: psa_contract_def map_psa_def Let_def)

definition one_key :: key_map where
  "one_key = [2 \<mapsto> (sid_crypto_keys_attributes_set KeyStoragePersistent 2, [1])]"

theorem key_reference_roundtrip_witness:
  "\<exists>data'. sid_crypto_keys_buffer_set map_psa one_key 2 (Some [9, 9, 9, 9, 9, 9]) 6 = (0, Some data') \<and>
     sid_crypto_keys_new_import map_psa KeyStoragePersistent one_key 1 (Some data') 6 = Some (- EBADR, one_key)"
proof -
  have "psa_get_key_attributes map_psa one_key 2 = PSA_SUCCESS" by (simp add: map_psa_def one_key_def)
  with key_reference_roundtrip [of KeyStoragePersistent 2 6 "[9, 9, 9, 9, 9, 9]" map_psa one_key 1]
  show ?thesis by (auto simp: SID_CRYPTO_KEYS_ID_IS_SIDEWALK_KEY_def)
qed

theorem key_import_stores_witness:
  "\<exists>ret ks'. sid_crypto_keys_new_import map_psa KeyStoragePersistent one_key 1 (Some [7, 8, 9, 10, 11]) 5 =
     Some (ret, ks') \<and> ks' 2 = one_key 2"
  using key_import_stores [OF map_psa_contract, of 5 "[7, 8, 9, 10, 11]" 1 KeyStoragePersistent one_key]
  by fastforce

theorem key_delete_removes_witness:
  "snd (sid_crypto_keys_delete map_psa KeyStoragePersistent one_key 2) = one_key(2 := None)"
proof -
  obtain ret ks' where r: "sid_crypto_keys_delete map_psa KeyStoragePersistent one_key 2 = (ret, ks')"
    by fastforce
  moreover have "ret = 0"
    using r by (simp add: sid_crypto_keys_delete_def map_psa_def one_key_def
        SID_CRYPTO_KEYS_ID_IS_SIDEWALK_KEY_def)
  ultimately show ?thesis using key_delete_removes [OF map_psa_contract r] by simp
qed

end
