(* ===== verification/Mfg_Parsers.thy ===== *)
theory Mfg_Parsers
  imports Tlv_Props Crypto_Keys
begin

text \<open>
  The two parsers that turn a raw manufacturing partition into TLV storage:
  \<^verbatim>\<open>sid_mfg_hex_v8.c\<close> (a raw tag-length-value stream) and \<^verbatim>\<open>sid_mfg_hex_v7.c\<close> (values at
  fixed word offsets). Both build the new contents in RAM, move the private keys to the key
  store when the build asks for it, then erase the partition and write the RAM image over it.
\<close>

section \<open>Environment and data\<close>

text \<open>
  A step that may overrun a buffer or call a \<^verbatim>\<open>NULL\<close> function pointer gives a guarded result;
  \<open>Fault\<close> is that outcome. The outer option is termination, as in the TLV layer.
\<close>

datatype 'a guarded = Fault | Done 'a

text \<open>The build configuration and the PSA functions the parsers are compiled against.\<close>

record 'k mfg_env =
  env_psa :: "'k psa_ops"
  env_keys :: key_storage
  psa_key_storage :: bool
  max_element_size :: nat
  legacy_offsets :: bool

abbreviation (input) MFG_FLAGS_TYPE_ID :: tlv_type where "MFG_FLAGS_TYPE_ID \<equiv> 0x6FFD"
abbreviation (input) MFG_DEVICE_PRIV_ED25519 :: tlv_type where "MFG_DEVICE_PRIV_ED25519 \<equiv> 6"
abbreviation (input) MFG_DEVICE_PRIV_P256R1 :: tlv_type where "MFG_DEVICE_PRIV_P256R1 \<equiv> 9"

text \<open>The start marker: the magic string \<^verbatim>\<open>SID0\<close> and the big-endian version 8.\<close>

definition mfg_header :: "u8 list" where
  "mfg_header = [0x53, 0x49, 0x44, 0x30, 0, 0, 0, 8]"

text \<open>The flags word: bit 7 is \<^verbatim>\<open>initialized\<close>, bit 6 is \<^verbatim>\<open>keys_in_psa\<close>.\<close>

definition mfg_flags :: "bool \<Rightarrow> u8 list" where
  "mfg_flags keys_in_psa = [if keys_in_psa then 0xC0 else 0x80, 0, 0, 0]"

section \<open>Shared steps\<close>

text \<open>
  The RAM image: a block of the partition's size from the allocator, filled with 0xFF; what
  lies behind it on the heap is arbitrary.
\<close>

definition new_ram_tlv :: "mem \<Rightarrow> 's tlv_ctx \<Rightarrow> mem tlv_ctx" where
  "new_ram_tlv heap tlv =
     (let sz = end_offset tlv - start_offset tlv in
      \<lparr>storage_impl = \<lparr>st_ctx = mem_fill heap 0 0xFF (unat sz), st_write = Some tlv_storage_ram_write,
         st_erase = None, st_read = Some tlv_storage_ram_read\<rparr>,
       start_offset = 0, end_offset = sz,
       tlv_storage_start_marker_size = tlv_storage_start_marker_size tlv\<rparr>)"

text \<open>
  One element: a private key goes to the key store (when the build has one) and never into
  the image, anything else is appended to the image. \<open>buf\<close> is the parser's payload buffer.
\<close>

definition store_element ::
  "'k mfg_env \<Rightarrow> mem tlv_ctx \<Rightarrow> 'k \<Rightarrow> tlv_type \<Rightarrow> u8 list \<Rightarrow> u16 \<Rightarrow>
   (int \<times> mem tlv_ctx \<times> 'k) guarded option" where
  "store_element env ram ks key buf sz =
     (if psa_key_storage env \<and> (key = MFG_DEVICE_PRIV_ED25519 \<or> key = MFG_DEVICE_PRIV_P256R1) then
        (case sid_crypto_keys_new_import (env_psa env) (env_keys env) ks
                (sid_crypto_key_id (env_keys env)
                   (if key = MFG_DEVICE_PRIV_ED25519 then SID_CRYPTO_MFG_ED25519_PRIV_KEY
                    else SID_CRYPTO_MFG_SECP_256R1_PRIV_KEY))
                (Some buf) (unat sz) of
           None \<Rightarrow> Some Fault
         | Some (err, ks1) \<Rightarrow>
             if err \<noteq> 0 then Some (Done (- EACCES, ram, ks1)) else Some (Done (0, ram, ks1)))
      else
        (case tlv_write (Some ram) key buf sz of
           None \<Rightarrow> None
         | Some (ret, ram1) \<Rightarrow>
             if ret \<noteq> 0 then Some (Done (- EIO, the ram1, ks)) else Some (Done (0, the ram1, ks))))"

text \<open>
  The tail of both parsers: the flags entry goes into the image, the partition is erased and
  the image written over it.
\<close>

definition mfg_finish ::
  "'k mfg_env \<Rightarrow> 's tlv_ctx \<Rightarrow> mem tlv_ctx \<Rightarrow> 'k \<Rightarrow> (int \<times> 's tlv_ctx \<times> 'k) guarded option" where
  "mfg_finish env tlv ram ks =
     (let sz = end_offset tlv - start_offset tlv in
      case tlv_write (Some ram) MFG_FLAGS_TYPE_ID (mfg_flags (psa_key_storage env)) 4 of
        None \<Rightarrow> None
      | Some (ret, ram1) \<Rightarrow>
          if ret \<noteq> 0 then Some (Done (- EIO, tlv, ks))
          else
            (case (st_erase (storage_impl tlv), st_write (storage_impl tlv)) of
               (Some er, Some wr) \<Rightarrow>
                 (case er (st_ctx (storage_impl tlv)) (start_offset tlv) sz of
                    (ret, s1) \<Rightarrow>
                      if ret \<noteq> 0 then Some (Done (- EIO, set_storage tlv s1, ks))
                      else
                        (case wr s1 (start_offset tlv)
                                (mem_read (st_ctx (storage_impl (the ram1))) 0 (unat sz)) of
                           (ret, s2) \<Rightarrow>
                             Some (Done (if ret \<noteq> 0 then - EIO else 0, set_storage tlv s2, ks))))
             | _ \<Rightarrow> Some Fault))"

section \<open>The version 8 parser\<close>

partial_function (option) parse_raw_loop ::
  "'k mfg_env \<Rightarrow> (u32 \<Rightarrow> nat \<Rightarrow> int + u8 list) \<Rightarrow> u32 \<Rightarrow> u32 \<Rightarrow> u8 list \<Rightarrow> mem tlv_ctx \<Rightarrow> 'k \<Rightarrow>
   (int \<times> mem tlv_ctx \<times> 'k) guarded option" where
  "parse_raw_loop env rd endo offset buf ram ks =
     (if offset < endo then
        (case rd offset 2 of
           Inl _ \<Rightarrow> Some (Done (- EIO, ram, ks))
         | Inr key \<Rightarrow>
             (let key_decoded = push_bit 8 (ucast (key ! 0)) + ucast (key ! 1) :: u16 in
              if key_decoded = 0xFFFF then Some (Done (0, ram, ks))
              else
                (case rd (offset + 2) 2 of
                   Inl _ \<Rightarrow> Some (Done (- EIO, ram, ks))
                 | Inr siz \<Rightarrow>
                     (let size_decoded = push_bit 8 (ucast (siz ! 0)) OR ucast (siz ! 1) :: u16 in
                      case rd (offset + 4) (unat size_decoded) of
                        Inl _ \<Rightarrow> Some (Done (- EIO, ram, ks))
                      | Inr payload \<Rightarrow>
                          if unat size_decoded > max_element_size env then Some Fault
                          else
                            (let buf1 = payload @ drop (unat size_decoded) buf in
                             case store_element env ram ks key_decoded buf1 size_decoded of
                               None \<Rightarrow> None
                             | Some Fault \<Rightarrow> Some Fault
                             | Some (Done (ret, ram1, ks1)) \<Rightarrow>
                                 if ret \<noteq> 0 then Some (Done (ret, ram1, ks1))
                                 else parse_raw_loop env rd endo (offset + 4 + ucast size_decoded)
                                        buf1 ram1 ks1)))))
      else Some (Done (0, ram, ks)))"

text \<open>\<open>heap\<close> is what \<^verbatim>\<open>sid_hal_malloc\<close> returned: the memory at the new block, or \<^verbatim>\<open>NULL\<close>.\<close>

definition parse_mfg_raw_tlv ::
  "'k mfg_env \<Rightarrow> mem option \<Rightarrow> 's tlv_ctx \<Rightarrow> 'k \<Rightarrow> (int \<times> 's tlv_ctx \<times> 'k) guarded option" where
  "parse_mfg_raw_tlv env heap_p tlv ks =
     (if end_offset tlv \<le> start_offset tlv then Some (Done (- EINVAL, tlv, ks))
      else
        (case heap_p of
           None \<Rightarrow> Some (Done (- ENOMEM, tlv, ks))
         | Some heap \<Rightarrow>
             (case tlv_write_start_marker (Some (new_ram_tlv heap tlv)) mfg_header 8 of
                (ret, ram) \<Rightarrow>
                  if ret \<noteq> 0 then Some (Done (- EIO, tlv, ks))
                  else
                    (case st_read (storage_impl tlv) of
                       None \<Rightarrow> Some Fault
                     | Some rd \<Rightarrow>
                         (case parse_raw_loop env (rd (st_ctx (storage_impl tlv))) (end_offset tlv)
                                 (start_offset tlv + tlv_storage_start_marker_size tlv)
                                 (replicate (max_element_size env) 0) (the ram) ks of
                            None \<Rightarrow> None
                          | Some Fault \<Rightarrow> Some Fault
                          | Some (Done (ret, ram1, ks1)) \<Rightarrow>
                              if ret \<noteq> 0 then Some (Done (ret, tlv, ks1))
                              else mfg_finish env tlv ram1 ks1)))))"

section \<open>The version 7 parser\<close>

text \<open>
  The value table: value, size in bytes, offset in words. The offsets are those of
  \<^verbatim>\<open>mfg_store_offsets.h\<close>, 0xFFFFFFFF standing for \<^verbatim>\<open>SID_PAL_MFG_STORE_INVALID_OFFSET\<close>.
\<close>

definition sid_pal_mfg_store_app_value_to_offset_table :: "bool \<Rightarrow> (tlv_type \<times> u16 \<times> u32) list" where
  "sid_pal_mfg_store_app_value_to_offset_table legacy =
     [(3, 17, if legacy then 32 else 2),
      (4, 32, if legacy then 0xFFFFFFFF else 8),
      (5, 32, if legacy then 92 else 18),
      (6, 32, if legacy then 100 else 26),
      (7, 32, if legacy then 108 else 34),
      (8, 64, if legacy then 116 else 42),
      (9, 32, if legacy then 132 else 58),
      (10, 64, if legacy then 140 else 66),
      (11, 64, if legacy then 156 else 82),
      (12, 32, if legacy then 0xFFFFFFFF else 98),
      (13, 64, if legacy then 0xFFFFFFFF else 106),
      (14, 4, if legacy then 0xFFFFFFFF else 122),
      (15, 64, if legacy then 0xFFFFFFFF else 123),
      (16, 64, if legacy then 0xFFFFFFFF else 139),
      (17, 4, if legacy then 0xFFFFFFFF else 155),
      (18, 32, if legacy then 172 else 156),
      (19, 64, if legacy then 180 else 164),
      (20, 4, if legacy then 196 else 180),
      (21, 64, if legacy then 197 else 181),
      (22, 64, if legacy then 213 else 197),
      (23, 4, if legacy then 229 else 213),
      (24, 32, if legacy then 230 else 214),
      (25, 64, if legacy then 238 else 222),
      (26, 4, if legacy then 254 else 238),
      (27, 64, if legacy then 255 else 239),
      (28, 64, if legacy then 271 else 255),
      (29, 4, if legacy then 287 else 271),
      (30, 32, if legacy then 0xFFFFFFFF else 272),
      (31, 64, if legacy then 0xFFFFFFFF else 280),
      (32, 4, if legacy then 0xFFFFFFFF else 296),
      (33, 64, if legacy then 0xFFFFFFFF else 297),
      (34, 64, if legacy then 0xFFFFFFFF else 313),
      (35, 4, if legacy then 0xFFFFFFFF else 329),
      (36, 32, if legacy then 352 else 330),
      (37, 64, if legacy then 360 else 338),
      (38, 4, if legacy then 576 else 16)]"

fun parse_offsets_loop ::
  "'k mfg_env \<Rightarrow> (u32 \<Rightarrow> nat \<Rightarrow> int + u8 list) \<Rightarrow> u32 \<Rightarrow> (tlv_type \<times> u16 \<times> u32) list \<Rightarrow> u8 list \<Rightarrow>
   mem tlv_ctx \<Rightarrow> 'k \<Rightarrow> (int \<times> mem tlv_ctx \<times> 'k) guarded option" where
  "parse_offsets_loop env rd starto [] buf ram ks = Some (Done (0, ram, ks))"
| "parse_offsets_loop env rd starto ((val, sz, off) # els) buf ram ks =
     (case rd (starto + off * 4) (unat sz) of
        Inl _ \<Rightarrow> Some (Done (- EIO, ram, ks))
      | Inr payload \<Rightarrow>
          if unat sz > max_element_size env then Some Fault
          else
            (let buf1 = payload @ drop (unat sz) buf in
             if sz > 64 \<or> (\<forall>b \<in> set (take (unat sz) buf1). b = 0xFF)
             then parse_offsets_loop env rd starto els buf1 ram ks
             else
               (case store_element env ram ks val buf1 sz of
                  None \<Rightarrow> None
                | Some Fault \<Rightarrow> Some Fault
                | Some (Done (ret, ram1, ks1)) \<Rightarrow>
                    if ret \<noteq> 0 then Some (Done (ret, ram1, ks1))
                    else parse_offsets_loop env rd starto els buf1 ram1 ks1)))"

definition parse_mfg_const_offsets ::
  "'k mfg_env \<Rightarrow> mem option \<Rightarrow> 's tlv_ctx \<Rightarrow> 'k \<Rightarrow> (int \<times> 's tlv_ctx \<times> 'k) guarded option" where
  "parse_mfg_const_offsets env heap_p tlv ks =
     (if end_offset tlv \<le> start_offset tlv then Some (Done (- EINVAL, tlv, ks))
      else
        (case heap_p of
           None \<Rightarrow> Some (Done (- ENOMEM, tlv, ks))
         | Some heap \<Rightarrow>
             (case tlv_write_start_marker (Some (new_ram_tlv heap tlv)) mfg_header 8 of
                (ret, ram) \<Rightarrow>
                  if ret \<noteq> 0 then Some (Done (- EIO, tlv, ks))
                  else
                    (case st_read (storage_impl tlv) of
                       None \<Rightarrow> Some Fault
                     | Some rd \<Rightarrow>
                         (case parse_offsets_loop env (rd (st_ctx (storage_impl tlv))) (start_offset tlv)
                                 (sid_pal_mfg_store_app_value_to_offset_table (legacy_offsets env))
                                 (replicate (max_element_size env) 0) (the ram) ks of
                            None \<Rightarrow> None
                          | Some Fault \<Rightarrow> Some Fault
                          | Some (Done (ret, ram1, ks1)) \<Rightarrow>
                              if ret \<noteq> 0 then Some (Done (ret, tlv, ks1))
                              else mfg_finish env tlv ram1 ks1)))))"

end
