(* ===== verification/Mfg_Refine.thy ===== *)
theory Mfg_Refine
  imports Mfg_Parsers
begin

text \<open>
  What the manufacturing parsers achieve: the raw partition is a list of values, and after a
  successful run the partition is a TLV region that holds the same values (less the private
  keys, which are in the key store) followed by the flags entry. The storage contract is
  \<open>tlv_rewritable\<close>, the TLV back-end contract extended with erasing.
\<close>

section \<open>Values and the key store\<close>

definition mfg_private :: "'k mfg_env \<Rightarrow> tlv_type \<Rightarrow> bool" where
  "mfg_private env key \<longleftrightarrow> psa_key_storage env \<and> (key = MFG_DEVICE_PRIV_ED25519 \<or> key = MFG_DEVICE_PRIV_P256R1)"

definition mfg_key_id :: "'k mfg_env \<Rightarrow> tlv_type \<Rightarrow> u32" where
  "mfg_key_id env key =
     sid_crypto_key_id (env_keys env)
       (if key = MFG_DEVICE_PRIV_ED25519 then SID_CRYPTO_MFG_ED25519_PRIV_KEY
        else SID_CRYPTO_MFG_SECP_256R1_PRIV_KEY)"

text \<open>The values that stay in the partition, and the imports of the others, in order.\<close>

definition mfg_kept :: "'k mfg_env \<Rightarrow> entry list \<Rightarrow> entry list" where
  "mfg_kept env es = filter (\<lambda>e. \<not> mfg_private env (fst e)) es"

fun mfg_import :: "'k mfg_env \<Rightarrow> 'k \<Rightarrow> entry list \<Rightarrow> 'k option" where
  "mfg_import env ks [] = Some ks"
| "mfg_import env ks (e # es) =
     (if mfg_private env (fst e) then
        (case sid_crypto_keys_new_import (env_psa env) (env_keys env) ks (mfg_key_id env (fst e))
                (Some (snd e)) (length (snd e)) of
           Some (ret, ks1) \<Rightarrow> if ret = 0 then mfg_import env ks1 es else None
         | None \<Rightarrow> None)
      else mfg_import env ks es)"

definition mfg_entry_ok :: "'k mfg_env \<Rightarrow> entry \<Rightarrow> bool" where
  "mfg_entry_ok env e \<longleftrightarrow>
     entry_ok e \<and> length (snd e) \<le> max_element_size env \<and> (mfg_private env (fst e) \<longrightarrow> 4 \<le> length (snd e))"

lemma mfg_kept_simps [simp]:
  "mfg_kept env [] = []"
  "mfg_kept env (e # es) = (if mfg_private env (fst e) then mfg_kept env es else e # mfg_kept env es)"
  by (simp_all add: mfg_kept_def)

lemma tlv_used_append [simp]: "tlv_used (es @ es') = tlv_used es + tlv_used es'"
  by (simp add: tlv_used_def)

lemma set_storage_twice [simp]: "set_storage (set_storage ctx a) b = set_storage ctx b"
  by (simp add: set_storage_def)

lemma set_storage_self [simp]: "set_storage ctx (st_ctx (storage_impl ctx)) = ctx"
  by (simp add: set_storage_def)

section \<open>Writing from a longer buffer\<close>

lemma write_buff_take: "write_buff (take (unat sz) d) sz w = write_buff d sz w"
  by (simp add: write_buff_def drop_take min.assoc Let_def) (simp add: min_def)

lemma tlv_write_loop_cong:
  assumes "\<And>w. write_buff d sz w = write_buff d' sz w"
    and "tlv_write_loop wr d sz s off w = Some r"
  shows "tlv_write_loop wr d' sz s off w = Some r"
proof -
  let ?P = "\<lambda>wr d sz s off w r. (\<forall>w. write_buff d sz w = write_buff d' sz w) \<longrightarrow>
    tlv_write_loop wr d' sz s off w = Some r"
  have "?P wr d sz s off w r"
  proof (rule tlv_write_loop.raw_induct [where P = ?P, OF _ assms(2)])
    fix tw wr d sz s off w r
    assume IH: "\<And>wr d sz s off w r. tw wr d sz s off w = Some r \<Longrightarrow> ?P wr d sz s off w r"
      and eq: "(if w < sz then (case wr s off (write_buff d sz w) of (ret, s1) \<Rightarrow>
          if ret \<noteq> 0 then Some (ret, s1) else tw wr d sz s1 (off + 4) (w + 4)) else Some (0, s)) = Some r"
    show "?P wr d sz s off w r"
    proof
      assume c: "\<forall>w. write_buff d sz w = write_buff d' sz w"
      show "tlv_write_loop wr d' sz s off w = Some r"
        using eq c IH [of wr d sz _ "off + 4" "w + 4" r]
        by (subst tlv_write_loop.simps) (auto split: if_splits prod.splits)
    qed
  qed
  with assms(1) show ?thesis by blast
qed

lemma tlv_write_loop_take:
  "tlv_write_loop wr (take (unat sz) d) sz s off w = tlv_write_loop wr d sz s off w"
  using tlv_write_loop_cong [of d sz "take (unat sz) d" wr s off w]
    tlv_write_loop_cong [of "take (unat sz) d" sz d wr s off w]
  by (cases "tlv_write_loop wr d sz s off w"; cases "tlv_write_loop wr (take (unat sz) d) sz s off w")
    (auto simp: write_buff_take)

lemma tlv_write_take: "tlv_write (Some ctx) ty (take (unat sz) d) sz = tlv_write (Some ctx) ty d sz"
  unfolding tlv_write_def tlv_write_loop_take ..

lemma new_import_prefix:
  "4 \<le> length d \<Longrightarrow> sid_crypto_keys_new_import psa cfg ks i (Some (d @ rest)) (length d) =
     sid_crypto_keys_new_import psa cfg ks i (Some d) (length d)"
  by (simp add: sid_crypto_keys_new_import_def sid_crypto_keys_buffer_get_def Let_def)

section \<open>One element\<close>

lemma store_private:
  assumes "mfg_private env k" "4 \<le> length d" "unat sz = length d"
    and "sid_crypto_keys_new_import (env_psa env) (env_keys env) ks (mfg_key_id env k) (Some d) (length d) =
      Some (0, ks1)"
  shows "store_element env ram ks k (d @ rest) sz = Some (Done (0, ram, ks1))"
  using assms new_import_prefix [OF assms(2), of "env_psa env" "env_keys env" ks "mfg_key_id env k" rest]
  by (auto simp: store_element_def mfg_private_def mfg_key_id_def)

text \<open>An element that stays is appended to the image and leaves the bytes before the entries alone.\<close>

definition image_extends :: "mem tlv_ctx \<Rightarrow> mem \<Rightarrow> entry list \<Rightarrow> bool" where
  "image_extends ram m' es \<longleftrightarrow>
     ram_holds (set_storage ram m') es \<and>
     (\<forall>i < ctx_lo ram. m' (word_of_nat i) = st_ctx (storage_impl ram) (word_of_nat i))"

lemma ram_write_image:
  assumes "ram_holds ram es" "entry_ok (k, d)" "unat sz = length d"
    and "ctx_lo ram + tlv_used es + entry_len (k, d) \<le> ctx_hi ram"
  shows "\<exists>m'. tlv_write (Some ram) k d sz = Some (0, Some (set_storage ram m')) \<and>
    image_extends ram m' (es @ [(k, d)])"
proof -
  have "ctx_hi ram \<le> tlv_limit" using assms(1) by (simp add: ram_holds_def tlv_holds_def)
  moreover obtain m' where m': "tlv_write (Some ram) k d sz = Some (0, Some (set_storage ram m'))"
    "ram_holds (set_storage ram m') (es @ [(k, d)])"
    "\<forall>i < 4294967296. i < tlv_limit \<longrightarrow>
      \<not> (ctx_lo ram + tlv_used es \<le> i \<and> i < ctx_lo ram + tlv_used es + entry_len (k, d)) \<longrightarrow>
      m' (word_of_nat i) = st_ctx (storage_impl ram) (word_of_nat i)"
    using ram.write_holds [OF assms(1) [unfolded ram_holds_def] assms(2-4)]
    unfolding ram_holds_def by auto
  ultimately have "\<forall>i < ctx_lo ram. m' (word_of_nat i) = st_ctx (storage_impl ram) (word_of_nat i)"
    using assms(4) by simp
  with m'(1,2) show ?thesis unfolding image_extends_def by auto
qed

lemma store_kept:
  assumes "\<not> mfg_private env k" "ram_holds ram es" "entry_ok (k, d)" "unat sz = length d"
    and "ctx_lo ram + tlv_used es + entry_len (k, d) \<le> ctx_hi ram"
  shows "\<exists>m'. store_element env ram ks k (d @ rest) sz = Some (Done (0, set_storage ram m', ks)) \<and>
    image_extends ram m' (es @ [(k, d)])"
proof -
  obtain m' where m': "tlv_write (Some ram) k d sz = Some (0, Some (set_storage ram m'))"
    "image_extends ram m' (es @ [(k, d)])"
    using ram_write_image [OF assms(2-5)] by auto
  have "tlv_write (Some ram) k (d @ rest) sz = tlv_write (Some ram) k d sz"
    using tlv_write_take [of ram k sz "d @ rest"] assms(4) by simp
  with m' assms(1) show ?thesis
    by (auto simp: store_element_def mfg_private_def)
qed

section \<open>The raw stream of version 8\<close>

definition be16 :: "u16 \<Rightarrow> u8 list" where
  "be16 k = [ucast (drop_bit 8 k), ucast (k AND 0xFF)]"

text \<open>
  The stream from \<open>lo\<close> to \<open>hi\<close>: each value is its big-endian tag and length and its bytes;
  the stream ends at \<open>hi\<close> or with the empty tag 0xFFFF.
\<close>

fun raw_region :: "(nat \<Rightarrow> u8) \<Rightarrow> nat \<Rightarrow> nat \<Rightarrow> entry list \<Rightarrow> bool" where
  "raw_region c lo hi [] \<longleftrightarrow> lo = hi \<or> (lo + 2 \<le> hi \<and> c lo = 0xFF \<and> c (lo + 1) = 0xFF)"
| "raw_region c lo hi (e # es) \<longleftrightarrow>
     map c [lo..<lo + (4 + length (snd e))] = be16 (fst e) @ be16 (word_of_nat (length (snd e))) @ snd e \<and>
     raw_region c (lo + (4 + length (snd e))) hi es"

lemma raw_region_bounds: "raw_region c lo hi es \<Longrightarrow> lo \<le> hi"
  by (induction es arbitrary: lo) fastforce+

lemma length_be16 [simp]: "length (be16 k) = 2"
  by (simp add: be16_def)

lemma be16_decode [simp]:
  "push_bit 8 (ucast (be16 k ! 0)) + ucast (be16 k ! Suc 0) = k"
  "push_bit 8 (ucast (be16 k ! 0)) OR ucast (be16 k ! Suc 0) = k"
  using word16_hi_lo [of k] by (simp_all add: be16_def plus_hi_lo_or [symmetric])

lemma parse_raw_step:
  assumes "lo < 4294967296" "hi < 4294967296"
  shows "parse_raw_loop env rd (word_of_nat hi) (word_of_nat lo) buf ram ks =
     (if lo < hi then
        (case rd (word_of_nat lo) 2 of
           Inl _ \<Rightarrow> Some (Done (- EIO, ram, ks))
         | Inr key \<Rightarrow>
             (let key_decoded = push_bit 8 (ucast (key ! 0)) + ucast (key ! 1) :: u16 in
              if key_decoded = 0xFFFF then Some (Done (0, ram, ks))
              else
                (case rd (word_of_nat (lo + 2)) 2 of
                   Inl _ \<Rightarrow> Some (Done (- EIO, ram, ks))
                 | Inr siz \<Rightarrow>
                     (let size_decoded = push_bit 8 (ucast (siz ! 0)) OR ucast (siz ! 1) :: u16 in
                      case rd (word_of_nat (lo + 4)) (unat size_decoded) of
                        Inl _ \<Rightarrow> Some (Done (- EIO, ram, ks))
                      | Inr payload \<Rightarrow>
                          if unat size_decoded > max_element_size env then Some Fault
                          else
                            (let buf1 = payload @ drop (unat size_decoded) buf in
                             case store_element env ram ks key_decoded buf1 size_decoded of
                               None \<Rightarrow> None
                             | Some Fault \<Rightarrow> Some Fault
                             | Some (Done (ret, ram1, ks1)) \<Rightarrow>
                                 if ret \<noteq> 0 then Some (Done (ret, ram1, ks1))
                                 else parse_raw_loop env rd (word_of_nat hi)
                                        (word_of_nat (lo + (4 + unat size_decoded))) buf1 ram1 ks1)))))
      else Some (Done (0, ram, ks)))"
proof -
  have "((word_of_nat lo :: u32) < word_of_nat hi) = (lo < hi)"
    using assms by (simp add: word_less_nat_alt unat_of_nat_u32)
  moreover have "word_of_nat lo + 2 = (word_of_nat (lo + 2) :: u32)"
    "word_of_nat lo + 4 = (word_of_nat (lo + 4) :: u32)" by simp_all
  moreover have "word_of_nat (lo + 4) + ucast w = (word_of_nat (lo + (4 + unat w)) :: u32)" for w :: u16
    by (simp add: word_unat_eq_iff unat_word_ariths unat_of_nat mod_simps add.assoc)
  ultimately show ?thesis by (subst parse_raw_loop.simps) (simp only:)
qed

context tlv_backend
begin

lemma rd_slice:
  assumes "map (content s) [lo..<lo + N] = bs" "a + k \<le> N" "lo + N \<le> capacity s" "lo + N \<le> tlv_limit" "0 < N"
  shows "rd s (word_of_nat (lo + a)) k = Inr (take k (drop a bs))"
proof -
  have "map (content s) [lo + a..<lo + a + k] = take k (drop a (map (content s) [lo..<lo + N]))"
    using assms(2) by (simp add: take_map drop_map)
  with assms rd_ok [of s "lo + a" k] show ?thesis by (simp del: of_nat_add)
qed

lemma rd_raw_value:
  assumes "map (content s) [lo..<lo + (4 + length d)] = be16 k @ be16 l @ d"
    and "lo + (4 + length d) \<le> capacity s" "lo + (4 + length d) \<le> tlv_limit"
  shows "rd s (word_of_nat lo) 2 = Inr (be16 k)" "rd s (word_of_nat (lo + 2)) 2 = Inr (be16 l)"
    "rd s (word_of_nat (lo + 4)) (length d) = Inr d"
  using rd_slice [OF assms(1), of 0 2] rd_slice [OF assms(1), of 2 2] rd_slice [OF assms(1), of 4 "length d"]
    assms(2,3) by (simp_all del: of_nat_add)

lemma raw_loop_end:
  assumes "raw_region (content s) lo hi []" "hi \<le> capacity s" "hi + 70000 \<le> tlv_limit"
  shows "parse_raw_loop env (rd s) (word_of_nat hi) (word_of_nat lo) buf ram ks = Some (Done (0, ram, ks))"
proof (cases "lo < hi")
  case True
  then have "rd s (word_of_nat lo) 2 = Inr [0xFF, 0xFF]"
    using assms rd_ok [of s lo 2] by (auto simp: upt_conv_Cons)
  with True assms(3) show ?thesis by (subst parse_raw_step) auto
next
  case False
  with assms show ?thesis by (subst parse_raw_step) auto
qed

text \<open>The loop stores every value of the stream: private keys in the key store, the others in the image.\<close>

lemma raw_loop_stores:
  assumes "raw_region (content s) lo hi es" "hi \<le> capacity s" "hi + 70000 \<le> tlv_limit"
    and "\<forall>e \<in> set es. mfg_entry_ok env e" "mfg_import env ks es = Some ks'"
    and "ram_holds ram es0" "ctx_lo ram + tlv_used es0 + tlv_used (mfg_kept env es) \<le> ctx_hi ram"
  shows "\<exists>m'. parse_raw_loop env (rd s) (word_of_nat hi) (word_of_nat lo) buf ram ks =
      Some (Done (0, set_storage ram m', ks')) \<and> image_extends ram m' (es0 @ mfg_kept env es)"
  using assms(1,4-)
proof (induction es arbitrary: lo buf ram ks es0)
  case Nil
  with assms(2,3) show ?case
    by (intro exI [of _ "st_ctx (storage_impl ram)"]) (simp add: raw_loop_end image_extends_def)
next
  case (Cons e es)
  obtain k d where e: "e = (k, d)" by (cases e)
  have ok: "entry_ok (k, d)" "length d \<le> max_element_size env" "mfg_private env k \<Longrightarrow> 4 \<le> length d"
    using Cons.prems(2) e by (auto simp: mfg_entry_ok_def)
  let ?sz = "word_of_nat (length d) :: u16" and ?lo = "lo + (4 + length d)"
  have sz: "unat ?sz = length d" using ok(1) by (intro unat_of_nat_u16) (simp add: entry_ok_def)
  have reg: "raw_region (content s) ?lo hi es"
    "map (content s) [lo..<?lo] = be16 k @ be16 ?sz @ d" using Cons.prems(1) by (simp_all add: e)
  have le: "?lo \<le> hi" using raw_region_bounds [OF reg(1)] .
  note rds = rd_raw_value [OF reg(2)]
  let ?buf = "d @ drop (length d) buf"
  have loop: "parse_raw_loop env (rd s) (word_of_nat hi) (word_of_nat lo) buf ram ks =
      parse_raw_loop env (rd s) (word_of_nat hi) (word_of_nat ?lo) ?buf ram1 ks1"
    if "store_element env ram ks k ?buf ?sz = Some (Done (0, ram1, ks1))" for ram1 ks1
    using le assms(2,3) rds ok sz that
    by (subst parse_raw_step) (auto simp: entry_ok_def Let_def simp del: of_nat_add)
  show ?case
  proof (cases "mfg_private env k")
    case True
    then obtain ks1 where ks1: "sid_crypto_keys_new_import (env_psa env) (env_keys env) ks (mfg_key_id env k)
        (Some d) (length d) = Some (0, ks1)" "mfg_import env ks1 es = Some ks'"
      using Cons.prems(3) by (auto simp: e split: option.splits if_splits)
    have "store_element env ram ks k ?buf ?sz = Some (Done (0, ram, ks1))"
      using True ok(3) sz ks1(1) by (intro store_private)
    with Cons.IH [OF reg(1) _ ks1(2) Cons.prems(4)] True Cons.prems loop show ?thesis by (auto simp: e)
  next
    case False
    then obtain m1 where m1: "store_element env ram ks k ?buf ?sz = Some (Done (0, set_storage ram m1, ks))"
      "image_extends ram m1 (es0 @ [(k, d)])"
      using store_kept [OF False Cons.prems(4) ok(1) sz] Cons.prems(5) by (auto simp: e)
    have "\<exists>m'. parse_raw_loop env (rd s) (word_of_nat hi) (word_of_nat ?lo) ?buf (set_storage ram m1) ks =
        Some (Done (0, set_storage (set_storage ram m1) m', ks')) \<and>
        image_extends (set_storage ram m1) m' ((es0 @ [(k, d)]) @ mfg_kept env es)"
      using Cons.prems False m1(2) by (intro Cons.IH reg(1)) (auto simp: e image_extends_def)
    with m1 loop [OF m1(1)] False show ?thesis by (auto simp: e image_extends_def)
  qed
qed

end

section \<open>The fixed offsets of version 7\<close>

text \<open>The values a table finds in the partition at \<open>starto\<close>: those that are not erased.\<close>

definition offset_values :: "(nat \<Rightarrow> u8) \<Rightarrow> nat \<Rightarrow> (tlv_type \<times> u16 \<times> u32) list \<Rightarrow> entry list" where
  "offset_values c starto tbl =
     filter (\<lambda>e. \<not> (\<forall>b \<in> set (snd e). b = 0xFF))
       (map (\<lambda>(v, sz, off). (v, map c [starto + 4 * unat off..<starto + 4 * unat off + unat sz])) tbl)"

text \<open>A row that fits the payload buffer and lies inside a partition of \<open>n\<close> bytes.\<close>

definition offset_row_ok :: "'k mfg_env \<Rightarrow> nat \<Rightarrow> tlv_type \<times> u16 \<times> u32 \<Rightarrow> bool" where
  "offset_row_ok env n row =
     (case row of (v, sz, off) \<Rightarrow>
        v \<noteq> 0xFFFF \<and> 4 \<le> unat sz \<and> unat sz \<le> 64 \<and> unat sz \<le> max_element_size env \<and>
        4 * unat off + unat sz \<le> n)"

context tlv_backend
begin

lemma rd_offset_row:
  assumes "starto + n \<le> capacity s" "starto + n + 70000 \<le> tlv_limit" "offset_row_ok env n (v, sz, off)"
  shows "rd s (word_of_nat starto + off * 4) (unat sz) =
    Inr (map (content s) [starto + 4 * unat off..<starto + 4 * unat off + unat sz])"
proof -
  have "word_of_nat starto + off * 4 = (word_of_nat (starto + 4 * unat off) :: u32)"
    by (simp add: mult.commute)
  moreover have "starto + 4 * unat off + unat sz \<le> capacity s" "starto + 4 * unat off + unat sz \<le> tlv_limit"
    "0 < capacity s"
    using assms by (auto simp: offset_row_ok_def)
  ultimately show ?thesis using rd_ok [of s "starto + 4 * unat off" "unat sz"] by (simp del: of_nat_add)
qed

lemma offsets_loop_stores:
  assumes "starto + n \<le> capacity s" "starto + n + 70000 \<le> tlv_limit"
    and "\<forall>row \<in> set tbl. offset_row_ok env n row"
    and "mfg_import env ks (offset_values (content s) starto tbl) = Some ks'"
    and "ram_holds ram es0"
    and "ctx_lo ram + tlv_used es0 + tlv_used (mfg_kept env (offset_values (content s) starto tbl)) \<le> ctx_hi ram"
  shows "\<exists>m'. parse_offsets_loop env (rd s) (word_of_nat starto) tbl buf ram ks =
      Some (Done (0, set_storage ram m', ks')) \<and>
    image_extends ram m' (es0 @ mfg_kept env (offset_values (content s) starto tbl))"
  using assms(3-)
proof (induction tbl arbitrary: buf ram ks es0)
  case Nil
  then show ?case
    by (intro exI [of _ "st_ctx (storage_impl ram)"]) (simp add: offset_values_def image_extends_def)
next
  case (Cons row tbl)
  obtain k sz off where row: "row = (k, sz, off)" by (cases row)
  let ?d = "map (content s) [starto + 4 * unat off..<starto + 4 * unat off + unat sz]"
  let ?buf = "?d @ drop (length ?d) buf" and ?vs = "offset_values (content s) starto tbl"
  have rok: "offset_row_ok env n (k, sz, off)" using Cons.prems(1) row by simp
  then have sz: "unat sz = length ?d" "4 \<le> length ?d" "length ?d \<le> 64" "\<not> sz > 64"
    "\<not> unat sz > max_element_size env" and ok: "entry_ok (k, ?d)"
    by (auto simp: offset_row_ok_def entry_ok_def word_less_nat_alt)
  note rd = rd_offset_row [OF assms(1,2) rok]
  show ?case
  proof (cases "\<forall>b \<in> set ?d. b = 0xFF")
    case True
    then have "parse_offsets_loop env (rd s) (word_of_nat starto) (row # tbl) buf ram ks =
        parse_offsets_loop env (rd s) (word_of_nat starto) tbl ?buf ram ks"
      using sz(5) by (simp add: row rd Let_def)
    moreover have "offset_values (content s) starto (row # tbl) = ?vs"
      using True by (simp add: offset_values_def row)
    ultimately show ?thesis using Cons.IH [of ks ram es0 ?buf] Cons.prems by simp
  next
    case False
    have vs: "offset_values (content s) starto (row # tbl) = (k, ?d) # ?vs"
      using False by (simp add: offset_values_def row)
    have loop: "parse_offsets_loop env (rd s) (word_of_nat starto) (row # tbl) buf ram ks =
        parse_offsets_loop env (rd s) (word_of_nat starto) tbl ?buf ram1 ks1"
      if "store_element env ram ks k ?buf sz = Some (Done (0, ram1, ks1))" for ram1 ks1
      using that sz False by (auto simp: row rd Let_def)
    show ?thesis
    proof (cases "mfg_private env k")
      case True
      then obtain ks1 where ks1: "sid_crypto_keys_new_import (env_psa env) (env_keys env) ks (mfg_key_id env k)
          (Some ?d) (length ?d) = Some (0, ks1)" "mfg_import env ks1 ?vs = Some ks'"
        using Cons.prems(2) unfolding vs by (auto split: option.splits if_splits)
      have "store_element env ram ks k ?buf sz = Some (Done (0, ram, ks1))"
        using True sz(2,1) ks1(1) by (rule store_private)
      with Cons.IH [OF _ ks1(2) Cons.prems(3)] True Cons.prems loop show ?thesis unfolding vs by simp
    next
      case False
      then obtain m1 where m1: "store_element env ram ks k ?buf sz = Some (Done (0, set_storage ram m1, ks))"
        "image_extends ram m1 (es0 @ [(k, ?d)])"
        using store_kept [OF False Cons.prems(3) ok sz(1)] Cons.prems(4) unfolding vs by auto
      have "\<exists>m'. parse_offsets_loop env (rd s) (word_of_nat starto) tbl ?buf (set_storage ram m1) ks =
          Some (Done (0, set_storage (set_storage ram m1) m', ks')) \<and>
          image_extends (set_storage ram m1) m' ((es0 @ [(k, ?d)]) @ mfg_kept env ?vs)"
        using Cons.prems False m1(2) unfolding vs by (intro Cons.IH) (auto simp: image_extends_def)
      with m1 loop [OF m1(1)] False show ?thesis unfolding vs by (auto simp: image_extends_def)
    qed
  qed
qed

end

section \<open>The image\<close>

lemma tlv_region_shift:
  "tlv_region c (lo + k) (hi + k) es \<longleftrightarrow> tlv_region (\<lambda>i. c (i + k)) lo hi es"
proof (induction es arbitrary: lo)
  case Nil
  have "(\<forall>i. lo + k \<le> i \<and> i < hi + k \<longrightarrow> c i = 255) \<longleftrightarrow> (\<forall>i. lo \<le> i \<and> i < hi \<longrightarrow> c (i + k) = 255)"
    by (auto, metis add.commute add_le_cancel_right add_less_cancel_left le_add_diff_inverse
        le_add2 le_trans)
  then show ?case by simp
next
  case (Cons e es)
  have "map c [lo + k..<lo + k + entry_len e] = map (\<lambda>i. c (i + k)) [lo..<lo + entry_len e]"
    by (rule nth_equalityI) (simp_all add: ac_simps)
  with Cons [of "lo + entry_len e"] show ?case by (simp add: ac_simps del: map_eq_conv)
qed

text \<open>The partition's bounds, as the parsers need them.\<close>

definition partition_ok :: "'s tlv_ctx \<Rightarrow> bool" where
  "partition_ok tlv \<longleftrightarrow>
     tlv_storage_start_marker_size tlv = 8 \<and> 4 dvd unat (start_offset tlv) \<and>
     unat (start_offset tlv) + 8 \<le> ctx_hi tlv \<and> ctx_hi tlv + 70000 \<le> tlv_limit"

definition partition_size :: "'s tlv_ctx \<Rightarrow> nat" where
  "partition_size tlv = ctx_hi tlv - unat (start_offset tlv)"

lemma partition_words:
  assumes "partition_ok tlv"
  shows "unat (end_offset tlv - start_offset tlv) = partition_size tlv"
    "\<not> end_offset tlv \<le> start_offset tlv" "ctx_lo tlv = unat (start_offset tlv) + 8"
    "8 \<le> partition_size tlv" "partition_size tlv + 70000 \<le> tlv_limit"
    "ctx_hi tlv = unat (start_offset tlv) + partition_size tlv"
proof -
  have "start_offset tlv \<le> end_offset tlv"
    using assms by (simp add: partition_ok_def ctx_hi_def word_le_nat_alt)
  then show "unat (end_offset tlv - start_offset tlv) = partition_size tlv"
    by (simp add: partition_size_def ctx_hi_def unat_sub)
qed (use assms in \<open>auto simp: partition_ok_def partition_size_def ctx_hi_def ctx_lo_def word_le_nat_alt\<close>)

lemma new_image:
  assumes "partition_ok tlv"
  shows "\<exists>m. tlv_write_start_marker (Some (new_ram_tlv heap tlv)) mfg_header 8 =
      (0, Some (set_storage (new_ram_tlv heap tlv) m)) \<and>
    ram_holds (set_storage (new_ram_tlv heap tlv) m) [] \<and> (\<forall>i < 8. m (word_of_nat i) = mfg_header ! i)"
proof -
  let ?N = "partition_size tlv" and ?m = "mem_write (mem_fill heap 0 0xFF (partition_size tlv)) 0 mfg_header"
  note pw = partition_words [OF assms]
  have at: "?m (word_of_nat i) = (if i < 8 then mfg_header ! i else 0xFF)" if "i < ?N" for i
    using that pw(4,5) mem_write_at [of 0 mfg_header i] mem_write_at [of 0 "replicate ?N 0xFF" i heap]
    by (simp add: mem_fill_def mfg_header_def)
  have ctx: "ctx_lo (new_ram_tlv heap tlv) = 8" "ctx_hi (new_ram_tlv heap tlv) = ?N"
    using assms pw(1) by (simp_all add: new_ram_tlv_def ctx_lo_def ctx_hi_def partition_ok_def Let_def)
  have "ram_holds (set_storage (new_ram_tlv heap tlv) ?m) []"
    using pw(4,5) at by (simp add: ram_holds_def tlv_holds_def ctx) (simp add: new_ram_tlv_def Let_def)
  moreover have "tlv_write_start_marker (Some (new_ram_tlv heap tlv)) mfg_header 8 =
      (0, Some (set_storage (new_ram_tlv heap tlv) ?m))"
    using assms pw(1) by (simp add: tlv_write_start_marker_def new_ram_tlv_def partition_ok_def Let_def
        tlv_storage_ram_write_def mfg_header_def set_storage_def)
  ultimately show ?thesis using at pw(4) by auto
qed

lemma ctx_new_ram_tlv [simp]:
  "partition_ok tlv \<Longrightarrow> ctx_lo (new_ram_tlv heap tlv) = 8"
  "partition_ok tlv \<Longrightarrow> ctx_hi (new_ram_tlv heap tlv) = partition_size tlv"
  using partition_words(1) [of tlv]
  by (simp_all add: new_ram_tlv_def ctx_lo_def ctx_hi_def partition_ok_def Let_def)

lemma mfg_flags_entry: "entry_ok (MFG_FLAGS_TYPE_ID, mfg_flags b)" "entry_len (MFG_FLAGS_TYPE_ID, mfg_flags b) = 8"
  by (simp_all add: entry_ok_def mfg_flags_def entry_len_def CALCULATE_PADDING_def)

section \<open>Rewritable storage\<close>

text \<open>
  What a partition holds after a successful run: the start marker, the values, the flags
  entry; the storage outside the partition is untouched.
\<close>

definition mfg_installed ::
  "'s tlv_storage_read_t \<Rightarrow> 's tlv_storage_write_t \<Rightarrow> ('s \<Rightarrow> nat \<Rightarrow> u8) \<Rightarrow> ('s \<Rightarrow> nat) \<Rightarrow>
   's tlv_ctx \<Rightarrow> 's \<Rightarrow> entry list \<Rightarrow> bool" where
  "mfg_installed rd wr content capacity tlv s' es \<longleftrightarrow>
     tlv_holds rd wr content capacity (set_storage tlv s') es \<and>
     map (content s') [unat (start_offset tlv)..<unat (start_offset tlv) + 8] = mfg_header \<and>
     (\<forall>i < capacity (st_ctx (storage_impl tlv)). i < tlv_limit \<longrightarrow>
        \<not> (unat (start_offset tlv) \<le> i \<and> i < ctx_hi tlv) \<longrightarrow>
        content s' i = content (st_ctx (storage_impl tlv)) i)"

text \<open>The context of a partition on a back end: its three functions, and whole pages.\<close>

definition mfg_storage_ok ::
  "'s tlv_storage_read_t \<Rightarrow> 's tlv_storage_write_t \<Rightarrow> 's tlv_storage_erase_t \<Rightarrow> ('s \<Rightarrow> nat) \<Rightarrow> nat \<Rightarrow>
   's tlv_ctx \<Rightarrow> bool" where
  "mfg_storage_ok rd wr er capacity page tlv \<longleftrightarrow>
     partition_ok tlv \<and> st_read (storage_impl tlv) = Some rd \<and> st_write (storage_impl tlv) = Some wr \<and>
     st_erase (storage_impl tlv) = Some er \<and> ctx_hi tlv \<le> capacity (st_ctx (storage_impl tlv)) \<and>
     page dvd unat (start_offset tlv) \<and> page dvd partition_size tlv"

text \<open>
  Storage that can be erased page by page: erasing a range of whole pages and then writing
  it leaves exactly the written bytes there and the other bytes alone.
\<close>

locale tlv_rewritable = tlv_backend rd wr content capacity
  for rd :: "'s tlv_storage_read_t" and wr :: "'s tlv_storage_write_t"
    and content :: "'s \<Rightarrow> nat \<Rightarrow> u8" and capacity :: "'s \<Rightarrow> nat" +
  fixes er :: "'s tlv_storage_erase_t" and page :: nat
  assumes er_wr: "0 < k \<Longrightarrow> n + k \<le> capacity s \<Longrightarrow> n + k \<le> tlv_limit \<Longrightarrow> page dvd n \<Longrightarrow> page dvd k \<Longrightarrow>
      length bs = k \<Longrightarrow>
      \<exists>s1 s2. er s (word_of_nat n) (word_of_nat k) = (0, s1) \<and> wr s1 (word_of_nat n) bs = (0, s2) \<and>
        capacity s2 = capacity s \<and>
        (\<forall>i < capacity s. i < tlv_limit \<longrightarrow>
           content s2 i = (if n \<le> i \<and> i < n + k then bs ! (i - n) else content s i))"
begin

abbreviation installed :: "'s tlv_ctx \<Rightarrow> 's \<Rightarrow> entry list \<Rightarrow> bool" where
  "installed \<equiv> mfg_installed rd wr content capacity"

abbreviation storage_ok :: "'s tlv_ctx \<Rightarrow> bool" where
  "storage_ok \<equiv> mfg_storage_ok rd wr er capacity page"

lemma install_image:
  assumes ok: "storage_ok tlv" and m: "ram_holds (set_storage (new_ram_tlv heap tlv) m) es"
    "\<forall>i < 8. m (word_of_nat i) = mfg_header ! i"
  shows "\<exists>s1 s2. er (st_ctx (storage_impl tlv)) (start_offset tlv) (end_offset tlv - start_offset tlv) = (0, s1) \<and>
    wr s1 (start_offset tlv) (mem_read m 0 (partition_size tlv)) = (0, s2) \<and> installed tlv s2 es"
proof -
  let ?s = "st_ctx (storage_impl tlv)" and ?a = "unat (start_offset tlv)" and ?N = "partition_size tlv"
  have pok: "partition_ok tlv" using ok by (simp add: mfg_storage_ok_def)
  note pw = partition_words [OF pok]
  have words: "start_offset tlv = word_of_nat ?a" "end_offset tlv - start_offset tlv = word_of_nat ?N"
    unfolding pw(1) [symmetric] by simp_all
  have cap: "?a + ?N \<le> capacity ?s" "?a + ?N + 70000 \<le> tlv_limit"
    using ok pok pw(6) by (simp_all add: mfg_storage_ok_def partition_ok_def)
  obtain s1 s2 where s: "er ?s (word_of_nat ?a) (word_of_nat ?N) = (0, s1)"
    "wr s1 (word_of_nat ?a) (mem_read m 0 ?N) = (0, s2)" "capacity s2 = capacity ?s"
    and c: "\<And>i. i < capacity ?s \<Longrightarrow> i < tlv_limit \<Longrightarrow>
      content s2 i = (if ?a \<le> i \<and> i < ?a + ?N then mem_read m 0 ?N ! (i - ?a) else content ?s i)"
    using er_wr [of ?N ?a ?s "mem_read m 0 ?N"] cap pw(4) ok by (auto simp: mfg_storage_ok_def)
  have img: "content s2 (i + ?a) = m (word_of_nat i)" if "i < ?N" for i
    using that cap c [of "i + ?a"] by (simp add: mem_read_def)
  have "tlv_region (\<lambda>i. content s2 (i + ?a)) 8 ?N es"
    by (rule tlv_region_cong [where c = "\<lambda>i. m (word_of_nat i)"])
      (use m(1) pok img in \<open>simp_all add: ram_holds_def tlv_holds_def\<close>)
  then have "tlv_region (content s2) (ctx_lo tlv) (ctx_hi tlv) es"
    using tlv_region_shift [of "content s2" 8 ?a ?N es] pw(3,6) by (simp add: add.commute)
  moreover have "map (content s2) [?a..<?a + 8] = mfg_header"
    using img m(2) pw(4) by (intro nth_equalityI) (auto simp: mfg_header_def add.commute)
  ultimately have "installed tlv s2 es"
    using ok pok s(3) c pw(3,6) by (auto simp: mfg_installed_def tlv_holds_def mfg_storage_ok_def partition_ok_def)
  with s(1,2) show ?thesis unfolding words(1) [symmetric] words(2) [symmetric] by blast
qed

lemma finish_installs:
  assumes ok: "storage_ok tlv" and m: "ram_holds (set_storage (new_ram_tlv heap tlv) m) es"
    "\<forall>i < 8. m (word_of_nat i) = mfg_header ! i"
    and fits: "16 + tlv_used es \<le> partition_size tlv"
  shows "\<exists>s2. mfg_finish env tlv (set_storage (new_ram_tlv heap tlv) m) ks = Some (Done (0, set_storage tlv s2, ks)) \<and>
    installed tlv s2 (es @ [(MFG_FLAGS_TYPE_ID, mfg_flags (psa_key_storage env))])"
proof -
  let ?ram = "new_ram_tlv heap tlv" and ?f = "(MFG_FLAGS_TYPE_ID, mfg_flags (psa_key_storage env))"
  have pok: "partition_ok tlv" using ok by (simp add: mfg_storage_ok_def)
  note pw = partition_words [OF pok]
  obtain m1 where w: "tlv_write (Some (set_storage ?ram m)) MFG_FLAGS_TYPE_ID (mfg_flags (psa_key_storage env)) 4 =
      Some (0, Some (set_storage ?ram m1))" and x: "image_extends (set_storage ?ram m) m1 (es @ [?f])"
    using ram_write_image [OF m(1) mfg_flags_entry(1), of 4] fits pok
    by (auto simp: mfg_flags_entry(2)) (auto simp: mfg_flags_def)
  have "ram_holds (set_storage ?ram m1) (es @ [?f])" "\<forall>i < 8. m1 (word_of_nat i) = mfg_header ! i"
    using x m(2) pok by (simp_all add: image_extends_def)
  from install_image [OF ok this] obtain s1 s2 where
    "er (st_ctx (storage_impl tlv)) (start_offset tlv) (end_offset tlv - start_offset tlv) = (0, s1)"
    "wr s1 (start_offset tlv) (mem_read m1 0 (partition_size tlv)) = (0, s2)"
    "installed tlv s2 (es @ [?f])" by auto
  with w ok show ?thesis by (auto simp: mfg_finish_def mfg_storage_ok_def pw(1) Let_def)
qed

text \<open>The version 8 parser, on a partition whose values fit.\<close>

lemma raw_parser_installs:
  assumes ok: "storage_ok tlv"
    and raw: "raw_region (content (st_ctx (storage_impl tlv))) (ctx_lo tlv) (ctx_hi tlv) es"
    and es: "\<forall>e \<in> set es. mfg_entry_ok env e" "mfg_import env ks es = Some ks'"
    and fits: "16 + tlv_used (mfg_kept env es) \<le> partition_size tlv"
  shows "\<exists>s2. parse_mfg_raw_tlv env (Some heap) tlv ks = Some (Done (0, set_storage tlv s2, ks')) \<and>
    installed tlv s2 (mfg_kept env es @ [(MFG_FLAGS_TYPE_ID, mfg_flags (psa_key_storage env))])"
proof -
  let ?ram = "new_ram_tlv heap tlv"
  have pok: "partition_ok tlv" and h: "st_read (storage_impl tlv) = Some rd"
    "ctx_hi tlv \<le> capacity (st_ctx (storage_impl tlv))" "ctx_hi tlv + 70000 \<le> tlv_limit"
    using ok by (simp_all add: mfg_storage_ok_def partition_ok_def)
  obtain m0 where m0: "tlv_write_start_marker (Some ?ram) mfg_header 8 = (0, Some (set_storage ?ram m0))"
    "ram_holds (set_storage ?ram m0) []" "\<forall>i < 8. m0 (word_of_nat i) = mfg_header ! i"
    using new_image [OF pok] by blast
  obtain m1 where m1: "parse_raw_loop env (rd (st_ctx (storage_impl tlv))) (word_of_nat (ctx_hi tlv))
      (word_of_nat (ctx_lo tlv)) (replicate (max_element_size env) 0) (set_storage ?ram m0) ks =
      Some (Done (0, set_storage ?ram m1, ks'))"
    "image_extends (set_storage ?ram m0) m1 (mfg_kept env es)"
    using raw_loop_stores [OF raw h(2,3) es m0(2), of "replicate (max_element_size env) 0"] fits pok by auto
  have "ram_holds (set_storage ?ram m1) (mfg_kept env es)" "\<forall>i < 8. m1 (word_of_nat i) = mfg_header ! i"
    using m1(2) m0(3) pok by (simp_all add: image_extends_def)
  from finish_installs [OF ok this fits] show ?thesis
    using m0(1) m1(1) h(1) partition_words(2) [OF pok]
    by (auto simp: parse_mfg_raw_tlv_def ctx_words)
qed

text \<open>The version 7 parser, on a partition that contains the offset table.\<close>

lemma offset_parser_installs:
  assumes ok: "storage_ok tlv"
    and rows: "\<forall>row \<in> set tbl. offset_row_ok env (partition_size tlv) row"
    and tbl: "tbl = sid_pal_mfg_store_app_value_to_offset_table (legacy_offsets env)"
    and es: "es = offset_values (content (st_ctx (storage_impl tlv))) (unat (start_offset tlv)) tbl"
      "mfg_import env ks es = Some ks'"
    and fits: "16 + tlv_used (mfg_kept env es) \<le> partition_size tlv"
  shows "\<exists>s2. parse_mfg_const_offsets env (Some heap) tlv ks = Some (Done (0, set_storage tlv s2, ks')) \<and>
    installed tlv s2 (mfg_kept env es @ [(MFG_FLAGS_TYPE_ID, mfg_flags (psa_key_storage env))])"
proof -
  let ?ram = "new_ram_tlv heap tlv" and ?a = "unat (start_offset tlv)"
  have pok: "partition_ok tlv" and h: "st_read (storage_impl tlv) = Some rd"
    using ok by (simp_all add: mfg_storage_ok_def)
  have b: "?a + partition_size tlv \<le> capacity (st_ctx (storage_impl tlv))"
    "?a + partition_size tlv + 70000 \<le> tlv_limit"
    using ok pok partition_words(6) [OF pok] by (simp_all add: mfg_storage_ok_def partition_ok_def)
  obtain m0 where m0: "tlv_write_start_marker (Some ?ram) mfg_header 8 = (0, Some (set_storage ?ram m0))"
    "ram_holds (set_storage ?ram m0) []" "\<forall>i < 8. m0 (word_of_nat i) = mfg_header ! i"
    using new_image [OF pok] by blast
  obtain m1 where m1: "parse_offsets_loop env (rd (st_ctx (storage_impl tlv))) (word_of_nat ?a) tbl
      (replicate (max_element_size env) 0) (set_storage ?ram m0) ks =
      Some (Done (0, set_storage ?ram m1, ks'))"
    "image_extends (set_storage ?ram m0) m1 (mfg_kept env es)"
    using offsets_loop_stores [OF b rows es(2) [unfolded es(1)] m0(2), of "replicate (max_element_size env) 0"]
      fits pok unfolding es(1) by auto
  have "ram_holds (set_storage ?ram m1) (mfg_kept env es)" "\<forall>i < 8. m1 (word_of_nat i) = mfg_header ! i"
    using m1(2) m0(3) pok by (simp_all add: image_extends_def)
  from finish_installs [OF ok this fits] show ?thesis
    using m0(1) m1(1) h partition_words(2) [OF pok]
    by (auto simp: parse_mfg_const_offsets_def tbl)
qed

end

end
