(* ===== verification/Mfg_Storage.thy ===== *)
theory Mfg_Storage
  imports Mfg_Refine
begin

text \<open>
  The manufacturing store of \<^verbatim>\<open>sid_mfg_storage.c\<close>: initialisation (which converts an older
  or raw partition with the parsers), reading and writing values, the emptiness check, and
  the values with special handling.
\<close>

section \<open>State and configuration\<close>

abbreviation (input) INVALID_VERSION :: u32 where "INVALID_VERSION \<equiv> 0xFFFFFFFF"

text \<open>
  \<^verbatim>\<open>flash_dev\<close>, \<^verbatim>\<open>sid_mfg_version\<close> and \<^verbatim>\<open>tlv_flash\<close>. The device's state lives in the TLV
  context's \<^verbatim>\<open>ctx\<close>; \<open>flash_dev_set\<close> says whether the device pointer is set.
\<close>

record 'd mfg_store =
  flash_dev_set :: bool
  sid_mfg_version :: u32
  tlv_flash :: "'d option tlv_ctx"

text \<open>
  The build: the flash driver, the diagnostic option, support for version 7 partitions, and
  the flash protection call (when \<^verbatim>\<open>CONFIG_FPROTECT\<close> is set without diagnostics).
\<close>

record 'd mfg_build =
  b_flash_read :: "'d tlv_storage_read_t"
  b_flash_write :: "'d tlv_storage_write_t"
  b_flash_erase :: "'d tlv_storage_erase_t"
  b_diagnostic :: bool
  b_support_v7 :: bool
  b_fprotect :: "('d \<Rightarrow> int \<times> 'd) option"

definition mfg_tlv_ctx :: "'d mfg_build \<Rightarrow> 'd option \<Rightarrow> u32 \<Rightarrow> u32 \<Rightarrow> 'd option tlv_ctx" where
  "mfg_tlv_ctx b dev a z =
     \<lparr>storage_impl = \<lparr>st_ctx = dev, st_write = Some (tlv_storage_flash_write (b_flash_write b)),
        st_erase = Some (tlv_storage_flash_erase (b_flash_erase b)),
        st_read = Some (tlv_storage_flash_read (b_flash_read b))\<rparr>,
      start_offset = a, end_offset = z, tlv_storage_start_marker_size = 8\<rparr>"

section \<open>Reading\<close>

definition sid_mfg_storage_secure_read ::
  "'k mfg_env \<Rightarrow> 'k \<Rightarrow> tlv_type \<Rightarrow> u8 list \<Rightarrow> u16 \<Rightarrow> int \<times> u8 list" where
  "sid_mfg_storage_secure_read env ks val buffer len =
     (if val = MFG_DEVICE_PRIV_ED25519 then
        (case sid_crypto_keys_buffer_set (env_psa env) ks
                (sid_crypto_key_id (env_keys env) SID_CRYPTO_MFG_ED25519_PRIV_KEY) (Some buffer) (unat len) of
           (err, b) \<Rightarrow> (err, the b))
      else if val = MFG_DEVICE_PRIV_P256R1 then
        (case sid_crypto_keys_buffer_set (env_psa env) ks
                (sid_crypto_key_id (env_keys env) SID_CRYPTO_MFG_SECP_256R1_PRIV_KEY) (Some buffer) (unat len) of
           (err, b) \<Rightarrow> (err, the b))
      else (- ENOENT, buffer))"

text \<open>The result is the buffer after the call; a failing read leaves it as it was.\<close>

definition sid_pal_mfg_store_read ::
  "'k mfg_env \<Rightarrow> 'k \<Rightarrow> 'd mfg_store \<Rightarrow> tlv_type \<Rightarrow> u8 list \<Rightarrow> u16 \<Rightarrow> u8 list option" where
  "sid_pal_mfg_store_read env ks st val buffer len =
     (let (err_sec, buffer1) =
        (if psa_key_storage env then sid_mfg_storage_secure_read env ks val buffer len else (- ENOENT, buffer))
      in if err_sec \<noteq> - ENOENT then Some buffer1
         else if val = 2 then Some ([0, 0, 0, 8] @ drop 4 buffer)
         else (case tlv_read (Some (tlv_flash st)) val len of
                 None \<Rightarrow> None
               | Some (Inl _) \<Rightarrow> Some buffer
               | Some (Inr data) \<Rightarrow> Some (data @ drop (unat len) buffer)))"

definition sid_pal_mfg_store_get_length_for_value :: "'d mfg_store \<Rightarrow> tlv_type \<Rightarrow> u16 option" where
  "sid_pal_mfg_store_get_length_for_value st val =
     (case tlv_lookup (Some (tlv_flash st)) val of
        None \<Rightarrow> None
      | Some (Inl _) \<Rightarrow> Some 0
      | Some (Inr header) \<Rightarrow> Some (ucast (data_size (payload_size header))))"

section \<open>Initialisation\<close>

definition be_version :: "u8 list \<Rightarrow> u32" where
  "be_version raw = ucast (raw ! 3) + push_bit 8 (ucast (raw ! 2)) + push_bit 16 (ucast (raw ! 1))
     + push_bit 24 (ucast (raw ! 0))"

text \<open>
  The decision of \<^verbatim>\<open>sid_pal_mfg_store_init\<close> whether the partition must be parsed: \<open>Inl\<close> is an
  early return.
\<close>

definition mfg_need_to_parse :: "bool \<Rightarrow> u32 \<Rightarrow> 'd option tlv_ctx \<Rightarrow> (unit + bool) option" where
  "mfg_need_to_parse psa version tlv =
     (if version = 8 then
        (case tlv_read (Some tlv) MFG_FLAGS_TYPE_ID 4 of
           None \<Rightarrow> None
         | Some r \<Rightarrow>
             (case r of
                Inl err \<Rightarrow> if err = - ENODATA then Some (Inr True) else Some (Inl ())
              | Inr flags \<Rightarrow>
                  let initialized = bit (flags ! 0) 7; keys_in_psa = bit (flags ! 0) 6 in
                  if psa then Some (Inr (\<not> initialized \<or> \<not> keys_in_psa))
                  else if keys_in_psa then Some (Inl ()) else Some (Inr (\<not> initialized))))
      else Some (Inr True))"

text \<open>The conversion: which parser runs for which version; \<open>None\<close> inside is the incompatible case.\<close>

definition mfg_run_parser ::
  "'d mfg_build \<Rightarrow> 'k mfg_env \<Rightarrow> mem option \<Rightarrow> u32 \<Rightarrow> 'd option tlv_ctx \<Rightarrow> 'k \<Rightarrow>
   (int \<times> 'd option tlv_ctx \<times> 'k) guarded option option" where
  "mfg_run_parser b env heap version tlv ks =
     (if version = 8 then Some (parse_mfg_raw_tlv env heap tlv ks)
      else if b_support_v7 b \<and> (1 \<le> version \<and> version \<le> 7 \<or> version = 0x01000000)
      then Some (parse_mfg_const_offsets env heap tlv ks)
      else None)"

text \<open>After a successful start: protect the partition when configured, then read the SMSN for the log.\<close>

definition mfg_init_finish ::
  "'d mfg_build \<Rightarrow> 'k mfg_env \<Rightarrow> 'd mfg_store \<Rightarrow> 'k \<Rightarrow> ('d mfg_store \<times> 'k) guarded option" where
  "mfg_init_finish b env st ks =
     (let st1 = (case (b_fprotect b, st_ctx (storage_impl (tlv_flash st))) of
          (Some fp, Some d) \<Rightarrow> st\<lparr>tlv_flash := set_storage (tlv_flash st) (Some (snd (fp d)))\<rparr>
        | _ \<Rightarrow> st)
      in case sid_pal_mfg_store_read env ks st1 4 (replicate 32 0) 32 of
           None \<Rightarrow> None
         | Some _ \<Rightarrow> Some (Done (st1, ks)))"

text \<open>
  \<open>dev\<close> is \<^verbatim>\<open>DEVICE_DT_GET_OR_NULL\<close>, \<open>crypto_init\<close> the outcome of \<^verbatim>\<open>sid_crypto_keys_init\<close>, \<open>heap\<close> the
  result of the parser's allocation.
\<close>

definition sid_pal_mfg_store_init ::
  "'d mfg_build \<Rightarrow> 'k mfg_env \<Rightarrow> int \<Rightarrow> mem option \<Rightarrow> 'd option \<Rightarrow> u32 \<Rightarrow> u32 \<Rightarrow> 'd mfg_store \<Rightarrow> 'k \<Rightarrow>
   ('d mfg_store \<times> 'k) guarded option" where
  "sid_pal_mfg_store_init b env crypto_init heap dev addr_start addr_end st ks =
     (if dev = None then Some (Done (st\<lparr>flash_dev_set := False\<rparr>, ks))
      else
        (let st1 = st\<lparr>flash_dev_set := True, tlv_flash := mfg_tlv_ctx b dev addr_start addr_end\<rparr> in
         if psa_key_storage env \<and> crypto_init \<noteq> 0 then Some (Done (st1, ks))
         else
           (case tlv_read_start_marker (Some (tlv_flash st1)) 8 of
              Inl _ \<Rightarrow> Some (Done (st1, ks))
            | Inr header \<Rightarrow>
                if take 4 header \<noteq> [0x53, 0x49, 0x44, 0x30] then Some (Done (st1, ks))
                else
                  (let version = be_version (drop 4 header); st2 = st1\<lparr>sid_mfg_version := version\<rparr> in
                   case mfg_need_to_parse (psa_key_storage env) version (tlv_flash st2) of
                     None \<Rightarrow> None
                   | Some (Inl _) \<Rightarrow> Some (Done (st2, ks))
                   | Some (Inr need_to_parse) \<Rightarrow>
                       if \<not> need_to_parse then mfg_init_finish b env st2 ks
                       else
                         (case mfg_run_parser b env heap version (tlv_flash st2) ks of
                            None \<Rightarrow> Some (Done (st2, ks))
                          | Some None \<Rightarrow> None
                          | Some (Some Fault) \<Rightarrow> Some Fault
                          | Some (Some (Done (err, tlv1, ks1))) \<Rightarrow>
                              if err \<noteq> 0 then Some (Done (st2\<lparr>tlv_flash := tlv1\<rparr>, ks1))
                              else mfg_init_finish b env
                                     (st2\<lparr>tlv_flash := tlv1, sid_mfg_version := 8\<rparr>) ks1)))))"

text \<open>\<^verbatim>\<open>memset(&tlv_flash, 0)\<close>: every pointer \<^verbatim>\<open>NULL\<close>, every offset 0.\<close>

definition sid_pal_mfg_store_deinit :: "'d mfg_store \<Rightarrow> 'd mfg_store" where
  "sid_pal_mfg_store_deinit st =
     st\<lparr>tlv_flash := \<lparr>storage_impl = \<lparr>st_ctx = None, st_write = None, st_erase = None, st_read = None\<rparr>,
        start_offset = 0, end_offset = 0, tlv_storage_start_marker_size = 0\<rparr>\<rparr>"

section \<open>Writing and erasing\<close>

definition sid_pal_mfg_store_write ::
  "'d mfg_build \<Rightarrow> 'd mfg_store \<Rightarrow> tlv_type \<Rightarrow> u8 list \<Rightarrow> u16 \<Rightarrow> (int \<times> 'd mfg_store) option" where
  "sid_pal_mfg_store_write b st val buffer len =
     (if val = 2 then
        (if len \<noteq> 4 then Some (- EINVAL, st)
         else (case tlv_write_start_marker (Some (tlv_flash st))
                      ([0x53, 0x49, 0x44, 0x30] @ take 4 buffer) 8 of
                 (ret, ctx) \<Rightarrow> Some (ret, st\<lparr>tlv_flash := the ctx\<rparr>)))
      else if b_diagnostic b then
        (case tlv_write (Some (tlv_flash st)) val buffer len of
           None \<Rightarrow> None
         | Some (ret, ctx) \<Rightarrow> Some (ret, st\<lparr>tlv_flash := the ctx\<rparr>))
      else Some (SID_ERROR_NOSUPPORT, st))"

definition sid_pal_mfg_store_erase :: "'d mfg_build \<Rightarrow> 'd mfg_store \<Rightarrow> (int \<times> 'd mfg_store) guarded" where
  "sid_pal_mfg_store_erase b st =
     (if b_diagnostic b then
        (case st_erase (storage_impl (tlv_flash st)) of
           None \<Rightarrow> Fault
         | Some er \<Rightarrow>
             (case er (st_ctx (storage_impl (tlv_flash st))) (start_offset (tlv_flash st))
                     (end_offset (tlv_flash st) - start_offset (tlv_flash st)) of
                (ret, s1) \<Rightarrow> Done (ret, st\<lparr>tlv_flash := set_storage (tlv_flash st) s1\<rparr>)))
      else Done (SID_ERROR_NOSUPPORT, st))"

text \<open>The scan in chunks of 128 bytes; \<open>rd\<close> is \<^verbatim>\<open>flash_read\<close> on the device.\<close>

partial_function (option) is_empty_loop ::
  "(u32 \<Rightarrow> nat \<Rightarrow> int + u8 list) \<Rightarrow> u8 \<Rightarrow> u32 \<Rightarrow> u32 \<Rightarrow> u32 \<Rightarrow> bool option" where
  "is_empty_loop rd erase_value endo offset len =
     (if offset < endo then
        (let len1 = (if offset + len > endo then endo - offset else len) in
         case rd offset (unat len1) of
           Inl _ \<Rightarrow> Some False
         | Inr tmp_buff \<Rightarrow>
             if \<exists>b \<in> set tmp_buff. b \<noteq> erase_value then Some False
             else is_empty_loop rd erase_value endo (offset + len1) len1)
      else Some True)"

definition sid_pal_mfg_store_is_empty :: "'d mfg_build \<Rightarrow> u8 \<Rightarrow> 'd \<Rightarrow> 'd mfg_store \<Rightarrow> bool option" where
  "sid_pal_mfg_store_is_empty b erase_value dev st =
     (if b_diagnostic b then
        (if \<not> flash_dev_set st then Some False
         else is_empty_loop (b_flash_read b dev) erase_value (end_offset (tlv_flash st))
                (start_offset (tlv_flash st)) 128)
      else Some False)"

section \<open>Values with special handling\<close>

definition sid_pal_mfg_store_is_tlv_support :: "unit \<Rightarrow> bool" where
  "sid_pal_mfg_store_is_tlv_support _ = True"

definition sid_pal_mfg_store_get_version :: "'d mfg_store \<Rightarrow> u32" where
  "sid_pal_mfg_store_get_version st = sid_mfg_version st"

text \<open>The device identifier: 0xBF and the device register, most significant byte first.\<close>

definition sid_pal_mfg_store_dev_id_get :: "u32 \<Rightarrow> bool \<times> u8 list" where
  "sid_pal_mfg_store_dev_id_get dev_id_reg = (True, 0xBF # rev (u32_to_le dev_id_reg))"

definition sid_pal_mfg_store_serial_num_get :: "'d mfg_store \<Rightarrow> (u8 list option) option" where
  "sid_pal_mfg_store_serial_num_get st =
     (case tlv_read (Some (tlv_flash st)) 3 17 of
        None \<Rightarrow> None | Some (Inl _) \<Rightarrow> Some None | Some (Inr d) \<Rightarrow> Some (Some d))"

definition sid_pal_mfg_store_apid_get :: "'k mfg_env \<Rightarrow> 'k \<Rightarrow> 'd mfg_store \<Rightarrow> u8 list \<Rightarrow> u8 list option" where
  "sid_pal_mfg_store_apid_get env ks st apid = sid_pal_mfg_store_read env ks st 38 apid 4"

definition sid_pal_mfg_store_app_pub_key_get ::
  "'k mfg_env \<Rightarrow> 'k \<Rightarrow> 'd mfg_store \<Rightarrow> u8 list \<Rightarrow> u8 list option" where
  "sid_pal_mfg_store_app_pub_key_get env ks st app_pub = sid_pal_mfg_store_read env ks st 5 app_pub 32"

end
