(* ===== verification/Mfg_Props.thy ===== *)
theory Mfg_Props
  imports Mfg_Refine
begin

text \<open>
  The properties of the manufacturing parsers: RAM and flash storage are rewritable, what
  each parser leaves in the partition and in the key store, and what a value longer than
  the payload buffer does.
\<close>

section \<open>Rewritable back ends\<close>

interpretation ram_rw: tlv_rewritable tlv_storage_ram_read tlv_storage_ram_write
  "\<lambda>m i. m (word_of_nat i)" "\<lambda>_. 4294967296" tlv_storage_ram_erase 1
proof
  fix n k and s :: mem and bs :: "u8 list"
  assume "n + k \<le> tlv_limit" "length bs = k" "0 < k"
  then show "\<exists>s1 s2. tlv_storage_ram_erase s (word_of_nat n) (word_of_nat k) = (0, s1) \<and>
      tlv_storage_ram_write s1 (word_of_nat n) bs = (0, s2) \<and> (4294967296 :: nat) = 4294967296 \<and>
      (\<forall>i < 4294967296. i < tlv_limit \<longrightarrow> s2 (word_of_nat i) =
         (if n \<le> i \<and> i < n + k then bs ! (i - n) else s (word_of_nat i)))"
    by (auto simp: tlv_storage_ram_erase_def tlv_storage_ram_write_def mem_fill_def mem_write_at unat_of_nat_u32)
qed

text \<open>What is relied on of Zephyr's \<^verbatim>\<open>flash_erase\<close>: whole pages become 0xFF, nothing else changes.\<close>

definition flash_erase_ok ::
  "'d tlv_storage_erase_t \<Rightarrow> ('d \<Rightarrow> nat \<Rightarrow> u8) \<Rightarrow> ('d \<Rightarrow> nat) \<Rightarrow> nat \<Rightarrow> bool" where
  "flash_erase_ok flash_erase cell cap page \<longleftrightarrow>
     4 dvd page \<and>
     (\<forall>d n k. n + k \<le> cap d \<longrightarrow> n + k \<le> tlv_limit \<longrightarrow> page dvd n \<longrightarrow> page dvd k \<longrightarrow>
        fst (flash_erase d (word_of_nat n) (word_of_nat k)) = 0 \<and>
        cap (snd (flash_erase d (word_of_nat n) (word_of_nat k))) = cap d \<and>
        (\<forall>i < cap d. cell (snd (flash_erase d (word_of_nat n) (word_of_nat k))) i =
           (if n \<le> i \<and> i < n + k then 0xFF else cell d i)))"

lemma flash_rewritable:
  assumes drv: "flash_driver_ok fr fw cell cap" and ers: "flash_erase_ok fe cell cap page"
  shows "tlv_rewritable (tlv_storage_flash_read fr) (tlv_storage_flash_write fw) (dev_cell cell)
    (dev_size cap) (tlv_storage_flash_erase fe) page"
proof -
  note be = flash_backend [OF drv]
  have "\<exists>s1 s2. tlv_storage_flash_erase fe s (word_of_nat n) (word_of_nat k) = (0, s1) \<and>
      tlv_storage_flash_write fw s1 (word_of_nat n) bs = (0, s2) \<and> dev_size cap s2 = dev_size cap s \<and>
      (\<forall>i < dev_size cap s. i < tlv_limit \<longrightarrow> dev_cell cell s2 i =
         (if n \<le> i \<and> i < n + k then bs ! (i - n) else dev_cell cell s i))"
    if a: "0 < k" "n + k \<le> dev_size cap s" "n + k \<le> tlv_limit" "page dvd n" "page dvd k" "length bs = k"
    for n k s bs
  proof -
    from a(1,2) obtain d where s: "s = Some d" by (cases s) (auto simp: dev_size_def)
    obtain r d1 where e: "fe d (word_of_nat n) (word_of_nat k) = (r, d1)" by fastforce
    have d1: "r = 0" "cap d1 = cap d" "\<forall>i < cap d. cell d1 i = (if n \<le> i \<and> i < n + k then 0xFF else cell d i)"
      using ers a(2-5) e unfolding flash_erase_ok_def s dev_size_def by (metis fst_conv snd_conv option.simps(5))+
    have al: "4 dvd n" "4 dvd length bs"
      using ers a(4-6) unfolding flash_erase_ok_def by (metis dvd_trans)+
    have "\<exists>s2. tlv_storage_flash_write fw (Some d1) (word_of_nat n) bs = (0, s2) \<and>
        dev_size cap s2 = dev_size cap (Some d1) \<and>
        (\<forall>i < dev_size cap (Some d1). i < tlv_limit \<longrightarrow> dev_cell cell s2 i =
           (if n \<le> i \<and> i < n + length bs then bs ! (i - n) else dev_cell cell (Some d1) i))"
      using a d1 s al by (intro tlv_backend.wr_ok [OF be]) (auto simp: dev_size_def dev_cell_def)
    with d1 a(6) e show ?thesis
      by (auto simp: s tlv_storage_flash_erase_def dev_size_def dev_cell_def)
  qed
  then show ?thesis by (intro tlv_rewritable.intro tlv_rewritable_axioms.intro be)
qed

section \<open>The version 8 parser\<close>

text \<open>
  C8. On flash whose driver keeps its contract, \<^verbatim>\<open>parse_mfg_raw_tlv\<close> converts a partition that
  holds the raw values \<open>es\<close>: it returns 0, the partition then carries the \<^verbatim>\<open>SID0\<close> marker and a
  TLV region that holds exactly the values of \<open>es\<close> in order (less the private keys when the
  build keeps those in PSA) and the flags entry, the flash outside the partition is
  untouched, and the key store is the one the imports of the private keys produce.
\<close>

theorem parse_mfg_raw_tlv_installs:
  assumes drv: "flash_driver_ok fr fw cell cap" "flash_erase_ok fe cell cap page"
    and ok: "mfg_storage_ok (tlv_storage_flash_read fr) (tlv_storage_flash_write fw)
      (tlv_storage_flash_erase fe) (dev_size cap) page tlv"
    and raw: "raw_region (dev_cell cell (st_ctx (storage_impl tlv))) (ctx_lo tlv) (ctx_hi tlv) es"
    and es: "\<forall>e \<in> set es. mfg_entry_ok env e" "mfg_import env ks es = Some ks'"
    and fits: "16 + tlv_used (mfg_kept env es) \<le> partition_size tlv"
  shows "\<exists>s2. parse_mfg_raw_tlv env (Some heap) tlv ks = Some (Done (0, set_storage tlv s2, ks')) \<and>
    mfg_installed (tlv_storage_flash_read fr) (tlv_storage_flash_write fw) (dev_cell cell) (dev_size cap)
      tlv s2 (mfg_kept env es @ [(MFG_FLAGS_TYPE_ID, mfg_flags (psa_key_storage env))])"
  by (rule tlv_rewritable.raw_parser_installs [OF flash_rewritable [OF drv] ok raw es fits])

text \<open>
  After a successful conversion with keys kept in PSA, neither private key is readable
  from the partition, and every other value reads back byte for byte under its tag (the
  first one, should a tag occur twice).
\<close>

theorem mfg_installed_reads:
  assumes drv: "flash_driver_ok fr fw cell cap"
    and inst: "mfg_installed (tlv_storage_flash_read fr) (tlv_storage_flash_write fw) (dev_cell cell) (dev_size cap)
      tlv s2 (mfg_kept env es @ [(MFG_FLAGS_TYPE_ID, mfg_flags (psa_key_storage env))])"
    and ty: "ty \<noteq> 0xFFFF" "ty \<noteq> MFG_FLAGS_TYPE_ID"
  shows "(mfg_private env ty \<longrightarrow> tlv_read (Some (set_storage tlv s2)) ty sz = Some (Inl (- ENODATA))) \<and>
    (\<not> mfg_private env ty \<longrightarrow> map_of es ty = Some d \<longrightarrow> unat sz = length d \<longrightarrow>
       tlv_read (Some (set_storage tlv s2)) ty sz = Some (Inr d))"
proof -
  let ?es = "mfg_kept env es @ [(MFG_FLAGS_TYPE_ID, mfg_flags (psa_key_storage env))]"
  note rd = tlv_backend.read_holds [OF flash_backend [OF drv] conjunct1 [OF inst [unfolded mfg_installed_def]] ty(1), of sz]
  have "map_of (mfg_kept env es) ty = (if mfg_private env ty then None else map_of es ty)"
    by (induction es) (auto simp: mfg_kept_def)
  then have "map_of ?es ty = (if mfg_private env ty then None else map_of es ty)"
    using ty(2) by (auto simp: map_add_def split: option.splits)
  with rd show ?thesis by (auto simp: payload_bytes_def)
qed

lemma raw_parser_overruns:
  assumes ok: "mfg_storage_ok rd wr er capacity page tlv"
    and key: "rd (st_ctx (storage_impl tlv)) (start_offset tlv + 8) 2 = Inr (be16 k)" "k \<noteq> 0xFFFF"
    and len: "rd (st_ctx (storage_impl tlv)) (start_offset tlv + 8 + 2) 2 = Inr (be16 l)"
    and big: "unat l > max_element_size env"
    and dat: "rd (st_ctx (storage_impl tlv)) (start_offset tlv + 8 + 4) (unat l) = Inr d"
    and room: "unat (start_offset tlv) + 8 < ctx_hi tlv"
  shows "parse_mfg_raw_tlv env (Some heap) tlv ks = Some Fault"
proof -
  have pok: "partition_ok tlv" and h: "st_read (storage_impl tlv) = Some rd"
    "tlv_storage_start_marker_size tlv = 8"
    using ok by (simp_all add: mfg_storage_ok_def partition_ok_def)
  obtain m0 where m0: "tlv_write_start_marker (Some (new_ram_tlv heap tlv)) mfg_header 8 =
      (0, Some (set_storage (new_ram_tlv heap tlv) m0))"
    using new_image [OF pok] by blast
  have "start_offset tlv + 8 = word_of_nat (ctx_lo tlv)"
    using ctx_words(1) [of tlv] h(2) by simp
  moreover have "ctx_lo tlv < 4294967296" "ctx_hi tlv < 4294967296"
    using pok room partition_words(3) [OF pok] by (auto simp: partition_ok_def)
  ultimately have "unat (start_offset tlv + 8) = ctx_lo tlv" by (simp add: unat_of_nat_u32)
  then have lt: "start_offset tlv + 8 < end_offset tlv"
    using room partition_words(3) [OF pok] by (simp add: word_less_nat_alt ctx_hi_def)
  have "parse_raw_loop env (rd (st_ctx (storage_impl tlv))) (end_offset tlv) (start_offset tlv + 8) buf ram ks =
      Some Fault" for buf ram
    using lt key len dat big by (subst parse_raw_loop.simps) (simp add: Let_def)
  with m0 h partition_words(2) [OF pok] show ?thesis by (simp add: parse_mfg_raw_tlv_def)
qed

text \<open>
  \<^verbatim>\<open>parse_mfg_raw_tlv\<close> does not check the length of a value against its payload buffer:
  a first value longer than \<^verbatim>\<open>CONFIG_SIDEWALK_MFG_PARSER_MAX_ELEMENT_SIZE\<close> that the storage
  can read overruns the buffer.
\<close>

theorem parse_mfg_raw_tlv_overruns:
  assumes ok: "mfg_storage_ok rd wr er capacity page tlv"
    and key: "rd (st_ctx (storage_impl tlv)) (start_offset tlv + 8) 2 = Inr (be16 k)" "k \<noteq> 0xFFFF"
    and len: "rd (st_ctx (storage_impl tlv)) (start_offset tlv + 8 + 2) 2 = Inr (be16 l)"
    and big: "unat l > max_element_size env"
    and dat: "rd (st_ctx (storage_impl tlv)) (start_offset tlv + 8 + 4) (unat l) = Inr d"
    and room: "unat (start_offset tlv) + 8 < ctx_hi tlv"
  shows "parse_mfg_raw_tlv env (Some heap) tlv ks = Some Fault"
  by (rule raw_parser_overruns [OF assms])

section \<open>The version 7 parser\<close>

text \<open>
  The fixed-offset table is well formed: its values are pairwise distinct tags, every
  value lies inside the first 1416 bytes behind the eight bytes of the marker, and no two values
  overlap.
\<close>

theorem mfg_offset_table_disjoint:
  "distinct (map fst (sid_pal_mfg_store_app_value_to_offset_table False)) \<and>
   list_all (\<lambda>(v, sz, off). 8 \<le> 4 * unat off \<and> 4 * unat off + unat sz \<le> 1416)
     (sid_pal_mfg_store_app_value_to_offset_table False) \<and>
   sorted_wrt (\<lambda>(v, sz, off) (v', sz', off').
       4 * unat off + unat sz \<le> 4 * unat off' \<or> 4 * unat off' + unat sz' \<le> 4 * unat off)
     (sid_pal_mfg_store_app_value_to_offset_table False)"
  by (simp add: sid_pal_mfg_store_app_value_to_offset_table_def)

lemma offset_table_rows:
  "1416 \<le> n \<Longrightarrow> 64 \<le> max_element_size env \<Longrightarrow>
   \<forall>row \<in> set (sid_pal_mfg_store_app_value_to_offset_table False). offset_row_ok env n row"
  by (simp add: sid_pal_mfg_store_app_value_to_offset_table_def offset_row_ok_def)

text \<open>
  C9. On flash whose driver keeps its contract and in a build without the legacy offsets,
  \<^verbatim>\<open>parse_mfg_const_offsets\<close> converts a version 7 partition of at least 1416 bytes: it returns 0, and the partition then carries the
  \<^verbatim>\<open>SID0\<close> marker and a TLV region that holds, under their tags, exactly the values of the
  offset table that are not erased (less the private keys when the build keeps those in PSA)
  and the flags entry; the key store is the one the imports of the private keys produce.
\<close>

theorem parse_mfg_const_offsets_installs:
  assumes drv: "flash_driver_ok fr fw cell cap" "flash_erase_ok fe cell cap page"
    and ok: "mfg_storage_ok (tlv_storage_flash_read fr) (tlv_storage_flash_write fw)
      (tlv_storage_flash_erase fe) (dev_size cap) page tlv"
    and size: "1416 \<le> partition_size tlv" "64 \<le> max_element_size env" "\<not> legacy_offsets env"
    and es: "es = offset_values (dev_cell cell (st_ctx (storage_impl tlv))) (unat (start_offset tlv))
        (sid_pal_mfg_store_app_value_to_offset_table False)"
      "mfg_import env ks es = Some ks'"
    and fits: "16 + tlv_used (mfg_kept env es) \<le> partition_size tlv"
  shows "\<exists>s2. parse_mfg_const_offsets env (Some heap) tlv ks = Some (Done (0, set_storage tlv s2, ks')) \<and>
    mfg_installed (tlv_storage_flash_read fr) (tlv_storage_flash_write fw) (dev_cell cell) (dev_size cap)
      tlv s2 (mfg_kept env es @ [(MFG_FLAGS_TYPE_ID, mfg_flags (psa_key_storage env))])"
  using size(3)
  by (intro tlv_rewritable.offset_parser_installs [OF flash_rewritable [OF drv] ok
        offset_table_rows [OF size(1,2)] _ es fits]) simp

section \<open>Concrete instances\<close>

definition nor_erase :: "mem tlv_storage_erase_t" where
  "nor_erase m off sz =
     (if unat off + unat sz \<le> 4096 then (0, mem_fill m off 0xFF (unat sz)) else (- EINVAL, m))"

lemma nor_erase_ok: "flash_erase_ok nor_erase (\<lambda>m i. m (word_of_nat i)) (\<lambda>_. 4096) 4096"
  by (auto simp: flash_erase_ok_def nor_erase_def unat_of_nat_u32 mem_fill_def mem_write_at)

text \<open>A page with two raw values, one of them a private key, and an erased page.\<close>

definition nor_ctx :: "mem \<Rightarrow> mem option tlv_ctx" where
  "nor_ctx m =
     \<lparr>storage_impl = \<lparr>st_ctx = Some m, st_write = Some (tlv_storage_flash_write nor_write),
        st_erase = Some (tlv_storage_flash_erase nor_erase), st_read = Some (tlv_storage_flash_read nor_read)\<rparr>,
      start_offset = 0, end_offset = 4096, tlv_storage_start_marker_size = 8\<rparr>"

definition raw_page :: mem where
  "raw_page = mem_write (\<lambda>_. 0xFF) 8 [0, 4, 0, 4, 1, 2, 3, 4, 0, 6, 0, 5, 9, 9, 9, 9, 9]"

definition raw_values :: "entry list" where
  "raw_values = [(4, [1, 2, 3, 4]), (6, [9, 9, 9, 9, 9])]"

definition psa_env :: "key_map mfg_env" where
  "psa_env = \<lparr>env_psa = map_psa, env_keys = KeyStoragePersistent, psa_key_storage = True,
     max_element_size = 64, legacy_offsets = False\<rparr>"

lemma psa_env_simps [simp]:
  "max_element_size psa_env = 64" "\<not> legacy_offsets psa_env" "psa_key_storage psa_env"
  by (simp_all add: psa_env_def)

lemma nor_ctx_ok:
  "mfg_storage_ok (tlv_storage_flash_read nor_read) (tlv_storage_flash_write nor_write)
     (tlv_storage_flash_erase nor_erase) (dev_size (\<lambda>_. 4096)) 4096 (nor_ctx m)"
  by (simp add: mfg_storage_ok_def partition_ok_def partition_size_def nor_ctx_def ctx_hi_def dev_size_def)

lemma nor_ctx_bounds [simp]:
  "ctx_lo (nor_ctx m) = 8" "ctx_hi (nor_ctx m) = 4096" "partition_size (nor_ctx m) = 4096"
  "st_ctx (storage_impl (nor_ctx m)) = Some m" "start_offset (nor_ctx m) = 0" "end_offset (nor_ctx m) = 4096"
  by (simp_all add: nor_ctx_def ctx_lo_def ctx_hi_def partition_size_def)

lemma raw_page_region:
  "raw_region (dev_cell (\<lambda>m i. m (word_of_nat i)) (Some raw_page)) 8 4096 raw_values"
  by (simp add: raw_values_def dev_cell_def upt_conv_Cons raw_page_def be16_def)

lemma raw_values_import: "\<exists>ks'. mfg_import psa_env Map.empty raw_values = Some ks'"
  by (simp add: raw_values_def psa_env_def mfg_private_def mfg_key_id_def map_psa_def
      sid_crypto_keys_new_import_def sid_crypto_keys_buffer_get_def u32_of_le_def
      SID_CRYPTO_KEYS_ID_IS_SIDEWALK_KEY_def)

theorem parse_mfg_raw_tlv_installs_witness:
  "\<exists>s2 ks'. parse_mfg_raw_tlv psa_env (Some (\<lambda>_. 0)) (nor_ctx raw_page) Map.empty =
     Some (Done (0, set_storage (nor_ctx raw_page) s2, ks'))"
proof -
  obtain ks' where ks': "mfg_import psa_env Map.empty raw_values = Some ks'" using raw_values_import by auto
  have "\<forall>e \<in> set raw_values. mfg_entry_ok psa_env e" "16 + tlv_used (mfg_kept psa_env raw_values) \<le> 4096"
    by (simp_all add: raw_values_def mfg_entry_ok_def entry_ok_def psa_env_def mfg_private_def entry_len_def
        CALCULATE_PADDING_def)
  with parse_mfg_raw_tlv_installs [OF nor_driver_ok nor_erase_ok nor_ctx_ok, of raw_page raw_values psa_env
      Map.empty ks' "\<lambda>_. 0"] raw_page_region ks'
  show ?thesis by auto
qed

theorem parse_mfg_raw_tlv_overruns_witness:
  "parse_mfg_raw_tlv (psa_env\<lparr>max_element_size := 3\<rparr>) (Some (\<lambda>_. 0)) (nor_ctx raw_page) Map.empty = Some Fault"
proof (rule parse_mfg_raw_tlv_overruns [OF nor_ctx_ok, where k = 4 and l = 4 and d = "[1, 2, 3, 4]"])
  have r: "tlv_storage_flash_read nor_read (Some raw_page) (word_of_nat n) k =
      Inr (map (\<lambda>i. raw_page (word_of_nat i)) [n..<n + k])" if "n + k \<le> 4096" for n k
    using that by (simp add: tlv_storage_flash_read_def nor_read_def mem_read_conv unat_of_nat_u32)
  show "tlv_storage_flash_read nor_read (st_ctx (storage_impl (nor_ctx raw_page)))
      (start_offset (nor_ctx raw_page) + 8) 2 = Inr (be16 4)"
    using r [of 8 2] by (simp add: upt_conv_Cons raw_page_def be16_def)
  show "tlv_storage_flash_read nor_read (st_ctx (storage_impl (nor_ctx raw_page)))
      (start_offset (nor_ctx raw_page) + 8 + 2) 2 = Inr (be16 4)"
    using r [of 10 2] by (simp add: upt_conv_Cons raw_page_def be16_def)
  show "tlv_storage_flash_read nor_read (st_ctx (storage_impl (nor_ctx raw_page)))
      (start_offset (nor_ctx raw_page) + 8 + 4) (unat (4 :: u16)) = Inr [1, 2, 3, 4]"
    using r [of 12 4] by (simp add: upt_conv_Cons raw_page_def)
qed simp_all

lemma erased_page_values:
  "offset_values (dev_cell (\<lambda>m i. m (word_of_nat i)) (Some (\<lambda>_. 0xFF))) a tbl = []"
  by (auto simp: offset_values_def dev_cell_def filter_empty_conv)

text \<open>A version 7 page with a serial number and a private key.\<close>

definition v7_page :: mem where
  "v7_page a = (if 8 \<le> a \<and> a < 25 then 7 else if 104 \<le> a \<and> a < 136 then 9 else 0xFF)"

definition v7_values :: "entry list" where
  "v7_values = [(3, replicate 17 7), (6, replicate 32 9)]"

definition v7_cell :: "nat \<Rightarrow> u8" where
  "v7_cell = dev_cell (\<lambda>m i. m (word_of_nat i)) (Some v7_page)"

lemma v7_cell_at: "i < 4096 \<Longrightarrow> v7_cell i = (if 8 \<le> i \<and> i < 25 then 7 else if 104 \<le> i \<and> i < 136 then 9 else 0xFF)"
  by (simp add: v7_cell_def dev_cell_def v7_page_def word_le_nat_alt word_less_nat_alt unat_of_nat_u32)

text \<open>The bytes of a row, and whether they are all erased.\<close>

definition v7_row :: "nat \<Rightarrow> nat \<Rightarrow> u8 list" where
  "v7_row a n = map v7_cell [a..<a + n]"

definition v7_row_erased :: "nat \<Rightarrow> nat \<Rightarrow> bool" where
  "v7_row_erased a n \<longleftrightarrow> (\<forall>b \<in> set (v7_row a n). b = 0xFF)"

lemma offset_values_row:
  "offset_values v7_cell 0 ((v, sz, off) # tbl) =
     (if v7_row_erased (4 * unat off) (unat sz) then offset_values v7_cell 0 tbl
      else (v, v7_row (4 * unat off) (unat sz)) # offset_values v7_cell 0 tbl)"
  "offset_values v7_cell 0 [] = []"
  by (simp_all add: offset_values_def v7_row_erased_def v7_row_def)

lemma v7_erased:
  "a + n \<le> 4096 \<Longrightarrow> a + n \<le> 8 \<or> 25 \<le> a \<and> a + n \<le> 104 \<or> 136 \<le> a \<Longrightarrow> v7_row_erased a n"
  by (auto simp: v7_row_erased_def v7_row_def v7_cell_at)

lemma v7_row_const:
  assumes "\<And>i. a \<le> i \<Longrightarrow> i < a + n \<Longrightarrow> v7_cell i = x"
  shows "v7_row a n = replicate n x"
proof -
  have "v7_row a n = map (\<lambda>_. x) [a..<a + n]" unfolding v7_row_def using assms by (intro map_cong) auto
  then show ?thesis by (simp add: map_replicate_const)
qed

lemma v7_used: "v7_row 8 17 = replicate 17 7" "v7_row 104 32 = replicate 32 9"
  by (intro v7_row_const; simp add: v7_cell_at)+

lemma v7_not_erased: "\<not> v7_row_erased 8 17" "\<not> v7_row_erased 104 32"
  unfolding v7_row_erased_def v7_used by simp_all

lemma v7_page_values:
  "offset_values (dev_cell (\<lambda>m i. m (word_of_nat i)) (Some v7_page)) 0
     (sid_pal_mfg_store_app_value_to_offset_table False) = v7_values"
  unfolding v7_cell_def [symmetric] sid_pal_mfg_store_app_value_to_offset_table_def
  by (simp add: offset_values_row v7_erased v7_not_erased v7_used v7_values_def)

theorem parse_mfg_const_offsets_installs_witness:
  "\<exists>s2. parse_mfg_const_offsets psa_env (Some (\<lambda>_. 0)) (nor_ctx v7_page) Map.empty =
     Some (Done (0, set_storage (nor_ctx v7_page) s2,
       [1 \<mapsto> (sid_crypto_keys_attributes_set KeyStoragePersistent 1, replicate 32 9)])) \<and>
     mfg_installed (tlv_storage_flash_read nor_read) (tlv_storage_flash_write nor_write)
       (dev_cell (\<lambda>m i. m (word_of_nat i))) (dev_size (\<lambda>_. 4096)) (nor_ctx v7_page) s2
       [(3, replicate 17 7), (MFG_FLAGS_TYPE_ID, mfg_flags True)]"
proof -
  let ?ks = "[1 \<mapsto> (sid_crypto_keys_attributes_set KeyStoragePersistent 1, replicate 32 9)] :: key_map"
  have priv: "mfg_private psa_env 6" "\<not> mfg_private psa_env 3" by (simp_all add: mfg_private_def)
  have "\<not> is_key_reference KeyStoragePersistent (replicate 32 9)" by (simp add: is_key_reference_def)
  then have "sid_crypto_keys_new_import map_psa KeyStoragePersistent Map.empty 1 (Some (replicate 32 9)) 32 = Some (0, ?ks)"
    by (simp add: sid_crypto_keys_new_import_def buffer_get_conv map_psa_def Let_def)
  then have imp: "mfg_import psa_env Map.empty v7_values = Some ?ks"
    using priv by (simp add: v7_values_def mfg_key_id_def psa_env_def)
  have "16 + tlv_used (mfg_kept psa_env v7_values) \<le> 4096"
    using priv by (simp add: v7_values_def entry_len_def CALCULATE_PADDING_def)
  moreover have "mfg_kept psa_env v7_values = [(3, replicate 17 7)]" using priv by (simp add: v7_values_def)
  ultimately show ?thesis
    using parse_mfg_const_offsets_installs [OF nor_driver_ok nor_erase_ok nor_ctx_ok, of v7_page psa_env
        v7_values Map.empty ?ks "\<lambda>_. 0"] imp
    by (simp add: v7_page_values)
qed

theorem mfg_installed_reads_witness:
  "\<exists>s2. tlv_read (Some (set_storage (nor_ctx (\<lambda>_. 0xFF)) s2)) 6 32 = Some (Inl (- ENODATA))"
proof -
  have "\<exists>s2. mfg_finish psa_env (nor_ctx (\<lambda>_. 0xFF)) (set_storage (new_ram_tlv (\<lambda>_. 0) (nor_ctx (\<lambda>_. 0xFF))) m) Map.empty =
      Some (Done (0, set_storage (nor_ctx (\<lambda>_. 0xFF)) s2, Map.empty)) \<and>
    mfg_installed (tlv_storage_flash_read nor_read) (tlv_storage_flash_write nor_write)
      (dev_cell (\<lambda>m i. m (word_of_nat i))) (dev_size (\<lambda>_. 4096)) (nor_ctx (\<lambda>_. 0xFF)) s2
      (mfg_kept psa_env [] @ [(MFG_FLAGS_TYPE_ID, mfg_flags (psa_key_storage psa_env))])"
    if "ram_holds (set_storage (new_ram_tlv (\<lambda>_. 0) (nor_ctx (\<lambda>_. 0xFF))) m) []"
      "\<forall>i < 8. m (word_of_nat i) = mfg_header ! i" for m
    using tlv_rewritable.finish_installs [OF flash_rewritable [OF nor_driver_ok nor_erase_ok] nor_ctx_ok that,
        of psa_env Map.empty] by simp
  moreover have "partition_ok (nor_ctx (\<lambda>_. 0xFF))" using nor_ctx_ok by (simp add: mfg_storage_ok_def)
  ultimately obtain s2 where "mfg_installed (tlv_storage_flash_read nor_read) (tlv_storage_flash_write nor_write)
      (dev_cell (\<lambda>m i. m (word_of_nat i))) (dev_size (\<lambda>_. 4096)) (nor_ctx (\<lambda>_. 0xFF)) s2
      (mfg_kept psa_env [] @ [(MFG_FLAGS_TYPE_ID, mfg_flags (psa_key_storage psa_env))])"
    using new_image [of "nor_ctx (\<lambda>_. 0xFF)" "\<lambda>_. 0"] by blast
  from mfg_installed_reads [OF nor_driver_ok this, of 6 32] show ?thesis
    by (auto simp: mfg_private_def)
qed

end
