(* ===== verification/Mfg_Store_Props.thy ===== *)
theory Mfg_Store_Props
  imports Mfg_Storage Mfg_Props
begin

text \<open>
  The properties of the manufacturing store: initialisation converts a raw partition once
  and leaves a converted one alone, what a value reads as afterwards, the emptiness check,
  and the upgrade from a build without PSA key storage.
\<close>

section \<open>A raw stream read as TLV\<close>

text \<open>
  Tag and length of the raw stream have the layout of a TLV header without padding, so the
  TLV scan walks the raw stream; \<open>raw_used\<close> is the length of the stream.
\<close>

definition raw_used :: "entry list \<Rightarrow> nat" where
  "raw_used es = sum_list (map (\<lambda>e. 4 + length (snd e)) es)"

lemma raw_used_simps [simp]:
  "raw_used [] = 0" "raw_used (e # es) = 4 + length (snd e) + raw_used es"
  by (simp_all add: raw_used_def)

lemma raw_header:
  assumes "length d < 256"
  shows "bytes_to_header (be16 k @ be16 (word_of_nat (length d))) =
    \<lparr>hdr_type = k, payload_size = \<lparr>padding = 0, data_size = word_of_nat (length d)\<rparr>\<rparr>"
proof -
  have u: "unat (word_of_nat (length d) :: u16) = length d"
    using assms by (intro unat_of_nat_u16) simp
  have "drop_bit 8 (word_of_nat (length d) :: u16) = 0"
    using assms u by (simp add: word_unat_eq_iff drop_bit_eq_div unat_div)
  moreover have "ucast ((word_of_nat (length d) :: u16) AND 0xFF) = (word_of_nat (length d) :: u8)"
    unfolding u16_FF_mask by (rule bit_word_eqI) (auto simp: bit_simps)
  ultimately show ?thesis by (simp add: be16_def bytes_to_header_def word16_hi_lo)
qed

context tlv_backend
begin

lemma read_erased:
  assumes "\<And>i. lo \<le> i \<Longrightarrow> i < hi \<Longrightarrow> content s i = 0xFF"
    and "hi \<le> capacity s" "hi + 600 \<le> tlv_limit" "lo \<le> hi" "ty \<noteq> 0xFFFF"
  shows "tlv_read_loop (rd s) (word_of_nat hi) ty sz (word_of_nat lo) = Some (Inl (- ENODATA))"
  using read_region [of s lo hi "[]" ty sz] assms by simp

lemma raw_read_absent:
  assumes "raw_region (content s) lo hi es" "hi \<le> capacity s" "hi + 600 \<le> tlv_limit"
    and "\<And>i. lo + raw_used es \<le> i \<Longrightarrow> i < hi \<Longrightarrow> content s i = 0xFF"
    and "\<forall>e \<in> set es. entry_ok e" "map_of es ty = None" "ty \<noteq> 0xFFFF"
  shows "tlv_read_loop (rd s) (word_of_nat hi) ty sz (word_of_nat lo) = Some (Inl (- ENODATA))"
  using assms(1,4-6)
proof (induction es arbitrary: lo)
  case Nil
  with assms(2,3,7) raw_region_bounds [OF Nil(1)] show ?case by (intro read_erased) auto
next
  case (Cons e es)
  obtain k d where e: "e = (k, d)" by (cases e)
  let ?lo = "lo + (4 + length d)"
  have reg: "raw_region (content s) ?lo hi es"
    "map (content s) [lo..<?lo] = be16 k @ be16 (word_of_nat (length d)) @ d"
    using Cons.prems(1) by (simp_all add: e)
  have d: "length d < 256" "k \<noteq> ty" using Cons.prems(3,4) by (auto simp: e entry_ok_def)
  have le: "?lo \<le> hi" using raw_region_bounds [OF reg(1)] .
  have "rd s (word_of_nat lo) 4 = Inr (be16 k @ be16 (word_of_nat (length d)))"
    using rd_slice [OF reg(2), of 0 4] le assms(2,3) by simp
  then have "tlv_read_loop (rd s) (word_of_nat hi) ty sz (word_of_nat lo) =
      tlv_read_loop (rd s) (word_of_nat hi) ty sz (word_of_nat ?lo)"
    using le assms(3) d
    by (subst tlv_read_step) (simp_all add: raw_header payload_span_def unat_of_nat_u8 add.assoc del: of_nat_add)
  also have "\<dots> = Some (Inl (- ENODATA))"
    using Cons.prems by (intro Cons.IH reg(1)) (auto simp: e add.assoc split: if_splits)
  finally show ?case .
qed

end

section \<open>Initialisation\<close>

lemma be_version_8 [simp]: "be_version [0, 0, 0, 8] = 8"
  by (simp add: be_version_def)

text \<open>
  The flash layout and driver of a build, as the properties need them. Builds that protect the
  partition (\<^verbatim>\<open>CONFIG_FPROTECT\<close>) are left out: what \<^verbatim>\<open>fprotect_area\<close> does to the device is not
  part of the driver's contract.
\<close>

definition build_ok :: "'d mfg_build \<Rightarrow> ('d \<Rightarrow> nat \<Rightarrow> u8) \<Rightarrow> ('d \<Rightarrow> nat) \<Rightarrow> nat \<Rightarrow> bool" where
  "build_ok b cell cap page \<longleftrightarrow>
     flash_driver_ok (b_flash_read b) (b_flash_write b) cell cap \<and> flash_erase_ok (b_flash_erase b) cell cap page \<and>
     b_fprotect b = None"

abbreviation partition_context ::
  "'d mfg_build \<Rightarrow> ('d \<Rightarrow> nat) \<Rightarrow> nat \<Rightarrow> 'd option tlv_ctx \<Rightarrow> bool" where
  "partition_context b cap page \<equiv>
     mfg_storage_ok (tlv_storage_flash_read (b_flash_read b)) (tlv_storage_flash_write (b_flash_write b))
       (tlv_storage_flash_erase (b_flash_erase b)) (dev_size cap) page"

abbreviation partition_installed ::
  "'d mfg_build \<Rightarrow> ('d \<Rightarrow> nat \<Rightarrow> u8) \<Rightarrow> ('d \<Rightarrow> nat) \<Rightarrow> 'd option tlv_ctx \<Rightarrow> 'd option \<Rightarrow> entry list \<Rightarrow> bool" where
  "partition_installed b cell cap \<equiv>
     mfg_installed (tlv_storage_flash_read (b_flash_read b)) (tlv_storage_flash_write (b_flash_write b))
       (dev_cell cell) (dev_size cap)"

lemma build_backends:
  assumes "build_ok b cell cap page"
  shows "tlv_backend (tlv_storage_flash_read (b_flash_read b)) (tlv_storage_flash_write (b_flash_write b))
      (dev_cell cell) (dev_size cap)"
    "tlv_rewritable (tlv_storage_flash_read (b_flash_read b)) (tlv_storage_flash_write (b_flash_write b))
      (dev_cell cell) (dev_size cap) (tlv_storage_flash_erase (b_flash_erase b)) page"
  using assms flash_backend flash_rewritable by (auto simp: build_ok_def)

text \<open>Reading a value of an installed partition returns, so the log at the end of the start-up does too.\<close>

lemma store_read_returns:
  assumes "partition_ok (tlv_flash st)" "unat sz \<le> 65532"
  shows "\<exists>buf. sid_pal_mfg_store_read env ks st v buffer sz = Some buf"
proof -
  have b: "ctx_hi (tlv_flash st) + 600 \<le> tlv_limit" "ctx_lo (tlv_flash st) \<le> ctx_hi (tlv_flash st) + 514"
    using assms(1) partition_words(3) [OF assms(1)] by (auto simp: partition_ok_def)
  have "\<exists>r. tlv_read (Some (tlv_flash st)) v sz = Some r"
    using read_loop_returns [OF b] by (auto simp: tlv_read_def ctx_words split: option.splits)
  then show ?thesis
    by (auto simp: sid_pal_mfg_store_read_def Let_def split: prod.splits sum.splits)
qed

lemma init_finish_returns:
  assumes "b_fprotect b = None" "partition_ok (tlv_flash st)"
  shows "mfg_init_finish b env st ks = Some (Done (st, ks))"
  using assms store_read_returns [OF assms(2), of 32 env ks 4 "replicate 32 0"]
  by (auto simp: mfg_init_finish_def)

lemma partition_ok_set_storage [simp]: "partition_ok (set_storage tlv s) = partition_ok tlv"
  by (simp add: partition_ok_def)

text \<open>A partition's marker and the flags of a converted one.\<close>

lemma marker_read:
  assumes "tlv_backend (tlv_storage_flash_read fr) wr content capacity"
    and "mfg_storage_ok (tlv_storage_flash_read fr) wr er capacity page tlv"
    and "map (content (st_ctx (storage_impl tlv))) [unat (start_offset tlv)..<unat (start_offset tlv) + 8] = mfg_header"
  shows "tlv_read_start_marker (Some tlv) 8 = Inr mfg_header"
proof -
  have pok: "partition_ok tlv" "st_read (storage_impl tlv) = Some (tlv_storage_flash_read fr)"
    "ctx_hi tlv \<le> capacity (st_ctx (storage_impl tlv))"
    using assms(2) by (simp_all add: mfg_storage_ok_def)
  then have "tlv_storage_flash_read fr (st_ctx (storage_impl tlv)) (word_of_nat (unat (start_offset tlv))) 8 =
      Inr mfg_header"
    using assms(3) by (subst tlv_backend.rd_ok [OF assms(1)]) (auto simp: partition_ok_def)
  with pok show ?thesis by (simp add: tlv_read_start_marker_def partition_ok_def)
qed

lemma need_to_parse_raw:
  assumes "tlv_backend (tlv_storage_flash_read fr) wr content capacity"
    and "mfg_storage_ok (tlv_storage_flash_read fr) wr er capacity page tlv"
    and "raw_region (content (st_ctx (storage_impl tlv))) (ctx_lo tlv) (ctx_hi tlv) es"
    and "\<And>i. ctx_lo tlv + raw_used es \<le> i \<Longrightarrow> i < ctx_hi tlv \<Longrightarrow> content (st_ctx (storage_impl tlv)) i = 0xFF"
    and "\<forall>e \<in> set es. entry_ok e" "map_of es MFG_FLAGS_TYPE_ID = None"
  shows "mfg_need_to_parse psa 8 tlv = Some (Inr True)"
proof -
  have h: "st_read (storage_impl tlv) = Some (tlv_storage_flash_read fr)"
    "ctx_hi tlv \<le> capacity (st_ctx (storage_impl tlv))" "ctx_hi tlv + 600 \<le> tlv_limit"
    using assms(2) by (simp_all add: mfg_storage_ok_def partition_ok_def)
  have "tlv_read (Some tlv) MFG_FLAGS_TYPE_ID 4 = Some (Inl (- ENODATA))"
    using tlv_backend.raw_read_absent [OF assms(1,3) h(2,3) assms(4-6), of 4] h(1)
    by (simp add: tlv_read_def ctx_words)
  then show ?thesis by (simp add: mfg_need_to_parse_def)
qed

lemma need_to_parse_installed:
  assumes "tlv_backend rd wr content capacity"
    and "tlv_holds rd wr content capacity tlv (es @ [(MFG_FLAGS_TYPE_ID, mfg_flags psa)])"
    and "map_of es MFG_FLAGS_TYPE_ID = None"
  shows "mfg_need_to_parse psa 8 tlv = Some (Inr False)"
proof -
  have "tlv_read (Some tlv) MFG_FLAGS_TYPE_ID 4 = Some (Inr (mfg_flags psa))"
    using tlv_backend.read_holds [OF assms(1,2), of MFG_FLAGS_TYPE_ID 4] assms(3)
    by (simp add: map_add_def payload_bytes_def mfg_flags_def)
  then show ?thesis by (simp add: mfg_need_to_parse_def mfg_flags_def)
qed

lemma mfg_tlv_ctx_simps [simp]:
  "set_storage (mfg_tlv_ctx b dev a z) dev' = mfg_tlv_ctx b dev' a z"
  "st_ctx (storage_impl (mfg_tlv_ctx b dev a z)) = dev"
  "start_offset (mfg_tlv_ctx b dev a z) = a" "ctx_hi (mfg_tlv_ctx b dev a z) = unat z"
  by (simp_all add: mfg_tlv_ctx_def set_storage_def ctx_hi_def)

lemma mfg_header_parts: "take 4 mfg_header = [0x53, 0x49, 0x44, 0x30]" "drop 4 mfg_header = [0, 0, 0, 8]"
  by (simp_all add: mfg_header_def)

text \<open>
  C5. First start on a device whose partition carries the \<^verbatim>\<open>SID0\<close> marker, version 8 and the raw
  values \<open>es\<close>: \<^verbatim>\<open>sid_pal_mfg_store_init\<close> finds no flags entry, converts the partition, and
  ends with version 8, the values installed (private keys only in the key store) and the
  flags entry written. The build is one without flash protection of the partition.
\<close>

theorem mfg_init_provisions:
  assumes b: "build_ok b cell cap page" and ci: "psa_key_storage env \<longrightarrow> crypto_init = 0"
    and ok: "partition_context b cap page (mfg_tlv_ctx b (Some d) a z)"
    and mark: "map (cell d) [unat a..<unat a + 8] = mfg_header"
    and raw: "raw_region (cell d) (unat a + 8) (unat z) es"
      "\<And>i. unat a + 8 + raw_used es \<le> i \<Longrightarrow> i < unat z \<Longrightarrow> cell d i = 0xFF"
    and es: "\<forall>e \<in> set es. mfg_entry_ok env e" "map_of es MFG_FLAGS_TYPE_ID = None"
      "mfg_import env ks es = Some ks'" "16 + tlv_used (mfg_kept env es) \<le> unat z - unat a"
  shows "\<exists>dev'. sid_pal_mfg_store_init b env crypto_init (Some heap) (Some d) a z st ks =
      Some (Done (st\<lparr>flash_dev_set := True, tlv_flash := mfg_tlv_ctx b dev' a z, sid_mfg_version := 8\<rparr>, ks')) \<and>
    partition_installed b cell cap (mfg_tlv_ctx b (Some d) a z) dev'
      (mfg_kept env es @ [(MFG_FLAGS_TYPE_ID, mfg_flags (psa_key_storage env))])"
proof -
  let ?tlv = "mfg_tlv_ctx b (Some d) a z"
  note be = build_backends [OF b]
  have pok: "partition_ok ?tlv" using ok by (simp add: mfg_storage_ok_def)
  have lo: "ctx_lo ?tlv = unat a + 8" using partition_words(3) [OF pok] by simp
  have c: "dev_cell cell (Some d) = cell d" by (simp add: dev_cell_def fun_eq_iff)
  have m: "tlv_read_start_marker (Some ?tlv) 8 = Inr mfg_header"
    using marker_read [OF be(1) ok] mark by (simp add: c)
  have n: "mfg_need_to_parse (psa_key_storage env) 8 ?tlv = Some (Inr True)"
    using raw es(1,2) by (intro need_to_parse_raw [OF be(1) ok]) (auto simp: lo c mfg_entry_ok_def)
  obtain s2 where s2: "parse_mfg_raw_tlv env (Some heap) ?tlv ks = Some (Done (0, set_storage ?tlv s2, ks'))"
    "partition_installed b cell cap ?tlv s2 (mfg_kept env es @ [(MFG_FLAGS_TYPE_ID, mfg_flags (psa_key_storage env))])"
    using tlv_rewritable.raw_parser_installs [OF be(2) ok _ es(1,3), of heap] raw es(4)
    by (auto simp: lo c partition_size_def)
  have "partition_ok (mfg_tlv_ctx b s2 a z)"
    using pok by (simp add: partition_ok_def mfg_tlv_ctx_def ctx_hi_def)
  then have f: "mfg_init_finish b env (st\<lparr>flash_dev_set := True, tlv_flash := mfg_tlv_ctx b s2 a z, sid_mfg_version := 8\<rparr>) ks' =
      Some (Done (st\<lparr>flash_dev_set := True, tlv_flash := mfg_tlv_ctx b s2 a z, sid_mfg_version := 8\<rparr>, ks'))"
    using b by (intro init_finish_returns) (simp_all add: build_ok_def)
  have "sid_pal_mfg_store_init b env crypto_init (Some heap) (Some d) a z st ks =
      Some (Done (st\<lparr>flash_dev_set := True, tlv_flash := mfg_tlv_ctx b s2 a z, sid_mfg_version := 8\<rparr>, ks'))"
    using ci m n s2(1) f
    by (auto simp: sid_pal_mfg_store_init_def Let_def mfg_header_parts mfg_run_parser_def)
  with s2(2) show ?thesis by auto
qed

text \<open>
  C6. Starting again on a converted partition (with the same key-storage setting) is a no-op:
  no parser runs, the flash and the key store are untouched, whatever the allocator would
  return, and the version is 8. The build is one without flash protection of the partition.
\<close>

theorem mfg_init_again:
  assumes b: "build_ok b cell cap page" and ci: "psa_key_storage env \<longrightarrow> crypto_init = 0"
    and ok: "partition_context b cap page (mfg_tlv_ctx b (Some d) a z)"
    and inst: "partition_installed b cell cap (mfg_tlv_ctx b dev a z) (Some d)
      (es @ [(MFG_FLAGS_TYPE_ID, mfg_flags (psa_key_storage env))])"
    and es: "map_of es MFG_FLAGS_TYPE_ID = None"
  shows "sid_pal_mfg_store_init b env crypto_init heap (Some d) a z st ks =
    Some (Done (st\<lparr>flash_dev_set := True, tlv_flash := mfg_tlv_ctx b (Some d) a z, sid_mfg_version := 8\<rparr>, ks))"
proof -
  let ?tlv = "mfg_tlv_ctx b (Some d) a z"
  note be = build_backends [OF b]
  have pok: "partition_ok ?tlv" using ok by (simp add: mfg_storage_ok_def)
  have i: "tlv_holds (tlv_storage_flash_read (b_flash_read b)) (tlv_storage_flash_write (b_flash_write b))
      (dev_cell cell) (dev_size cap) ?tlv (es @ [(MFG_FLAGS_TYPE_ID, mfg_flags (psa_key_storage env))])"
    "map (dev_cell cell (Some d)) [unat a..<unat a + 8] = mfg_header"
    using inst by (simp_all add: mfg_installed_def)
  have m: "tlv_read_start_marker (Some ?tlv) 8 = Inr mfg_header"
    using marker_read [OF be(1) ok] i(2) by simp
  have f: "mfg_init_finish b env (st\<lparr>flash_dev_set := True, tlv_flash := ?tlv, sid_mfg_version := 8\<rparr>) ks =
      Some (Done (st\<lparr>flash_dev_set := True, tlv_flash := ?tlv, sid_mfg_version := 8\<rparr>, ks))"
    using b pok by (intro init_finish_returns) (simp_all add: build_ok_def)
  show ?thesis
    using ci m need_to_parse_installed [OF be(1) i(1) es] f
    by (auto simp: sid_pal_mfg_store_init_def Let_def mfg_header_parts)
qed

text \<open>
  C7. Reading from an installed partition. An ordinary value gives exactly the bytes
  provisioned (with their padding, when the buffer is longer); a value that is absent or
  shorter than the buffer leaves the buffer as it was, and the version is always 8. In a
  build that keeps private keys in PSA, reading a private key never gives anything of the
  partition, whatever it holds and whatever the key store answers: the buffer gets the key
  reference (the key's identifier and zeros) when the key exists and the buffer holds four
  bytes, and is otherwise left as it was.
\<close>

theorem mfg_read_installed:
  assumes b: "build_ok b cell cap page"
    and inst: "partition_installed b cell cap (tlv_flash st) (st_ctx (storage_impl (tlv_flash st)))
      (mfg_kept env es @ [(MFG_FLAGS_TYPE_ID, mfg_flags (psa_key_storage env))])"
    and v: "v \<noteq> 0xFFFF" "v \<noteq> MFG_FLAGS_TYPE_ID" and buf: "length buffer = unat len"
  shows "(\<not> mfg_private env v \<and> v \<noteq> 2 \<longrightarrow>
      sid_pal_mfg_store_read env ks st v buffer len =
        Some (case map_of es v of None \<Rightarrow> buffer
              | Some d \<Rightarrow> if unat len \<le> length (payload_bytes d) then take (unat len) (payload_bytes d) else buffer)) \<and>
    (v = 2 \<longrightarrow> sid_pal_mfg_store_read env ks st v buffer len = Some ([0, 0, 0, 8] @ drop 4 buffer)) \<and>
    (mfg_private env v \<longrightarrow> (\<forall>st'. sid_pal_mfg_store_read env ks st' v buffer len =
        Some (if mfg_key_id env v \<noteq> PSA_KEY_ID_NULL \<and> 4 \<le> unat len \<and>
                 psa_get_key_attributes (env_psa env) ks (mfg_key_id env v) = PSA_SUCCESS
              then u32_to_le (mfg_key_id env v) @ replicate (unat len - 4) 0 else buffer)))"
proof (intro conjI impI allI)
  have np: "sid_mfg_storage_secure_read env ks v buffer len = (- ENOENT, buffer)" if "psa_key_storage env" "\<not> mfg_private env v"
    using that by (auto simp: sid_mfg_storage_secure_read_def mfg_private_def)
  show "sid_pal_mfg_store_read env ks st v buffer len = Some ([0, 0, 0, 8] @ drop 4 buffer)" if "v = 2"
    using that np by (auto simp: sid_pal_mfg_store_read_def mfg_private_def)
  assume v2: "\<not> mfg_private env v \<and> v \<noteq> 2"
  then have "map_of (mfg_kept env es) v = map_of es v"
    by (induction es) (auto split: if_splits)
  then have "map_of (mfg_kept env es @ [(MFG_FLAGS_TYPE_ID, mfg_flags (psa_key_storage env))]) v = map_of es v"
    using v(2) by (auto simp: map_add_def split: option.splits)
  then have "tlv_read (Some (tlv_flash st)) v len =
      Some (case map_of es v of None \<Rightarrow> Inl (- ENODATA)
        | Some d \<Rightarrow> if unat len \<le> length (payload_bytes d) then Inr (take (unat len) (payload_bytes d)) else Inl (- ENOMEM))"
    using tlv_backend.read_holds [OF build_backends(1) [OF b]
        conjunct1 [OF inst [unfolded mfg_installed_def set_storage_self]] v(1), of len]
    by simp
  then show "sid_pal_mfg_store_read env ks st v buffer len =
      Some (case map_of es v of None \<Rightarrow> buffer
            | Some d \<Rightarrow> if unat len \<le> length (payload_bytes d) then take (unat len) (payload_bytes d) else buffer)"
    using v2 np buf by (auto simp: sid_pal_mfg_store_read_def split: option.splits)
next
  fix st'
  assume p: "mfg_private env v"
  then have sec: "sid_mfg_storage_secure_read env ks v buffer len =
      map_prod id the (sid_crypto_keys_buffer_set (env_psa env) ks (mfg_key_id env v) (Some buffer) (unat len))"
    by (auto simp: sid_mfg_storage_secure_read_def mfg_private_def mfg_key_id_def split: prod.splits)
  show "sid_pal_mfg_store_read env ks st' v buffer len =
      Some (if mfg_key_id env v \<noteq> PSA_KEY_ID_NULL \<and> 4 \<le> unat len \<and>
               psa_get_key_attributes (env_psa env) ks (mfg_key_id env v) = PSA_SUCCESS
            then u32_to_le (mfg_key_id env v) @ replicate (unat len - 4) 0 else buffer)"
    using p sec buf
    by (auto simp: sid_pal_mfg_store_read_def mfg_private_def sid_crypto_keys_buffer_set_def)
qed

section \<open>Upgrade to PSA key storage\<close>

lemma entry_as_raw:
  assumes "length d < 256" "CALCULATE_PADDING (length d) \<noteq> 0"
  shows "\<exists>l. header_to_bytes (entry_header (k, d)) = be16 k @ be16 l \<and> 256 \<le> unat l \<and> unat l < 1024"
proof -
  let ?p = "CALCULATE_PADDING (length d)" and ?l = "word_of_nat (256 * CALCULATE_PADDING (length d) + length d) :: u16"
  have lt: "256 * ?p + length d < 1024" using assms(1) padding_lt4 [of "length d"] by linarith
  then have u: "unat ?l = 256 * ?p + length d" by (intro unat_of_nat_u16) simp
  have "unat (drop_bit 8 ?l) = ?p" using assms(1) u by (simp add: drop_bit_eq_div unat_div)
  then have hi: "ucast (drop_bit 8 ?l) = (word_of_nat ?p :: u8)" by (metis of_nat_unat)
  have "unat (?l AND 0xFF) = length d"
    using assms(1) u unfolding u16_FF_mask by (simp add: take_bit_eq_mask [symmetric] take_bit_eq_mod unat_mod)
  then have lo: "ucast (?l AND 0xFF) = (word_of_nat (length d) :: u8)" by (metis of_nat_unat)
  have "header_to_bytes (entry_header (k, d)) = be16 k @ be16 ?l"
    by (simp add: header_to_bytes_def entry_header_def be16_def hi [symmetric] lo [symmetric])
  with u lt assms(2) show ?thesis by (intro exI [of _ ?l]) simp
qed

text \<open>
  A partition converted by a build without PSA key storage is not safe to start with a
  build that has it: the flags entry lacks \<^verbatim>\<open>keys_in_psa\<close>, so \<^verbatim>\<open>sid_pal_mfg_store_init\<close> runs the
  raw parser over the converted region. There the length field's high byte is the padding,
  so a first value whose length is not a multiple of four (the 17-byte serial number) is
  taken for one of at least 256 bytes and overruns the payload buffer.
\<close>

theorem mfg_psa_upgrade_overruns:
  assumes b: "build_ok b cell cap page" and psa: "psa_key_storage env" "crypto_init = 0" "max_element_size env < 256"
    and ok: "partition_context b cap page (mfg_tlv_ctx b (Some d) a z)"
    and inst: "partition_installed b cell cap (mfg_tlv_ctx b dev a z) (Some d)
      ((k, v) # es @ [(MFG_FLAGS_TYPE_ID, mfg_flags False)])"
    and es: "map_of ((k, v) # es) MFG_FLAGS_TYPE_ID = None" "CALCULATE_PADDING (length v) \<noteq> 0"
    and room: "unat a + 1100 \<le> unat z"
  shows "sid_pal_mfg_store_init b env crypto_init (Some heap) (Some d) a z st ks = Some Fault"
proof -
  let ?tlv = "mfg_tlv_ctx b (Some d) a z" and ?es = "(k, v) # es @ [(MFG_FLAGS_TYPE_ID, mfg_flags False)]"
  note be = build_backends [OF b]
  have pok: "partition_ok ?tlv" "unat z \<le> dev_size cap (Some d)" "unat z + 70000 \<le> tlv_limit"
    using ok by (simp_all add: mfg_storage_ok_def partition_ok_def)
  have lo: "ctx_lo ?tlv = unat a + 8" using partition_words(3) [OF pok(1)] by simp
  have i: "tlv_holds (tlv_storage_flash_read (b_flash_read b)) (tlv_storage_flash_write (b_flash_write b))
      (dev_cell cell) (dev_size cap) ?tlv ?es"
    "map (dev_cell cell (Some d)) [unat a..<unat a + 8] = mfg_header"
    using inst by (simp_all add: mfg_installed_def)
  have m: "tlv_read_start_marker (Some ?tlv) 8 = Inr mfg_header"
    using marker_read [OF be(1) ok] i(2) by simp
  have "tlv_read (Some ?tlv) MFG_FLAGS_TYPE_ID 4 = Some (Inr (mfg_flags False))"
    using tlv_backend.read_holds [OF be(1) i(1), of MFG_FLAGS_TYPE_ID 4] es(1)
    by (auto simp: map_add_def payload_bytes_def mfg_flags_def split: if_splits)
  then have n: "mfg_need_to_parse True 8 ?tlv = Some (Inr True)"
    by (simp add: mfg_need_to_parse_def mfg_flags_def)
  have e: "entry_ok (k, v)" "map (dev_cell cell (Some d)) [unat a + 8..<unat a + 8 + entry_len (k, v)] = entry_bytes (k, v)"
    using i(1) unfolding tlv_holds_def lo by simp_all
  then obtain l where l: "header_to_bytes (entry_header (k, v)) = be16 k @ be16 l" "256 \<le> unat l" "unat l < 1024"
    using entry_as_raw [of v k] es(2) by (auto simp: entry_ok_def)
  have eb: "entry_bytes (k, v) = be16 k @ be16 l @ payload_bytes v" by (simp add: entry_bytes_def l(1))
  have ge: "4 \<le> entry_len (k, v)" "entry_len (k, v) \<le> 262"
    using e(1) padding_lt4 [of "length v"] unfolding entry_len_def entry_ok_def fst_conv snd_conv by linarith+
  note sl = tlv_backend.rd_slice [OF be(1) e(2)]
  have rds: "tlv_storage_flash_read (b_flash_read b) (Some d) (a + 8) 2 = Inr (be16 k)"
    "tlv_storage_flash_read (b_flash_read b) (Some d) (a + 8 + 2) 2 = Inr (be16 l)"
    using sl [of 0 2] sl [of 2 2] ge pok(2,3) room by (simp_all add: eb ac_simps)
  have "tlv_storage_flash_read (b_flash_read b) (Some d) (word_of_nat (unat a + 12)) (unat l) =
      Inr (map (dev_cell cell (Some d)) [unat a + 12..<unat a + 12 + unat l])"
    using l(3) pok(2,3) room by (intro tlv_backend.rd_ok [OF be(1)]) linarith+
  then have "parse_mfg_raw_tlv env (Some heap) ?tlv ks = Some Fault"
    using l(2) psa(3) e(1) rds room
    by (intro raw_parser_overruns [OF ok]) (auto simp: entry_ok_def ac_simps)
  with m n psa(1,2) show ?thesis
    by (simp add: sid_pal_mfg_store_init_def Let_def mfg_header_parts mfg_run_parser_def)
qed

section \<open>The emptiness check\<close>

lemma is_empty_step:
  assumes "lo < 4294967296" "hi + 128 < 4294967296" "0 < n" "n \<le> 128" "lo \<le> hi"
  shows "is_empty_loop rd ev (word_of_nat hi) (word_of_nat lo) (word_of_nat n) =
    (if lo < hi then
       (case rd (word_of_nat lo) (min n (hi - lo)) of
          Inl _ \<Rightarrow> Some False
        | Inr buf \<Rightarrow> if \<exists>b \<in> set buf. b \<noteq> ev then Some False
            else is_empty_loop rd ev (word_of_nat hi) (word_of_nat (lo + min n (hi - lo)))
                   (word_of_nat (min n (hi - lo))))
     else Some True)"
proof -
  have w: "unat (word_of_nat lo :: u32) = lo" "unat (word_of_nat hi :: u32) = hi" "unat (word_of_nat n :: u32) = n"
    "unat (word_of_nat (lo + n) :: u32) = lo + n"
    using assms by (simp_all add: unat_of_nat_u32 del: of_nat_add)
  have lt: "((word_of_nat lo :: u32) < word_of_nat hi) = (lo < hi)"
    "((word_of_nat hi :: u32) < word_of_nat lo + word_of_nat n) = (hi < lo + n)"
    using w by (simp_all add: word_less_nat_alt)
  have len: "(if (word_of_nat hi :: u32) < word_of_nat lo + word_of_nat n
      then word_of_nat hi - word_of_nat lo else word_of_nat n) = (word_of_nat (min n (hi - lo)) :: u32)"
    using assms(5) unfolding lt by (auto simp: min_def of_nat_diff)
  have "unat (word_of_nat (min n (hi - lo)) :: u32) = min n (hi - lo)"
    using assms by (intro unat_of_nat_u32) auto
  then show ?thesis by (subst is_empty_loop.simps) (simp add: Let_def lt(1) len split: sum.splits)
qed

lemma all_range_split:
  assumes "lo + k \<le> (hi :: nat)"
  shows "(\<forall>i. lo \<le> i \<and> i < hi \<longrightarrow> P i) \<longleftrightarrow> (\<forall>i \<in> {lo..<lo + k}. P i) \<and> (\<forall>i. lo + k \<le> i \<and> i < hi \<longrightarrow> P i)"
proof -
  have "lo \<le> i \<and> i < hi \<longleftrightarrow> i \<in> {lo..<lo + k} \<or> lo + k \<le> i \<and> i < hi" for i using assms by auto
  then show ?thesis by blast
qed

lemma is_empty_scan:
  assumes rd: "\<And>n k. n + k \<le> hi \<Longrightarrow> rd (word_of_nat n) k = Inr (map c [n..<n + k])"
    and "hi + 128 < 4294967296" "0 < n" "n \<le> 128" "lo \<le> hi"
  shows "is_empty_loop rd ev (word_of_nat hi) (word_of_nat lo) (word_of_nat n) =
    Some (\<forall>i. lo \<le> i \<and> i < hi \<longrightarrow> c i = ev)"
  using assms(3-)
proof (induction "hi - lo" arbitrary: lo n rule: less_induct)
  case less
  show ?case
  proof (cases "lo < hi")
    case True
    let ?k = "min n (hi - lo)"
    have k: "0 < ?k" "?k \<le> 128" "lo + ?k \<le> hi" using True less.prems by auto
    have "is_empty_loop rd ev (word_of_nat hi) (word_of_nat (lo + ?k)) (word_of_nat ?k) =
        Some (\<forall>i. lo + ?k \<le> i \<and> i < hi \<longrightarrow> c i = ev)"
      using True k by (intro less.hyps) auto
    moreover note all_range_split [OF k(3), of "\<lambda>i. c i = ev"]
    ultimately show ?thesis
      using True less.prems assms(2) rd [OF k(3)] by (subst is_empty_step) auto
  next
    case False
    with less.prems assms(2) show ?thesis by (subst is_empty_step) auto
  qed
qed

text \<open>
  In a diagnostic build \<^verbatim>\<open>sid_pal_mfg_store_is_empty\<close> always returns, and returns true
  exactly when every byte of the partition has the flash's erase value, although it compares
  in chunks of 128 bytes of which the last may be shorter.
\<close>

theorem mfg_is_empty_iff:
  assumes drv: "flash_driver_ok (b_flash_read b) (b_flash_write b) cell cap"
    and b: "b_diagnostic b" "flash_dev_set st"
    and bounds: "start_offset (tlv_flash st) \<le> end_offset (tlv_flash st)"
      "ctx_hi (tlv_flash st) \<le> cap dev" "ctx_hi (tlv_flash st) + 70000 \<le> tlv_limit"
  shows "sid_pal_mfg_store_is_empty b ev dev st =
    Some (\<forall>i. unat (start_offset (tlv_flash st)) \<le> i \<and> i < ctx_hi (tlv_flash st) \<longrightarrow> cell dev i = ev)"
proof -
  have "is_empty_loop (b_flash_read b dev) ev (word_of_nat (ctx_hi (tlv_flash st)))
      (word_of_nat (unat (start_offset (tlv_flash st)))) (word_of_nat 128) =
      Some (\<forall>i. unat (start_offset (tlv_flash st)) \<le> i \<and> i < ctx_hi (tlv_flash st) \<longrightarrow> cell dev i = ev)"
    using drv bounds by (intro is_empty_scan) (auto simp: flash_driver_ok_def ctx_hi_def word_le_nat_alt)
  with b show ?thesis by (simp add: sid_pal_mfg_store_is_empty_def ctx_hi_def)
qed

section \<open>Concrete instances\<close>

definition nor_build :: "mem mfg_build" where
  "nor_build = \<lparr>b_flash_read = nor_read, b_flash_write = nor_write, b_flash_erase = nor_erase,
     b_diagnostic = True, b_support_v7 = True, b_fprotect = None\<rparr>"

lemma nor_build_ok: "build_ok nor_build (\<lambda>m i. m (word_of_nat i)) (\<lambda>_. 4096) 4096"
  by (simp add: build_ok_def nor_build_def nor_driver_ok nor_erase_ok)

lemma nor_build_ctx: "mfg_tlv_ctx nor_build (Some m) 0 4096 = nor_ctx m"
  by (simp add: mfg_tlv_ctx_def nor_build_def nor_ctx_def)

lemma nor_build_context: "partition_context nor_build (\<lambda>_. 4096) 4096 (nor_ctx m)"
  using nor_ctx_ok by (simp add: nor_build_def)

definition marked_page :: mem where
  "marked_page = mem_write (\<lambda>_. 0xFF) 0 (mfg_header @ [0, 4, 0, 4, 1, 2, 3, 4])"

definition blank_store :: "mem mfg_store" where
  "blank_store = \<lparr>flash_dev_set = False, sid_mfg_version = 0xFFFFFFFF, tlv_flash = nor_ctx (\<lambda>_. 0xFF)\<rparr>"

lemma marked_page_at:
  "i < 4096 \<Longrightarrow> marked_page (word_of_nat i) =
     (if i < 16 then (mfg_header @ [0, 4, 0, 4, 1, 2, 3, 4]) ! i else 0xFF)"
  using mem_write_at [of 0 "mfg_header @ [0, 4, 0, 4, 1, 2, 3, 4]" i "\<lambda>_. 0xFF"]
  by (simp add: marked_page_def mfg_header_def)

theorem mfg_init_provisions_witness:
  "\<exists>dev'. sid_pal_mfg_store_init nor_build psa_env 0 (Some (\<lambda>_. 0)) (Some marked_page) 0 4096 blank_store Map.empty =
     Some (Done (blank_store\<lparr>flash_dev_set := True, tlv_flash := mfg_tlv_ctx nor_build dev' 0 4096,
       sid_mfg_version := 8\<rparr>, Map.empty))"
proof -
  have "raw_region (\<lambda>i. marked_page (word_of_nat i)) (unat (0 :: u32) + 8) (unat (4096 :: u32)) [(4, [1, 2, 3, 4])]"
    by (simp add: upt_conv_Cons be16_def marked_page_def mfg_header_def)
  moreover have "map (\<lambda>i. marked_page (word_of_nat i)) [unat (0 :: u32)..<unat (0 :: u32) + 8] = mfg_header"
    by (simp add: upt_conv_Cons marked_page_def mfg_header_def)
  ultimately show ?thesis
    using mfg_init_provisions [OF nor_build_ok, of psa_env 0 marked_page 0 4096 "[(4, [1, 2, 3, 4])]" Map.empty
        Map.empty "\<lambda>_. 0" blank_store] nor_build_context [of marked_page]
    by (auto simp: nor_build_ctx marked_page_at mfg_entry_ok_def entry_ok_def mfg_private_def entry_len_def
        CALCULATE_PADDING_def)
qed

text \<open>A page that holds a raw 17-byte serial number, and the same page converted.\<close>

definition serial_number :: "u8 list" where
  "serial_number = [7, 7, 7, 7, 7, 7, 7, 7, 7, 7, 7, 7, 7, 7, 7, 7, 7]"

definition serial_page :: mem where
  "serial_page = mem_write (\<lambda>_. 0xFF) 8 ([0, 3, 0, 17] @ serial_number)"

lemma serial_page_raw: "raw_region (dev_cell (\<lambda>m i. m (word_of_nat i)) (Some serial_page)) 8 4096 [(3, serial_number)]"
  by (simp add: dev_cell_def be16_def upt_conv_Cons serial_page_def serial_number_def)

lemma serial_number_length [simp]: "length serial_number = 17" "serial_number \<noteq> []"
  by (simp_all add: serial_number_def)

lemma converted_page:
  "\<exists>m. partition_installed nor_build (\<lambda>m i. m (word_of_nat i)) (\<lambda>_. 4096) (nor_ctx m) (Some m)
     [(3, serial_number), (MFG_FLAGS_TYPE_ID, mfg_flags psa)]"
proof -
  let ?env = "psa_env\<lparr>psa_key_storage := psa\<rparr>" and ?es = "[(3, serial_number)] :: entry list"
  have kept: "mfg_kept ?env ?es = ?es" "mfg_import ?env Map.empty ?es = Some Map.empty"
    by (simp_all add: mfg_private_def)
  obtain s2 where s2: "partition_installed nor_build (\<lambda>m i. m (word_of_nat i)) (\<lambda>_. 4096) (nor_ctx serial_page) s2
      (?es @ [(MFG_FLAGS_TYPE_ID, mfg_flags psa)])"
    using tlv_rewritable.raw_parser_installs [OF build_backends(2) [OF nor_build_ok] nor_build_context, of serial_page
        ?es ?env Map.empty Map.empty "\<lambda>_. 0"] serial_page_raw kept
    by (auto simp: mfg_entry_ok_def entry_ok_def mfg_private_def entry_len_def CALCULATE_PADDING_def)
  then obtain m where "s2 = Some m"
    by (cases s2) (auto simp: mfg_installed_def tlv_holds_def dev_size_def)
  with s2 show ?thesis by (auto simp: mfg_installed_def nor_ctx_def set_storage_def)
qed

theorem mfg_init_again_witness:
  "\<exists>m. sid_pal_mfg_store_init nor_build psa_env 0 None (Some m) 0 4096 blank_store Map.empty =
     Some (Done (blank_store\<lparr>flash_dev_set := True, tlv_flash := nor_ctx m, sid_mfg_version := 8\<rparr>, Map.empty))"
proof -
  obtain m where m: "partition_installed nor_build (\<lambda>m i. m (word_of_nat i)) (\<lambda>_. 4096) (nor_ctx m) (Some m)
     [(3, serial_number), (MFG_FLAGS_TYPE_ID, mfg_flags True)]" using converted_page by blast
  with mfg_init_again [OF nor_build_ok, of psa_env 0 m 0 4096 "Some m" "[(3, serial_number)]" None blank_store Map.empty]
    nor_build_context [of m]
  show ?thesis by (auto simp: nor_build_ctx)
qed

theorem mfg_read_installed_witness:
  "\<exists>m. sid_pal_mfg_store_read psa_env Map.empty (blank_store\<lparr>tlv_flash := nor_ctx m\<rparr>) 3 (replicate 17 0) 17 =
     Some serial_number \<and>
   sid_pal_mfg_store_read psa_env Map.empty (blank_store\<lparr>tlv_flash := nor_ctx m\<rparr>) 6 (replicate 32 5) 32 =
     Some (replicate 32 5) \<and>
   sid_pal_mfg_store_read psa_env [1 \<mapsto> (sid_crypto_keys_attributes_set KeyStoragePersistent 1, replicate 32 9)]
       (blank_store\<lparr>tlv_flash := nor_ctx m\<rparr>) 6 (replicate 32 5) 32 =
     Some ([1, 0, 0, 0] @ replicate 28 0)"
proof -
  let ?ks = "[1 \<mapsto> (sid_crypto_keys_attributes_set KeyStoragePersistent 1, replicate 32 9)] :: key_map"
  obtain m where m: "partition_installed nor_build (\<lambda>m i. m (word_of_nat i)) (\<lambda>_. 4096) (nor_ctx m) (Some m)
     [(3, serial_number), (MFG_FLAGS_TYPE_ID, mfg_flags True)]" using converted_page by blast
  have k: "mfg_private psa_env 6" "\<not> mfg_private psa_env 3" "mfg_key_id psa_env 6 = 1" "u32_to_le 1 = [1, 0, 0, 0]"
    "psa_get_key_attributes (env_psa psa_env) ?ks 1 = PSA_SUCCESS"
    "psa_get_key_attributes (env_psa psa_env) Map.empty 1 \<noteq> PSA_SUCCESS"
    by (simp_all add: mfg_private_def mfg_key_id_def psa_env_def map_psa_def u32_to_le_def)
  note r = mfg_read_installed [OF nor_build_ok, of "blank_store\<lparr>tlv_flash := nor_ctx m\<rparr>" psa_env "[(3, serial_number)]"]
  show ?thesis
    using r [of 3 "replicate 17 0" 17 Map.empty] r [of 6 "replicate 32 5" 32 Map.empty]
      r [of 6 "replicate 32 5" 32 ?ks] m k
    by (intro exI [of _ m]) (auto simp: payload_bytes_def)
qed

theorem mfg_psa_upgrade_overruns_witness:
  "\<exists>m. sid_pal_mfg_store_init nor_build psa_env 0 (Some (\<lambda>_. 0)) (Some m) 0 4096 blank_store Map.empty = Some Fault"
proof -
  obtain m where m: "partition_installed nor_build (\<lambda>m i. m (word_of_nat i)) (\<lambda>_. 4096) (nor_ctx m) (Some m)
     [(3, serial_number), (MFG_FLAGS_TYPE_ID, mfg_flags False)]" using converted_page by blast
  with mfg_psa_upgrade_overruns [OF nor_build_ok, of psa_env 0 m 0 4096 "Some m" 3 "serial_number" "[]" "\<lambda>_. 0"
      blank_store Map.empty] nor_build_context [of m]
  show ?thesis by (auto simp: nor_build_ctx CALCULATE_PADDING_def)
qed

theorem mfg_is_empty_iff_witness:
  "sid_pal_mfg_store_is_empty nor_build 0xFF (\<lambda>_. 0xFF) (blank_store\<lparr>flash_dev_set := True\<rparr>) = Some True"
  using mfg_is_empty_iff [where b = nor_build and cell = "\<lambda>m i. m (word_of_nat i)" and cap = "\<lambda>_. 4096"
      and st = "blank_store\<lparr>flash_dev_set := True\<rparr>" and dev = "\<lambda>_. 0xFF" and ev = "0xFF"] nor_driver_ok
  by (simp add: nor_build_def blank_store_def)

end
