(* ===== verification/On_Dev_Cert.thy ===== *)
theory On_Dev_Cert
  imports Mfg_Storage
begin

text \<open>
  On-device certification, \<^verbatim>\<open>sid_on_dev_cert.c\<close>: the device generates its serial number hash
  and its key pairs, receives its certificate chains, verifies them and stores everything in
  the manufacturing store. The progress is a byte of state flags.
\<close>

section \<open>State\<close>

abbreviation (input) ODC_STATE_FLG_SMSN :: u8 where "ODC_STATE_FLG_SMSN \<equiv> 0x01"
abbreviation (input) ODC_STATE_FLG_APP_KEY :: u8 where "ODC_STATE_FLG_APP_KEY \<equiv> 0x02"
abbreviation (input) ODC_STATE_FLG_ED25519_CSR :: u8 where "ODC_STATE_FLG_ED25519_CSR \<equiv> 0x04"
abbreviation (input) ODC_STATE_FLG_P256R1_CSR :: u8 where "ODC_STATE_FLG_P256R1_CSR \<equiv> 0x08"
abbreviation (input) ODC_STATE_FLG_ED25519_CHAIN :: u8 where "ODC_STATE_FLG_ED25519_CHAIN \<equiv> 0x10"
abbreviation (input) ODC_STATE_FLG_P256R1_CHAIN :: u8 where "ODC_STATE_FLG_P256R1_CHAIN \<equiv> 0x20"
abbreviation (input) ODC_STATE_MSK_FULL_INIT :: u8 where "ODC_STATE_MSK_FULL_INIT \<equiv> 0x3F"

abbreviation (input) SID_ODC_CA_SERIAL_MAX_SIZE :: nat where "SID_ODC_CA_SERIAL_MAX_SIZE \<equiv> 129"

datatype odc_algo = SID_ODC_CRYPT_ALGO_ED25519 | SID_ODC_CRYPT_ALGO_P256R1 | SID_ODC_CRYPT_ALGO_OTHER

record odc_ca =
  ca_pub_key :: "u8 list"
  ca_signature :: "u8 list"
  ca_serial_length :: nat
  ca_serial :: "u8 list"

record odc_context =
  odc_state :: u8
  odc_smsn :: "u8 list"
  odc_apid :: "u8 list"
  odc_app_key :: "u8 list"
  device_ed25519_prk :: "u8 list"
  device_ed25519_puk :: "u8 list"
  device_ed25519_sig :: "u8 list"
  device_p256r1_prk :: "u8 list"
  device_p256r1_puk :: "u8 list"
  device_p256r1_sig :: "u8 list"
  cert_ed25519 :: "odc_ca list"
  cert_p256r1 :: "odc_ca list"

text \<open>
  The crypto layer: hashing, signing, verifying and key generation as functions of their
  inputs, each with its error code.
\<close>

record odc_crypto =
  crypto_hash :: "u8 list \<Rightarrow> sid_error \<times> u8 list"
  crypto_sign :: "odc_algo \<Rightarrow> u8 list \<Rightarrow> u8 list \<Rightarrow> sid_error \<times> u8 list"
  crypto_verify :: "odc_algo \<Rightarrow> u8 list \<Rightarrow> u8 list \<Rightarrow> u8 list \<Rightarrow> sid_error"
  crypto_key_gen :: "odc_algo \<Rightarrow> sid_error \<times> u8 list \<times> u8 list"

definition IS_STATE_FLG_SET :: "odc_context \<Rightarrow> u8 \<Rightarrow> bool" where
  "IS_STATE_FLG_SET ctx flags \<longleftrightarrow> odc_state ctx AND flags = flags"

definition IS_STATE_FLG_UNSET :: "odc_context \<Rightarrow> u8 \<Rightarrow> bool" where
  "IS_STATE_FLG_UNSET ctx flags \<longleftrightarrow> odc_state ctx AND flags = 0"

section \<open>Initialisation\<close>

definition blank_ca :: "nat \<Rightarrow> odc_ca" where
  "blank_ca puk_size = \<lparr>ca_pub_key = replicate puk_size 0xFF, ca_signature = replicate 64 0xFF,
     ca_serial_length = 0, ca_serial = replicate SID_ODC_CA_SERIAL_MAX_SIZE 0xFF\<rparr>"

definition blank_context :: odc_context where
  "blank_context =
     \<lparr>odc_state = 0, odc_smsn = replicate 32 0xFF, odc_apid = replicate 4 0xFF, odc_app_key = replicate 32 0xFF,
      device_ed25519_prk = replicate 32 0xFF, device_ed25519_puk = replicate 32 0xFF,
      device_ed25519_sig = replicate 64 0xFF, device_p256r1_prk = replicate 32 0xFF,
      device_p256r1_puk = replicate 64 0xFF, device_p256r1_sig = replicate 64 0xFF,
      cert_ed25519 = replicate 5 (blank_ca 32), cert_p256r1 = replicate 5 (blank_ca 64)\<rparr>"

definition sid_on_dev_cert_init :: "bool \<Rightarrow> odc_context option \<Rightarrow> sid_error \<times> odc_context option" where
  "sid_on_dev_cert_init alloc_ok ctx =
     (if ctx = None \<and> \<not> alloc_ok then (SID_ERROR_OOM, None) else (SID_ERROR_NONE, Some blank_context))"

definition sid_on_dev_cert_deinit :: "odc_context option \<Rightarrow> odc_context option" where
  "sid_on_dev_cert_deinit ctx = None"

section \<open>Serial number\<close>

text \<open>The strings of \<^verbatim>\<open>struct sid_on_dev_cert_info\<close>, each of which may be \<^verbatim>\<open>NULL\<close>.\<close>

record odc_info =
  dev_type :: "u8 list option"
  dsn :: "u8 list option"
  info_apid :: "u8 list option"
  board_id :: "u8 list option"

definition sid_on_dev_cert_generate_smsn ::
  "odc_crypto \<Rightarrow> bool \<Rightarrow> odc_info option \<Rightarrow> bool \<Rightarrow> odc_context option \<Rightarrow>
   sid_error \<times> u8 list option \<times> odc_context option" where
  "sid_on_dev_cert_generate_smsn cr alloc_ok dev_info smsn_p ctx_p =
     (case dev_info of
        None \<Rightarrow> (SID_ERROR_NULL_POINTER, None, ctx_p)
      | Some info \<Rightarrow>
          if \<not> smsn_p \<or> dev_type info = None \<or> dsn info = None \<or> info_apid info = None
          then (SID_ERROR_NULL_POINTER, None, ctx_p)
          else
            (case ctx_p of
               None \<Rightarrow> (SID_ERROR_UNINITIALIZED, None, ctx_p)
             | Some ctx0 \<Rightarrow>
                 let ctx = ctx0\<lparr>odc_state := 0\<rparr> in
                 if length (the (dsn info)) + 1 > 17 \<or> length (the (info_apid info)) \<noteq> 4
                 then (SID_ERROR_INVALID_ARGS, None, Some ctx)
                 else if \<not> alloc_ok then (SID_ERROR_OOM, None, Some ctx)
                 else
                   (let m_buf = the (dev_type info) @ the (dsn info) @ the (info_apid info)
                          @ (case board_id info of None \<Rightarrow> [] | Some bid \<Rightarrow> bid)
                    in case crypto_hash cr m_buf of
                         (ret, digest) \<Rightarrow>
                           if ret = SID_ERROR_NONE
                           then (ret, Some digest,
                                 Some (ctx\<lparr>odc_apid := the (info_apid info), odc_smsn := digest,
                                           odc_state := odc_state ctx OR ODC_STATE_FLG_SMSN\<rparr>))
                           else (ret, Some digest, Some ctx))))"

section \<open>Certificate signing request\<close>

definition odc_puk :: "odc_algo \<Rightarrow> odc_context \<Rightarrow> u8 list" where
  "odc_puk algo ctx = (if algo = SID_ODC_CRYPT_ALGO_ED25519 then device_ed25519_puk ctx else device_p256r1_puk ctx)"

definition odc_prk :: "odc_algo \<Rightarrow> odc_context \<Rightarrow> u8 list" where
  "odc_prk algo ctx = (if algo = SID_ODC_CRYPT_ALGO_ED25519 then device_ed25519_prk ctx else device_p256r1_prk ctx)"

definition odc_set_keys :: "odc_algo \<Rightarrow> u8 list \<Rightarrow> u8 list \<Rightarrow> odc_context \<Rightarrow> odc_context" where
  "odc_set_keys algo puk prk ctx =
     (if algo = SID_ODC_CRYPT_ALGO_ED25519 then ctx\<lparr>device_ed25519_puk := puk, device_ed25519_prk := prk\<rparr>
      else ctx\<lparr>device_p256r1_puk := puk, device_p256r1_prk := prk\<rparr>)"

definition odc_csr_flag :: "odc_algo \<Rightarrow> u8" where
  "odc_csr_flag algo =
     (if algo = SID_ODC_CRYPT_ALGO_ED25519 then ODC_STATE_FLG_ED25519_CSR else ODC_STATE_FLG_P256R1_CSR)"

definition odc_chain_flag :: "odc_algo \<Rightarrow> u8" where
  "odc_chain_flag algo =
     (if algo = SID_ODC_CRYPT_ALGO_ED25519 then ODC_STATE_FLG_ED25519_CHAIN else ODC_STATE_FLG_P256R1_CHAIN)"

text \<open>
  The key pair: with PSA key storage the private key stays in the key store and the context
  receives the key reference, otherwise the crypto layer writes both halves (whatever its
  error code).
\<close>

definition odc_key_pair ::
  "odc_crypto \<Rightarrow> 'k mfg_env \<Rightarrow> odc_algo \<Rightarrow> odc_context \<Rightarrow> 'k \<Rightarrow> (sid_error \<times> odc_context \<times> 'k) guarded" where
  "odc_key_pair cr env algo ctx ks =
     (if psa_key_storage env then
        (let key_id = sid_crypto_key_id (env_keys env)
               (if algo = SID_ODC_CRYPT_ALGO_ED25519 then SID_CRYPTO_MFG_ED25519_PRIV_KEY
                else SID_CRYPTO_MFG_SECP_256R1_PRIV_KEY)
         in case sid_crypto_keys_new_generate (env_psa env) (env_keys env) ks key_id
                   (Some (odc_puk algo ctx)) (length (odc_puk algo ctx)) of
              None \<Rightarrow> Fault
            | Some (err, puk, ks1) \<Rightarrow>
                (let ctx1 = odc_set_keys algo (the puk) (odc_prk algo ctx) ctx in
                 if err \<noteq> 0 then Done (SID_ERROR_GENERIC, ctx1, ks1)
                 else (case sid_crypto_keys_buffer_set (env_psa env) ks1 key_id
                              (Some (odc_prk algo ctx)) (length (odc_prk algo ctx)) of
                         (err, prk) \<Rightarrow>
                           Done (if err = 0 then SID_ERROR_NONE else SID_ERROR_GENERIC,
                                 odc_set_keys algo (the puk) (the prk) ctx, ks1))))
      else
        (case crypto_key_gen cr algo of
           (ret, puk, prk) \<Rightarrow>
             Done (ret, odc_set_keys algo puk prk ctx, ks)))"

text \<open>
  \<open>csr_in\<close> is \<^verbatim>\<open>*csr_size\<close> on entry (\<open>None\<close>: one of the pointers is \<^verbatim>\<open>NULL\<close>). The result carries
  the error, the request written so far, \<^verbatim>\<open>*csr_size\<close> on return, the context and the key store.
\<close>

definition sid_on_dev_cert_generate_csr ::
  "odc_crypto \<Rightarrow> 'k mfg_env \<Rightarrow> odc_algo \<Rightarrow> nat option \<Rightarrow> odc_context option \<Rightarrow> 'k \<Rightarrow>
   (sid_error \<times> u8 list \<times> nat \<times> odc_context option \<times> 'k) guarded" where
  "sid_on_dev_cert_generate_csr cr env algo csr_in ctx_p ks =
     (case csr_in of
        None \<Rightarrow> Done (SID_ERROR_NULL_POINTER, [], 0, ctx_p, ks)
      | Some csr_in_size \<Rightarrow>
          (case ctx_p of
             None \<Rightarrow> Done (SID_ERROR_UNINITIALIZED, [], 0, ctx_p, ks)
           | Some ctx \<Rightarrow>
               if IS_STATE_FLG_UNSET ctx ODC_STATE_FLG_SMSN
               then Done (SID_ERROR_INVALID_STATE, [], 0, ctx_p, ks)
               else if algo = SID_ODC_CRYPT_ALGO_OTHER
               then Done (SID_ERROR_INCOMPATIBLE_PARAMS, [], 0, ctx_p, ks)
               else
                 (let ctx1 = ctx\<lparr>odc_state := odc_state ctx AND NOT (odc_csr_flag algo) AND NOT (odc_chain_flag algo)\<rparr>
                  in case odc_key_pair cr env algo ctx1 ks of
                       Fault \<Rightarrow> Fault
                     | Done (ret, ctx2, ks1) \<Rightarrow>
                         if ret \<noteq> SID_ERROR_NONE then Done (ret, [], 0, Some ctx2, ks1)
                         else
                           (let csr_out_size = length (odc_puk algo ctx2) + 32 + 64;
                                body = odc_puk algo ctx2 @ odc_smsn ctx2
                            in if csr_in_size < csr_out_size
                               then Done (SID_ERROR_INVALID_ARGS, [], 0, Some ctx2, ks1)
                               else (case crypto_sign cr algo (odc_prk algo ctx2) body of
                                       (ret, sig) \<Rightarrow>
                                         if ret \<noteq> SID_ERROR_NONE then Done (ret, body, 0, Some ctx2, ks1)
                                         else Done (ret, body @ sig, csr_out_size,
                                                Some (ctx2\<lparr>odc_state := odc_state ctx2 OR odc_csr_flag algo\<rparr>), ks1))))))"

section \<open>Certificate chain\<close>

definition sid_on_dev_cert_get_ca_serial_length :: "u8 list \<Rightarrow> nat" where
  "sid_on_dev_cert_get_ca_serial_length serial =
     (let head = push_bit 8 (ucast (serial ! 0)) OR ucast (serial ! 1) :: u16 in
      if head AND 0x3000 = 0x3000 then unat (head AND 0x007F) + 4 else 4)"

text \<open>
  The loop over the five authorities, on what is left of the chain. \<open>Fault\<close>: the length is
  read past the end of the chain, or the serial is copied past its array.
\<close>

fun odc_store_cas :: "nat \<Rightarrow> nat \<Rightarrow> u8 list \<Rightarrow> odc_ca list \<Rightarrow> (bool \<times> odc_ca list) guarded" where
  "odc_store_cas puk_size 0 pointer cas = Done (True, cas)"
| "odc_store_cas puk_size (Suc n) pointer cas =
     (let i = 5 - Suc n in
      if length pointer < 2 then Fault
      else
        (let len = sid_on_dev_cert_get_ca_serial_length pointer;
             cas1 = cas[i := (cas ! i)\<lparr>ca_serial_length := len\<rparr>]
         in if len = 0 \<or> len + puk_size + 64 > length pointer then Done (False, cas1)
            else if len > SID_ODC_CA_SERIAL_MAX_SIZE then Fault
            else odc_store_cas puk_size n (drop (len + puk_size + 64) pointer)
                   (cas[i := \<lparr>ca_pub_key = take puk_size (drop len pointer),
                              ca_signature = take 64 (drop (len + puk_size) pointer),
                              ca_serial_length = len,
                              ca_serial = take len pointer @ drop len (ca_serial (cas ! i))\<rparr>])))"

definition odc_scc_min :: "odc_algo \<Rightarrow> nat" where
  "odc_scc_min algo = (if algo = SID_ODC_CRYPT_ALGO_ED25519 then 5 * (4 + 32 + 64) + (32 + 32 + 64)
     else 5 * (4 + 64 + 64) + (32 + 64 + 64))"

definition odc_scc_max :: "odc_algo \<Rightarrow> nat" where
  "odc_scc_max algo = (if algo = SID_ODC_CRYPT_ALGO_ED25519 then 5 * (129 + 32 + 64) + (32 + 32 + 64)
     else 5 * (129 + 64 + 64) + (32 + 64 + 64))"

text \<open>The chain's SMSN, device key and device signature, then the authorities.\<close>

definition odc_read_chain :: "odc_algo \<Rightarrow> u8 list \<Rightarrow> odc_context \<Rightarrow> (sid_error \<times> odc_context) guarded" where
  "odc_read_chain algo chain ctx =
     (if take 32 chain \<noteq> odc_smsn ctx then Done (SID_ERROR_INVALID_ARGS, ctx)
      else
        (let psz = (if algo = SID_ODC_CRYPT_ALGO_ED25519 then 32 else 64) in
         if take psz (drop 32 chain) \<noteq> odc_puk algo ctx then Done (SID_ERROR_INVALID_ARGS, ctx)
         else if algo = SID_ODC_CRYPT_ALGO_ED25519 then
           (let ctx1 = ctx\<lparr>device_ed25519_sig := take 64 (drop 64 chain)\<rparr> in
            case odc_store_cas 32 5 (drop 128 chain) (cert_ed25519 ctx1) of
              Fault \<Rightarrow> Fault
            | Done (ok, cas) \<Rightarrow>
                if ok then Done (SID_ERROR_NONE, ctx1\<lparr>cert_ed25519 := cas,
                       odc_state := odc_state ctx1 OR ODC_STATE_FLG_ED25519_CHAIN\<rparr>)
                else Done (SID_ERROR_INVALID_ARGS, ctx1\<lparr>cert_ed25519 := cas\<rparr>))
         else
           (let ctx1 = ctx\<lparr>device_p256r1_sig := take 64 (drop 96 chain)\<rparr> in
            case odc_store_cas 64 5 (drop 160 chain) (cert_p256r1 ctx1) of
              Fault \<Rightarrow> Fault
            | Done (ok, cas) \<Rightarrow>
                if ok then Done (SID_ERROR_NONE, ctx1\<lparr>cert_p256r1 := cas,
                       odc_state := odc_state ctx1 OR ODC_STATE_FLG_P256R1_CHAIN\<rparr>)
                else Done (SID_ERROR_INVALID_ARGS, ctx1\<lparr>cert_p256r1 := cas\<rparr>))))"

definition sid_on_dev_cert_write_cert_chain ::
  "(odc_algo \<times> u8 list option) option \<Rightarrow> odc_context option \<Rightarrow> (sid_error \<times> odc_context option) guarded" where
  "sid_on_dev_cert_write_cert_chain chain_params ctx_p =
     (case chain_params of
        None \<Rightarrow> Done (SID_ERROR_NULL_POINTER, ctx_p)
      | Some (algo, chain_p) \<Rightarrow>
          (case (chain_p, ctx_p) of
             (None, _) \<Rightarrow> Done (SID_ERROR_NULL_POINTER, ctx_p)
           | (Some chain, None) \<Rightarrow> Done (SID_ERROR_UNINITIALIZED, ctx_p)
           | (Some chain, Some ctx) \<Rightarrow>
               if algo = SID_ODC_CRYPT_ALGO_OTHER then Done (SID_ERROR_INCOMPATIBLE_PARAMS, ctx_p)
               else
                 (let ctx1 = ctx\<lparr>odc_state := odc_state ctx AND NOT (odc_chain_flag algo)\<rparr> in
                  if IS_STATE_FLG_UNSET ctx1 (odc_csr_flag algo) then Done (SID_ERROR_INVALID_STATE, Some ctx1)
                  else if length chain < odc_scc_min algo \<or> length chain > odc_scc_max algo
                  then Done (SID_ERROR_INVALID_ARGS, Some ctx1)
                  else (case odc_read_chain algo chain ctx1 of
                          Fault \<Rightarrow> Fault
                        | Done (ret, ctx2) \<Rightarrow> Done (ret, Some ctx2)))))"

definition sid_on_dev_cert_write_app_server_key ::
  "u8 list option \<Rightarrow> odc_context option \<Rightarrow> sid_error \<times> odc_context option" where
  "sid_on_dev_cert_write_app_server_key app_key ctx_p =
     (case (app_key, ctx_p) of
        (None, _) \<Rightarrow> (SID_ERROR_NULL_POINTER, ctx_p)
      | (Some key, None) \<Rightarrow> (SID_ERROR_UNINITIALIZED, ctx_p)
      | (Some key, Some ctx) \<Rightarrow>
          if IS_STATE_FLG_SET ctx ODC_STATE_FLG_APP_KEY then (SID_ERROR_INVALID_STATE, ctx_p)
          else (SID_ERROR_NONE, Some (ctx\<lparr>odc_app_key := take 32 key,
                  odc_state := odc_state ctx OR ODC_STATE_FLG_APP_KEY\<rparr>)))"

section \<open>Verification\<close>

definition sid_on_dev_cert_ed25519_verify :: "odc_crypto \<Rightarrow> odc_ca \<Rightarrow> u8 list \<Rightarrow> bool" where
  "sid_on_dev_cert_ed25519_verify cr cert puk \<longleftrightarrow>
     crypto_verify cr SID_ODC_CRYPT_ALGO_ED25519 puk
       (ca_pub_key cert @ take (ca_serial_length cert) (ca_serial cert)) (ca_signature cert) = SID_ERROR_NONE"

definition sid_on_dev_cert_p256r1_verify :: "odc_crypto \<Rightarrow> odc_ca \<Rightarrow> u8 list \<Rightarrow> bool" where
  "sid_on_dev_cert_p256r1_verify cr cert puk \<longleftrightarrow>
     crypto_verify cr SID_ODC_CRYPT_ALGO_P256R1 puk
       (ca_pub_key cert @ take (ca_serial_length cert) (ca_serial cert)) (ca_signature cert) = SID_ERROR_NONE"

definition odc_verify_device :: "odc_crypto \<Rightarrow> odc_context \<Rightarrow> bool" where
  "odc_verify_device cr ctx \<longleftrightarrow>
     crypto_verify cr SID_ODC_CRYPT_ALGO_ED25519 (ca_pub_key (cert_ed25519 ctx ! 0))
       (device_ed25519_puk ctx @ odc_smsn ctx) (device_ed25519_sig ctx) = SID_ERROR_NONE \<and>
     crypto_verify cr SID_ODC_CRYPT_ALGO_P256R1 (ca_pub_key (cert_p256r1 ctx ! 0))
       (device_p256r1_puk ctx @ odc_smsn ctx) (device_p256r1_sig ctx) = SID_ERROR_NONE"

text \<open>Authority \<open>i\<close> is verified with the key of authority \<open>i + 1\<close>, the root with its own.\<close>

definition odc_verify_cas :: "odc_crypto \<Rightarrow> odc_context \<Rightarrow> bool" where
  "odc_verify_cas cr ctx \<longleftrightarrow>
     list_all (\<lambda>i. sid_on_dev_cert_ed25519_verify cr (cert_ed25519 ctx ! i)
                     (ca_pub_key (cert_ed25519 ctx ! (if i = 4 then i else i + 1))) \<and>
                   sid_on_dev_cert_p256r1_verify cr (cert_p256r1 ctx ! i)
                     (ca_pub_key (cert_p256r1 ctx ! (if i = 4 then i else i + 1)))) [0..<5]"

section \<open>Storing\<close>

type_synonym ('d, 'k) odc_store = "'d mfg_build \<times> 'k mfg_env \<times> 'k"

text \<open>
  A value is written and read back; \<open>alloc\<close> is the block the read-back buffer got (with
  whatever it contained), \<open>None\<close> when the heap is exhausted.
\<close>

definition write_to_mfg_store ::
  "('d, 'k) odc_store \<Rightarrow> (nat \<Rightarrow> u8 list option) \<Rightarrow> 'd mfg_store \<Rightarrow> tlv_type \<times> u8 list \<Rightarrow>
   (bool \<times> 'd mfg_store) option" where
  "write_to_mfg_store cfg alloc st item =
     (case (cfg, item) of ((b, env, ks), (val, buffer)) \<Rightarrow>
        (case sid_pal_mfg_store_write b st val buffer (word_of_nat (length buffer)) of
           None \<Rightarrow> None
         | Some (result, st1) \<Rightarrow>
             if result \<noteq> 0 then Some (False, st1)
             else
               (case alloc (length buffer) of
                  None \<Rightarrow> Some (False, st1)
                | Some junk \<Rightarrow>
                    (case sid_pal_mfg_store_read env ks st1 val junk (word_of_nat (length buffer)) of
                       None \<Rightarrow> None
                     | Some read_buf \<Rightarrow> Some (take (length buffer) read_buf = buffer, st1)))))"

text \<open>The chain of \<^verbatim>\<open>&&\<close>: values are written in order until one fails.\<close>

fun odc_write_all ::
  "('d, 'k) odc_store \<Rightarrow> (nat \<Rightarrow> u8 list option) \<Rightarrow> 'd mfg_store \<Rightarrow> (tlv_type \<times> u8 list) list \<Rightarrow>
   (bool \<times> 'd mfg_store) option" where
  "odc_write_all cfg alloc st [] = Some (True, st)"
| "odc_write_all cfg alloc st (item # items) =
     (case write_to_mfg_store cfg alloc st item of
        None \<Rightarrow> None
      | Some (ok, st1) \<Rightarrow> if ok then odc_write_all cfg alloc st1 items else Some (False, st1))"

definition odc_device_items :: "bool \<Rightarrow> odc_context \<Rightarrow> (tlv_type \<times> u8 list) list" where
  "odc_device_items psa ctx =
     [(4, odc_smsn ctx), (38, odc_apid ctx), (5, odc_app_key ctx)] @
     (if psa then [] else [(6, device_ed25519_prk ctx)]) @
     [(7, device_ed25519_puk ctx), (8, device_ed25519_sig ctx)] @
     (if psa then [] else [(9, device_p256r1_prk ctx)]) @
     [(10, device_p256r1_puk ctx), (11, device_p256r1_sig ctx)]"

definition odc_ca_items :: "tlv_type \<Rightarrow> odc_ca \<Rightarrow> odc_ca \<Rightarrow> (tlv_type \<times> u8 list) list" where
  "odc_ca_items base ed p2 =
     [(base, ca_pub_key ed), (base + 1, ca_signature ed), (base + 2, take (ca_serial_length ed) (ca_serial ed)),
      (base + 3, ca_pub_key p2), (base + 4, ca_signature p2), (base + 5, take (ca_serial_length p2) (ca_serial p2))]"

definition odc_chain_items :: "odc_context \<Rightarrow> (tlv_type \<times> u8 list) list" where
  "odc_chain_items ctx =
     odc_ca_items 12 (cert_ed25519 ctx ! 0) (cert_p256r1 ctx ! 0) @
     odc_ca_items 18 (cert_ed25519 ctx ! 1) (cert_p256r1 ctx ! 1) @
     odc_ca_items 24 (cert_ed25519 ctx ! 2) (cert_p256r1 ctx ! 2) @
     odc_ca_items 30 (cert_ed25519 ctx ! 3) (cert_p256r1 ctx ! 3) @
     [(36, ca_pub_key (cert_ed25519 ctx ! 4)), (37, ca_pub_key (cert_p256r1 ctx ! 4))]"

text \<open>Everything after the version is written, in its order; the error is the same for each group.\<close>

definition odc_store_values ::
  "('d, 'k) odc_store \<Rightarrow> (nat \<Rightarrow> u8 list option) \<Rightarrow> odc_context \<Rightarrow> 'd mfg_store \<Rightarrow>
   (sid_error \<times> 'd mfg_store) option" where
  "odc_store_values cfg alloc ctx st =
     (let psa = psa_key_storage (fst (snd cfg)) in
      case odc_write_all cfg alloc st (odc_device_items psa ctx) of
        None \<Rightarrow> None
      | Some (ok, st1) \<Rightarrow>
          if \<not> ok then Some (SID_ERROR_STORAGE_WRITE_FAIL, st1)
          else
            (case odc_write_all cfg alloc st1 (odc_chain_items ctx) of
               None \<Rightarrow> None
             | Some (ok, st2) \<Rightarrow>
                 if \<not> ok then Some (SID_ERROR_STORAGE_WRITE_FAIL, st2)
                 else
                   (case write_to_mfg_store cfg alloc st2 (MFG_FLAGS_TYPE_ID, mfg_flags psa) of
                      None \<Rightarrow> None
                    | Some (ok, st3) \<Rightarrow>
                        Some (if ok then SID_ERROR_NONE else SID_ERROR_STORAGE_WRITE_FAIL, st3))))"

definition sid_on_dev_cert_verify_and_store ::
  "odc_crypto \<Rightarrow> ('d, 'k) odc_store \<Rightarrow> (nat \<Rightarrow> u8 list option) \<Rightarrow> odc_context option \<Rightarrow> 'd mfg_store \<Rightarrow>
   (sid_error \<times> 'd mfg_store) guarded option" where
  "sid_on_dev_cert_verify_and_store cr cfg alloc ctx_p st =
     (case ctx_p of
        None \<Rightarrow> Some (Done (SID_ERROR_UNINITIALIZED, st))
      | Some ctx \<Rightarrow>
          if odc_state ctx \<noteq> ODC_STATE_MSK_FULL_INIT then Some (Done (SID_ERROR_INVALID_STATE, st))
          else if \<not> odc_verify_device cr ctx \<or> \<not> odc_verify_cas cr ctx
          then Some (Done (SID_ERROR_GENERIC, st))
          else
            (case sid_pal_mfg_store_erase (fst cfg) st of
               Fault \<Rightarrow> Some Fault
             | Done (result, st1) \<Rightarrow>
                 if result \<noteq> 0 then Some (Done (SID_ERROR_STORAGE_ERASE_FAIL, st1))
                 else
                   (case sid_pal_mfg_store_write (fst cfg) st1 2 [0, 0, 0, 8] 4 of
                      None \<Rightarrow> None
                    | Some (result, st2) \<Rightarrow>
                        if result \<noteq> 0 then Some (Done (SID_ERROR_NOSUPPORT, st2))
                        else map_option Done (odc_store_values cfg alloc ctx st2))))"

end
