(* ===== verification/Cert_Inv.thy ===== *)
theory Cert_Inv
  imports On_Dev_Cert
begin

text \<open>
  The reachable states of on-device certification: the flags follow the order of the
  protocol, and the stored authorities are well formed once their chain is accepted.
\<close>

section \<open>Reachable states\<close>

text \<open>A call of one of the functions that change the context.\<close>

inductive odc_step :: "odc_context option \<times> 'k \<Rightarrow> odc_context option \<times> 'k \<Rightarrow> bool" where
  init: "sid_on_dev_cert_init ok c = (e, c') \<Longrightarrow> odc_step (c, ks) (c', ks)"
| deinit: "odc_step (c, ks) (sid_on_dev_cert_deinit c, ks)"
| smsn: "sid_on_dev_cert_generate_smsn cr ok info p c = (e, d, c') \<Longrightarrow> odc_step (c, ks) (c', ks)"
| csr: "sid_on_dev_cert_generate_csr cr env algo sz c ks = Done (e, r, n, c', ks') \<Longrightarrow> odc_step (c, ks) (c', ks')"
| chain: "sid_on_dev_cert_write_cert_chain params c = Done (e, c') \<Longrightarrow> odc_step (c, ks) (c', ks)"
| app_key: "sid_on_dev_cert_write_app_server_key k c = (e, c') \<Longrightarrow> odc_step (c, ks) (c', ks)"

inductive odc_reach :: "odc_context option \<times> 'k \<Rightarrow> bool" where
  start: "odc_reach (None, ks)"
| step: "odc_reach s \<Longrightarrow> odc_step s s' \<Longrightarrow> odc_reach s'"

text \<open>An authority as the chain parser stores it.\<close>

definition ca_ok :: "nat \<Rightarrow> odc_ca \<Rightarrow> bool" where
  "ca_ok puk_size ca \<longleftrightarrow>
     length (ca_pub_key ca) = puk_size \<and> length (ca_signature ca) = 64 \<and>
     4 \<le> ca_serial_length ca \<and> ca_serial_length ca \<le> length (ca_serial ca) \<and>
     ca_serial_length ca \<le> SID_ODC_CA_SERIAL_MAX_SIZE"

definition odc_inv :: "odc_context \<Rightarrow> bool" where
  "odc_inv ctx \<longleftrightarrow>
     length (cert_ed25519 ctx) = 5 \<and> length (cert_p256r1 ctx) = 5 \<and>
     (bit (odc_state ctx) 4 \<longrightarrow> bit (odc_state ctx) 2 \<and> (\<forall>ca \<in> set (cert_ed25519 ctx). ca_ok 32 ca)) \<and>
     (bit (odc_state ctx) 5 \<longrightarrow> bit (odc_state ctx) 3 \<and> (\<forall>ca \<in> set (cert_p256r1 ctx). ca_ok 64 ca)) \<and>
     (bit (odc_state ctx) 2 \<or> bit (odc_state ctx) 3 \<longrightarrow> bit (odc_state ctx) 0)"

lemma flag_bits:
  "(s :: u8) AND 0x01 = 0 \<longleftrightarrow> \<not> bit s 0" "s AND 0x04 = 0 \<longleftrightarrow> \<not> bit s 2" "s AND 0x08 = 0 \<longleftrightarrow> \<not> bit s 3"
  using and_exp_eq_0_iff_not_bit [of s 0] and_exp_eq_0_iff_not_bit [of s 2] and_exp_eq_0_iff_not_bit [of s 3]
  by simp_all

lemma flag_const_bits:
  "bit (0x01 :: u8) n \<longleftrightarrow> n = 0" "bit (0x02 :: u8) n \<longleftrightarrow> n = 1" "bit (0x04 :: u8) n \<longleftrightarrow> n = 2"
  "bit (0x08 :: u8) n \<longleftrightarrow> n = 3" "bit (0x10 :: u8) n \<longleftrightarrow> n = 4" "bit (0x20 :: u8) n \<longleftrightarrow> n = 5"
proof -
  have *: "bit (2 ^ k :: u8) n \<longleftrightarrow> k < 8 \<and> n = k" for k by (auto simp: bit_exp_iff possible_bit_word)
  show "bit (0x01 :: u8) n \<longleftrightarrow> n = 0" "bit (0x02 :: u8) n \<longleftrightarrow> n = 1" "bit (0x04 :: u8) n \<longleftrightarrow> n = 2"
    "bit (0x08 :: u8) n \<longleftrightarrow> n = 3" "bit (0x10 :: u8) n \<longleftrightarrow> n = 4" "bit (0x20 :: u8) n \<longleftrightarrow> n = 5"
    using * [of 0] * [of 1] * [of 2] * [of 3] * [of 4] * [of 5] by simp_all
qed

lemmas flag_simps = flag_bits flag_const_bits bit_or_iff bit_and_iff bit_not_iff possible_bit_word
  odc_csr_flag_def odc_chain_flag_def IS_STATE_FLG_UNSET_def

lemma serial_length_ge4: "4 \<le> sid_on_dev_cert_get_ca_serial_length serial"
  by (simp add: sid_on_dev_cert_get_ca_serial_length_def Let_def)

text \<open>The authority loop fills the last \<open>n\<close> of five authorities with well-formed ones.\<close>

lemma store_cas_ok:
  assumes "odc_store_cas psz n pointer cas = Done (ok, cas')" "length cas = 5" "n \<le> 5"
  shows "length cas' = 5 \<and>
    (ok \<longrightarrow> (\<forall>i < 5. (5 - n \<le> i \<longrightarrow> ca_ok psz (cas' ! i)) \<and> (i < 5 - n \<longrightarrow> cas' ! i = cas ! i)))"
  using assms
proof (induction psz n pointer cas rule: odc_store_cas.induct)
  case (2 psz n pointer cas)
  let ?len = "sid_on_dev_cert_get_ca_serial_length pointer" and ?i = "5 - Suc n"
  let ?new = "\<lparr>ca_pub_key = take psz (drop ?len pointer), ca_signature = take 64 (drop (?len + psz) pointer),
      ca_serial_length = ?len, ca_serial = take ?len pointer @ drop ?len (ca_serial (cas ! ?i))\<rparr>"
  show ?case
  proof (cases "length pointer < 2 \<or> ?len = 0 \<or> ?len + psz + 64 > length pointer \<or> ?len > 129")
    case True
    with 2(2,3) show ?thesis by (auto simp: Let_def split: if_splits)
  next
    case False
    then have new: "ca_ok psz ?new" using serial_length_ge4 [of pointer] by (auto simp: ca_ok_def)
    from False 2(2) have rec: "odc_store_cas psz n (drop (?len + psz + 64) pointer) (cas[?i := ?new]) = Done (ok, cas')"
      by (simp add: Let_def)
    have "length cas' = 5 \<and> (ok \<longrightarrow> (\<forall>i < 5. (5 - n \<le> i \<longrightarrow> ca_ok psz (cas' ! i)) \<and>
        (i < 5 - n \<longrightarrow> cas' ! i = (cas[?i := ?new]) ! i)))"
      using False 2(3,4) rec by (intro 2(1)) auto
    note IH = this
    have "ca_ok psz (cas' ! i)" if "ok" "i < 5" "5 - Suc n \<le> i" for i
    proof (cases "i = ?i")
      case True
      with IH that 2(3,4) have "cas' ! i = ?new" by simp
      with new show ?thesis by simp
    next
      case False
      with IH that show ?thesis by simp
    qed
    moreover have "cas' ! i = cas ! i" if "ok" "i < 5" "i < 5 - Suc n" for i
      using IH that by simp
    ultimately show ?thesis using IH by blast
  qed
qed auto

lemma store_cas_all:
  "odc_store_cas psz 5 pointer cas = Done (ok, cas') \<Longrightarrow> length cas = 5 \<Longrightarrow>
   length cas' = 5 \<and> (ok \<longrightarrow> (\<forall>x \<in> set cas'. ca_ok psz x))"
  using store_cas_ok [of psz 5 pointer cas ok cas'] by (auto simp: in_set_conv_nth)

lemma read_chain_inv:
  assumes r: "odc_read_chain algo chain ctx = Done (ret, ctx')" and inv: "odc_inv ctx"
    and b: "bit (odc_state ctx) (if algo = SID_ODC_CRYPT_ALGO_ED25519 then 2 else 3)"
      "\<not> bit (odc_state ctx) (if algo = SID_ODC_CRYPT_ALGO_ED25519 then 4 else 5)"
  shows "odc_inv ctx'"
proof (cases "take 32 chain \<noteq> odc_smsn ctx \<or>
    take (if algo = SID_ODC_CRYPT_ALGO_ED25519 then 32 else 64) (drop 32 chain) \<noteq> odc_puk algo ctx")
  case True
  with r have "ctx' = ctx" by (auto simp: odc_read_chain_def Let_def split: if_splits)
  with inv show ?thesis by simp
next
  case False
  show ?thesis
  proof (cases "algo = SID_ODC_CRYPT_ALGO_ED25519")
    case True
    with r False obtain ok cas where c: "odc_store_cas 32 5 (drop 128 chain) (cert_ed25519 ctx) = Done (ok, cas)"
      by (auto simp: odc_read_chain_def Let_def split: guarded.splits)
    show ?thesis
      using r False True b inv store_cas_all [OF c]
      by (cases ok) (auto simp: odc_read_chain_def Let_def c odc_inv_def flag_simps)
  next
    case F: False
    with r False obtain ok cas where c: "odc_store_cas 64 5 (drop 160 chain) (cert_p256r1 ctx) = Done (ok, cas)"
      by (auto simp: odc_read_chain_def Let_def split: guarded.splits)
    show ?thesis
      using r False F b inv store_cas_all [OF c]
      by (cases ok) (auto simp: odc_read_chain_def Let_def c odc_inv_def flag_simps)
  qed
qed

lemma smsn_inv:
  "sid_on_dev_cert_generate_smsn cr ok info p (Some ctx) = (e, d, Some ctx') \<Longrightarrow> odc_inv ctx \<Longrightarrow> odc_inv ctx'"
  unfolding sid_on_dev_cert_generate_smsn_def
  by (cases info) (auto simp: odc_inv_def Let_def flag_simps split: if_splits prod.splits)

lemma key_pair_frame:
  "odc_key_pair cr env algo ctx ks = Done (ret, ctx', ks') \<Longrightarrow>
   odc_state ctx' = odc_state ctx \<and> cert_ed25519 ctx' = cert_ed25519 ctx \<and> cert_p256r1 ctx' = cert_p256r1 ctx"
  unfolding odc_key_pair_def
  by (auto simp: odc_set_keys_def Let_def split: if_splits option.splits prod.splits)

lemma csr_inv:
  assumes c: "sid_on_dev_cert_generate_csr cr env algo (Some sz) (Some ctx) ks = Done (e, r, n, Some ctx', ks')"
    and inv: "odc_inv ctx"
  shows "odc_inv ctx'"
proof (cases "IS_STATE_FLG_UNSET ctx ODC_STATE_FLG_SMSN \<or> algo = SID_ODC_CRYPT_ALGO_OTHER")
  case True
  with c have "ctx' = ctx" by (auto simp: sid_on_dev_cert_generate_csr_def split: if_splits)
  with inv show ?thesis by simp
next
  case False
  let ?ctx = "ctx\<lparr>odc_state := odc_state ctx AND NOT (odc_csr_flag algo) AND NOT (odc_chain_flag algo)\<rparr>"
  from c False obtain ret ctx2 ks1 where k: "odc_key_pair cr env algo ?ctx ks = Done (ret, ctx2, ks1)"
    by (auto simp: sid_on_dev_cert_generate_csr_def Let_def split: guarded.splits)
  obtain ret' sig where s: "crypto_sign cr algo (odc_prk algo ctx2) (odc_puk algo ctx2 @ odc_smsn ctx2) = (ret', sig)"
    by fastforce
  have "ctx' = ctx2 \<or> ctx' = ctx2\<lparr>odc_state := odc_state ctx2 OR odc_csr_flag algo\<rparr>"
    using c False by (auto simp: sid_on_dev_cert_generate_csr_def k s Let_def split: if_splits)
  moreover have "bit (odc_state ctx) 0" using False by (simp add: flag_simps)
  ultimately show ?thesis
    using key_pair_frame [OF k] inv False
    by (cases "algo = SID_ODC_CRYPT_ALGO_ED25519") (auto simp: odc_inv_def flag_simps)
qed

lemma chain_inv:
  assumes c: "sid_on_dev_cert_write_cert_chain (Some (algo, Some chain)) (Some ctx) = Done (e, Some ctx')"
    and inv: "odc_inv ctx"
  shows "odc_inv ctx'"
proof (cases "algo = SID_ODC_CRYPT_ALGO_OTHER")
  case True
  with c inv show ?thesis by (simp add: sid_on_dev_cert_write_cert_chain_def)
next
  case False
  let ?ctx = "ctx\<lparr>odc_state := odc_state ctx AND NOT (odc_chain_flag algo)\<rparr>"
  have inv1: "odc_inv ?ctx" using inv by (auto simp: odc_inv_def flag_simps)
  show ?thesis
  proof (cases "IS_STATE_FLG_UNSET ?ctx (odc_csr_flag algo) \<or> length chain < odc_scc_min algo \<or>
      length chain > odc_scc_max algo")
    case True
    with c False inv1 show ?thesis by (auto simp: sid_on_dev_cert_write_cert_chain_def Let_def split: if_splits)
  next
    case ok: False
    then obtain ret where r: "odc_read_chain algo chain ?ctx = Done (ret, ctx')"
      using c False by (auto simp: sid_on_dev_cert_write_cert_chain_def Let_def split: guarded.splits)
    have "bit (odc_state ?ctx) (if algo = SID_ODC_CRYPT_ALGO_ED25519 then 2 else 3)"
      "\<not> bit (odc_state ?ctx) (if algo = SID_ODC_CRYPT_ALGO_ED25519 then 4 else 5)"
      using ok by (auto simp: flag_simps split: if_splits)
    with r inv1 show ?thesis by (rule read_chain_inv)
  qed
qed

lemma step_inv:
  assumes "odc_step s s'" "\<And>ctx. fst s = Some ctx \<Longrightarrow> odc_inv ctx" "fst s' = Some ctx'"
  shows "odc_inv ctx'"
  using assms
proof (induction rule: odc_step.induct)
  case (init ok c e c' ks)
  then show ?case
    by (auto simp: sid_on_dev_cert_init_def odc_inv_def blank_context_def split: if_splits)
next
  case (smsn cr ok info p c e d c' ks)
  then have c: "sid_on_dev_cert_generate_smsn cr ok info p c = (e, d, Some ctx')" by simp
  then obtain ctx where "c = Some ctx"
    by (cases c) (auto simp: sid_on_dev_cert_generate_smsn_def split: option.splits if_splits)
  with c smsn.prems show ?case using smsn_inv by auto
next
  case (csr cr env algo sz c ks e r n c' ks')
  then have c: "sid_on_dev_cert_generate_csr cr env algo sz c ks = Done (e, r, n, Some ctx', ks')" by simp
  show ?case
  proof (cases sz)
    case None
    with c csr.prems show ?thesis by (simp add: sid_on_dev_cert_generate_csr_def)
  next
    case (Some n')
    then obtain ctx where "c = Some ctx"
      using c by (cases c) (auto simp: sid_on_dev_cert_generate_csr_def)
    with c Some csr.prems show ?thesis using csr_inv by auto
  qed
next
  case (chain params c e c' ks)
  then have c: "sid_on_dev_cert_write_cert_chain params c = Done (e, Some ctx')" by simp
  show ?case
  proof (cases "params = None \<or> snd (the params) = None \<or> c = None")
    case True
    with c chain.prems show ?thesis
      by (auto simp: sid_on_dev_cert_write_cert_chain_def split: option.splits)
  next
    case False
    then obtain algo ch ctx where "params = Some (algo, Some ch)" "c = Some ctx" by auto
    with c chain.prems show ?thesis using chain_inv by auto
  qed
next
  case (app_key k c e c' ks)
  then show ?case
    by (auto simp: sid_on_dev_cert_write_app_server_key_def odc_inv_def flag_simps split: option.splits if_splits)
qed (simp add: sid_on_dev_cert_deinit_def)

text \<open>
  C12. In every state reachable by any sequence of calls, with any crypto layer and key store, the progress
  flags respect the protocol's order: a chain flag implies the signing-request flag of its
  algorithm, which implies the serial-number flag; and while a chain flag is set, all five
  authorities of that algorithm are well formed, so that their serials fit the arrays they
  are copied to during verification.
\<close>

theorem odc_reachable_inv:
  assumes "odc_reach (Some ctx, ks)"
  shows "odc_inv ctx"
proof -
  have "odc_reach s \<Longrightarrow> \<forall>ctx. fst s = Some ctx \<longrightarrow> odc_inv ctx" for s :: "odc_context option \<times> 'a"
    by (induction rule: odc_reach.induct) (auto dest: step_inv)
  from this [OF assms] show ?thesis by simp
qed

theorem odc_reachable_inv_witness:
  "odc_inv (blank_context\<lparr>odc_app_key := replicate 32 7, odc_state := 2\<rparr>)"
proof (rule odc_reachable_inv)
  have "odc_reach (Some blank_context, ())"
    by (rule odc_reach.step [OF odc_reach.start odc_step.init [of True None]]) (simp add: sid_on_dev_cert_init_def)
  then show "odc_reach (Some (blank_context\<lparr>odc_app_key := replicate 32 7, odc_state := 2\<rparr>), ())"
    by (rule odc_reach.step [OF _ odc_step.app_key [of "Some (replicate 32 7)"]])
      (simp add: sid_on_dev_cert_write_app_server_key_def IS_STATE_FLG_SET_def blank_context_def)
qed

end
