(* ===== verification/Cert_Props.thy ===== *)
theory Cert_Props
  imports On_Dev_Cert Mfg_Store_Props
begin

text \<open>
  The properties of on-device certification: a certificate chain is stored exactly as it was
  encoded, nothing is erased before every signature verified, and what the manufacturing
  store holds after a successful run.
\<close>

section \<open>The chain encoding\<close>

text \<open>What an authority contributes to a chain, and the part of a stored authority that is used.\<close>

definition encode_ca :: "odc_ca \<Rightarrow> u8 list" where
  "encode_ca ca = take (ca_serial_length ca) (ca_serial ca) @ ca_pub_key ca @ ca_signature ca"

definition ca_view :: "odc_ca \<Rightarrow> u8 list \<times> u8 list \<times> u8 list" where
  "ca_view ca = (take (ca_serial_length ca) (ca_serial ca), ca_pub_key ca, ca_signature ca)"

text \<open>An authority whose serial announces its own length and fits the serial array.\<close>

definition ca_wf :: "nat \<Rightarrow> odc_ca \<Rightarrow> bool" where
  "ca_wf puk_size ca \<longleftrightarrow>
     length (ca_pub_key ca) = puk_size \<and> length (ca_signature ca) = 64 \<and>
     ca_serial_length ca \<le> length (ca_serial ca) \<and> ca_serial_length ca \<le> SID_ODC_CA_SERIAL_MAX_SIZE \<and>
     4 \<le> ca_serial_length ca \<and> sid_on_dev_cert_get_ca_serial_length (ca_serial ca) = ca_serial_length ca"

lemma serial_length_prefix:
  "2 \<le> n \<Longrightarrow> 2 \<le> length serial \<Longrightarrow>
   sid_on_dev_cert_get_ca_serial_length (take n serial @ rest) = sid_on_dev_cert_get_ca_serial_length serial"
  by (cases serial) (auto simp: sid_on_dev_cert_get_ca_serial_length_def nth_append)

lemma length_encode_ca: "ca_wf psz ca \<Longrightarrow> length (encode_ca ca) = ca_serial_length ca + psz + 64"
  by (simp add: encode_ca_def ca_wf_def)

lemma store_cas_encode:
  assumes "\<forall>ca \<in> set cas. ca_wf psz ca" "length cas \<le> 5" "length old = 5"
  shows "\<exists>cas'. odc_store_cas psz (length cas) (concat (map encode_ca cas) @ rest) old = Done (True, cas') \<and>
    length cas' = 5 \<and> map ca_view (drop (5 - length cas) cas') = map ca_view cas \<and>
    take (5 - length cas) cas' = take (5 - length cas) old"
  using assms
proof (induction cas arbitrary: old)
  case Nil
  then show ?case by simp
next
  case (Cons ca cas)
  let ?i = "5 - Suc (length cas)" and ?rest = "concat (map encode_ca cas) @ rest"
  let ?p = "concat (map encode_ca (ca # cas)) @ rest"
  have wf: "ca_wf psz ca" using Cons.prems by simp
  have len: "sid_on_dev_cert_get_ca_serial_length ?p = ca_serial_length ca"
    using wf serial_length_prefix [of "ca_serial_length ca" "ca_serial ca"]
    by (simp add: ca_wf_def encode_ca_def)
  let ?new = "\<lparr>ca_pub_key = ca_pub_key ca, ca_signature = ca_signature ca, ca_serial_length = ca_serial_length ca,
      ca_serial = take (ca_serial_length ca) (ca_serial ca) @ drop (ca_serial_length ca) (ca_serial (old ! ?i))\<rparr>"
  have step: "odc_store_cas psz (Suc (length cas)) ?p old = odc_store_cas psz (length cas) ?rest (old[?i := ?new])"
    using wf unfolding odc_store_cas.simps Let_def len
    by (simp add: ca_wf_def encode_ca_def)
  obtain cas' where c: "odc_store_cas psz (length cas) ?rest (old[?i := ?new]) = Done (True, cas')" "length cas' = 5"
    "map ca_view (drop (5 - length cas) cas') = map ca_view cas"
    "take (5 - length cas) cas' = take (5 - length cas) (old[?i := ?new])"
    using Cons.IH [of "old[?i := ?new]"] Cons.prems by auto
  have i: "Suc ?i = 5 - length cas" "?i < 5" using Cons.prems(2) by auto
  have "cas' ! ?i = take (5 - length cas) cas' ! ?i" using i by simp
  also have "\<dots> = ?new" unfolding c(4) using i Cons.prems(3) by simp
  finally have "drop ?i cas' = ?new # drop (5 - length cas) cas'"
    using i c(2) by (metis Cons_nth_drop_Suc)
  moreover have "ca_view ?new = ca_view ca" using wf by (simp add: ca_view_def ca_wf_def)
  moreover have "take ?i cas' = take ?i old"
  proof -
    have "take ?i (take (5 - length cas) cas') = take ?i (take (5 - length cas) (old[?i := ?new]))" using c(4) by simp
    then show ?thesis using i(1) by (simp add: min_def split: if_splits)
  qed
  ultimately show ?case using step c(1-3) by simp
qed

definition odc_cas :: "odc_algo \<Rightarrow> odc_context \<Rightarrow> odc_ca list" where
  "odc_cas algo ctx = (if algo = SID_ODC_CRYPT_ALGO_ED25519 then cert_ed25519 ctx else cert_p256r1 ctx)"

definition odc_sig :: "odc_algo \<Rightarrow> odc_context \<Rightarrow> u8 list" where
  "odc_sig algo ctx = (if algo = SID_ODC_CRYPT_ALGO_ED25519 then device_ed25519_sig ctx else device_p256r1_sig ctx)"

abbreviation odc_puk_size :: "odc_algo \<Rightarrow> nat" where
  "odc_puk_size algo \<equiv> (if algo = SID_ODC_CRYPT_ALGO_ED25519 then 32 else 64)"

lemma csr_flag_kept:
  "IS_STATE_FLG_UNSET (ctx\<lparr>odc_state := odc_state ctx AND NOT (odc_chain_flag algo)\<rparr>) (odc_csr_flag algo) =
   IS_STATE_FLG_UNSET ctx (odc_csr_flag algo)"
proof -
  have "NOT (odc_chain_flag algo) AND odc_csr_flag algo = odc_csr_flag algo"
    by (simp add: odc_chain_flag_def odc_csr_flag_def)
  then show ?thesis by (simp add: IS_STATE_FLG_UNSET_def and.assoc)
qed

lemma length_chain_cas:
  "\<forall>ca \<in> set cas. ca_wf psz ca \<Longrightarrow>
   length cas * (68 + psz) \<le> length (concat (map encode_ca cas)) \<and>
   length (concat (map encode_ca cas)) \<le> length cas * (193 + psz)"
proof (induction cas)
  case (Cons ca cas)
  have "68 + psz \<le> length (encode_ca ca)" "length (encode_ca ca) \<le> 193 + psz"
    using Cons.prems length_encode_ca [of psz ca] by (auto simp: ca_wf_def)
  with Cons show ?case by auto
qed simp

text \<open>
  C13. A certificate chain is taken over exactly: when the signing request was made and the
  chain is the SMSN, the device key, a device signature and the encodings of five well-formed
  authorities, \<^verbatim>\<open>sid_on_dev_cert_write_cert_chain\<close> accepts it, sets the chain flag, and
  the context holds that signature and those five authorities' keys, signatures and serials.
\<close>

theorem odc_chain_roundtrip:
  assumes algo: "algo \<noteq> SID_ODC_CRYPT_ALGO_OTHER" and csr: "\<not> IS_STATE_FLG_UNSET ctx (odc_csr_flag algo)"
    and sizes: "length (odc_smsn ctx) = 32" "length (odc_puk algo ctx) = odc_puk_size algo" "length sig = 64"
      "length (odc_cas algo ctx) = 5"
    and cas: "length cas = 5" "\<forall>ca \<in> set cas. ca_wf (odc_puk_size algo) ca"
    and chain: "chain = odc_smsn ctx @ odc_puk algo ctx @ sig @ concat (map encode_ca cas)"
  shows "\<exists>ctx'. sid_on_dev_cert_write_cert_chain (Some (algo, Some chain)) (Some ctx) = Done (SID_ERROR_NONE, Some ctx') \<and>
    odc_sig algo ctx' = sig \<and> map ca_view (odc_cas algo ctx') = map ca_view cas \<and>
    odc_state ctx' = odc_state ctx AND NOT (odc_chain_flag algo) OR odc_chain_flag algo"
proof -
  let ?psz = "odc_puk_size algo" and ?st = "odc_state ctx AND NOT (odc_chain_flag algo)"
  obtain cas' where c: "odc_store_cas ?psz 5 (concat (map encode_ca cas)) (odc_cas algo ctx) = Done (True, cas')"
    "map ca_view cas' = map ca_view cas"
    using store_cas_encode [OF cas(2), of "odc_cas algo ctx" "[]"] cas(1) sizes(4) by auto
  have "length chain = 96 + ?psz + length (concat (map encode_ca cas))"
    using sizes chain by simp
  then have len: "\<not> length chain < odc_scc_min algo" "\<not> length chain > odc_scc_max algo"
    using length_chain_cas [OF cas(2)] cas(1) by (auto simp: odc_scc_min_def odc_scc_max_def split: if_splits)
  show ?thesis
  proof (cases "algo = SID_ODC_CRYPT_ALGO_ED25519")
    case True
    have parts: "take 32 chain = odc_smsn ctx" "take 32 (drop 32 chain) = device_ed25519_puk ctx"
      "take 64 (drop 64 chain) = sig" "drop 128 chain = concat (map encode_ca cas)"
      using sizes True by (simp_all add: chain odc_puk_def)
    have "odc_read_chain algo chain (ctx\<lparr>odc_state := ?st\<rparr>) =
        Done (SID_ERROR_NONE, ctx\<lparr>odc_state := ?st OR odc_chain_flag algo, device_ed25519_sig := sig, cert_ed25519 := cas'\<rparr>)"
      using True c(1) parts by (simp add: odc_read_chain_def odc_puk_def odc_cas_def odc_chain_flag_def Let_def)
    with True csr len c(2) show ?thesis
      by (simp add: sid_on_dev_cert_write_cert_chain_def csr_flag_kept odc_sig_def odc_cas_def Let_def)
  next
    case False
    have parts: "take 32 chain = odc_smsn ctx" "take 64 (drop 32 chain) = device_p256r1_puk ctx"
      "take 64 (drop 96 chain) = sig" "drop 160 chain = concat (map encode_ca cas)"
      using sizes False by (simp_all add: chain odc_puk_def)
    have "odc_read_chain algo chain (ctx\<lparr>odc_state := ?st\<rparr>) =
        Done (SID_ERROR_NONE, ctx\<lparr>odc_state := ?st OR odc_chain_flag algo, device_p256r1_sig := sig, cert_p256r1 := cas'\<rparr>)"
      using False c(1) parts by (simp add: odc_read_chain_def odc_puk_def odc_cas_def odc_chain_flag_def Let_def)
    with False algo csr len c(2) show ?thesis
      by (simp add: sid_on_dev_cert_write_cert_chain_def csr_flag_kept odc_sig_def odc_cas_def Let_def)
  qed
qed

text \<open>
  The length field of an extended serial can announce 130 or 131 bytes (its seven bits
  plus 4), two more than the serial array holds: a chain of acceptable size whose first
  authority does so makes \<^verbatim>\<open>sid_on_dev_cert_write_cert_chain\<close> copy past the array.
\<close>

theorem odc_chain_serial_overruns:
  assumes algo: "algo = SID_ODC_CRYPT_ALGO_ED25519" and csr: "\<not> IS_STATE_FLG_UNSET ctx (odc_csr_flag algo)"
    and match: "take 32 chain = odc_smsn ctx" "take 32 (drop 32 chain) = device_ed25519_puk ctx"
    and size: "odc_scc_min algo \<le> length chain" "length chain \<le> odc_scc_max algo"
    and serial: "sid_on_dev_cert_get_ca_serial_length (drop 128 chain) > SID_ODC_CA_SERIAL_MAX_SIZE"
  shows "sid_on_dev_cert_write_cert_chain (Some (algo, Some chain)) (Some ctx) = Fault"
proof -
  have "sid_on_dev_cert_get_ca_serial_length (drop 128 chain) \<le> 131"
  proof -
    have "unat (w AND 0x007F :: u16) \<le> 127" for w
    proof -
      have m: "(0x007F :: u16) = mask 7" by (simp add: mask_eq_exp_minus_1)
      have "unat (w AND 0x007F) = unat w mod 128"
        unfolding m by (simp add: take_bit_eq_mask [symmetric] take_bit_eq_mod unat_mod)
      then show ?thesis using mod_less_divisor [of 128 "unat w"] by linarith
    qed
    then show ?thesis by (auto simp: sid_on_dev_cert_get_ca_serial_length_def Let_def)
  qed
  then have "odc_store_cas 32 (Suc 4) (drop 128 chain) cas = Fault" for cas
    using serial size(1) algo unfolding odc_store_cas.simps Let_def odc_scc_min_def by simp
  then have "odc_store_cas 32 5 (drop 128 chain) cas = Fault" for cas by (simp add: eval_nat_numeral)
  then show ?thesis
    using algo csr match size
    by (simp add: sid_on_dev_cert_write_cert_chain_def csr_flag_kept odc_read_chain_def odc_puk_def Let_def)
qed

section \<open>Verification comes first\<close>

text \<open>
  C10. \<^verbatim>\<open>sid_on_dev_cert_verify_and_store\<close> touches the manufacturing store only when the
  protocol is complete and every signature (both device certificates and all ten authorities)
  verified; otherwise it reports the error and leaves the store as it was. In particular it
  reports success only after all of them verified. Complete includes the application server
  key: the header calls that step optional, but the code does not store without it
  (\<open>odc_app_key_required\<close>).
\<close>

theorem odc_store_only_verified:
  assumes r: "sid_on_dev_cert_verify_and_store cr cfg alloc ctx_p st = Some (Done (ret, st'))"
    and changed: "ret = SID_ERROR_NONE \<or> st' \<noteq> st"
  shows "\<exists>ctx. ctx_p = Some ctx \<and> odc_state ctx = ODC_STATE_MSK_FULL_INIT \<and>
    crypto_verify cr SID_ODC_CRYPT_ALGO_ED25519 (ca_pub_key (cert_ed25519 ctx ! 0))
      (device_ed25519_puk ctx @ odc_smsn ctx) (device_ed25519_sig ctx) = SID_ERROR_NONE \<and>
    crypto_verify cr SID_ODC_CRYPT_ALGO_P256R1 (ca_pub_key (cert_p256r1 ctx ! 0))
      (device_p256r1_puk ctx @ odc_smsn ctx) (device_p256r1_sig ctx) = SID_ERROR_NONE \<and>
    (\<forall>i < 4. sid_on_dev_cert_ed25519_verify cr (cert_ed25519 ctx ! i) (ca_pub_key (cert_ed25519 ctx ! Suc i)) \<and>
             sid_on_dev_cert_p256r1_verify cr (cert_p256r1 ctx ! i) (ca_pub_key (cert_p256r1 ctx ! Suc i))) \<and>
    sid_on_dev_cert_ed25519_verify cr (cert_ed25519 ctx ! 4) (ca_pub_key (cert_ed25519 ctx ! 4)) \<and>
    sid_on_dev_cert_p256r1_verify cr (cert_p256r1 ctx ! 4) (ca_pub_key (cert_p256r1 ctx ! 4))"
proof -
  obtain ctx where ctx: "ctx_p = Some ctx" "odc_state ctx = ODC_STATE_MSK_FULL_INIT"
    "odc_verify_device cr ctx" "odc_verify_cas cr ctx"
    using r changed by (auto simp: sid_on_dev_cert_verify_and_store_def split: option.splits if_splits)
  have all: "\<forall>i < 5. sid_on_dev_cert_ed25519_verify cr (cert_ed25519 ctx ! i)
        (ca_pub_key (cert_ed25519 ctx ! (if i = 4 then i else i + 1))) \<and>
      sid_on_dev_cert_p256r1_verify cr (cert_p256r1 ctx ! i)
        (ca_pub_key (cert_p256r1 ctx ! (if i = 4 then i else i + 1)))"
    using ctx(4) by (simp add: odc_verify_cas_def list_all_iff)
  have "sid_on_dev_cert_ed25519_verify cr (cert_ed25519 ctx ! i) (ca_pub_key (cert_ed25519 ctx ! Suc i)) \<and>
      sid_on_dev_cert_p256r1_verify cr (cert_p256r1 ctx ! i) (ca_pub_key (cert_p256r1 ctx ! Suc i))" if "i < 4" for i
    using that all by (auto dest: spec [of _ i])
  moreover have "sid_on_dev_cert_ed25519_verify cr (cert_ed25519 ctx ! 4) (ca_pub_key (cert_ed25519 ctx ! 4)) \<and>
    sid_on_dev_cert_p256r1_verify cr (cert_p256r1 ctx ! 4) (ca_pub_key (cert_p256r1 ctx ! 4))"
    using all [rule_format, of 4] by simp
  ultimately show ?thesis using ctx(1-3) by (simp add: odc_verify_device_def)
qed

text \<open>
  A context that lacks nothing but the application server key is refused and nothing is
  stored, although step 6 of the header's usage scenario, which sets that key, is optional.
\<close>

lemma odc_app_key_required:
  "odc_state ctx = ODC_STATE_MSK_FULL_INIT AND NOT ODC_STATE_FLG_APP_KEY \<Longrightarrow>
   sid_on_dev_cert_verify_and_store cr cfg alloc (Some ctx) st = Some (Done (SID_ERROR_INVALID_STATE, st))"
  by (simp add: sid_on_dev_cert_verify_and_store_def)

section \<open>What is stored\<close>

abbreviation store_holds ::
  "'d mfg_build \<Rightarrow> ('d \<Rightarrow> nat \<Rightarrow> u8) \<Rightarrow> ('d \<Rightarrow> nat) \<Rightarrow> 'd option tlv_ctx \<Rightarrow> entry list \<Rightarrow> bool" where
  "store_holds b cell cap \<equiv>
     tlv_holds (tlv_storage_flash_read (b_flash_read b)) (tlv_storage_flash_write (b_flash_write b))
       (dev_cell cell) (dev_size cap)"

text \<open>The bytes before the entries (the marker) stay as they are.\<close>

definition same_below :: "('d \<Rightarrow> nat \<Rightarrow> u8) \<Rightarrow> nat \<Rightarrow> 'd option \<Rightarrow> 'd option \<Rightarrow> bool" where
  "same_below cell n dev dev' \<longleftrightarrow> (\<forall>i < n. dev_cell cell dev' i = dev_cell cell dev i)"

lemma write_item:
  assumes b: "build_ok b cell cap page" "b_diagnostic b" and h: "store_holds b cell cap (tlv_flash st) es"
    and e: "entry_ok (v, d)" "v \<noteq> 2" "\<not> mfg_private env v" "map_of es v = None"
    and fits: "ctx_lo (tlv_flash st) + tlv_used es + entry_len (v, d) \<le> ctx_hi (tlv_flash st)"
    and alloc: "\<And>n. alloc n \<noteq> None"
  shows "\<exists>s'. write_to_mfg_store (b, env, ks) alloc st (v, d) =
      Some (True, st\<lparr>tlv_flash := set_storage (tlv_flash st) s'\<rparr>) \<and>
    store_holds b cell cap (set_storage (tlv_flash st) s') (es @ [(v, d)]) \<and>
    same_below cell (ctx_lo (tlv_flash st)) (st_ctx (storage_impl (tlv_flash st))) s'"
proof -
  note be = build_backends(1) [OF b(1)]
  let ?n = "word_of_nat (length d) :: u16"
  have n: "unat ?n = length d" using e(1) by (intro unat_of_nat_u16) (simp add: entry_ok_def)
  have lim: "ctx_hi (tlv_flash st) \<le> dev_size cap (st_ctx (storage_impl (tlv_flash st)))"
    "ctx_hi (tlv_flash st) \<le> tlv_limit" using h by (simp_all add: tlv_holds_def)
  obtain s' where s': "tlv_write (Some (tlv_flash st)) v d ?n = Some (0, Some (set_storage (tlv_flash st) s'))"
    "store_holds b cell cap (set_storage (tlv_flash st) s') (es @ [(v, d)])"
    and fr: "\<forall>i < dev_size cap (st_ctx (storage_impl (tlv_flash st))). i < tlv_limit \<longrightarrow>
      \<not> (ctx_lo (tlv_flash st) + tlv_used es \<le> i \<and> i < ctx_lo (tlv_flash st) + tlv_used es + entry_len (v, d)) \<longrightarrow>
      dev_cell cell s' i = dev_cell cell (st_ctx (storage_impl (tlv_flash st))) i"
    using tlv_backend.write_holds [OF be h e(1) n fits] by auto
  have "same_below cell (ctx_lo (tlv_flash st)) (st_ctx (storage_impl (tlv_flash st))) s'"
    using fr lim fits entry_len_ge4 [of "(v, d)"] by (auto simp: same_below_def)
  moreover have "tlv_read (Some (set_storage (tlv_flash st) s')) v ?n = Some (Inr d)"
    using tlv_backend.read_holds [OF be s'(2), of v ?n] e(1,4) n
    by (simp add: map_add_def entry_ok_def payload_bytes_def)
  then have "sid_pal_mfg_store_read env ks (st\<lparr>tlv_flash := set_storage (tlv_flash st) s'\<rparr>) v junk ?n =
      Some (d @ drop (length d) junk)" for junk
    using e(2,3) n by (auto simp: sid_pal_mfg_store_read_def sid_mfg_storage_secure_read_def mfg_private_def)
  ultimately show ?thesis
    using s' b(2) e(2) alloc [of "length d"]
    by (auto simp: write_to_mfg_store_def sid_pal_mfg_store_write_def)
qed

lemma write_items:
  assumes b: "build_ok b cell cap page" "b_diagnostic b" and alloc: "\<And>n. alloc n \<noteq> None"
    and "store_holds b cell cap (tlv_flash st) es"
    and "\<forall>e \<in> set items. entry_ok e \<and> fst e \<noteq> 2 \<and> \<not> mfg_private env (fst e)"
    and "distinct (map fst (es @ items))"
    and "ctx_lo (tlv_flash st) + tlv_used (es @ items) \<le> ctx_hi (tlv_flash st)"
  shows "\<exists>s'. odc_write_all (b, env, ks) alloc st items = Some (True, st\<lparr>tlv_flash := set_storage (tlv_flash st) s'\<rparr>) \<and>
    store_holds b cell cap (set_storage (tlv_flash st) s') (es @ items) \<and>
    same_below cell (ctx_lo (tlv_flash st)) (st_ctx (storage_impl (tlv_flash st))) s'"
  using assms(4-)
proof (induction items arbitrary: st es)
  case Nil
  then show ?case
    by (intro exI [of _ "st_ctx (storage_impl (tlv_flash st))"]) (simp add: same_below_def)
next
  case (Cons item items)
  obtain v d where item: "item = (v, d)" by (cases item)
  have "map_of es v = None" using Cons.prems(3) item by (auto simp: map_of_eq_None_iff)
  then obtain s1 where s1: "write_to_mfg_store (b, env, ks) alloc st (v, d) =
      Some (True, st\<lparr>tlv_flash := set_storage (tlv_flash st) s1\<rparr>)"
    "store_holds b cell cap (set_storage (tlv_flash st) s1) (es @ [(v, d)])"
    "same_below cell (ctx_lo (tlv_flash st)) (st_ctx (storage_impl (tlv_flash st))) s1"
    using write_item [OF b Cons.prems(1), where alloc = alloc and v = v and d = d and env = env and ks = ks]
      alloc Cons.prems(2,4) item by auto
  let ?st = "st\<lparr>tlv_flash := set_storage (tlv_flash st) s1\<rparr>"
  obtain s' where "odc_write_all (b, env, ks) alloc ?st items = Some (True, ?st\<lparr>tlv_flash := set_storage (tlv_flash ?st) s'\<rparr>)"
    "store_holds b cell cap (set_storage (tlv_flash ?st) s') ((es @ [(v, d)]) @ items)"
    "same_below cell (ctx_lo (tlv_flash ?st)) (st_ctx (storage_impl (tlv_flash ?st))) s'"
    using Cons.IH [of ?st "es @ [(v, d)]"] s1(2) Cons.prems(2-) item by auto
  with s1(1,3) item show ?case by (auto simp: same_below_def)
qed

text \<open>Erasing the partition and writing the version leaves the marker and no entries.\<close>

lemma erase_and_mark:
  assumes b: "build_ok b cell cap page" "b_diagnostic b" and ok: "partition_context b cap page (tlv_flash st)"
  shows "\<exists>s1 s2. sid_pal_mfg_store_erase b st = Done (0, st\<lparr>tlv_flash := set_storage (tlv_flash st) s1\<rparr>) \<and>
    sid_pal_mfg_store_write b (st\<lparr>tlv_flash := set_storage (tlv_flash st) s1\<rparr>) 2 [0, 0, 0, 8] 4 =
      Some (0, st\<lparr>tlv_flash := set_storage (tlv_flash st) s2\<rparr>) \<and>
    store_holds b cell cap (set_storage (tlv_flash st) s2) [] \<and>
    map (dev_cell cell s2) [unat (start_offset (tlv_flash st))..<unat (start_offset (tlv_flash st)) + 8] = mfg_header"
proof -
  let ?t = "tlv_flash st" and ?a = "unat (start_offset (tlv_flash st))" and ?N = "partition_size (tlv_flash st)"
  note be = build_backends(1) [OF b(1)]
  have pok: "partition_ok ?t" and h: "st_read (storage_impl ?t) = Some (tlv_storage_flash_read (b_flash_read b))"
    "st_write (storage_impl ?t) = Some (tlv_storage_flash_write (b_flash_write b))"
    "st_erase (storage_impl ?t) = Some (tlv_storage_flash_erase (b_flash_erase b))"
    "page dvd ?a" "page dvd ?N" "ctx_hi ?t \<le> dev_size cap (st_ctx (storage_impl ?t))"
    using ok by (simp_all add: mfg_storage_ok_def)
  note pw = partition_words [OF pok]
  obtain d where d: "st_ctx (storage_impl ?t) = Some d"
    using h(6) pw(4,6) by (cases "st_ctx (storage_impl ?t)") (auto simp: dev_size_def)
  have cap: "?a + ?N \<le> cap d" "?a + ?N \<le> tlv_limit" "ctx_hi ?t + 70000 \<le> tlv_limit" "4 dvd ?a"
    "tlv_storage_start_marker_size ?t = 8"
    using h(6) pw(5,6) pok by (simp_all add: d dev_size_def partition_ok_def)
  have words: "start_offset ?t = word_of_nat ?a" "end_offset ?t - start_offset ?t = word_of_nat ?N"
    unfolding pw(1) [symmetric] by simp_all
  obtain r d1 where e: "b_flash_erase b d (word_of_nat ?a) (word_of_nat ?N) = (r, d1)" by fastforce
  have d1: "r = 0" "cap d1 = cap d" "\<forall>i < cap d. cell d1 i = (if ?a \<le> i \<and> i < ?a + ?N then 0xFF else cell d i)"
    using b(1) cap(1,2) h(4,5) e unfolding build_ok_def flash_erase_ok_def by (metis fst_conv snd_conv)+
  have er: "sid_pal_mfg_store_erase b st = Done (0, st\<lparr>tlv_flash := set_storage ?t (Some d1)\<rparr>)"
    using b(2) h(3) d e d1(1) words by (simp add: sid_pal_mfg_store_erase_def tlv_storage_flash_erase_def)
  have l8: "length mfg_header = 8" by (simp add: mfg_header_def)
  have "\<exists>s2. tlv_storage_flash_write (b_flash_write b) (Some d1) (word_of_nat ?a) mfg_header = (0, s2) \<and>
      dev_size cap s2 = dev_size cap (Some d1) \<and>
      (\<forall>i < dev_size cap (Some d1). i < tlv_limit \<longrightarrow> dev_cell cell s2 i =
        (if ?a \<le> i \<and> i < ?a + length mfg_header then mfg_header ! (i - ?a) else dev_cell cell (Some d1) i))"
    using cap pw(4) d1 by (intro tlv_backend.wr_ok [OF be]) (auto simp: dev_size_def dev_cell_def l8)
  then obtain s2 where w: "tlv_storage_flash_write (b_flash_write b) (Some d1) (start_offset ?t) mfg_header = (0, s2)"
    "dev_size cap s2 = cap d"
    and c: "\<And>i. i < cap d \<Longrightarrow> i < tlv_limit \<Longrightarrow> dev_cell cell s2 i =
      (if ?a \<le> i \<and> i < ?a + 8 then mfg_header ! (i - ?a) else cell d1 i)"
    using d1(2) by (auto simp: words(1) [symmetric] dev_size_def dev_cell_def mfg_header_def)
  have "sid_pal_mfg_store_write b (st\<lparr>tlv_flash := set_storage ?t (Some d1)\<rparr>) 2 [0, 0, 0, 8] 4 =
      Some (0, st\<lparr>tlv_flash := set_storage ?t s2\<rparr>)"
    using h(2) cap(5) w(1) by (simp add: sid_pal_mfg_store_write_def tlv_write_start_marker_def mfg_header_def)
  moreover have "store_holds b cell cap (set_storage ?t s2) []"
    using h pok cap pw w(2) d1(3) by (simp add: tlv_holds_def c)
  moreover have "map (dev_cell cell s2) [?a..<?a + 8] = mfg_header"
    using cap(1,2) pw(4) by (intro nth_equalityI) (auto simp: c mfg_header_def)
  ultimately show ?thesis using er by blast
qed

text \<open>Every value of a run, in the order it is written.\<close>

definition odc_items :: "bool \<Rightarrow> odc_context \<Rightarrow> entry list" where
  "odc_items psa ctx = odc_device_items psa ctx @ odc_chain_items ctx @ [(MFG_FLAGS_TYPE_ID, mfg_flags psa)]"

lemma odc_items_tags: "distinct (map fst (odc_items psa ctx))"
  "\<forall>e \<in> set (odc_items psa ctx). fst e \<noteq> 2 \<and> (psa \<longrightarrow> fst e \<noteq> 6 \<and> fst e \<noteq> 9)"
  by (cases psa; simp add: odc_items_def odc_device_items_def odc_chain_items_def odc_ca_items_def)+

lemma verify_and_store_run:
  assumes b: "build_ok b cell cap page" "b_diagnostic b" and ok: "partition_context b cap page (tlv_flash st)"
    and ctx: "odc_state ctx = ODC_STATE_MSK_FULL_INIT" "odc_verify_device cr ctx" "odc_verify_cas cr ctx"
    and alloc: "\<And>n. alloc n \<noteq> None"
    and items: "\<forall>e \<in> set (odc_items (psa_key_storage env) ctx). entry_ok e"
      "8 + tlv_used (odc_items (psa_key_storage env) ctx) \<le> partition_size (tlv_flash st)"
  shows "\<exists>s'. sid_on_dev_cert_verify_and_store cr (b, env, ks) alloc (Some ctx) st =
      Some (Done (SID_ERROR_NONE, st\<lparr>tlv_flash := set_storage (tlv_flash st) s'\<rparr>)) \<and>
    store_holds b cell cap (set_storage (tlv_flash st) s') (odc_items (psa_key_storage env) ctx) \<and>
    map (dev_cell cell s') [unat (start_offset (tlv_flash st))..<unat (start_offset (tlv_flash st)) + 8] = mfg_header"
proof -
  let ?t = "tlv_flash st" and ?psa = "psa_key_storage env" and ?a = "unat (start_offset (tlv_flash st))"
  let ?dev = "odc_device_items ?psa ctx" and ?ch = "odc_chain_items ctx" and ?fl = "(MFG_FLAGS_TYPE_ID, mfg_flags ?psa)"
  let ?st = "\<lambda>s. st\<lparr>tlv_flash := set_storage ?t s\<rparr>"
  note pw = partition_words [of ?t]
  have pok: "partition_ok ?t" using ok by (simp add: mfg_storage_ok_def)
  have lo: "ctx_lo ?t = ?a + 8" "ctx_hi ?t = ?a + partition_size ?t" using pw(3,6) pok by simp_all
  have it: "\<forall>e \<in> set (?dev @ ?ch @ [?fl]). entry_ok e \<and> fst e \<noteq> 2 \<and> \<not> mfg_private env (fst e)"
    using items(1) odc_items_tags(2) [of ?psa ctx] by (auto simp: odc_items_def mfg_private_def)
  have dis: "distinct (map fst (?dev @ ?ch @ [?fl]))" using odc_items_tags(1) by (simp add: odc_items_def)
  have room: "8 + tlv_used (?dev @ ?ch @ [?fl]) \<le> partition_size ?t" using items(2) by (simp add: odc_items_def)
  obtain s1 s2 where s2: "sid_pal_mfg_store_erase b st = Done (0, ?st s1)"
    "sid_pal_mfg_store_write b (?st s1) 2 [0, 0, 0, 8] 4 = Some (0, ?st s2)"
    "store_holds b cell cap (set_storage ?t s2) []" "map (dev_cell cell s2) [?a..<?a + 8] = mfg_header"
    using erase_and_mark [OF b ok] by auto
  obtain s3 where s3: "odc_write_all (b, env, ks) alloc (?st s2) ?dev = Some (True, ?st s3)"
    "store_holds b cell cap (set_storage ?t s3) ?dev" "same_below cell (?a + 8) s2 s3"
    using write_items [OF b, where alloc = alloc and st = "?st s2" and es = "[]" and items = "?dev" and env = env and ks = ks] alloc s2(3) it dis room by (auto simp: lo)
  obtain s4 where s4: "odc_write_all (b, env, ks) alloc (?st s3) ?ch = Some (True, ?st s4)"
    "store_holds b cell cap (set_storage ?t s4) (?dev @ ?ch)" "same_below cell (?a + 8) s3 s4"
    using write_items [OF b, where alloc = alloc and st = "?st s3" and es = "?dev" and items = "?ch" and env = env and ks = ks] alloc s3(2) it dis room by (auto simp: lo)
  obtain s5 where s5: "odc_write_all (b, env, ks) alloc (?st s4) [?fl] = Some (True, ?st s5)"
    "store_holds b cell cap (set_storage ?t s5) ((?dev @ ?ch) @ [?fl])" "same_below cell (?a + 8) s4 s5"
    using write_items [OF b, where alloc = alloc and st = "?st s4" and es = "?dev @ ?ch" and items = "[?fl]" and env = env and ks = ks] alloc s4(2) it dis room by (auto simp: lo)
  have "write_to_mfg_store (b, env, ks) alloc (?st s4) ?fl = Some (True, ?st s5)"
    using s5(1) by (auto split: option.splits if_splits)
  then have "sid_on_dev_cert_verify_and_store cr (b, env, ks) alloc (Some ctx) st = Some (Done (SID_ERROR_NONE, ?st s5))"
    using ctx s2(1,2) s3(1) s4(1)
    by (simp add: sid_on_dev_cert_verify_and_store_def odc_store_values_def Let_def)
  moreover have "map (dev_cell cell s5) [?a..<?a + 8] = map (dev_cell cell s2) [?a..<?a + 8]"
    using s3(3) s4(3) s5(3) by (simp add: same_below_def)
  ultimately show ?thesis using s2(4) s5(2) by (auto simp: odc_items_def)
qed

text \<open>
  C11. On a diagnostic build over flash that keeps its contract, a complete and verified
  certification whose values have 1 to 255 bytes and fit the partition succeeds: the
  partition afterwards carries the version 8 marker and holds exactly the device values, the
  authorities' values and the flags entry, in that order; with PSA key storage no private
  key is among them.
\<close>

theorem odc_store_complete:
  assumes b: "build_ok b cell cap page" "b_diagnostic b" and ok: "partition_context b cap page (tlv_flash st)"
    and ctx: "odc_state ctx = ODC_STATE_MSK_FULL_INIT" "odc_verify_device cr ctx" "odc_verify_cas cr ctx"
    and alloc: "\<And>n. alloc n \<noteq> None"
    and items: "\<forall>e \<in> set (odc_items (psa_key_storage env) ctx). entry_ok e"
      "8 + tlv_used (odc_items (psa_key_storage env) ctx) \<le> partition_size (tlv_flash st)"
  shows "\<exists>s'. sid_on_dev_cert_verify_and_store cr (b, env, ks) alloc (Some ctx) st =
      Some (Done (SID_ERROR_NONE, st\<lparr>tlv_flash := set_storage (tlv_flash st) s'\<rparr>)) \<and>
    store_holds b cell cap (set_storage (tlv_flash st) s') (odc_items (psa_key_storage env) ctx) \<and>
    map (dev_cell cell s') [unat (start_offset (tlv_flash st))..<unat (start_offset (tlv_flash st)) + 8] = mfg_header"
  by (rule verify_and_store_run [OF assms])

section \<open>Concrete instances\<close>

text \<open>A context with small serials, and a crypto layer that accepts every signature.\<close>

definition sample_ca :: "nat \<Rightarrow> odc_ca" where
  "sample_ca puk_size = \<lparr>ca_pub_key = replicate puk_size 1, ca_signature = replicate 64 2, ca_serial_length = 4,
     ca_serial = replicate 129 0\<rparr>"

definition full_context :: odc_context where
  "full_context = blank_context\<lparr>odc_state := ODC_STATE_MSK_FULL_INIT,
     cert_ed25519 := replicate 5 (sample_ca 32), cert_p256r1 := replicate 5 (sample_ca 64)\<rparr>"

definition lenient_crypto :: odc_crypto where
  "lenient_crypto = \<lparr>crypto_hash = (\<lambda>_. (0, replicate 32 3)), crypto_sign = (\<lambda>_ _ _. (0, replicate 64 4)),
     crypto_verify = (\<lambda>_ _ _ _. 0), crypto_key_gen = (\<lambda>_. (0, [], []))\<rparr>"

lemma full_context_simps [simp]:
  "odc_state full_context = 0x3F" "cert_ed25519 full_context = replicate 5 (sample_ca 32)"
  "cert_p256r1 full_context = replicate 5 (sample_ca 64)" "odc_smsn full_context = replicate 32 0xFF"
  "device_ed25519_puk full_context = replicate 32 0xFF" "device_p256r1_puk full_context = replicate 64 0xFF"
  by (simp_all add: full_context_def blank_context_def)

lemma sample_ca_wf: "ca_wf n (sample_ca n)"
  by (simp add: ca_wf_def sample_ca_def sid_on_dev_cert_get_ca_serial_length_def)

lemma csr_flag_full: "\<not> IS_STATE_FLG_UNSET full_context (odc_csr_flag algo)"
  by (simp add: IS_STATE_FLG_UNSET_def odc_csr_flag_def)

theorem odc_chain_roundtrip_witness:
  "\<exists>ctx'. sid_on_dev_cert_write_cert_chain (Some (SID_ODC_CRYPT_ALGO_P256R1,
       Some (replicate 32 0xFF @ replicate 64 0xFF @ replicate 64 5 @ concat (map encode_ca (replicate 5 (sample_ca 64))))))
     (Some full_context) = Done (SID_ERROR_NONE, Some ctx') \<and> odc_sig SID_ODC_CRYPT_ALGO_P256R1 ctx' = replicate 64 5"
  using odc_chain_roundtrip [OF _ csr_flag_full, of SID_ODC_CRYPT_ALGO_P256R1 "replicate 64 5"
      "replicate 5 (sample_ca 64)"] sample_ca_wf [of 64]
  by (auto simp: odc_puk_def odc_cas_def)

definition long_serial_chain :: "u8 list" where
  "long_serial_chain = replicate 64 0xFF @ replicate 64 0 @ [0x30, 0x7F] @ replicate 800 0"

theorem odc_chain_serial_overruns_witness:
  "sid_on_dev_cert_write_cert_chain (Some (SID_ODC_CRYPT_ALGO_ED25519, Some long_serial_chain)) (Some full_context) = Fault"
proof (rule odc_chain_serial_overruns [OF refl csr_flag_full])
  have d: "drop 128 long_serial_chain = [0x30, 0x7F] @ replicate 800 0" by (simp add: long_serial_chain_def)
  show "take 32 long_serial_chain = odc_smsn full_context"
    "take 32 (drop 32 long_serial_chain) = device_ed25519_puk full_context"
    by (simp_all add: long_serial_chain_def)
  show "odc_scc_min SID_ODC_CRYPT_ALGO_ED25519 \<le> length long_serial_chain"
    "length long_serial_chain \<le> odc_scc_max SID_ODC_CRYPT_ALGO_ED25519"
    by (simp_all add: long_serial_chain_def odc_scc_min_def odc_scc_max_def)
  show "SID_ODC_CA_SERIAL_MAX_SIZE < sid_on_dev_cert_get_ca_serial_length (drop 128 long_serial_chain)"
    unfolding d by (simp add: sid_on_dev_cert_get_ca_serial_length_def)
qed

lemma full_items_ok:
  "\<forall>e \<in> set (odc_items True full_context). entry_ok e" "8 + tlv_used (odc_items True full_context) \<le> 4096"
  by (simp_all add: odc_items_def odc_device_items_def odc_chain_items_def odc_ca_items_def sample_ca_def
      full_context_def blank_context_def entry_ok_def entry_len_def mfg_flags_def CALCULATE_PADDING_def nth_Cons')

lemma full_verified: "odc_verify_device lenient_crypto full_context" "odc_verify_cas lenient_crypto full_context"
  by (simp_all add: odc_verify_device_def odc_verify_cas_def lenient_crypto_def list_all_iff
      sid_on_dev_cert_ed25519_verify_def sid_on_dev_cert_p256r1_verify_def)

theorem odc_store_complete_witness:
  "\<exists>s'. sid_on_dev_cert_verify_and_store lenient_crypto (nor_build, psa_env, Map.empty) (\<lambda>n. Some (replicate n 0))
      (Some full_context) blank_store =
      Some (Done (SID_ERROR_NONE, blank_store\<lparr>tlv_flash := set_storage (nor_ctx (\<lambda>_. 0xFF)) s'\<rparr>))"
  using odc_store_complete [OF nor_build_ok _ _ _ full_verified, of blank_store "\<lambda>n. Some (replicate n 0)" psa_env Map.empty]
    nor_build_context [of "\<lambda>_. 0xFF"] full_items_ok
  by (auto simp: blank_store_def nor_build_def)

theorem odc_store_only_verified_witness:
  "crypto_verify lenient_crypto SID_ODC_CRYPT_ALGO_ED25519 (ca_pub_key (cert_ed25519 full_context ! 0))
     (device_ed25519_puk full_context @ odc_smsn full_context) (device_ed25519_sig full_context) = SID_ERROR_NONE"
proof -
  obtain s' where "sid_on_dev_cert_verify_and_store lenient_crypto (nor_build, psa_env, Map.empty)
      (\<lambda>n. Some (replicate n 0)) (Some full_context) blank_store = Some (Done (SID_ERROR_NONE, s'))"
    using verify_and_store_run [OF nor_build_ok _ _ _ full_verified, of blank_store "\<lambda>n. Some (replicate n 0)" psa_env
        Map.empty] nor_build_context [of "\<lambda>_. 0xFF"] full_items_ok
    by (auto simp: blank_store_def nor_build_def)
  from odc_store_only_verified [OF this] show ?thesis by simp
qed

end
