(* ===== verification/Sid_Crypto.thy ===== *)
theory Sid_Crypto
  imports Crypto_Keys
begin

text \<open>
  The cryptography interface of \<^verbatim>\<open>sid_crypto.c\<close>: random numbers, hashes, message
  authentication, AES, authenticated encryption, signatures, key agreement and key pairs, each
  built from calls of PSA Crypto. The PSA functions that use key material are parameters,
  gathered in \<open>psa_crypto_ops\<close>; those that manage keys are the \<open>psa_ops\<close> of the persistent keys.
\<close>

section \<open>The PSA functions\<close>

abbreviation (input) PSA_ERROR_NOT_PERMITTED :: int where "PSA_ERROR_NOT_PERMITTED \<equiv> - 133"
abbreviation (input) PSA_ERROR_NOT_SUPPORTED :: int where "PSA_ERROR_NOT_SUPPORTED \<equiv> - 134"
abbreviation (input) PSA_ERROR_INVALID_ARGUMENT :: int where "PSA_ERROR_INVALID_ARGUMENT \<equiv> - 135"
abbreviation (input) PSA_ERROR_BAD_STATE :: int where "PSA_ERROR_BAD_STATE \<equiv> - 137"
abbreviation (input) PSA_ERROR_BUFFER_TOO_SMALL :: int where "PSA_ERROR_BUFFER_TOO_SMALL \<equiv> - 138"
abbreviation (input) PSA_ERROR_INSUFFICIENT_MEMORY :: int where "PSA_ERROR_INSUFFICIENT_MEMORY \<equiv> - 141"
abbreviation (input) PSA_ERROR_DATA_INVALID :: int where "PSA_ERROR_DATA_INVALID \<equiv> - 153"

text \<open>
  \<open>'k\<close> is the state of the PSA implementation and \<open>'o\<close> an operation object. A function that
  fills a buffer takes its size and gives the bytes it wrote; the length it reports is their
  number.
\<close>

record ('k, 'o) psa_crypto_ops =
  psa_crypto_init :: "'k \<Rightarrow> int \<times> 'k"
  psa_generate_random :: "'k \<Rightarrow> nat \<Rightarrow> int \<times> u8 list \<times> 'k"
  psa_hash_compute :: "'k \<Rightarrow> psa_algorithm \<Rightarrow> u8 list \<Rightarrow> nat \<Rightarrow> int \<times> u8 list"
  psa_operation_init :: 'o
  psa_mac_sign_setup :: "'k \<Rightarrow> 'o \<Rightarrow> u32 \<Rightarrow> psa_algorithm \<Rightarrow> int \<times> 'o"
  psa_mac_update :: "'o \<Rightarrow> u8 list \<Rightarrow> int \<times> 'o"
  psa_mac_sign_finish :: "'o \<Rightarrow> nat \<Rightarrow> int \<times> u8 list \<times> 'o"
  psa_mac_compute :: "'k \<Rightarrow> u32 \<Rightarrow> psa_algorithm \<Rightarrow> u8 list \<Rightarrow> nat \<Rightarrow> int \<times> u8 list"
  psa_cipher_encrypt_setup :: "'k \<Rightarrow> 'o \<Rightarrow> u32 \<Rightarrow> psa_algorithm \<Rightarrow> int \<times> 'o"
  psa_cipher_decrypt_setup :: "'k \<Rightarrow> 'o \<Rightarrow> u32 \<Rightarrow> psa_algorithm \<Rightarrow> int \<times> 'o"
  psa_cipher_set_iv :: "'o \<Rightarrow> u8 list option \<Rightarrow> int \<times> 'o"
  psa_cipher_update :: "'o \<Rightarrow> u8 list \<Rightarrow> nat \<Rightarrow> int \<times> u8 list \<times> 'o"
  psa_cipher_finish :: "'o \<Rightarrow> nat \<Rightarrow> int \<times> u8 list \<times> 'o"
  psa_cipher_abort :: "'o \<Rightarrow> int \<times> 'o"
  psa_aead_encrypt_setup :: "'k \<Rightarrow> 'o \<Rightarrow> u32 \<Rightarrow> psa_algorithm \<Rightarrow> int \<times> 'o"
  psa_aead_decrypt_setup :: "'k \<Rightarrow> 'o \<Rightarrow> u32 \<Rightarrow> psa_algorithm \<Rightarrow> int \<times> 'o"
  psa_aead_set_lengths :: "'o \<Rightarrow> nat \<Rightarrow> nat \<Rightarrow> int \<times> 'o"
  psa_aead_set_nonce :: "'o \<Rightarrow> u8 list \<Rightarrow> int \<times> 'o"
  psa_aead_update_ad :: "'o \<Rightarrow> u8 list \<Rightarrow> int \<times> 'o"
  psa_aead_update :: "'o \<Rightarrow> u8 list \<Rightarrow> nat \<Rightarrow> int \<times> u8 list \<times> 'o"
  psa_aead_finish :: "'o \<Rightarrow> nat \<Rightarrow> nat \<Rightarrow> int \<times> u8 list \<times> u8 list \<times> 'o"
  psa_aead_verify :: "'o \<Rightarrow> nat \<Rightarrow> u8 list \<Rightarrow> int \<times> u8 list \<times> 'o"
  psa_aead_abort :: "'o \<Rightarrow> int \<times> 'o"
  psa_verify_message :: "'k \<Rightarrow> u32 \<Rightarrow> psa_algorithm \<Rightarrow> u8 list \<Rightarrow> u8 list \<Rightarrow> int"
  psa_sign_message :: "'k \<Rightarrow> u32 \<Rightarrow> psa_algorithm \<Rightarrow> u8 list \<Rightarrow> nat \<Rightarrow> int \<times> u8 list"
  psa_raw_key_agreement :: "'k \<Rightarrow> psa_algorithm \<Rightarrow> u32 \<Rightarrow> u8 list \<Rightarrow> nat \<Rightarrow> int \<times> u8 list"
  psa_export_key :: "'k \<Rightarrow> u32 \<Rightarrow> nat \<Rightarrow> int \<times> u8 list"

text \<open>
  The build: the PSA functions, the lengths its macros give, and the persistent key storage,
  \<open>None\<close> when it is not compiled in. The state is the flag of the module and the state of the
  PSA implementation; \<open>dropped_ops\<close> records the operation objects, local variables of the
  functions, that were given to PSA, as they were when their function returned.
\<close>

record ('k, 'o) crypto_env =
  env_psa_keys :: "'k psa_ops"
  env_psa_crypto :: "('k, 'o) psa_crypto_ops"
  PSA_CIPHER_IV_LENGTH :: "psa_algorithm \<Rightarrow> nat"
  PSA_AEAD_NONCE_LENGTH :: "psa_algorithm \<Rightarrow> nat"
  crypto_key_storage :: "key_storage option"

record ('k, 'o) crypto_state =
  is_initialized :: bool
  psa_state :: 'k
  dropped_ops :: "'o list"

abbreviation (input) AES_128_KEY_BITS :: nat where "AES_128_KEY_BITS \<equiv> 128"
abbreviation (input) EC_MAX_KEY_LENGTH :: nat where "EC_MAX_KEY_LENGTH \<equiv> 65"
abbreviation (input) ALGO_DATA_CHUNK :: nat where "ALGO_DATA_CHUNK \<equiv> 32"

text \<open>Bytes written into a buffer from an offset on.\<close>

definition put_at :: "nat \<Rightarrow> u8 list \<Rightarrow> u8 list \<Rightarrow> u8 list" where
  "put_at off bytes buf = take off buf @ bytes @ drop (off + length bytes) buf"

section \<open>Errors and keys\<close>

definition get_error :: "int \<Rightarrow> sid_error" where
  "get_error psa_erc =
     (if psa_erc = PSA_SUCCESS then SID_ERROR_NONE
      else if psa_erc = PSA_ERROR_NOT_SUPPORTED then SID_ERROR_NOSUPPORT
      else if psa_erc = PSA_ERROR_INSUFFICIENT_MEMORY then SID_ERROR_OOM
      else if psa_erc = PSA_ERROR_INVALID_ARGUMENT then SID_ERROR_INVALID_ARGS
      else if psa_erc = PSA_ERROR_BUFFER_TOO_SMALL then SID_ERROR_OUT_OF_RESOURCES
      else if psa_erc = PSA_ERROR_BAD_STATE then SID_ERROR_INVALID_STATE
      else if psa_erc = PSA_ERROR_NOT_PERMITTED then SID_ERROR_NO_PERMISSION
      else if psa_erc = PSA_ERROR_DATA_INVALID then SID_ERROR_NULL_POINTER
      else SID_ERROR_GENERIC)"

text \<open>
  The handle of the key to use: the identifier a key reference names, or that of a volatile
  key imported from the bytes. \<open>None\<close> is the read past the buffer by the test for a reference.
\<close>

definition prepare_key ::
  "('k, 'o) crypto_env \<Rightarrow> u8 list \<Rightarrow> nat \<Rightarrow> nat \<Rightarrow> psa_key_usage \<Rightarrow> psa_algorithm \<Rightarrow> psa_key_type \<Rightarrow> 'k \<Rightarrow>
   (int \<times> u32 \<times> 'k) option" where
  "prepare_key env key key_length bits usage alg ty ks =
     (let import = psa_import_key (env_psa_keys env) ks
            \<lparr>usage_flags = usage, key_alg = alg, key_type = ty, key_bits = bits,
             key_lifetime = PSA_KEY_LIFETIME_VOLATILE, attr_key_id = PSA_KEY_ID_NULL\<rparr> (take key_length key)
      in case crypto_key_storage env of
           None \<Rightarrow> Some import
         | Some cfg \<Rightarrow>
             (case sid_crypto_keys_buffer_get cfg (Some key) key_length of
                None \<Rightarrow> None
              | Some (err, h) \<Rightarrow>
                  if err = 0 \<and> SID_CRYPTO_KEYS_ID_IS_SIDEWALK_KEY cfg h then Some (PSA_SUCCESS, h, ks)
                  else Some import))"

text \<open>The end of every operation: the key is destroyed unless it is one of the persistent ones.\<close>

definition release_key :: "('k, 'o) crypto_env \<Rightarrow> u32 \<Rightarrow> 'k \<Rightarrow> 'k" where
  "release_key env h ks =
     (case crypto_key_storage env of
        None \<Rightarrow> snd (psa_destroy_key (env_psa_keys env) ks h)
      | Some cfg \<Rightarrow>
          if \<not> SID_CRYPTO_KEYS_ID_IS_SIDEWALK_KEY cfg h then snd (psa_destroy_key (env_psa_keys env) ks h) else ks)"

section \<open>Initialisation, random numbers and hashes\<close>

definition sid_pal_crypto_init :: "('k, 'o) crypto_env \<Rightarrow> ('k, 'o) crypto_state \<Rightarrow> sid_error \<times> ('k, 'o) crypto_state" where
  "sid_pal_crypto_init env st =
     (case psa_crypto_init (env_psa_crypto env) (psa_state st) of
        (status, ks) \<Rightarrow>
          (get_error status, st\<lparr>psa_state := ks, is_initialized := (status = PSA_SUCCESS \<or> is_initialized st)\<rparr>))"

definition sid_pal_crypto_deinit :: "('k, 'o) crypto_env \<Rightarrow> ('k, 'o) crypto_state \<Rightarrow> sid_error \<times> ('k, 'o) crypto_state" where
  "sid_pal_crypto_deinit env st =
     (if crypto_key_storage env \<noteq> None \<and> sid_crypto_keys_deinit () \<noteq> 0 then (SID_ERROR_NOT_FOUND, st)
      else (SID_ERROR_NONE, st\<lparr>is_initialized := False\<rparr>))"

definition sid_pal_crypto_rand ::
  "('k, 'o) crypto_env \<Rightarrow> u8 list option \<Rightarrow> nat \<Rightarrow> ('k, 'o) crypto_state \<Rightarrow>
   sid_error \<times> u8 list option \<times> ('k, 'o) crypto_state" where
  "sid_pal_crypto_rand env rand sz st =
     (if \<not> is_initialized st then (SID_ERROR_UNINITIALIZED, rand, st)
      else
        (case rand of
           None \<Rightarrow> (SID_ERROR_NULL_POINTER, rand, st)
         | Some buf \<Rightarrow>
             if sz = 0 then (SID_ERROR_INVALID_ARGS, rand, st)
             else (case psa_generate_random (env_psa_crypto env) (psa_state st) sz of
                     (status, bytes, ks) \<Rightarrow> (get_error status, Some (put_at 0 bytes buf), st\<lparr>psa_state := ks\<rparr>))))"

datatype sid_pal_hash_algo = SID_PAL_HASH_SHA256 | SID_PAL_HASH_SHA512 | SID_PAL_HASH_OTHER

fun hash_alg :: "sid_pal_hash_algo \<Rightarrow> psa_algorithm option" where
  "hash_alg SID_PAL_HASH_SHA256 = Some PSA_ALG_SHA_256"
| "hash_alg SID_PAL_HASH_SHA512 = Some PSA_ALG_SHA_512"
| "hash_alg SID_PAL_HASH_OTHER = None"

record sid_pal_hash_params =
  hash_algo :: sid_pal_hash_algo
  hash_data :: "u8 list option"
  hash_data_size :: nat
  hash_digest :: "u8 list option"
  hash_digest_size :: nat

definition sid_pal_crypto_hash ::
  "('k, 'o) crypto_env \<Rightarrow> sid_pal_hash_params option \<Rightarrow> ('k, 'o) crypto_state \<Rightarrow> sid_error \<times> sid_pal_hash_params option" where
  "sid_pal_crypto_hash env params st =
     (if \<not> is_initialized st then (SID_ERROR_UNINITIALIZED, params)
      else
        (case params of
           None \<Rightarrow> (SID_ERROR_NULL_POINTER, params)
         | Some p \<Rightarrow>
             if hash_data p = None \<or> hash_digest p = None then (SID_ERROR_NULL_POINTER, params)
             else if hash_data_size p = 0 \<or> hash_digest_size p = 0 then (SID_ERROR_INVALID_ARGS, params)
             else
               (case hash_alg (hash_algo p) of
                  None \<Rightarrow> (SID_ERROR_NOSUPPORT, params)
                | Some alg \<Rightarrow>
                    (case psa_hash_compute (env_psa_crypto env) (psa_state st) alg
                            (take (hash_data_size p) (the (hash_data p))) (hash_digest_size p) of
                       (status, bytes) \<Rightarrow>
                         (get_error status, Some (p\<lparr>hash_digest := map_option (put_at 0 bytes) (hash_digest p)\<rparr>))))))"

section \<open>Message authentication\<close>

record sid_pal_hmac_params =
  hmac_algo :: sid_pal_hash_algo
  hmac_key :: "u8 list option"
  hmac_key_size :: nat
  hmac_data :: "u8 list option"
  hmac_data_size :: nat
  hmac_digest :: "u8 list option"
  hmac_digest_size :: nat

text \<open>The loop over the data in chunks; \<open>None\<close> when it never ends.\<close>

partial_function (option) hmac_update_loop ::
  "('k, 'o) psa_crypto_ops \<Rightarrow> 'o \<Rightarrow> u8 list \<Rightarrow> nat \<Rightarrow> nat \<Rightarrow> nat \<Rightarrow> (int \<times> 'o) option" where
  "hmac_update_loop ops op data offset data_chunk s_left =
     (let data_chunk = min s_left data_chunk in
      case psa_mac_update ops op (take data_chunk (drop offset data)) of
        (status, op1) \<Rightarrow>
          (let offset = offset + data_chunk; s_left = s_left - data_chunk in
           if status = PSA_SUCCESS \<and> s_left \<noteq> 0 then hmac_update_loop ops op1 data offset data_chunk s_left
           else Some (status, op1)))"

text \<open>The part between loading and releasing the key: the status, the digest and the operation object.\<close>

definition hmac_compute ::
  "('k, 'o) psa_crypto_ops \<Rightarrow> u32 \<Rightarrow> psa_algorithm \<Rightarrow> sid_pal_hmac_params \<Rightarrow> 'k \<Rightarrow>
   (int \<times> sid_pal_hmac_params \<times> 'o) option" where
  "hmac_compute ops h alg p ks =
     (case psa_mac_sign_setup ops ks (psa_operation_init ops) h (PSA_ALG_HMAC alg) of
        (status, op) \<Rightarrow>
          if status \<noteq> PSA_SUCCESS then Some (status, p, op)
          else
            (case hmac_update_loop ops op (the (hmac_data p)) 0 ALGO_DATA_CHUNK (hmac_data_size p) of
               None \<Rightarrow> None
             | Some (status, op1) \<Rightarrow>
                 if status \<noteq> PSA_SUCCESS then Some (status, p, op1)
                 else (case psa_mac_sign_finish ops op1 (hmac_digest_size p) of
                         (status, bytes, op2) \<Rightarrow>
                           Some (status, p\<lparr>hmac_digest := map_option (put_at 0 bytes) (hmac_digest p)\<rparr>, op2))))"

definition sid_pal_crypto_hmac ::
  "('k, 'o) crypto_env \<Rightarrow> sid_pal_hmac_params option \<Rightarrow> ('k, 'o) crypto_state \<Rightarrow>
   (sid_error \<times> sid_pal_hmac_params option \<times> ('k, 'o) crypto_state) option" where
  "sid_pal_crypto_hmac env params st =
     (if \<not> is_initialized st then Some (SID_ERROR_UNINITIALIZED, params, st)
      else
        (case params of
           None \<Rightarrow> Some (SID_ERROR_NULL_POINTER, params, st)
         | Some p \<Rightarrow>
             if hmac_key p = None \<or> hmac_data p = None \<or> hmac_digest p = None
             then Some (SID_ERROR_NULL_POINTER, params, st)
             else if hmac_key_size p = 0 \<or> hmac_data_size p = 0 \<or> hmac_digest_size p = 0
             then Some (SID_ERROR_INVALID_ARGS, params, st)
             else
               (case hash_alg (hmac_algo p) of
                  None \<Rightarrow> Some (SID_ERROR_NOSUPPORT, params, st)
                | Some alg \<Rightarrow>
                    (case prepare_key env (the (hmac_key p)) (hmac_key_size p) (8 * hmac_key_size p mod 2 ^ 32)
                            PSA_KEY_USAGE_SIGN_HASH (PSA_ALG_HMAC alg) PSA_KEY_TYPE_HMAC (psa_state st) of
                       None \<Rightarrow> None
                     | Some (status, h, ks) \<Rightarrow>
                         if status \<noteq> PSA_SUCCESS
                         then Some (get_error status, params, st\<lparr>psa_state := ks\<rparr>)
                         else
                           (case hmac_compute (env_psa_crypto env) h alg p ks of
                              None \<Rightarrow> None
                            | Some (status, p1, op) \<Rightarrow>
                                Some (get_error status, Some p1,
                                  st\<lparr>psa_state := release_key env h ks, dropped_ops := dropped_ops st @ [op]\<rparr>))))))"

section \<open>AES\<close>

datatype sid_pal_aes_algo = SID_PAL_AES_CMAC_128 | SID_PAL_AES_CTR_128 | SID_PAL_AES_OTHER

datatype sid_pal_aes_mode =
    SID_PAL_CRYPTO_ENCRYPT | SID_PAL_CRYPTO_DECRYPT | SID_PAL_CRYPTO_MAC_CALCULATE | SID_PAL_CRYPTO_MODE_OTHER

fun AES_MODE_TO_USAGE :: "sid_pal_aes_mode \<Rightarrow> psa_key_usage" where
  "AES_MODE_TO_USAGE SID_PAL_CRYPTO_ENCRYPT = PSA_KEY_USAGE_ENCRYPT"
| "AES_MODE_TO_USAGE SID_PAL_CRYPTO_DECRYPT = PSA_KEY_USAGE_DECRYPT"
| "AES_MODE_TO_USAGE _ = PSA_KEY_USAGE_SIGN_MESSAGE"

record sid_pal_aes_params =
  aes_algo :: sid_pal_aes_algo
  aes_mode :: sid_pal_aes_mode
  aes_key :: "u8 list option"
  aes_key_size :: nat
  aes_iv :: "u8 list option"
  aes_iv_size :: nat
  aes_in :: "u8 list option"
  aes_in_size :: nat
  aes_out :: "u8 list option"
  aes_out_size :: nat

definition aes_execute ::
  "('k, 'o) psa_crypto_ops \<Rightarrow> 'o \<Rightarrow> sid_pal_aes_params \<Rightarrow> int \<times> 'o \<times> sid_pal_aes_params" where
  "aes_execute ops op p =
     (case psa_cipher_set_iv ops op (map_option (take (aes_iv_size p)) (aes_iv p)) of (status, op1) \<Rightarrow>
        if status \<noteq> PSA_SUCCESS then (status, op1, p)
        else
          (case psa_cipher_update ops op1 (take (aes_in_size p) (the (aes_in p))) (aes_out_size p) of
             (status, bytes, op2) \<Rightarrow>
               let p1 = p\<lparr>aes_out := map_option (put_at 0 bytes) (aes_out p)\<rparr> in
               if status \<noteq> PSA_SUCCESS then (status, op2, p1)
               else (case psa_cipher_finish ops op2 (aes_out_size p - length bytes) of
                       (status, rest, op3) \<Rightarrow>
                         (status, op3, p1\<lparr>aes_out := map_option (put_at (length bytes) rest) (aes_out p1)\<rparr>))))"

definition aes_encrypt ::
  "('k, 'o) psa_crypto_ops \<Rightarrow> 'k \<Rightarrow> u32 \<Rightarrow> sid_pal_aes_params \<Rightarrow> int \<times> 'o \<times> sid_pal_aes_params" where
  "aes_encrypt ops ks h p =
     (case psa_cipher_encrypt_setup ops ks (psa_operation_init ops) h PSA_ALG_CTR of (status, op) \<Rightarrow>
        case (if status = PSA_SUCCESS then aes_execute ops op p else (status, op, p)) of (status, op1, p1) \<Rightarrow>
          (status, if status \<noteq> PSA_SUCCESS then snd (psa_cipher_abort ops op1) else op1, p1))"

definition aes_decrypt ::
  "('k, 'o) psa_crypto_ops \<Rightarrow> 'k \<Rightarrow> u32 \<Rightarrow> sid_pal_aes_params \<Rightarrow> int \<times> 'o \<times> sid_pal_aes_params" where
  "aes_decrypt ops ks h p =
     (case psa_cipher_decrypt_setup ops ks (psa_operation_init ops) h PSA_ALG_CTR of (status, op) \<Rightarrow>
        case (if status = PSA_SUCCESS then aes_execute ops op p else (status, op, p)) of (status, op1, p1) \<Rightarrow>
          (status, if status \<noteq> PSA_SUCCESS then snd (psa_cipher_abort ops op1) else op1, p1))"

text \<open>
  The switch over the mode: the status, the operation objects used and the parameters, or
  \<open>None\<close> for the early return of the default case.
\<close>

definition aes_switch ::
  "('k, 'o) psa_crypto_ops \<Rightarrow> 'k \<Rightarrow> u32 \<Rightarrow> psa_algorithm \<Rightarrow> sid_pal_aes_params \<Rightarrow>
   (int \<times> 'o list \<times> sid_pal_aes_params) option" where
  "aes_switch ops ks h alg p =
     (case aes_mode p of
        SID_PAL_CRYPTO_ENCRYPT \<Rightarrow> (case aes_encrypt ops ks h p of (status, op, p1) \<Rightarrow> Some (status, [op], p1))
      | SID_PAL_CRYPTO_DECRYPT \<Rightarrow> (case aes_decrypt ops ks h p of (status, op, p1) \<Rightarrow> Some (status, [op], p1))
      | SID_PAL_CRYPTO_MAC_CALCULATE \<Rightarrow>
          (case psa_mac_compute ops ks h alg (take (aes_in_size p) (the (aes_in p))) (aes_out_size p) of
             (status, bytes) \<Rightarrow> Some (status, [], p\<lparr>aes_out := map_option (put_at 0 bytes) (aes_out p)\<rparr>))
      | _ \<Rightarrow> None)"

fun aes_alg :: "sid_pal_aes_algo \<Rightarrow> psa_algorithm option" where
  "aes_alg SID_PAL_AES_CMAC_128 = Some PSA_ALG_CMAC"
| "aes_alg SID_PAL_AES_CTR_128 = Some PSA_ALG_CTR"
| "aes_alg SID_PAL_AES_OTHER = None"

definition sid_pal_crypto_aes_crypt ::
  "('k, 'o) crypto_env \<Rightarrow> sid_pal_aes_params option \<Rightarrow> ('k, 'o) crypto_state \<Rightarrow>
   (sid_error \<times> sid_pal_aes_params option \<times> ('k, 'o) crypto_state) option" where
  "sid_pal_crypto_aes_crypt env params st =
     (if \<not> is_initialized st then Some (SID_ERROR_UNINITIALIZED, params, st)
      else
        (case params of
           None \<Rightarrow> Some (SID_ERROR_NULL_POINTER, params, st)
         | Some p \<Rightarrow>
             if aes_key p = None \<or> aes_in p = None \<or> aes_out p = None \<or>
                (aes_algo p = SID_PAL_AES_CTR_128 \<and> aes_iv p = None)
             then Some (SID_ERROR_NULL_POINTER, params, st)
             else if aes_in_size p = 0 then Some (SID_ERROR_INVALID_ARGS, params, st)
             else
               (case aes_alg (aes_algo p) of
                  None \<Rightarrow> Some (SID_ERROR_NOSUPPORT, params, st)
                | Some alg \<Rightarrow>
                    if aes_key_size p \<noteq> AES_128_KEY_BITS \<or>
                       (aes_algo p = SID_PAL_AES_CTR_128 \<and> aes_iv_size p \<noteq> PSA_CIPHER_IV_LENGTH env alg)
                    then Some (SID_ERROR_INVALID_ARGS, params, st)
                    else
                      (case prepare_key env (the (aes_key p)) (aes_key_size p div 8) (aes_key_size p)
                              (AES_MODE_TO_USAGE (aes_mode p)) alg PSA_KEY_TYPE_AES (psa_state st) of
                         None \<Rightarrow> None
                       | Some (status, h, ks) \<Rightarrow>
                           if status \<noteq> PSA_SUCCESS then Some (get_error status, params, st\<lparr>psa_state := ks\<rparr>)
                           else
                             (case aes_switch (env_psa_crypto env) ks h alg p of
                                None \<Rightarrow> Some (SID_ERROR_INVALID_ARGS, params, st\<lparr>psa_state := ks\<rparr>)
                              | Some (status, used, p1) \<Rightarrow>
                                  Some (get_error status, Some p1,
                                    st\<lparr>psa_state := release_key env h ks, dropped_ops := dropped_ops st @ used\<rparr>))))))"

section \<open>Authenticated encryption\<close>

datatype sid_pal_aead_algo =
    SID_PAL_AEAD_GCM_128 | SID_PAL_AEAD_CCM_128 | SID_PAL_AEAD_CCM_STAR_128 | SID_PAL_AEAD_OTHER

record sid_pal_aead_params =
  aead_algo :: sid_pal_aead_algo
  aead_mode :: sid_pal_aes_mode
  aead_key :: "u8 list option"
  aead_key_size :: nat
  aead_iv :: "u8 list option"
  aead_iv_size :: nat
  aead_aad :: "u8 list option"
  aead_aad_size :: nat
  aead_in :: "u8 list option"
  aead_in_size :: nat
  aead_out :: "u8 list option"
  aead_out_size :: nat
  aead_mac :: "u8 list option"
  aead_mac_size :: nat

text \<open>The last call: finishing the encryption or verifying the tag.\<close>

definition aead_conclude ::
  "('k, 'o) psa_crypto_ops \<Rightarrow> 'o \<Rightarrow> nat \<Rightarrow> sid_pal_aead_params \<Rightarrow> int \<times> 'o \<times> sid_pal_aead_params" where
  "aead_conclude ops op out_len p =
     (if aead_mode p = SID_PAL_CRYPTO_ENCRYPT
      then (case psa_aead_finish ops op (aead_out_size p - out_len) (aead_mac_size p) of
              (status, rest, tag, op1) \<Rightarrow>
                (status, op1, p\<lparr>aead_out := map_option (put_at out_len rest) (aead_out p),
                                aead_mac := map_option (put_at 0 tag) (aead_mac p)\<rparr>))
      else (case psa_aead_verify ops op (aead_out_size p - out_len) (take (aead_mac_size p) (the (aead_mac p))) of
              (status, rest, op1) \<Rightarrow> (status, op1, p\<lparr>aead_out := map_option (put_at out_len rest) (aead_out p)\<rparr>)))"

definition aead_execute ::
  "('k, 'o) psa_crypto_ops \<Rightarrow> 'o \<Rightarrow> sid_pal_aead_params \<Rightarrow> int \<times> 'o \<times> sid_pal_aead_params" where
  "aead_execute ops op p =
     (case psa_aead_set_lengths ops op (aead_aad_size p) (aead_in_size p) of (status, op1) \<Rightarrow>
        if status \<noteq> PSA_SUCCESS then (status, op1, p)
        else (case (case aead_iv p of None \<Rightarrow> (status, op1)
                    | Some iv \<Rightarrow> psa_aead_set_nonce ops op1 (take (aead_iv_size p) iv)) of (status, op2) \<Rightarrow>
        if status \<noteq> PSA_SUCCESS then (status, op2, p)
        else (case psa_aead_update_ad ops op2 (take (aead_aad_size p) (the (aead_aad p))) of (status, op3) \<Rightarrow>
        if status \<noteq> PSA_SUCCESS then (status, op3, p)
        else (case psa_aead_update ops op3 (take (aead_in_size p) (the (aead_in p))) (aead_out_size p) of
                (status, bytes, op4) \<Rightarrow>
                  let p1 = p\<lparr>aead_out := map_option (put_at 0 bytes) (aead_out p)\<rparr> in
                  if status \<noteq> PSA_SUCCESS then (status, op4, p1)
                  else aead_conclude ops op4 (length bytes) p1))))"

definition aead_encrypt ::
  "('k, 'o) psa_crypto_ops \<Rightarrow> 'k \<Rightarrow> u32 \<Rightarrow> psa_algorithm \<Rightarrow> sid_pal_aead_params \<Rightarrow> int \<times> 'o \<times> sid_pal_aead_params" where
  "aead_encrypt ops ks h alg p =
     (case psa_aead_encrypt_setup ops ks (psa_operation_init ops) h alg of (status, op) \<Rightarrow>
        case (if status = PSA_SUCCESS then aead_execute ops op p else (status, op, p)) of (status, op1, p1) \<Rightarrow>
          (status, snd (psa_aead_abort ops op1), p1))"

definition aead_decrypt ::
  "('k, 'o) psa_crypto_ops \<Rightarrow> 'k \<Rightarrow> u32 \<Rightarrow> psa_algorithm \<Rightarrow> sid_pal_aead_params \<Rightarrow> int \<times> 'o \<times> sid_pal_aead_params" where
  "aead_decrypt ops ks h alg p =
     (case psa_aead_decrypt_setup ops ks (psa_operation_init ops) h alg of (status, op) \<Rightarrow>
        case (if status = PSA_SUCCESS then aead_execute ops op p else (status, op, p)) of (status, op1, p1) \<Rightarrow>
          (status, snd (psa_aead_abort ops op1), p1))"

text \<open>PSA's macro keeps the low six bits of the tag's length.\<close>

fun aead_alg :: "sid_pal_aead_algo \<Rightarrow> nat \<Rightarrow> psa_algorithm option" where
  "aead_alg SID_PAL_AEAD_GCM_128 mac_size = Some (PSA_ALG_AEAD_WITH_SHORTENED_TAG PSA_ALG_GCM (mac_size mod 64))"
| "aead_alg SID_PAL_AEAD_CCM_128 mac_size = Some (PSA_ALG_AEAD_WITH_SHORTENED_TAG PSA_ALG_CCM (mac_size mod 64))"
| "aead_alg _ mac_size = None"

definition aead_switch ::
  "('k, 'o) psa_crypto_ops \<Rightarrow> 'k \<Rightarrow> u32 \<Rightarrow> psa_algorithm \<Rightarrow> sid_pal_aead_params \<Rightarrow>
   (int \<times> 'o \<times> sid_pal_aead_params) option" where
  "aead_switch ops ks h alg p =
     (case aead_mode p of
        SID_PAL_CRYPTO_ENCRYPT \<Rightarrow> Some (aead_encrypt ops ks h alg p)
      | SID_PAL_CRYPTO_DECRYPT \<Rightarrow> Some (aead_decrypt ops ks h alg p)
      | _ \<Rightarrow> None)"

definition sid_pal_crypto_aead_crypt ::
  "('k, 'o) crypto_env \<Rightarrow> sid_pal_aead_params option \<Rightarrow> ('k, 'o) crypto_state \<Rightarrow>
   (sid_error \<times> sid_pal_aead_params option \<times> ('k, 'o) crypto_state) option" where
  "sid_pal_crypto_aead_crypt env params st =
     (if \<not> is_initialized st then Some (SID_ERROR_UNINITIALIZED, params, st)
      else
        (case params of
           None \<Rightarrow> Some (SID_ERROR_NULL_POINTER, params, st)
         | Some p \<Rightarrow>
             if aead_key p = None \<or> aead_in p = None \<or> aead_out p = None \<or> aead_aad p = None \<or> aead_mac p = None
             then Some (SID_ERROR_NULL_POINTER, params, st)
             else if aead_in_size p = 0 \<or> aead_aad_size p = 0 then Some (SID_ERROR_INVALID_ARGS, params, st)
             else
               (case aead_alg (aead_algo p) (aead_mac_size p) of
                  None \<Rightarrow> Some (SID_ERROR_NOSUPPORT, params, st)
                | Some alg \<Rightarrow>
                    if aead_key_size p \<noteq> AES_128_KEY_BITS then Some (SID_ERROR_INVALID_ARGS, params, st)
                    else if aead_iv p \<noteq> None \<and> aead_iv_size p \<noteq> PSA_AEAD_NONCE_LENGTH env alg
                    then Some (SID_ERROR_INVALID_ARGS, params, st)
                    else
                      (case prepare_key env (the (aead_key p)) (aead_key_size p div 8) (aead_key_size p)
                              (AES_MODE_TO_USAGE (aead_mode p)) alg PSA_KEY_TYPE_AES (psa_state st) of
                         None \<Rightarrow> None
                       | Some (status, h, ks) \<Rightarrow>
                           if status \<noteq> PSA_SUCCESS then Some (get_error status, params, st\<lparr>psa_state := ks\<rparr>)
                           else
                             (case aead_switch (env_psa_crypto env) ks h alg p of
                                None \<Rightarrow> Some (SID_ERROR_INVALID_ARGS, params, st\<lparr>psa_state := ks\<rparr>)
                              | Some (status, op, p1) \<Rightarrow>
                                  Some (get_error status, Some p1,
                                    st\<lparr>psa_state := release_key env h ks, dropped_ops := dropped_ops st @ [op]\<rparr>))))))"

end
