(* ===== verification/Sid_Crypto_Ecc.thy ===== *)
theory Sid_Crypto_Ecc
  imports Sid_Crypto
begin

text \<open>
  The elliptic curve part of \<^verbatim>\<open>sid_crypto.c\<close>: signatures, key agreement and key pairs. Sidewalk
  carries P-256 public keys as 64 bytes, PSA as 65 with a leading 4; the functions convert.
\<close>

datatype sid_pal_ecc_algo =
    SID_PAL_ECDH_CURVE25519 | SID_PAL_ECDH_SECP256R1 | SID_PAL_EDDSA_ED25519 | SID_PAL_ECDSA_SECP256R1
  | SID_PAL_ECC_OTHER

datatype sid_pal_dsa_mode = SID_PAL_CRYPTO_SIGN | SID_PAL_CRYPTO_VERIFY | SID_PAL_DSA_MODE_OTHER

datatype psa_ecc_family = PSA_ECC_FAMILY_TWISTED_EDWARDS | PSA_ECC_FAMILY_SECP_R1

definition secpxxx_key_prefix :: "u8 list" where
  "secpxxx_key_prefix = [0x04]"

fun ECDSA_MODE_TO_USAGE :: "sid_pal_dsa_mode \<Rightarrow> psa_key_usage" where
  "ECDSA_MODE_TO_USAGE SID_PAL_CRYPTO_VERIFY = PSA_KEY_USAGE_VERIFY_MESSAGE"
| "ECDSA_MODE_TO_USAGE _ = PSA_KEY_USAGE_SIGN_MESSAGE"

fun ECC_FAMILY_TYPE :: "sid_pal_dsa_mode \<Rightarrow> psa_ecc_family \<Rightarrow> psa_key_type" where
  "ECC_FAMILY_TYPE SID_PAL_CRYPTO_VERIFY PSA_ECC_FAMILY_TWISTED_EDWARDS = PSA_KEY_TYPE_ECC_PUBLIC_KEY_TWISTED_EDWARDS"
| "ECC_FAMILY_TYPE SID_PAL_CRYPTO_VERIFY PSA_ECC_FAMILY_SECP_R1 = PSA_KEY_TYPE_ECC_PUBLIC_KEY_SECP_R1"
| "ECC_FAMILY_TYPE _ PSA_ECC_FAMILY_TWISTED_EDWARDS = PSA_KEY_TYPE_ECC_KEY_PAIR_TWISTED_EDWARDS"
| "ECC_FAMILY_TYPE _ PSA_ECC_FAMILY_SECP_R1 = PSA_KEY_TYPE_ECC_KEY_PAIR_SECP_R1"

section \<open>Signatures\<close>

record sid_pal_dsa_params =
  dsa_algo :: sid_pal_ecc_algo
  dsa_mode :: sid_pal_dsa_mode
  dsa_key :: "u8 list option"
  dsa_key_size :: nat
  dsa_in :: "u8 list option"
  dsa_in_size :: nat
  dsa_signature :: "u8 list option"
  dsa_sig_size :: nat

text \<open>Algorithm, curve family and key length in bits.\<close>

fun dsa_alg :: "sid_pal_ecc_algo \<Rightarrow> (psa_algorithm \<times> psa_ecc_family \<times> nat) option" where
  "dsa_alg SID_PAL_EDDSA_ED25519 = Some (PSA_ALG_PURE_EDDSA, PSA_ECC_FAMILY_TWISTED_EDWARDS, 255)"
| "dsa_alg SID_PAL_ECDSA_SECP256R1 = Some (PSA_ALG_ECDSA_SHA_256, PSA_ECC_FAMILY_SECP_R1, 256)"
| "dsa_alg _ = None"

text \<open>
  A key copied into a local array of 65 bytes, whose initial contents are \<open>junk\<close>, behind the
  prefix where one is needed; and the number of bytes it takes there, cut to the array.
\<close>

definition ec_key_buffer :: "bool \<Rightarrow> u8 list \<Rightarrow> u8 list \<Rightarrow> nat \<Rightarrow> u8 list \<times> nat" where
  "ec_key_buffer prefixed junk key sz =
     (let buf = (if prefixed then put_at 0 secpxxx_key_prefix junk else junk);
          off = (if prefixed then 1 else 0);
          n = min EC_MAX_KEY_LENGTH (sz + off)
      in (put_at off (take (n - off) key) buf, n))"

text \<open>The switch over the mode; \<open>None\<close> is the early return of the default case.\<close>

definition dsa_switch ::
  "('k, 'o) psa_crypto_ops \<Rightarrow> 'k \<Rightarrow> u32 \<Rightarrow> psa_algorithm \<Rightarrow> sid_pal_dsa_params \<Rightarrow> (int \<times> sid_pal_dsa_params) option" where
  "dsa_switch ops ks h alg p =
     (case dsa_mode p of
        SID_PAL_CRYPTO_VERIFY \<Rightarrow>
          Some (psa_verify_message ops ks h alg (take (dsa_in_size p) (the (dsa_in p)))
                  (take (dsa_sig_size p) (the (dsa_signature p))), p)
      | SID_PAL_CRYPTO_SIGN \<Rightarrow>
          (case psa_sign_message ops ks h alg (take (dsa_in_size p) (the (dsa_in p))) (dsa_sig_size p) of
             (status, bytes) \<Rightarrow> Some (status, p\<lparr>dsa_signature := map_option (put_at 0 bytes) (dsa_signature p)\<rparr>))
      | _ \<Rightarrow> None)"

definition sid_pal_crypto_ecc_dsa ::
  "('k, 'o) crypto_env \<Rightarrow> u8 list \<Rightarrow> sid_pal_dsa_params option \<Rightarrow> ('k, 'o) crypto_state \<Rightarrow>
   (sid_error \<times> sid_pal_dsa_params option \<times> ('k, 'o) crypto_state) option" where
  "sid_pal_crypto_ecc_dsa env junk params st =
     (if \<not> is_initialized st then Some (SID_ERROR_UNINITIALIZED, params, st)
      else
        (case params of
           None \<Rightarrow> Some (SID_ERROR_NULL_POINTER, params, st)
         | Some p \<Rightarrow>
             if dsa_key p = None \<or> dsa_in p = None \<or> dsa_signature p = None
             then Some (SID_ERROR_NULL_POINTER, params, st)
             else if dsa_in_size p = 0 \<or> dsa_key_size p = 0 then Some (SID_ERROR_INVALID_ARGS, params, st)
             else
               (case dsa_alg (dsa_algo p) of
                  None \<Rightarrow> Some (SID_ERROR_NOSUPPORT, params, st)
                | Some (alg, fam, bits) \<Rightarrow>
                    (case ec_key_buffer (dsa_algo p = SID_PAL_ECDSA_SECP256R1 \<and> dsa_mode p = SID_PAL_CRYPTO_VERIFY)
                            junk (the (dsa_key p)) (dsa_key_size p) of
                       (key, key_size) \<Rightarrow>
                    (case prepare_key env key key_size bits (ECDSA_MODE_TO_USAGE (dsa_mode p)) alg
                            (ECC_FAMILY_TYPE (dsa_mode p) fam) (psa_state st) of
                       None \<Rightarrow> None
                     | Some (status, h, ks) \<Rightarrow>
                         if status \<noteq> PSA_SUCCESS then Some (get_error status, params, st\<lparr>psa_state := ks\<rparr>)
                         else
                           (case dsa_switch (env_psa_crypto env) ks h alg p of
                              None \<Rightarrow> Some (SID_ERROR_INVALID_ARGS, params, st\<lparr>psa_state := ks\<rparr>)
                            | Some (status, p1) \<Rightarrow>
                                Some (get_error status, Some p1, st\<lparr>psa_state := release_key env h ks\<rparr>)))))))"

section \<open>Key agreement\<close>

record sid_pal_ecdh_params =
  ecdh_algo :: sid_pal_ecc_algo
  ecdh_prk :: "u8 list option"
  ecdh_prk_size :: nat
  ecdh_puk :: "u8 list option"
  ecdh_puk_size :: nat
  ecdh_shared_secret :: "u8 list option"
  ecdh_shared_secret_sz :: nat

text \<open>Key type, key length in bits, and whether the public key takes the prefix.\<close>

fun ecdh_alg :: "sid_pal_ecc_algo \<Rightarrow> (psa_key_type \<times> nat \<times> bool) option" where
  "ecdh_alg SID_PAL_ECDH_SECP256R1 = Some (PSA_KEY_TYPE_ECC_KEY_PAIR_SECP_R1, 256, True)"
| "ecdh_alg SID_PAL_ECDH_CURVE25519 = Some (PSA_KEY_TYPE_ECC_KEY_PAIR_MONTGOMERY, 255, False)"
| "ecdh_alg _ = None"

definition sid_pal_crypto_ecc_ecdh ::
  "('k, 'o) crypto_env \<Rightarrow> u8 list \<Rightarrow> sid_pal_ecdh_params option \<Rightarrow> ('k, 'o) crypto_state \<Rightarrow>
   (sid_error \<times> sid_pal_ecdh_params option \<times> ('k, 'o) crypto_state) option" where
  "sid_pal_crypto_ecc_ecdh env junk params st =
     (if \<not> is_initialized st then Some (SID_ERROR_UNINITIALIZED, params, st)
      else
        (case params of
           None \<Rightarrow> Some (SID_ERROR_NULL_POINTER, params, st)
         | Some p \<Rightarrow>
             if ecdh_prk p = None \<or> ecdh_puk p = None \<or> ecdh_shared_secret p = None
             then Some (SID_ERROR_NULL_POINTER, params, st)
             else
               (case ecdh_alg (ecdh_algo p) of
                  None \<Rightarrow> Some (SID_ERROR_NOSUPPORT, params, st)
                | Some (ty, bits, prefixed) \<Rightarrow>
                    (case prepare_key env (the (ecdh_prk p)) (ecdh_prk_size p) bits PSA_KEY_USAGE_DERIVE PSA_ALG_ECDH ty
                            (psa_state st) of
                       None \<Rightarrow> None
                     | Some (status, h, ks) \<Rightarrow>
                         if status \<noteq> PSA_SUCCESS then Some (get_error status, params, st\<lparr>psa_state := ks\<rparr>)
                         else
                           (case ec_key_buffer prefixed junk (the (ecdh_puk p)) (ecdh_puk_size p) of
                              (pub_key, n) \<Rightarrow>
                           (case psa_raw_key_agreement (env_psa_crypto env) ks PSA_ALG_ECDH h (take n pub_key)
                                   (ecdh_shared_secret_sz p) of
                              (status, bytes) \<Rightarrow>
                                Some (get_error status,
                                  Some (p\<lparr>ecdh_shared_secret := map_option (put_at 0 bytes) (ecdh_shared_secret p)\<rparr>),
                                  st\<lparr>psa_state := release_key env h ks\<rparr>)))))))"

section \<open>Key pairs\<close>

record sid_pal_ecc_key_gen_params =
  gen_algo :: sid_pal_ecc_algo
  gen_prk :: "u8 list option"
  gen_prk_size :: nat
  gen_puk :: "u8 list option"
  gen_puk_size :: nat

text \<open>Key type, algorithm, key length in bits, and the offset of the public key behind its prefix.\<close>

fun key_gen_alg :: "sid_pal_ecc_algo \<Rightarrow> (psa_key_type \<times> psa_algorithm \<times> nat \<times> nat) option" where
  "key_gen_alg SID_PAL_EDDSA_ED25519 = Some (PSA_KEY_TYPE_ECC_KEY_PAIR_TWISTED_EDWARDS, PSA_ALG_PURE_EDDSA, 255, 0)"
| "key_gen_alg SID_PAL_ECDSA_SECP256R1 = Some (PSA_KEY_TYPE_ECC_KEY_PAIR_SECP_R1, PSA_ALG_ECDSA_SHA_256, 256, 1)"
| "key_gen_alg SID_PAL_ECDH_SECP256R1 = Some (PSA_KEY_TYPE_ECC_KEY_PAIR_SECP_R1, PSA_ALG_ECDSA_SHA_256, 256, 1)"
| "key_gen_alg SID_PAL_ECDH_CURVE25519 = Some (PSA_KEY_TYPE_ECC_KEY_PAIR_MONTGOMERY, PSA_ALG_ECDH, 255, 0)"
| "key_gen_alg SID_PAL_ECC_OTHER = None"

text \<open>
  The exports between generating and releasing the key. The public key is copied out of a
  local array of 65 bytes, initially \<open>junk\<close>, whether or not its export succeeded; a request
  beyond the array is the outcome \<open>None\<close>.
\<close>

definition key_gen_export ::
  "('k, 'o) crypto_env \<Rightarrow> u8 list \<Rightarrow> u32 \<Rightarrow> nat \<Rightarrow> sid_pal_ecc_key_gen_params \<Rightarrow> 'k \<Rightarrow> (int \<times> sid_pal_ecc_key_gen_params) option" where
  "key_gen_export env junk h off p ks =
     (case psa_export_key (env_psa_crypto env) ks h (gen_prk_size p) of (status, prk) \<Rightarrow>
        let p1 = p\<lparr>gen_prk := map_option (put_at 0 prk) (gen_prk p)\<rparr> in
        if status \<noteq> PSA_SUCCESS then Some (status, p1)
        else if off + gen_puk_size p > EC_MAX_KEY_LENGTH then None
        else
          (case psa_export_public_key (env_psa_keys env) ks h EC_MAX_KEY_LENGTH of (status, pub, len) \<Rightarrow>
             Some (status, p1\<lparr>gen_puk := map_option (put_at 0 (take (gen_puk_size p) (drop off (put_at 0 pub junk)))) (gen_puk p1)\<rparr>)))"

definition sid_pal_crypto_ecc_key_gen ::
  "('k, 'o) crypto_env \<Rightarrow> u8 list \<Rightarrow> sid_pal_ecc_key_gen_params option \<Rightarrow> ('k, 'o) crypto_state \<Rightarrow>
   (sid_error \<times> sid_pal_ecc_key_gen_params option \<times> ('k, 'o) crypto_state) option" where
  "sid_pal_crypto_ecc_key_gen env junk params st =
     (if \<not> is_initialized st then Some (SID_ERROR_UNINITIALIZED, params, st)
      else
        (case params of
           None \<Rightarrow> Some (SID_ERROR_NULL_POINTER, params, st)
         | Some p \<Rightarrow>
             if gen_prk p = None \<or> gen_puk p = None then Some (SID_ERROR_NULL_POINTER, params, st)
             else if gen_puk_size p = 0 then Some (SID_ERROR_INVALID_ARGS, params, st)
             else
               (case key_gen_alg (gen_algo p) of
                  None \<Rightarrow> Some (SID_ERROR_NOSUPPORT, params, st)
                | Some (ty, alg, bits, off) \<Rightarrow>
                    (case psa_generate_key (env_psa_keys env) (psa_state st)
                            \<lparr>usage_flags = PSA_KEY_USAGE_EXPORT, key_alg = alg, key_type = ty, key_bits = bits,
                             key_lifetime = PSA_KEY_LIFETIME_VOLATILE, attr_key_id = PSA_KEY_ID_NULL\<rparr> of
                       (status, h, ks) \<Rightarrow>
                         if status \<noteq> PSA_SUCCESS then Some (get_error status, params, st\<lparr>psa_state := ks\<rparr>)
                         else
                           (case key_gen_export env junk h off p ks of
                              None \<Rightarrow> None
                            | Some (status, p1) \<Rightarrow>
                                Some (get_error status, Some p1, st\<lparr>psa_state := release_key env h ks\<rparr>))))))"

end
