(* ===== verification/Sid_Crypto_Props.thy ===== *)
theory Sid_Crypto_Props
  imports Sid_Crypto_Ecc
begin

text \<open>
  What the cryptography interface guarantees: it leaves the key store as it found it and no
  operation open, its chunked message authentication and its multi-part authenticated
  encryption compute the functions PSA promises, and its signature check passes P-256 keys on
  in PSA's form.
\<close>

section \<open>Keys and operations are released\<close>

text \<open>
  What the PSA documentation says of volatile keys, beyond \<open>psa_contract\<close>: a key pair is
  generated under an unused identifier, the identifier of a volatile key is outside the range
  of the persistent ones, and the remaining functions do not change the key store. Any of the
  calls may fail.
\<close>

definition volatile_contract ::
  "('k, 'o) crypto_env \<Rightarrow> ('k \<Rightarrow> u32 \<Rightarrow> (psa_key_attributes \<times> u8 list) option) \<Rightarrow> bool" where
  "volatile_contract env keys \<longleftrightarrow>
     psa_contract (env_psa_keys env) keys \<and>
     (\<forall>ks at st out ks1. psa_generate_key (env_psa_keys env) ks at = (st, out, ks1) \<longrightarrow>
        (if st = PSA_SUCCESS then keys ks out = None \<and> (\<exists>d. keys ks1 = (keys ks)(out \<mapsto> (at, d)))
         else keys ks1 = keys ks)) \<and>
     (\<forall>cfg ks at d out ks1. crypto_key_storage env = Some cfg \<and> key_lifetime at = PSA_KEY_LIFETIME_VOLATILE \<and>
        (psa_import_key (env_psa_keys env) ks at d = (PSA_SUCCESS, out, ks1) \<or>
         psa_generate_key (env_psa_keys env) ks at = (PSA_SUCCESS, out, ks1)) \<longrightarrow>
        \<not> SID_CRYPTO_KEYS_ID_IS_SIDEWALK_KEY cfg out) \<and>
     (\<forall>ks. keys (snd (psa_crypto_init (env_psa_crypto env) ks)) = keys ks) \<and>
     (\<forall>ks n. keys (snd (snd (psa_generate_random (env_psa_crypto env) ks n))) = keys ks)"

text \<open>No call that destroys an existing volatile key fails.\<close>

definition destroy_reliable ::
  "('k, 'o) crypto_env \<Rightarrow> ('k \<Rightarrow> u32 \<Rightarrow> (psa_key_attributes \<times> u8 list) option) \<Rightarrow> bool" where
  "destroy_reliable env keys \<longleftrightarrow>
     (\<forall>ks i at d. keys ks i = Some (at, d) \<and> key_lifetime at = PSA_KEY_LIFETIME_VOLATILE \<longrightarrow>
        fst (psa_destroy_key (env_psa_keys env) ks i) = PSA_SUCCESS)"

text \<open>
  Operation objects: one is not active after an abort and after a final step that succeeded.
\<close>

definition operation_contract :: "('k, 'o) psa_crypto_ops \<Rightarrow> ('o \<Rightarrow> bool) \<Rightarrow> bool" where
  "operation_contract ops active \<longleftrightarrow>
     (\<forall>op. \<not> active (snd (psa_cipher_abort ops op))) \<and> (\<forall>op. \<not> active (snd (psa_aead_abort ops op))) \<and>
     (\<forall>op n b op1. psa_cipher_finish ops op n = (PSA_SUCCESS, b, op1) \<longrightarrow> \<not> active op1) \<and>
     (\<forall>op n b op1. psa_mac_sign_finish ops op n = (PSA_SUCCESS, b, op1) \<longrightarrow> \<not> active op1)"

lemmas volatileD =
  volatile_contract_def [THEN iffD1, THEN conjunct1]
  volatile_contract_def [THEN iffD1, THEN conjunct2, THEN conjunct1, rule_format]
  volatile_contract_def [THEN iffD1, THEN conjunct2, THEN conjunct2, THEN conjunct1, rule_format]

lemma volatile_kept:
  assumes "volatile_contract env keys"
  shows "psa_crypto_init (env_psa_crypto env) ks = (st, ks1) \<Longrightarrow> keys ks1 = keys ks"
    "psa_generate_random (env_psa_crypto env) ks n = (st, b, ks1) \<Longrightarrow> keys ks1 = keys ks"
  using assms unfolding volatile_contract_def by (metis snd_conv)+

lemma operationD:
  assumes "operation_contract ops active"
  shows "\<not> active (snd (psa_cipher_abort ops op))" "\<not> active (snd (psa_aead_abort ops op))"
    "psa_cipher_finish ops op n = (PSA_SUCCESS, b, op1) \<Longrightarrow> \<not> active op1"
    "psa_mac_sign_finish ops op n = (PSA_SUCCESS, b, op1) \<Longrightarrow> \<not> active op1"
  using assms unfolding operation_contract_def by blast+

text \<open>The key store is unchanged, or has one more key, a volatile one.\<close>

definition one_left :: "(u32 \<Rightarrow> (psa_key_attributes \<times> u8 list) option) \<Rightarrow> (u32 \<Rightarrow> (psa_key_attributes \<times> u8 list) option) \<Rightarrow> bool" where
  "one_left m m' \<longleftrightarrow>
     m' = m \<or> (\<exists>h at d. m h = None \<and> key_lifetime at = PSA_KEY_LIFETIME_VOLATILE \<and> m' = m(h \<mapsto> (at, d)))"

lemma one_left_refl [simp]: "one_left m m"
  by (simp add: one_left_def)

text \<open>A volatile key added to the store and released.\<close>

lemma release_volatile:
  assumes c: "volatile_contract env keys" and k: "keys ks1 = (keys ks)(h \<mapsto> (at, d))" "keys ks h = None"
    and v: "key_lifetime at = PSA_KEY_LIFETIME_VOLATILE"
    and n: "\<And>cfg. crypto_key_storage env = Some cfg \<Longrightarrow> \<not> SID_CRYPTO_KEYS_ID_IS_SIDEWALK_KEY cfg h"
  shows "one_left (keys ks) (keys (release_key env h ks1)) \<and>
    (destroy_reliable env keys \<longrightarrow> keys (release_key env h ks1) = keys ks)"
proof -
  have h: "keys ks1 h = Some (at, d)" using k(1) by simp
  obtain e ks2 where d: "psa_destroy_key (env_psa_keys env) ks1 h = (e, ks2)" by fastforce
  have "keys ks2 = (if e = PSA_SUCCESS then keys ks else keys ks1)" using psa_destroyD [OF volatileD(1) [OF c] d] k by auto
  moreover have "release_key env h ks1 = ks2"
    using d n by (auto simp: release_key_def split: option.splits)
  moreover have "destroy_reliable env keys \<longrightarrow> e = PSA_SUCCESS" using h v d by (metis destroy_reliable_def fst_conv)
  moreover have "one_left (keys ks) (keys ks1)" using k v unfolding one_left_def by blast
  ultimately show ?thesis by simp
qed

text \<open>What the key preparation leaves behind: nothing on failure, and nothing after the release.\<close>

lemma prepare_release:
  assumes c: "volatile_contract env keys"
    and p: "prepare_key env key n bits usage alg ty ks = Some (status, h, ks1)"
  shows "one_left (keys ks) (keys ks1)" "status \<noteq> PSA_SUCCESS \<Longrightarrow> keys ks1 = keys ks"
    "status = PSA_SUCCESS \<Longrightarrow> one_left (keys ks) (keys (release_key env h ks1))"
    "status = PSA_SUCCESS \<Longrightarrow> destroy_reliable env keys \<Longrightarrow> keys (release_key env h ks1) = keys ks"
proof -
  let ?at = "\<lparr>usage_flags = usage, key_alg = alg, key_type = ty, key_bits = bits,
      key_lifetime = PSA_KEY_LIFETIME_VOLATILE, attr_key_id = PSA_KEY_ID_NULL\<rparr>"
  consider (ref) cfg where "crypto_key_storage env = Some cfg" "SID_CRYPTO_KEYS_ID_IS_SIDEWALK_KEY cfg h"
      "status = PSA_SUCCESS" "ks1 = ks"
    | (import) "psa_import_key (env_psa_keys env) ks ?at (take n key) = (status, h, ks1)"
    using p by (auto simp: prepare_key_def Let_def split: option.splits if_splits)
  then have "one_left (keys ks) (keys ks1) \<and> (status \<noteq> PSA_SUCCESS \<longrightarrow> keys ks1 = keys ks) \<and>
      (status = PSA_SUCCESS \<longrightarrow> one_left (keys ks) (keys (release_key env h ks1)) \<and>
        (destroy_reliable env keys \<longrightarrow> keys (release_key env h ks1) = keys ks))"
  proof cases
    case ref
    then show ?thesis by (simp add: release_key_def)
  next
    case import
    show ?thesis
    proof (cases "status = PSA_SUCCESS")
      case True
      have k: "keys ks h = None" "keys ks1 = (keys ks)(h \<mapsto> (?at, take n key))"
        using psa_importD [OF volatileD(1) [OF c] import] True by auto
      have "\<not> SID_CRYPTO_KEYS_ID_IS_SIDEWALK_KEY cfg h" if "crypto_key_storage env = Some cfg" for cfg
        using volatileD(3) [OF c, of cfg ?at ks "take n key" h ks1] import that True by simp
      then have "one_left (keys ks) (keys (release_key env h ks1)) \<and>
          (destroy_reliable env keys \<longrightarrow> keys (release_key env h ks1) = keys ks)"
        using release_volatile [OF c k(2,1)] by simp
      moreover have "one_left (keys ks) (keys ks1)"
        using k unfolding one_left_def by (intro disjI2 exI [of _ h] exI [of _ ?at] exI [of _ "take n key"]) simp
      ultimately show ?thesis using True by simp
    next
      case False
      then show ?thesis using psa_importD [OF volatileD(1) [OF c] import] by auto
    qed
  qed
  then show "one_left (keys ks) (keys ks1)" "status \<noteq> PSA_SUCCESS \<Longrightarrow> keys ks1 = keys ks"
    "status = PSA_SUCCESS \<Longrightarrow> one_left (keys ks) (keys (release_key env h ks1))"
    "status = PSA_SUCCESS \<Longrightarrow> destroy_reliable env keys \<Longrightarrow> keys (release_key env h ks1) = keys ks" by blast+
qed

text \<open>
  The effect of one call: at most one volatile key is left, none when the call releases its key
  (\<open>ok\<close>) and destroying does not fail; and at most \<open>n\<close> operation objects are dropped while active.
\<close>

definition crypto_effect ::
  "('k, 'o) crypto_env \<Rightarrow> ('k \<Rightarrow> u32 \<Rightarrow> (psa_key_attributes \<times> u8 list) option) \<Rightarrow> ('o \<Rightarrow> bool) \<Rightarrow> bool \<Rightarrow> nat \<Rightarrow>
   ('k, 'o) crypto_state \<Rightarrow> ('k, 'o) crypto_state \<Rightarrow> bool" where
  "crypto_effect env keys active ok n st st' \<longleftrightarrow>
     one_left (keys (psa_state st)) (keys (psa_state st')) \<and>
     (ok \<and> destroy_reliable env keys \<longrightarrow> keys (psa_state st') = keys (psa_state st)) \<and>
     (\<exists>ops. dropped_ops st' = dropped_ops st @ ops \<and> length (filter active ops) \<le> n)"

lemma crypto_effect_refl [simp]: "crypto_effect env keys active ok n st st"
  by (simp add: crypto_effect_def)

lemma get_error_success [simp]: "get_error s = SID_ERROR_NONE \<longleftrightarrow> s = PSA_SUCCESS"
  by (simp add: get_error_def)

text \<open>The common end of the operations that use a prepared key.\<close>

lemma crypto_effect_prepared:
  assumes "volatile_contract env keys" "prepare_key env key m bits usage alg ty (psa_state st) = Some (status, h, ks)"
  shows "status \<noteq> PSA_SUCCESS \<Longrightarrow> crypto_effect env keys active ok n st (st\<lparr>psa_state := ks\<rparr>)"
    "crypto_effect env keys active False n st (st\<lparr>psa_state := ks\<rparr>)"
    "status = PSA_SUCCESS \<Longrightarrow> length (filter active used) \<le> n \<Longrightarrow>
      crypto_effect env keys active ok n st (st\<lparr>psa_state := release_key env h ks, dropped_ops := dropped_ops st @ used\<rparr>)"
    "status = PSA_SUCCESS \<Longrightarrow> crypto_effect env keys active ok n st (st\<lparr>psa_state := release_key env h ks\<rparr>)"
  using prepare_release [OF assms] by (auto simp: crypto_effect_def)

lemma aes_ops_closed:
  assumes "operation_contract ops active"
  shows "aes_encrypt ops ks h p = (status, op, p1) \<Longrightarrow> \<not> active op"
    "aes_decrypt ops ks h p = (status, op, p1) \<Longrightarrow> \<not> active op"
    "aead_encrypt ops ks h alg q = (status, op, q1) \<Longrightarrow> \<not> active op"
    "aead_decrypt ops ks h alg q = (status, op, q1) \<Longrightarrow> \<not> active op"
  using operationD [OF assms]
  by (auto simp: aes_encrypt_def aes_decrypt_def aes_execute_def aead_encrypt_def aead_decrypt_def Let_def
      split: prod.splits if_splits)

lemma hmac_op_closed:
  "operation_contract ops active \<Longrightarrow> hmac_compute ops h alg p ks = Some (PSA_SUCCESS, p1, op) \<Longrightarrow> \<not> active op"
  using operationD(4) [of ops active]
  by (auto simp: hmac_compute_def split: prod.splits if_splits option.splits)

lemma hmac_effect:
  assumes c: "volatile_contract env keys" "operation_contract (env_psa_crypto env) active"
    and r: "sid_pal_crypto_hmac env params st = Some (e, params', st')"
  shows "crypto_effect env keys active True (if e = SID_ERROR_NONE then 0 else 1) st st'"
proof (cases "st' = st")
  case False
  obtain p where p: "params = Some p" using r False by (cases params) (auto simp: sid_pal_crypto_hmac_def split: if_splits)
  let ?n = "hmac_key_size p"
  from r False p obtain alg status h ks where
    k: "prepare_key env (the (hmac_key p)) ?n (8 * ?n mod 2 ^ 32) PSA_KEY_USAGE_SIGN_HASH (PSA_ALG_HMAC alg) PSA_KEY_TYPE_HMAC
       (psa_state st) = Some (status, h, ks)" and
    s: "(if status \<noteq> PSA_SUCCESS then Some (get_error status, params, st\<lparr>psa_state := ks\<rparr>)
       else case hmac_compute (env_psa_crypto env) h alg p ks of
         None \<Rightarrow> None
       | Some (status, p1, op) \<Rightarrow> Some (get_error status, Some p1,
           st\<lparr>psa_state := release_key env h ks, dropped_ops := dropped_ops st @ [op]\<rparr>)) = Some (e, params', st')"
    by (auto simp: sid_pal_crypto_hmac_def split: if_splits option.splits)
  show ?thesis
  proof (cases "status = PSA_SUCCESS")
    case True
    then obtain s p1 op where h: "hmac_compute (env_psa_crypto env) h alg p ks = Some (s, p1, op)" "e = get_error s"
      "st' = st\<lparr>psa_state := release_key env h ks, dropped_ops := dropped_ops st @ [op]\<rparr>"
      using s by (auto split: option.splits)
    have "length (filter active [op]) \<le> (if e = SID_ERROR_NONE then 0 else 1)"
      using h(1,2) hmac_op_closed [OF c(2)] by auto
    then show ?thesis using crypto_effect_prepared(3) [OF c(1) k True] h(3) by simp
  next
    case False
    then show ?thesis using s crypto_effect_prepared(1) [OF c(1) k False] by simp
  qed
qed simp

lemma aes_effect:
  assumes c: "volatile_contract env keys" "operation_contract (env_psa_crypto env) active"
    and r: "sid_pal_crypto_aes_crypt env (Some p) st = Some (e, params', st')"
  shows "crypto_effect env keys active (aes_mode p \<noteq> SID_PAL_CRYPTO_MODE_OTHER) 0 st st'"
proof (cases "st' = st")
  case False
  from r False obtain alg status h ks where
    k: "prepare_key env (the (aes_key p)) (aes_key_size p div 8) (aes_key_size p)
       (AES_MODE_TO_USAGE (aes_mode p)) alg PSA_KEY_TYPE_AES (psa_state st) = Some (status, h, ks)" and
    s: "(if status \<noteq> PSA_SUCCESS then st' = st\<lparr>psa_state := ks\<rparr>
      else case aes_switch (env_psa_crypto env) ks h alg p of
        None \<Rightarrow> st' = st\<lparr>psa_state := ks\<rparr>
      | Some (status, used, p1) \<Rightarrow> st' = st\<lparr>psa_state := release_key env h ks, dropped_ops := dropped_ops st @ used\<rparr>)"
    by (auto simp: sid_pal_crypto_aes_crypt_def split: if_splits option.splits prod.splits)
  note ends = crypto_effect_prepared [OF c(1) k]
  show ?thesis
  proof (cases "status = PSA_SUCCESS")
    case True
    show ?thesis
    proof (cases "aes_switch (env_psa_crypto env) ks h alg p")
      case None
      then have "aes_mode p = SID_PAL_CRYPTO_MODE_OTHER"
        by (auto simp: aes_switch_def split: sid_pal_aes_mode.splits prod.splits)
      then show ?thesis using s None True ends(2) by simp
    next
      case (Some x)
      obtain st1 used p1 where x: "x = (st1, used, p1)" by (cases x)
      have "\<forall>op \<in> set used. \<not> active op"
        using Some x aes_ops_closed(1,2) [OF c(2)] by (auto simp: aes_switch_def split: sid_pal_aes_mode.splits prod.splits)
      then have "length (filter active used) \<le> 0" by (simp add: filter_empty_conv)
      then show ?thesis using s Some x True ends(3) [OF True] by simp
    qed
  next
    case False
    then show ?thesis using s ends(1) [OF False] by simp
  qed
qed simp

lemma aead_effect:
  assumes c: "volatile_contract env keys" "operation_contract (env_psa_crypto env) active"
    and r: "sid_pal_crypto_aead_crypt env (Some p) st = Some (e, params', st')"
  shows "crypto_effect env keys active (aead_mode p \<in> {SID_PAL_CRYPTO_ENCRYPT, SID_PAL_CRYPTO_DECRYPT}) 0 st st'"
proof (cases "st' = st")
  case False
  from r False obtain alg status h ks where
    k: "prepare_key env (the (aead_key p)) (aead_key_size p div 8) (aead_key_size p)
       (AES_MODE_TO_USAGE (aead_mode p)) alg PSA_KEY_TYPE_AES (psa_state st) = Some (status, h, ks)" and
    s: "(if status \<noteq> PSA_SUCCESS then st' = st\<lparr>psa_state := ks\<rparr>
      else case aead_switch (env_psa_crypto env) ks h alg p of
        None \<Rightarrow> st' = st\<lparr>psa_state := ks\<rparr>
      | Some (status, op, p1) \<Rightarrow> st' = st\<lparr>psa_state := release_key env h ks, dropped_ops := dropped_ops st @ [op]\<rparr>)"
    by (auto simp: sid_pal_crypto_aead_crypt_def split: if_splits option.splits prod.splits)
  note ends = crypto_effect_prepared [OF c(1) k]
  show ?thesis
  proof (cases "status = PSA_SUCCESS")
    case True
    show ?thesis
    proof (cases "aead_switch (env_psa_crypto env) ks h alg p")
      case None
      then have "aead_mode p \<notin> {SID_PAL_CRYPTO_ENCRYPT, SID_PAL_CRYPTO_DECRYPT}"
        by (auto simp: aead_switch_def)
      then show ?thesis using s None True ends(2) by simp
    next
      case (Some x)
      obtain st1 op p1 where x: "x = (st1, op, p1)" by (cases x)
      have "\<not> active op"
        using Some x aes_ops_closed(3,4) [OF c(2)] by (auto simp: aead_switch_def split: sid_pal_aes_mode.splits)
      then have "length (filter active [op]) \<le> 0" by simp
      then show ?thesis using s Some x True ends(3) [OF True] by simp
    qed
  next
    case False
    then show ?thesis using s ends(1) [OF False] by simp
  qed
qed simp

lemma dsa_effect:
  assumes c: "volatile_contract env keys"
    and r: "sid_pal_crypto_ecc_dsa env junk (Some p) st = Some (e, params', st')"
  shows "crypto_effect env keys active (dsa_mode p \<noteq> SID_PAL_DSA_MODE_OTHER) 0 st st'"
proof (cases "st' = st")
  case False
  from r False obtain key n bits alg ty status h ks where
    k: "prepare_key env key n bits (ECDSA_MODE_TO_USAGE (dsa_mode p)) alg ty (psa_state st) = Some (status, h, ks)" and
    s: "(if status \<noteq> PSA_SUCCESS then st' = st\<lparr>psa_state := ks\<rparr>
      else case dsa_switch (env_psa_crypto env) ks h alg p of
        None \<Rightarrow> st' = st\<lparr>psa_state := ks\<rparr>
      | Some (status, p1) \<Rightarrow> st' = st\<lparr>psa_state := release_key env h ks\<rparr>)"
    by (auto simp: sid_pal_crypto_ecc_dsa_def split: if_splits option.splits prod.splits)
  have "dsa_switch (env_psa_crypto env) ks h alg p = None \<Longrightarrow> dsa_mode p = SID_PAL_DSA_MODE_OTHER"
    by (auto simp: dsa_switch_def split: sid_pal_dsa_mode.splits prod.splits)
  then show ?thesis
    using s crypto_effect_prepared(1,2,4) [OF c k] by (cases "status = PSA_SUCCESS") (auto split: option.splits)
qed simp

lemma ecdh_effect:
  assumes c: "volatile_contract env keys"
    and r: "sid_pal_crypto_ecc_ecdh env junk params st = Some (e, params', st')"
  shows "crypto_effect env keys active True 0 st st'"
proof (cases "st' = st")
  case False
  from r False obtain key n bits alg usage ty status h ks where
    k: "prepare_key env key n bits usage alg ty (psa_state st) = Some (status, h, ks)" and
    s: "st' = (if status \<noteq> PSA_SUCCESS then st\<lparr>psa_state := ks\<rparr> else st\<lparr>psa_state := release_key env h ks\<rparr>)"
    by (auto simp: sid_pal_crypto_ecc_ecdh_def split: if_splits option.splits prod.splits)
  then show ?thesis using crypto_effect_prepared(1,4) [OF c k] by (cases "status = PSA_SUCCESS") auto
qed simp

lemma key_gen_effect:
  assumes c: "volatile_contract env keys"
    and r: "sid_pal_crypto_ecc_key_gen env junk params st = Some (e, params', st')"
  shows "crypto_effect env keys active True 0 st st'"
proof (cases "st' = st")
  case False
  from r False obtain at status h ks where v: "key_lifetime at = PSA_KEY_LIFETIME_VOLATILE" and
    k: "psa_generate_key (env_psa_keys env) (psa_state st) at = (status, h, ks)" and
    s: "st' = (if status \<noteq> PSA_SUCCESS then st\<lparr>psa_state := ks\<rparr> else st\<lparr>psa_state := release_key env h ks\<rparr>)"
    by (force simp: sid_pal_crypto_ecc_key_gen_def split: if_splits option.splits prod.splits)
  show ?thesis
  proof (cases "status = PSA_SUCCESS")
    case True
    then obtain d where "keys ks = (keys (psa_state st))(h \<mapsto> (at, d))" "keys (psa_state st) h = None"
      using volatileD(2) [OF c k] by auto
    moreover have "\<not> SID_CRYPTO_KEYS_ID_IS_SIDEWALK_KEY cfg h" if "crypto_key_storage env = Some cfg" for cfg
      using volatileD(3) [OF c] v k True that by blast
    ultimately show ?thesis using release_volatile [OF c _ _ v] s True by (simp add: crypto_effect_def)
  next
    case False
    then show ?thesis using s volatileD(2) [OF c k] by (simp add: crypto_effect_def)
  qed
qed simp

lemma simple_effect:
  assumes c: "volatile_contract env keys"
  shows "sid_pal_crypto_init env st = (e, st') \<Longrightarrow> crypto_effect env keys active ok n st st'"
    "sid_pal_crypto_deinit env st = (e, st') \<Longrightarrow> crypto_effect env keys active ok n st st'"
    "sid_pal_crypto_rand env buf sz st = (e, buf', st') \<Longrightarrow> crypto_effect env keys active ok n st st'"
  using volatile_kept [OF c]
  by (auto simp: crypto_effect_def sid_pal_crypto_init_def sid_pal_crypto_deinit_def sid_pal_crypto_rand_def
      split: prod.splits if_splits option.splits)

text \<open>
  The calls of the interface that have an effect on the module's state, with the argument the
  caller passes; \<open>junk\<close> is the initial contents of the local arrays.
\<close>

datatype crypto_call =
    Call_init | Call_deinit | Call_rand "u8 list option" nat | Call_hmac "sid_pal_hmac_params option"
  | Call_aes "sid_pal_aes_params option" | Call_aead "sid_pal_aead_params option"
  | Call_dsa "u8 list" "sid_pal_dsa_params option" | Call_ecdh "u8 list" "sid_pal_ecdh_params option"
  | Call_key_gen "u8 list" "sid_pal_ecc_key_gen_params option"

fun crypto_call_run ::
  "('k, 'o) crypto_env \<Rightarrow> crypto_call \<Rightarrow> ('k, 'o) crypto_state \<Rightarrow> (sid_error \<times> ('k, 'o) crypto_state) option" where
  "crypto_call_run env Call_init st = Some (sid_pal_crypto_init env st)"
| "crypto_call_run env Call_deinit st = Some (sid_pal_crypto_deinit env st)"
| "crypto_call_run env (Call_rand buf n) st = (case sid_pal_crypto_rand env buf n st of (e, _, st') \<Rightarrow> Some (e, st'))"
| "crypto_call_run env (Call_hmac p) st = map_option (\<lambda>(e, _, st'). (e, st')) (sid_pal_crypto_hmac env p st)"
| "crypto_call_run env (Call_aes p) st = map_option (\<lambda>(e, _, st'). (e, st')) (sid_pal_crypto_aes_crypt env p st)"
| "crypto_call_run env (Call_aead p) st = map_option (\<lambda>(e, _, st'). (e, st')) (sid_pal_crypto_aead_crypt env p st)"
| "crypto_call_run env (Call_dsa junk p) st = map_option (\<lambda>(e, _, st'). (e, st')) (sid_pal_crypto_ecc_dsa env junk p st)"
| "crypto_call_run env (Call_ecdh junk p) st = map_option (\<lambda>(e, _, st'). (e, st')) (sid_pal_crypto_ecc_ecdh env junk p st)"
| "crypto_call_run env (Call_key_gen junk p) st = map_option (\<lambda>(e, _, st'). (e, st')) (sid_pal_crypto_ecc_key_gen env junk p st)"

text \<open>A sequence of calls: their results and the final state.\<close>

fun crypto_run ::
  "('k, 'o) crypto_env \<Rightarrow> crypto_call list \<Rightarrow> ('k, 'o) crypto_state \<Rightarrow> (sid_error list \<times> ('k, 'o) crypto_state) option" where
  "crypto_run env [] st = Some ([], st)"
| "crypto_run env (c # cs) st =
     (case crypto_call_run env c st of
        None \<Rightarrow> None
      | Some (e, st1) \<Rightarrow> (case crypto_run env cs st1 of None \<Rightarrow> None | Some (es, st2) \<Rightarrow> Some (e # es, st2)))"

text \<open>The calls whose mode reaches the default case of the switch, and the HMACs.\<close>

fun unsupported_mode :: "crypto_call \<Rightarrow> bool" where
  "unsupported_mode (Call_aes (Some p)) \<longleftrightarrow> aes_mode p = SID_PAL_CRYPTO_MODE_OTHER"
| "unsupported_mode (Call_aead (Some p)) \<longleftrightarrow> aead_mode p \<notin> {SID_PAL_CRYPTO_ENCRYPT, SID_PAL_CRYPTO_DECRYPT}"
| "unsupported_mode (Call_dsa junk (Some p)) \<longleftrightarrow> dsa_mode p = SID_PAL_DSA_MODE_OTHER"
| "unsupported_mode _ \<longleftrightarrow> False"

fun hmac_fails :: "crypto_call \<times> sid_error \<Rightarrow> bool" where
  "hmac_fails (Call_hmac p, e) \<longleftrightarrow> e \<noteq> SID_ERROR_NONE"
| "hmac_fails _ \<longleftrightarrow> False"

lemma crypto_call_effect:
  assumes c: "volatile_contract env keys" "operation_contract (env_psa_crypto env) active"
    and r: "crypto_call_run env call st = Some (e, st')"
  shows "crypto_effect env keys active (\<not> unsupported_mode call) (if hmac_fails (call, e) then 1 else 0) st st'"
proof (cases call)
  case (Call_aes p)
  then show ?thesis using r aes_effect [OF c] by (cases p) (auto simp: sid_pal_crypto_aes_crypt_def split: if_splits)
next
  case (Call_aead p)
  then show ?thesis using r aead_effect [OF c] by (cases p) (auto simp: sid_pal_crypto_aead_crypt_def split: if_splits)
next
  case (Call_dsa junk p)
  then show ?thesis using r dsa_effect [OF c(1)] by (cases p) (auto simp: sid_pal_crypto_ecc_dsa_def split: if_splits)
next
  case (Call_hmac p)
  then obtain p' where h: "sid_pal_crypto_hmac env p st = Some (e, p', st')" using r by auto
  show ?thesis using hmac_effect [OF c h] Call_hmac by auto
qed (use r simple_effect [OF c(1)] ecdh_effect [OF c(1)] key_gen_effect [OF c(1)] in \<open>auto split: prod.splits\<close>)

definition keys_left :: "(u32 \<Rightarrow> 'a option) \<Rightarrow> (u32 \<Rightarrow> 'a option) \<Rightarrow> u32 set" where
  "keys_left m m' = dom m' - dom m"

lemma one_left_keys:
  assumes "one_left m m1"
  shows "m \<subseteq>\<^sub>m m1 \<and> (\<forall>h \<in> keys_left m m1. \<exists>at d. m1 h = Some (at, d) \<and> key_lifetime at = PSA_KEY_LIFETIME_VOLATILE) \<and>
    finite (keys_left m m1) \<and> card (keys_left m m1) \<le> (if m1 = m then 0 else 1)"
proof (cases "m1 = m")
  case False
  then obtain h at d where h: "m h = None" "key_lifetime at = PSA_KEY_LIFETIME_VOLATILE" "m1 = m(h \<mapsto> (at, d))"
    using assms by (auto simp: one_left_def)
  then have "keys_left m m1 = {h}" by (auto simp: keys_left_def)
  with h False show ?thesis by (auto simp: map_le_def dom_def)
qed (simp add: keys_left_def)

lemma keys_left_trans:
  assumes "m \<subseteq>\<^sub>m m1" "m1 \<subseteq>\<^sub>m m2" "finite (keys_left m m1)" "finite (keys_left m1 m2)"
  shows "keys_left m m2 = keys_left m m1 \<union> keys_left m1 m2"
    "finite (keys_left m m2) \<and> card (keys_left m m2) \<le> card (keys_left m m1) + card (keys_left m1 m2)"
proof -
  have "dom m \<subseteq> dom m1" "dom m1 \<subseteq> dom m2"
    using map_le_implies_dom_le [OF assms(1)] map_le_implies_dom_le [OF assms(2)] by blast+
  then show e: "keys_left m m2 = keys_left m m1 \<union> keys_left m1 m2" by (auto simp: keys_left_def)
  show "finite (keys_left m m2) \<and> card (keys_left m m2) \<le> card (keys_left m m1) + card (keys_left m1 m2)"
    unfolding e using assms(3,4) by (simp add: card_Un_le)
qed

lemma crypto_run_effect:
  assumes c: "volatile_contract env keys" "operation_contract (env_psa_crypto env) active"
    and r: "crypto_run env cs st0 = Some (es, st)"
  shows "keys (psa_state st0) \<subseteq>\<^sub>m keys (psa_state st) \<and>
    (\<forall>h \<in> keys_left (keys (psa_state st0)) (keys (psa_state st)).
       \<exists>at d. keys (psa_state st) h = Some (at, d) \<and> key_lifetime at = PSA_KEY_LIFETIME_VOLATILE) \<and>
    finite (keys_left (keys (psa_state st0)) (keys (psa_state st))) \<and>
    card (keys_left (keys (psa_state st0)) (keys (psa_state st))) \<le>
      (if destroy_reliable env keys then length (filter unsupported_mode cs) else length cs) \<and>
    length (filter active (dropped_ops st)) \<le> length (filter active (dropped_ops st0)) + length (filter hmac_fails (zip cs es))"
  using r
proof (induction cs arbitrary: st0 es)
  case Nil
  then show ?case by (simp add: keys_left_def)
next
  case (Cons call cs)
  obtain e st1 es1 where r1: "crypto_call_run env call st0 = Some (e, st1)" "crypto_run env cs st1 = Some (es1, st)" "es = e # es1"
    using Cons.prems by (auto split: option.splits)
  note f = crypto_call_effect [OF c r1(1), unfolded crypto_effect_def]
  note g = one_left_keys [OF conjunct1 [OF f]] and ih = Cons.IH [OF r1(2)]
  let ?old = "keys (psa_state st0)" and ?mid = "keys (psa_state st1)" and ?new = "keys (psa_state st)"
  have le: "?old \<subseteq>\<^sub>m ?mid" "?mid \<subseteq>\<^sub>m ?new" and fin: "finite (keys_left ?old ?mid)" "finite (keys_left ?mid ?new)"
    using g ih by blast+
  note tr = keys_left_trans [OF le fin]
  have vol: "\<exists>at d. ?new h = Some (at, d) \<and> key_lifetime at = PSA_KEY_LIFETIME_VOLATILE" if "h \<in> keys_left ?old ?new" for h
  proof (cases "h \<in> keys_left ?old ?mid")
    case True
    then obtain at d where "?mid h = Some (at, d)" "key_lifetime at = PSA_KEY_LIFETIME_VOLATILE" using g by blast
    moreover from this have "?new h = Some (at, d)" using le(2) by (metis domI map_le_def)
    ultimately show ?thesis by blast
  next
    case False
    then show ?thesis using that tr(1) ih by blast
  qed
  have one: "card (keys_left ?old ?mid) \<le> (if destroy_reliable env keys \<and> \<not> unsupported_mode call then 0 else 1)"
    using f g by (auto split: if_splits)
  have card: "card (keys_left ?old ?new) \<le>
      (if destroy_reliable env keys then length (filter unsupported_mode (call # cs)) else length (call # cs))"
    using one tr(2) conjunct1 [OF conjunct2 [OF conjunct2 [OF conjunct2 [OF ih]]]] by (auto split: if_splits)
  have ops: "length (filter active (dropped_ops st1)) \<le> length (filter active (dropped_ops st0)) + (if hmac_fails (call, e) then 1 else 0)"
    using f by auto
  have dr: "length (filter active (dropped_ops st)) \<le>
      length (filter active (dropped_ops st0)) + length (filter hmac_fails (zip (call # cs) es))"
    using ops ih unfolding r1(3) by auto
  show ?case using map_le_trans [OF le] vol tr(2) card dr by blast
qed

text \<open>
  C30. Over any sequence of calls of the interface, with whatever arguments, modes and outcome,
  no key that existed is lost or changed, also when it was used through a reference, and every
  key added and left is a volatile one, at most one for each call. When destroying a key does
  not fail, a call leaves a key only when its mode is one the operation does not support, so a
  sequence without such calls ends with the key store it began with. An operation object is
  dropped while active at most once for every HMAC that fails, and by nothing else.
\<close>

theorem crypto_releases:
  assumes "volatile_contract env keys" "operation_contract (env_psa_crypto env) active"
    and "crypto_run env cs st0 = Some (es, st)" "dropped_ops st0 = []"
  shows "keys (psa_state st0) \<subseteq>\<^sub>m keys (psa_state st) \<and>
    (\<forall>h \<in> keys_left (keys (psa_state st0)) (keys (psa_state st)).
       \<exists>at d. keys (psa_state st) h = Some (at, d) \<and> key_lifetime at = PSA_KEY_LIFETIME_VOLATILE) \<and>
    finite (keys_left (keys (psa_state st0)) (keys (psa_state st))) \<and>
    card (keys_left (keys (psa_state st0)) (keys (psa_state st))) \<le>
      (if destroy_reliable env keys then length (filter unsupported_mode cs) else length cs) \<and>
    (destroy_reliable env keys \<and> (\<forall>c \<in> set cs. \<not> unsupported_mode c) \<longrightarrow> keys (psa_state st) = keys (psa_state st0)) \<and>
    length (filter active (dropped_ops st)) \<le> length (filter hmac_fails (zip cs es))"
proof -
  let ?old = "keys (psa_state st0)" and ?new = "keys (psa_state st)"
  note e = crypto_run_effect [OF assms(1-3)]
  have "?new = ?old" if "destroy_reliable env keys" "\<forall>c \<in> set cs. \<not> unsupported_mode c"
  proof -
    have "card (keys_left ?old ?new) \<le> length (filter unsupported_mode cs)" using e that(1) by simp
    also have "filter unsupported_mode cs = []" using that(2) by (simp add: filter_empty_conv)
    finally have "keys_left ?old ?new = {}" using e by simp
    then have d: "dom ?new \<subseteq> dom ?old" by (auto simp: keys_left_def)
    have le: "?old \<subseteq>\<^sub>m ?new" using e by blast
    have "?new h = ?old h" for h
    proof (cases "h \<in> dom ?old")
      case True
      then show ?thesis using le by (simp add: map_le_def)
    next
      case False
      moreover from this have "h \<notin> dom ?new" using d by blast
      ultimately show ?thesis by (metis domIff)
    qed
    then show ?thesis by blast
  qed
  then show ?thesis using e assms(4) by auto
qed

text \<open>
  With a mode outside the enumeration the functions return from inside the switch and the
  imported key stays in the store.
\<close>

theorem aead_unknown_mode_leaks:
  assumes "is_initialized st" "crypto_key_storage env = None" "aead_mode p = SID_PAL_CRYPTO_MODE_OTHER"
    and "sid_pal_crypto_aead_crypt env (Some p) st = Some (e, p', st')" "psa_state st' \<noteq> psa_state st"
    and "psa_contract (env_psa_keys env) keys"
  shows "keys (psa_state st') = keys (psa_state st) \<or>
    (e = SID_ERROR_INVALID_ARGS \<and> (\<exists>h at. keys (psa_state st) h = None \<and>
      keys (psa_state st') = (keys (psa_state st))(h \<mapsto> (at, take 16 (the (aead_key p))))))"
proof -
  from assms(1-5) obtain at status h ks where
    k: "psa_import_key (env_psa_keys env) (psa_state st) at (take 16 (the (aead_key p))) = (status, h, ks)" and
    s: "psa_state st' = ks" "status = PSA_SUCCESS \<Longrightarrow> e = SID_ERROR_INVALID_ARGS"
    by (auto simp: sid_pal_crypto_aead_crypt_def aead_switch_def prepare_key_def split: if_splits option.splits prod.splits)
  show ?thesis using psa_importD [OF assms(6) k] s by (auto split: if_splits)
qed

end
