(* ===== verification/Sid_Crypto_Spec.thy ===== *)
theory Sid_Crypto_Spec
  imports Sid_Crypto_Props
begin

text \<open>
  The functions the interface computes: message authentication in chunks, and authenticated
  encryption by the multi-part calls, against what PSA promises of its functions.
\<close>

section \<open>The key material\<close>

text \<open>The bytes of the key a buffer stands for: those of the key it refers to, or its own.\<close>

definition key_bytes ::
  "('k, 'o) crypto_env \<Rightarrow> ('k \<Rightarrow> u32 \<Rightarrow> (psa_key_attributes \<times> u8 list) option) \<Rightarrow> 'k \<Rightarrow> u8 list \<Rightarrow> nat \<Rightarrow> u8 list" where
  "key_bytes env keys ks key n =
     (case crypto_key_storage env of
        None \<Rightarrow> take n key
      | Some cfg \<Rightarrow>
          if is_key_reference cfg (take n key)
          then (case keys ks (u32_of_le (take 4 key)) of Some (at, d) \<Rightarrow> d | None \<Rightarrow> [])
          else take n key)"

lemma key_reference_prefix:
  "4 \<le> n \<Longrightarrow> is_key_reference cfg (take n key) \<longleftrightarrow>
     SID_CRYPTO_KEYS_ID_IS_SIDEWALK_KEY cfg (u32_of_le (take 4 key)) \<and> (\<forall>b \<in> set (drop 4 (take n key)). b = 0)"
  by (simp add: is_key_reference_def min_absorb1)

lemma buffer_get_prefix:
  "4 \<le> n \<Longrightarrow> n \<le> length key \<Longrightarrow>
   sid_crypto_keys_buffer_get cfg (Some key) n =
     Some (if is_key_reference cfg (take n key) then (0, u32_of_le (take 4 key)) else (- ENOENT, PSA_KEY_ID_NULL))"
  unfolding key_reference_prefix by (auto simp: sid_crypto_keys_buffer_get_def)

lemma prepare_key_bytes:
  assumes c: "volatile_contract env keys" and n: "4 \<le> n" "n \<le> length key"
  shows "\<exists>status h ks1. prepare_key env key n bits usage alg ty ks = Some (status, h, ks1) \<and>
    (\<forall>at d. status = PSA_SUCCESS \<and> keys ks1 h = Some (at, d) \<longrightarrow> d = key_bytes env keys ks key n)"
proof -
  obtain status h ks1 where i: "psa_import_key (env_psa_keys env) ks \<lparr>usage_flags = usage, key_alg = alg, key_type = ty,
      key_bits = bits, key_lifetime = PSA_KEY_LIFETIME_VOLATILE, attr_key_id = PSA_KEY_ID_NULL\<rparr> (take n key) = (status, h, ks1)"
    by (metis prod_cases3)
  have m: "status = PSA_SUCCESS \<Longrightarrow> keys ks1 h = Some (at, d) \<Longrightarrow> d = take n key" for at d
    using psa_importD [OF volatileD(1) [OF c] i] by (auto split: if_splits)
  show ?thesis
  proof (cases "\<exists>cfg. crypto_key_storage env = Some cfg \<and> is_key_reference cfg (take n key)")
    case True
    then obtain cfg where r: "crypto_key_storage env = Some cfg" "is_key_reference cfg (take n key)" by blast
    then show ?thesis
      using n key_reference_prefix [OF n(1)] by (auto simp: prepare_key_def buffer_get_prefix key_bytes_def Let_def)
  next
    case False
    then show ?thesis
      using n i m by (auto simp: prepare_key_def buffer_get_prefix key_bytes_def Let_def split: option.splits)
  qed
qed

section \<open>Message authentication\<close>

text \<open>
  The MAC functions of PSA: an operation that was set up holds an algorithm, the material of
  its key and the data given to it so far; finishing gives the code of all the data. The view
  of an operation is these three.
\<close>

definition mac_contract ::
  "('k, 'o) psa_crypto_ops \<Rightarrow> ('k \<Rightarrow> u32 \<Rightarrow> (psa_key_attributes \<times> u8 list) option) \<Rightarrow>
   ('o \<Rightarrow> psa_algorithm \<times> u8 list \<times> u8 list) \<Rightarrow> (psa_algorithm \<Rightarrow> u8 list \<Rightarrow> u8 list \<Rightarrow> u8 list) \<Rightarrow> bool" where
  "mac_contract ops keys view mac \<longleftrightarrow>
     (\<forall>ks op h alg op1. psa_mac_sign_setup ops ks op h alg = (PSA_SUCCESS, op1) \<longrightarrow>
        (\<exists>at d. keys ks h = Some (at, d) \<and> view op1 = (alg, d, []))) \<and>
     (\<forall>op d op1 alg key m. psa_mac_update ops op d = (PSA_SUCCESS, op1) \<and> view op = (alg, key, m) \<longrightarrow>
        view op1 = (alg, key, m @ d)) \<and>
     (\<forall>op n b op1 alg key m. psa_mac_sign_finish ops op n = (PSA_SUCCESS, b, op1) \<and> view op = (alg, key, m) \<longrightarrow>
        b = mac alg key m \<and> length b \<le> n)"

lemma hmac_loop:
  assumes c: "mac_contract ops keys view mac" and n: "0 < s_left" "0 < chunk" "offset + s_left \<le> length data"
    and v: "view op = (alg, key, m)"
  shows "\<exists>status op1. hmac_update_loop ops op data offset chunk s_left = Some (status, op1) \<and>
    (status = PSA_SUCCESS \<longrightarrow> view op1 = (alg, key, m @ take s_left (drop offset data)))"
  using n v
proof (induction s_left arbitrary: op offset chunk m rule: less_induct)
  case (less s_left)
  let ?c = "min s_left chunk"
  obtain status op1 where u: "psa_mac_update ops op (take ?c (drop offset data)) = (status, op1)" by fastforce
  show ?case
  proof (cases "status = PSA_SUCCESS \<and> s_left - ?c \<noteq> 0")
    case True
    have v1: "view op1 = (alg, key, m @ take ?c (drop offset data))"
      using c u True less.prems(4) unfolding mac_contract_def by blast
    have "s_left - ?c < s_left" "0 < s_left - ?c" "0 < ?c" "offset + ?c + (s_left - ?c) \<le> length data"
      using less.prems True by auto
    from less.IH [OF this v1] obtain status2 op2 where
      l: "hmac_update_loop ops op1 data (offset + ?c) ?c (s_left - ?c) = Some (status2, op2)" and
      w: "status2 = PSA_SUCCESS \<longrightarrow>
        view op2 = (alg, key, (m @ take ?c (drop offset data)) @ take (s_left - ?c) (drop (offset + ?c) data))" by blast
    have "take ?c (drop offset data) @ take (s_left - ?c) (drop (offset + ?c) data) = take s_left (drop offset data)"
      using less.prems True by (metis add.commute append_assoc drop_drop le_add_diff_inverse min.cobounded1 take_add)
    then show ?thesis
      using l w u True by (subst hmac_update_loop.simps) (simp add: Let_def)
  next
    case False
    then have "status = PSA_SUCCESS \<Longrightarrow> ?c = s_left" by simp
    then have "status = PSA_SUCCESS \<longrightarrow> view op1 = (alg, key, m @ take s_left (drop offset data))"
      using c u less.prems(4) unfolding mac_contract_def by metis
    then show ?thesis
      using u False by (subst hmac_update_loop.simps) (auto simp: Let_def)
  qed
qed

text \<open>
  C31. HMAC feeds the data to PSA in chunks of 32 bytes. The call returns for any data length,
  and on success the digest is the code of the whole data under the key the buffer stands for:
  its own bytes, or those of the persistent key it refers to.
\<close>

theorem hmac_is_mac:
  assumes c: "volatile_contract env keys" "mac_contract (env_psa_crypto env) keys view mac"
    and p: "is_initialized st" "hmac_key p = Some key" "hmac_data p = Some d" "hmac_digest p = Some dig"
      "4 \<le> hmac_key_size p" "hmac_key_size p \<le> length key" "0 < hmac_data_size p" "hmac_data_size p \<le> length d"
      "0 < hmac_digest_size p" "hash_alg (hmac_algo p) = Some alg"
  shows "\<exists>e p' st'. sid_pal_crypto_hmac env (Some p) st = Some (e, Some p', st') \<and>
    (e = SID_ERROR_NONE \<longrightarrow> hmac_digest p' =
      Some (put_at 0 (mac (PSA_ALG_HMAC alg) (key_bytes env keys (psa_state st) key (hmac_key_size p)) (take (hmac_data_size p) d)) dig))"
proof -
  let ?ops = "env_psa_crypto env" and ?kb = "key_bytes env keys (psa_state st) key (hmac_key_size p)"
  obtain status h ks where k: "prepare_key env key (hmac_key_size p) (8 * hmac_key_size p mod 2 ^ 32)
      PSA_KEY_USAGE_SIGN_HASH (PSA_ALG_HMAC alg) PSA_KEY_TYPE_HMAC (psa_state st) = Some (status, h, ks)"
    and kb: "\<And>at d'. status = PSA_SUCCESS \<Longrightarrow> keys ks h = Some (at, d') \<Longrightarrow> d' = ?kb"
    using prepare_key_bytes [OF c(1) p(5,6)] by blast
  have call: "sid_pal_crypto_hmac env (Some p) st =
      (if status \<noteq> PSA_SUCCESS then Some (get_error status, Some p, st\<lparr>psa_state := ks\<rparr>)
       else (case hmac_compute ?ops h alg p ks of None \<Rightarrow> None
             | Some (status, p1, op) \<Rightarrow> Some (get_error status, Some p1,
                 st\<lparr>psa_state := release_key env h ks, dropped_ops := dropped_ops st @ [op]\<rparr>)))"
    using p k by (simp add: sid_pal_crypto_hmac_def)
  have "\<exists>s2 p1 op2. hmac_compute ?ops h alg p ks = Some (s2, p1, op2) \<and>
      (s2 = PSA_SUCCESS \<longrightarrow> hmac_digest p1 = Some (put_at 0 (mac (PSA_ALG_HMAC alg) ?kb (take (hmac_data_size p) d)) dig))"
    if ok: "status = PSA_SUCCESS"
  proof -
    obtain s1 op where s: "psa_mac_sign_setup ?ops ks (psa_operation_init ?ops) h (PSA_ALG_HMAC alg) = (s1, op)" by fastforce
    show ?thesis
    proof (cases "s1 = PSA_SUCCESS")
      case True
      then obtain at d' where "keys ks h = Some (at, d')" "view op = (PSA_ALG_HMAC alg, d', [])"
        using c(2) s unfolding mac_contract_def by blast
      then have v: "view op = (PSA_ALG_HMAC alg, ?kb, [])" using kb [OF ok] by simp
      obtain s2 op1 where l: "hmac_update_loop ?ops op d 0 32 (hmac_data_size p) = Some (s2, op1)" and
        w: "s2 = PSA_SUCCESS \<longrightarrow> view op1 = (PSA_ALG_HMAC alg, ?kb, take (hmac_data_size p) d)"
        using hmac_loop [OF c(2) p(7) _ _ v, of 32 0 d] p(8) by auto
      have f: "s3 = PSA_SUCCESS \<longrightarrow> b = mac (PSA_ALG_HMAC alg) ?kb (take (hmac_data_size p) d)"
        if "psa_mac_sign_finish ?ops op1 (hmac_digest_size p) = (s3, b, op2)" "s2 = PSA_SUCCESS" for s3 b op2
        using c(2) w that unfolding mac_contract_def by blast
      show ?thesis
        using s True l f p(3,4) by (auto simp: hmac_compute_def split: prod.splits)
    qed (use s in \<open>auto simp: hmac_compute_def\<close>)
  qed
  then show ?thesis using call by (cases "status = PSA_SUCCESS") (auto simp: p(4))
qed

section \<open>Authenticated encryption\<close>

text \<open>
  The AEAD functions of PSA, with \<open>enc\<close> the cipher text and tag of a plain text: an operation
  that was set up holds its direction, algorithm and key material, the nonce, and the
  additional data, input and output so far. The final step of an encryption completes the
  output to the cipher text and gives the tag; that of a decryption succeeds only if input and
  tag are the encryption of the output it completes.
\<close>

record aead_view =
  v_encrypt :: bool
  v_alg :: psa_algorithm
  v_key :: "u8 list"
  v_nonce :: "u8 list"
  v_ad :: "u8 list"
  v_in :: "u8 list"
  v_out :: "u8 list"

type_synonym aead_function =
  "psa_algorithm \<Rightarrow> u8 list \<Rightarrow> u8 list \<Rightarrow> u8 list \<Rightarrow> u8 list \<Rightarrow> u8 list \<times> u8 list"

definition aead_contract ::
  "('k, 'o) psa_crypto_ops \<Rightarrow> ('k \<Rightarrow> u32 \<Rightarrow> (psa_key_attributes \<times> u8 list) option) \<Rightarrow> ('o \<Rightarrow> aead_view) \<Rightarrow> aead_function \<Rightarrow> bool" where
  "aead_contract ops keys view enc \<longleftrightarrow>
     (\<forall>ks op h alg op1. psa_aead_encrypt_setup ops ks op h alg = (PSA_SUCCESS, op1) \<longrightarrow>
        (\<exists>at d. keys ks h = Some (at, d) \<and> view op1 =
           \<lparr>v_encrypt = True, v_alg = alg, v_key = d, v_nonce = [], v_ad = [], v_in = [], v_out = []\<rparr>)) \<and>
     (\<forall>ks op h alg op1. psa_aead_decrypt_setup ops ks op h alg = (PSA_SUCCESS, op1) \<longrightarrow>
        (\<exists>at d. keys ks h = Some (at, d) \<and> view op1 =
           \<lparr>v_encrypt = False, v_alg = alg, v_key = d, v_nonce = [], v_ad = [], v_in = [], v_out = []\<rparr>)) \<and>
     (\<forall>op m n op1. psa_aead_set_lengths ops op m n = (PSA_SUCCESS, op1) \<longrightarrow> view op1 = view op) \<and>
     (\<forall>op d op1. psa_aead_set_nonce ops op d = (PSA_SUCCESS, op1) \<longrightarrow> view op1 = (view op)\<lparr>v_nonce := d\<rparr>) \<and>
     (\<forall>op d op1. psa_aead_update_ad ops op d = (PSA_SUCCESS, op1) \<longrightarrow> view op1 = (view op)\<lparr>v_ad := v_ad (view op) @ d\<rparr>) \<and>
     (\<forall>op d n b op1. psa_aead_update ops op d n = (PSA_SUCCESS, b, op1) \<longrightarrow>
        length b \<le> n \<and> view op1 = (view op)\<lparr>v_in := v_in (view op) @ d, v_out := v_out (view op) @ b\<rparr>) \<and>
     (\<forall>op n m b t op1. psa_aead_finish ops op n m = (PSA_SUCCESS, b, t, op1) \<longrightarrow>
        length b \<le> n \<and> length t \<le> m \<and> (v_encrypt (view op) \<longrightarrow>
          enc (v_alg (view op)) (v_key (view op)) (v_nonce (view op)) (v_ad (view op)) (v_in (view op)) = (v_out (view op) @ b, t))) \<and>
     (\<forall>op n t b op1. psa_aead_verify ops op n t = (PSA_SUCCESS, b, op1) \<longrightarrow>
        length b \<le> n \<and> (\<not> v_encrypt (view op) \<longrightarrow>
          enc (v_alg (view op)) (v_key (view op)) (v_nonce (view op)) (v_ad (view op)) (v_out (view op) @ b) = (v_in (view op), t)))"

lemmas aeadD =
  aead_contract_def [THEN iffD1, THEN conjunct1, rule_format]
  aead_contract_def [THEN iffD1, THEN conjunct2, THEN conjunct1, rule_format]
  aead_contract_def [THEN iffD1, THEN conjunct2, THEN conjunct2, THEN conjunct1, rule_format]
  aead_contract_def [THEN iffD1, THEN conjunct2, THEN conjunct2, THEN conjunct2, THEN conjunct1, rule_format]
  aead_contract_def [THEN iffD1, THEN conjunct2, THEN conjunct2, THEN conjunct2, THEN conjunct2, THEN conjunct1, rule_format]
  aead_contract_def [THEN iffD1, THEN conjunct2, THEN conjunct2, THEN conjunct2, THEN conjunct2, THEN conjunct2, THEN conjunct1, rule_format]
  aead_contract_def [THEN iffD1, THEN conjunct2, THEN conjunct2, THEN conjunct2, THEN conjunct2, THEN conjunct2, THEN conjunct2, THEN conjunct1, rule_format]
  aead_contract_def [THEN iffD1, THEN conjunct2, THEN conjunct2, THEN conjunct2, THEN conjunct2, THEN conjunct2, THEN conjunct2, THEN conjunct2, rule_format]

lemma put_at_twice: "length b + length r \<le> length buf \<Longrightarrow> put_at (length b) r (put_at 0 b buf) = put_at 0 (b @ r) buf"
  by (simp add: put_at_def add.commute)

text \<open>The parameters a call reads, as the arguments of the AEAD function.\<close>

definition aead_args :: "sid_pal_aead_params \<Rightarrow> psa_algorithm \<times> u8 list \<times> u8 list \<times> u8 list" where
  "aead_args p = (the (aead_alg (aead_algo p) (aead_mac_size p)), (case aead_iv p of None \<Rightarrow> [] | Some iv \<Rightarrow> take (aead_iv_size p) iv),
     take (aead_aad_size p) (the (aead_aad p)), take (aead_in_size p) (the (aead_in p)))"

lemma aead_execute_spec:
  assumes c: "aead_contract ops keys view enc" and e: "aead_execute ops op p = (PSA_SUCCESS, op1, p1)"
    and v: "view op = \<lparr>v_encrypt = (aead_mode p = SID_PAL_CRYPTO_ENCRYPT), v_alg = alg, v_key = k, v_nonce = [], v_ad = [], v_in = [], v_out = []\<rparr>"
    and a: "aead_args p = (alg, iv, ad, d)"
    and o: "aead_out p = Some out" "length out = aead_out_size p" "aead_mac p = Some mac"
  shows "\<exists>b t. aead_out p1 = Some (put_at 0 b out) \<and> length b \<le> length out \<and>
    (if aead_mode p = SID_PAL_CRYPTO_ENCRYPT then enc alg k iv ad d = (b, t) \<and> aead_mac p1 = Some (put_at 0 t mac) \<and> length t \<le> aead_mac_size p
     else enc alg k iv ad b = (d, take (aead_mac_size p) mac))"
proof -
  obtain opl where 1: "psa_aead_set_lengths ops op (aead_aad_size p) (aead_in_size p) = (PSA_SUCCESS, opl)"
    using e by (cases "psa_aead_set_lengths ops op (aead_aad_size p) (aead_in_size p)")
      (auto simp: aead_execute_def split: if_splits)
  let ?n = "case aead_iv p of None \<Rightarrow> (PSA_SUCCESS, opl) | Some iv \<Rightarrow> psa_aead_set_nonce ops opl (take (aead_iv_size p) iv)"
  obtain opn where 2: "?n = (PSA_SUCCESS, opn)"
    using e 1 by (cases ?n) (auto simp: aead_execute_def split: if_splits)
  obtain opa where 3: "psa_aead_update_ad ops opn ad = (PSA_SUCCESS, opa)"
    using e 1 2 a by (cases "psa_aead_update_ad ops opn ad") (auto simp: aead_execute_def aead_args_def split: if_splits)
  obtain b1 opu where 4: "psa_aead_update ops opa d (aead_out_size p) = (PSA_SUCCESS, b1, opu)"
    using e 1 2 3 a by (cases "psa_aead_update ops opa d (aead_out_size p)")
      (auto simp: aead_execute_def aead_args_def Let_def split: if_splits)
  let ?p1 = "p\<lparr>aead_out := Some (put_at 0 b1 out)\<rparr>"
  have conc: "aead_conclude ops opu (length b1) ?p1 = (PSA_SUCCESS, op1, p1)"
    using e 1 2 3 4 a o(1) by (simp add: aead_execute_def aead_args_def Let_def)
  have "view opn = \<lparr>v_encrypt = (aead_mode p = SID_PAL_CRYPTO_ENCRYPT), v_alg = alg, v_key = k, v_nonce = iv, v_ad = [], v_in = [], v_out = []\<rparr>"
    using aeadD(3) [OF c 1] aeadD(4) [OF c] 2 v a by (auto simp: aead_args_def split: option.splits)
  then have vu: "view opu = \<lparr>v_encrypt = (aead_mode p = SID_PAL_CRYPTO_ENCRYPT), v_alg = alg, v_key = k, v_nonce = iv, v_ad = ad, v_in = d, v_out = b1\<rparr>"
    using aeadD(5) [OF c 3] aeadD(6) [OF c 4] by simp
  have l1: "length b1 \<le> aead_out_size p" using aeadD(6) [OF c 4] by simp
  show ?thesis
  proof (cases "aead_mode p = SID_PAL_CRYPTO_ENCRYPT")
    case True
    obtain s r t opf where f: "psa_aead_finish ops opu (aead_out_size p - length b1) (aead_mac_size p) = (s, r, t, opf)"
      by (metis prod_cases4)
    then have s: "s = PSA_SUCCESS" and p1: "p1 = ?p1\<lparr>aead_out := Some (put_at (length b1) r (put_at 0 b1 out)), aead_mac := Some (put_at 0 t mac)\<rparr>"
      using conc True o by (auto simp: aead_conclude_def)
    from aeadD(7) [OF c f [unfolded s]] vu True l1 o(2) p1 show ?thesis
      by - (rule exI [of _ "b1 @ r"], rule exI [of _ t], simp add: put_at_twice le_diff_conv2 add.commute)
  next
    case False
    obtain s r opf where f: "psa_aead_verify ops opu (aead_out_size p - length b1) (take (aead_mac_size p) mac) = (s, r, opf)"
      by (metis prod_cases3)
    then have s: "s = PSA_SUCCESS" and p1: "p1 = ?p1\<lparr>aead_out := Some (put_at (length b1) r (put_at 0 b1 out))\<rparr>"
      using conc False o by (auto simp: aead_conclude_def)
    from aeadD(8) [OF c f [unfolded s]] vu False l1 o(2) p1 show ?thesis
      by - (rule exI [of _ "b1 @ r"], simp add: put_at_twice le_diff_conv2 add.commute)
  qed
qed

lemma aead_switch_spec:
  assumes c: "aead_contract ops keys view enc" and e: "aead_switch ops ks h alg p = Some (PSA_SUCCESS, op, p1)"
    and a: "aead_args p = (alg, iv, ad, d)" and k: "\<And>at d'. keys ks h = Some (at, d') \<Longrightarrow> d' = k"
    and o: "aead_out p = Some out" "length out = aead_out_size p" "aead_mac p = Some mac"
  shows "\<exists>b t. aead_out p1 = Some (put_at 0 b out) \<and> length b \<le> length out \<and>
    (if aead_mode p = SID_PAL_CRYPTO_ENCRYPT then enc alg k iv ad d = (b, t) \<and> aead_mac p1 = Some (put_at 0 t mac) \<and> length t \<le> aead_mac_size p
     else enc alg k iv ad b = (d, take (aead_mac_size p) mac))"
proof -
  have "\<exists>op0 op1. view op0 = \<lparr>v_encrypt = (aead_mode p = SID_PAL_CRYPTO_ENCRYPT), v_alg = alg, v_key = k,
      v_nonce = [], v_ad = [], v_in = [], v_out = []\<rparr> \<and> aead_execute ops op0 p = (PSA_SUCCESS, op1, p1)"
  proof (cases "aead_mode p")
    case SID_PAL_CRYPTO_ENCRYPT
    obtain s op0 where s: "psa_aead_encrypt_setup ops ks (psa_operation_init ops) h alg = (s, op0)" by fastforce
    with e SID_PAL_CRYPTO_ENCRYPT have "s = PSA_SUCCESS" "\<exists>op1. aead_execute ops op0 p = (PSA_SUCCESS, op1, p1)"
      by (auto simp: aead_switch_def aead_encrypt_def split: if_splits prod.splits)
    with aeadD(1) [OF c] s k SID_PAL_CRYPTO_ENCRYPT show ?thesis by (metis (full_types))
  next
    case SID_PAL_CRYPTO_DECRYPT
    obtain s op0 where s: "psa_aead_decrypt_setup ops ks (psa_operation_init ops) h alg = (s, op0)" by fastforce
    with e SID_PAL_CRYPTO_DECRYPT have "s = PSA_SUCCESS" "\<exists>op1. aead_execute ops op0 p = (PSA_SUCCESS, op1, p1)"
      by (auto simp: aead_switch_def aead_decrypt_def split: if_splits prod.splits)
    with aeadD(2) [OF c] s k SID_PAL_CRYPTO_DECRYPT show ?thesis by (metis (full_types) sid_pal_aes_mode.distinct(1))
  qed (use e in \<open>simp_all add: aead_switch_def\<close>)
  then show ?thesis using aead_execute_spec [OF c _ _ a o] by blast
qed

text \<open>A call whose buffers have the sizes it is told, with a 128-bit key.\<close>

definition aead_call_ok :: "sid_pal_aead_params \<Rightarrow> bool" where
  "aead_call_ok p \<longleftrightarrow>
     (\<exists>key out mac. aead_key p = Some key \<and> 16 \<le> length key \<and> aead_out p = Some out \<and> length out = aead_out_size p \<and>
        aead_mac p = Some mac \<and> length mac = aead_mac_size p)"

lemma aead_crypt_spec:
  assumes c: "volatile_contract env keys" "aead_contract (env_psa_crypto env) keys view enc"
    and p: "aead_call_ok p" and a: "aead_args p = (alg, iv, ad, d)"
    and r: "sid_pal_crypto_aead_crypt env (Some p) st = Some (SID_ERROR_NONE, p', st')"
    and k: "k = key_bytes env keys (psa_state st) (the (aead_key p)) 16"
  shows "\<exists>p1 b t. p' = Some p1 \<and> aead_out p1 = Some (put_at 0 b (the (aead_out p))) \<and> length b \<le> aead_out_size p \<and>
    (if aead_mode p = SID_PAL_CRYPTO_ENCRYPT
     then enc alg k iv ad d = (b, t) \<and> aead_mac p1 = Some (put_at 0 t (the (aead_mac p))) \<and> length t \<le> aead_mac_size p
     else aead_mode p = SID_PAL_CRYPTO_DECRYPT \<and> enc alg k iv ad b = (d, the (aead_mac p)))"
proof -
  from p obtain key out mac where q: "aead_key p = Some key" "16 \<le> length key" "aead_out p = Some out"
    "length out = aead_out_size p" "aead_mac p = Some mac" "length mac = aead_mac_size p" by (auto simp: aead_call_ok_def)
  obtain status h ks where pk: "prepare_key env key 16 128 (AES_MODE_TO_USAGE (aead_mode p)) alg PSA_KEY_TYPE_AES (psa_state st) =
      Some (status, h, ks)" and kb: "\<And>at d'. status = PSA_SUCCESS \<Longrightarrow> keys ks h = Some (at, d') \<Longrightarrow> d' = k"
    using prepare_key_bytes [OF c(1) _ q(2)] q(1) k by fastforce
  have alg: "aead_alg (aead_algo p) (aead_mac_size p) = Some alg" and ks: "aead_key_size p = 128"
    using r a q by (auto simp: sid_pal_crypto_aead_crypt_def aead_args_def split: if_splits option.splits)
  from r obtain op p1 where s: "status = PSA_SUCCESS"
    and sw: "aead_switch (env_psa_crypto env) ks h alg p = Some (PSA_SUCCESS, op, p1)" "p' = Some p1"
    using pk q(1) alg ks
    by (auto simp: sid_pal_crypto_aead_crypt_def split: if_splits option.splits)
  have m: "aead_mode p \<noteq> SID_PAL_CRYPTO_ENCRYPT \<longrightarrow> aead_mode p = SID_PAL_CRYPTO_DECRYPT"
    using sw(1) by (auto simp: aead_switch_def split: sid_pal_aes_mode.splits)
  show ?thesis
    using aead_switch_spec [OF c(2) sw(1) a kb [OF s] q(3-5)] sw(2) q m by auto
qed

text \<open>
  C32. Authenticated encryption through the multi-part calls: a successful encryption puts the
  cipher text and the tag of the plain text into the caller's buffers and leaves the rest of
  them alone, and a successful decryption proves that the input and the tag it was given are
  the encryption of its output under the same key, nonce and additional data.
\<close>

theorem aead_refines:
  assumes "volatile_contract env keys" "aead_contract (env_psa_crypto env) keys view enc"
    and "aead_call_ok p" "aead_args p = (alg, iv, ad, d)"
    and "sid_pal_crypto_aead_crypt env (Some p) st = Some (SID_ERROR_NONE, p', st')"
    and "k = key_bytes env keys (psa_state st) (the (aead_key p)) 16"
  shows "\<exists>p1 b t. p' = Some p1 \<and> aead_out p1 = Some (b @ drop (length b) (the (aead_out p))) \<and> length b \<le> aead_out_size p \<and>
    (if aead_mode p = SID_PAL_CRYPTO_ENCRYPT
     then enc alg k iv ad d = (b, t) \<and> aead_mac p1 = Some (t @ drop (length t) (the (aead_mac p)))
     else enc alg k iv ad b = (d, the (aead_mac p)))"
proof -
  from aead_crypt_spec [OF assms] obtain p1 b t where
    "p' = Some p1" "aead_out p1 = Some (put_at 0 b (the (aead_out p)))" "length b \<le> aead_out_size p"
    "if aead_mode p = SID_PAL_CRYPTO_ENCRYPT
     then enc alg k iv ad d = (b, t) \<and> aead_mac p1 = Some (put_at 0 t (the (aead_mac p))) \<and> length t \<le> aead_mac_size p
     else aead_mode p = SID_PAL_CRYPTO_DECRYPT \<and> enc alg k iv ad b = (d, the (aead_mac p))" by blast
  then show ?thesis by - (rule exI [of _ p1], rule exI [of _ b], rule exI [of _ t], simp add: put_at_def split: if_splits)
qed

text \<open>
  C33. What was encrypted is decrypted to itself: given the cipher text and tag of an
  encryption, with the same key, nonce and additional data, a decryption that succeeds gives
  the plain text back, provided that the cipher maps different plain texts of one key, nonce
  and additional data to different results.
\<close>

theorem aead_roundtrip:
  assumes c: "volatile_contract env keys" "aead_contract (env_psa_crypto env) keys view enc"
    and inj: "\<And>x y. enc alg k iv ad x = enc alg k iv ad y \<Longrightarrow> x = y"
    and p: "aead_call_ok p" "aead_args p = (alg, iv, ad, d)" "aead_mode p = SID_PAL_CRYPTO_ENCRYPT"
      "k = key_bytes env keys (psa_state st) (the (aead_key p)) 16"
      "sid_pal_crypto_aead_crypt env (Some p) st = Some (SID_ERROR_NONE, Some p1, st1)"
    and tag: "enc alg k iv ad d = (ct, t)" "length t = aead_mac_size p"
    and q: "aead_call_ok q" "aead_args q = (alg, iv, ad, take (length ct) (the (aead_out p1)))" "aead_mode q = SID_PAL_CRYPTO_DECRYPT"
      "aead_mac q = aead_mac p1" "k = key_bytes env keys (psa_state st2) (the (aead_key q)) 16"
      "sid_pal_crypto_aead_crypt env (Some q) st2 = Some (SID_ERROR_NONE, Some q1, st3)"
  shows "aead_out q1 = Some (d @ drop (length d) (the (aead_out q)))"
proof -
  obtain mac where mac: "aead_mac p = Some mac" "length mac = aead_mac_size p" using p(1) by (auto simp: aead_call_ok_def)
  have 1: "aead_out p1 = Some (put_at 0 ct (the (aead_out p)))" "aead_mac p1 = Some (put_at 0 t mac)"
    using aead_crypt_spec [OF c p(1,2,5,4)] p(3) tag(1) mac by auto
  then have 2: "take (length ct) (the (aead_out p1)) = ct" "aead_mac p1 = Some t"
    using mac tag(2) by (simp_all add: put_at_def)
  obtain b where "aead_out q1 = Some (put_at 0 b (the (aead_out q)))" "enc alg k iv ad b = (ct, t)"
    using aead_crypt_spec [OF c q(1,2,6,5)] q(3,4) 2 by auto
  then show ?thesis using inj [of b d] tag(1) by (simp add: put_at_def)
qed

section \<open>A concrete PSA\<close>

text \<open>
  The key map of the persistent keys with one identifier for volatile ones, a checksum for
  message authentication and a shift by a key-dependent byte for encryption.
\<close>

record toy_op =
  t_active :: bool
  t_mac :: "psa_algorithm \<times> u8 list \<times> u8 list"
  t_aead :: aead_view

definition bytes_sum :: "u8 list \<Rightarrow> u8" where
  "bytes_sum bs = sum_list bs"

definition toy_mac :: "psa_algorithm \<Rightarrow> u8 list \<Rightarrow> u8 list \<Rightarrow> u8 list" where
  "toy_mac alg key m = [bytes_sum (key @ m)]"

definition toy_enc :: aead_function where
  "toy_enc alg key iv ad d = (map (\<lambda>x. x + bytes_sum key) d, [bytes_sum (key @ iv @ ad @ d)])"

definition toy_valid :: "psa_key_type \<Rightarrow> psa_algorithm \<Rightarrow> u8 list \<Rightarrow> u8 list \<Rightarrow> u8 list \<Rightarrow> bool" where
  "toy_valid ty alg key m s \<longleftrightarrow> s = replicate 64 (bytes_sum key)"

definition toy_start :: "key_map \<Rightarrow> u32 \<Rightarrow> (u8 list \<Rightarrow> toy_op) \<Rightarrow> toy_op \<Rightarrow> int \<times> toy_op" where
  "toy_start ks h f op = (case ks h of None \<Rightarrow> (PSA_ERROR_INVALID_HANDLE, op) | Some (at, d) \<Rightarrow> (0, f d))"

definition toy_crypto :: "(key_map, toy_op) psa_crypto_ops" where
  "toy_crypto =
     \<lparr>psa_crypto_init = (\<lambda>ks. (0, ks)), psa_generate_random = (\<lambda>ks n. (0, replicate n 0, ks)),
      psa_hash_compute = (\<lambda>ks alg d n. (0, [])),
      psa_operation_init = \<lparr>t_active = False, t_mac = (PSA_ALG_NONE, [], []),
        t_aead = \<lparr>v_encrypt = False, v_alg = PSA_ALG_NONE, v_key = [], v_nonce = [], v_ad = [], v_in = [], v_out = []\<rparr>\<rparr>,
      psa_mac_sign_setup = (\<lambda>ks op h alg. toy_start ks h (\<lambda>d. op\<lparr>t_active := True, t_mac := (alg, d, [])\<rparr>) op),
      psa_mac_update = (\<lambda>op d. case t_mac op of (alg, k, m) \<Rightarrow> (0, op\<lparr>t_mac := (alg, k, m @ d)\<rparr>)),
      psa_mac_sign_finish = (\<lambda>op n. case t_mac op of (alg, k, m) \<Rightarrow>
        if n = 0 then (PSA_ERROR_BUFFER_TOO_SMALL, [], op) else (0, toy_mac alg k m, op\<lparr>t_active := False\<rparr>)),
      psa_mac_compute = (\<lambda>ks h alg d n. (PSA_ERROR_NOT_SUPPORTED, [])),
      psa_cipher_encrypt_setup = (\<lambda>ks op h alg. (PSA_ERROR_NOT_SUPPORTED, op)),
      psa_cipher_decrypt_setup = (\<lambda>ks op h alg. (PSA_ERROR_NOT_SUPPORTED, op)),
      psa_cipher_set_iv = (\<lambda>op iv. (0, op)), psa_cipher_update = (\<lambda>op d n. (PSA_ERROR_BAD_STATE, [], op)),
      psa_cipher_finish = (\<lambda>op n. (0, [], op\<lparr>t_active := False\<rparr>)), psa_cipher_abort = (\<lambda>op. (0, op\<lparr>t_active := False\<rparr>)),
      psa_aead_encrypt_setup = (\<lambda>ks op h alg. toy_start ks h (\<lambda>d. op\<lparr>t_active := True, t_aead :=
        \<lparr>v_encrypt = True, v_alg = alg, v_key = d, v_nonce = [], v_ad = [], v_in = [], v_out = []\<rparr>\<rparr>) op),
      psa_aead_decrypt_setup = (\<lambda>ks op h alg. toy_start ks h (\<lambda>d. op\<lparr>t_active := True, t_aead :=
        \<lparr>v_encrypt = False, v_alg = alg, v_key = d, v_nonce = [], v_ad = [], v_in = [], v_out = []\<rparr>\<rparr>) op),
      psa_aead_set_lengths = (\<lambda>op m n. (0, op)),
      psa_aead_set_nonce = (\<lambda>op d. (0, op\<lparr>t_aead := (t_aead op)\<lparr>v_nonce := d\<rparr>\<rparr>)),
      psa_aead_update_ad = (\<lambda>op d. (0, op\<lparr>t_aead := (t_aead op)\<lparr>v_ad := v_ad (t_aead op) @ d\<rparr>\<rparr>)),
      psa_aead_update = (\<lambda>op d n. if length d > n then (PSA_ERROR_BUFFER_TOO_SMALL, [], op) else
        let b = map (\<lambda>x. if v_encrypt (t_aead op) then x + bytes_sum (v_key (t_aead op)) else x - bytes_sum (v_key (t_aead op))) d
        in (0, b, op\<lparr>t_aead := (t_aead op)\<lparr>v_in := v_in (t_aead op) @ d, v_out := v_out (t_aead op) @ b\<rparr>\<rparr>)),
      psa_aead_finish = (\<lambda>op n m.
        let (c, t) = toy_enc (v_alg (t_aead op)) (v_key (t_aead op)) (v_nonce (t_aead op)) (v_ad (t_aead op)) (v_in (t_aead op))
        in if m \<noteq> 1 \<or> c \<noteq> v_out (t_aead op) then (PSA_ERROR_BUFFER_TOO_SMALL, [], [], op) else (0, [], t, op\<lparr>t_active := False\<rparr>)),
      psa_aead_verify = (\<lambda>op n t.
        if toy_enc (v_alg (t_aead op)) (v_key (t_aead op)) (v_nonce (t_aead op)) (v_ad (t_aead op)) (v_out (t_aead op)) =
           (v_in (t_aead op), t) then (0, [], op\<lparr>t_active := False\<rparr>) else (- 149, [], op)),
      psa_aead_abort = (\<lambda>op. (0, op\<lparr>t_active := False\<rparr>)),
      psa_verify_message = (\<lambda>ks h alg m s. case ks h of None \<Rightarrow> PSA_ERROR_INVALID_HANDLE
        | Some (at, d) \<Rightarrow> if toy_valid (key_type at) alg d m s then 0 else - 149),
      psa_sign_message = (\<lambda>ks h alg m n. (PSA_ERROR_NOT_SUPPORTED, [])),
      psa_raw_key_agreement = (\<lambda>ks alg h d n. (PSA_ERROR_NOT_SUPPORTED, [])),
      psa_export_key = (\<lambda>ks h n. (PSA_ERROR_NOT_PERMITTED, []))\<rparr>"

definition toy_env :: "(key_map, toy_op) crypto_env" where
  "toy_env = \<lparr>env_psa_keys = map_psa, env_psa_crypto = toy_crypto, PSA_CIPHER_IV_LENGTH = (\<lambda>_. 16),
     PSA_AEAD_NONCE_LENGTH = (\<lambda>_. 13), crypto_key_storage = Some KeyStoragePersistent\<rparr>"

definition toy_state :: "(key_map, toy_op) crypto_state" where
  "toy_state = \<lparr>is_initialized = True, psa_state = one_key, dropped_ops = []\<rparr>"

lemma toy_contracts:
  "volatile_contract toy_env (\<lambda>ks. ks)" "operation_contract (env_psa_crypto toy_env) t_active"
  "mac_contract (env_psa_crypto toy_env) (\<lambda>ks. ks) t_mac toy_mac"
  "aead_contract (env_psa_crypto toy_env) (\<lambda>ks. ks) t_aead toy_enc"
proof -
  show "volatile_contract toy_env (\<lambda>ks. ks)"
    using map_psa_contract
    by (auto simp: volatile_contract_def toy_env_def toy_crypto_def map_psa_def SID_CRYPTO_KEYS_ID_IS_SIDEWALK_KEY_def Let_def
        split: if_splits)
  show "operation_contract (env_psa_crypto toy_env) t_active"
    by (auto simp: operation_contract_def toy_env_def toy_crypto_def split: prod.splits if_splits)
  show "mac_contract (env_psa_crypto toy_env) (\<lambda>ks. ks) t_mac toy_mac"
    by (auto simp: mac_contract_def toy_env_def toy_crypto_def toy_start_def toy_mac_def split: prod.splits if_splits option.splits)
  show "aead_contract (env_psa_crypto toy_env) (\<lambda>ks. ks) t_aead toy_enc"
    by (auto simp: aead_contract_def toy_env_def toy_crypto_def toy_start_def toy_enc_def Let_def split: prod.splits if_splits option.splits)
qed

definition toy_hmac :: sid_pal_hmac_params where
  "toy_hmac = \<lparr>hmac_algo = SID_PAL_HASH_SHA256, hmac_key = Some [1, 2, 3, 4, 5], hmac_key_size = 5,
     hmac_data = Some (replicate 40 1), hmac_data_size = 40, hmac_digest = Some [0, 0], hmac_digest_size = 2\<rparr>"

definition toy_plain :: sid_pal_aead_params where
  "toy_plain = \<lparr>aead_algo = SID_PAL_AEAD_CCM_128, aead_mode = SID_PAL_CRYPTO_ENCRYPT, aead_key = Some (replicate 16 1),
     aead_key_size = 128, aead_iv = Some (replicate 13 0), aead_iv_size = 13, aead_aad = Some [9], aead_aad_size = 1,
     aead_in = Some [1, 2, 3], aead_in_size = 3, aead_out = Some [0, 0, 0, 0], aead_out_size = 4, aead_mac = Some [0], aead_mac_size = 1\<rparr>"

definition toy_cipher :: sid_pal_aead_params where
  "toy_cipher = toy_plain\<lparr>aead_mode := SID_PAL_CRYPTO_DECRYPT, aead_in := Some [17, 18, 19, 0], aead_mac := Some [31]\<rparr>"

lemma toy_encrypts:
  "\<exists>p1 st1. sid_pal_crypto_aead_crypt toy_env (Some toy_plain) toy_state = Some (SID_ERROR_NONE, Some p1, st1) \<and>
     aead_out p1 = Some [17, 18, 19, 0] \<and> aead_mac p1 = Some [31]"
proof -
  have "map_option (\<lambda>(e, p, _). (e, map_option aead_out p, map_option aead_mac p))
      (sid_pal_crypto_aead_crypt toy_env (Some toy_plain) toy_state) = Some (0, Some (Some [17, 18, 19, 0]), Some (Some [31]))"
    by code_simp
  then show ?thesis by auto
qed

lemma toy_decrypts:
  "\<exists>p1 st1. sid_pal_crypto_aead_crypt toy_env (Some toy_cipher) toy_state = Some (SID_ERROR_NONE, Some p1, st1)"
proof -
  have "map_option (\<lambda>(e, p, _). (e, map_option aead_out p))
      (sid_pal_crypto_aead_crypt toy_env (Some toy_cipher) toy_state) = Some (0, Some (Some [1, 2, 3, 0]))"
    by code_simp
  then show ?thesis by auto
qed

lemma toy_aead_args:
  "aead_args toy_plain = (PSA_ALG_AEAD_WITH_SHORTENED_TAG PSA_ALG_CCM 1, replicate 13 0, [9], [1, 2, 3])"
  "aead_args toy_cipher = (PSA_ALG_AEAD_WITH_SHORTENED_TAG PSA_ALG_CCM 1, replicate 13 0, [9], [17, 18, 19])"
  "aead_call_ok toy_plain" "aead_call_ok toy_cipher"
  "replicate 16 1 = key_bytes toy_env (\<lambda>ks. ks) (psa_state toy_state) (the (aead_key toy_plain)) 16"
  "replicate 16 1 = key_bytes toy_env (\<lambda>ks. ks) (psa_state toy_state) (the (aead_key toy_cipher)) 16"
proof -
  show "aead_args toy_plain = (PSA_ALG_AEAD_WITH_SHORTENED_TAG PSA_ALG_CCM 1, replicate 13 0, [9], [1, 2, 3])"
    "aead_args toy_cipher = (PSA_ALG_AEAD_WITH_SHORTENED_TAG PSA_ALG_CCM 1, replicate 13 0, [9], [17, 18, 19])"
    by (simp_all add: aead_args_def toy_plain_def toy_cipher_def)
  show "aead_call_ok toy_plain" "aead_call_ok toy_cipher"
    by (simp_all add: aead_call_ok_def toy_plain_def toy_cipher_def)
  show "replicate 16 1 = key_bytes toy_env (\<lambda>ks. ks) (psa_state toy_state) (the (aead_key toy_plain)) 16"
    "replicate 16 1 = key_bytes toy_env (\<lambda>ks. ks) (psa_state toy_state) (the (aead_key toy_cipher)) 16"
    by (simp_all add: toy_plain_def toy_cipher_def key_bytes_def toy_env_def is_key_reference_def numeral_eq_Suc)
qed

text \<open>
  Two calls: an encryption, which releases its key, and the same call with the mode of a MAC,
  which authenticated encryption does not support.
\<close>

definition toy_calls :: "crypto_call list" where
  "toy_calls = [Call_aead (Some toy_plain), Call_aead (Some (toy_plain\<lparr>aead_mode := SID_PAL_CRYPTO_MAC_CALCULATE\<rparr>))]"

lemma toy_run: "\<exists>st. crypto_run toy_env toy_calls toy_state = Some ([SID_ERROR_NONE, SID_ERROR_INVALID_ARGS], st)"
proof -
  have "map_option fst (crypto_run toy_env toy_calls toy_state) = Some [SID_ERROR_NONE, SID_ERROR_INVALID_ARGS]" by code_simp
  then show ?thesis by auto
qed

theorem crypto_releases_witness:
  "\<exists>st. crypto_run toy_env toy_calls toy_state = Some ([SID_ERROR_NONE, SID_ERROR_INVALID_ARGS], st) \<and>
     one_key \<subseteq>\<^sub>m psa_state st \<and> card (keys_left one_key (psa_state st)) \<le> 1 \<and> filter t_active (dropped_ops st) = []"
proof -
  obtain st where r: "crypto_run toy_env toy_calls toy_state = Some ([SID_ERROR_NONE, SID_ERROR_INVALID_ARGS], st)"
    using toy_run by blast
  have "destroy_reliable toy_env (\<lambda>ks. ks)" by (auto simp: destroy_reliable_def toy_env_def map_psa_def)
  with r crypto_releases [OF toy_contracts(1,2) r] show ?thesis
    by (simp add: toy_state_def toy_calls_def toy_plain_def)
qed

theorem hmac_is_mac_witness:
  "\<exists>e p' st'. sid_pal_crypto_hmac toy_env (Some toy_hmac) toy_state = Some (e, Some p', st') \<and>
     (e = SID_ERROR_NONE \<longrightarrow> hmac_digest p' = Some [bytes_sum ([1, 2, 3, 4, 5] @ replicate 40 1), 0])"
proof -
  have "key_bytes toy_env (\<lambda>ks. ks) one_key [1, 2, 3, 4, 5] 5 = [1, 2, 3, 4, 5]"
    by (simp add: key_bytes_def toy_env_def is_key_reference_def)
  then show ?thesis
    using hmac_is_mac [OF toy_contracts(1,3), of toy_state toy_hmac "[1, 2, 3, 4, 5]" "replicate 40 1" "[0, 0]" PSA_ALG_SHA_256]
    by (simp add: toy_state_def toy_hmac_def toy_mac_def put_at_def)
qed

theorem aead_refines_witness:
  "\<exists>p1 st1 b t. sid_pal_crypto_aead_crypt toy_env (Some toy_plain) toy_state = Some (SID_ERROR_NONE, Some p1, st1) \<and>
     aead_out p1 = Some (b @ drop (length b) [0, 0, 0, 0]) \<and>
     toy_enc (PSA_ALG_AEAD_WITH_SHORTENED_TAG PSA_ALG_CCM 1) (replicate 16 1) (replicate 13 0) [9] [1, 2, 3] = (b, t)"
proof -
  obtain p1 st1 where r: "sid_pal_crypto_aead_crypt toy_env (Some toy_plain) toy_state = Some (0, Some p1, st1)"
    using toy_encrypts by blast
  from aead_refines [OF toy_contracts(1,4) toy_aead_args(3,1) r toy_aead_args(5)] show ?thesis
    using r by (auto simp: toy_plain_def)
qed

theorem aead_roundtrip_witness:
  "\<exists>q1 st3. sid_pal_crypto_aead_crypt toy_env (Some toy_cipher) toy_state = Some (SID_ERROR_NONE, Some q1, st3) \<and>
     aead_out q1 = Some [1, 2, 3, 0]"
proof -
  obtain p1 st1 where p: "sid_pal_crypto_aead_crypt toy_env (Some toy_plain) toy_state = Some (0, Some p1, st1)"
    "aead_out p1 = Some [17, 18, 19, 0]" "aead_mac p1 = Some [31]" using toy_encrypts by blast
  obtain q1 st3 where q: "sid_pal_crypto_aead_crypt toy_env (Some toy_cipher) toy_state = Some (0, Some q1, st3)"
    using toy_decrypts by blast
  let ?alg = "PSA_ALG_AEAD_WITH_SHORTENED_TAG PSA_ALG_CCM 1"
  have "x = y" if "toy_enc ?alg (replicate 16 1) (replicate 13 0) [9] x = toy_enc ?alg (replicate 16 1) (replicate 13 0) [9] y" for x y
    using that by (auto simp: toy_enc_def dest: map_injective intro: injI)
  moreover have "toy_enc ?alg (replicate 16 1) (replicate 13 0) [9] [1, 2, 3] = ([17, 18, 19], [31])" by code_simp
  ultimately have "aead_out q1 = Some ([1, 2, 3] @ drop (length [1 :: u8, 2, 3]) (the (aead_out toy_cipher)))"
    using aead_roundtrip [OF toy_contracts(1,4) _ toy_aead_args(3,1) _ toy_aead_args(5) p(1) _ _ toy_aead_args(4) _ _ _ toy_aead_args(6) q]
      p(2,3) toy_aead_args(2) by (auto simp: toy_plain_def toy_cipher_def)
  then show ?thesis using q by (auto simp: toy_cipher_def toy_plain_def)
qed

end
