(* ===== verification/Cert_Crypto.thy ===== *)
theory Cert_Crypto
  imports Sid_Crypto_Spec Cert_Props
begin

text \<open>
  On-device certification on top of the cryptography interface: the signature check that the
  certification calls is \<^verbatim>\<open>sid_pal_crypto_ecc_dsa\<close>, so what it accepts is what PSA accepts for the
  public key in PSA's form.
\<close>

section \<open>Verifying a signature\<close>

text \<open>
  What PSA promises of verification: success means that the signature is valid under the key's
  material, and a valid signature is accepted under a key that may be used for it.
\<close>

definition verify_contract ::
  "('k, 'o) psa_crypto_ops \<Rightarrow> ('k \<Rightarrow> u32 \<Rightarrow> (psa_key_attributes \<times> u8 list) option) \<Rightarrow>
   (psa_key_type \<Rightarrow> psa_algorithm \<Rightarrow> u8 list \<Rightarrow> u8 list \<Rightarrow> u8 list \<Rightarrow> bool) \<Rightarrow> bool" where
  "verify_contract ops keys valid \<longleftrightarrow>
     (\<forall>ks h alg m s at d. keys ks h = Some (at, d) \<and> psa_verify_message ops ks h alg m s = PSA_SUCCESS \<longrightarrow>
        valid (key_type at) alg d m s) \<and>
     (\<forall>ks h alg m s at d. keys ks h = Some (at, d) \<and> usage_flags at = PSA_KEY_USAGE_VERIFY_MESSAGE \<and> key_alg at = alg \<and>
        valid (key_type at) alg d m s \<longrightarrow> psa_verify_message ops ks h alg m s = PSA_SUCCESS)"

text \<open>A public key in PSA's form, and the attributes it is imported with.\<close>

fun psa_public_key :: "sid_pal_ecc_algo \<Rightarrow> u8 list \<Rightarrow> u8 list" where
  "psa_public_key SID_PAL_ECDSA_SECP256R1 key = 0x04 # key"
| "psa_public_key _ key = key"

definition verify_attributes :: "psa_algorithm \<Rightarrow> psa_ecc_family \<Rightarrow> nat \<Rightarrow> psa_key_attributes" where
  "verify_attributes alg fam bits =
     \<lparr>usage_flags = PSA_KEY_USAGE_VERIFY_MESSAGE, key_alg = alg, key_type = ECC_FAMILY_TYPE SID_PAL_CRYPTO_VERIFY fam,
      key_bits = bits, key_lifetime = PSA_KEY_LIFETIME_VOLATILE, attr_key_id = PSA_KEY_ID_NULL\<rparr>"

text \<open>A key that is not taken for a reference to a persistent one.\<close>

definition plain_key :: "('k, 'o) crypto_env \<Rightarrow> u8 list \<Rightarrow> bool" where
  "plain_key env key \<longleftrightarrow> (case crypto_key_storage env of None \<Rightarrow> True | Some cfg \<Rightarrow> \<not> is_key_reference cfg key)"

lemma prepare_key_import:
  assumes "4 \<le> n" "n \<le> length key" "plain_key env (take n key)"
  shows "prepare_key env key n bits usage alg ty ks = Some (psa_import_key (env_psa_keys env) ks
    \<lparr>usage_flags = usage, key_alg = alg, key_type = ty, key_bits = bits,
     key_lifetime = PSA_KEY_LIFETIME_VOLATILE, attr_key_id = PSA_KEY_ID_NULL\<rparr> (take n key))"
  using assms by (auto simp: prepare_key_def plain_key_def buffer_get_prefix Let_def split: option.splits)

lemma ec_key_buffer_verify:
  assumes "length junk = EC_MAX_KEY_LENGTH" "length key \<le> 64"
  shows "\<exists>buf. ec_key_buffer (algo = SID_PAL_ECDSA_SECP256R1) junk key (length key) = (buf, length (psa_public_key algo key)) \<and>
    take (length (psa_public_key algo key)) buf = psa_public_key algo key \<and> length buf = 65"
  using assms by (cases algo) (auto simp: ec_key_buffer_def put_at_def secpxxx_key_prefix_def Let_def)

text \<open>The parameters of a verification.\<close>

definition verify_params :: "sid_pal_ecc_algo \<Rightarrow> u8 list \<Rightarrow> u8 list \<Rightarrow> u8 list \<Rightarrow> sid_pal_dsa_params" where
  "verify_params algo key msg sig =
     \<lparr>dsa_algo = algo, dsa_mode = SID_PAL_CRYPTO_VERIFY, dsa_key = Some key, dsa_key_size = length key,
      dsa_in = Some msg, dsa_in_size = length msg, dsa_signature = Some sig, dsa_sig_size = length sig\<rparr>"

lemma dsa_verify_iff:
  assumes c: "volatile_contract env keys" "verify_contract (env_psa_crypto env) keys valid"
    and st: "is_initialized st" "length junk = EC_MAX_KEY_LENGTH"
    and k: "4 \<le> length key" "length key \<le> 64" "plain_key env (psa_public_key algo key)" "msg \<noteq> []"
    and a: "dsa_alg algo = Some (alg, fam, bits)"
  shows "\<exists>e p' st'. sid_pal_crypto_ecc_dsa env junk (Some (verify_params algo key msg sig)) st = Some (e, p', st') \<and>
    (e = SID_ERROR_NONE \<longleftrightarrow>
      fst (psa_import_key (env_psa_keys env) (psa_state st) (verify_attributes alg fam bits) (psa_public_key algo key)) = PSA_SUCCESS \<and>
      valid (ECC_FAMILY_TYPE SID_PAL_CRYPTO_VERIFY fam) alg (psa_public_key algo key) msg sig)"
proof -
  let ?k = "psa_public_key algo key" and ?at = "verify_attributes alg fam bits"
  obtain buf where buf: "ec_key_buffer (algo = SID_PAL_ECDSA_SECP256R1) junk key (length key) = (buf, length ?k)"
    "take (length ?k) buf = ?k" "length buf = 65"
    using ec_key_buffer_verify [OF st(2) k(2)] by blast
  have len: "4 \<le> length ?k" "length ?k \<le> length buf" using k(1,2) buf(3) by (cases algo; simp)+
  obtain s h ks where i: "psa_import_key (env_psa_keys env) (psa_state st) ?at ?k = (s, h, ks)" by (metis prod_cases3)
  have pk: "prepare_key env buf (length ?k) bits PSA_KEY_USAGE_VERIFY_MESSAGE alg (ECC_FAMILY_TYPE SID_PAL_CRYPTO_VERIFY fam)
      (psa_state st) = Some (s, h, ks)"
    using prepare_key_import [OF len, of env] k(3) i buf(2) by (simp add: verify_attributes_def)
  have call: "sid_pal_crypto_ecc_dsa env junk (Some (verify_params algo key msg sig)) st =
      (if s \<noteq> PSA_SUCCESS then Some (get_error s, Some (verify_params algo key msg sig), st\<lparr>psa_state := ks\<rparr>)
       else Some (get_error (psa_verify_message (env_psa_crypto env) ks h alg msg sig), Some (verify_params algo key msg sig),
         st\<lparr>psa_state := release_key env h ks\<rparr>))"
    using st(1) k(1,4) a buf(1) pk
    by (cases "key = []") (simp_all add: sid_pal_crypto_ecc_dsa_def verify_params_def dsa_switch_def)
  have "s = PSA_SUCCESS \<Longrightarrow> keys ks h = Some (?at, ?k)"
    using psa_importD [OF volatileD(1) [OF c(1)] i] by simp
  then have v: "s = PSA_SUCCESS \<Longrightarrow> psa_verify_message (env_psa_crypto env) ks h alg msg sig = PSA_SUCCESS \<longleftrightarrow>
      valid (ECC_FAMILY_TYPE SID_PAL_CRYPTO_VERIFY fam) alg ?k msg sig"
    using c(2) unfolding verify_contract_def by (fastforce simp: verify_attributes_def)
  show ?thesis using call v i by (cases "s = PSA_SUCCESS") (auto simp: get_error_success simp del: get_error_def)
qed

section \<open>The certificate chain\<close>

text \<open>The certification's signature check, on the cryptography interface in the state \<open>st\<close>.\<close>

definition odc_ecc_algo :: "odc_algo \<Rightarrow> sid_pal_ecc_algo" where
  "odc_ecc_algo algo = (case algo of SID_ODC_CRYPT_ALGO_ED25519 \<Rightarrow> SID_PAL_EDDSA_ED25519
     | SID_ODC_CRYPT_ALGO_P256R1 \<Rightarrow> SID_PAL_ECDSA_SECP256R1 | SID_ODC_CRYPT_ALGO_OTHER \<Rightarrow> SID_PAL_ECC_OTHER)"

definition odc_verify_by :: "('k, 'o) crypto_env \<Rightarrow> u8 list \<Rightarrow> ('k, 'o) crypto_state \<Rightarrow> odc_crypto \<Rightarrow> odc_crypto" where
  "odc_verify_by env junk st cr =
     cr\<lparr>crypto_verify := (\<lambda>algo puk msg sig.
          case sid_pal_crypto_ecc_dsa env junk (Some (verify_params (odc_ecc_algo algo) puk msg sig)) st of
            Some (e, _, _) \<Rightarrow> e | None \<Rightarrow> SID_ERROR_GENERIC)\<rparr>"

lemma odc_verify_by_valid:
  assumes c: "volatile_contract env keys" "verify_contract (env_psa_crypto env) keys valid"
    and st: "is_initialized st" "length junk = EC_MAX_KEY_LENGTH"
    and k: "4 \<le> length key" "length key \<le> 64" "plain_key env (psa_public_key (odc_ecc_algo algo) key)" "msg \<noteq> []"
    and a: "dsa_alg (odc_ecc_algo algo) = Some (alg, fam, bits)"
    and v: "crypto_verify (odc_verify_by env junk st cr) algo key msg sig = SID_ERROR_NONE"
  shows "valid (ECC_FAMILY_TYPE SID_PAL_CRYPTO_VERIFY fam) alg (psa_public_key (odc_ecc_algo algo) key) msg sig"
  using dsa_verify_iff [OF c st k a, of sig] v by (auto simp: odc_verify_by_def)

lemma ca_verify_valid:
  assumes c: "volatile_contract env keys" "verify_contract (env_psa_crypto env) keys valid"
    and st: "is_initialized st" "length junk = EC_MAX_KEY_LENGTH"
    and k: "4 \<le> length key" "length key \<le> 64" and m: "length (ca_pub_key ca) > 0"
  shows "plain_key env key \<Longrightarrow> sid_on_dev_cert_ed25519_verify (odc_verify_by env junk st cr) ca key \<Longrightarrow>
      valid PSA_KEY_TYPE_ECC_PUBLIC_KEY_TWISTED_EDWARDS PSA_ALG_PURE_EDDSA key
        (ca_pub_key ca @ take (ca_serial_length ca) (ca_serial ca)) (ca_signature ca)"
    "plain_key env (0x04 # key) \<Longrightarrow> sid_on_dev_cert_p256r1_verify (odc_verify_by env junk st cr) ca key \<Longrightarrow>
      valid PSA_KEY_TYPE_ECC_PUBLIC_KEY_SECP_R1 PSA_ALG_ECDSA_SHA_256 (0x04 # key)
        (ca_pub_key ca @ take (ca_serial_length ca) (ca_serial ca)) (ca_signature ca)"
  using odc_verify_by_valid [OF c st k, of SID_ODC_CRYPT_ALGO_ED25519] odc_verify_by_valid [OF c st k, of SID_ODC_CRYPT_ALGO_P256R1] m
  by (simp_all add: sid_on_dev_cert_ed25519_verify_def sid_on_dev_cert_p256r1_verify_def odc_ecc_algo_def)

text \<open>
  C34. A certificate chain that the certification accepts through the cryptography interface is
  signed all the way up: each authority's key and serial carry a signature that is valid under
  the next authority's key, in PSA's form, which for P-256 has the prefix the chain leaves out,
  and the root's under its own, for both signature algorithms.
\<close>

theorem odc_chain_signed:
  assumes c: "volatile_contract env keys" "verify_contract (env_psa_crypto env) keys valid"
    and st: "is_initialized st" "length junk = EC_MAX_KEY_LENGTH"
    and w: "\<And>i. i < 5 \<Longrightarrow> length (ca_pub_key (cert_ed25519 ctx ! i)) = 32 \<and> length (ca_pub_key (cert_p256r1 ctx ! i)) = 64 \<and>
      plain_key env (ca_pub_key (cert_ed25519 ctx ! i)) \<and> plain_key env (0x04 # ca_pub_key (cert_p256r1 ctx ! i))"
    and ok: "odc_verify_cas (odc_verify_by env junk st cr) ctx" and i: "i < 5"
  shows "valid PSA_KEY_TYPE_ECC_PUBLIC_KEY_TWISTED_EDWARDS PSA_ALG_PURE_EDDSA (ca_pub_key (cert_ed25519 ctx ! min 4 (i + 1)))
      (ca_pub_key (cert_ed25519 ctx ! i) @ take (ca_serial_length (cert_ed25519 ctx ! i)) (ca_serial (cert_ed25519 ctx ! i)))
      (ca_signature (cert_ed25519 ctx ! i)) \<and>
    valid PSA_KEY_TYPE_ECC_PUBLIC_KEY_SECP_R1 PSA_ALG_ECDSA_SHA_256 (0x04 # ca_pub_key (cert_p256r1 ctx ! min 4 (i + 1)))
      (ca_pub_key (cert_p256r1 ctx ! i) @ take (ca_serial_length (cert_p256r1 ctx ! i)) (ca_serial (cert_p256r1 ctx ! i)))
      (ca_signature (cert_p256r1 ctx ! i))"
proof -
  have j: "min 4 (i + 1) = (if i = 4 then i else i + 1)" "min 4 (i + 1) < 5" using i by auto
  have "sid_on_dev_cert_ed25519_verify (odc_verify_by env junk st cr) (cert_ed25519 ctx ! i) (ca_pub_key (cert_ed25519 ctx ! min 4 (i + 1)))"
    "sid_on_dev_cert_p256r1_verify (odc_verify_by env junk st cr) (cert_p256r1 ctx ! i) (ca_pub_key (cert_p256r1 ctx ! min 4 (i + 1)))"
    using ok i unfolding odc_verify_cas_def list_all_iff j(1) by auto
  then show ?thesis
    using ca_verify_valid(1) [OF c st, of "ca_pub_key (cert_ed25519 ctx ! min 4 (i + 1))" "cert_ed25519 ctx ! i"]
      ca_verify_valid(2) [OF c st, of "ca_pub_key (cert_p256r1 ctx ! min 4 (i + 1))" "cert_p256r1 ctx ! i"] w [OF i] w [OF j(2)]
    by simp
qed

section \<open>A concrete chain\<close>

text \<open>Authorities whose signatures the toy validity of the concrete PSA accepts.\<close>

definition signed_context :: odc_context where
  "signed_context = full_context\<lparr>cert_ed25519 := replicate 5 ((sample_ca 32)\<lparr>ca_signature := replicate 64 32\<rparr>),
     cert_p256r1 := replicate 5 ((sample_ca 64)\<lparr>ca_signature := replicate 64 68\<rparr>)\<rparr>"

lemma toy_verify_contract: "verify_contract (env_psa_crypto toy_env) (\<lambda>ks. ks) toy_valid"
  by (auto simp: verify_contract_def toy_env_def toy_crypto_def split: if_splits)

lemma toy_plain_keys:
  "plain_key toy_env (replicate 32 1)" "plain_key toy_env (0x04 # replicate 64 1)"
  by (simp_all add: plain_key_def toy_env_def is_key_reference_def numeral_eq_Suc)

lemma toy_verifies:
  assumes "4 \<le> length key" "length key \<le> 64" "plain_key toy_env (psa_public_key (odc_ecc_algo algo) key)" "msg \<noteq> []"
    and "dsa_alg (odc_ecc_algo algo) = Some (alg, fam, bits)" "sig = replicate 64 (bytes_sum (psa_public_key (odc_ecc_algo algo) key))"
  shows "crypto_verify (odc_verify_by toy_env (replicate 65 0) toy_state cr) algo key msg sig = SID_ERROR_NONE"
proof -
  have "fst (psa_import_key (env_psa_keys toy_env) (psa_state toy_state) (verify_attributes alg fam bits)
      (psa_public_key (odc_ecc_algo algo) key)) = PSA_SUCCESS"
    by (simp add: toy_env_def map_psa_def verify_attributes_def toy_state_def one_key_def Let_def)
  then show ?thesis
    using dsa_verify_iff [OF toy_contracts(1) toy_verify_contract _ _ assms(1-5), of toy_state "replicate 65 0" sig] assms(6)
    by (auto simp: odc_verify_by_def toy_state_def toy_valid_def)
qed

lemma toy_sums: "bytes_sum (replicate 32 1) = 32" "bytes_sum (0x04 # replicate 64 1) = 68"
  by (code_simp, code_simp)

theorem odc_chain_signed_witness:
  "odc_verify_cas (odc_verify_by toy_env (replicate 65 0) toy_state lenient_crypto) signed_context \<and>
   toy_valid PSA_KEY_TYPE_ECC_PUBLIC_KEY_SECP_R1 PSA_ALG_ECDSA_SHA_256 (0x04 # replicate 64 1) (replicate 64 1 @ replicate 4 0) (replicate 64 68)"
proof -
  have ok: "odc_verify_cas (odc_verify_by toy_env (replicate 65 0) toy_state lenient_crypto) signed_context"
    using toy_verifies [of "replicate 32 1" SID_ODC_CRYPT_ALGO_ED25519] toy_verifies [of "replicate 64 1" SID_ODC_CRYPT_ALGO_P256R1]
      toy_plain_keys toy_sums
    by (simp add: odc_verify_cas_def list_all_iff sid_on_dev_cert_ed25519_verify_def sid_on_dev_cert_p256r1_verify_def signed_context_def
        sample_ca_def odc_ecc_algo_def)
  have w: "length (ca_pub_key (cert_ed25519 signed_context ! i)) = 32 \<and> length (ca_pub_key (cert_p256r1 signed_context ! i)) = 64 \<and>
      plain_key toy_env (ca_pub_key (cert_ed25519 signed_context ! i)) \<and> plain_key toy_env (0x04 # ca_pub_key (cert_p256r1 signed_context ! i))"
    if "i < 5" for i
    using that toy_plain_keys by (simp add: signed_context_def sample_ca_def)
  show ?thesis
    using ok odc_chain_signed [OF toy_contracts(1) toy_verify_contract _ _ w ok, of 0]
    by (simp add: toy_state_def signed_context_def sample_ca_def)
qed

end
