(* ===== verification/Pal_Timer.thy ===== *)
theory Pal_Timer
  imports Sidewalk_Prelude
begin

text \<open>
  The platform timers, \<^verbatim>\<open>sid_timer.c\<close> and \<^verbatim>\<open>sid_uptime.c\<close>: timers live in one list ordered by
  alarm time, and one kernel timer is set for the next alarm. The operations on
  \<^verbatim>\<open>struct sid_timespec\<close> (\<^verbatim>\<open>sid_time_gt\<close> and others) are in a prebuilt library and enter as
  parameters; \<open>time_ops_ok\<close> states their documented behaviour.
\<close>

section \<open>Time\<close>

datatype sid_timespec = Timespec (tv_sec: u32) (tv_nsec: u32)

abbreviation (input) SID_TIME_INFINITY :: sid_timespec where
  "SID_TIME_INFINITY \<equiv> Timespec 0xFFFFFFFF 0xFFFFFFFF"

text \<open>Times are ordered by seconds, then nanoseconds.\<close>

instantiation sid_timespec :: linorder
begin

definition less_sid_timespec :: "sid_timespec \<Rightarrow> sid_timespec \<Rightarrow> bool" where
  "a < b \<longleftrightarrow> tv_sec a < tv_sec b \<or> (tv_sec a = tv_sec b \<and> tv_nsec a < tv_nsec b)"

definition less_eq_sid_timespec :: "sid_timespec \<Rightarrow> sid_timespec \<Rightarrow> bool" where
  "a \<le> b \<longleftrightarrow> tv_sec a < tv_sec b \<or> (tv_sec a = tv_sec b \<and> tv_nsec a \<le> tv_nsec b)"

instance
  by standard (auto simp: less_sid_timespec_def less_eq_sid_timespec_def intro: sid_timespec.expand)

end

record time_ops =
  sid_time_gt :: "sid_timespec \<Rightarrow> sid_timespec \<Rightarrow> bool"
  sid_time_sub :: "sid_timespec \<Rightarrow> sid_timespec \<Rightarrow> sid_timespec"
  sid_time_add :: "sid_timespec \<Rightarrow> sid_timespec \<Rightarrow> sid_timespec"
  sid_time_is_infinity :: "sid_timespec \<Rightarrow> bool"

text \<open>The nanoseconds of a time, and times with a proper nanosecond part.\<close>

definition time_ns :: "sid_timespec \<Rightarrow> nat" where
  "time_ns t = unat (tv_sec t) * 1000000000 + unat (tv_nsec t)"

definition time_normal :: "sid_timespec \<Rightarrow> bool" where
  "time_normal t \<longleftrightarrow> unat (tv_nsec t) < 1000000000"

text \<open>
  What the header documents: \<^verbatim>\<open>sid_time_gt\<close> is the order, \<^verbatim>\<open>sid_time_is_infinity\<close> recognises
  infinity, and \<^verbatim>\<open>sid_time_add\<close> adds, giving a normal time, as long as the sum is representable.
\<close>

definition time_ops_ok :: "time_ops \<Rightarrow> bool" where
  "time_ops_ok ops \<longleftrightarrow>
     (\<forall>a b. sid_time_gt ops a b \<longleftrightarrow> b < a) \<and>
     (\<forall>a. sid_time_is_infinity ops a \<longleftrightarrow> a = SID_TIME_INFINITY) \<and>
     (\<forall>a b. time_normal a \<longrightarrow> time_normal b \<longrightarrow> time_ns a + time_ns b < 2 ^ 32 * 1000000000 \<longrightarrow>
        time_ns (sid_time_add ops a b) = time_ns a + time_ns b \<and> time_normal (sid_time_add ops a b))"

section \<open>Timers\<close>

record pal_timer =
  alarm :: sid_timespec
  period :: sid_timespec
  node_linked :: bool
  has_callback :: bool
  tolerance :: sid_timespec

text \<open>
  Timers are addressed by numbers. \<open>node_linked\<close> is \<^verbatim>\<open>next\<close> or \<^verbatim>\<open>prev\<close> being set, \<open>tlist\<close> the
  doubly linked list from its head, \<open>hw\<close> the kernel timer's absolute expiry in ticks (\<open>None\<close>
  while it is not running), and \<open>called\<close> what a user of the timers observes of an expiry: the
  timers whose callback was invoked, in the order of the invocations.
\<close>

type_synonym timer_id = nat

record timer_state =
  timers :: "timer_id \<Rightarrow> pal_timer"
  tlist :: "timer_id list"
  hw :: "nat option"
  called :: "timer_id list"

definition alarm_of :: "timer_state \<Rightarrow> timer_id \<Rightarrow> sid_timespec" where
  "alarm_of st t = alarm (timers st t)"

definition upd_timer :: "timer_id \<Rightarrow> (pal_timer \<Rightarrow> pal_timer) \<Rightarrow> timer_state \<Rightarrow> timer_state" where
  "upd_timer t f st = st\<lparr>timers := (timers st)(t := f (timers st t))\<rparr>"

datatype timer_prio_class = SID_PAL_TIMER_PRIO_CLASS_PRECISE | SID_PAL_TIMER_PRIO_CLASS_LOWPOWER

fun sid_pal_timer_get_tolerance :: "timer_prio_class \<Rightarrow> sid_timespec" where
  "sid_pal_timer_get_tolerance SID_PAL_TIMER_PRIO_CLASS_PRECISE = Timespec 0 0"
| "sid_pal_timer_get_tolerance SID_PAL_TIMER_PRIO_CLASS_LOWPOWER = Timespec 1 0"

text \<open>
  The kernel's conversions round up to ticks of a clock of \<open>hz\<close> ticks per second; seconds and
  nanoseconds are converted separately.
\<close>

definition ceil_ticks :: "nat \<Rightarrow> nat \<Rightarrow> nat \<Rightarrow> nat" where
  "ceil_ticks per_sec hz x = (x * hz + per_sec - 1) div per_sec"

definition sid_timer_start :: "nat \<Rightarrow> sid_timespec \<Rightarrow> timer_state \<Rightarrow> timer_state" where
  "sid_timer_start hz t st =
     st\<lparr>hw := Some (ceil_ticks 1000000000 hz (unat (tv_nsec t)) + ceil_ticks 1000 hz (unat (tv_sec t) * 1000))\<rparr>"

section \<open>The list\<close>

definition sid_pal_timer_list_in_list :: "timer_id \<Rightarrow> timer_state \<Rightarrow> bool" where
  "sid_pal_timer_list_in_list t st = node_linked (timers st t)"

definition sid_pal_timer_list_delete :: "timer_id \<Rightarrow> timer_state \<Rightarrow> timer_state" where
  "sid_pal_timer_list_delete t st =
     (if node_linked (timers st t)
      then upd_timer t (\<lambda>x. x\<lparr>node_linked := False\<rparr>) (st\<lparr>tlist := remove1 t (tlist st)\<rparr>)
      else st)"

text \<open>
  The walk over the list: the new timer goes before the first one with a later alarm, taking
  over that alarm when it lies within the tolerance. The flag says whether the kernel timer
  must be set again.
\<close>

fun timer_insert_walk ::
  "time_ops \<Rightarrow> (timer_id \<Rightarrow> sid_timespec) \<Rightarrow> timer_id \<Rightarrow> sid_timespec \<Rightarrow> sid_timespec \<Rightarrow> bool \<Rightarrow> timer_id list \<Rightarrow>
   timer_id list \<times> sid_timespec \<times> bool" where
  "timer_insert_walk ops al t a tol reschedule [] = ([t], a, reschedule)"
| "timer_insert_walk ops al t a tol reschedule (e # es) =
     (if sid_time_gt ops (al e) a then
        (if \<not> sid_time_gt ops (sid_time_sub ops (al e) a) tol
         then (t # e # es, al e, False) else (t # e # es, a, reschedule))
      else
        (case timer_insert_walk ops al t a tol False es of (l, a', r) \<Rightarrow> (e # l, a', r)))"

definition sid_pal_timer_list_insert :: "time_ops \<Rightarrow> nat \<Rightarrow> timer_id \<Rightarrow> timer_state \<Rightarrow> timer_state" where
  "sid_pal_timer_list_insert ops hz t st =
     (case timer_insert_walk ops (alarm_of st) t (alarm_of st t) (tolerance (timers st t)) True (tlist st) of
        (l, a, reschedule) \<Rightarrow>
          let st1 = upd_timer t (\<lambda>x. x\<lparr>alarm := a, node_linked := True\<rparr>) (st\<lparr>tlist := l\<rparr>) in
          if reschedule then sid_timer_start hz a st1 else st1)"

definition sid_pal_timer_list_fetch ::
  "time_ops \<Rightarrow> sid_timespec \<Rightarrow> timer_state \<Rightarrow> timer_id option \<times> timer_state" where
  "sid_pal_timer_list_fetch ops non_gt_than st =
     (case tlist st of
        [] \<Rightarrow> (None, st)
      | t # ts \<Rightarrow>
          if \<not> sid_time_gt ops (alarm_of st t) non_gt_than
          then (Some t, upd_timer t (\<lambda>x. x\<lparr>node_linked := False\<rparr>) (st\<lparr>tlist := ts\<rparr>))
          else (None, st))"

definition sid_pal_timer_list_get_next_schedule :: "timer_state \<Rightarrow> sid_timespec" where
  "sid_pal_timer_list_get_next_schedule st =
     (case tlist st of [] \<Rightarrow> SID_TIME_INFINITY | t # ts \<Rightarrow> alarm_of st t)"

section \<open>Interface\<close>

text \<open>Pointer arguments are options; \<open>None\<close> is \<^verbatim>\<open>NULL\<close>.\<close>

definition sid_pal_timer_init :: "timer_id option \<Rightarrow> bool \<Rightarrow> timer_state \<Rightarrow> sid_error \<times> timer_state" where
  "sid_pal_timer_init t_p callback st =
     (case t_p of
        None \<Rightarrow> (SID_ERROR_INVALID_ARGS, st)
      | Some t \<Rightarrow>
          if \<not> callback then (SID_ERROR_INVALID_ARGS, st)
          else (SID_ERROR_NONE, upd_timer t (\<lambda>x. x\<lparr>has_callback := True, alarm := SID_TIME_INFINITY,
                  period := SID_TIME_INFINITY, node_linked := False\<rparr>) st))"

definition sid_pal_timer_deinit :: "timer_id option \<Rightarrow> timer_state \<Rightarrow> sid_error \<times> timer_state" where
  "sid_pal_timer_deinit t_p st =
     (case t_p of
        None \<Rightarrow> (SID_ERROR_INVALID_ARGS, st)
      | Some t \<Rightarrow> (SID_ERROR_NONE, upd_timer t (\<lambda>x. x\<lparr>has_callback := False\<rparr>) (sid_pal_timer_list_delete t st)))"

definition sid_pal_timer_is_armed :: "timer_id option \<Rightarrow> timer_state \<Rightarrow> bool" where
  "sid_pal_timer_is_armed t_p st = (case t_p of None \<Rightarrow> False | Some t \<Rightarrow> sid_pal_timer_list_in_list t st)"

definition sid_pal_timer_arm ::
  "time_ops \<Rightarrow> nat \<Rightarrow> timer_id option \<Rightarrow> timer_prio_class \<Rightarrow> sid_timespec option \<Rightarrow> sid_timespec option \<Rightarrow>
   timer_state \<Rightarrow> sid_error \<times> timer_state" where
  "sid_pal_timer_arm ops hz t_p ty when_p period_p st =
     (case (t_p, when_p) of
        (Some t, Some w) \<Rightarrow>
          if sid_pal_timer_is_armed t_p st then (SID_ERROR_INVALID_ARGS, st)
          else
            (let per = (case period_p of None \<Rightarrow> SID_TIME_INFINITY | Some q \<Rightarrow> q);
                 st1 = upd_timer t (\<lambda>x. x\<lparr>alarm := w, period := per, tolerance := sid_pal_timer_get_tolerance ty\<rparr>) st
             in (SID_ERROR_NONE, sid_pal_timer_list_insert ops hz t st1))
      | _ \<Rightarrow> (SID_ERROR_INVALID_ARGS, st))"

definition sid_pal_timer_cancel :: "timer_id option \<Rightarrow> timer_state \<Rightarrow> sid_error \<times> timer_state" where
  "sid_pal_timer_cancel t_p st =
     (case t_p of
        None \<Rightarrow> (SID_ERROR_INVALID_ARGS, st)
      | Some t \<Rightarrow> (SID_ERROR_NONE, sid_pal_timer_list_delete t st))"

section \<open>Expiry\<close>

text \<open>
  A user callback works on the timers through the interface: it is a sequence of calls.
\<close>

datatype timer_call =
    CallArm timer_id timer_prio_class sid_timespec "sid_timespec option"
  | CallCancel timer_id
  | CallDeinit timer_id

fun run_call :: "time_ops \<Rightarrow> nat \<Rightarrow> timer_call \<Rightarrow> timer_state \<Rightarrow> timer_state" where
  "run_call ops hz (CallArm t ty w p) st = snd (sid_pal_timer_arm ops hz (Some t) ty (Some w) p st)"
| "run_call ops hz (CallCancel t) st = snd (sid_pal_timer_cancel (Some t) st)"
| "run_call ops hz (CallDeinit t) st = snd (sid_pal_timer_deinit (Some t) st)"

text \<open>The invocation of a timer's callback: it is observed, and its calls are carried out.\<close>

definition timer_callback ::
  "time_ops \<Rightarrow> nat \<Rightarrow> (timer_id \<Rightarrow> timer_call list) \<Rightarrow> timer_id \<Rightarrow> timer_state \<Rightarrow> timer_state" where
  "timer_callback ops hz cb t st = fold (run_call ops hz) (cb t) (st\<lparr>called := called st @ [t]\<rparr>)"

text \<open>
  One round for the fetched timer: a periodic timer is inserted again, then the callback runs,
  when there is one.
\<close>

definition timer_fire ::
  "time_ops \<Rightarrow> nat \<Rightarrow> (timer_id \<Rightarrow> timer_call list) \<Rightarrow> timer_id \<Rightarrow> timer_state \<Rightarrow> timer_state" where
  "timer_fire ops hz cb t st1 =
     (let st2 = (if \<not> sid_time_is_infinity ops (period (timers st1 t))
                 then sid_pal_timer_list_insert ops hz t
                        (upd_timer t (\<lambda>x. x\<lparr>alarm := sid_time_add ops (alarm x) (period x)\<rparr>) st1)
                 else st1)
      in if has_callback (timers st2 t) then timer_callback ops hz cb t st2 else st2)"

text \<open>The loop of \<^verbatim>\<open>sid_pal_timer_event_callback\<close>; \<open>None\<close> when it never ends.\<close>

partial_function (option) timer_expire_loop ::
  "time_ops \<Rightarrow> nat \<Rightarrow> (timer_id \<Rightarrow> timer_call list) \<Rightarrow> sid_timespec \<Rightarrow> timer_state \<Rightarrow> timer_state option" where
  "timer_expire_loop ops hz cb now st =
     (case sid_pal_timer_list_fetch ops now st of
        (None, st1) \<Rightarrow> Some st1
      | (Some t, st1) \<Rightarrow> timer_expire_loop ops hz cb now (timer_fire ops hz cb t st1))"

definition sid_pal_timer_event_callback ::
  "time_ops \<Rightarrow> nat \<Rightarrow> (timer_id \<Rightarrow> timer_call list) \<Rightarrow> sid_timespec \<Rightarrow> timer_state \<Rightarrow> timer_state option" where
  "sid_pal_timer_event_callback ops hz cb now st =
     map_option (\<lambda>st1. sid_timer_start hz (sid_pal_timer_list_get_next_schedule st1) st1)
       (timer_expire_loop ops hz cb now st)"

section \<open>Uptime\<close>

text \<open>The uptime in nanoseconds, rounded down from the kernel's ticks.\<close>

definition zephyr_uptime_ns :: "nat \<Rightarrow> nat \<Rightarrow> u64" where
  "zephyr_uptime_ns hz uptime_ticks = of_nat (uptime_ticks * 1000000000 div hz)"

definition sid_pal_uptime_now :: "nat \<Rightarrow> nat \<Rightarrow> sid_timespec" where
  "sid_pal_uptime_now hz uptime_ticks =
     (let uptime_ns = zephyr_uptime_ns hz uptime_ticks;
          sec = ucast (uptime_ns div 1000000000) :: u32
      in Timespec sec (ucast (uptime_ns - ucast sec * 1000000000)))"

text \<open>
  The kernel timer's handler runs the event callback at the current uptime, directly or in
  the timer thread.
\<close>

definition sid_timer_handler ::
  "time_ops \<Rightarrow> nat \<Rightarrow> (timer_id \<Rightarrow> timer_call list) \<Rightarrow> nat \<Rightarrow> timer_state \<Rightarrow> timer_state option" where
  "sid_timer_handler ops hz cb uptime_ticks st =
     sid_pal_timer_event_callback ops hz cb (sid_pal_uptime_now hz uptime_ticks) (st\<lparr>hw := None\<rparr>)"

end
