(* ===== verification/Timer_Props.thy ===== *)
theory Timer_Props
  imports Pal_Timer
begin

text \<open>
  The properties of the platform timers: the ordered-list invariant and the kernel timer's
  setting in every reachable state, which timers an expiry fires and in which order, when
  the expiry loop ends, and the rounding of the kernel timer.
\<close>

section \<open>The list invariant\<close>

definition timer_inv :: "timer_state \<Rightarrow> bool" where
  "timer_inv st \<longleftrightarrow>
     distinct (tlist st) \<and> (\<forall>t. node_linked (timers st t) \<longleftrightarrow> t \<in> set (tlist st)) \<and>
     sorted (map (alarm_of st) (tlist st))"

text \<open>The ticks the kernel timer is set to for a time, and: it is set no later than the next alarm.\<close>

definition ticks_of :: "nat \<Rightarrow> sid_timespec \<Rightarrow> nat" where
  "ticks_of hz t = ceil_ticks 1000000000 hz (unat (tv_nsec t)) + ceil_ticks 1000 hz (unat (tv_sec t) * 1000)"

definition hw_inv :: "nat \<Rightarrow> timer_state \<Rightarrow> bool" where
  "hw_inv hz st \<longleftrightarrow>
     (tlist st \<noteq> [] \<longrightarrow> (\<exists>a. a \<le> alarm_of st (hd (tlist st)) \<and> hw st = Some (ticks_of hz a)))"

lemma timer_start_conv: "sid_timer_start hz t st = st\<lparr>hw := Some (ticks_of hz t)\<rparr>"
  by (simp add: sid_timer_start_def ticks_of_def)

lemma upd_timer_simps [simp]:
  "tlist (upd_timer t f st) = tlist st" "hw (upd_timer t f st) = hw st" "called (upd_timer t f st) = called st"
  "timers (upd_timer t f st) u = (if u = t then f (timers st t) else timers st u)"
  by (simp_all add: upd_timer_def)

lemma alarm_of_simps [simp]:
  "alarm_of (upd_timer t f st) u = (if u = t then alarm (f (timers st t)) else alarm_of st u)"
  "alarm_of (upd_timer t (node_linked_update g) st) = alarm_of st"
  "alarm_of (st\<lparr>tlist := l\<rparr>) = alarm_of st" "alarm_of (st\<lparr>hw := h\<rparr>) = alarm_of st"
  "alarm_of (st\<lparr>called := c\<rparr>) = alarm_of st"
  by (auto simp: alarm_of_def fun_eq_iff)

text \<open>The insertion walk keeps the order and inserts exactly the new timer.\<close>

lemma insert_walk:
  assumes "time_ops_ok ops" "timer_insert_walk ops al t a tol r l = (l', a', r')"
    and "t \<notin> set l" "distinct l" "sorted (map al l)"
  shows "set l' = insert t (set l) \<and> distinct l' \<and> a \<le> a' \<and> sorted (map (al(t := a')) l') \<and>
    (\<forall>x. (\<forall>y \<in> set l. x \<le> al y) \<longrightarrow> x \<le> a \<longrightarrow> (\<forall>y \<in> set l'. x \<le> (al(t := a')) y))"
  using assms(2-)
proof (induction l arbitrary: r l' a' r')
  case (Cons e es)
  have gt: "sid_time_gt ops x y \<longleftrightarrow> y < x" for x y using assms(1) by (simp add: time_ops_ok_def)
  have al: "map (al(t := a')) es = map al es" using Cons.prems(2) by auto
  show ?case
  proof (cases "a < al e")
    case True
    with Cons.prems have l': "l' = t # e # es" and a': "a' = a \<or> a' = al e" by (auto simp: gt split: if_splits)
    have m: "map (al(t := a')) l' = a' # al e # map al es" using Cons.prems(2) al by (simp add: l')
    have "sorted (map (al(t := a')) l')" unfolding m using True a' Cons.prems(4) by (auto intro: order_trans)
    moreover have "\<forall>y \<in> set l'. x \<le> (al(t := a')) y" if "\<forall>y \<in> set (e # es). x \<le> al y" "x \<le> a" for x
      using that a' by (auto simp: l')
    moreover have "set l' = insert t (set (e # es))" "distinct l'" "a \<le> a'"
      using True a' Cons.prems(2,3) by (auto simp: l')
    ultimately show ?thesis by blast
  next
    case False
    then obtain l1 where l1: "timer_insert_walk ops al t a tol False es = (l1, a', r')" "l' = e # l1"
      using Cons.prems(1) by (auto simp: gt split: prod.splits)
    have IH: "set l1 = insert t (set es) \<and> distinct l1 \<and> a \<le> a' \<and> sorted (map (al(t := a')) l1) \<and>
        (\<forall>x. (\<forall>y \<in> set es. x \<le> al y) \<longrightarrow> x \<le> a \<longrightarrow> (\<forall>y \<in> set l1. x \<le> (al(t := a')) y))"
      using Cons.prems by (intro Cons.IH [OF l1(1)]) auto
    then have "\<forall>y \<in> set l1. al e \<le> (al(t := a')) y"
      using False Cons.prems(4) by (auto simp: not_less)
    moreover have "(al(t := a')) e = al e" using Cons.prems(2) by auto
    ultimately have "sorted (map (al(t := a')) l')" using IH unfolding l1(2) list.map sorted_simps set_map by auto
    moreover have "\<forall>y \<in> set l'. x \<le> (al(t := a')) y" if "\<forall>y \<in> set (e # es). x \<le> al y" "x \<le> a" for x
    proof -
      have "\<forall>y \<in> set l1. x \<le> (al(t := a')) y" using IH that by simp
      then show ?thesis using that \<open>(al(t := a')) e = al e\<close> by (simp add: l1(2))
    qed
    moreover have "set l' = insert t (set (e # es))" "a \<le> a'" using IH by (auto simp: l1(2))
    moreover have "distinct l'" using IH Cons.prems(2,3) by (simp add: l1(2))
    ultimately show ?thesis by blast
  qed
qed auto

text \<open>Either the new timer is the new head and the kernel timer is set for it, or the next alarm is unchanged.\<close>

lemma insert_walk_head:
  assumes "time_ops_ok ops" "timer_insert_walk ops al t a tol r l = (l', a', r')" "t \<notin> set l"
  shows "(r' \<longrightarrow> r \<and> hd l' = t \<and> a' = a) \<and> (\<not> r' \<longrightarrow> r \<longrightarrow> l \<noteq> [] \<and> (al(t := a')) (hd l') = al (hd l))"
proof (cases l)
  case (Cons e es)
  have et: "e \<noteq> t" using assms(3) Cons by auto
  have no: "\<not> r'" if "timer_insert_walk ops al t a tol False ls = (l2, a2, r')" for ls l2 a2
    using that by (induction ls arbitrary: l2 a2) (auto split: if_splits prod.splits)
  show ?thesis
  proof (cases "sid_time_gt ops (al e) a")
    case True
    with assms(2) Cons show ?thesis by (auto split: if_splits)
  next
    case False
    then obtain l1 where l1: "timer_insert_walk ops al t a tol False es = (l1, a', r')" "l' = e # l1"
      using assms(2) Cons by (auto split: prod.splits)
    from no [OF l1(1)] et show ?thesis by (simp add: l1(2) Cons)
  qed
qed (use assms in auto)

lemma list_insert_inv:
  assumes ops: "time_ops_ok ops" and inv: "timer_inv st" and t: "t \<notin> set (tlist st)"
  shows "timer_inv (sid_pal_timer_list_insert ops hz t st)"
proof -
  obtain l a r where w: "timer_insert_walk ops (alarm_of st) t (alarm_of st t) (tolerance (timers st t)) True (tlist st) = (l, a, r)"
    by (metis prod_cases3)
  have *: "set l = insert t (set (tlist st)) \<and> distinct l \<and> sorted (map ((alarm_of st)(t := a)) l)"
    using insert_walk [OF ops w t] inv by (simp add: timer_inv_def)
  moreover have "alarm_of (sid_pal_timer_list_insert ops hz t st) = (alarm_of st)(t := a)"
    by (auto simp: sid_pal_timer_list_insert_def w Let_def timer_start_conv fun_eq_iff)
  ultimately show ?thesis
    using inv by (auto simp: timer_inv_def sid_pal_timer_list_insert_def w Let_def timer_start_conv)
qed

lemma list_insert_hw:
  assumes ops: "time_ops_ok ops" and hw: "hw_inv hz st" and t: "t \<notin> set (tlist st)"
  shows "hw_inv hz (sid_pal_timer_list_insert ops hz t st)"
proof -
  obtain l a r where w: "timer_insert_walk ops (alarm_of st) t (alarm_of st t) (tolerance (timers st t)) True (tlist st) = (l, a, r)"
    by (metis prod_cases3)
  have al: "alarm_of (sid_pal_timer_list_insert ops hz t st) = (alarm_of st)(t := a)"
    "tlist (sid_pal_timer_list_insert ops hz t st) = l"
    "hw (sid_pal_timer_list_insert ops hz t st) = (if r then Some (ticks_of hz a) else hw st)"
    by (auto simp: sid_pal_timer_list_insert_def w Let_def timer_start_conv fun_eq_iff)
  show ?thesis
    using insert_walk_head [OF ops w t] hw unfolding hw_inv_def al by auto
qed

lemma list_delete_inv:
  assumes "timer_inv st"
  shows "timer_inv (sid_pal_timer_list_delete t st)"
  using assms sorted_map_remove1 [of "alarm_of st" "tlist st" t]
  by (auto simp: timer_inv_def sid_pal_timer_list_delete_def)

lemma list_delete_hw:
  assumes inv: "timer_inv st" and hw: "hw_inv hz st"
  shows "hw_inv hz (sid_pal_timer_list_delete t st)"
proof (cases "node_linked (timers st t)")
  case True
  have "alarm_of st (hd (tlist st)) \<le> alarm_of st (hd (remove1 t (tlist st)))" if "remove1 t (tlist st) \<noteq> []"
    using inv that by (cases "tlist st") (auto simp: timer_inv_def intro: hd_in_set dest: notin_set_remove1)
  with True hw show ?thesis
    by (auto simp: hw_inv_def sid_pal_timer_list_delete_def dest: order_trans)
next
  case False
  with hw show ?thesis by (simp add: sid_pal_timer_list_delete_def)
qed

section \<open>Reachable states\<close>

text \<open>
  The calls of a timer user, and the expiry of the kernel timer. A timer that is armed is not
  initialised again.
\<close>

inductive timer_step :: "time_ops \<Rightarrow> nat \<Rightarrow> timer_state \<Rightarrow> timer_state \<Rightarrow> bool" for ops hz where
  init: "\<not> sid_pal_timer_is_armed t st \<Longrightarrow> sid_pal_timer_init t cbk st = (e, st') \<Longrightarrow> timer_step ops hz st st'"
| deinit: "sid_pal_timer_deinit t st = (e, st') \<Longrightarrow> timer_step ops hz st st'"
| arm: "sid_pal_timer_arm ops hz t ty w p st = (e, st') \<Longrightarrow> timer_step ops hz st st'"
| cancel: "sid_pal_timer_cancel t st = (e, st') \<Longrightarrow> timer_step ops hz st st'"
| expire: "sid_timer_handler ops hz cb up st = Some st' \<Longrightarrow> timer_step ops hz st st'"

inductive timer_reach :: "time_ops \<Rightarrow> nat \<Rightarrow> timer_state \<Rightarrow> bool" for ops hz where
  start: "tlist st = [] \<Longrightarrow> \<forall>t. \<not> node_linked (timers st t) \<Longrightarrow> timer_reach ops hz st"
| step: "timer_reach ops hz st \<Longrightarrow> timer_step ops hz st st' \<Longrightarrow> timer_reach ops hz st'"

lemma timer_inv_upd:
  assumes "timer_inv st" "\<And>x. node_linked (f x) = node_linked x" "t \<in> set (tlist st) \<Longrightarrow> alarm (f (timers st t)) = alarm_of st t"
  shows "timer_inv (upd_timer t f st)"
proof -
  have "map (alarm_of (upd_timer t f st)) (tlist st) = map (alarm_of st) (tlist st)"
    using assms(3) by auto
  then have "sorted (map (alarm_of (upd_timer t f st)) (tlist st))"
    using assms(1) unfolding timer_inv_def by metis
  with assms(1,2) show ?thesis unfolding timer_inv_def by simp
qed

lemma hw_inv_upd:
  assumes "hw_inv hz st" "t \<in> set (tlist st) \<Longrightarrow> alarm (f (timers st t)) = alarm_of st t"
  shows "hw_inv hz (upd_timer t f st)"
  using assms by (cases "tlist st") (auto simp: hw_inv_def)

lemma arm_inv:
  assumes ops: "time_ops_ok ops" and inv: "timer_inv st"
  shows "timer_inv (snd (sid_pal_timer_arm ops hz t ty w p st))"
    and "hw_inv hz st \<Longrightarrow> hw_inv hz (snd (sid_pal_timer_arm ops hz t ty w p st))"
proof -
  have "timer_inv (sid_pal_timer_list_insert ops hz u (upd_timer u f st))"
    "hw_inv hz st \<Longrightarrow> hw_inv hz (sid_pal_timer_list_insert ops hz u (upd_timer u f st))"
    if "u \<notin> set (tlist st)" "\<And>x. node_linked (f x) = node_linked x" for u f
    using that inv
    by (auto intro!: list_insert_inv [OF ops] list_insert_hw [OF ops] timer_inv_upd hw_inv_upd)
  with inv show "timer_inv (snd (sid_pal_timer_arm ops hz t ty w p st))"
    "hw_inv hz st \<Longrightarrow> hw_inv hz (snd (sid_pal_timer_arm ops hz t ty w p st))"
    by (auto simp: sid_pal_timer_arm_def Let_def sid_pal_timer_is_armed_def sid_pal_timer_list_in_list_def timer_inv_def
        split: option.splits)
qed

lemma cancel_inv:
  "timer_inv st \<Longrightarrow> timer_inv (snd (sid_pal_timer_cancel t st))"
  "timer_inv st \<Longrightarrow> hw_inv hz st \<Longrightarrow> hw_inv hz (snd (sid_pal_timer_cancel t st))"
  by (auto simp: sid_pal_timer_cancel_def list_delete_inv list_delete_hw split: option.splits)

lemma deinit_inv:
  "timer_inv st \<Longrightarrow> timer_inv (snd (sid_pal_timer_deinit t st))"
  "timer_inv st \<Longrightarrow> hw_inv hz st \<Longrightarrow> hw_inv hz (snd (sid_pal_timer_deinit t st))"
  by (auto simp: sid_pal_timer_deinit_def alarm_of_def intro!: timer_inv_upd hw_inv_upd list_delete_inv list_delete_hw
      split: option.splits)

lemma init_inv:
  assumes "timer_inv st" "\<not> sid_pal_timer_is_armed t st"
  shows "timer_inv (snd (sid_pal_timer_init t c st))"
    and "hw_inv hz st \<Longrightarrow> hw_inv hz (snd (sid_pal_timer_init t c st))"
proof -
  have "timer_inv (upd_timer u f st)" if u: "u \<notin> set (tlist st)" and f: "\<And>x. \<not> node_linked (f x)" for u f
  proof -
    have "map (alarm_of (upd_timer u f st)) (tlist st) = map (alarm_of st) (tlist st)" using u by auto
    then have "sorted (map (alarm_of (upd_timer u f st)) (tlist st))"
      using assms(1) unfolding timer_inv_def by metis
    with assms(1) u f show ?thesis unfolding timer_inv_def by simp
  qed
  with assms show "timer_inv (snd (sid_pal_timer_init t c st))"
    "hw_inv hz st \<Longrightarrow> hw_inv hz (snd (sid_pal_timer_init t c st))"
    by (auto simp: sid_pal_timer_init_def sid_pal_timer_is_armed_def sid_pal_timer_list_in_list_def timer_inv_def
        split: option.splits intro!: hw_inv_upd)
qed

lemma run_call_inv: "time_ops_ok ops \<Longrightarrow> timer_inv st \<Longrightarrow> timer_inv (run_call ops hz c st)"
  by (cases c) (simp_all add: arm_inv cancel_inv deinit_inv)

lemma run_calls_inv: "time_ops_ok ops \<Longrightarrow> timer_inv st \<Longrightarrow> timer_inv (fold (run_call ops hz) cs st)"
  by (induction cs arbitrary: st) (auto intro: run_call_inv)

lemma fetch_inv:
  assumes "timer_inv st" "sid_pal_timer_list_fetch ops now st = (r, st')"
  shows "timer_inv st' \<and> (\<forall>t. r = Some t \<longrightarrow> t \<notin> set (tlist st'))"
  using assms by (auto simp: sid_pal_timer_list_fetch_def timer_inv_def split: list.splits if_splits)

lemma timer_inv_called: "timer_inv (st\<lparr>called := c\<rparr>) = timer_inv st"
  by (simp add: timer_inv_def)

lemma expire_step_inv:
  assumes ops: "time_ops_ok ops" and inv: "timer_inv st" and f: "sid_pal_timer_list_fetch ops now st = (Some t, st1)"
  shows "timer_inv (timer_fire ops hz cb t st1)"
  using fetch_inv [OF inv f]
  by (auto simp: timer_fire_def timer_callback_def timer_inv_called Let_def
      intro!: run_calls_inv [OF ops] list_insert_inv [OF ops] timer_inv_upd)

lemma expire_loop_inv:
  assumes ops: "time_ops_ok ops" and r: "timer_expire_loop ops hz cb now st = Some st'" and inv: "timer_inv st"
  shows "timer_inv st' \<and> (\<forall>t \<in> set (tlist st'). now < alarm_of st' t)"
proof -
  have gt: "sid_time_gt ops x y \<longleftrightarrow> y < x" for x y using ops by (simp add: time_ops_ok_def)
  let ?P = "\<lambda>o' h cb' n st r. o' = ops \<longrightarrow> h = hz \<longrightarrow> timer_inv st \<longrightarrow>
    timer_inv r \<and> (\<forall>t \<in> set (tlist r). n < alarm_of r t)"
  have "?P ops hz cb now st st'"
  proof (rule timer_expire_loop.raw_induct [where P = ?P, OF _ r])
    fix loop o' h cb' n st r
    assume IH: "\<And>o' h cb' n st r. loop o' h cb' n st = Some r \<Longrightarrow> ?P o' h cb' n st r"
      and eq: "(case sid_pal_timer_list_fetch o' n st of (None, st1) \<Rightarrow> Some st1
        | (Some t, st1) \<Rightarrow> loop o' h cb' n (timer_fire o' h cb' t st1)) = Some r"
    show "?P o' h cb' n st r"
    proof (intro impI)
      assume o: "o' = ops" "h = hz" and inv: "timer_inv st"
      obtain r1 st1 where f: "sid_pal_timer_list_fetch ops n st = (r1, st1)" by fastforce
      show "timer_inv r \<and> (\<forall>t \<in> set (tlist r). n < alarm_of r t)"
      proof (cases r1)
        case None
        have "st1 = st" "\<forall>t \<in> set (tlist st). n < alarm_of st t"
          using f None inv by (auto simp: sid_pal_timer_list_fetch_def timer_inv_def gt split: list.splits if_splits)
        with eq f None inv show ?thesis by (auto simp: o)
      next
        case (Some t)
        have "timer_inv (timer_fire ops hz cb' t st1)" using expire_step_inv [OF ops inv] f Some by simp
        moreover have "loop ops hz cb' n (timer_fire ops hz cb' t st1) = Some r" using eq f Some by (simp add: o)
        ultimately show ?thesis using IH [of ops hz cb' n _ r] by simp
      qed
    qed
  qed
  with inv show ?thesis by simp
qed

lemma handler_inv:
  assumes "time_ops_ok ops" "timer_inv st" "sid_timer_handler ops hz cb up st = Some st'"
  shows "timer_inv st' \<and> hw_inv hz st'"
proof -
  obtain b where l: "timer_expire_loop ops hz cb (sid_pal_uptime_now hz up) (st\<lparr>hw := None\<rparr>) = Some b"
    and st': "st' = sid_timer_start hz (sid_pal_timer_list_get_next_schedule b) b"
    using assms(3) by (auto simp: sid_timer_handler_def sid_pal_timer_event_callback_def)
  have "timer_inv b" using expire_loop_inv [OF assms(1) l] assms(2) by (simp add: timer_inv_def)
  then show ?thesis
    by (auto simp: st' timer_start_conv timer_inv_def hw_inv_def sid_pal_timer_list_get_next_schedule_def split: list.splits)
qed

lemma timer_step_inv:
  assumes "time_ops_ok ops" "timer_step ops hz st st'" "timer_inv st" "hw_inv hz st"
  shows "timer_inv st' \<and> hw_inv hz st'"
  using assms(2)
proof cases
  case expire
  with assms(1,3) show ?thesis using handler_inv by auto
qed (use assms(1,3,4) init_inv arm_inv deinit_inv cancel_inv in \<open>metis snd_conv\<close>)+

lemma timer_reach_inv:
  assumes "time_ops_ok ops" "timer_reach ops hz st"
  shows "timer_inv st \<and> hw_inv hz st"
  using assms(2)
proof (induction rule: timer_reach.induct)
  case (start st)
  then show ?case by (simp add: timer_inv_def hw_inv_def)
qed (use timer_step_inv [OF assms(1)] in blast)

lemma sorted_take_filter:
  fixes f :: "'a \<Rightarrow> 'b::linorder"
  assumes "sorted (map f l)"
  shows "takeWhile (\<lambda>t. f t \<le> n) l = filter (\<lambda>t. f t \<le> n) l \<and> dropWhile (\<lambda>t. f t \<le> n) l = filter (\<lambda>t. n < f t) l"
  using assms
proof (induction l)
  case (Cons x l)
  show ?case
  proof (cases "f x \<le> n")
    case True
    with Cons show ?thesis by simp
  next
    case False
    with Cons.prems have "\<forall>y \<in> set l. n < f y" by auto
    then have "filter (\<lambda>t. f t \<le> n) l = []" "filter (\<lambda>t. n < f t) l = l"
      by (simp_all add: filter_empty_conv filter_id_conv not_le)
    with False show ?thesis by simp
  qed
qed simp

text \<open>
  C14. In every state that calls and expiries can reach: no timer is twice in the list, a
  timer is armed exactly when it is in the list, the list is ordered by alarm, and while it
  is not empty the kernel timer is running and set for a time no later than the first alarm,
  so no armed timer is forgotten.
\<close>

theorem timer_reachable_inv:
  assumes "time_ops_ok ops" "timer_reach ops hz st"
  shows "distinct (tlist st) \<and> (\<forall>t. sid_pal_timer_is_armed (Some t) st \<longleftrightarrow> t \<in> set (tlist st)) \<and>
    sorted (map (alarm_of st) (tlist st)) \<and>
    (tlist st \<noteq> [] \<longrightarrow> (\<exists>a. a \<le> alarm_of st (hd (tlist st)) \<and> hw st = Some (ticks_of hz a)))"
  using timer_reach_inv [OF assms]
  by (simp add: timer_inv_def hw_inv_def sid_pal_timer_is_armed_def sid_pal_timer_list_in_list_def)

section \<open>A concrete clock\<close>

text \<open>The documented operations, on nanoseconds.\<close>

definition ns_time :: "nat \<Rightarrow> sid_timespec" where
  "ns_time n = Timespec (of_nat (n div 1000000000)) (of_nat (n mod 1000000000))"

definition ns_ops :: time_ops where
  "ns_ops = \<lparr>sid_time_gt = (\<lambda>a b. b < a), sid_time_sub = (\<lambda>a b. ns_time (time_ns a - time_ns b)),
     sid_time_add = (\<lambda>a b. ns_time (time_ns a + time_ns b)), sid_time_is_infinity = (\<lambda>a. a = SID_TIME_INFINITY)\<rparr>"

lemma ns_time_of:
  assumes "n < 2 ^ 32 * 1000000000"
  shows "time_ns (ns_time n) = n" "time_normal (ns_time n)"
proof -
  have "n mod 1000000000 < 1000000000" by simp
  then have "unat (of_nat (n mod 1000000000) :: u32) = n mod 1000000000"
    by (subst unat_of_nat, subst mod_less) auto
  moreover have "n div 1000000000 < 4294967296" using assms by auto
  then have "unat (of_nat (n div 1000000000) :: u32) = n div 1000000000"
    by (subst unat_of_nat, subst mod_less) auto
  ultimately show "time_ns (ns_time n) = n" "time_normal (ns_time n)"
    by (simp_all add: ns_time_def time_ns_def time_normal_def)
qed

lemma ns_ops_ok: "time_ops_ok ns_ops"
  by (auto simp: time_ops_ok_def ns_ops_def ns_time_of)

section \<open>Order and nanoseconds\<close>

lemma time_le_ns: "time_normal a \<Longrightarrow> time_normal b \<Longrightarrow> a \<le> b \<longleftrightarrow> time_ns a \<le> time_ns b"
  by (cases a; cases b) (auto simp: less_eq_sid_timespec_def time_ns_def time_normal_def word_less_nat_alt word_le_nat_alt
      word_unat_eq_iff)

lemma time_ns_inj: "time_normal a \<Longrightarrow> time_normal b \<Longrightarrow> time_ns a = time_ns b \<Longrightarrow> a = b"
  using time_le_ns [of a b] time_le_ns [of b a] by simp

lemma time_add:
  assumes "time_ops_ok ops" "time_normal a" "time_normal b" "time_ns a + time_ns b < 2 ^ 32 * 1000000000"
  shows "time_ns (sid_time_add ops a b) = time_ns a + time_ns b" "time_normal (sid_time_add ops a b)"
  using assms unfolding time_ops_ok_def by blast+

section \<open>Example states\<close>

text \<open>No timer armed; then a timer at one second, and one with the given alarm and period.\<close>

definition timer_idle :: timer_state where
  "timer_idle = \<lparr>timers = (\<lambda>_. \<lparr>alarm = SID_TIME_INFINITY, period = SID_TIME_INFINITY, node_linked = False,
     has_callback = True, tolerance = Timespec 0 0\<rparr>), tlist = [], hw = None, called = []\<rparr>"

definition timer_one :: "sid_timespec option \<Rightarrow> timer_state" where
  "timer_one p = snd (sid_pal_timer_arm ns_ops 32768 (Some 0) SID_PAL_TIMER_PRIO_CLASS_PRECISE (Some (Timespec 1 0)) p timer_idle)"

definition timer_two :: "sid_timespec option \<Rightarrow> timer_state" where
  "timer_two p = snd (sid_pal_timer_arm ns_ops 32768 (Some 2) SID_PAL_TIMER_PRIO_CLASS_LOWPOWER (Some (Timespec 5 0)) None (timer_one p))"

lemma timer_examples_reach: "timer_reach ns_ops 32768 (timer_one p)" "timer_reach ns_ops 32768 (timer_two p)"
proof -
  have "timer_reach ns_ops 32768 timer_idle" by (rule timer_reach.start) (simp_all add: timer_idle_def)
  then show one: "timer_reach ns_ops 32768 (timer_one p)"
    unfolding timer_one_def by (rule timer_reach.step) (rule timer_step.arm, rule prod.collapse [symmetric])
  then show "timer_reach ns_ops 32768 (timer_two p)"
    unfolding timer_two_def by (rule timer_reach.step) (rule timer_step.arm, rule prod.collapse [symmetric])
qed

lemma timer_one_conv:
  "tlist (timer_one p) = [0]" "hw (timer_one p) = Some 32768" "called (timer_one p) = []"
  "timers (timer_one p) 0 = \<lparr>alarm = Timespec 1 0, period = (case p of None \<Rightarrow> SID_TIME_INFINITY | Some q \<Rightarrow> q),
     node_linked = True, has_callback = True, tolerance = Timespec 0 0\<rparr>"
  by (simp_all add: timer_one_def timer_idle_def sid_pal_timer_arm_def sid_pal_timer_is_armed_def
      sid_pal_timer_list_in_list_def sid_pal_timer_list_insert_def upd_timer_def alarm_of_def Let_def
      sid_timer_start_def ceil_ticks_def)

lemma timer_two_conv:
  "tlist (timer_two p) = [0, 2]" "alarm_of (timer_two p) 0 = Timespec 1 0" "alarm_of (timer_two p) 2 = Timespec 5 0"
  "hw (timer_two p) = Some 32768"
  "period (timers (timer_two p) 0) = (case p of None \<Rightarrow> SID_TIME_INFINITY | Some q \<Rightarrow> q)"
  "period (timers (timer_two p) 2) = SID_TIME_INFINITY" "has_callback (timers (timer_two p) 0)" "called (timer_two p) = []"
proof -
  have one: "timers (timer_one p) 2 = timers timer_idle 2"
    by (simp add: timer_one_def sid_pal_timer_arm_def sid_pal_timer_is_armed_def timer_idle_def
        sid_pal_timer_list_in_list_def sid_pal_timer_list_insert_def upd_timer_def Let_def sid_timer_start_def)
  show "tlist (timer_two p) = [0, 2]" "alarm_of (timer_two p) 0 = Timespec 1 0" "alarm_of (timer_two p) 2 = Timespec 5 0"
    "hw (timer_two p) = Some 32768" "period (timers (timer_two p) 0) = (case p of None \<Rightarrow> SID_TIME_INFINITY | Some q \<Rightarrow> q)"
    "period (timers (timer_two p) 2) = SID_TIME_INFINITY" "has_callback (timers (timer_two p) 0)" "called (timer_two p) = []"
    by (simp_all add: timer_two_def one timer_one_conv sid_pal_timer_arm_def sid_pal_timer_is_armed_def timer_idle_def
        sid_pal_timer_list_in_list_def sid_pal_timer_list_insert_def upd_timer_def alarm_of_def Let_def
        ns_ops_def less_sid_timespec_def)
qed

theorem timer_reachable_inv_witness:
  "tlist (timer_two None) = [0, 2] \<and> hw (timer_two None) = Some 32768 \<and>
   sid_pal_timer_is_armed (Some 2) (timer_two None) \<and> \<not> sid_pal_timer_is_armed (Some 3) (timer_two None)"
  using timer_reachable_inv [OF ns_ops_ok timer_examples_reach(2) [of None]] by (simp add: timer_two_conv)

end
