(* ===== verification/Timer_Expiry.thy ===== *)
theory Timer_Expiry
  imports Timer_Props
begin

text \<open>
  What an expiry of the kernel timer does: whose callbacks it invokes, in which order, and when
  the loop of the event callback ends.
\<close>

section \<open>One round\<close>

lemma gt_conv: "time_ops_ok ops \<Longrightarrow> sid_time_gt ops x y \<longleftrightarrow> y < x"
  by (simp add: time_ops_ok_def)

lemma inf_conv: "time_ops_ok ops \<Longrightarrow> sid_time_is_infinity ops x \<longleftrightarrow> x = SID_TIME_INFINITY"
  by (simp add: time_ops_ok_def)

lemma expire_none:
  "time_ops_ok ops \<Longrightarrow> tlist st = [] \<or> now < alarm_of st (hd (tlist st)) \<Longrightarrow>
   timer_expire_loop ops hz cb now st = Some st"
  by (subst timer_expire_loop.simps) (auto simp: sid_pal_timer_list_fetch_def gt_conv split: list.splits)

definition unlink_head :: "timer_id \<Rightarrow> timer_id list \<Rightarrow> timer_state \<Rightarrow> timer_state" where
  "unlink_head t ts st = upd_timer t (\<lambda>x. x\<lparr>node_linked := False\<rparr>) (st\<lparr>tlist := ts\<rparr>)"

lemma unlink_head_simps [simp]:
  "tlist (unlink_head t ts st) = ts" "alarm_of (unlink_head t ts st) = alarm_of st"
  "timers (unlink_head t ts st) u = (if u = t then (timers st t)\<lparr>node_linked := False\<rparr> else timers st u)"
  "called (unlink_head t ts st) = called st"
  by (simp_all add: unlink_head_def)

lemma expire_some:
  assumes "time_ops_ok ops" "tlist st = t # ts" "alarm_of st t \<le> now"
  shows "timer_expire_loop ops hz cb now st =
    timer_expire_loop ops hz cb now (timer_fire ops hz cb t (unlink_head t ts st))"
  using assms
  by (subst timer_expire_loop.simps)
    (simp add: sid_pal_timer_list_fetch_def gt_conv unlink_head_def not_less)

text \<open>A round is the insertion of a periodic timer, then the callback.\<close>

definition timer_again :: "time_ops \<Rightarrow> nat \<Rightarrow> timer_id \<Rightarrow> timer_state \<Rightarrow> timer_state" where
  "timer_again ops hz t st =
     (if period (timers st t) = SID_TIME_INFINITY then st
      else sid_pal_timer_list_insert ops hz t
        (upd_timer t (\<lambda>x. x\<lparr>alarm := sid_time_add ops (alarm x) (period x)\<rparr>) st))"

lemma timer_insert_frame [simp]:
  "has_callback (timers (sid_pal_timer_list_insert ops hz t st) u) = has_callback (timers st u)"
  "period (timers (sid_pal_timer_list_insert ops hz t st) u) = period (timers st u)"
  "called (sid_pal_timer_list_insert ops hz t st) = called st"
  by (simp_all add: sid_pal_timer_list_insert_def Let_def timer_start_conv split: prod.splits)

lemma timer_again_frame [simp]:
  "has_callback (timers (timer_again ops hz t st) u) = has_callback (timers st u)"
  "called (timer_again ops hz t st) = called st"
  by (simp_all add: timer_again_def)

lemma timer_fire_again:
  "time_ops_ok ops \<Longrightarrow> timer_fire ops hz cb t st =
     (if has_callback (timers st t) then timer_callback ops hz cb t (timer_again ops hz t st) else timer_again ops hz t st)"
  by (simp add: timer_fire_def inf_conv timer_again_def Let_def)

section \<open>One-shot timers\<close>

lemma fire_one_shot:
  "time_ops_ok ops \<Longrightarrow> cb t = [] \<Longrightarrow> period (timers st t) = SID_TIME_INFINITY \<Longrightarrow>
   timer_fire ops hz cb t st = (if has_callback (timers st t) then st\<lparr>called := called st @ [t]\<rparr> else st)"
  by (simp add: timer_fire_again timer_callback_def timer_again_def)

lemma expire_one_shots:
  assumes ops: "time_ops_ok ops" and cb: "\<And>t. cb t = []"
    and one: "\<forall>t \<in> set (tlist st). period (timers st t) = SID_TIME_INFINITY" and d: "distinct (tlist st)"
  shows "\<exists>st'. timer_expire_loop ops hz cb now st = Some st' \<and>
    called st' = called st @ [t \<leftarrow> takeWhile (\<lambda>t. alarm_of st t \<le> now) (tlist st). has_callback (timers st t)] \<and>
    tlist st' = dropWhile (\<lambda>t. alarm_of st t \<le> now) (tlist st) \<and> alarm_of st' = alarm_of st \<and>
    (\<forall>u. node_linked (timers st' u) \<longleftrightarrow>
       node_linked (timers st u) \<and> u \<notin> set (takeWhile (\<lambda>t. alarm_of st t \<le> now) (tlist st)))"
  using one d
proof (induction "tlist st" arbitrary: st)
  case Nil
  then show ?case using expire_none [OF ops, of st] by simp
next
  case (Cons t ts)
  note l = Cons.hyps(2) [symmetric]
  show ?case
  proof (cases "alarm_of st t \<le> now")
    case False
    then show ?thesis using expire_none [OF ops, of st] by (auto simp: l)
  next
    case True
    let ?u = "unlink_head t ts st"
    let ?s = "if has_callback (timers st t) then ?u\<lparr>called := called st @ [t]\<rparr> else ?u"
    let ?due = "takeWhile (\<lambda>t. alarm_of st t \<le> now) ts"
    have fire: "timer_fire ops hz cb t ?u = ?s" using Cons.prems l by (simp add: fire_one_shot [OF ops cb])
    have s: "tlist ?s = ts" "alarm_of ?s = alarm_of st" "timers ?s = timers ?u"
      "called ?s = called st @ (if has_callback (timers st t) then [t] else [])" by simp_all
    have per: "\<forall>u \<in> set ts. period (timers ?s u) = SID_TIME_INFINITY" using Cons.prems(1) l by auto
    have "distinct ts" using Cons.prems(2) l by simp
    then obtain st' where st': "timer_expire_loop ops hz cb now ?s = Some st'"
      "called st' = called ?s @ [t \<leftarrow> ?due. has_callback (timers ?s t)]"
      "tlist st' = dropWhile (\<lambda>t. alarm_of st t \<le> now) ts" "alarm_of st' = alarm_of st"
      "\<forall>u. node_linked (timers st' u) \<longleftrightarrow> node_linked (timers ?s u) \<and> u \<notin> set ?due"
      using Cons.hyps(1) [of ?s] per unfolding s by auto
    have cbs: "[t \<leftarrow> ?due. has_callback (timers ?s t)] = [t \<leftarrow> ?due. has_callback (timers st t)]"
      unfolding s(3) by (rule filter_cong) simp_all
    show ?thesis
    proof (intro exI [of _ st'] conjI)
      show "timer_expire_loop ops hz cb now st = Some st'"
        using expire_some [OF ops l True, of hz cb] st'(1) by (simp only: fire)
      show "called st' = called st @ [t \<leftarrow> takeWhile (\<lambda>t. alarm_of st t \<le> now) (tlist st). has_callback (timers st t)]"
        using True unfolding st'(2) cbs s(4) l by simp
    qed (use st'(3-5) True in \<open>auto simp: l s(3)\<close>)
  qed
qed

text \<open>
  C15. When the kernel timer expires over one-shot timers whose callbacks do not touch the
  timers, the callbacks of exactly the due timers are invoked, each once, in the order of the
  alarms (a timer without a callback is passed over); the due timers are no longer armed, the
  others stay armed with their alarms, and the kernel timer is set for the next alarm (or
  infinity).
\<close>

theorem timer_expiry_one_shot:
  assumes "time_ops_ok ops" "timer_reach ops hz st" "\<forall>t. cb t = []"
    and "\<forall>t \<in> set (tlist st). period (timers st t) = SID_TIME_INFINITY"
    and "now = sid_pal_uptime_now hz ticks"
  shows "\<exists>st'. sid_timer_handler ops hz cb ticks st = Some st' \<and>
    called st' = called st @ [t \<leftarrow> tlist st. alarm_of st t \<le> now \<and> has_callback (timers st t)] \<and>
    tlist st' = [t \<leftarrow> tlist st. now < alarm_of st t] \<and> alarm_of st' = alarm_of st \<and>
    (\<forall>t. sid_pal_timer_is_armed (Some t) st' \<longleftrightarrow> sid_pal_timer_is_armed (Some t) st \<and> now < alarm_of st t) \<and>
    hw st' = Some (ticks_of hz (sid_pal_timer_list_get_next_schedule st'))"
proof -
  let ?p = "\<lambda>t. alarm_of st t \<le> now" and ?s = "st\<lparr>hw := None\<rparr>"
  have inv: "timer_inv st" using timer_reach_inv [OF assms(1,2)] by simp
  have tk: "takeWhile ?p (tlist st) = filter ?p (tlist st)" "dropWhile ?p (tlist st) = [t \<leftarrow> tlist st. now < alarm_of st t]"
    using inv sorted_take_filter [of "alarm_of st" "tlist st" now] by (auto simp: timer_inv_def)
  obtain b where b: "timer_expire_loop ops hz cb now ?s = Some b"
      "called b = called st @ [t \<leftarrow> filter ?p (tlist st). has_callback (timers st t)]"
      "tlist b = [t \<leftarrow> tlist st. now < alarm_of st t]" "alarm_of b = alarm_of st"
      "\<forall>u. node_linked (timers b u) \<longleftrightarrow> node_linked (timers st u) \<and> u \<notin> set (filter ?p (tlist st))"
    using expire_one_shots [OF assms(1), of cb ?s hz now] assms(3,4) inv tk by (auto simp: timer_inv_def)
  let ?st' = "sid_timer_start hz (sid_pal_timer_list_get_next_schedule b) b"
  have "sid_timer_handler ops hz cb ticks st = Some ?st'"
    using b(1) by (simp add: sid_timer_handler_def sid_pal_timer_event_callback_def assms(5))
  moreover have "\<forall>t. sid_pal_timer_is_armed (Some t) ?st' \<longleftrightarrow> sid_pal_timer_is_armed (Some t) st \<and> now < alarm_of st t"
    using b(5) inv
    by (auto simp: timer_start_conv sid_pal_timer_is_armed_def sid_pal_timer_list_in_list_def timer_inv_def not_le)
  moreover have "sid_pal_timer_list_get_next_schedule ?st' = sid_pal_timer_list_get_next_schedule b"
    by (simp add: timer_start_conv sid_pal_timer_list_get_next_schedule_def split: list.splits)
  moreover have "called ?st' = called st @ [t \<leftarrow> tlist st. alarm_of st t \<le> now \<and> has_callback (timers st t)]"
    using b(2) by (simp add: timer_start_conv conj_commute)
  ultimately show ?thesis using b(3,4) by (intro exI [of _ ?st']) (simp add: timer_start_conv)
qed

lemma uptime_2s: "sid_pal_uptime_now 32768 65536 = Timespec 2 0"
  by (simp add: sid_pal_uptime_now_def zephyr_uptime_ns_def Let_def word_unat_eq_iff unat_div unsigned_ucast_eq take_bit_eq_mod
      unat_word_ariths)

theorem timer_expiry_one_shot_witness:
  "\<exists>st'. sid_timer_handler ns_ops 32768 (\<lambda>_. []) 65536 (timer_two None) = Some st' \<and> called st' = [0] \<and> tlist st' = [2]"
  using timer_expiry_one_shot [OF ns_ops_ok timer_examples_reach(2) [of None], of "\<lambda>_. []" "Timespec 2 0" 65536]
  by (auto simp: timer_two_conv uptime_2s less_eq_sid_timespec_def less_sid_timespec_def)


section \<open>Periodic timers\<close>

lemma insert_walk_alarm:
  "timer_insert_walk ops al t a tol r l = (l', a', r') \<Longrightarrow> a' = a \<or> a' \<in> al ` set l"
  by (induction l arbitrary: r l' a' r') (auto split: if_splits prod.splits)

text \<open>What an insertion changes: the list gets the timer, and only its alarm moves, to a later or equal one.\<close>

lemma list_insert_frame:
  assumes ops: "time_ops_ok ops" and inv: "timer_inv st" and t: "t \<notin> set (tlist st)"
  obtains a where "set (tlist (sid_pal_timer_list_insert ops hz t st)) = insert t (set (tlist st))"
    "alarm_of (sid_pal_timer_list_insert ops hz t st) = (alarm_of st)(t := a)"
    "\<And>u. period (timers (sid_pal_timer_list_insert ops hz t st) u) = period (timers st u)"
    "alarm_of st t \<le> a" "a = alarm_of st t \<or> a \<in> alarm_of st ` set (tlist st)"
proof -
  obtain l a r where w: "timer_insert_walk ops (alarm_of st) t (alarm_of st t) (tolerance (timers st t)) True (tlist st) = (l, a, r)"
    by (metis prod_cases3)
  show thesis
  proof (rule that [of a])
    show "set (tlist (sid_pal_timer_list_insert ops hz t st)) = insert t (set (tlist st))" "alarm_of st t \<le> a"
      using insert_walk [OF ops w t] inv
      by (simp_all add: timer_inv_def sid_pal_timer_list_insert_def w Let_def timer_start_conv)
    show "alarm_of (sid_pal_timer_list_insert ops hz t st) = (alarm_of st)(t := a)"
      by (auto simp: sid_pal_timer_list_insert_def w Let_def timer_start_conv fun_eq_iff)
    show "period (timers (sid_pal_timer_list_insert ops hz t st) u) = period (timers st u)" for u
      by (simp add: sid_pal_timer_list_insert_def w Let_def timer_start_conv)
    show "a = alarm_of st t \<or> a \<in> alarm_of st ` set (tlist st)" by (rule insert_walk_alarm [OF w])
  qed
qed

text \<open>
  Timers whose next alarm can be computed at the time \<open>now\<close>: proper times, and a period that is
  infinite or positive and does not leave the range of the clock.
\<close>

definition period_ok :: "sid_timespec \<Rightarrow> sid_timespec \<Rightarrow> bool" where
  "period_ok now p \<longleftrightarrow>
     p = SID_TIME_INFINITY \<or> time_normal p \<and> 0 < time_ns p \<and> time_ns now + time_ns p < 2 ^ 32 * 1000000000"

definition timers_ok :: "sid_timespec \<Rightarrow> timer_state \<Rightarrow> bool" where
  "timers_ok now st \<longleftrightarrow> (\<forall>t \<in> set (tlist st). time_normal (alarm_of st t) \<and> period_ok now (period (timers st t)))"

definition due_measure :: "sid_timespec \<Rightarrow> timer_state \<Rightarrow> nat" where
  "due_measure now st = (\<Sum>t \<in> set (tlist st). Suc (time_ns now) - time_ns (alarm_of st t))"

lemma again_decreases:
  fixes hz :: nat
  assumes ops: "time_ops_ok ops" and inv: "timer_inv st" and ok: "timers_ok now st"
    and l: "tlist st = t # ts" and due: "alarm_of st t \<le> now" and now: "time_normal now"
  defines "st' \<equiv> timer_again ops hz t (unlink_head t ts st)"
  shows "timer_inv st' \<and> timers_ok now st' \<and> due_measure now st' < due_measure now st \<and>
    (\<forall>u \<in> set ts. u \<in> set (tlist st') \<and> alarm_of st' u = alarm_of st u)"
proof -
  let ?s = "unlink_head t ts st" and ?al = "time_ns (alarm_of st t)"
  let ?rest = "\<Sum>u \<in> set ts. Suc (time_ns now) - time_ns (alarm_of st u)"
  have f: "sid_pal_timer_list_fetch ops now st = (Some t, ?s)"
    using due by (simp add: sid_pal_timer_list_fetch_def gt_conv [OF ops] l unlink_head_def not_less)
  have invs: "timer_inv ?s" and t: "t \<notin> set ts" using fetch_inv [OF inv f] by simp_all
  have nt: "time_normal (alarm_of st t)" and pt: "period_ok now (period (timers st t))"
    using ok l by (simp_all add: timers_ok_def)
  have le: "?al \<le> time_ns now" using due time_le_ns [OF nt now] by simp
  have m: "due_measure now st = (Suc (time_ns now) - ?al) + ?rest" using t by (simp add: due_measure_def l)
  show ?thesis
  proof (cases "period (timers st t) = SID_TIME_INFINITY")
    case True
    then have "st' = ?s" by (simp add: st'_def timer_again_def)
    with invs ok l t m le show ?thesis by (auto simp: timers_ok_def due_measure_def)
  next
    case False
    let ?p = "period (timers st t)"
    let ?u = "upd_timer t (\<lambda>x. x\<lparr>alarm := sid_time_add ops (alarm x) (period x)\<rparr>) ?s"
    have p: "time_normal ?p" "0 < time_ns ?p" "time_ns now + time_ns ?p < 2 ^ 32 * 1000000000"
      using False pt by (simp_all add: period_ok_def)
    have al: "alarm_of ?u = (alarm_of st)(t := sid_time_add ops (alarm_of st t) ?p)"
      by (auto simp: fun_eq_iff alarm_of_def)
    have st': "st' = sid_pal_timer_list_insert ops hz t ?u" using False by (simp add: st'_def timer_again_def)
    have sum: "time_ns (sid_time_add ops (alarm_of st t) ?p) = ?al + time_ns ?p" "time_normal (sid_time_add ops (alarm_of st t) ?p)"
      using le p(3) by (intro time_add [OF ops nt p(1)]; simp)+
    have invu: "timer_inv ?u" using invs t by (intro timer_inv_upd) auto
    then obtain a where a: "set (tlist st') = insert t (set ts)" "alarm_of st' = (alarm_of ?u)(t := a)"
        "\<And>u. period (timers st' u) = period (timers ?u u)" "alarm_of ?u t \<le> a"
        "a = alarm_of ?u t \<or> a \<in> alarm_of ?u ` set ts"
      using list_insert_frame [OF ops, of ?u t hz] t by (auto simp: st')
    have inv': "timer_inv st'" using list_insert_inv [OF ops invu] t by (simp add: st')
    have "time_normal a" using a(5) ok l t sum(2) unfolding al by (auto simp: timers_ok_def)
    then have "?al < time_ns a" using a(4) time_le_ns [OF sum(2)] sum(1) p(2) unfolding al by simp
    moreover have "due_measure now st' = (Suc (time_ns now) - time_ns a) + (\<Sum>u \<in> set ts. Suc (time_ns now) - time_ns (alarm_of st' u))"
      using t by (simp add: due_measure_def a(1,2))
    moreover have "(\<Sum>u \<in> set ts. Suc (time_ns now) - time_ns (alarm_of st' u)) = ?rest"
      using t by (intro sum.cong) (auto simp: a(2) al)
    ultimately have "due_measure now st' < due_measure now st" using m le by linarith
    moreover have "timers_ok now st'"
      using ok l t \<open>time_normal a\<close> pt by (auto simp: timers_ok_def a(1,2,3) al)
    moreover have "\<forall>u \<in> set ts. u \<in> set (tlist st') \<and> alarm_of st' u = alarm_of st u"
      using t by (auto simp: a(1,2) al)
    ultimately show ?thesis using inv' by blast
  qed
qed

section \<open>The calls of a callback\<close>

text \<open>
  Calls that make no timer due at \<open>now\<close>: they arm timers for later, or cancel or
  de-initialise them.
\<close>

fun call_later :: "sid_timespec \<Rightarrow> timer_call \<Rightarrow> bool" where
  "call_later now (CallArm t ty w p) \<longleftrightarrow>
     now < w \<and> time_normal w \<and> period_ok now (case p of None \<Rightarrow> SID_TIME_INFINITY | Some q \<Rightarrow> q)"
| "call_later now (CallCancel t) \<longleftrightarrow> True"
| "call_later now (CallDeinit t) \<longleftrightarrow> True"

text \<open>A timer that no such call takes out of the list stays due.\<close>

definition kept_due :: "timer_call list \<Rightarrow> timer_state \<Rightarrow> timer_state \<Rightarrow> bool" where
  "kept_due cs st st' \<longleftrightarrow>
     (\<forall>u \<in> set (tlist st). CallCancel u \<notin> set cs \<and> CallDeinit u \<notin> set cs \<longrightarrow>
        u \<in> set (tlist st') \<and> alarm_of st' u = alarm_of st u \<and>
        has_callback (timers st' u) = has_callback (timers st u))"

definition calls_ok :: "sid_timespec \<Rightarrow> timer_call list \<Rightarrow> timer_state \<Rightarrow> timer_state \<Rightarrow> bool" where
  "calls_ok now cs st st' \<longleftrightarrow> timer_inv st' \<and> timers_ok now st' \<and> due_measure now st' \<le> due_measure now st \<and>
     called st' = called st \<and> kept_due cs st st'"

lemma list_delete_calls_ok:
  assumes inv: "timer_inv st" and ok: "timers_ok now st" and t: "CallCancel t \<in> set cs \<or> CallDeinit t \<in> set cs"
  shows "calls_ok now cs st (sid_pal_timer_list_delete t st)"
proof -
  let ?st' = "sid_pal_timer_list_delete t st"
  have l: "set (tlist ?st') = set (tlist st) - {t}" "alarm_of ?st' = alarm_of st" "called ?st' = called st"
    "\<And>u. period (timers ?st' u) = period (timers st u)" "\<And>u. has_callback (timers ?st' u) = has_callback (timers st u)"
    using inv by (auto simp: sid_pal_timer_list_delete_def timer_inv_def)
  have "due_measure now ?st' \<le> due_measure now st"
    unfolding due_measure_def l(1,2) by (intro sum_mono2) auto
  then show ?thesis
    using list_delete_inv [OF inv] ok t by (auto simp: calls_ok_def kept_due_def timers_ok_def l)
qed

lemma arm_calls_ok:
  assumes ops: "time_ops_ok ops" and inv: "timer_inv st" and ok: "timers_ok now st" and now: "time_normal now"
    and c: "call_later now (CallArm t ty w p)"
  shows "calls_ok now cs st (run_call ops hz (CallArm t ty w p) st)"
proof (cases "node_linked (timers st t)")
  case True
  with inv ok show ?thesis
    by (simp add: calls_ok_def kept_due_def sid_pal_timer_arm_def sid_pal_timer_is_armed_def sid_pal_timer_list_in_list_def)
next
  case False
  let ?f = "\<lambda>x. x\<lparr>alarm := w, period := (case p of None \<Rightarrow> SID_TIME_INFINITY | Some q \<Rightarrow> q),
     tolerance := sid_pal_timer_get_tolerance ty\<rparr>"
  let ?u = "upd_timer t ?f st" and ?st' = "run_call ops hz (CallArm t ty w p) st"
  have t: "t \<notin> set (tlist st)" using False inv by (simp add: timer_inv_def)
  have st': "?st' = sid_pal_timer_list_insert ops hz t ?u"
    using False by (simp add: sid_pal_timer_arm_def sid_pal_timer_is_armed_def sid_pal_timer_list_in_list_def Let_def)
  have inv': "timer_inv ?st'" by (rule run_call_inv [OF ops inv])
  have al: "alarm_of ?u = (alarm_of st)(t := w)" by (auto simp: fun_eq_iff)
  have invu: "timer_inv ?u" using inv t by (intro timer_inv_upd) auto
  obtain a where a: "set (tlist ?st') = insert t (set (tlist st))" "alarm_of ?st' = (alarm_of st)(t := a)"
      "w \<le> a" "a = w \<or> a \<in> alarm_of ?u ` set (tlist st)"
    using list_insert_frame [OF ops invu, of t hz] t unfolding st' by (auto simp: al)
  have an: "time_normal a" using a(4) ok c t unfolding al by (auto simp: timers_ok_def)
  have "time_ns now < time_ns a"
    using time_le_ns [OF an now] a(3) c by (auto simp: not_le [symmetric])
  moreover have "(\<Sum>u \<in> set (tlist st). Suc (time_ns now) - time_ns (alarm_of ?st' u)) = due_measure now st"
    unfolding due_measure_def a(2) using t by (intro sum.cong) auto
  ultimately have "due_measure now ?st' = due_measure now st"
    using t unfolding due_measure_def [of now ?st'] a(1) by (simp add: a(2) del: run_call.simps)
  moreover have "timers_ok now ?st'"
    using ok an c t unfolding timers_ok_def a(1,2) unfolding st' by auto
  moreover have "kept_due cs st ?st'"
    using t unfolding kept_due_def a(1,2) unfolding st' by auto
  moreover have "called ?st' = called st" unfolding st' by simp
  ultimately show ?thesis using inv' unfolding calls_ok_def by (simp del: run_call.simps)
qed

lemma run_call_ok:
  assumes "time_ops_ok ops" "timer_inv st" "timers_ok now st" "time_normal now" "call_later now c" "c \<in> set cs"
  shows "calls_ok now cs st (run_call ops hz c st)"
proof (cases c)
  case (CallArm t ty w p)
  with assms show ?thesis using arm_calls_ok by blast
next
  case (CallCancel t)
  with assms show ?thesis by (simp add: sid_pal_timer_cancel_def list_delete_calls_ok)
next
  case (CallDeinit t)
  let ?d = "sid_pal_timer_list_delete t st"
  let ?st' = "upd_timer t (\<lambda>x. x\<lparr>has_callback := False\<rparr>) ?d"
  have d: "calls_ok now cs st ?d" using assms CallDeinit by (intro list_delete_calls_ok) auto
  have al: "alarm_of ?st' = alarm_of ?d" by (auto simp: fun_eq_iff alarm_of_def)
  have "timer_inv ?st'" using d by (intro timer_inv_upd) (auto simp: calls_ok_def alarm_of_def)
  then have "calls_ok now cs st ?st'"
    using d assms(6) CallDeinit unfolding calls_ok_def kept_due_def timers_ok_def due_measure_def al by auto
  with CallDeinit show ?thesis by (simp add: sid_pal_timer_deinit_def)
qed

lemma run_calls_ok:
  assumes "time_ops_ok ops" "time_normal now"
  shows "timer_inv st \<Longrightarrow> timers_ok now st \<Longrightarrow> \<forall>c \<in> set ds. call_later now c \<Longrightarrow> set ds \<subseteq> set cs \<Longrightarrow>
    calls_ok now cs st (fold (run_call ops hz) ds st)"
proof (induction ds arbitrary: st)
  case Nil
  then show ?case by (simp add: calls_ok_def kept_due_def)
next
  case (Cons c ds)
  let ?s = "run_call ops hz c st"
  have c: "calls_ok now cs st ?s" using Cons.prems by (intro run_call_ok [OF assms(1) _ _ assms(2)]) auto
  then have "calls_ok now cs ?s (fold (run_call ops hz) ds ?s)"
    using Cons.prems by (intro Cons.IH) (auto simp: calls_ok_def)
  with c show ?case by (auto simp: calls_ok_def kept_due_def)
qed

section \<open>When the loop ends\<close>

lemma fire_decreases:
  fixes hz :: nat
  assumes ops: "time_ops_ok ops" and cb: "\<forall>c \<in> set (cb t). call_later now c" and inv: "timer_inv st" and ok: "timers_ok now st"
    and l: "tlist st = t # ts" and due: "alarm_of st t \<le> now" and now: "time_normal now"
  defines "st' \<equiv> timer_fire ops hz cb t (unlink_head t ts st)"
  shows "timer_inv st' \<and> timers_ok now st' \<and> due_measure now st' < due_measure now st \<and>
    called st' = called st @ (if has_callback (timers st t) then [t] else []) \<and>
    (\<forall>u \<in> set ts. CallCancel u \<notin> set (cb t) \<and> CallDeinit u \<notin> set (cb t) \<longrightarrow>
       u \<in> set (tlist st') \<and> alarm_of st' u = alarm_of st u \<and> has_callback (timers st' u) = has_callback (timers st u))"
proof -
  let ?a = "timer_again ops hz t (unlink_head t ts st)"
  have a: "timer_inv ?a" "timers_ok now ?a" "due_measure now ?a < due_measure now st"
    "\<forall>u \<in> set ts. u \<in> set (tlist ?a) \<and> alarm_of ?a u = alarm_of st u"
    using again_decreases [OF ops inv ok l due now] by blast+
  show ?thesis
  proof (cases "has_callback (timers st t)")
    case False
    then have "st' = ?a" by (simp add: st'_def timer_fire_again [OF ops])
    with a False show ?thesis by auto
  next
    case True
    let ?b = "?a\<lparr>called := called st @ [t]\<rparr>"
    have st': "st' = fold (run_call ops hz) (cb t) ?b"
      using True by (simp add: st'_def timer_fire_again [OF ops] timer_callback_def)
    have "timer_inv ?b" "timers_ok now ?b" "due_measure now ?b = due_measure now ?a"
      using a(1,2) by (simp_all add: timer_inv_called timers_ok_def due_measure_def)
    then have "calls_ok now (cb t) ?b st'" "due_measure now ?b < due_measure now st"
      unfolding st' using cb a(3) by (auto intro!: run_calls_ok [OF ops now])
    with a(4) True show ?thesis by (auto simp: calls_ok_def kept_due_def)
  qed
qed

text \<open>The timers a callback never cancels or de-initialises.\<close>

definition undisturbed :: "(timer_id \<Rightarrow> timer_call list) \<Rightarrow> timer_id \<Rightarrow> bool" where
  "undisturbed cb t \<longleftrightarrow> (\<forall>u. CallCancel t \<notin> set (cb u) \<and> CallDeinit t \<notin> set (cb u))"

lemma expire_returns:
  assumes ops: "time_ops_ok ops" and cb: "\<forall>t. \<forall>c \<in> set (cb t). call_later now c" and now: "time_normal now"
    and "timer_inv st" "timers_ok now st"
  shows "\<exists>cbs st'. timer_expire_loop ops hz cb now st = Some st' \<and> called st' = called st @ cbs \<and>
    (\<forall>t \<in> set (tlist st). alarm_of st t \<le> now \<and> has_callback (timers st t) \<and> undisturbed cb t \<longrightarrow> t \<in> set cbs)"
  using assms(4,5)
proof (induction "due_measure now st" arbitrary: st rule: less_induct)
  case less
  show ?case
  proof (cases "tlist st = [] \<or> now < alarm_of st (hd (tlist st))")
    case True
    then have "\<forall>t \<in> set (tlist st). now < alarm_of st t"
      using less.prems(1) by (cases "tlist st") (auto simp: timer_inv_def intro: less_le_trans)
    then show ?thesis using expire_none [OF ops True, of hz cb] by (intro exI [of _ "[]"] exI [of _ st]) auto
  next
    case False
    then obtain t ts where l: "tlist st = t # ts" and due: "alarm_of st t \<le> now" by (cases "tlist st") auto
    let ?s = "timer_fire ops hz cb t (unlink_head t ts st)"
    let ?c = "if has_callback (timers st t) then [t] else []"
    have d: "timer_inv ?s" "timers_ok now ?s" "due_measure now ?s < due_measure now st" "called ?s = called st @ ?c"
      "\<forall>u \<in> set ts. CallCancel u \<notin> set (cb t) \<and> CallDeinit u \<notin> set (cb t) \<longrightarrow>
         u \<in> set (tlist ?s) \<and> alarm_of ?s u = alarm_of st u \<and> has_callback (timers ?s u) = has_callback (timers st u)"
      using fire_decreases [OF ops _ less.prems l due now, of cb hz] cb by blast+
    from less.hyps [OF d(3,1,2)] obtain cbs st' where
      r: "timer_expire_loop ops hz cb now ?s = Some st'" "called st' = called ?s @ cbs"
      "\<forall>u \<in> set (tlist ?s). alarm_of ?s u \<le> now \<and> has_callback (timers ?s u) \<and> undisturbed cb u \<longrightarrow> u \<in> set cbs"
      by blast
    have "\<forall>u \<in> set (tlist st). alarm_of st u \<le> now \<and> has_callback (timers st u) \<and> undisturbed cb u \<longrightarrow> u \<in> set (?c @ cbs)"
      using d(5) r(3) by (auto simp: l undisturbed_def)
    with r(1,2) d(4) show ?thesis
      using expire_some [OF ops l due, of hz cb] by (intro exI [of _ "?c @ cbs"] exI [of _ st']) simp
  qed
qed

section \<open>The clock\<close>

lemma unat_u32_up: "unat (ucast (x :: u32) :: u64) = unat x"
proof -
  have "unat x < 2 ^ 64" by (rule order_less_le_trans [OF unat_u32_lt]) simp
  then show ?thesis unfolding unsigned_ucast_eq take_bit_eq_mod by (intro mod_less) (simp del: unsigned_less)
qed

lemma uptime_now:
  assumes "n = ticks * 1000000000 div hz" "n < 2 ^ 32 * 1000000000"
  shows "time_ns (sid_pal_uptime_now hz ticks) = n \<and> time_normal (sid_pal_uptime_now hz ticks)"
proof -
  let ?up = "of_nat n :: u64"
  have n: "unat ?up = n" using assms(2) by (subst unat_of_nat, subst mod_less) auto
  have "n div 1000000000 < 2 ^ 32" using assms(2) by auto
  then have sec: "unat (ucast (?up div 1000000000) :: u32) = n div 1000000000"
    by (simp add: unsigned_ucast_eq take_bit_eq_mod unat_div n)
  then have "unat (ucast (ucast (?up div 1000000000) :: u32) :: u64) = n div 1000000000"
    by (simp only: unat_u32_up)
  then have mul: "unat (ucast (ucast (?up div 1000000000) :: u32) * 1000000000 :: u64) = n div 1000000000 * 1000000000"
    using assms(2) by (simp add: unat_word_ariths)
  then have "unat (?up - ucast (ucast (?up div 1000000000) :: u32) * 1000000000) = n - n div 1000000000 * 1000000000"
    by (subst unat_sub) (simp_all add: word_le_nat_alt n)
  also have "\<dots> = n mod 1000000000" by (simp add: modulo_nat_def)
  finally have "unat (ucast (?up - ucast (ucast (?up div 1000000000) :: u32) * 1000000000) :: u32) = n mod 1000000000"
    by (simp add: unsigned_ucast_eq take_bit_eq_mod)
  with sec show ?thesis
    by (simp add: sid_pal_uptime_now_def zephyr_uptime_ns_def Let_def time_ns_def time_normal_def assms(1) [symmetric])
qed

lemma ceil_ticks_bounds:
  assumes "0 < s"
  shows "x * hz \<le> ceil_ticks s hz x * s" "ceil_ticks s hz x * s < x * hz + s"
proof -
  let ?y = "x * hz + s - 1"
  have "?y div s * s + ?y mod s = ?y" by simp
  moreover have "?y mod s < s" using assms by simp
  ultimately have "x * hz \<le> ?y div s * s \<and> ?y div s * s < x * hz + s" using assms by linarith
  then show "x * hz \<le> ceil_ticks s hz x * s" "ceil_ticks s hz x * s < x * hz + s"
    by (simp_all add: ceil_ticks_def)
qed

text \<open>
  C18. The kernel timer is never set too early and at most two ticks late: when it expires
  for a time, at the tick it was set to or later, the uptime is not before that time, so the
  handler finds the timer due; and the setting is less than two ticks after it.
\<close>

theorem timer_start_bounds:
  assumes "sid_timer_start hz t st = st'" "0 < hz" "time_normal t"
    and "hw st' = Some k" "k \<le> ticks" "ticks * 1000000000 div hz < 2 ^ 32 * 1000000000"
  shows "t \<le> sid_pal_uptime_now hz ticks \<and>
    time_ns t * hz \<le> k * 1000000000 \<and> k * 1000000000 < time_ns t * hz + 2 * 1000000000"
proof -
  let ?k = "ticks_of hz t"
  have "unat (tv_nsec t) * hz \<le> ceil_ticks 1000000000 hz (unat (tv_nsec t)) * 1000000000"
    "ceil_ticks 1000000000 hz (unat (tv_nsec t)) * 1000000000 < unat (tv_nsec t) * hz + 1000000000"
    "unat (tv_sec t) * 1000 * hz \<le> ceil_ticks 1000 hz (unat (tv_sec t) * 1000) * 1000"
    "ceil_ticks 1000 hz (unat (tv_sec t) * 1000) * 1000 < unat (tv_sec t) * 1000 * hz + 1000"
    using ceil_ticks_bounds [where s = 1000000000 and x = "unat (tv_nsec t)" and hz = hz]
      ceil_ticks_bounds [where s = 1000 and x = "unat (tv_sec t) * 1000" and hz = hz]
    by auto
  then have b: "time_ns t * hz \<le> ?k * 1000000000" "?k * 1000000000 < time_ns t * hz + 2 * 1000000000"
    by (simp_all add: time_ns_def ticks_of_def algebra_simps)
  have k: "k = ?k" "?k \<le> ticks" using assms(1,4,5) by (auto simp: timer_start_conv)
  then have "time_ns t * hz \<le> ticks * 1000000000" using b(1) by linarith
  then have "time_ns t \<le> ticks * 1000000000 div hz" using assms(2) by (simp add: less_eq_div_iff_mult_less_eq)
  then have "t \<le> sid_pal_uptime_now hz ticks"
    using uptime_now [OF refl assms(6)] time_le_ns [OF assms(3)] by simp
  with b show ?thesis by (simp add: k)
qed

theorem timer_start_bounds_witness:
  "hw (sid_timer_start 32768 (Timespec 1 500000000) timer_idle) = Some 49152 \<and>
   Timespec 1 500000000 \<le> sid_pal_uptime_now 32768 49152"
proof -
  have hw: "hw (sid_timer_start 32768 (Timespec 1 500000000) timer_idle) = Some 49152"
    by (simp add: sid_timer_start_def ceil_ticks_def)
  show ?thesis
    using timer_start_bounds [OF refl _ _ hw, of 49152] hw by (simp add: time_normal_def)
qed

text \<open>
  C16. The handler returns, even when callbacks work on the timers, as long as they arm timers
  for later than the expiry (they may cancel and de-initialise any) and every period is
  infinite or positive: the callback of every timer that was due has been invoked, at least
  once, unless a callback cancels or de-initialises the timer; no timer that is still armed is
  due; and the kernel timer is set for the next alarm.
\<close>

theorem timer_handler_returns:
  assumes "time_ops_ok ops" "timer_reach ops hz st" "\<forall>t. \<forall>c \<in> set (cb t). call_later now c"
    and "now = sid_pal_uptime_now hz ticks" "ticks * 1000000000 div hz < 2 ^ 32 * 1000000000" "timers_ok now st"
  shows "\<exists>cbs st'. sid_timer_handler ops hz cb ticks st = Some st' \<and> called st' = called st @ cbs \<and>
    (\<forall>t \<in> set (tlist st). alarm_of st t \<le> now \<and> has_callback (timers st t) \<and> undisturbed cb t \<longrightarrow> t \<in> set cbs) \<and>
    (\<forall>t \<in> set (tlist st'). now < alarm_of st' t) \<and>
    hw st' = Some (ticks_of hz (sid_pal_timer_list_get_next_schedule st'))"
proof -
  let ?s = "st\<lparr>hw := None\<rparr>"
  have now: "time_normal now" using uptime_now [OF refl assms(5)] assms(4) by simp
  have inv: "timer_inv ?s" using timer_reach_inv [OF assms(1,2)] by (simp add: timer_inv_def)
  have "timers_ok now ?s" using assms(6) by (simp add: timers_ok_def)
  then obtain cbs b where b: "timer_expire_loop ops hz cb now ?s = Some b" "called b = called st @ cbs"
      "\<forall>t \<in> set (tlist st). alarm_of st t \<le> now \<and> has_callback (timers st t) \<and> undisturbed cb t \<longrightarrow> t \<in> set cbs"
    using expire_returns [OF assms(1,3) now inv, where hz = hz] by (auto simp del: split_paired_Ex)
  let ?st' = "sid_timer_start hz (sid_pal_timer_list_get_next_schedule b) b"
  have "sid_timer_handler ops hz cb ticks st = Some ?st'"
    using b(1) assms(4) by (simp add: sid_timer_handler_def sid_pal_timer_event_callback_def)
  moreover have "sid_pal_timer_list_get_next_schedule ?st' = sid_pal_timer_list_get_next_schedule b"
    by (simp add: timer_start_conv sid_pal_timer_list_get_next_schedule_def split: list.splits)
  ultimately show ?thesis
    using b(2,3) expire_loop_inv [OF assms(1) b(1) inv]
    by (intro exI [of _ cbs] exI [of _ ?st']) (simp add: timer_start_conv)
qed

text \<open>The callback of the periodic timer 0 arms timer 3 and cancels timer 2.\<close>

definition busy_cb :: "timer_id \<Rightarrow> timer_call list" where
  "busy_cb t =
     (if t = 0 then [CallArm 3 SID_PAL_TIMER_PRIO_CLASS_PRECISE (Timespec 9 0) None, CallCancel 2] else [])"

theorem timer_handler_returns_witness:
  "\<exists>cbs st'. sid_timer_handler ns_ops 32768 busy_cb 65536 (timer_two (Some (Timespec 1 0))) = Some st' \<and>
     called st' = cbs \<and> 0 \<in> set cbs"
proof -
  let ?st = "timer_two (Some (Timespec 1 0))"
  have "timers_ok (Timespec 2 0) ?st"
    by (simp add: timers_ok_def timer_two_conv period_ok_def time_normal_def time_ns_def)
  moreover have "\<forall>t. \<forall>c \<in> set (busy_cb t). call_later (Timespec 2 0) c"
    by (simp add: busy_cb_def less_sid_timespec_def time_normal_def period_ok_def)
  moreover have "65536 * 1000000000 div 32768 < (2 :: nat) ^ 32 * 1000000000" by simp
  moreover have "alarm_of ?st 0 \<le> Timespec 2 0 \<and> has_callback (timers ?st 0) \<and> undisturbed busy_cb 0 \<and> 0 \<in> set (tlist ?st)"
    by (simp add: busy_cb_def undisturbed_def timer_two_conv less_eq_sid_timespec_def)
  ultimately show ?thesis
    using timer_handler_returns
      [OF ns_ops_ok timer_examples_reach(2) [of "Some (Timespec 1 0)"], of busy_cb "Timespec 2 0" 65536, OF _ uptime_2s [symmetric]]
    by (elim meta_impE exE conjE; simp only: timer_two_conv(8) append_Nil; blast)
qed

text \<open>A timer alone in the list whose period is zero is inserted with the same alarm again.\<close>

definition zero_timer :: "sid_timespec \<Rightarrow> timer_id \<Rightarrow> timer_state \<Rightarrow> bool" where
  "zero_timer now t st \<longleftrightarrow>
     tlist st = [t] \<and> period (timers st t) = Timespec 0 0 \<and> time_normal (alarm_of st t) \<and> alarm_of st t \<le> now"

lemma fire_zero:
  assumes ops: "time_ops_ok ops" and cb: "cb t = []" and z: "zero_timer now t st"
  shows "zero_timer now t (timer_fire ops hz cb t (unlink_head t [] st))"
proof -
  have n: "time_normal (alarm_of st t)" "time_normal (Timespec 0 0)" "time_ns (Timespec 0 0) = 0"
    using z by (simp_all add: zero_timer_def time_normal_def time_ns_def)
  have "time_ns (alarm_of st t) < 2 ^ 32 * 1000000000"
    using n(1) unat_u32_lt [of "tv_sec (alarm_of st t)"] unfolding time_ns_def time_normal_def power_numeral by (simp; linarith)
  then have "sid_time_add ops (alarm_of st t) (Timespec 0 0) = alarm_of st t"
    using time_add [OF ops n(1,2)] n by (intro time_ns_inj) auto
  then have "sid_time_add ops (alarm (timers st t)) (Timespec 0 0) = alarm (timers st t)" by (simp add: alarm_of_def)
  then show ?thesis
    using z
    by (simp add: timer_fire_again [OF ops] timer_callback_def cb timer_again_def zero_timer_def
        sid_pal_timer_list_insert_def timer_start_conv Let_def alarm_of_def)
qed

text \<open>
  C17. A timer armed with a period of zero makes the handler run forever: it is inserted with
  the same alarm again and is due at once.
\<close>

theorem timer_zero_period_diverges:
  assumes "time_ops_ok ops" "cb t = []" "now = sid_pal_uptime_now hz ticks" "zero_timer now t st"
  shows "sid_timer_handler ops hz cb ticks st = None"
proof -
  let ?P = "\<lambda>o' h cb' n st r. o' = ops \<longrightarrow> cb' = cb \<longrightarrow> n = now \<longrightarrow> \<not> zero_timer now t st"
  have "timer_expire_loop ops hz cb now (st\<lparr>hw := None\<rparr>) = None"
  proof (rule ccontr)
    assume "timer_expire_loop ops hz cb now (st\<lparr>hw := None\<rparr>) \<noteq> None"
    then obtain r where r: "timer_expire_loop ops hz cb now (st\<lparr>hw := None\<rparr>) = Some r" by blast
    have "?P ops hz cb now (st\<lparr>hw := None\<rparr>) r"
    proof (rule timer_expire_loop.raw_induct [where P = ?P, OF _ r], intro impI notI)
      fix loop o' h cb' n st r
      assume IH: "\<And>o' h cb' n st r. loop o' h cb' n st = Some r \<Longrightarrow> ?P o' h cb' n st r"
        and eq: "(case sid_pal_timer_list_fetch o' n st of (None, st1) \<Rightarrow> Some st1
          | (Some u, st1) \<Rightarrow> loop o' h cb' n (timer_fire o' h cb' u st1)) = Some r"
        and o: "o' = ops" "cb' = cb" "n = now" and z: "zero_timer now t st"
      have "sid_pal_timer_list_fetch ops now st = (Some t, unlink_head t [] st)"
        using z by (simp add: sid_pal_timer_list_fetch_def gt_conv [OF assms(1)] zero_timer_def unlink_head_def not_less)
      then have "loop ops h cb now (timer_fire ops h cb t (unlink_head t [] st)) = Some r"
        using eq by (simp add: o)
      with IH fire_zero [of ops cb t, OF assms(1,2) z] show False by blast
    qed
    with assms(4) show False by (simp add: zero_timer_def)
  qed
  then show ?thesis by (simp add: sid_timer_handler_def sid_pal_timer_event_callback_def assms(3))
qed

theorem timer_zero_period_diverges_witness:
  "sid_timer_handler ns_ops 32768 (\<lambda>_. []) 65536 (timer_one (Some (Timespec 0 0))) = None"
  by (rule timer_zero_period_diverges [OF ns_ops_ok, where t = 0 and now = "Timespec 2 0"])
    (simp_all add: uptime_2s zero_timer_def timer_one_conv alarm_of_def time_normal_def less_eq_sid_timespec_def)

end
