(* ===== verification/Storage_Kv.thy ===== *)
theory Storage_Kv
  imports Crypto_Keys
begin

text \<open>
  The key-value storage: \<^verbatim>\<open>sid_storage.c\<close> and the settings loader of \<^verbatim>\<open>settings_utils.c\<close>. A
  record lives in the settings subsystem under a name made from its group and key; the master
  keys live in the key store of \<open>Crypto_Keys\<close>. The settings subsystem is a parameter.
\<close>

section \<open>The settings subsystem\<close>

text \<open>
  What \<^verbatim>\<open>settings_load_subtree_direct\<close> hands to its callback for an entry: the name relative
  to the subtree, the value's length, and the read function, which gives its return value and
  the bytes it wrote.
\<close>

type_synonym setting_entry = "string \<times> nat \<times> (nat \<Rightarrow> int \<times> u8 list)"

record 's settings_ops =
  settings_subsys_init :: "'s \<Rightarrow> int \<times> 's"
  settings_load :: "'s \<Rightarrow> int \<times> 's"
  settings_save_one :: "string \<Rightarrow> u8 list \<Rightarrow> 's \<Rightarrow> int \<times> 's"
  settings_delete :: "string \<Rightarrow> 's \<Rightarrow> int \<times> 's"
  settings_commit :: "'s \<Rightarrow> int \<times> 's"
  settings_subtree :: "string \<Rightarrow> 's \<Rightarrow> int \<times> setting_entry list"
  settings_cb_failed :: "int \<Rightarrow> int"
  settings_name_next :: "string \<Rightarrow> nat"

text \<open>
  The callback is called for each entry until it returns a value other than zero, which ends
  the enumeration.
\<close>

fun subtree_iter :: "('e \<Rightarrow> 'p \<Rightarrow> int \<times> 'p) \<Rightarrow> 'e list \<Rightarrow> 'p \<Rightarrow> int \<times> 'p" where
  "subtree_iter cb [] p = (0, p)"
| "subtree_iter cb (e # es) p = (case cb e p of (rc, p1) \<Rightarrow> if rc \<noteq> 0 then (rc, p1) else subtree_iter cb es p1)"

text \<open>
  The return code of \<^verbatim>\<open>settings_load_subtree_direct\<close> is the storage's own failure, if any, and
  otherwise whatever the subsystem makes of the value a callback ended the enumeration with:
  the documentation leaves that open, so \<open>settings_cb_failed\<close> is a parameter.
\<close>

definition settings_load_subtree_direct ::
  "'s settings_ops \<Rightarrow> string \<Rightarrow> 's \<Rightarrow> (setting_entry \<Rightarrow> 'p \<Rightarrow> int \<times> 'p) \<Rightarrow> 'p \<Rightarrow> int \<times> 'p" where
  "settings_load_subtree_direct ops name s cb p =
     (case settings_subtree ops name s of (rc, es) \<Rightarrow>
        case subtree_iter cb es p of (cb_rc, p1) \<Rightarrow>
          (if rc \<noteq> 0 then rc else if cb_rc \<noteq> 0 then settings_cb_failed ops cb_rc else 0, p1))"

section \<open>Loading one value\<close>

record direct_immediate_value =
  dest_capacity :: nat
  dest :: "u8 list option"
  div_len :: nat
  fetched :: bool

definition direct_loader_immediate_value ::
  "'s settings_ops \<Rightarrow> setting_entry \<Rightarrow> direct_immediate_value \<Rightarrow> int \<times> direct_immediate_value" where
  "direct_loader_immediate_value ops e one_value =
     (case e of (name, len, read_cb) \<Rightarrow>
        if settings_name_next ops name = 0 then
          (case dest one_value of
             None \<Rightarrow> (0, one_value\<lparr>div_len := len\<rparr>)
           | Some d \<Rightarrow>
               (case read_cb (dest_capacity one_value) of
                  (rc, bytes) \<Rightarrow>
                    let v1 = one_value\<lparr>dest := Some (bytes @ drop (length bytes) d)\<rparr> in
                    if rc \<ge> 0 then (0, v1\<lparr>fetched := True, div_len := nat rc\<rparr>) else (rc, v1)))
        else (0, one_value))"

text \<open>The return value and the destination after the call; \<open>None\<close> is \<^verbatim>\<open>NULL\<close>.\<close>

definition settings_utils_load_immediate_value ::
  "'s settings_ops \<Rightarrow> string \<Rightarrow> u8 list option \<Rightarrow> nat \<Rightarrow> 's \<Rightarrow> int \<times> u8 list option" where
  "settings_utils_load_immediate_value ops name dst len s =
     (case settings_load_subtree_direct ops name s (direct_loader_immediate_value ops)
             \<lparr>dest_capacity = len, dest = dst, div_len = 0, fetched = False\<rparr> of
        (rc, dov) \<Rightarrow> if rc = 0 \<and> \<not> fetched dov then (- ENOENT, dest dov) else (int (div_len dov), dest dov))"

text \<open>The return value and the new value of \<^verbatim>\<open>*len\<close>.\<close>

definition settings_utils_get_value_size :: "'s settings_ops \<Rightarrow> string \<Rightarrow> nat \<Rightarrow> 's \<Rightarrow> int \<times> nat" where
  "settings_utils_get_value_size ops name len s =
     (case settings_load_subtree_direct ops name s (direct_loader_immediate_value ops)
             \<lparr>dest_capacity = 0, dest = None, div_len = 0, fetched = False\<rparr> of
        (rc, dov) \<Rightarrow> if rc = 0 then (rc, div_len dov) else (rc, len))"

definition settings_utils_link_mask_get :: "'s settings_ops \<Rightarrow> string \<Rightarrow> u8 list \<Rightarrow> 's \<Rightarrow> int \<times> u8 list option \<times> 's" where
  "settings_utils_link_mask_get ops mask_key link_mask s =
     (let s1 = snd (settings_subsys_init ops s); s2 = snd (settings_load ops s1) in
      case settings_utils_load_immediate_value ops mask_key (Some link_mask) 4 s2 of (rc, d) \<Rightarrow> (rc, d, s2))"

text \<open>The two return codes are combined with a bitwise or.\<close>

definition settings_utils_link_mask_set :: "'s settings_ops \<Rightarrow> string \<Rightarrow> u32 \<Rightarrow> 's \<Rightarrow> int \<times> 's" where
  "settings_utils_link_mask_set ops mask_key link_mask s =
     (case settings_save_one ops mask_key (u32_to_le link_mask) s of (ret, s1) \<Rightarrow>
        case settings_commit ops s1 of (rc, s2) \<Rightarrow> (ret OR rc, s2))"

section \<open>Record names\<close>

text \<open>\<^verbatim>\<open>%04x\<close>, and \<^verbatim>\<open>snprintf\<close> into a buffer of the given size.\<close>

definition hex_digit :: "nat \<Rightarrow> char" where
  "hex_digit n = ''0123456789abcdef'' ! n"

definition hex4 :: "u16 \<Rightarrow> string" where
  "hex4 w = map (\<lambda>k. hex_digit (unat w div 16 ^ k mod 16)) [3, 2, 1, 0]"

definition settings_serialize_group :: "nat \<Rightarrow> u16 \<Rightarrow> string" where
  "settings_serialize_group serial_size grp = take (serial_size - 1) (''sidewalk/storage/'' @ hex4 grp)"

definition settings_serialize_group_key :: "nat \<Rightarrow> u16 \<Rightarrow> u16 \<Rightarrow> string" where
  "settings_serialize_group_key serial_size grp key =
     take (serial_size - 1) (''sidewalk/storage/'' @ hex4 grp @ ''/'' @ hex4 key)"

abbreviation (input) STORAGE_SERIAL_SIZE :: nat where "STORAGE_SERIAL_SIZE \<equiv> 32"
abbreviation (input) STORAGE_MASTER_KEY_SIZE :: nat where "STORAGE_MASTER_KEY_SIZE \<equiv> 16"
abbreviation (input) STORAGE_KV_INTERNAL_PROTOCOL_GROUP_ID :: u16 where "STORAGE_KV_INTERNAL_PROTOCOL_GROUP_ID \<equiv> 0"
abbreviation (input) STORAGE_KV_WAN_MASTER_KEY :: u16 where "STORAGE_KV_WAN_MASTER_KEY \<equiv> 28"
abbreviation (input) STORAGE_KV_APP_MASTER_KEY :: u16 where "STORAGE_KV_APP_MASTER_KEY \<equiv> 30"
abbreviation (input) STORAGE_KV_D2D_MASTER_KEY :: u16 where "STORAGE_KV_D2D_MASTER_KEY \<equiv> 48"

section \<open>State and build\<close>

record ('s, 'k) kv_state =
  settings :: 's
  key_store :: 'k
  keys_initialized :: bool

text \<open>\<open>kv_keys\<close> is \<open>None\<close> when the build has no PSA key storage.\<close>

record ('s, 'k) kv_env =
  kv_settings :: "'s settings_ops"
  kv_psa :: "'k psa_ops"
  kv_keys :: "key_storage option"
  kv_crypto_init :: "unit \<Rightarrow> bool"

section \<open>Master keys\<close>

definition storage2key_id :: "key_storage \<Rightarrow> u16 \<Rightarrow> u16 \<Rightarrow> u32" where
  "storage2key_id cfg grp key =
     (if grp = STORAGE_KV_INTERNAL_PROTOCOL_GROUP_ID then
        (if key = STORAGE_KV_WAN_MASTER_KEY then sid_crypto_key_id cfg SID_CRYPTO_KV_WAN_MASTER_KEY
         else if key = STORAGE_KV_APP_MASTER_KEY then sid_crypto_key_id cfg SID_CRYPTO_KV_APP_KEY_KEY
         else if key = STORAGE_KV_D2D_MASTER_KEY then sid_crypto_key_id cfg SID_CRYPTO_KV_D2D_KEY
         else PSA_KEY_ID_NULL)
      else PSA_KEY_ID_NULL)"

text \<open>
  \<open>junk\<close> is what the uninitialised local buffer holds before the load. The outcome \<open>None\<close> is a
  read past a buffer, as in \<open>Crypto_Keys\<close>.
\<close>

definition storage_key_save_secure ::
  "('s, 'k) kv_env \<Rightarrow> key_storage \<Rightarrow> u8 list \<Rightarrow> u16 \<Rightarrow> u16 \<Rightarrow> ('s, 'k) kv_state \<Rightarrow> ('s, 'k) kv_state option" where
  "storage_key_save_secure env cfg junk grp key st =
     (let key_id = storage2key_id cfg grp key;
          serial = settings_serialize_group_key STORAGE_SERIAL_SIZE grp key
      in case settings_utils_load_immediate_value (kv_settings env) serial (Some junk) STORAGE_MASTER_KEY_SIZE (settings st) of
           (err, data) \<Rightarrow>
             if err = - ENOENT then Some st
             else if err < 0 then Some st
             else (case sid_crypto_keys_new_import (kv_psa env) cfg (key_store st) key_id data STORAGE_MASTER_KEY_SIZE of
                     None \<Rightarrow> None
                   | Some (err, ks1) \<Rightarrow>
                       let st1 = st\<lparr>key_store := ks1\<rparr> in
                       if err \<noteq> 0 then Some st1
                       else Some (st1\<lparr>settings := snd (settings_delete (kv_settings env) serial (settings st1))\<rparr>)))"

definition storage_key_delete_secure ::
  "('s, 'k) kv_env \<Rightarrow> key_storage \<Rightarrow> u32 \<Rightarrow> ('s, 'k) kv_state \<Rightarrow> bool \<times> ('s, 'k) kv_state" where
  "storage_key_delete_secure env cfg i st =
     (case sid_crypto_keys_delete (kv_psa env) cfg (key_store st) i of
        (err, ks1) \<Rightarrow>
          let st1 = st\<lparr>key_store := ks1\<rparr> in
          if err = - EINVAL then (True, st1) else if err \<noteq> 0 then (False, st1) else (True, st1))"

section \<open>Interface\<close>

definition sid_pal_storage_kv_init ::
  "('s, 'k) kv_env \<Rightarrow> (u16 \<Rightarrow> u8 list) \<Rightarrow> ('s, 'k) kv_state \<Rightarrow> (sid_error \<times> ('s, 'k) kv_state) option" where
  "sid_pal_storage_kv_init env junk st =
     (case settings_subsys_init (kv_settings env) (settings st) of (rc, s1) \<Rightarrow>
        if rc \<noteq> 0 then Some (SID_ERROR_GENERIC, st\<lparr>settings := s1\<rparr>)
        else (case settings_load (kv_settings env) s1 of (rc, s2) \<Rightarrow>
          let st2 = st\<lparr>settings := s2\<rparr> in
          if rc \<noteq> 0 then Some (SID_ERROR_GENERIC, st2)
          else (case kv_keys env of
            None \<Rightarrow> Some (SID_ERROR_NONE, st2)
          | Some cfg \<Rightarrow>
              (case sid_crypto_keys_init (kv_crypto_init env) (keys_initialized st2) of (ret, ini) \<Rightarrow>
                 let st3 = st2\<lparr>keys_initialized := ini\<rparr>;
                     save = (\<lambda>key. storage_key_save_secure env cfg (junk key) STORAGE_KV_INTERNAL_PROTOCOL_GROUP_ID key)
                 in if ret \<noteq> 0 then Some (SID_ERROR_GENERIC, st3)
                    else Option.bind (save STORAGE_KV_WAN_MASTER_KEY st3) (\<lambda>st4.
                         Option.bind (save STORAGE_KV_APP_MASTER_KEY st4) (\<lambda>st5.
                         Option.bind (save STORAGE_KV_D2D_MASTER_KEY st5) (\<lambda>st6.
                         Some (SID_ERROR_NONE, st6))))))))"

text \<open>The error and the caller's buffer after the call.\<close>

definition sid_pal_storage_kv_record_get ::
  "('s, 'k) kv_env \<Rightarrow> u16 \<Rightarrow> u16 \<Rightarrow> u8 list option \<Rightarrow> nat \<Rightarrow> ('s, 'k) kv_state \<Rightarrow> sid_error \<times> u8 list option" where
  "sid_pal_storage_kv_record_get env grp key p_data len st =
     (if p_data = None then (SID_ERROR_NULL_POINTER, None)
      else
        (let plain =
           (let serial = settings_serialize_group_key STORAGE_SERIAL_SIZE grp key in
            case settings_utils_load_immediate_value (kv_settings env) serial p_data len (settings st) of
              (rc, d) \<Rightarrow> if rc \<le> 0 then (SID_ERROR_NOT_FOUND, d) else (SID_ERROR_NONE, d))
         in case kv_keys env of
              None \<Rightarrow> plain
            | Some cfg \<Rightarrow>
                (let key_id = storage2key_id cfg grp key in
                 if SID_CRYPTO_KEYS_ID_IS_SIDEWALK_KEY cfg key_id
                 then (case sid_crypto_keys_buffer_set (kv_psa env) (key_store st) key_id p_data len of
                         (err, d) \<Rightarrow> if err \<noteq> 0 then (SID_ERROR_STORAGE_READ_FAIL, d) else (SID_ERROR_NONE, d))
                 else plain)))"

definition sid_pal_storage_kv_record_get_len ::
  "('s, 'k) kv_env \<Rightarrow> u16 \<Rightarrow> u16 \<Rightarrow> nat option \<Rightarrow> ('s, 'k) kv_state \<Rightarrow> sid_error \<times> nat option" where
  "sid_pal_storage_kv_record_get_len env grp key p_len st =
     (case p_len of
        None \<Rightarrow> (SID_ERROR_NULL_POINTER, None)
      | Some l \<Rightarrow>
          (let serial = settings_serialize_group_key STORAGE_SERIAL_SIZE grp key in
           case settings_utils_get_value_size (kv_settings env) serial l (settings st) of
             (rc, l1) \<Rightarrow> if rc < 0 \<or> l1 = 0 then (SID_ERROR_NOT_FOUND, Some l1) else (SID_ERROR_NONE, Some l1)))"

definition sid_pal_storage_kv_record_set ::
  "('s, 'k) kv_env \<Rightarrow> u16 \<Rightarrow> u16 \<Rightarrow> u8 list option \<Rightarrow> nat \<Rightarrow> ('s, 'k) kv_state \<Rightarrow>
   (sid_error \<times> ('s, 'k) kv_state) option" where
  "sid_pal_storage_kv_record_set env grp key p_data len st =
     (if p_data = None then Some (SID_ERROR_NULL_POINTER, st)
      else if len = 0 then Some (SID_ERROR_INVALID_ARGS, st)
      else
        (let plain =
           (let serial = settings_serialize_group_key STORAGE_SERIAL_SIZE grp key in
            case settings_save_one (kv_settings env) serial (take len (the p_data)) (settings st) of
              (rc, s1) \<Rightarrow>
                if rc \<noteq> 0 then (SID_ERROR_STORAGE_WRITE_FAIL, st\<lparr>settings := s1\<rparr>)
                else (case settings_commit (kv_settings env) s1 of
                        (rc, s2) \<Rightarrow>
                          if rc \<noteq> 0 then (SID_ERROR_GENERIC, st\<lparr>settings := s2\<rparr>)
                          else (SID_ERROR_NONE, st\<lparr>settings := s2\<rparr>)))
         in case kv_keys env of
              None \<Rightarrow> Some plain
            | Some cfg \<Rightarrow>
                (let key_id = storage2key_id cfg grp key in
                 if SID_CRYPTO_KEYS_ID_IS_SIDEWALK_KEY cfg key_id
                 then (case sid_crypto_keys_new_import (kv_psa env) cfg (key_store st) key_id p_data len of
                         None \<Rightarrow> None
                       | Some (err, ks1) \<Rightarrow>
                           let st1 = st\<lparr>key_store := ks1\<rparr> in
                           if err = - EBADR then Some (SID_ERROR_NONE, st1)
                           else if err \<noteq> 0 then Some (SID_ERROR_STORAGE_WRITE_FAIL, st1)
                           else Some (SID_ERROR_NONE, st1))
                 else Some plain)))"

definition sid_pal_storage_kv_record_delete ::
  "('s, 'k) kv_env \<Rightarrow> u16 \<Rightarrow> u16 \<Rightarrow> ('s, 'k) kv_state \<Rightarrow> sid_error \<times> ('s, 'k) kv_state" where
  "sid_pal_storage_kv_record_delete env grp key st =
     (let plain =
        (let serial = settings_serialize_group_key STORAGE_SERIAL_SIZE grp key in
         case settings_delete (kv_settings env) serial (settings st) of
           (rc, s1) \<Rightarrow>
             if rc = 0 then (SID_ERROR_NONE, st\<lparr>settings := s1\<rparr>) else (SID_ERROR_GENERIC, st\<lparr>settings := s1\<rparr>))
      in case kv_keys env of
           None \<Rightarrow> plain
         | Some cfg \<Rightarrow>
             (let key_id = storage2key_id cfg grp key in
              if SID_CRYPTO_KEYS_ID_IS_SIDEWALK_KEY cfg key_id
              then (case storage_key_delete_secure env cfg key_id st of
                      (ok, st1) \<Rightarrow> if ok then (SID_ERROR_NONE, st1) else (SID_ERROR_STORAGE_ERASE_FAIL, st1))
              else plain))"

definition delete_subtree_cb ::
  "'s settings_ops \<Rightarrow> string \<Rightarrow> setting_entry \<Rightarrow> 's \<Rightarrow> int \<times> 's" where
  "delete_subtree_cb ops subtree e s =
     settings_delete ops (take (STORAGE_SERIAL_SIZE - 1) (subtree @ ''/'' @ fst e)) s"

definition kv_delete_master_keys ::
  "('s, 'k) kv_env \<Rightarrow> key_storage \<Rightarrow> ('s, 'k) kv_state \<Rightarrow> bool \<times> ('s, 'k) kv_state" where
  "kv_delete_master_keys env cfg st =
     fold (\<lambda>key (success, st).
         if success then storage_key_delete_secure env cfg (sid_crypto_key_id cfg key) st else (False, st))
       [SID_CRYPTO_KV_WAN_MASTER_KEY, SID_CRYPTO_KV_APP_KEY_KEY, SID_CRYPTO_KV_D2D_KEY] (True, st)"

definition sid_pal_storage_kv_group_delete ::
  "('s, 'k) kv_env \<Rightarrow> u16 \<Rightarrow> ('s, 'k) kv_state \<Rightarrow> sid_error \<times> ('s, 'k) kv_state" where
  "sid_pal_storage_kv_group_delete env grp st =
     (let serial = settings_serialize_group STORAGE_SERIAL_SIZE grp in
      case settings_load_subtree_direct (kv_settings env) serial (settings st)
             (delete_subtree_cb (kv_settings env) serial) (settings st) of
        (rc, s1) \<Rightarrow>
          if rc \<noteq> 0 then (SID_ERROR_STORAGE_ERASE_FAIL, st\<lparr>settings := s1\<rparr>)
          else (case settings_commit (kv_settings env) s1 of
            (rc, s2) \<Rightarrow>
              let st2 = st\<lparr>settings := s2\<rparr> in
              if rc \<noteq> 0 then (SID_ERROR_GENERIC, st2)
              else (case kv_keys env of
                None \<Rightarrow> (SID_ERROR_NONE, st2)
              | Some cfg \<Rightarrow>
                  if grp \<noteq> STORAGE_KV_INTERNAL_PROTOCOL_GROUP_ID then (SID_ERROR_NONE, st2)
                  else
                    (case kv_delete_master_keys env cfg st2 of
                       (success, st3) \<Rightarrow>
                         if \<not> success then (SID_ERROR_STORAGE_ERASE_FAIL, st3) else (SID_ERROR_NONE, st3)))))"

end
