(* ===== verification/Storage_Kv_Props.thy ===== *)
theory Storage_Kv_Props
  imports Storage_Kv
begin

text \<open>
  The properties of the key-value storage: for plain records it implements a map from group
  and key to bytes, the master keys never reach the settings, and what happens to master keys
  that an older firmware left there.
\<close>

section \<open>Record names\<close>

lemma hex_digit_inj: "a < 16 \<Longrightarrow> b < 16 \<Longrightarrow> hex_digit a = hex_digit b \<Longrightarrow> a = b"
proof -
  have "distinct ''0123456789abcdef''" by simp
  then show "a < 16 \<Longrightarrow> b < 16 \<Longrightarrow> hex_digit a = hex_digit b \<Longrightarrow> a = b"
    unfolding hex_digit_def by (subst (asm) nth_eq_iff_index_eq) simp_all
qed

lemma hex_digits_value:
  fixes n :: nat
  assumes n: "n < 65536"
  shows "n = n div 4096 mod 16 * 4096 + n div 256 mod 16 * 256 + n div 16 mod 16 * 16 + n mod 16"
proof -
  define a b c where abc: "a = n div 16" "b = a div 16" "c = b div 16"
  define d0 d1 d2 where d: "d0 = n mod 16" "d1 = a mod 16" "d2 = b mod 16"
  have e: "n div 256 = b" "n div 4096 = c" unfolding abc by (simp_all add: div_mult2_eq [symmetric])
  have "n = a * 16 + d0" "a = b * 16 + d1" "b = c * 16 + d2" unfolding abc d by (simp_all only: div_mult_mod_eq)
  then have "n = c * 4096 + d2 * 256 + d1 * 16 + d0" by simp
  moreover have "c mod 16 = c" using n unfolding e(2) [symmetric] by (simp add: less_mult_imp_div_less)
  ultimately show ?thesis unfolding e abc(1) [symmetric] d [symmetric] by simp
qed

lemma hex4_inj: "hex4 a = hex4 b \<Longrightarrow> a = b"
proof -
  assume "hex4 a = hex4 b"
  then have "unat a div 4096 mod 16 = unat b div 4096 mod 16" "unat a div 256 mod 16 = unat b div 256 mod 16"
    "unat a div 16 mod 16 = unat b div 16 mod 16" "unat a mod 16 = unat b mod 16"
    by (auto simp: hex4_def intro!: hex_digit_inj)
  then have "unat a = unat b"
    using hex_digits_value [OF unat_u16_lt, of a] hex_digits_value [OF unat_u16_lt, of b] by linarith
  then show "a = b" by (simp add: word_unat_eq_iff)
qed

lemma length_hex4 [simp]: "length (hex4 w) = 4"
  by (simp add: hex4_def)

text \<open>The names fit the buffer of 32 characters.\<close>

definition kv_name :: "u16 \<times> u16 \<Rightarrow> string" where
  "kv_name r = ''sidewalk/storage/'' @ hex4 (fst r) @ ''/'' @ hex4 (snd r)"

lemma serialize_kv_name: "settings_serialize_group_key 32 g k = kv_name (g, k)"
  by (simp add: settings_serialize_group_key_def kv_name_def)

lemma kv_name_inj: "kv_name r = kv_name r' \<longleftrightarrow> r = r'"
  by (auto simp: kv_name_def prod_eq_iff dest: hex4_inj)

section \<open>The settings contract\<close>

text \<open>
  What the settings documentation promises of a store \<open>kv\<close> of named values: saving and deleting
  change one value or, with an error, none; a subtree is handed over entry by entry, each
  value once, its read function copying at most the given number of bytes.
\<close>

definition full_name :: "string \<Rightarrow> string \<Rightarrow> string" where
  "full_name n rel = (if rel = '''' then n else n @ ''/'' @ rel)"

definition entry_of :: "string \<Rightarrow> u8 list \<Rightarrow> setting_entry" where
  "entry_of rel v = (rel, length v, \<lambda>cap. (int (min cap (length v)), take cap v))"

definition subtree_lists :: "'s settings_ops \<Rightarrow> (string \<Rightarrow> u8 list option) \<Rightarrow> string \<Rightarrow> setting_entry list \<Rightarrow> bool" where
  "subtree_lists ops m n es \<longleftrightarrow>
     (\<exists>rels. distinct rels \<and> set rels = {rel. full_name n rel \<in> dom m} \<and>
        (\<forall>rel \<in> set rels. settings_name_next ops rel = 0 \<longleftrightarrow> rel = '''') \<and>
        es = map (\<lambda>rel. entry_of rel (the (m (full_name n rel)))) rels)"

definition settings_contract :: "'s settings_ops \<Rightarrow> ('s \<Rightarrow> string \<Rightarrow> u8 list option) \<Rightarrow> bool" where
  "settings_contract ops kv \<longleftrightarrow>
     (\<forall>n d s. case settings_save_one ops n d s of
        (rc, s1) \<Rightarrow> kv s1 = (if rc = 0 then (kv s)(n \<mapsto> d) else kv s)) \<and>
     (\<forall>n s. case settings_delete ops n s of
        (rc, s1) \<Rightarrow> kv s1 = (if rc = 0 then (kv s)(n := None) else kv s)) \<and>
     (\<forall>s. kv (snd (settings_commit ops s)) = kv s \<and> kv (snd (settings_subsys_init ops s)) = kv s \<and>
        kv (snd (settings_load ops s)) = kv s) \<and>
     (\<forall>n s es. settings_subtree ops n s = (0, es) \<longrightarrow> subtree_lists ops (kv s) n es)"

lemma settings_saveD:
  "settings_contract ops kv \<Longrightarrow> settings_save_one ops n d s = (rc, s1) \<Longrightarrow> kv s1 = (if rc = 0 then (kv s)(n \<mapsto> d) else kv s)"
  unfolding settings_contract_def by (drule conjunct1, drule spec [of _ n], drule spec [of _ d], drule spec [of _ s]) simp

lemma settings_deleteD:
  "settings_contract ops kv \<Longrightarrow> settings_delete ops n s = (rc, s1) \<Longrightarrow> kv s1 = (if rc = 0 then (kv s)(n := None) else kv s)"
  unfolding settings_contract_def by (drule conjunct2, drule conjunct1, drule spec [of _ n], drule spec [of _ s]) simp

lemma settings_keepD:
  assumes "settings_contract ops kv"
  shows "settings_commit ops s = (rc, s1) \<Longrightarrow> kv s1 = kv s" "settings_subsys_init ops s = (rc, s1) \<Longrightarrow> kv s1 = kv s"
    "settings_load ops s = (rc, s1) \<Longrightarrow> kv s1 = kv s"
  using assms unfolding settings_contract_def by (metis snd_conv)+

section \<open>Loading one value\<close>

lemma loader_iter:
  assumes "distinct rels" "\<forall>rel \<in> set rels. settings_name_next ops rel = 0 \<longleftrightarrow> rel = ''''"
  shows "subtree_iter (direct_loader_immediate_value ops) (map (\<lambda>rel. entry_of rel (f rel)) rels) v =
    (0, if '''' \<in> set rels
     then (case dest v of
             None \<Rightarrow> v\<lparr>div_len := length (f '''')\<rparr>
           | Some d \<Rightarrow> v\<lparr>div_len := min (dest_capacity v) (length (f '''')), fetched := True,
               dest := Some (take (dest_capacity v) (f '''') @ drop (min (dest_capacity v) (length (f ''''))) d)\<rparr>)
     else v)"
  using assms
proof (induction rels arbitrary: v)
  case (Cons r rs)
  show ?case
  proof (cases "r = ''''")
    case True
    with Cons.prems(1) have "'''' \<notin> set rs" by simp
    with True Cons show ?thesis
      by (simp add: direct_loader_immediate_value_def entry_of_def Let_def min.commute split: option.splits)
  next
    case False
    with Cons show ?thesis by (simp add: direct_loader_immediate_value_def entry_of_def)
  qed
qed simp

lemma load_value:
  assumes "settings_contract ops kv" "fst (settings_subtree ops n s) = 0"
  shows "settings_utils_load_immediate_value ops n (Some buf) len s =
    (case kv s n of None \<Rightarrow> (- ENOENT, Some buf)
     | Some v \<Rightarrow> (int (min len (length v)), Some (take len v @ drop (min len (length v)) buf)))"
proof -
  obtain es where es: "settings_subtree ops n s = (0, es)" using assms(2) by (metis prod.collapse)
  then have "subtree_lists ops (kv s) n es" using assms(1) by (simp add: settings_contract_def)
  then obtain rels where r: "distinct rels" "set rels = {rel. full_name n rel \<in> dom (kv s)}"
      "\<forall>rel \<in> set rels. settings_name_next ops rel = 0 \<longleftrightarrow> rel = ''''"
      "es = map (\<lambda>rel. entry_of rel (the (kv s (full_name n rel)))) rels"
    by (auto simp: subtree_lists_def)
  have "'''' \<in> set rels \<longleftrightarrow> kv s n \<noteq> None" using r(2) by (auto simp: full_name_def)
  then show ?thesis
    using loader_iter [OF r(1,3), where f = "\<lambda>rel. the (kv s (full_name n rel))"]
    by (auto simp: settings_utils_load_immediate_value_def settings_load_subtree_direct_def es r(4) full_name_def split: option.splits)
qed

lemma value_size:
  assumes "settings_contract ops kv" "fst (settings_subtree ops n s) = 0"
  shows "settings_utils_get_value_size ops n len s = (0, case kv s n of None \<Rightarrow> 0 | Some v \<Rightarrow> length v)"
proof -
  obtain es where es: "settings_subtree ops n s = (0, es)" using assms(2) by (metis prod.collapse)
  then have "subtree_lists ops (kv s) n es" using assms(1) by (simp add: settings_contract_def)
  then obtain rels where r: "distinct rels" "set rels = {rel. full_name n rel \<in> dom (kv s)}"
      "\<forall>rel \<in> set rels. settings_name_next ops rel = 0 \<longleftrightarrow> rel = ''''"
      "es = map (\<lambda>rel. entry_of rel (the (kv s (full_name n rel)))) rels"
    by (auto simp: subtree_lists_def)
  have "'''' \<in> set rels \<longleftrightarrow> kv s n \<noteq> None" using r(2) by (auto simp: full_name_def)
  then show ?thesis
    using loader_iter [OF r(1,3), where f = "\<lambda>rel. the (kv s (full_name n rel))"]
    by (auto simp: settings_utils_get_value_size_def settings_load_subtree_direct_def es r(4) full_name_def split: option.splits)
qed

section \<open>Plain records\<close>

text \<open>The abstract view: the records by group and key, and the records kept in the settings.\<close>

definition kv_rec :: "('s \<Rightarrow> string \<Rightarrow> u8 list option) \<Rightarrow> ('s, 'k) kv_state \<Rightarrow> u16 \<times> u16 \<Rightarrow> u8 list option" where
  "kv_rec kv st r = kv (settings st) (kv_name r)"

definition kv_plain :: "('s, 'k) kv_env \<Rightarrow> u16 \<Rightarrow> u16 \<Rightarrow> bool" where
  "kv_plain env g k \<longleftrightarrow>
     (case kv_keys env of None \<Rightarrow> True
      | Some cfg \<Rightarrow> \<not> SID_CRYPTO_KEYS_ID_IS_SIDEWALK_KEY cfg (storage2key_id cfg g k))"

lemma kv_rec_upd:
  assumes "kv s1 = (kv (settings st))(kv_name r := v)"
  shows "kv_rec kv (st\<lparr>settings := s1\<rparr>) = (kv_rec kv st)(r := v)"
  by (auto simp: kv_rec_def fun_eq_iff assms kv_name_inj)

text \<open>
  C19. For records that are not master keys the storage implements a map from group and key
  to bytes. Reading copies the value, cut to the buffer's length, and reports a missing or
  empty value as not found; the length is the stored length. A write of no bytes is refused
  and changes nothing; otherwise it fails exactly when the settings refuse to save the value,
  which leaves the map alone, or to commit, and else succeeds, having stored exactly the given
  bytes under that record. A deletion removes the record, or fails exactly when the settings
  refuse it. Neither touches any other record or the key store, and null pointers are refused.
\<close>

theorem kv_plain_refines_map:
  assumes c: "settings_contract (kv_settings env) kv" and p: "kv_plain env g k"
    and ok: "fst (settings_subtree (kv_settings env) (kv_name (g, k)) (settings st)) = 0"
    and save: "settings_save_one (kv_settings env) (kv_name (g, k)) (take m d) (settings st) = (rc, s1)"
    and m: "m \<le> length d"
  shows "sid_pal_storage_kv_record_get env g k (Some buf) n st =
      (case kv_rec kv st (g, k) of
         None \<Rightarrow> (SID_ERROR_NOT_FOUND, Some buf)
       | Some v \<Rightarrow> (if v = [] \<or> n = 0 then SID_ERROR_NOT_FOUND else SID_ERROR_NONE,
                   Some (take n v @ drop (min n (length v)) buf))) \<and>
    sid_pal_storage_kv_record_get_len env g k (Some l) st =
      (case kv_rec kv st (g, k) of
         None \<Rightarrow> (SID_ERROR_NOT_FOUND, Some 0)
       | Some v \<Rightarrow> (if v = [] then SID_ERROR_NOT_FOUND else SID_ERROR_NONE, Some (length v))) \<and>
    (\<exists>e st'. sid_pal_storage_kv_record_set env g k (Some d) m st = Some (e, st') \<and> key_store st' = key_store st \<and>
      e = (if m = 0 then SID_ERROR_INVALID_ARGS else if rc \<noteq> 0 then SID_ERROR_STORAGE_WRITE_FAIL
           else if fst (settings_commit (kv_settings env) s1) \<noteq> 0 then SID_ERROR_GENERIC else SID_ERROR_NONE) \<and>
      (m = 0 \<longrightarrow> st' = st) \<and>
      kv_rec kv st' = (if m = 0 \<or> rc \<noteq> 0 then kv_rec kv st else (kv_rec kv st)((g, k) \<mapsto> take m d))) \<and>
    (\<exists>e st'. sid_pal_storage_kv_record_delete env g k st = (e, st') \<and> key_store st' = key_store st \<and>
      e = (if fst (settings_delete (kv_settings env) (kv_name (g, k)) (settings st)) = 0 then SID_ERROR_NONE else SID_ERROR_GENERIC) \<and>
      kv_rec kv st' = (if e = SID_ERROR_NONE then (kv_rec kv st)((g, k) := None) else kv_rec kv st)) \<and>
    fst (sid_pal_storage_kv_record_get env g k None n st) = SID_ERROR_NULL_POINTER \<and>
    fst (sid_pal_storage_kv_record_get_len env g k None st) = SID_ERROR_NULL_POINTER \<and>
    sid_pal_storage_kv_record_set env g k None m st = Some (SID_ERROR_NULL_POINTER, st)"
proof (intro conjI)
  let ?n = "kv_name (g, k)" and ?s = "settings st" and ?ops = "kv_settings env"
  show "sid_pal_storage_kv_record_get env g k (Some buf) n st =
      (case kv_rec kv st (g, k) of
         None \<Rightarrow> (SID_ERROR_NOT_FOUND, Some buf)
       | Some v \<Rightarrow> (if v = [] \<or> n = 0 then SID_ERROR_NOT_FOUND else SID_ERROR_NONE,
                   Some (take n v @ drop (min n (length v)) buf)))"
    using p load_value [OF c ok, of buf n]
    by (auto simp: sid_pal_storage_kv_record_get_def serialize_kv_name kv_rec_def kv_plain_def min_def split: option.splits)
  show "sid_pal_storage_kv_record_get_len env g k (Some l) st =
      (case kv_rec kv st (g, k) of
         None \<Rightarrow> (SID_ERROR_NOT_FOUND, Some 0)
       | Some v \<Rightarrow> (if v = [] then SID_ERROR_NOT_FOUND else SID_ERROR_NONE, Some (length v)))"
    using value_size [OF c ok]
    by (auto simp: sid_pal_storage_kv_record_get_len_def serialize_kv_name kv_rec_def split: option.splits)
  obtain rc2 s2 where c2: "settings_commit ?ops s1 = (rc2, s2)" by fastforce
  have "kv s2 = kv s1" by (rule settings_keepD(1) [OF c c2])
  moreover have "kv s1 = (if rc = 0 then (kv ?s)(?n := Some (take m d)) else kv ?s)" by (rule settings_saveD [OF c save])
  ultimately have r: "rc = 0 \<Longrightarrow> kv_rec kv (st\<lparr>settings := s2\<rparr>) = (kv_rec kv st)((g, k) := Some (take m d))"
    "rc \<noteq> 0 \<Longrightarrow> kv_rec kv (st\<lparr>settings := s1\<rparr>) = kv_rec kv st"
    by (auto intro: kv_rec_upd simp: kv_rec_def)
  have "sid_pal_storage_kv_record_set env g k (Some d) m st = Some (
      if m = 0 then (SID_ERROR_INVALID_ARGS, st)
      else if rc \<noteq> 0 then (SID_ERROR_STORAGE_WRITE_FAIL, st\<lparr>settings := s1\<rparr>)
      else (if rc2 \<noteq> 0 then SID_ERROR_GENERIC else SID_ERROR_NONE, st\<lparr>settings := s2\<rparr>))"
    using p by (cases "kv_keys env") (simp_all add: sid_pal_storage_kv_record_set_def serialize_kv_name save c2 kv_plain_def Let_def)
  then show "\<exists>e st'. sid_pal_storage_kv_record_set env g k (Some d) m st = Some (e, st') \<and> key_store st' = key_store st \<and>
      e = (if m = 0 then SID_ERROR_INVALID_ARGS else if rc \<noteq> 0 then SID_ERROR_STORAGE_WRITE_FAIL
           else if fst (settings_commit (kv_settings env) s1) \<noteq> 0 then SID_ERROR_GENERIC else SID_ERROR_NONE) \<and>
      (m = 0 \<longrightarrow> st' = st) \<and>
      kv_rec kv st' = (if m = 0 \<or> rc \<noteq> 0 then kv_rec kv st else (kv_rec kv st)((g, k) \<mapsto> take m d))"
    using r by (simp add: c2)
  obtain rc3 s3 where x: "settings_delete ?ops ?n ?s = (rc3, s3)" by fastforce
  have "kv s3 = (if rc3 = 0 then (kv ?s)(?n := None) else kv ?s)" by (rule settings_deleteD [OF c x])
  then have "rc3 = 0 \<Longrightarrow> kv_rec kv (st\<lparr>settings := s3\<rparr>) = (kv_rec kv st)((g, k) := None)"
    "rc3 \<noteq> 0 \<Longrightarrow> kv_rec kv (st\<lparr>settings := s3\<rparr>) = kv_rec kv st"
    by (auto intro: kv_rec_upd simp: kv_rec_def)
  moreover have "sid_pal_storage_kv_record_delete env g k st =
      (if rc3 = 0 then SID_ERROR_NONE else SID_ERROR_GENERIC, st\<lparr>settings := s3\<rparr>)"
    using p by (simp add: sid_pal_storage_kv_record_delete_def serialize_kv_name x kv_plain_def Let_def split: option.splits)
  ultimately show "\<exists>e st'. sid_pal_storage_kv_record_delete env g k st = (e, st') \<and> key_store st' = key_store st \<and>
      e = (if fst (settings_delete ?ops ?n ?s) = 0 then SID_ERROR_NONE else SID_ERROR_GENERIC) \<and>
      kv_rec kv st' = (if e = SID_ERROR_NONE then (kv_rec kv st)((g, k) := None) else kv_rec kv st)"
    by (cases "rc3 = 0") (simp_all add: x)
qed (simp_all add: sid_pal_storage_kv_record_get_def sid_pal_storage_kv_record_get_len_def sid_pal_storage_kv_record_set_def)

section \<open>Master keys\<close>

text \<open>A record that names a master key, and the identifier of that key.\<close>

definition kv_secret :: "('s, 'k) kv_env \<Rightarrow> key_storage \<Rightarrow> u16 \<Rightarrow> u16 \<Rightarrow> u32 \<Rightarrow> bool" where
  "kv_secret env cfg g k i \<longleftrightarrow> kv_keys env = Some cfg \<and> storage2key_id cfg g k = i \<and> i \<noteq> PSA_KEY_ID_NULL"

lemma secret_is_sidewalk: "kv_secret env cfg g k i \<Longrightarrow> SID_CRYPTO_KEYS_ID_IS_SIDEWALK_KEY cfg i"
  by (auto simp: kv_secret_def storage2key_id_def SID_CRYPTO_KEYS_ID_IS_SIDEWALK_KEY_def split: if_splits)

text \<open>
  C20. Master keys stay out of the settings and their bytes never come back. Writing a master
  key changes only the key store, and on success stores exactly the bytes under the key's
  identifier; reading one gives, if the key exists and the buffer holds four bytes, the key
  reference and otherwise leaves the buffer alone; deleting leaves the settings and the other
  keys alone.
\<close>

theorem kv_master_key_secret:
  assumes psa: "psa_contract (kv_psa env) keys" and i: "kv_secret env cfg g k i"
    and d: "4 \<le> length d" "\<not> is_key_reference cfg d"
  shows "(\<exists>e st'. sid_pal_storage_kv_record_set env g k (Some d) (length d) st = Some (e, st') \<and> settings st' = settings st \<and>
      (e = SID_ERROR_NONE \<longrightarrow> keys (key_store st') i = Some (sid_crypto_keys_attributes_set cfg i, d)) \<and>
      (\<forall>j. j \<noteq> i \<longrightarrow> keys (key_store st') j = keys (key_store st) j)) \<and>
    sid_pal_storage_kv_record_get env g k (Some buf) n st =
      (if n < 4 \<or> psa_get_key_attributes (kv_psa env) (key_store st) i \<noteq> 0 then (SID_ERROR_STORAGE_READ_FAIL, Some buf)
       else (SID_ERROR_NONE, Some (u32_to_le i @ replicate (n - 4) 0 @ drop n buf))) \<and>
    (\<exists>e st'. sid_pal_storage_kv_record_delete env g k st = (e, st') \<and> settings st' = settings st \<and>
      (\<forall>j. j \<noteq> i \<longrightarrow> keys (key_store st') j = keys (key_store st) j))"
proof (intro conjI)
  have sw: "SID_CRYPTO_KEYS_ID_IS_SIDEWALK_KEY cfg i" by (rule secret_is_sidewalk [OF i])
  note i' = i [unfolded kv_secret_def]
  obtain ret ks' where m: "sid_crypto_keys_new_import (kv_psa env) cfg (key_store st) i (Some d) (length d) = Some (ret, ks')"
      "\<forall>j. j \<noteq> i \<longrightarrow> keys ks' j = keys (key_store st) j"
      "ret = 0 \<or> ret = - EFAULT \<longrightarrow> keys ks' i = Some (sid_crypto_keys_attributes_set cfg i, d)" "ret \<noteq> - EBADR"
    using import_effect [OF psa d(1) refl, of i cfg "key_store st"] i' d(2) by blast
  have "sid_pal_storage_kv_record_set env g k (Some d) (length d) st =
      Some (if ret \<noteq> 0 then SID_ERROR_STORAGE_WRITE_FAIL else SID_ERROR_NONE, st\<lparr>key_store := ks'\<rparr>)"
    using i' sw d(1) m(1,4) by (auto simp: sid_pal_storage_kv_record_set_def)
  with m(2,3) show "\<exists>e st'. sid_pal_storage_kv_record_set env g k (Some d) (length d) st = Some (e, st') \<and>
      settings st' = settings st \<and> (e = SID_ERROR_NONE \<longrightarrow> keys (key_store st') i = Some (sid_crypto_keys_attributes_set cfg i, d)) \<and>
      (\<forall>j. j \<noteq> i \<longrightarrow> keys (key_store st') j = keys (key_store st) j)"
    by simp
  show "sid_pal_storage_kv_record_get env g k (Some buf) n st =
      (if n < 4 \<or> psa_get_key_attributes (kv_psa env) (key_store st) i \<noteq> 0 then (SID_ERROR_STORAGE_READ_FAIL, Some buf)
       else (SID_ERROR_NONE, Some (u32_to_le i @ replicate (n - 4) 0 @ drop n buf)))"
    using i' sw by (auto simp: sid_pal_storage_kv_record_get_def sid_crypto_keys_buffer_set_def)
  obtain rc ks1 where x: "psa_destroy_key (kv_psa env) (key_store st) i = (rc, ks1)" by fastforce
  then have "\<forall>j. j \<noteq> i \<longrightarrow> keys ks1 j = keys (key_store st) j" using psa_destroyD [OF psa x] by simp
  moreover have "\<exists>e. sid_pal_storage_kv_record_delete env g k st = (e, st\<lparr>key_store := ks1\<rparr>)"
    using i' sw x
    by (cases "rc = - 136"; cases "rc = 0"; simp add: sid_pal_storage_kv_record_delete_def storage_key_delete_secure_def sid_crypto_keys_delete_def Let_def)
  ultimately show "\<exists>e st'. sid_pal_storage_kv_record_delete env g k st = (e, st') \<and> settings st' = settings st \<and>
      (\<forall>j. j \<noteq> i \<longrightarrow> keys (key_store st') j = keys (key_store st) j)"
    by auto
qed

section \<open>Moving master keys out of the settings\<close>

text \<open>Whatever a load gives, it leaves a buffer at least as long as the one it got.\<close>

lemma loader_length:
  "direct_loader_immediate_value ops e v = (rc, v') \<Longrightarrow> dest v = Some d \<Longrightarrow>
   \<exists>d'. dest v' = Some d' \<and> length d \<le> length d'"
  by (auto simp: direct_loader_immediate_value_def Let_def split: prod.splits if_splits)

lemma loader_iter_length:
  "dest v = Some d \<Longrightarrow>
   \<exists>d'. dest (snd (subtree_iter (direct_loader_immediate_value ops) es v)) = Some d' \<and> length d \<le> length d'"
proof (induction es arbitrary: v d)
  case (Cons e es)
  obtain rc v1 where e: "direct_loader_immediate_value ops e v = (rc, v1)" by fastforce
  then obtain d1 where d1: "dest v1 = Some d1" "length d \<le> length d1" using loader_length Cons.prems by blast
  with Cons.IH [OF d1(1)] e show ?case by (auto intro: order_trans)
qed simp

lemma load_length:
  "\<exists>err d. settings_utils_load_immediate_value ops n (Some buf) len s = (err, Some d) \<and> length buf \<le> length d"
proof -
  let ?v = "\<lparr>dest_capacity = len, dest = Some buf, div_len = 0, fetched = False\<rparr>"
  obtain rc es where es: "settings_subtree ops n s = (rc, es)" by fastforce
  obtain cb v1 where v1: "subtree_iter (direct_loader_immediate_value ops) es ?v = (cb, v1)" by fastforce
  obtain d where "dest v1 = Some d" "length buf \<le> length d" using loader_iter_length [of ?v buf ops es] v1 by auto
  then show ?thesis
    by (simp add: settings_utils_load_immediate_value_def settings_load_subtree_direct_def es v1 Let_def)
qed

lemma import_take:
  "4 \<le> sz \<Longrightarrow> sz \<le> length d \<Longrightarrow>
   sid_crypto_keys_new_import psa cfg ks i (Some d) sz = sid_crypto_keys_new_import psa cfg ks i (Some (take sz d)) sz"
  by (simp add: sid_crypto_keys_new_import_def sid_crypto_keys_buffer_get_def min_def)

text \<open>Saving a master key touches no other record and no other key, even when its load fails.\<close>

lemma save_secure_frame:
  assumes c: "settings_contract (kv_settings env) kv" and psa: "psa_contract (kv_psa env) keys"
    and i: "i = storage2key_id cfg 0 k" "i \<noteq> PSA_KEY_ID_NULL" and junk: "length junk = 16"
  shows "\<exists>st'. storage_key_save_secure env cfg junk 0 k st = Some st' \<and>
    (\<forall>r. r \<noteq> (0, k) \<longrightarrow> kv_rec kv st' r = kv_rec kv st r) \<and>
    (\<forall>j. j \<noteq> i \<longrightarrow> keys (key_store st') j = keys (key_store st) j)"
proof -
  obtain err d where l: "settings_utils_load_immediate_value (kv_settings env) (kv_name (0, k)) (Some junk) 16 (settings st) = (err, Some d)"
      and d: "16 \<le> length d"
    using load_length [of "kv_settings env" "kv_name (0, k)" junk 16 "settings st"] junk by auto
  have t: "length (take 16 d) = 16" using d by simp
  obtain ret ks' where "sid_crypto_keys_new_import (kv_psa env) cfg (key_store st) i (Some (take 16 d)) 16 = Some (ret, ks') \<and>
      (\<forall>j. j \<noteq> i \<longrightarrow> keys ks' j = keys (key_store st) j)"
    using import_effect [OF psa _ t i(2), of cfg "key_store st"] by force
  then have m: "sid_crypto_keys_new_import (kv_psa env) cfg (key_store st) i (Some d) 16 = Some (ret, ks')"
      "\<forall>j. j \<noteq> i \<longrightarrow> keys ks' j = keys (key_store st) j"
    using import_take [OF _ d, of "kv_psa env" cfg "key_store st" i] by auto
  obtain rc s1 where x: "settings_delete (kv_settings env) (kv_name (0, k)) (settings st) = (rc, s1)" by fastforce
  have "kv s1 = (if rc = 0 then (kv (settings st))(kv_name (0, k) := None) else kv (settings st))"
    by (rule settings_deleteD [OF c x])
  then have "kv_rec kv (st\<lparr>key_store := ks', settings := s1\<rparr>) r = kv_rec kv st r"
    "kv_rec kv (st\<lparr>key_store := ks'\<rparr>) r = kv_rec kv st r" if "r \<noteq> (0, k)" for r
    using that by (auto simp: kv_rec_def kv_name_inj)
  then show ?thesis
    using m(2) by (auto simp: storage_key_save_secure_def serialize_kv_name Let_def l m(1) x i(1) [symmetric])
qed

text \<open>A master key has moved: it is gone from the settings and in the key store.\<close>

definition key_moved ::
  "('s \<Rightarrow> string \<Rightarrow> u8 list option) \<Rightarrow> ('k \<Rightarrow> u32 \<Rightarrow> (psa_key_attributes \<times> u8 list) option) \<Rightarrow> key_storage \<Rightarrow>
   u16 \<Rightarrow> u8 list \<Rightarrow> ('s, 'k) kv_state \<Rightarrow> bool" where
  "key_moved kv keys cfg k v st \<longleftrightarrow>
     kv_rec kv st (0, k) = None \<and>
     keys (key_store st) (storage2key_id cfg 0 k) =
       Some (sid_crypto_keys_attributes_set cfg (storage2key_id cfg 0 k), v)"

text \<open>The key store takes the key, and the settings give up its record.\<close>

definition move_works :: "('s, 'k) kv_env \<Rightarrow> key_storage \<Rightarrow> u16 \<Rightarrow> u8 list \<Rightarrow> bool" where
  "move_works env cfg k v \<longleftrightarrow>
     (\<forall>ks. map_option fst (sid_crypto_keys_new_import (kv_psa env) cfg ks (storage2key_id cfg 0 k) (Some v) 16) = Some 0) \<and>
     (\<forall>s. fst (settings_delete (kv_settings env) (kv_name (0, k)) s) = 0)"

lemma save_secure_moves:
  assumes c: "settings_contract (kv_settings env) kv" and psa: "psa_contract (kv_psa env) keys"
    and ok: "\<And>s. fst (settings_subtree (kv_settings env) (kv_name (0, k)) s) = 0"
    and i: "storage2key_id cfg 0 k \<noteq> PSA_KEY_ID_NULL" and junk: "length junk = 16"
    and v: "kv_rec kv st (0, k) = Some v" "length v = 16" "\<not> is_key_reference cfg v"
    and sv: "storage_key_save_secure env cfg junk 0 k st = Some st'"
  shows "(kv_rec kv st' (0, k) = Some v \<or> key_moved kv keys cfg k v st') \<and>
    (move_works env cfg k v \<longrightarrow> key_moved kv keys cfg k v st')"
proof -
  let ?i = "storage2key_id cfg 0 k"
  have l: "settings_utils_load_immediate_value (kv_settings env) (kv_name (0, k)) (Some junk) 16 (settings st) = (16, Some v)"
    using load_value [OF c ok [of "settings st"], of junk 16] v(1,2) junk
    by (simp add: kv_rec_def)
  obtain ret ks' where m: "sid_crypto_keys_new_import (kv_psa env) cfg (key_store st) ?i (Some v) 16 = Some (ret, ks')"
      "ret = 0 \<longrightarrow> keys ks' ?i = Some (sid_crypto_keys_attributes_set cfg ?i, v)"
    using import_effect [OF psa _ v(2) i, of cfg "key_store st"] by auto
  obtain rc s1 where x: "settings_delete (kv_settings env) (kv_name (0, k)) (settings st) = (rc, s1)" by fastforce
  have kv1: "kv s1 = (if rc = 0 then (kv (settings st))(kv_name (0, k) := None) else kv (settings st))"
    by (rule settings_deleteD [OF c x])
  have st': "st' = (if ret \<noteq> 0 then st\<lparr>key_store := ks'\<rparr> else st\<lparr>key_store := ks', settings := s1\<rparr>)"
    using sv by (simp add: storage_key_save_secure_def serialize_kv_name Let_def l m(1) x split: if_splits)
  have "ret = 0 \<and> rc = 0" if "move_works env cfg k v"
    using that m(1) x unfolding move_works_def by (metis fst_conv option.inject option.simps(9))
  moreover have "key_moved kv keys cfg k v st'" if "ret = 0" "rc = 0"
    using that m(2) kv1 by (simp add: st' key_moved_def kv_rec_def)
  moreover have "kv_rec kv st' (0, k) = Some v" if "ret \<noteq> 0 \<or> rc \<noteq> 0"
    using that v(1) kv1 by (auto simp: st' kv_rec_def)
  ultimately show ?thesis by blast
qed

lemma save_secure_absent:
  assumes c: "settings_contract (kv_settings env) kv"
    and ok: "\<And>s. fst (settings_subtree (kv_settings env) (kv_name (0, k)) s) = 0"
    and none: "kv_rec kv st (0, k) = None"
  shows "storage_key_save_secure env cfg junk 0 k st = Some st"
  using load_value [OF c ok [of "settings st"], of junk 16] none
  by (simp add: storage_key_save_secure_def serialize_kv_name kv_rec_def Let_def)

text \<open>The three master key records and what the build must give: distinct identifiers other than null.\<close>

definition master_keys :: "u16 list" where
  "master_keys = [28, 30, 48]"

definition master_ids_ok :: "key_storage \<Rightarrow> bool" where
  "master_ids_ok cfg \<longleftrightarrow>
     (\<forall>k \<in> set master_keys. storage2key_id cfg 0 k \<noteq> PSA_KEY_ID_NULL) \<and> distinct (map (storage2key_id cfg 0) master_keys)"

lemma master_idsD:
  assumes "master_ids_ok cfg" "k \<in> set master_keys"
  shows "storage2key_id cfg 0 k \<noteq> PSA_KEY_ID_NULL"
    and "k' \<in> set master_keys \<Longrightarrow> k' \<noteq> k \<Longrightarrow> storage2key_id cfg 0 k' \<noteq> storage2key_id cfg 0 k"
  using assms by (auto simp: master_ids_ok_def master_keys_def)

text \<open>The three steps of the start that save the master keys.\<close>

definition save_masters ::
  "('s, 'k) kv_env \<Rightarrow> key_storage \<Rightarrow> (u16 \<Rightarrow> u8 list) \<Rightarrow> ('s, 'k) kv_state \<Rightarrow> ('s, 'k) kv_state option" where
  "save_masters env cfg junk st =
     Option.bind (storage_key_save_secure env cfg (junk 28) 0 28 st) (\<lambda>st1.
     Option.bind (storage_key_save_secure env cfg (junk 30) 0 30 st1) (\<lambda>st2.
     storage_key_save_secure env cfg (junk 48) 0 48 st2))"

lemma save_masters_effect:
  assumes c: "settings_contract (kv_settings env) kv" and psa: "psa_contract (kv_psa env) keys"
    and cfg: "master_ids_ok cfg" and junk: "\<forall>k. length (junk k) = 16"
  obtains st' where "save_masters env cfg junk st = Some st'"
    "\<And>r. r \<notin> Pair 0 ` set master_keys \<Longrightarrow> kv_rec kv st' r = kv_rec kv st r"
    "\<And>k v. k \<in> set master_keys \<Longrightarrow> \<forall>s. fst (settings_subtree (kv_settings env) (kv_name (0, k)) s) = 0 \<Longrightarrow>
       kv_rec kv st (0, k) = Some v \<Longrightarrow> length v = 16 \<Longrightarrow> \<not> is_key_reference cfg v \<Longrightarrow>
       (kv_rec kv st' (0, k) = Some v \<or> key_moved kv keys cfg k v st') \<and> (move_works env cfg k v \<longrightarrow> key_moved kv keys cfg k v st')"
proof -
  let ?save = "\<lambda>k st. storage_key_save_secure env cfg (junk k) 0 k st"
  have m: "28 \<in> set master_keys" "30 \<in> set master_keys" "48 \<in> set master_keys" by (simp_all add: master_keys_def)
  note fr = save_secure_frame [OF c psa refl master_idsD(1) [OF cfg] junk [rule_format]]
  obtain a where a: "?save 28 st = Some a" "\<forall>r. r \<noteq> (0, 28) \<longrightarrow> kv_rec kv a r = kv_rec kv st r"
    "\<forall>j. j \<noteq> storage2key_id cfg 0 28 \<longrightarrow> keys (key_store a) j = keys (key_store st) j" using fr [OF m(1)] by blast
  obtain b where b: "?save 30 a = Some b" "\<forall>r. r \<noteq> (0, 30) \<longrightarrow> kv_rec kv b r = kv_rec kv a r"
    "\<forall>j. j \<noteq> storage2key_id cfg 0 30 \<longrightarrow> keys (key_store b) j = keys (key_store a) j" using fr [OF m(2)] by blast
  obtain d where d: "?save 48 b = Some d" "\<forall>r. r \<noteq> (0, 48) \<longrightarrow> kv_rec kv d r = kv_rec kv b r"
    "\<forall>j. j \<noteq> storage2key_id cfg 0 48 \<longrightarrow> keys (key_store d) j = keys (key_store b) j" using fr [OF m(3)] by blast
  have ne: "storage2key_id cfg 0 28 \<noteq> storage2key_id cfg 0 30" "storage2key_id cfg 0 28 \<noteq> storage2key_id cfg 0 48"
    "storage2key_id cfg 0 30 \<noteq> storage2key_id cfg 0 48"
    using cfg by (simp_all add: master_ids_ok_def master_keys_def)
  show thesis
  proof (rule that [of d])
    show "save_masters env cfg junk st = Some d" by (simp add: save_masters_def a(1) b(1) d(1))
    show "kv_rec kv d r = kv_rec kv st r" if "r \<notin> Pair 0 ` set master_keys" for r
    proof -
      have "r \<noteq> (0, 28)" "r \<noteq> (0, 30)" "r \<noteq> (0, 48)" using that by (auto simp: master_keys_def)
      then show ?thesis using a(2) b(2) d(2) by metis
    qed
    fix k v
    assume k: "k \<in> set master_keys" and ok: "\<forall>s. fst (settings_subtree (kv_settings env) (kv_name (0, k)) s) = 0"
      and v: "kv_rec kv st (0, k) = Some v" "length v = 16" "\<not> is_key_reference cfg v"
    note mv = save_secure_moves [OF c psa ok [rule_format] master_idsD(1) [OF cfg k] junk [rule_format, of k] _ v(2,3)]
    consider "k = 28" | "k = 30" | "k = 48" using k by (auto simp: master_keys_def)
    then show "(kv_rec kv d (0, k) = Some v \<or> key_moved kv keys cfg k v d) \<and> (move_works env cfg k v \<longrightarrow> key_moved kv keys cfg k v d)"
    proof cases
      case 1
      then show ?thesis using mv [OF v(1), of a] a(1) b(2,3) d(2,3) ne by (simp add: key_moved_def)
    next
      case 2
      moreover have "kv_rec kv a (0, k) = Some v" using a(2) v(1) 2 by simp
      ultimately show ?thesis using mv [of a b] b(1) d(2,3) ne by (simp add: key_moved_def)
    next
      case 3
      moreover have "kv_rec kv b (0, k) = Some v" using a(2) b(2) v(1) 3 by simp
      ultimately show ?thesis using mv [of b d] d(1) by simp
    qed
  qed
qed

text \<open>
  C21. Starting the storage moves the master keys that an older firmware left in the settings
  into the key store. When a record of a master key can be loaded, has 16 bytes and is no key
  reference, the key is never lost, whatever fails: it is afterwards still in the settings or
  it has moved, that is, it is in the key store under its identifier with the same bytes and
  no longer in the settings; and it has moved when the start succeeds, the key store takes the
  key and the settings delete the record. This holds for each of the three keys whatever
  happens to the others (a record that cannot be loaded is where the code does lose a key: its
  slot gets the bytes of an uninitialised buffer). The call always returns, its error says
  whether one of its first three steps failed, and all other records are unchanged.
\<close>

theorem kv_init_keeps_master_keys:
  assumes c: "settings_contract (kv_settings env) kv" and psa: "psa_contract (kv_psa env) keys"
    and cfg: "kv_keys env = Some cfg" "master_ids_ok cfg" and junk: "\<forall>k. length (junk k) = 16"
    and s1: "settings_subsys_init (kv_settings env) (settings st) = (rc1, s1)"
    and s2: "settings_load (kv_settings env) s1 = (rc2, s2)"
    and i3: "sid_crypto_keys_init (kv_crypto_init env) (keys_initialized st) = (rc3, ini)"
  shows "\<exists>e st'. sid_pal_storage_kv_init env junk st = Some (e, st') \<and>
    e = (if rc1 = 0 \<and> rc2 = 0 \<and> rc3 = 0 then SID_ERROR_NONE else SID_ERROR_GENERIC) \<and>
    (\<forall>r. r \<notin> Pair 0 ` set master_keys \<longrightarrow> kv_rec kv st' r = kv_rec kv st r) \<and>
    (\<forall>k \<in> set master_keys. \<forall>v.
       (\<forall>s. fst (settings_subtree (kv_settings env) (kv_name (0, k)) s) = 0) \<and>
       kv_rec kv st (0, k) = Some v \<and> length v = 16 \<and> \<not> is_key_reference cfg v \<longrightarrow>
       (kv_rec kv st' (0, k) = Some v \<or> key_moved kv keys cfg k v st') \<and>
       (e = SID_ERROR_NONE \<and> move_works env cfg k v \<longrightarrow> key_moved kv keys cfg k v st'))"
proof -
  have kv: "kv s1 = kv (settings st)" "kv s2 = kv (settings st)"
    using settings_keepD(2) [OF c s1] settings_keepD(3) [OF c s2] by simp_all
  let ?st = "st\<lparr>settings := s2, keys_initialized := ini\<rparr>"
  have st: "kv_rec kv ?st = kv_rec kv st" "kv_rec kv (st\<lparr>settings := s1\<rparr>) = kv_rec kv st" "kv_rec kv (st\<lparr>settings := s2\<rparr>) = kv_rec kv st"
    using kv by (simp_all add: kv_rec_def fun_eq_iff)
  obtain d where d: "save_masters env cfg junk ?st = Some d"
      "\<And>r. r \<notin> Pair 0 ` set master_keys \<Longrightarrow> kv_rec kv d r = kv_rec kv st r"
      "\<And>k v. k \<in> set master_keys \<Longrightarrow> \<forall>s. fst (settings_subtree (kv_settings env) (kv_name (0, k)) s) = 0 \<Longrightarrow>
        kv_rec kv st (0, k) = Some v \<Longrightarrow> length v = 16 \<Longrightarrow> \<not> is_key_reference cfg v \<Longrightarrow>
        (kv_rec kv d (0, k) = Some v \<or> key_moved kv keys cfg k v d) \<and> (move_works env cfg k v \<longrightarrow> key_moved kv keys cfg k v d)"
    using save_masters_effect [OF c psa cfg(2) junk, of ?st] unfolding st(1) by blast
  have "sid_pal_storage_kv_init env junk st =
      (if rc1 \<noteq> 0 then Some (SID_ERROR_GENERIC, st\<lparr>settings := s1\<rparr>)
       else if rc2 \<noteq> 0 then Some (SID_ERROR_GENERIC, st\<lparr>settings := s2\<rparr>)
       else if rc3 \<noteq> 0 then Some (SID_ERROR_GENERIC, ?st) else Some (SID_ERROR_NONE, d))"
    using d(1) s1 s2 i3 cfg(1)
    by (auto simp: sid_pal_storage_kv_init_def save_masters_def Let_def Option.bind_eq_Some_conv)
  then show ?thesis using d(2,3) st by auto
qed

text \<open>
  If the settings cannot be loaded at start, the uninitialised local buffer is imported
  as a master key: \<^verbatim>\<open>settings_utils_load_immediate_value\<close> then returns 0, which is not taken
  for an error, and the key that was in the key store is replaced by whatever the stack held.
\<close>

theorem kv_load_failure_imports_garbage:
  assumes psa: "psa_contract (kv_psa env) keys" and i: "kv_secret env cfg g k i"
    and fail: "settings_subtree (kv_settings env) (settings_serialize_group_key 32 g k) (settings st) = (rc, [])" "rc \<noteq> 0"
    and junk: "length junk = 16"
    and imp: "sid_crypto_keys_new_import (kv_psa env) cfg (key_store st) i (Some junk) 16 = Some (0, ks1)"
  shows "\<exists>st'. storage_key_save_secure env cfg junk g k st = Some st' \<and>
    keys (key_store st') i = Some (sid_crypto_keys_attributes_set cfg i, junk)"
proof -
  have "keys ks1 i = Some (sid_crypto_keys_attributes_set cfg i, junk)"
    using import_effect [OF psa _ junk, of i cfg "key_store st"] i imp by (auto simp: kv_secret_def)
  moreover have "settings_utils_load_immediate_value (kv_settings env) (settings_serialize_group_key 32 g k) (Some junk) 16 (settings st) =
      (0, Some junk)"
    using fail by (simp add: settings_utils_load_immediate_value_def settings_load_subtree_direct_def)
  ultimately show ?thesis using i imp by (simp add: storage_key_save_secure_def kv_secret_def Let_def)
qed

section \<open>Deleting a group\<close>

definition group_name :: "u16 \<Rightarrow> string" where
  "group_name g = ''sidewalk/storage/'' @ hex4 g"

lemma kv_name_group: "kv_name (g, k) = group_name g @ ''/'' @ hex4 k"
  by (simp add: kv_name_def group_name_def)

lemma other_group:
  assumes "g' \<noteq> g"
  shows "kv_name (g', k) \<noteq> take 31 (group_name g @ ''/'' @ rel)"
proof
  assume "kv_name (g', k) = take 31 (group_name g @ ''/'' @ rel)"
  then have "take 21 (kv_name (g', k)) = take 21 (take 31 (group_name g @ ''/'' @ rel))" by simp
  then have "hex4 g' = hex4 g" by (simp add: kv_name_def group_name_def)
  with hex4_inj assms show False by blast
qed

lemma settings_delete_masters: "settings (snd (kv_delete_master_keys env cfg st)) = settings st"
proof -
  have sec: "settings (snd (storage_key_delete_secure env cfg i u)) = settings u" for i u
    by (simp add: storage_key_delete_secure_def Let_def split: prod.splits)
  show ?thesis
    by (auto simp: kv_delete_master_keys_def split: prod.splits) (metis sec snd_conv)+
qed

lemma delete_masters_keys:
  assumes psa: "psa_contract (kv_psa env) keys" and j: "j \<notin> storage2key_id cfg 0 ` set master_keys"
  shows "keys (key_store (snd (kv_delete_master_keys env cfg st))) j = keys (key_store st) j"
proof -
  have sec: "keys (key_store u') j = keys (key_store u) j"
    if "storage_key_delete_secure env cfg i u = (b, u')" "j \<noteq> i" for i b u u'
    using that psa_destroyD [OF psa, of "key_store u" i]
    by (auto simp: storage_key_delete_secure_def sid_crypto_keys_delete_def Let_def split: prod.splits if_splits)
  have "storage2key_id cfg 0 28 = sid_crypto_key_id cfg SID_CRYPTO_KV_WAN_MASTER_KEY"
    "storage2key_id cfg 0 30 = sid_crypto_key_id cfg SID_CRYPTO_KV_APP_KEY_KEY"
    "storage2key_id cfg 0 48 = sid_crypto_key_id cfg SID_CRYPTO_KV_D2D_KEY" by (simp_all add: storage2key_id_def)
  with j have n: "j \<noteq> sid_crypto_key_id cfg SID_CRYPTO_KV_WAN_MASTER_KEY" "j \<noteq> sid_crypto_key_id cfg SID_CRYPTO_KV_APP_KEY_KEY"
    "j \<noteq> sid_crypto_key_id cfg SID_CRYPTO_KV_D2D_KEY" by (auto simp: master_keys_def)
  obtain b1 u1 where u1: "storage_key_delete_secure env cfg (sid_crypto_key_id cfg SID_CRYPTO_KV_WAN_MASTER_KEY) st = (b1, u1)" by fastforce
  obtain b2 u2 where u2: "storage_key_delete_secure env cfg (sid_crypto_key_id cfg SID_CRYPTO_KV_APP_KEY_KEY) u1 = (b2, u2)" by fastforce
  obtain b3 u3 where u3: "storage_key_delete_secure env cfg (sid_crypto_key_id cfg SID_CRYPTO_KV_D2D_KEY) u2 = (b3, u3)" by fastforce
  show ?thesis
    using sec [OF u1 n(1)] sec [OF u2 n(2)] sec [OF u3 n(3)] by (simp add: kv_delete_master_keys_def u1 u2 u3)
qed

text \<open>The loop of deletions: which values it removes when no deletion fails.\<close>

lemma delete_iter:
  assumes c: "settings_contract ops kv" and del: "\<And>n s. fst (settings_delete ops n s) = 0"
  shows "fst (subtree_iter (delete_subtree_cb ops sub) es s) = 0 \<and> kv (snd (subtree_iter (delete_subtree_cb ops sub) es s)) =
    (\<lambda>n. if n \<in> (\<lambda>e. take 31 (sub @ ''/'' @ fst e)) ` set es then None else kv s n)"
proof (induction es arbitrary: s)
  case (Cons e es)
  obtain s1 where s1: "settings_delete ops (take 31 (sub @ ''/'' @ fst e)) s = (0, s1)" by (metis del prod.collapse)
  have "kv s1 = (kv s)(take 31 (sub @ ''/'' @ fst e) := None)" using settings_deleteD [OF c s1] by simp
  with s1 Cons.IH [of s1] show ?case by (auto simp: delete_subtree_cb_def fun_eq_iff)
qed simp

text \<open>
  C22. Deleting a group, when no deletion fails: a reported success means that no record of
  the group is left in the settings and that every record of another group is unchanged; the
  keys outside the three master keys are unchanged, and they are touched for group 0 only.
\<close>

theorem kv_group_delete_removes:
  assumes c: "settings_contract (kv_settings env) kv" and psa: "psa_contract (kv_psa env) keys"
    and del: "\<forall>n s. fst (settings_delete (kv_settings env) n s) = 0"
    and r: "sid_pal_storage_kv_group_delete env g st = (SID_ERROR_NONE, st')"
  shows "(\<forall>k. kv_rec kv st' (g, k) = None) \<and> (\<forall>g' k. g' \<noteq> g \<longrightarrow> kv_rec kv st' (g', k) = kv_rec kv st (g', k)) \<and>
    (g \<noteq> 0 \<longrightarrow> key_store st' = key_store st) \<and>
    (\<forall>cfg j. kv_keys env = Some cfg \<and> j \<notin> storage2key_id cfg 0 ` set master_keys \<longrightarrow>
       keys (key_store st') j = keys (key_store st) j)"
proof -
  let ?ops = "kv_settings env" and ?n = "group_name g"
  obtain rc es where e: "settings_subtree ?ops ?n (settings st) = (rc, es)" by fastforce
  let ?s1 = "snd (subtree_iter (delete_subtree_cb ?ops ?n) es (settings st))"
  obtain rc2 s2 where m: "settings_commit ?ops ?s1 = (rc2, s2)" by fastforce
  have ser: "settings_serialize_group 32 g = ?n" by (simp add: settings_serialize_group_def group_name_def)
  note it = delete_iter [OF c del [rule_format], of ?n es "settings st"]
  then have "settings_load_subtree_direct ?ops ?n (settings st) (delete_subtree_cb ?ops ?n) (settings st) = (rc, ?s1)"
    by (auto simp: settings_load_subtree_direct_def e split: prod.splits)
  note e' = this
  have rc: "rc = 0" "rc2 = 0" using r e' m by (auto simp: sid_pal_storage_kv_group_delete_def ser Let_def split: if_splits)
  have "st' = (if kv_keys env = None \<or> g \<noteq> 0 then st\<lparr>settings := s2\<rparr>
      else snd (kv_delete_master_keys env (the (kv_keys env)) (st\<lparr>settings := s2\<rparr>)))"
    using r e' m rc by (auto simp: sid_pal_storage_kv_group_delete_def ser Let_def split: option.splits if_splits prod.splits)
  then have st': "settings st' = s2" "g \<noteq> 0 \<longrightarrow> key_store st' = key_store st"
    "\<forall>cfg j. kv_keys env = Some cfg \<and> j \<notin> storage2key_id cfg 0 ` set master_keys \<longrightarrow>
       keys (key_store st') j = keys (key_store st) j"
    by (auto simp: settings_delete_masters delete_masters_keys [OF psa])
  have kv2: "kv s2 = (\<lambda>n. if n \<in> (\<lambda>e. take 31 (?n @ ''/'' @ fst e)) ` set es then None else kv (settings st) n)"
    using settings_keepD(1) [OF c m] it by simp
  have gone: "kv s2 (kv_name (g, k)) = None" for k
  proof (cases "kv (settings st) (kv_name (g, k))")
    case (Some v)
    have "subtree_lists ?ops (kv (settings st)) ?n es" using c e rc by (simp add: settings_contract_def)
    moreover have "hex4 k \<in> {rel. full_name ?n rel \<in> dom (kv (settings st))}"
      using Some by (auto simp: full_name_def kv_name_group hex4_def)
    ultimately obtain rels where "hex4 k \<in> set rels" "es = map (\<lambda>rel. entry_of rel (the (kv (settings st) (full_name ?n rel)))) rels"
      unfolding subtree_lists_def by auto
    then obtain v where "entry_of (hex4 k) v \<in> set es" by auto
    moreover have "take 31 (?n @ ''/'' @ fst (entry_of (hex4 k) v)) = kv_name (g, k)"
      by (simp add: kv_name_def group_name_def entry_of_def)
    ultimately have "kv_name (g, k) \<in> (\<lambda>e. take 31 (?n @ ''/'' @ fst e)) ` set es" by (metis image_eqI)
    then show ?thesis unfolding kv2 by simp
  qed (simp add: kv2)
  have "kv s2 (kv_name (g', k)) = kv (settings st) (kv_name (g', k))" if "g' \<noteq> g" for g' k
    unfolding kv2 using other_group [OF that] by auto
  with gone st' show ?thesis by (simp add: kv_rec_def)
qed

section \<open>A concrete instance\<close>

text \<open>Settings kept as an association list, with every call succeeding, and the key map of \<open>Crypto_Keys\<close>.\<close>

type_synonym setting_list = "(string \<times> u8 list) list"

definition rel_of :: "string \<Rightarrow> string \<Rightarrow> string option" where
  "rel_of n x =
     (if x = n then Some ''''
      else if take (Suc (length n)) x = n @ ''/'' \<and> length x > Suc (length n) then Some (drop (Suc (length n)) x)
      else None)"

definition list_settings :: "setting_list settings_ops" where
  "list_settings =
     \<lparr>settings_subsys_init = (\<lambda>s. (0, s)), settings_load = (\<lambda>s. (0, s)),
      settings_save_one = (\<lambda>n d s. (0, (n, d) # s)),
      settings_delete = (\<lambda>n s. (0, [(m, d) \<leftarrow> s. m \<noteq> n])),
      settings_commit = (\<lambda>s. (0, s)),
      settings_subtree = (\<lambda>n s. (0, map (\<lambda>rel. entry_of rel (the (map_of s (full_name n rel))))
         (List.map_filter (rel_of n) (remdups (map fst s))))),
      settings_cb_failed = (\<lambda>rc. rc), settings_name_next = length\<rparr>"

lemma rel_of_full: "rel_of n x = Some rel \<longleftrightarrow> x = full_name n rel"
proof
  assume "rel_of n x = Some rel"
  moreover have "x = n @ ''/'' @ drop (Suc (length n)) x" if "take (Suc (length n)) x = n @ ''/''"
    using append_take_drop_id [of "Suc (length n)" x] that by simp
  ultimately show "x = full_name n rel" by (auto simp: rel_of_def full_name_def split: if_splits)
next
  assume "x = full_name n rel"
  then show "rel_of n x = Some rel" by (auto simp: rel_of_def full_name_def)
qed

lemma map_filter_iff: "y \<in> set (List.map_filter f xs) \<longleftrightarrow> (\<exists>x \<in> set xs. f x = Some y)"
  by (induction xs) (auto simp: List.map_filter_simps split: option.splits)

lemma map_filter_rel:
  assumes "distinct xs"
  shows "distinct (List.map_filter (rel_of n) xs)" "set (List.map_filter (rel_of n) xs) = {rel. full_name n rel \<in> set xs}"
proof -
  show "set (List.map_filter (rel_of n) xs) = {rel. full_name n rel \<in> set xs}"
    by (auto simp: map_filter_iff rel_of_full)
  show "distinct (List.map_filter (rel_of n) xs)"
    using assms by (auto simp: List.map_filter_def distinct_map inj_on_def rel_of_full [THEN iffD2] rel_of_full)
qed

lemma list_settings_contract: "settings_contract list_settings map_of"
proof -
  have "map_of [(m, d) \<leftarrow> s. m \<noteq> n] = (map_of s)(n := None)" for n and s :: setting_list
    by (induction s) (auto simp: fun_eq_iff)
  moreover have "subtree_lists list_settings (map_of s) n es" if "settings_subtree list_settings n s = (0, es)" for n s es
    using that map_filter_rel [of "remdups (map fst s)" n]
    by (auto simp: subtree_lists_def list_settings_def dom_map_of_conv_image_fst
        intro!: exI [of _ "List.map_filter (rel_of n) (remdups (map fst s))"])
  ultimately show ?thesis
    by (auto simp: settings_contract_def list_settings_def)
qed

definition list_env :: "(setting_list, key_map) kv_env" where
  "list_env = \<lparr>kv_settings = list_settings, kv_psa = map_psa, kv_keys = Some KeyStoragePersistent, kv_crypto_init = (\<lambda>_. True)\<rparr>"

definition list_state :: "setting_list \<Rightarrow> (setting_list, key_map) kv_state" where
  "list_state s = \<lparr>settings = s, key_store = Map.empty, keys_initialized = False\<rparr>"

lemma list_env_simps [simp]:
  "kv_settings list_env = list_settings" "kv_psa list_env = map_psa" "kv_keys list_env = Some KeyStoragePersistent"
  "settings (list_state s) = s" "key_store (list_state s) = Map.empty"
  by (simp_all add: list_env_def list_state_def)

theorem kv_plain_refines_map_witness:
  "sid_pal_storage_kv_record_get list_env 1 7 (Some [0, 0]) 2 (list_state [(kv_name (1, 7), [5, 6, 8])]) =
     (SID_ERROR_NONE, Some [5, 6]) \<and>
   (\<exists>st'. sid_pal_storage_kv_record_set list_env 1 7 (Some [1, 2, 3]) 2 (list_state [(kv_name (1, 7), [5, 6, 8])]) =
       Some (SID_ERROR_NONE, st') \<and> kv_rec map_of st' (1, 7) = Some [1, 2])"
proof -
  let ?st = "list_state [(kv_name (1, 7), [5, 6, 8])]"
  have r: "kv_rec map_of ?st (1, 7) = Some [5, 6, 8]" by (simp add: kv_rec_def)
  have "fst (settings_subtree list_settings (kv_name (1, 7)) [(kv_name (1, 7), [5, 6, 8])]) = 0"
    "settings_save_one list_settings (kv_name (1, 7)) (take 2 [1, 2, 3]) [(kv_name (1, 7), [5, 6, 8])] =
       (0, [(kv_name (1, 7), [1, 2]), (kv_name (1, 7), [5, 6, 8])])"
    "fst (settings_commit list_settings [(kv_name (1, 7), [1, 2]), (kv_name (1, 7), [5, 6, 8])]) = 0"
    by (simp_all add: list_settings_def)
  then show ?thesis
    using kv_plain_refines_map [of list_env map_of 1 7 ?st 2 "[1, 2, 3]" 0 "[(kv_name (1, 7), [1, 2]), (kv_name (1, 7), [5, 6, 8])]" "[0, 0]" 2 0]
      list_settings_contract r
    by (auto simp: kv_plain_def storage2key_id_def SID_CRYPTO_KEYS_ID_IS_SIDEWALK_KEY_def)
qed

lemma list_secret: "kv_secret list_env KeyStoragePersistent 0 28 3"
  by (simp add: kv_secret_def storage2key_id_def)

theorem kv_master_key_secret_witness:
  "sid_pal_storage_kv_record_get list_env 0 28 (Some [9, 9, 9, 9, 9]) 5
       ((list_state [])\<lparr>key_store := [3 \<mapsto> (sid_crypto_keys_attributes_set KeyStoragePersistent 3, [1, 2, 3, 4])]\<rparr>) =
     (SID_ERROR_NONE, Some [3, 0, 0, 0, 0])"
  using kv_master_key_secret [of list_env "\<lambda>ks. ks" KeyStoragePersistent 0 28 3 "[1, 2, 3, 4]"
      "(list_state [])\<lparr>key_store := [3 \<mapsto> (sid_crypto_keys_attributes_set KeyStoragePersistent 3, [1, 2, 3, 4])]\<rparr>"
      "[9, 9, 9, 9, 9]" 5]
    map_psa_contract list_secret
  by (simp add: is_key_reference_def u32_of_le_def u32_to_le_def SID_CRYPTO_KEYS_ID_IS_SIDEWALK_KEY_def map_psa_def)

theorem kv_init_keeps_master_keys_witness:
  "\<exists>st'. sid_pal_storage_kv_init list_env (\<lambda>_. replicate 16 0) (list_state [(kv_name (0, 28), replicate 16 7)]) = Some (SID_ERROR_NONE, st') \<and>
     key_moved map_of (\<lambda>ks. ks) KeyStoragePersistent 28 (replicate 16 7) st'"
proof -
  let ?st = "list_state [(kv_name (0, 28), replicate 16 7)]" and ?v = "replicate 16 7 :: u8 list"
  have l: "\<forall>s. fst (settings_subtree list_settings (kv_name (0, 28)) s) = 0" by (simp add: list_settings_def)
  have ids: "master_ids_ok KeyStoragePersistent" by (simp add: master_ids_ok_def master_keys_def storage2key_id_def)
  have nr: "\<not> is_key_reference KeyStoragePersistent ?v" by (simp add: is_key_reference_def)
  have "storage2key_id KeyStoragePersistent 0 28 = 3" by (simp add: storage2key_id_def)
  then have mw: "move_works list_env KeyStoragePersistent 28 ?v"
    by (simp add: move_works_def list_settings_def sid_crypto_keys_new_import_def buffer_get_conv nr map_psa_def Let_def)
  have i: "settings_subsys_init list_settings (settings ?st) = (0, settings ?st)"
    "settings_load list_settings (settings ?st) = (0, settings ?st)"
    "sid_crypto_keys_init (kv_crypto_init list_env) (keys_initialized ?st) = (0, True)"
    by (simp_all add: list_settings_def sid_crypto_keys_init_def list_env_def list_state_def)
  have "kv_rec map_of ?st (0, 28) = Some ?v" "28 \<in> set master_keys" by (simp_all add: kv_rec_def master_keys_def)
  then show ?thesis
    using kv_init_keeps_master_keys [of list_env map_of "\<lambda>ks. ks" KeyStoragePersistent "\<lambda>_. replicate 16 0" ?st 0 "settings ?st" 0 "settings ?st" 0 True]
      list_settings_contract map_psa_contract ids i l nr mw
    by auto
qed

text \<open>Settings whose loading fails.\<close>

definition broken_env :: "(setting_list, key_map) kv_env" where
  "broken_env = list_env\<lparr>kv_settings := list_settings\<lparr>settings_subtree := \<lambda>n s. (- EIO, [])\<rparr>\<rparr>"

theorem kv_load_failure_imports_garbage_witness:
  "\<exists>st'. storage_key_save_secure broken_env KeyStoragePersistent (replicate 16 0xAA) 0 28 (list_state []) = Some st' \<and>
     key_store st' 3 = Some (sid_crypto_keys_attributes_set KeyStoragePersistent 3, replicate 16 0xAA)"
proof -
  have "sid_crypto_keys_new_import map_psa KeyStoragePersistent Map.empty 3 (Some (replicate 16 0xAA)) 16 =
      Some (0, [3 \<mapsto> (sid_crypto_keys_attributes_set KeyStoragePersistent 3, replicate 16 0xAA)])"
    by (simp add: sid_crypto_keys_new_import_def sid_crypto_keys_buffer_get_def map_psa_def Let_def)
  then show ?thesis
    using kv_load_failure_imports_garbage [of broken_env "\<lambda>ks. ks" KeyStoragePersistent 0 28 3 "list_state []" "- EIO"
        "replicate 16 0xAA"] map_psa_contract
    by (simp add: broken_env_def list_env_def kv_secret_def storage2key_id_def list_state_def)
qed

theorem kv_group_delete_removes_witness:
  "\<exists>st'. sid_pal_storage_kv_group_delete list_env 1 (list_state [(kv_name (1, 7), [5]), (kv_name (2, 7), [6])]) = (SID_ERROR_NONE, st') \<and>
     kv_rec map_of st' (1, 7) = None \<and> kv_rec map_of st' (2, 7) = Some [6]"
proof -
  let ?st = "list_state [(kv_name (1, 7), [5]), (kv_name (2, 7), [6])]"
  have del: "\<forall>n s. fst (settings_delete list_settings n s) = 0" by (simp add: list_settings_def)
  have cm: "settings_commit list_settings s = (0, s)" for s by (simp add: list_settings_def)
  have ld: "fst (settings_load_subtree_direct list_settings n s (delete_subtree_cb list_settings n) s) = 0" for n s
  proof -
    obtain es where es: "settings_subtree list_settings n s = (0, es)" by (simp add: list_settings_def)
    show ?thesis
      using delete_iter [OF list_settings_contract del [rule_format], of n es s]
      by (auto simp: settings_load_subtree_direct_def es split: prod.splits)
  qed
  obtain s1 where s1: "settings_load_subtree_direct list_settings (settings_serialize_group 32 1) (settings ?st)
      (delete_subtree_cb list_settings (settings_serialize_group 32 1)) (settings ?st) = (0, s1)"
    using ld by (metis prod.collapse)
  then have r: "sid_pal_storage_kv_group_delete list_env 1 ?st = (SID_ERROR_NONE, ?st\<lparr>settings := s1\<rparr>)"
    by (simp add: sid_pal_storage_kv_group_delete_def cm Let_def)
  then show ?thesis
    using kv_group_delete_removes [of list_env map_of "\<lambda>ks. ks" 1 ?st "?st\<lparr>settings := s1\<rparr>"] r list_settings_contract map_psa_contract del
    by (auto simp: kv_rec_def kv_name_inj)
qed

end
