(* ===== verification/Ble_Advert.thy ===== *)
theory Ble_Advert
  imports Sidewalk_Prelude
begin

text \<open>
  BLE advertising, \<^verbatim>\<open>sid_ble_advert.c\<close>: one advertising set, a fast and a slow phase, and the
  delayed work that moves from one to the other. The Bluetooth stack's calls are parameters.
\<close>

section \<open>Data\<close>

record sid_ble_advert_params =
  fast_enabled :: bool
  slow_enabled :: bool
  fast_interval :: u32
  fast_timeout :: u32
  slow_interval :: u32
  slow_timeout :: u32

record bt_le_adv_param =
  interval_min :: u16
  interval_max :: u16

datatype sid_ble_adv_state = BLE_ADV_DISABLE | BLE_ADV_FAST | BLE_ADV_SLOW

text \<open>
  The stack's calls, over its own state. A set is named by a number; the argument is \<open>None\<close>
  where the code passes \<^verbatim>\<open>NULL\<close>. \<^verbatim>\<open>bt_le_ext_adv_set_data\<close> gets the manufacturer data of \<^verbatim>\<open>ad\<close>,
  its other elements being constant.
\<close>

record 's adv_ops =
  bt_le_ext_adv_create :: "bt_le_adv_param \<Rightarrow> 's \<Rightarrow> int \<times> nat \<times> 's"
  bt_le_ext_adv_set_data :: "nat option \<Rightarrow> u8 list \<Rightarrow> 's \<Rightarrow> int \<times> 's"
  bt_le_ext_adv_start :: "nat option \<Rightarrow> 's \<Rightarrow> int \<times> 's"
  bt_le_ext_adv_stop :: "nat option \<Rightarrow> 's \<Rightarrow> int \<times> 's"
  bt_le_ext_adv_delete :: "nat option \<Rightarrow> 's \<Rightarrow> int \<times> 's"

text \<open>
  The module's state: the static variables, the delayed work (its delay in milliseconds while
  it is scheduled) and the stack.
\<close>

record 's advert =
  adv_set :: "nat option"
  advert_params :: sid_ble_advert_params
  adv_param_fast :: bt_le_adv_param
  adv_param_slow :: bt_le_adv_param
  adv_state :: sid_ble_adv_state
  bt_adv_manuf_data :: "u8 list"
  manuf_data_len :: nat
  change_adv_work :: "u32 option"
  bt_stack :: 's

abbreviation (input) AD_MANUF_DATA_LEN_MAX :: nat where "AD_MANUF_DATA_LEN_MAX \<equiv> 22"
abbreviation (input) BT_COMP_ID_AMA :: u16 where "BT_COMP_ID_AMA \<equiv> 0x0171"

text \<open>The elements handed to the stack: the first \<^verbatim>\<open>data_len\<close> bytes of the manufacturer data.\<close>

definition adv_payload :: "'s advert \<Rightarrow> u8 list" where
  "adv_payload st = take (manuf_data_len st) (bt_adv_manuf_data st)"

section \<open>Intervals\<close>

definition MS_TO_INTERVAL_VAL :: "u32 \<Rightarrow> u16" where
  "MS_TO_INTERVAL_VAL ms = ucast (ms * 8 div 5)"

text \<open>\<open>precision\<close> is \<^verbatim>\<open>CONFIG_SIDEWALK_BLE_ADV_INT_PRECISION\<close>.\<close>

definition adv_param_set_interval :: "u32 \<Rightarrow> u32 \<Rightarrow> bt_le_adv_param \<Rightarrow> bt_le_adv_param" where
  "adv_param_set_interval precision interval param =
     param\<lparr>interval_min := ucast interval, interval_max := ucast (interval + ucast (MS_TO_INTERVAL_VAL precision))\<rparr>"

section \<open>Starting a phase\<close>

definition adv_start_with_param ::
  "'s adv_ops \<Rightarrow> bt_le_adv_param \<Rightarrow> sid_ble_adv_state \<Rightarrow> u32 \<Rightarrow> 's advert \<Rightarrow> int \<times> 's advert" where
  "adv_start_with_param ops param new_state timeout_10ms st =
     (case bt_le_ext_adv_create ops param (bt_stack st) of (err, h, s1) \<Rightarrow>
        if err \<noteq> 0 then (err, st\<lparr>bt_stack := s1\<rparr>)
        else
          (let st1 = st\<lparr>adv_set := Some h, bt_stack := s1\<rparr> in
           case bt_le_ext_adv_set_data ops (adv_set st1) (adv_payload st1) (bt_stack st1) of (err, s2) \<Rightarrow>
             if err \<noteq> 0
             then (err, st1\<lparr>adv_set := None, bt_stack := snd (bt_le_ext_adv_delete ops (adv_set st1) s2)\<rparr>)
             else
               (case bt_le_ext_adv_start ops (adv_set st1) s2 of (err, s3) \<Rightarrow>
                  if err \<noteq> 0
                  then (err, st1\<lparr>adv_set := None, bt_stack := snd (bt_le_ext_adv_delete ops (adv_set st1) s3)\<rparr>)
                  else
                    (let st2 = st1\<lparr>adv_state := new_state, bt_stack := s3\<rparr> in
                     (0, if timeout_10ms > 0 then st2\<lparr>change_adv_work := Some (timeout_10ms * 10)\<rparr> else st2)))))"

text \<open>The work handler; the work is no longer scheduled when it runs.\<close>

definition adv_interval_change :: "'s adv_ops \<Rightarrow> u32 \<Rightarrow> 's advert \<Rightarrow> 's advert" where
  "adv_interval_change ops precision st =
     (if adv_set st = None then st
      else
        (case bt_le_ext_adv_stop ops (adv_set st) (bt_stack st) of (err, s1) \<Rightarrow>
           if err \<noteq> 0 then st\<lparr>adv_state := BLE_ADV_DISABLE, bt_stack := s1\<rparr>
           else
             (case bt_le_ext_adv_delete ops (adv_set st) s1 of (err, s2) \<Rightarrow>
                if err \<noteq> 0 then st\<lparr>adv_state := BLE_ADV_DISABLE, bt_stack := s2\<rparr>
                else
                  (let st1 = st\<lparr>adv_set := None, bt_stack := s2\<rparr> in
                   if adv_state st1 = BLE_ADV_FAST \<and> slow_enabled (advert_params st1) then
                     (let st2 = st1\<lparr>adv_param_slow :=
                            adv_param_set_interval precision (slow_interval (advert_params st1)) (adv_param_slow st1)\<rparr> in
                      case adv_start_with_param ops (adv_param_slow st2) BLE_ADV_SLOW (slow_timeout (advert_params st2)) st2 of
                        (err, st3) \<Rightarrow> if err \<noteq> 0 then st3\<lparr>adv_state := BLE_ADV_DISABLE\<rparr> else st3)
                   else st1\<lparr>adv_state := BLE_ADV_DISABLE\<rparr>))))"

section \<open>Interface\<close>

text \<open>
  The two \<^verbatim>\<open>memcpy\<close> calls into the array of \<open>AD_MANUF_DATA_LEN_MAX\<close> bytes, and the length returned.
\<close>

definition adv_manuf_data_copy :: "u8 list \<Rightarrow> u8 \<Rightarrow> 's advert \<Rightarrow> nat \<times> 's advert" where
  "adv_manuf_data_copy data data_len st =
     (let ama_id = [ucast BT_COMP_ID_AMA, ucast (drop_bit 8 BT_COMP_ID_AMA)];
          ama_id_len = length ama_id;
          new_data_len = min (unat data_len) (AD_MANUF_DATA_LEN_MAX - ama_id_len);
          bytes = ama_id @ take new_data_len data
      in (new_data_len + ama_id_len, st\<lparr>bt_adv_manuf_data := bytes @ drop (length bytes) (bt_adv_manuf_data st)\<rparr>))"

definition sid_ble_advert_init :: "'s advert \<Rightarrow> int \<times> 's advert" where
  "sid_ble_advert_init st = (0, st)"

definition sid_ble_advert_start :: "'s adv_ops \<Rightarrow> u32 \<Rightarrow> 's advert \<Rightarrow> int \<times> 's advert" where
  "sid_ble_advert_start ops precision st =
     (let st1 = (if adv_set st \<noteq> None
                 then (let s1 = snd (bt_le_ext_adv_stop ops (adv_set st) (bt_stack st));
                           s2 = snd (bt_le_ext_adv_delete ops (adv_set st) s1)
                       in st\<lparr>change_adv_work := None, adv_set := None, adv_state := BLE_ADV_DISABLE, bt_stack := s2\<rparr>)
                 else st);
          p = advert_params st1
      in if fast_enabled p then
           (let st2 = st1\<lparr>adv_param_fast := adv_param_set_interval precision (fast_interval p) (adv_param_fast st1)\<rparr>
            in adv_start_with_param ops (adv_param_fast st2) BLE_ADV_FAST (fast_timeout p) st2)
         else if slow_enabled p then
           (let st2 = st1\<lparr>adv_param_slow := adv_param_set_interval precision (slow_interval p) (adv_param_slow st1)\<rparr>
            in adv_start_with_param ops (adv_param_slow st2) BLE_ADV_SLOW (slow_timeout p) st2)
         else (0, st1))"

text \<open>The data pointer is \<open>None\<close> for \<^verbatim>\<open>NULL\<close>.\<close>

definition sid_ble_advert_update :: "'s adv_ops \<Rightarrow> u8 list option \<Rightarrow> u8 \<Rightarrow> 's advert \<Rightarrow> int \<times> 's advert" where
  "sid_ble_advert_update ops data data_len st =
     (let state = adv_state st in
      case data of
        None \<Rightarrow> (- EINVAL, st)
      | Some d \<Rightarrow>
          if data_len = 0 then (- EINVAL, st)
          else
            (case adv_manuf_data_copy d data_len st of (len, st1) \<Rightarrow>
               let st2 = st1\<lparr>manuf_data_len := len\<rparr> in
               if state \<noteq> BLE_ADV_DISABLE
               then (case bt_le_ext_adv_set_data ops (adv_set st2) (adv_payload st2) (bt_stack st2) of
                       (err, s1) \<Rightarrow> (err, st2\<lparr>bt_stack := s1\<rparr>))
               else (0, st2)))"

definition sid_ble_advert_notify_connection :: "'s advert \<Rightarrow> 's advert" where
  "sid_ble_advert_notify_connection st = st\<lparr>change_adv_work := None\<rparr>"

definition sid_ble_advert_params_set :: "sid_ble_advert_params option \<Rightarrow> 's advert \<Rightarrow> int \<times> 's advert" where
  "sid_ble_advert_params_set params st =
     (case params of None \<Rightarrow> (- EINVAL, st) | Some p \<Rightarrow> (0, st\<lparr>advert_params := p\<rparr>))"

definition sid_ble_advert_params_get :: "bool \<Rightarrow> 's advert \<Rightarrow> int + sid_ble_advert_params" where
  "sid_ble_advert_params_get has_params st = (if \<not> has_params then Inl (- EINVAL) else Inr (advert_params st))"

definition sid_ble_advert_stop :: "'s adv_ops \<Rightarrow> 's advert \<Rightarrow> int \<times> 's advert" where
  "sid_ble_advert_stop ops st =
     (let st1 = st\<lparr>change_adv_work := None\<rparr> in
      if adv_set st1 = None then (0, st1\<lparr>adv_state := BLE_ADV_DISABLE\<rparr>)
      else
        (case bt_le_ext_adv_stop ops (adv_set st1) (bt_stack st1) of (err, s1) \<Rightarrow>
           let st2 = st1\<lparr>bt_stack := s1\<rparr> in
           (err, if err = 0 then st2\<lparr>adv_state := BLE_ADV_DISABLE\<rparr> else st2)))"

definition sid_ble_advert_deinit :: "'s adv_ops \<Rightarrow> 's advert \<Rightarrow> int \<times> 's advert" where
  "sid_ble_advert_deinit ops st =
     (if adv_set st \<noteq> None
      then (case bt_le_ext_adv_delete ops (adv_set st) (bt_stack st) of (err, s1) \<Rightarrow>
              if err \<noteq> 0 then (err, st\<lparr>bt_stack := s1\<rparr>) else (0, st\<lparr>adv_set := None, bt_stack := s1\<rparr>))
      else (0, st))"

end
