(* ===== verification/Ble_Advert_Props.thy ===== *)
theory Ble_Advert_Props
  imports Ble_Advert
begin

text \<open>
  The properties of BLE advertising: what the module's state says about the stack in every
  reachable state, the course from fast to slow advertising to none, and the data that is
  advertised.
\<close>

section \<open>The stack's contract\<close>

text \<open>
  The documented behaviour of the stack, for the sets that exist (\<open>live\<close>) and those that
  advertise (\<open>running\<close>). Every call may fail, and then changes neither; a set that advertises
  cannot be deleted.
\<close>

definition adv_contract :: "'s adv_ops \<Rightarrow> ('s \<Rightarrow> nat set) \<Rightarrow> ('s \<Rightarrow> nat set) \<Rightarrow> bool" where
  "adv_contract ops live running \<longleftrightarrow>
     (\<forall>p s. case bt_le_ext_adv_create ops p s of (err, h, s1) \<Rightarrow>
        running s1 = running s \<and> (if err = 0 then h \<notin> live s \<and> live s1 = insert h (live s) else live s1 = live s)) \<and>
     (\<forall>h d s. case bt_le_ext_adv_set_data ops h d s of (err, s1) \<Rightarrow> live s1 = live s \<and> running s1 = running s) \<and>
     (\<forall>h s. case bt_le_ext_adv_start ops (Some h) s of (err, s1) \<Rightarrow>
        live s1 = live s \<and> running s1 = (if err = 0 then insert h (running s) else running s)) \<and>
     (\<forall>h s. case bt_le_ext_adv_stop ops (Some h) s of (err, s1) \<Rightarrow>
        live s1 = live s \<and> running s1 = (if err = 0 then running s - {h} else running s)) \<and>
     (\<forall>h s. case bt_le_ext_adv_delete ops (Some h) s of (err, s1) \<Rightarrow>
        running s1 = running s \<and> (err = 0 \<longrightarrow> h \<notin> running s) \<and> live s1 = (if err = 0 then live s - {h} else live s))"

text \<open>A stack on which existing sets can be stopped, and deleted while they do not advertise.\<close>

definition adv_reliable :: "'s adv_ops \<Rightarrow> ('s \<Rightarrow> nat set) \<Rightarrow> ('s \<Rightarrow> nat set) \<Rightarrow> bool" where
  "adv_reliable ops live running \<longleftrightarrow>
     (\<forall>h s. h \<in> live s \<longrightarrow> fst (bt_le_ext_adv_stop ops (Some h) s) = 0) \<and>
     (\<forall>h s. h \<in> live s \<and> h \<notin> running s \<longrightarrow> fst (bt_le_ext_adv_delete ops (Some h) s) = 0)"

lemma adv_createD:
  "adv_contract ops live running \<Longrightarrow> bt_le_ext_adv_create ops p s = (err, h, s1) \<Longrightarrow>
   running s1 = running s \<and> (if err = 0 then h \<notin> live s \<and> live s1 = insert h (live s) else live s1 = live s)"
  unfolding adv_contract_def by (drule conjunct1, drule spec [of _ p], drule spec [of _ s]) simp

lemma adv_set_dataD:
  "adv_contract ops live running \<Longrightarrow> bt_le_ext_adv_set_data ops x d s = (err, s1) \<Longrightarrow> live s1 = live s \<and> running s1 = running s"
  unfolding adv_contract_def
  by (drule conjunct2, drule conjunct1, drule spec [of _ x], drule spec [of _ d], drule spec [of _ s]) simp

lemma adv_startD:
  "adv_contract ops live running \<Longrightarrow> bt_le_ext_adv_start ops (Some h) s = (err, s1) \<Longrightarrow>
   live s1 = live s \<and> running s1 = (if err = 0 then insert h (running s) else running s)"
  unfolding adv_contract_def
  by (drule conjunct2, drule conjunct2, drule conjunct1, drule spec [of _ h], drule spec [of _ s]) simp

lemma adv_stopD:
  "adv_contract ops live running \<Longrightarrow> bt_le_ext_adv_stop ops (Some h) s = (err, s1) \<Longrightarrow>
   live s1 = live s \<and> running s1 = (if err = 0 then running s - {h} else running s)"
  unfolding adv_contract_def
  by (drule conjunct2, drule conjunct2, drule conjunct2, drule conjunct1, drule spec [of _ h], drule spec [of _ s]) simp

lemma adv_deleteD:
  "adv_contract ops live running \<Longrightarrow> bt_le_ext_adv_delete ops (Some h) s = (err, s1) \<Longrightarrow>
   running s1 = running s \<and> (err = 0 \<longrightarrow> h \<notin> running s) \<and> live s1 = (if err = 0 then live s - {h} else live s)"
  unfolding adv_contract_def
  by (drule conjunct2, drule conjunct2, drule conjunct2, drule conjunct2, drule spec [of _ h], drule spec [of _ s]) simp

lemma adv_reliableD:
  "adv_reliable ops live running \<Longrightarrow> h \<in> live s \<Longrightarrow> bt_le_ext_adv_stop ops (Some h) s = (err, s1) \<Longrightarrow> err = 0"
  "adv_reliable ops live running \<Longrightarrow> h \<in> live s \<Longrightarrow> h \<notin> running s \<Longrightarrow>
   bt_le_ext_adv_delete ops (Some h) s = (err, s1) \<Longrightarrow> err = 0"
  unfolding adv_reliable_def by (metis fst_conv)+

section \<open>The invariant\<close>

text \<open>
  The module's handle is never stale: it names a set that exists. A change of phase is only
  scheduled while the module records a phase and its set advertises. On a reliable stack the
  module's set is also the only one, and nothing advertises while no phase is recorded.
\<close>

definition adv_inv :: "'s adv_ops \<Rightarrow> ('s \<Rightarrow> nat set) \<Rightarrow> ('s \<Rightarrow> nat set) \<Rightarrow> 's advert \<Rightarrow> bool" where
  "adv_inv ops live running st \<longleftrightarrow>
     set_option (adv_set st) \<subseteq> live (bt_stack st) \<and> running (bt_stack st) \<subseteq> live (bt_stack st) \<and>
     (change_adv_work st \<noteq> None \<longrightarrow>
        adv_state st \<noteq> BLE_ADV_DISABLE \<and> (\<exists>h. adv_set st = Some h \<and> h \<in> running (bt_stack st))) \<and>
     (adv_reliable ops live running \<longrightarrow>
        live (bt_stack st) = set_option (adv_set st) \<and> (adv_state st = BLE_ADV_DISABLE \<longrightarrow> running (bt_stack st) = {}))"

text \<open>
  Starting a phase from a module without a set: a new set advertises, or the call fails and
  the module has no set. Only a failing deletion leaves a set behind.
\<close>

lemma start_with_param:
  assumes c: "adv_contract ops live running"
    and idle: "adv_set st = None" "change_adv_work st = None" "running (bt_stack st) \<subseteq> live (bt_stack st)"
    and r: "adv_start_with_param ops p phase t st = (err, st')"
  shows "if err = 0
    then (\<exists>h. adv_set st' = Some h \<and> h \<notin> live (bt_stack st) \<and> live (bt_stack st') = insert h (live (bt_stack st)) \<and>
           running (bt_stack st') = insert h (running (bt_stack st))) \<and> adv_state st' = phase \<and>
      change_adv_work st' = (if t > 0 then Some (t * 10) else None)
    else adv_set st' = None \<and> live (bt_stack st) \<subseteq> live (bt_stack st') \<and> running (bt_stack st') = running (bt_stack st) \<and>
      (adv_reliable ops live running \<longrightarrow> live (bt_stack st') = live (bt_stack st)) \<and> adv_state st' = adv_state st \<and>
      change_adv_work st' = None"
proof -
  obtain e1 h s1 where 1: "bt_le_ext_adv_create ops p (bt_stack st) = (e1, h, s1)" by (metis prod_cases3)
  let ?p = "adv_payload (st\<lparr>adv_set := Some h, bt_stack := s1\<rparr>)"
  obtain e2 s2 where 2: "bt_le_ext_adv_set_data ops (Some h) ?p s1 = (e2, s2)" by fastforce
  obtain e3 s3 where 3: "bt_le_ext_adv_start ops (Some h) s2 = (e3, s3)" by fastforce
  note f = adv_createD [OF c 1] adv_set_dataD [OF c 2] adv_startD [OF c 3]
  have del: "live (bt_stack st) \<subseteq> live (snd (bt_le_ext_adv_delete ops (Some h) s)) \<and>
      running (snd (bt_le_ext_adv_delete ops (Some h) s)) = running (bt_stack st) \<and>
      (adv_reliable ops live running \<longrightarrow> live (snd (bt_le_ext_adv_delete ops (Some h) s)) = live (bt_stack st))"
    if "live s = insert h (live (bt_stack st))" "running s = running (bt_stack st)" "h \<notin> live (bt_stack st)" for s
  proof -
    obtain e s' where d: "bt_le_ext_adv_delete ops (Some h) s = (e, s')" by fastforce
    have "e = 0" if "adv_reliable ops live running"
      using adv_reliableD(2) [OF that _ _ d] \<open>live s = _\<close> \<open>running s = _\<close> \<open>h \<notin> _\<close> idle(3) by auto
    with adv_deleteD [OF c d] that show ?thesis by (auto simp: d)
  qed
  consider "e1 \<noteq> 0" | "e1 = 0" "e2 \<noteq> 0" | "e1 = 0" "e2 = 0" "e3 \<noteq> 0" | "e1 = 0" "e2 = 0" "e3 = 0" by blast
  then show ?thesis
  proof cases
    case 2
    then have st': "err = e2" "st' = st\<lparr>adv_set := None, bt_stack := snd (bt_le_ext_adv_delete ops (Some h) s2)\<rparr>"
      using r 1 \<open>bt_le_ext_adv_set_data ops (Some h) ?p s1 = (e2, s2)\<close> by (auto simp: adv_start_with_param_def Let_def)
    show ?thesis using del [of s2] f 2 idle by (simp add: st')
  next
    case 3
    then have st': "err = e3" "st' = st\<lparr>adv_set := None, bt_stack := snd (bt_le_ext_adv_delete ops (Some h) s3)\<rparr>"
      using r 1 2 \<open>bt_le_ext_adv_start ops (Some h) s2 = (e3, s3)\<close> by (auto simp: adv_start_with_param_def Let_def)
    show ?thesis using del [of s3] f 3 idle by (simp add: st')
  qed (use r 1 2 3 f idle in \<open>auto simp: adv_start_with_param_def Let_def\<close>)
qed

text \<open>What stopping and deleting the module's set, as far as it goes, leaves behind.\<close>

lemma stop_delete:
  assumes c: "adv_contract ops live running" and inv: "adv_inv ops live running st" and h: "adv_set st = Some h"
    and s1: "bt_le_ext_adv_stop ops (Some h) (bt_stack st) = (e1, s1)" and s2: "bt_le_ext_adv_delete ops (Some h) s1 = (e2, s2)"
  shows "running s2 \<subseteq> live s2 \<and> running s1 \<subseteq> live s1 \<and> live s1 = live (bt_stack st) \<and>
    (adv_reliable ops live running \<longrightarrow> e1 = 0 \<and> e2 = 0 \<and> running s1 = {} \<and> live s2 = {})"
proof -
  have i: "h \<in> live (bt_stack st)" "running (bt_stack st) \<subseteq> live (bt_stack st)"
    "adv_reliable ops live running \<longrightarrow> live (bt_stack st) = {h}" using inv h by (auto simp: adv_inv_def)
  note f = adv_stopD [OF c s1] adv_deleteD [OF c s2]
  have "e1 = 0 \<and> e2 = 0" if r: "adv_reliable ops live running"
  proof -
    have "e1 = 0" using adv_reliableD(1) [OF r i(1) s1] .
    moreover have "e2 = 0" using adv_reliableD(2) [OF r _ _ s2] i(1) f \<open>e1 = 0\<close> by simp
    ultimately show ?thesis by simp
  qed
  with f i show ?thesis by (auto split: if_splits)
qed

text \<open>A module without a set, from which the phases are started.\<close>

definition adv_clean :: "'s adv_ops \<Rightarrow> ('s \<Rightarrow> nat set) \<Rightarrow> ('s \<Rightarrow> nat set) \<Rightarrow> 's advert \<Rightarrow> bool" where
  "adv_clean ops live running st \<longleftrightarrow>
     adv_set st = None \<and> change_adv_work st = None \<and> running (bt_stack st) \<subseteq> live (bt_stack st) \<and>
     (adv_reliable ops live running \<longrightarrow> live (bt_stack st) = {})"

lemma start_clean:
  assumes c: "adv_contract ops live running" and u: "adv_clean ops live running u"
    and r: "adv_start_with_param ops p ph t u = (e, u')" and ph: "ph \<noteq> BLE_ADV_DISABLE"
  shows "adv_inv ops live running u'" "e \<noteq> 0 \<Longrightarrow> adv_inv ops live running (u'\<lparr>adv_state := BLE_ADV_DISABLE\<rparr>)"
  using start_with_param [OF c _ _ _ r] u ph by (auto simp: adv_inv_def adv_clean_def split: if_splits)

lemma start_inv:
  assumes c: "adv_contract ops live running" and inv: "adv_inv ops live running st" and r: "sid_ble_advert_start ops pr st = (err, st')"
  shows "adv_inv ops live running st'"
proof -
  obtain u where u: "adv_clean ops live running u" "sid_ble_advert_start ops pr st =
     (let p = advert_params u
      in if fast_enabled p then
           (let st2 = u\<lparr>adv_param_fast := adv_param_set_interval pr (fast_interval p) (adv_param_fast u)\<rparr>
            in adv_start_with_param ops (adv_param_fast st2) BLE_ADV_FAST (fast_timeout p) st2)
         else if slow_enabled p then
           (let st2 = u\<lparr>adv_param_slow := adv_param_set_interval pr (slow_interval p) (adv_param_slow u)\<rparr>
            in adv_start_with_param ops (adv_param_slow st2) BLE_ADV_SLOW (slow_timeout p) st2)
         else (0, u))"
  proof (cases "adv_set st")
    case None
    then have "adv_clean ops live running st" using inv by (auto simp: adv_inv_def adv_clean_def)
    then show thesis by (rule that) (simp add: sid_ble_advert_start_def None)
  next
    case (Some h)
    obtain e1 s1 where 1: "bt_le_ext_adv_stop ops (Some h) (bt_stack st) = (e1, s1)" by fastforce
    obtain e2 s2 where 2: "bt_le_ext_adv_delete ops (Some h) s1 = (e2, s2)" by fastforce
    let ?u = "st\<lparr>change_adv_work := None, adv_set := None, adv_state := BLE_ADV_DISABLE, bt_stack := s2\<rparr>"
    have "adv_clean ops live running ?u" using stop_delete [OF c inv Some 1 2] by (simp add: adv_clean_def)
    then show thesis by (rule that) (simp add: sid_ble_advert_start_def Some 1 2 Let_def)
  qed
  show ?thesis
  proof (cases "fast_enabled (advert_params u)")
    case True
    let ?u = "u\<lparr>adv_param_fast := adv_param_set_interval pr (fast_interval (advert_params u)) (adv_param_fast u)\<rparr>"
    have "adv_start_with_param ops (adv_param_fast ?u) BLE_ADV_FAST (fast_timeout (advert_params u)) ?u = (err, st')"
      using u(2) r True by (simp add: Let_def)
    then show ?thesis by (rule start_clean(1) [OF c, rotated]) (use u(1) in \<open>simp_all add: adv_clean_def\<close>)
  next
    case fast: False
    show ?thesis
    proof (cases "slow_enabled (advert_params u)")
      case True
      let ?u = "u\<lparr>adv_param_slow := adv_param_set_interval pr (slow_interval (advert_params u)) (adv_param_slow u)\<rparr>"
      have "adv_start_with_param ops (adv_param_slow ?u) BLE_ADV_SLOW (slow_timeout (advert_params u)) ?u = (err, st')"
        using u(2) r fast True by (simp add: Let_def)
      then show ?thesis by (rule start_clean(1) [OF c, rotated]) (use u(1) in \<open>simp_all add: adv_clean_def\<close>)
    next
      case False
      with fast u r show ?thesis by (auto simp: Let_def adv_inv_def adv_clean_def)
    qed
  qed
qed

lemma interval_change_inv:
  assumes c: "adv_contract ops live running" and inv: "adv_inv ops live running st" and w: "change_adv_work st = None"
  shows "adv_inv ops live running (adv_interval_change ops pr st)"
proof (cases "adv_set st")
  case None
  with inv show ?thesis by (simp add: adv_interval_change_def)
next
  case (Some h)
  obtain e1 s1 where 1: "bt_le_ext_adv_stop ops (Some h) (bt_stack st) = (e1, s1)" by fastforce
  obtain e2 s2 where 2: "bt_le_ext_adv_delete ops (Some h) s1 = (e2, s2)" by fastforce
  note sd = stop_delete [OF c inv Some 1 2]
  have hl: "h \<in> live s1" "adv_reliable ops live running \<longrightarrow> live s1 = {h}"
    using inv sd Some by (auto simp: adv_inv_def)
  let ?u = "st\<lparr>adv_set := None, bt_stack := s2,
    adv_param_slow := adv_param_set_interval pr (slow_interval (advert_params st)) (adv_param_slow st)\<rparr>"
  obtain e u' where u': "adv_start_with_param ops (adv_param_slow ?u) BLE_ADV_SLOW (slow_timeout (advert_params st)) ?u = (e, u')"
    by fastforce
  have cl: "adv_clean ops live running ?u" using sd w by (simp add: adv_clean_def)
  consider "e1 \<noteq> 0" | "e1 = 0" "e2 \<noteq> 0" | "e1 = 0" "e2 = 0" "adv_state st = BLE_ADV_FAST \<and> slow_enabled (advert_params st)"
    | "e1 = 0" "e2 = 0" "\<not> (adv_state st = BLE_ADV_FAST \<and> slow_enabled (advert_params st))" by blast
  then show ?thesis
  proof cases
    case 1
    then have "adv_interval_change ops pr st = st\<lparr>adv_state := BLE_ADV_DISABLE, bt_stack := s1\<rparr>"
      using Some \<open>bt_le_ext_adv_stop ops (Some h) (bt_stack st) = (e1, s1)\<close> by (simp add: adv_interval_change_def)
    then show ?thesis using sd hl Some w by (auto simp: adv_inv_def)
  next
    case 2
    then have "adv_interval_change ops pr st = st\<lparr>adv_state := BLE_ADV_DISABLE, bt_stack := s2\<rparr>"
      using Some 1 \<open>bt_le_ext_adv_delete ops (Some h) s1 = (e2, s2)\<close> by (simp add: adv_interval_change_def)
    then show ?thesis
      using sd hl Some w 2 adv_deleteD [OF c \<open>bt_le_ext_adv_delete ops (Some h) s1 = (e2, s2)\<close>] by (auto simp: adv_inv_def)
  next
    case 3
    then have "adv_interval_change ops pr st = (if e \<noteq> 0 then u'\<lparr>adv_state := BLE_ADV_DISABLE\<rparr> else u')"
      using 1 2 u' Some by (simp add: adv_interval_change_def Let_def)
    then show ?thesis using start_clean [OF c cl u'] by simp
  next
    case 4
    then have "adv_interval_change ops pr st = st\<lparr>adv_set := None, bt_stack := s2, adv_state := BLE_ADV_DISABLE\<rparr>"
      using 1 2 Some by (auto simp: adv_interval_change_def Let_def)
    with cl show ?thesis by (auto simp: adv_inv_def adv_clean_def)
  qed
qed

lemma update_inv:
  assumes c: "adv_contract ops live running" and inv: "adv_inv ops live running st"
  shows "adv_inv ops live running (snd (sid_ble_advert_update ops d n st))"
proof -
  have keep: "adv_inv ops live running (st\<lparr>bt_adv_manuf_data := x, manuf_data_len := y, bt_stack := s\<rparr>)"
    if "live s = live (bt_stack st)" "running s = running (bt_stack st)" for x y s
    using inv that by (simp add: adv_inv_def)
  show ?thesis
    using inv keep [OF refl refl] adv_set_dataD [OF c]
    by (auto simp: sid_ble_advert_update_def adv_manuf_data_copy_def Let_def intro!: keep split: option.splits prod.splits)
qed

lemma stop_inv:
  assumes c: "adv_contract ops live running" and inv: "adv_inv ops live running st"
  shows "adv_inv ops live running (snd (sid_ble_advert_stop ops st))"
proof (cases "adv_set st")
  case None
  with inv show ?thesis by (auto simp: sid_ble_advert_stop_def adv_inv_def)
next
  case (Some h)
  obtain e1 s1 where 1: "bt_le_ext_adv_stop ops (Some h) (bt_stack st) = (e1, s1)" by fastforce
  obtain e2 s2 where 2: "bt_le_ext_adv_delete ops (Some h) s1 = (e2, s2)" by fastforce
  show ?thesis
    using stop_delete [OF c inv Some 1 2] inv Some 1 by (auto simp: sid_ble_advert_stop_def adv_inv_def Let_def)
qed

lemma deinit_inv':
  assumes c: "adv_contract ops live running" and inv: "adv_inv ops live running st"
  shows "adv_inv ops live running (snd (sid_ble_advert_deinit ops st))"
proof (cases "adv_set st")
  case None
  with inv show ?thesis by (simp add: sid_ble_advert_deinit_def)
next
  case (Some h)
  obtain e s1 where s1: "bt_le_ext_adv_delete ops (Some h) (bt_stack st) = (e, s1)" by fastforce
  show ?thesis
    using adv_deleteD [OF c s1] inv Some s1 by (auto simp: sid_ble_advert_deinit_def adv_inv_def)
qed

section \<open>Reachable states\<close>

text \<open>
  The calls, in any order, the delayed work when it is due, and a connection, on which the
  stack may end the advertising.
\<close>

inductive adv_step ::
  "'s adv_ops \<Rightarrow> u32 \<Rightarrow> ('s \<Rightarrow> nat set) \<Rightarrow> ('s \<Rightarrow> nat set) \<Rightarrow> 's advert \<Rightarrow> 's advert \<Rightarrow> bool" for ops pr live running where
  start: "sid_ble_advert_start ops pr st = (err, st') \<Longrightarrow> adv_step ops pr live running st st'"
| update: "sid_ble_advert_update ops d n st = (err, st') \<Longrightarrow> adv_step ops pr live running st st'"
| params: "sid_ble_advert_params_set p st = (err, st') \<Longrightarrow> adv_step ops pr live running st st'"
| stop: "sid_ble_advert_stop ops st = (err, st') \<Longrightarrow> adv_step ops pr live running st st'"
| deinit: "sid_ble_advert_deinit ops st = (err, st') \<Longrightarrow> adv_step ops pr live running st st'"
| work: "change_adv_work st = Some delay \<Longrightarrow>
    adv_step ops pr live running st (adv_interval_change ops pr (st\<lparr>change_adv_work := None\<rparr>))"
| connected: "live s = live (bt_stack st) \<Longrightarrow> running s \<subseteq> running (bt_stack st) \<Longrightarrow>
    adv_step ops pr live running st (sid_ble_advert_notify_connection (st\<lparr>bt_stack := s\<rparr>))"

inductive adv_reach ::
  "'s adv_ops \<Rightarrow> u32 \<Rightarrow> ('s \<Rightarrow> nat set) \<Rightarrow> ('s \<Rightarrow> nat set) \<Rightarrow> 's advert \<Rightarrow> bool" for ops pr live running where
  boot: "adv_set st = None \<Longrightarrow> adv_state st = BLE_ADV_DISABLE \<Longrightarrow> change_adv_work st = None \<Longrightarrow>
    live (bt_stack st) = {} \<Longrightarrow> running (bt_stack st) = {} \<Longrightarrow> adv_reach ops pr live running st"
| step: "adv_reach ops pr live running st \<Longrightarrow> adv_step ops pr live running st st' \<Longrightarrow> adv_reach ops pr live running st'"

lemma adv_step_inv:
  assumes c: "adv_contract ops live running" and "adv_step ops pr live running st st'" and inv: "adv_inv ops live running st"
  shows "adv_inv ops live running st'"
  using assms(2)
proof cases
  case (start err)
  then show ?thesis by (rule start_inv [OF c inv])
next
  case (update d n err)
  then show ?thesis using update_inv [OF c inv, of d n] by simp
next
  case (params p err)
  then show ?thesis using inv by (auto simp: sid_ble_advert_params_set_def adv_inv_def split: option.splits)
next
  case (stop err)
  then show ?thesis using stop_inv [OF c inv] by simp
next
  case (deinit err)
  then show ?thesis using deinit_inv' [OF c inv] by simp
next
  case (work delay)
  have "adv_inv ops live running (st\<lparr>change_adv_work := None\<rparr>)" using inv by (auto simp: adv_inv_def)
  then show ?thesis unfolding work(1) by (rule interval_change_inv [OF c]) simp
next
  case (connected s)
  then show ?thesis
    using inv unfolding connected(1) adv_inv_def sid_ble_advert_notify_connection_def by auto
qed

lemma adv_reach_inv:
  assumes c: "adv_contract ops live running" and r: "adv_reach ops pr live running st"
  shows "adv_inv ops live running st"
  using r
proof (induction rule: adv_reach.induct)
  case (boot st)
  then show ?case by (simp add: adv_inv_def)
next
  case (step st st')
  then show ?case using adv_step_inv [OF c] by blast
qed

text \<open>
  C23. In every state that the calls can reach in any order, the delayed work and connections
  included, and whichever calls of the stack fail: the module's handle is never stale, that
  is, it names an advertising set that exists; and a change of phase is only scheduled while
  the module records a phase and its set advertises. When the stack lets existing sets be
  stopped, and deleted while they do not advertise, then also no set is leaked and nothing
  advertises while no phase is recorded; without that both fail (\<open>advert_start_leaks\<close>,
  \<open>advert_change_forgets\<close>).
\<close>

theorem advert_reachable_inv:
  assumes "adv_contract ops live running" "adv_reach ops pr live running st"
  shows "set_option (adv_set st) \<subseteq> live (bt_stack st) \<and>
    (change_adv_work st \<noteq> None \<longrightarrow>
       adv_state st \<noteq> BLE_ADV_DISABLE \<and> (\<exists>h. adv_set st = Some h \<and> h \<in> running (bt_stack st))) \<and>
    (adv_reliable ops live running \<longrightarrow>
       live (bt_stack st) = set_option (adv_set st) \<and> running (bt_stack st) \<subseteq> set_option (adv_set st) \<and>
       (adv_state st = BLE_ADV_DISABLE \<longrightarrow> running (bt_stack st) = {}))"
  using adv_reach_inv [OF assms] by (auto simp: adv_inv_def)

text \<open>
  When the stack refuses to stop the set, a new start forgets it: it goes on advertising
  without the module's knowledge.
\<close>

lemma advert_start_leaks:
  assumes c: "adv_contract ops live running" and inv: "adv_inv ops live running st"
    and h: "adv_set st = Some h" "h \<in> running (bt_stack st)"
    and stop: "bt_le_ext_adv_stop ops (Some h) (bt_stack st) = (e, s1)" "e \<noteq> 0"
    and r: "sid_ble_advert_start ops pr st = (err, st')"
  shows "h \<in> running (bt_stack st') \<and> adv_set st' \<noteq> Some h"
proof -
  obtain e2 s2 where 2: "bt_le_ext_adv_delete ops (Some h) s1 = (e2, s2)" by fastforce
  let ?u = "st\<lparr>change_adv_work := None, adv_set := None, adv_state := BLE_ADV_DISABLE, bt_stack := s2\<rparr>"
  have s2: "running s2 \<subseteq> live s2" "h \<in> running s2"
    using stop_delete [OF c inv h(1) stop(1) 2] adv_stopD [OF c stop(1)] adv_deleteD [OF c 2] stop(2) h(2) by auto
  have go: "h \<in> running (bt_stack u') \<and> adv_set u' \<noteq> Some h"
    if "adv_start_with_param ops p ph t u = (e, u')" "adv_set u = None" "change_adv_work u = None" "bt_stack u = s2" for p ph t u e u'
    using start_with_param [OF c that(2,3) _ that(1)] s2 that(4) by (auto split: if_splits)
  have "sid_ble_advert_start ops pr st = (let p = advert_params ?u
      in if fast_enabled p then
           (let st2 = ?u\<lparr>adv_param_fast := adv_param_set_interval pr (fast_interval p) (adv_param_fast ?u)\<rparr>
            in adv_start_with_param ops (adv_param_fast st2) BLE_ADV_FAST (fast_timeout p) st2)
         else if slow_enabled p then
           (let st2 = ?u\<lparr>adv_param_slow := adv_param_set_interval pr (slow_interval p) (adv_param_slow ?u)\<rparr>
            in adv_start_with_param ops (adv_param_slow st2) BLE_ADV_SLOW (slow_timeout p) st2)
         else (0, ?u))"
    by (simp add: sid_ble_advert_start_def h(1) stop(1) 2 Let_def)
  then consider p ph t u where "adv_start_with_param ops p ph t u = (err, st')" "adv_set u = None"
      "change_adv_work u = None" "bt_stack u = s2" | "st' = ?u"
    using r that by (cases "fast_enabled (advert_params st)"; cases "slow_enabled (advert_params st)") (simp_all add: Let_def)
  then show ?thesis using go s2(2) by cases auto
qed

text \<open>When the stack refuses to stop the set, the change of phase records no phase while it advertises.\<close>

lemma advert_change_forgets:
  assumes c: "adv_contract ops live running" and h: "adv_set st = Some h" "h \<in> running (bt_stack st)"
    and stop: "fst (bt_le_ext_adv_stop ops (Some h) (bt_stack st)) \<noteq> 0"
  shows "adv_state (adv_interval_change ops pr st) = BLE_ADV_DISABLE \<and>
    h \<in> running (bt_stack (adv_interval_change ops pr st))"
proof -
  obtain e1 s1 where 1: "bt_le_ext_adv_stop ops (Some h) (bt_stack st) = (e1, s1)" by fastforce
  with stop h adv_stopD [OF c 1] show ?thesis by (simp add: adv_interval_change_def)
qed

section \<open>The course of advertising\<close>

text \<open>
  A stack whose calls succeed, seen through the parameters it was given for a set and the data
  it advertises for it: a set is created with the given parameters and keeps them, and
  advertises the data it was last given.
\<close>

definition adv_succeeds ::
  "'s adv_ops \<Rightarrow> ('s \<Rightarrow> nat \<Rightarrow> bt_le_adv_param) \<Rightarrow> ('s \<Rightarrow> nat \<Rightarrow> u8 list) \<Rightarrow> bool" where
  "adv_succeeds ops pv dv \<longleftrightarrow>
     (\<forall>p s. case bt_le_ext_adv_create ops p s of (err, h, s1) \<Rightarrow> err = 0 \<and> pv s1 h = p) \<and>
     (\<forall>h d s. case bt_le_ext_adv_set_data ops (Some h) d s of (err, s1) \<Rightarrow> err = 0 \<and> pv s1 = pv s \<and> dv s1 h = d) \<and>
     (\<forall>h s. case bt_le_ext_adv_start ops (Some h) s of (err, s1) \<Rightarrow> err = 0 \<and> pv s1 = pv s \<and> dv s1 = dv s)"

lemma adv_createS:
  "adv_succeeds ops pv dv \<Longrightarrow> bt_le_ext_adv_create ops p s = (err, h, s1) \<Longrightarrow> err = 0 \<and> pv s1 h = p"
  unfolding adv_succeeds_def by (drule conjunct1, drule spec [of _ p], drule spec [of _ s]) simp

lemma adv_set_dataS:
  "adv_succeeds ops pv dv \<Longrightarrow> bt_le_ext_adv_set_data ops (Some h) d s = (err, s1) \<Longrightarrow>
   err = 0 \<and> pv s1 = pv s \<and> dv s1 h = d"
  unfolding adv_succeeds_def
  by (drule conjunct2, drule conjunct1, drule spec [of _ h], drule spec [of _ d], drule spec [of _ s]) simp

lemma adv_startS:
  "adv_succeeds ops pv dv \<Longrightarrow> bt_le_ext_adv_start ops (Some h) s = (err, s1) \<Longrightarrow> err = 0 \<and> pv s1 = pv s \<and> dv s1 = dv s"
  unfolding adv_succeeds_def by (drule conjunct2, drule conjunct2, drule spec [of _ h], drule spec [of _ s]) simp

text \<open>What is on the air: the set advertises with the given parameters and data.\<close>

definition on_air ::
  "('s \<Rightarrow> nat set) \<Rightarrow> ('s \<Rightarrow> nat \<Rightarrow> bt_le_adv_param) \<Rightarrow> ('s \<Rightarrow> nat \<Rightarrow> u8 list) \<Rightarrow> bt_le_adv_param \<Rightarrow> u8 list \<Rightarrow> 's advert \<Rightarrow> bool" where
  "on_air running pv dv p d st \<longleftrightarrow>
     (\<exists>h. adv_set st = Some h \<and> running (bt_stack st) = {h} \<and> pv (bt_stack st) h = p \<and> dv (bt_stack st) h = d)"

text \<open>The parameters of a phase: the interval, and the interval plus the precision.\<close>

definition phase_param :: "u32 \<Rightarrow> u32 \<Rightarrow> bt_le_adv_param" where
  "phase_param precision interval =
     \<lparr>interval_min = ucast interval, interval_max = ucast (interval + ucast (MS_TO_INTERVAL_VAL precision))\<rparr>"

lemma set_interval_param: "adv_param_set_interval precision interval param = phase_param precision interval"
  by (simp add: adv_param_set_interval_def phase_param_def)

lemma start_with_param_succeeds:
  assumes c: "adv_contract ops live running" and ok: "adv_succeeds ops pv dv" and r: "running (bt_stack st) = {}"
  obtains h s where "adv_start_with_param ops p phase t st =
      (0, st\<lparr>adv_set := Some h, adv_state := phase,
         change_adv_work := (if t > 0 then Some (t * 10) else change_adv_work st), bt_stack := s\<rparr>)"
    "running s = {h}" "pv s h = p" "dv s h = adv_payload st"
proof -
  obtain e1 h s1 where "bt_le_ext_adv_create ops p (bt_stack st) = (e1, h, s1)" by (metis prod_cases3)
  with adv_createS [OF ok this] have 1: "bt_le_ext_adv_create ops p (bt_stack st) = (0, h, s1)" "pv s1 h = p" by simp_all
  have pay: "adv_payload (st\<lparr>adv_set := Some h, bt_stack := s1\<rparr>) = adv_payload st" by (simp add: adv_payload_def)
  obtain e2 s2 where "bt_le_ext_adv_set_data ops (Some h) (adv_payload st) s1 = (e2, s2)" by fastforce
  with adv_set_dataS [OF ok this] have 2: "bt_le_ext_adv_set_data ops (Some h) (adv_payload st) s1 = (0, s2)"
    "pv s2 = pv s1" "dv s2 h = adv_payload st" by simp_all
  obtain e3 s3 where "bt_le_ext_adv_start ops (Some h) s2 = (e3, s3)" by fastforce
  with adv_startS [OF ok this] have 3: "bt_le_ext_adv_start ops (Some h) s2 = (0, s3)" "pv s3 = pv s2" "dv s3 = dv s2"
    by simp_all
  have "running s3 = {h}"
    using adv_createD [OF c 1(1)] adv_set_dataD [OF c 2(1)] adv_startD [OF c 3(1)] r by simp
  then show thesis
    by (rule that [where h = h and s = s3, rotated])
      (use 1 2 3 in \<open>simp_all add: adv_start_with_param_def pay Let_def\<close>)
qed

text \<open>The two outcomes of the change of phase on a reliable stack.\<close>

lemma interval_change_slow:
  assumes c: "adv_contract ops live running" "adv_reliable ops live running" "adv_succeeds ops pv dv"
    and inv: "adv_inv ops live running st" and h: "adv_set st = Some h"
    and st: "adv_state st = BLE_ADV_FAST" "slow_enabled (advert_params st)" "change_adv_work st = None"
  shows "adv_state (adv_interval_change ops pr st) = BLE_ADV_SLOW \<and>
    advert_params (adv_interval_change ops pr st) = advert_params st \<and>
    on_air running pv dv (phase_param pr (slow_interval (advert_params st))) (adv_payload st) (adv_interval_change ops pr st) \<and>
    change_adv_work (adv_interval_change ops pr st) =
      (if slow_timeout (advert_params st) > 0 then Some (slow_timeout (advert_params st) * 10) else None)"
proof -
  obtain e1 s1 where 1: "bt_le_ext_adv_stop ops (Some h) (bt_stack st) = (e1, s1)" by fastforce
  obtain e2 s2 where 2: "bt_le_ext_adv_delete ops (Some h) s1 = (e2, s2)" by fastforce
  have s: "e1 = 0" "e2 = 0" "running s2 = {}"
    using stop_delete [OF c(1) inv h 1 2] c(2) by auto
  let ?u = "st\<lparr>adv_set := None, bt_stack := s2,
    adv_param_slow := adv_param_set_interval pr (slow_interval (advert_params st)) (adv_param_slow st)\<rparr>"
  have pay: "adv_payload ?u = adv_payload st" by (simp add: adv_payload_def)
  obtain h' s' where w: "adv_start_with_param ops (adv_param_slow ?u) BLE_ADV_SLOW (slow_timeout (advert_params st)) ?u =
      (0, ?u\<lparr>adv_set := Some h', adv_state := BLE_ADV_SLOW,
         change_adv_work := (if slow_timeout (advert_params st) > 0 then Some (slow_timeout (advert_params st) * 10) else change_adv_work ?u),
         bt_stack := s'\<rparr>)"
    "running s' = {h'}" "pv s' h' = adv_param_slow ?u" "dv s' h' = adv_payload ?u"
    by (rule start_with_param_succeeds [OF c(1,3), of ?u]) (simp add: s(3))
  have "adv_interval_change ops pr st = ?u\<lparr>adv_set := Some h', adv_state := BLE_ADV_SLOW,
      change_adv_work := (if slow_timeout (advert_params st) > 0 then Some (slow_timeout (advert_params st) * 10) else None),
      bt_stack := s'\<rparr>"
    using w(1) st h 1 2 s(1,2) by (simp add: adv_interval_change_def Let_def)
  with w(2-4) pay show ?thesis by (simp add: on_air_def set_interval_param)
qed

lemma interval_change_end:
  assumes c: "adv_contract ops live running" "adv_reliable ops live running" and inv: "adv_inv ops live running st"
    and h: "adv_set st = Some h"
    and st: "adv_state st = BLE_ADV_SLOW \<or> \<not> slow_enabled (advert_params st)" "change_adv_work st = None"
  shows "adv_state (adv_interval_change ops pr st) = BLE_ADV_DISABLE \<and> adv_set (adv_interval_change ops pr st) = None \<and>
    live (bt_stack (adv_interval_change ops pr st)) = {} \<and> change_adv_work (adv_interval_change ops pr st) = None"
proof -
  obtain e1 s1 where 1: "bt_le_ext_adv_stop ops (Some h) (bt_stack st) = (e1, s1)" by fastforce
  obtain e2 s2 where 2: "bt_le_ext_adv_delete ops (Some h) s1 = (e2, s2)" by fastforce
  have "e1 = 0" "e2 = 0" "live s2 = {}" using stop_delete [OF c(1) inv h 1 2] c(2) by auto
  with st h 1 2 show ?thesis by (auto simp: adv_interval_change_def Let_def)
qed

lemma advert_start_fast:
  assumes c: "adv_contract ops live running" "adv_reliable ops live running" "adv_succeeds ops pv dv"
    and inv: "adv_inv ops live running st" and p: "p = advert_params st" "fast_enabled p" "fast_timeout p > 0"
  obtains st1 where "sid_ble_advert_start ops pr st = (0, st1)" "adv_state st1 = BLE_ADV_FAST" "advert_params st1 = p"
    "on_air running pv dv (phase_param pr (fast_interval p)) (adv_payload st) st1" "change_adv_work st1 = Some (fast_timeout p * 10)"
    "adv_payload st1 = adv_payload st"
proof -
  let ?s = "case adv_set st of None \<Rightarrow> bt_stack st
    | Some h \<Rightarrow> snd (bt_le_ext_adv_delete ops (Some h) (snd (bt_le_ext_adv_stop ops (Some h) (bt_stack st))))"
  let ?v = "case adv_set st of None \<Rightarrow> st
    | Some h \<Rightarrow> st\<lparr>change_adv_work := None, adv_set := None, adv_state := BLE_ADV_DISABLE, bt_stack := ?s\<rparr>"
  let ?u = "?v\<lparr>adv_param_fast := adv_param_set_interval pr (fast_interval p) (adv_param_fast ?v)\<rparr>"
  have run: "running ?s = {}"
  proof (cases "adv_set st")
    case None
    with inv c(2) show ?thesis by (auto simp: adv_inv_def)
  next
    case (Some h)
    obtain e1 s1 where 1: "bt_le_ext_adv_stop ops (Some h) (bt_stack st) = (e1, s1)" by fastforce
    obtain e2 s2 where 2: "bt_le_ext_adv_delete ops (Some h) s1 = (e2, s2)" by fastforce
    show ?thesis using stop_delete [OF c(1) inv Some 1 2] c(2) by (auto simp: Some 1 2)
  qed
  have u: "running (bt_stack ?u) = {}" "adv_payload ?u = adv_payload st" "advert_params ?u = p"
    using run p(1) by (auto simp: adv_payload_def split: option.splits)
  obtain h s where w: "adv_start_with_param ops (adv_param_fast ?u) BLE_ADV_FAST (fast_timeout p) ?u =
      (0, ?u\<lparr>adv_set := Some h, adv_state := BLE_ADV_FAST,
         change_adv_work := (if fast_timeout p > 0 then Some (fast_timeout p * 10) else change_adv_work ?u), bt_stack := s\<rparr>)"
    "running s = {h}" "pv s h = adv_param_fast ?u" "dv s h = adv_payload ?u"
    by (rule start_with_param_succeeds [OF c(1,3) u(1)])
  show thesis
  proof (rule that [of "?u\<lparr>adv_set := Some h, adv_state := BLE_ADV_FAST, change_adv_work := Some (fast_timeout p * 10), bt_stack := s\<rparr>"])
    show "sid_ble_advert_start ops pr st =
        (0, ?u\<lparr>adv_set := Some h, adv_state := BLE_ADV_FAST, change_adv_work := Some (fast_timeout p * 10), bt_stack := s\<rparr>)"
      using w(1) p by (auto simp: sid_ble_advert_start_def Let_def split: option.splits)
    show "on_air running pv dv (phase_param pr (fast_interval p)) (adv_payload st)
        (?u\<lparr>adv_set := Some h, adv_state := BLE_ADV_FAST, change_adv_work := Some (fast_timeout p * 10), bt_stack := s\<rparr>)"
      using w(2-4) u(2) by (simp add: on_air_def set_interval_param)
  qed (use u(2,3) in \<open>simp_all add: adv_payload_def\<close>)
qed

text \<open>
  C24. The course of advertising on a stack whose calls succeed. Started with both phases
  enabled, exactly one set advertises, with the parameters of the fast phase (the fast
  interval, up to the precision above it) and the current payload, and the change is due after
  the fast timeout; the change leads to one set that advertises with the parameters of the
  slow phase and the same payload, and, if the slow timeout is not zero, a second change, due
  after it, ends advertising and deletes the set. Without a slow phase the first change ends
  it.
\<close>

theorem advert_course:
  assumes c: "adv_contract ops live running" "adv_reliable ops live running" "adv_succeeds ops pv dv"
    and r: "adv_reach ops pr live running st"
    and p: "p = advert_params st" "fast_enabled p" "fast_timeout p > 0"
  shows "\<exists>st1. sid_ble_advert_start ops pr st = (0, st1) \<and> adv_state st1 = BLE_ADV_FAST \<and>
    on_air running pv dv (phase_param pr (fast_interval p)) (adv_payload st) st1 \<and>
    change_adv_work st1 = Some (fast_timeout p * 10) \<and>
    (\<forall>st2. st2 = adv_interval_change ops pr (st1\<lparr>change_adv_work := None\<rparr>) \<longrightarrow>
      (if \<not> slow_enabled p then adv_state st2 = BLE_ADV_DISABLE \<and> live (bt_stack st2) = {} \<and> change_adv_work st2 = None
       else adv_state st2 = BLE_ADV_SLOW \<and>
         on_air running pv dv (phase_param pr (slow_interval p)) (adv_payload st) st2 \<and>
         (if slow_timeout p = 0 then change_adv_work st2 = None
          else change_adv_work st2 = Some (slow_timeout p * 10) \<and>
            (\<forall>st3. st3 = adv_interval_change ops pr (st2\<lparr>change_adv_work := None\<rparr>) \<longrightarrow>
               adv_state st3 = BLE_ADV_DISABLE \<and> live (bt_stack st3) = {} \<and> change_adv_work st3 = None))))"
proof -
  have inv: "adv_inv ops live running st" by (rule adv_reach_inv [OF c(1) r])
  obtain st1 where 1: "sid_ble_advert_start ops pr st = (0, st1)" "adv_state st1 = BLE_ADV_FAST" "advert_params st1 = p"
    "on_air running pv dv (phase_param pr (fast_interval p)) (adv_payload st) st1" "change_adv_work st1 = Some (fast_timeout p * 10)"
    "adv_payload st1 = adv_payload st"
    by (rule advert_start_fast [OF c inv p])
  let ?n1 = "st1\<lparr>change_adv_work := None\<rparr>"
  obtain h1 where h1: "adv_set ?n1 = Some h1" using 1(4) by (auto simp: on_air_def)
  have i1: "adv_inv ops live running ?n1" using start_inv [OF c(1) inv 1(1)] by (auto simp: adv_inv_def)
  have n1: "adv_payload ?n1 = adv_payload st" using 1(6) by (simp add: adv_payload_def)
  define st2 where "st2 = adv_interval_change ops pr ?n1"
  have fin: "adv_state st2 = BLE_ADV_DISABLE \<and> live (bt_stack st2) = {} \<and> change_adv_work st2 = None" if "\<not> slow_enabled p"
    unfolding st2_def using interval_change_end [OF c(1,2) i1 h1, of pr] 1(3) that by simp
  have slow: "adv_state st2 = BLE_ADV_SLOW \<and> advert_params st2 = p \<and>
      on_air running pv dv (phase_param pr (slow_interval p)) (adv_payload st) st2 \<and>
      change_adv_work st2 = (if slow_timeout p > 0 then Some (slow_timeout p * 10) else None)" if "slow_enabled p"
    unfolding st2_def using interval_change_slow [OF c i1 h1, of pr] 1(2,3) n1 that by simp
  have i2: "adv_inv ops live running (st2\<lparr>change_adv_work := None\<rparr>)"
    using interval_change_inv [OF c(1) i1, of pr] unfolding st2_def [symmetric] by (auto simp: adv_inv_def)
  have last: "adv_state st3 = BLE_ADV_DISABLE \<and> live (bt_stack st3) = {} \<and> change_adv_work st3 = None"
    if s: "slow_enabled p" and st3: "st3 = adv_interval_change ops pr (st2\<lparr>change_adv_work := None\<rparr>)" for st3
  proof -
    obtain h2 where "adv_set (st2\<lparr>change_adv_work := None\<rparr>) = Some h2" using slow [OF s] by (auto simp: on_air_def)
    then show ?thesis unfolding st3 using interval_change_end [OF c(1,2) i2, of h2 pr] slow [OF s] by simp
  qed
  have "if \<not> slow_enabled p then adv_state st2 = BLE_ADV_DISABLE \<and> live (bt_stack st2) = {} \<and> change_adv_work st2 = None
       else adv_state st2 = BLE_ADV_SLOW \<and> on_air running pv dv (phase_param pr (slow_interval p)) (adv_payload st) st2 \<and>
         (if slow_timeout p = 0 then change_adv_work st2 = None
          else change_adv_work st2 = Some (slow_timeout p * 10) \<and>
            (\<forall>st3. st3 = adv_interval_change ops pr (st2\<lparr>change_adv_work := None\<rparr>) \<longrightarrow>
               adv_state st3 = BLE_ADV_DISABLE \<and> live (bt_stack st3) = {} \<and> change_adv_work st3 = None))"
    using fin slow last by (cases "slow_enabled p") (simp_all add: word_gt_0)
  then show ?thesis using 1(1,2,4,5) unfolding st2_def by (intro exI [of _ st1]) simp
qed

section \<open>Advertised data\<close>

text \<open>
  C25. An update never writes outside the 22-byte array and advertises the company identifier
  0x0171, least significant byte first, followed by the data, cut to 20 bytes; while
  advertising, that payload is handed to the stack for the current set at once.
\<close>

theorem advert_update_payload:
  assumes "length (bt_adv_manuf_data st) = AD_MANUF_DATA_LEN_MAX" "n > 0" "unat n \<le> length d"
    and "sid_ble_advert_update ops (Some d) n st = (err, st')"
  shows "length (bt_adv_manuf_data st') = AD_MANUF_DATA_LEN_MAX \<and>
    adv_payload st' = [0x71, 0x01] @ take 20 (take (unat n) d) \<and> adv_set st' = adv_set st \<and> adv_state st' = adv_state st \<and>
    (err, bt_stack st') =
      (if adv_state st = BLE_ADV_DISABLE then (0, bt_stack st)
       else bt_le_ext_adv_set_data ops (adv_set st) ([0x71, 0x01] @ take 20 (take (unat n) d)) (bt_stack st))"
proof -
  let ?bytes = "[0x71, 0x01] @ take (min (unat n) 20) d :: u8 list"
  have id: "(ucast (0x0171 :: u16) :: u8) = 0x71" "(ucast (drop_bit 8 (0x0171 :: u16)) :: u8) = 0x01" by simp_all
  have ml: "min (length d) (min (unat n) 20) = min (unat n) 20" using assms(3) by simp
  then have len: "length ?bytes = min (unat n) 20 + 2" by simp
  have take: "take (min (unat n) 20) d = take 20 (take (unat n) d)" by (simp add: min.commute)
  let ?arr = "?bytes @ drop (length ?bytes) (bt_adv_manuf_data st)"
  have pay: "take (min (unat n) 20 + 2) ?arr = ?bytes" using len by simp
  have l: "length ?arr = 22" using assms(1) len by simp
  have "adv_manuf_data_copy d n st = (min (unat n) 20 + 2, st\<lparr>bt_adv_manuf_data := ?arr\<rparr>)"
    by (simp add: adv_manuf_data_copy_def Let_def id)
  then have u: "sid_ble_advert_update ops (Some d) n st =
      (let st2 = st\<lparr>bt_adv_manuf_data := ?arr, manuf_data_len := min (unat n) 20 + 2\<rparr> in
       if adv_state st \<noteq> BLE_ADV_DISABLE
       then (case bt_le_ext_adv_set_data ops (adv_set st) ?bytes (bt_stack st) of (err, s1) \<Rightarrow> (err, st2\<lparr>bt_stack := s1\<rparr>))
       else (0, st2))"
    using assms(2) by (simp add: sid_ble_advert_update_def adv_payload_def word_gt_0 Let_def ml)
  show ?thesis
    using assms(4) l pay unfolding u take [symmetric] by (auto simp: adv_payload_def Let_def split: if_splits prod.splits)
qed

text \<open>
  Closing the module does not reset the phase: closed while a phase is recorded, as
  after a connection ended the advertising, the next update hands \<^verbatim>\<open>NULL\<close> to the stack as the
  advertising set.
\<close>

theorem advert_update_after_deinit:
  assumes "adv_state st \<noteq> BLE_ADV_DISABLE" "sid_ble_advert_deinit ops st = (0, st1)" "n > 0"
    and "sid_ble_advert_update ops (Some d) n st1 = (err, st')"
  shows "\<exists>pay. bt_le_ext_adv_set_data ops None pay (bt_stack st1) = (err, bt_stack st')"
proof -
  have "adv_set st1 = None" "adv_state st1 \<noteq> BLE_ADV_DISABLE"
    using assms(1,2) by (auto simp: sid_ble_advert_deinit_def split: if_splits prod.splits)
  then show ?thesis
    using assms(3,4)
    by (auto simp: sid_ble_advert_update_def adv_manuf_data_copy_def word_gt_0 Let_def split: prod.splits)
qed

section \<open>A concrete stack\<close>

text \<open>
  The existing and the advertising sets as lists, with the parameters and data of each; the set
  argument \<open>None\<close> is refused.
\<close>

type_synonym adv_stack = "nat list \<times> nat list \<times> (nat \<Rightarrow> bt_le_adv_param) \<times> (nat \<Rightarrow> u8 list)"

definition list_stack :: "adv_stack adv_ops" where
  "list_stack =
     \<lparr>bt_le_ext_adv_create = (\<lambda>p (l, r, pv, dv). (0, Suc (sum_list l), (Suc (sum_list l) # l, r, pv(Suc (sum_list l) := p), dv))),
      bt_le_ext_adv_set_data = (\<lambda>h d (l, r, pv, dv). case h of None \<Rightarrow> (- EINVAL, (l, r, pv, dv)) | Some h \<Rightarrow> (0, (l, r, pv, dv(h := d)))),
      bt_le_ext_adv_start = (\<lambda>h (l, r, pv, dv). case h of None \<Rightarrow> (- EINVAL, (l, r, pv, dv)) | Some h \<Rightarrow> (0, (l, h # r, pv, dv))),
      bt_le_ext_adv_stop = (\<lambda>h (l, r, pv, dv). case h of None \<Rightarrow> (- EINVAL, (l, r, pv, dv))
         | Some h \<Rightarrow> (0, (l, removeAll h r, pv, dv))),
      bt_le_ext_adv_delete = (\<lambda>h (l, r, pv, dv). case h of None \<Rightarrow> (- EINVAL, (l, r, pv, dv))
         | Some h \<Rightarrow> if h \<in> set r then (- EINVAL, (l, r, pv, dv)) else (0, (removeAll h l, r, pv, dv)))\<rparr>"

abbreviation adv_live :: "adv_stack \<Rightarrow> nat set" where "adv_live s \<equiv> set (fst s)"
abbreviation adv_running :: "adv_stack \<Rightarrow> nat set" where "adv_running s \<equiv> set (fst (snd s))"

lemma list_stack_contract: "adv_contract list_stack adv_live adv_running"
proof -
  have "Suc (sum_list l) \<notin> set l" for l :: "nat list" using member_le_sum_list [of "Suc (sum_list l)" l] by auto
  then show ?thesis by (auto simp: adv_contract_def list_stack_def split: option.splits)
qed

lemma list_stack_reliable: "adv_reliable list_stack adv_live adv_running"
  by (auto simp: adv_reliable_def list_stack_def)

lemma list_stack_succeeds: "adv_succeeds list_stack (\<lambda>s. fst (snd (snd s))) (\<lambda>s. snd (snd (snd s)))"
  by (auto simp: adv_succeeds_def list_stack_def)

definition adv_boot :: "adv_stack advert" where
  "adv_boot = \<lparr>adv_set = None,
     advert_params = \<lparr>fast_enabled = True, slow_enabled = True, fast_interval = 256, fast_timeout = 3000,
       slow_interval = 1600, slow_timeout = 0\<rparr>,
     adv_param_fast = \<lparr>interval_min = 0, interval_max = 0\<rparr>, adv_param_slow = \<lparr>interval_min = 0, interval_max = 0\<rparr>,
     adv_state = BLE_ADV_DISABLE, bt_adv_manuf_data = replicate 22 0, manuf_data_len = 22, change_adv_work = None,
     bt_stack = ([], [], \<lambda>_. \<lparr>interval_min = 0, interval_max = 0\<rparr>, \<lambda>_. [])\<rparr>"

lemma adv_boot_reach: "adv_reach list_stack 5 adv_live adv_running adv_boot"
  by (rule adv_reach.boot) (simp_all add: adv_boot_def)

definition adv_fast :: "adv_stack advert" where
  "adv_fast = snd (sid_ble_advert_start list_stack 5 adv_boot)"

lemma adv_fast_simps: "adv_set adv_fast = Some 1" "adv_state adv_fast = BLE_ADV_FAST"
  "fst (bt_stack adv_fast) = [1]" "fst (snd (bt_stack adv_fast)) = [1]" "change_adv_work adv_fast = Some 30000"
  "bt_adv_manuf_data adv_fast = replicate 22 0"
  by (simp_all add: adv_fast_def sid_ble_advert_start_def adv_boot_def adv_start_with_param_def list_stack_def Let_def
      adv_param_set_interval_def)

lemma adv_fast_reach: "adv_reach list_stack 5 adv_live adv_running adv_fast"
  unfolding adv_fast_def by (rule adv_reach.step [OF adv_boot_reach], rule adv_step.start, rule prod.collapse [symmetric])

theorem advert_reachable_inv_witness:
  "adv_live (bt_stack adv_fast) = {1} \<and> adv_running (bt_stack adv_fast) = {1} \<and> change_adv_work adv_fast = Some 30000"
  using advert_reachable_inv [OF list_stack_contract adv_fast_reach] list_stack_reliable by (simp add: adv_fast_simps)

theorem advert_course_witness:
  "\<exists>st1. sid_ble_advert_start list_stack 5 adv_boot = (0, st1) \<and> adv_state st1 = BLE_ADV_FAST \<and>
     change_adv_work st1 = Some 30000 \<and>
     on_air adv_running (\<lambda>s. fst (snd (snd s))) (\<lambda>s. snd (snd (snd s)))
       \<lparr>interval_min = 1600, interval_max = 1608\<rparr> (replicate 22 0)
       (adv_interval_change list_stack 5 (st1\<lparr>change_adv_work := None\<rparr>))"
proof -
  have "phase_param 5 1600 = \<lparr>interval_min = 1600, interval_max = 1608\<rparr>"
    by (simp add: phase_param_def MS_TO_INTERVAL_VAL_def)
  moreover have "adv_payload adv_boot = replicate 22 0" by (simp add: adv_payload_def adv_boot_def)
  ultimately show ?thesis
    using advert_course [OF list_stack_contract list_stack_reliable list_stack_succeeds adv_boot_reach refl]
    by (auto simp: adv_boot_def)
qed

theorem advert_update_payload_witness:
  "adv_payload (snd (sid_ble_advert_update list_stack (Some [1, 2, 3]) 3 adv_fast)) = [0x71, 0x01, 1, 2, 3]"
proof -
  obtain err st' where r: "sid_ble_advert_update list_stack (Some [1, 2, 3]) 3 adv_fast = (err, st')" by fastforce
  show ?thesis using advert_update_payload [OF _ _ _ r] by (simp add: r adv_fast_simps)
qed

text \<open>A connection has ended the advertising, then the module is closed.\<close>

theorem advert_update_after_deinit_witness:
  "\<exists>st1 pay err st'. sid_ble_advert_deinit list_stack (sid_ble_advert_notify_connection (adv_fast\<lparr>bt_stack := ([1], [], undefined)\<rparr>)) = (0, st1) \<and>
     sid_ble_advert_update list_stack (Some [7]) 1 st1 = (err, st') \<and>
     bt_le_ext_adv_set_data list_stack None pay (bt_stack st1) = (err, bt_stack st')"
proof -
  let ?st = "sid_ble_advert_notify_connection (adv_fast\<lparr>bt_stack := ([1], [], undefined)\<rparr>)"
  obtain st1 where d: "sid_ble_advert_deinit list_stack ?st = (0, st1)"
    by (simp add: sid_ble_advert_deinit_def sid_ble_advert_notify_connection_def adv_fast_simps list_stack_def)
  obtain err st' where u: "sid_ble_advert_update list_stack (Some [7]) 1 st1 = (err, st')" by fastforce
  have "adv_state ?st \<noteq> BLE_ADV_DISABLE" by (simp add: sid_ble_advert_notify_connection_def adv_fast_simps)
  with advert_update_after_deinit [OF _ d _ u] d u show ?thesis by auto
qed

end
