(* ===== verification/Ble_Adapter.thy ===== *)
theory Ble_Adapter
  imports Ble_Advert
begin

text \<open>
  The BLE adapter: the counted use of the Bluetooth stack (\<^verbatim>\<open>bt_app_callbacks.c\<close>), the callbacks
  into Sidewalk (\<^verbatim>\<open>sid_ble_adapter_callbacks.c\<close>), sending (\<^verbatim>\<open>sid_ble_service.c\<close>), the connection
  (\<^verbatim>\<open>sid_ble_connection.c\<close>) and the adapter interface (\<^verbatim>\<open>sid_ble_adapter.c\<close>) on top of advertising.
\<close>

section \<open>The Bluetooth stack\<close>

record bt_le_conn_param =
  conn_interval_min :: u16
  conn_interval_max :: u16
  latency :: u16
  timeout :: u16

record bt_conn_info =
  info_id :: nat
  info_interval_us :: u32
  info_latency :: u16
  info_timeout :: u16

text \<open>
  The stack's calls besides advertising, over the same stack state. Connections and attributes
  are numbers; a connection argument is \<open>None\<close> where the code may pass \<^verbatim>\<open>NULL\<close>. An HCI command
  gives its error and the value read.
\<close>

record 's bt_ops =
  adv :: "'s adv_ops"
  bt_enable :: "'s \<Rightarrow> int \<times> 's"
  bt_disable :: "'s \<Rightarrow> int \<times> 's"
  bt_id_addrs :: "'s \<Rightarrow> u8 list list"
  bt_id_create :: "'s \<Rightarrow> int \<times> 's"
  bt_id_delete :: "nat \<Rightarrow> 's \<Rightarrow> 's"
  bt_id_reset :: "nat \<Rightarrow> 's \<Rightarrow> 's"
  bt_conn_get_info :: "nat \<Rightarrow> 's \<Rightarrow> int \<times> bt_conn_info"
  bt_conn_get_dst :: "nat \<Rightarrow> 's \<Rightarrow> u8 list option"
  bt_conn_ref :: "nat \<Rightarrow> 's \<Rightarrow> 's"
  bt_conn_unref :: "nat \<Rightarrow> 's \<Rightarrow> 's"
  bt_conn_le_param_update :: "nat \<Rightarrow> bt_le_conn_param \<Rightarrow> 's \<Rightarrow> int \<times> 's"
  bt_conn_disconnect :: "nat \<Rightarrow> 's \<Rightarrow> int \<times> 's"
  bt_conn_cb_register :: "'s \<Rightarrow> int \<times> 's"
  bt_gatt_cb_register :: "'s \<Rightarrow> 's"
  bt_gatt_find_by_uuid :: "'s \<Rightarrow> nat option"
  bt_gatt_get_mtu :: "nat option \<Rightarrow> 's \<Rightarrow> u16"
  bt_gatt_is_subscribed :: "nat option \<Rightarrow> nat \<Rightarrow> 's \<Rightarrow> bool"
  bt_gatt_notify_cb :: "nat option \<Rightarrow> nat \<Rightarrow> u8 list \<Rightarrow> 's \<Rightarrow> int \<times> 's"
  bt_hci_get_conn_handle :: "nat \<Rightarrow> 's \<Rightarrow> int \<times> u16"
  bt_hci_cmd_alloc :: "'s \<Rightarrow> bool"
  bt_hci_read_rssi :: "u16 \<Rightarrow> 's \<Rightarrow> int \<times> u8"
  bt_hci_write_tx_power :: "u16 \<Rightarrow> u8 \<Rightarrow> 's \<Rightarrow> int \<times> 's"
  bt_hci_read_tx_power :: "u16 \<Rightarrow> 's \<Rightarrow> int \<times> u8"

abbreviation (input) BT_ID_SIDEWALK :: nat where "BT_ID_SIDEWALK \<equiv> 1"

section \<open>State\<close>

datatype sid_ble_cfg_service_identifier = AMA_SERVICE | VENDOR_SERVICE | LOGGING_SERVICE

text \<open>The calls into Sidewalk, with the callback that was called.\<close>

datatype ble_event =
    EvNotifySent nat bool
  | EvData nat sid_ble_cfg_service_identifier "u8 list"
  | EvNotifyChanged nat sid_ble_cfg_service_identifier bool
  | EvConnection nat bool "u8 list"
  | EvMtu nat u16
  | EvAdvStart nat

text \<open>
  The static variables of the modules; a function pointer is a number or \<open>None\<close>, \<open>conn_data_ptr\<close>
  says whether the pointer is set, \<open>events\<close> lists the calls into Sidewalk, the latest first.
\<close>

record 's ble =
  advert :: "'s advert"
  bt_enable_count :: u32
  conn_data_conn :: "nat option"
  conn_data_addr :: "u8 list"
  conn_data_ptr :: bool
  conn_params_next :: bt_le_conn_param
  conn_params_prev :: bt_le_conn_param
  bt_conn_registered :: bool
  data_cb :: "nat option"
  notify_changed_cb :: "nat option"
  notify_sent_cb :: "nat option"
  connection_cb :: "nat option"
  mtu_changed_cb :: "nat option"
  adv_start_cb :: "nat option"
  events :: "ble_event list"

definition stk :: "'s ble \<Rightarrow> 's" where
  "stk b = bt_stack (advert b)"

definition set_stk :: "'s \<Rightarrow> 's ble \<Rightarrow> 's ble" where
  "set_stk s b = b\<lparr>advert := (advert b)\<lparr>bt_stack := s\<rparr>\<rparr>"

definition on_advert :: "('s advert \<Rightarrow> int \<times> 's advert) \<Rightarrow> 's ble \<Rightarrow> int \<times> 's ble" where
  "on_advert f b = (case f (advert b) of (err, a) \<Rightarrow> (err, b\<lparr>advert := a\<rparr>))"

section \<open>Counted use of the stack\<close>

text \<open>The ready callback, when there is one, is called with 0 on a repeated enable; the adapter passes none.\<close>

definition sid_ble_bt_enable :: "'s bt_ops \<Rightarrow> 's ble \<Rightarrow> int \<times> 's ble" where
  "sid_ble_bt_enable ops b =
     (if bt_enable_count b = 0
      then (case bt_enable ops (stk b) of (ret, s) \<Rightarrow>
              let b1 = set_stk s b in
              (ret, if ret = 0 then b1\<lparr>bt_enable_count := bt_enable_count b1 + 1\<rparr> else b1))
      else (0, b\<lparr>bt_enable_count := bt_enable_count b + 1\<rparr>))"

text \<open>A count left by other users is returned as a positive number.\<close>

definition sid_ble_bt_disable :: "'s bt_ops \<Rightarrow> 's ble \<Rightarrow> int \<times> 's ble" where
  "sid_ble_bt_disable ops b =
     (if bt_enable_count b \<le> 0 then (- EALREADY, b\<lparr>bt_enable_count := 0\<rparr>)
      else if bt_enable_count b = 1
      then (case bt_disable ops (stk b) of (ret, s) \<Rightarrow> (ret, set_stk s (b\<lparr>bt_enable_count := 0\<rparr>)))
      else (let b1 = b\<lparr>bt_enable_count := bt_enable_count b - 1\<rparr> in (sint (bt_enable_count b1), b1)))"

section \<open>Callbacks into Sidewalk\<close>

definition sid_ble_adapter_notification_cb_set :: "nat option \<Rightarrow> 's ble \<Rightarrow> sid_error \<times> 's ble" where
  "sid_ble_adapter_notification_cb_set cb b =
     (if cb = None then (SID_ERROR_INVALID_ARGS, b) else (SID_ERROR_NONE, b\<lparr>notify_sent_cb := cb\<rparr>))"

definition sid_ble_adapter_notification_sent :: "'s ble \<Rightarrow> 's ble" where
  "sid_ble_adapter_notification_sent b =
     (case notify_sent_cb b of None \<Rightarrow> b | Some f \<Rightarrow> b\<lparr>events := EvNotifySent f True # events b\<rparr>)"

definition sid_ble_adapter_data_cb_set :: "nat option \<Rightarrow> 's ble \<Rightarrow> sid_error \<times> 's ble" where
  "sid_ble_adapter_data_cb_set cb b =
     (if cb = None then (SID_ERROR_INVALID_ARGS, b) else (SID_ERROR_NONE, b\<lparr>data_cb := cb\<rparr>))"

definition sid_ble_adapter_data_write :: "sid_ble_cfg_service_identifier \<Rightarrow> u8 list \<Rightarrow> 's ble \<Rightarrow> 's ble" where
  "sid_ble_adapter_data_write i data b =
     (case data_cb b of None \<Rightarrow> b | Some f \<Rightarrow> b\<lparr>events := EvData f i data # events b\<rparr>)"

definition sid_ble_adapter_notification_changed_cb_set :: "nat option \<Rightarrow> 's ble \<Rightarrow> sid_error \<times> 's ble" where
  "sid_ble_adapter_notification_changed_cb_set cb b =
     (if cb = None then (SID_ERROR_INVALID_ARGS, b) else (SID_ERROR_NONE, b\<lparr>notify_changed_cb := cb\<rparr>))"

definition sid_ble_adapter_notification_changed :: "sid_ble_cfg_service_identifier \<Rightarrow> bool \<Rightarrow> 's ble \<Rightarrow> 's ble" where
  "sid_ble_adapter_notification_changed i state b =
     (case notify_changed_cb b of None \<Rightarrow> b | Some f \<Rightarrow> b\<lparr>events := EvNotifyChanged f i state # events b\<rparr>)"

definition sid_ble_adapter_conn_cb_set :: "nat option \<Rightarrow> 's ble \<Rightarrow> sid_error \<times> 's ble" where
  "sid_ble_adapter_conn_cb_set cb b =
     (if cb = None then (SID_ERROR_INVALID_ARGS, b) else (SID_ERROR_NONE, b\<lparr>connection_cb := cb\<rparr>))"

definition sid_ble_adapter_conn_connected :: "u8 list \<Rightarrow> 's ble \<Rightarrow> 's ble" where
  "sid_ble_adapter_conn_connected addr b =
     (case connection_cb b of None \<Rightarrow> b | Some f \<Rightarrow> b\<lparr>events := EvConnection f True addr # events b\<rparr>)"

definition sid_ble_adapter_conn_disconnected :: "u8 list \<Rightarrow> 's ble \<Rightarrow> 's ble" where
  "sid_ble_adapter_conn_disconnected addr b =
     (case connection_cb b of None \<Rightarrow> b | Some f \<Rightarrow> b\<lparr>events := EvConnection f False addr # events b\<rparr>)"

definition sid_ble_adapter_mtu_cb_set :: "nat option \<Rightarrow> 's ble \<Rightarrow> sid_error \<times> 's ble" where
  "sid_ble_adapter_mtu_cb_set cb b =
     (if cb = None then (SID_ERROR_INVALID_ARGS, b) else (SID_ERROR_NONE, b\<lparr>mtu_changed_cb := cb\<rparr>))"

definition sid_ble_adapter_mtu_changed :: "u16 \<Rightarrow> 's ble \<Rightarrow> 's ble" where
  "sid_ble_adapter_mtu_changed mtu_size b =
     (case mtu_changed_cb b of None \<Rightarrow> b | Some f \<Rightarrow> b\<lparr>events := EvMtu f mtu_size # events b\<rparr>)"

definition sid_ble_adapter_adv_start_cb_set :: "nat option \<Rightarrow> 's ble \<Rightarrow> sid_error \<times> 's ble" where
  "sid_ble_adapter_adv_start_cb_set cb b =
     (if cb = None then (SID_ERROR_INVALID_ARGS, b) else (SID_ERROR_NONE, b\<lparr>adv_start_cb := cb\<rparr>))"

definition sid_ble_adapter_adv_started :: "'s ble \<Rightarrow> 's ble" where
  "sid_ble_adapter_adv_started b =
     (case adv_start_cb b of None \<Rightarrow> b | Some f \<Rightarrow> b\<lparr>events := EvAdvStart f # events b\<rparr>)"

section \<open>Sending\<close>

text \<open>
  The parameters of a service: its connection, whether it has a UUID and a service. The
  attribute lookup is a parameter that finds nothing without a service.
\<close>

record sid_ble_srv_params =
  srv_conn :: "nat option"
  srv_uuid :: bool
  srv_service :: bool

text \<open>Called by the stack when the notification has been sent.\<close>

definition notification_sent :: "'s ble \<Rightarrow> 's ble" where
  "notification_sent b = sid_ble_adapter_notification_sent b"

definition sid_ble_send_data ::
  "'s bt_ops \<Rightarrow> sid_ble_srv_params option \<Rightarrow> u8 list option \<Rightarrow> u16 \<Rightarrow> 's ble \<Rightarrow> int \<times> 's ble" where
  "sid_ble_send_data ops params data len b =
     (case params of
        None \<Rightarrow> (- ENOENT, b)
      | Some p \<Rightarrow>
          (case (if srv_service p then bt_gatt_find_by_uuid ops (stk b) else None) of
             None \<Rightarrow> (- ENOENT, b)
           | Some attr \<Rightarrow>
               if data = None \<or> len = 0 \<or> bt_gatt_get_mtu ops (srv_conn p) (stk b) < len \<or>
                  \<not> bt_gatt_is_subscribed ops (srv_conn p) attr (stk b)
               then (- EINVAL, b)
               else (case bt_gatt_notify_cb ops (srv_conn p) attr (take (unat len) (the data)) (stk b) of
                       (err, s) \<Rightarrow> (err, set_stk s b))))"

section \<open>Connection\<close>

definition ble_conn_param_get :: "'s bt_ops \<Rightarrow> nat \<Rightarrow> 's \<Rightarrow> int + bt_le_conn_param" where
  "ble_conn_param_get ops c s =
     (case bt_conn_get_info ops c s of (err, info) \<Rightarrow>
        if err \<noteq> 0 then Inl err
        else Inr \<lparr>conn_interval_min = ucast (info_interval_us info div 1250), conn_interval_max = ucast (info_interval_us info div 1250),
          latency = info_latency info, timeout = info_timeout info\<rparr>)"

definition ble_conn_is_valid :: "'s bt_ops \<Rightarrow> nat option \<Rightarrow> 's \<Rightarrow> bool" where
  "ble_conn_is_valid ops conn s =
     (case conn of None \<Rightarrow> False
      | Some c \<Rightarrow> (case bt_conn_get_info ops c s of (err, info) \<Rightarrow> err = 0 \<and> info_id info = BT_ID_SIDEWALK))"

definition ble_connect_cb :: "'s bt_ops \<Rightarrow> nat option \<Rightarrow> u8 \<Rightarrow> 's ble \<Rightarrow> 's ble" where
  "ble_connect_cb ops conn conn_err b =
     (if \<not> ble_conn_is_valid ops conn (stk b) then b
      else if conn_err \<noteq> 0 then b
      else
        (let c = the conn;
             b1 = b\<lparr>advert := sid_ble_advert_notify_connection (advert b)\<rparr>;
             b2 = b1\<lparr>conn_data_addr := (case bt_conn_get_dst ops c (stk b1) of Some a \<Rightarrow> a | None \<Rightarrow> replicate 6 0)\<rparr>;
             b3 = set_stk (bt_conn_ref ops c (stk b2)) (b2\<lparr>conn_data_conn := conn\<rparr>);
             b4 = sid_ble_adapter_conn_connected (conn_data_addr b3) b3
         in set_stk (snd (bt_conn_le_param_update ops c (conn_params_next b4) (stk b4))) b4))"

definition ble_disconnect_cb :: "'s bt_ops \<Rightarrow> nat option \<Rightarrow> 's ble \<Rightarrow> 's ble" where
  "ble_disconnect_cb ops conn b =
     (if \<not> ble_conn_is_valid ops conn (stk b) \<or> conn_data_conn b \<noteq> conn then b
      else
        (let c = the conn;
             b1 = (case ble_conn_param_get ops c (stk b) of Inl _ \<Rightarrow> b | Inr p \<Rightarrow> b\<lparr>conn_params_prev := p\<rparr>);
             b2 = sid_ble_adapter_conn_disconnected (conn_data_addr b1) b1
         in set_stk (bt_conn_unref ops c (stk b2)) (b2\<lparr>conn_data_conn := None\<rparr>)))"

definition ble_mtu_cb :: "nat option \<Rightarrow> u16 \<Rightarrow> u16 \<Rightarrow> 's ble \<Rightarrow> 's ble" where
  "ble_mtu_cb conn tx_mtu rx_mtu b =
     (if conn_data_conn b = None \<or> conn_data_conn b = conn then sid_ble_adapter_mtu_changed (min tx_mtu rx_mtu) b else b)"

definition sid_ble_conn_param_get :: "'s bt_ops \<Rightarrow> bool \<Rightarrow> 's ble \<Rightarrow> (int + bt_le_conn_param) \<times> 's ble" where
  "sid_ble_conn_param_get ops has_param b =
     (if \<not> has_param then (Inl (- EINVAL), b)
      else (case conn_data_conn b of
              None \<Rightarrow> (Inr (conn_params_prev b), b)
            | Some c \<Rightarrow> (case ble_conn_param_get ops c (stk b) of
                          Inl err \<Rightarrow> (Inl err, b)
                        | Inr p \<Rightarrow> (Inr p, b\<lparr>conn_params_prev := p\<rparr>))))"

definition sid_ble_conn_param_update :: "'s bt_ops \<Rightarrow> bt_le_conn_param option \<Rightarrow> 's ble \<Rightarrow> int \<times> 's ble" where
  "sid_ble_conn_param_update ops param b =
     (case param of
        None \<Rightarrow> (- EINVAL, b)
      | Some p \<Rightarrow>
          (let b1 = (case conn_data_conn b of None \<Rightarrow> b
                     | Some c \<Rightarrow> set_stk (snd (bt_conn_le_param_update ops c p (stk b))) b)
           in (0, b1\<lparr>conn_params_next := p\<rparr>)))"

text \<open>\<open>None\<close> is the null pointer; otherwise the connection stored there.\<close>

definition sid_ble_conn_data_get :: "'s ble \<Rightarrow> nat option option" where
  "sid_ble_conn_data_get b = (if conn_data_ptr b then Some (conn_data_conn b) else None)"

definition sid_ble_conn_init :: "'s bt_ops \<Rightarrow> 's ble \<Rightarrow> 's ble" where
  "sid_ble_conn_init ops b =
     (let b1 = b\<lparr>conn_data_ptr := True\<rparr> in
      if bt_conn_registered b1 then b1
      else (case bt_conn_cb_register ops (stk b1) of (e, s) \<Rightarrow>
              let b2 = set_stk s b1 in
              if e = 0 \<or> e = - EEXIST
              then (set_stk (bt_gatt_cb_register ops (stk b2)) b2)\<lparr>bt_conn_registered := True\<rparr>
              else b2))"

definition sid_ble_conn_disconnect :: "'s bt_ops \<Rightarrow> 's ble \<Rightarrow> int \<times> 's ble" where
  "sid_ble_conn_disconnect ops b =
     (case conn_data_conn b of
        None \<Rightarrow> (- ENOENT, b)
      | Some c \<Rightarrow> (case bt_conn_disconnect ops c (stk b) of (err, s) \<Rightarrow> (err, set_stk s b)))"

definition sid_ble_conn_deinit :: "'s ble \<Rightarrow> 's ble" where
  "sid_ble_conn_deinit b = b\<lparr>conn_data_ptr := False\<rparr>"

end
