(* ===== verification/Ble_Interface.thy ===== *)
theory Ble_Interface
  imports Ble_Adapter
begin

text \<open>
  The operations of the adapter interface, \<^verbatim>\<open>sid_ble_adapter.c\<close>. The build has the AMA service
  only; the branches for the vendor and logging services are compiled under their own options.
\<close>

section \<open>HCI commands\<close>

text \<open>The value the caller's variable holds afterwards; signed bytes are kept as their bits.\<close>

definition read_conn_rssi :: "'s bt_ops \<Rightarrow> u16 \<Rightarrow> u8 \<Rightarrow> 's \<Rightarrow> u8" where
  "read_conn_rssi ops handle rssi s =
     (if \<not> bt_hci_cmd_alloc ops s then rssi
      else (case bt_hci_read_rssi ops handle s of (err, v) \<Rightarrow> if err \<noteq> 0 then rssi else v))"

definition set_tx_power :: "'s bt_ops \<Rightarrow> u16 \<Rightarrow> u8 \<Rightarrow> 's \<Rightarrow> 's" where
  "set_tx_power ops handle tx_pwr_lvl s =
     (if \<not> bt_hci_cmd_alloc ops s then s else snd (bt_hci_write_tx_power ops handle tx_pwr_lvl s))"

definition get_tx_power :: "'s bt_ops \<Rightarrow> u16 \<Rightarrow> 's \<Rightarrow> u16" where
  "get_tx_power ops handle s =
     (if \<not> bt_hci_cmd_alloc ops s then 0xFFFF
      else (case bt_hci_read_tx_power ops handle s of (err, v) \<Rightarrow> if err \<noteq> 0 then 0xFFFF else scast v))"

section \<open>Radio values\<close>

text \<open>The connection handle, or the error the three functions return.\<close>

definition adapter_conn_handle :: "'s bt_ops \<Rightarrow> 's ble \<Rightarrow> sid_error + u16" where
  "adapter_conn_handle ops b =
     (case sid_ble_conn_data_get b of
        Some (Some c) \<Rightarrow>
          (case bt_hci_get_conn_handle ops c (stk b) of (e, h) \<Rightarrow> if e \<noteq> 0 then Inl SID_ERROR_GENERIC else Inr h)
      | _ \<Rightarrow> Inl SID_ERROR_GENERIC)"

definition ble_adapter_get_rssi :: "'s bt_ops \<Rightarrow> u8 \<Rightarrow> 's ble \<Rightarrow> sid_error \<times> u8" where
  "ble_adapter_get_rssi ops rssi b =
     (case adapter_conn_handle ops b of
        Inl e \<Rightarrow> (e, rssi)
      | Inr h \<Rightarrow> (SID_ERROR_NONE, read_conn_rssi ops h rssi (stk b)))"

definition ble_adapter_get_tx_pwr :: "'s bt_ops \<Rightarrow> u16 \<Rightarrow> 's ble \<Rightarrow> sid_error \<times> u16" where
  "ble_adapter_get_tx_pwr ops tx_power b =
     (case adapter_conn_handle ops b of
        Inl e \<Rightarrow> (e, tx_power)
      | Inr h \<Rightarrow> (SID_ERROR_NONE, get_tx_power ops h (stk b)))"

text \<open>The power is passed on as a signed byte.\<close>

definition ble_adapter_set_tx_pwr :: "'s bt_ops \<Rightarrow> u16 \<Rightarrow> 's ble \<Rightarrow> sid_error \<times> 's ble" where
  "ble_adapter_set_tx_pwr ops tx_power b =
     (case adapter_conn_handle ops b of
        Inl e \<Rightarrow> (e, b)
      | Inr h \<Rightarrow> (SID_ERROR_NONE, set_stk (set_tx_power ops h (ucast tx_power) (stk b)) b))"

section \<open>Life cycle\<close>

text \<open>The loop that creates identities up to Sidewalk's; \<open>None\<close> when it never ends.\<close>

partial_function (option) create_ble_id_loop :: "'s bt_ops \<Rightarrow> 's \<Rightarrow> (int \<times> 's) option" where
  "create_ble_id_loop ops s =
     (case bt_id_create ops s of (ret, s1) \<Rightarrow>
        if ret < 0 then Some (ret, s1)
        else if ret \<noteq> int BT_ID_SIDEWALK then create_ble_id_loop ops s1
        else Some (0, s1))"

definition create_ble_id :: "'s bt_ops \<Rightarrow> 's \<Rightarrow> (int \<times> 's) option" where
  "create_ble_id ops s =
     (if length (bt_id_addrs ops s) > BT_ID_SIDEWALK then Some (0, s) else create_ble_id_loop ops s)"

definition ble_adapter_init :: "'s bt_ops \<Rightarrow> 's ble \<Rightarrow> (sid_error \<times> 's ble) option" where
  "ble_adapter_init ops b =
     (case sid_ble_bt_enable ops b of (err, b1) \<Rightarrow>
        if err \<noteq> - EALREADY \<and> err \<noteq> 0 then Some (SID_ERROR_GENERIC, b1)
        else (case create_ble_id ops (stk b1) of
          None \<Rightarrow> None
        | Some (err, s) \<Rightarrow>
            let b2 = set_stk s b1 in
            if err \<noteq> 0 then Some (SID_ERROR_GENERIC, b2)
            else (case on_advert sid_ble_advert_init b2 of (err, b3) \<Rightarrow>
              if err \<noteq> 0 then Some (SID_ERROR_GENERIC, b3)
              else Some (SID_ERROR_NONE, sid_ble_conn_init ops b3))))"

definition ble_adapter_start_service :: "unit \<Rightarrow> sid_error" where
  "ble_adapter_start_service _ = SID_ERROR_NONE"

definition ble_adapter_deinit :: "'s bt_ops \<Rightarrow> 's ble \<Rightarrow> sid_error \<times> 's ble" where
  "ble_adapter_deinit ops b =
     (let b1 = sid_ble_conn_deinit b;
          b2 = snd (on_advert (sid_ble_advert_deinit (adv ops)) b1);
          b3 = set_stk (bt_id_reset ops BT_ID_SIDEWALK (bt_id_delete ops BT_ID_SIDEWALK (stk b2))) b2
      in case sid_ble_bt_disable ops b3 of
           (ret, b4) \<Rightarrow> if ret < 0 then (SID_ERROR_GENERIC, b4) else (SID_ERROR_NONE, b4))"

section \<open>Advertising\<close>

definition ble_adapter_set_adv_data :: "'s bt_ops \<Rightarrow> u8 list option \<Rightarrow> u8 \<Rightarrow> 's ble \<Rightarrow> sid_error \<times> 's ble" where
  "ble_adapter_set_adv_data ops data len b =
     (if data = None \<or> len = 0 then (SID_ERROR_INVALID_ARGS, b)
      else (case on_advert (sid_ble_advert_update (adv ops) data len) b of
              (err, b1) \<Rightarrow> (if err \<noteq> 0 then SID_ERROR_GENERIC else SID_ERROR_NONE, b1)))"

definition ble_adapter_start_advertisement :: "'s bt_ops \<Rightarrow> u32 \<Rightarrow> 's ble \<Rightarrow> sid_error \<times> 's ble" where
  "ble_adapter_start_advertisement ops pr b =
     (case on_advert (sid_ble_advert_start (adv ops) pr) b of
        (err, b1) \<Rightarrow> (if err \<noteq> 0 then SID_ERROR_GENERIC else SID_ERROR_NONE, b1))"

definition ble_adapter_stop_advertisement :: "'s bt_ops \<Rightarrow> 's ble \<Rightarrow> sid_error \<times> 's ble" where
  "ble_adapter_stop_advertisement ops b =
     (case on_advert (sid_ble_advert_stop (adv ops)) b of
        (err, b1) \<Rightarrow> (if err \<noteq> 0 then SID_ERROR_GENERIC else SID_ERROR_NONE, b1))"

section \<open>Data\<close>

text \<open>\<open>None\<close> is the dereference of a null connection data pointer.\<close>

definition get_srv_params :: "sid_ble_cfg_service_identifier \<Rightarrow> 's ble \<Rightarrow> sid_ble_srv_params option" where
  "get_srv_params i b =
     (case i of
        AMA_SERVICE \<Rightarrow>
          (case sid_ble_conn_data_get b of
             None \<Rightarrow> None
           | Some c \<Rightarrow> Some \<lparr>srv_conn = c, srv_uuid = True, srv_service = True\<rparr>)
      | _ \<Rightarrow> Some \<lparr>srv_conn = None, srv_uuid = False, srv_service = False\<rparr>)"

definition ble_adapter_send_data ::
  "'s bt_ops \<Rightarrow> sid_ble_cfg_service_identifier \<Rightarrow> u8 list option \<Rightarrow> u16 \<Rightarrow> 's ble \<Rightarrow> (sid_error \<times> 's ble) option" where
  "ble_adapter_send_data ops i data len b =
     (case get_srv_params i b of
        None \<Rightarrow> None
      | Some p \<Rightarrow>
          if \<not> srv_service p \<or> \<not> srv_uuid p then Some (SID_ERROR_NOSUPPORT, b)
          else (case sid_ble_send_data ops (Some p) data len b of
                  (err, b1) \<Rightarrow>
                    if err = - EINVAL then Some (SID_ERROR_INVALID_ARGS, b1)
                    else if err < 0 then Some (SID_ERROR_GENERIC, b1)
                    else Some (SID_ERROR_NONE, b1)))"

section \<open>Configuration\<close>

text \<open>
  The caller's structures, and the adapter's field by field copies between them and the
  structures of the modules. Reading leaves the service of the caller's advertising parameters
  as it was.
\<close>

record sid_ble_cfg_adv_param =
  cfg_service :: sid_ble_cfg_service_identifier
  cfg_fast_enabled :: bool
  cfg_slow_enabled :: bool
  cfg_fast_interval :: u32
  cfg_fast_timeout :: u32
  cfg_slow_interval :: u32
  cfg_slow_timeout :: u32

record sid_ble_cfg_conn_param =
  min_conn_interval :: u16
  max_conn_interval :: u16
  slave_latency :: u16
  conn_sup_timeout :: u16

definition cfg_to_adv_params :: "sid_ble_cfg_adv_param \<Rightarrow> sid_ble_advert_params" where
  "cfg_to_adv_params p =
     \<lparr>fast_enabled = cfg_fast_enabled p, slow_enabled = cfg_slow_enabled p, fast_interval = cfg_fast_interval p,
      fast_timeout = cfg_fast_timeout p, slow_interval = cfg_slow_interval p, slow_timeout = cfg_slow_timeout p\<rparr>"

definition adv_params_to_cfg :: "sid_ble_advert_params \<Rightarrow> sid_ble_cfg_adv_param \<Rightarrow> sid_ble_cfg_adv_param" where
  "adv_params_to_cfg p c =
     c\<lparr>cfg_fast_enabled := fast_enabled p, cfg_slow_enabled := slow_enabled p, cfg_fast_interval := fast_interval p,
       cfg_fast_timeout := fast_timeout p, cfg_slow_interval := slow_interval p, cfg_slow_timeout := slow_timeout p\<rparr>"

definition cfg_to_conn_params :: "sid_ble_cfg_conn_param \<Rightarrow> bt_le_conn_param" where
  "cfg_to_conn_params p =
     \<lparr>conn_interval_min = min_conn_interval p, conn_interval_max = max_conn_interval p, latency = slave_latency p,
      timeout = conn_sup_timeout p\<rparr>"

definition conn_params_to_cfg :: "bt_le_conn_param \<Rightarrow> sid_ble_cfg_conn_param \<Rightarrow> sid_ble_cfg_conn_param" where
  "conn_params_to_cfg p c =
     c\<lparr>min_conn_interval := conn_interval_min p, max_conn_interval := conn_interval_max p, slave_latency := latency p,
       conn_sup_timeout := timeout p\<rparr>"

datatype sid_ble_user_config_type =
    SID_BLE_USER_CFG_ADV | SID_BLE_USER_CFG_CONN | SID_BLE_USER_CFG_ADV_AND_CONN | SID_BLE_USER_CFG_INACTIVITY_TIMEOUT

record sid_ble_user_config =
  cfg_adv_param :: sid_ble_cfg_adv_param
  cfg_conn_param :: sid_ble_cfg_conn_param
  is_set :: bool
  cfg_type :: sid_ble_user_config_type
  inactivity_timeout :: u32

definition cfg_has_adv :: "sid_ble_user_config \<Rightarrow> bool" where
  "cfg_has_adv cfg \<longleftrightarrow> cfg_type cfg = SID_BLE_USER_CFG_ADV \<or> cfg_type cfg = SID_BLE_USER_CFG_ADV_AND_CONN"

definition cfg_has_conn :: "sid_ble_user_config \<Rightarrow> bool" where
  "cfg_has_conn cfg \<longleftrightarrow> cfg_type cfg = SID_BLE_USER_CFG_CONN \<or> cfg_type cfg = SID_BLE_USER_CFG_ADV_AND_CONN"

text \<open>The two halves of the function: setting, in the order of the code, and reading.\<close>

definition user_config_set_conn :: "'s bt_ops \<Rightarrow> sid_ble_user_config \<Rightarrow> 's ble \<Rightarrow> sid_error \<times> 's ble" where
  "user_config_set_conn ops cfg b =
     (if \<not> cfg_has_conn cfg then (SID_ERROR_NONE, b)
      else (case sid_ble_conn_param_update ops (Some (cfg_to_conn_params (cfg_conn_param cfg))) b of
              (err, b1) \<Rightarrow> (if err \<noteq> 0 then SID_ERROR_GENERIC else SID_ERROR_NONE, b1)))"

definition user_config_set :: "'s bt_ops \<Rightarrow> u32 \<Rightarrow> sid_ble_user_config \<Rightarrow> 's ble \<Rightarrow> sid_error \<times> 's ble" where
  "user_config_set ops pr cfg b =
     (if \<not> cfg_has_adv cfg then user_config_set_conn ops cfg b
      else (case on_advert (sid_ble_advert_params_set (Some (cfg_to_adv_params (cfg_adv_param cfg)))) b of (err, b1) \<Rightarrow>
        if err \<noteq> 0 then (SID_ERROR_GENERIC, b1)
        else
          (let b2 = snd (on_advert (sid_ble_advert_stop (adv ops)) b1) in
           case on_advert (sid_ble_advert_start (adv ops) pr) b2 of (err, b3) \<Rightarrow>
             if err \<noteq> 0 then (SID_ERROR_IO_ERROR, b3) else user_config_set_conn ops cfg b3)))"

definition user_config_get ::
  "'s bt_ops \<Rightarrow> sid_ble_user_config \<Rightarrow> 's ble \<Rightarrow> sid_error \<times> sid_ble_user_config \<times> 's ble" where
  "user_config_get ops cfg b =
     (let adv_result = (if cfg_has_adv cfg
                        then (case sid_ble_advert_params_get True (advert b) of
                                Inl _ \<Rightarrow> Inl SID_ERROR_GENERIC | Inr p \<Rightarrow> Inr (cfg\<lparr>cfg_adv_param := adv_params_to_cfg p (cfg_adv_param cfg)\<rparr>))
                        else Inr cfg)
      in case adv_result of
           Inl e \<Rightarrow> (e, cfg, b)
         | Inr cfg1 \<Rightarrow>
             if \<not> cfg_has_conn cfg then (SID_ERROR_NONE, cfg1, b)
             else (case sid_ble_conn_param_get ops True b of
                     (Inl _, b1) \<Rightarrow> (SID_ERROR_GENERIC, cfg1, b1)
                   | (Inr p, b1) \<Rightarrow> (SID_ERROR_NONE, cfg1\<lparr>cfg_conn_param := conn_params_to_cfg p (cfg_conn_param cfg1)\<rparr>, b1)))"

definition ble_adapter_user_config ::
  "'s bt_ops \<Rightarrow> u32 \<Rightarrow> sid_ble_user_config option \<Rightarrow> 's ble \<Rightarrow> sid_error \<times> sid_ble_user_config option \<times> 's ble" where
  "ble_adapter_user_config ops pr cfg_p b =
     (case cfg_p of
        None \<Rightarrow> (SID_ERROR_INVALID_ARGS, None, b)
      | Some cfg \<Rightarrow>
          if is_set cfg then (case user_config_set ops pr cfg b of (e, b1) \<Rightarrow> (e, Some cfg, b1))
          else (case user_config_get ops cfg b of (e, cfg1, b1) \<Rightarrow> (e, Some cfg1, b1)))"

definition ble_adapter_received_data_result :: "sid_error \<Rightarrow> 's ble \<Rightarrow> 's ble" where
  "ble_adapter_received_data_result e b = b"

definition ble_adapter_notify_ama_state :: "bool \<Rightarrow> 's ble \<Rightarrow> 's ble" where
  "ble_adapter_notify_ama_state active b = b"

text \<open>The stack fills in at most the addresses of the identities up to Sidewalk's.\<close>

definition ble_adapter_get_mac_addr :: "'s bt_ops \<Rightarrow> bool \<Rightarrow> 's ble \<Rightarrow> sid_error + u8 list" where
  "ble_adapter_get_mac_addr ops has_addr b =
     (if \<not> has_addr then Inl SID_ERROR_NULL_POINTER
      else
        (let addrs = take (BT_ID_SIDEWALK + 1) (bt_id_addrs ops (stk b)) in
         if length addrs \<le> BT_ID_SIDEWALK then Inl SID_ERROR_NOT_FOUND else Inr (addrs ! BT_ID_SIDEWALK)))"

section \<open>Callbacks\<close>

record sid_pal_ble_adapter_callbacks =
  ind_callback :: "nat option"
  data_callback :: "nat option"
  notify_callback :: "nat option"
  conn_callback :: "nat option"
  mtu_callback :: "nat option"
  adv_start_callback :: "nat option"

text \<open>Run a step unless an earlier one failed.\<close>

definition then_ok :: "sid_error \<times> 's ble \<Rightarrow> ('s ble \<Rightarrow> sid_error \<times> 's ble) \<Rightarrow> sid_error \<times> 's ble" where
  "then_ok r f = (case r of (e, b) \<Rightarrow> if e \<noteq> SID_ERROR_NONE then (e, b) else f b)"

definition ble_adapter_set_callback :: "sid_pal_ble_adapter_callbacks option \<Rightarrow> 's ble \<Rightarrow> sid_error \<times> 's ble" where
  "ble_adapter_set_callback cb_p b =
     (case cb_p of
        None \<Rightarrow> (SID_ERROR_NULL_POINTER, b)
      | Some cb \<Rightarrow>
          then_ok (then_ok (then_ok (then_ok (then_ok
            (sid_ble_adapter_notification_cb_set (ind_callback cb) b)
            (sid_ble_adapter_data_cb_set (data_callback cb)))
            (sid_ble_adapter_notification_changed_cb_set (notify_callback cb)))
            (sid_ble_adapter_conn_cb_set (conn_callback cb)))
            (sid_ble_adapter_mtu_cb_set (mtu_callback cb)))
            (sid_ble_adapter_adv_start_cb_set (adv_start_callback cb)))"

definition ble_adapter_disconnect :: "'s bt_ops \<Rightarrow> 's ble \<Rightarrow> sid_error \<times> 's ble" where
  "ble_adapter_disconnect ops b =
     (case sid_ble_conn_disconnect ops b of
        (err, b1) \<Rightarrow> (if err \<noteq> 0 then SID_ERROR_GENERIC else SID_ERROR_NONE, b1))"

definition sid_pal_ble_adapter_create :: "bool \<Rightarrow> sid_error" where
  "sid_pal_ble_adapter_create has_handle = (if \<not> has_handle then SID_ERROR_INVALID_ARGS else SID_ERROR_NONE)"

end
