(* ===== verification/Ble_Props.thy ===== *)
theory Ble_Props
  imports Ble_Interface
begin

text \<open>
  The properties of the BLE adapter: the counted use of the stack, what Sidewalk learns of the
  connection, sending, and the configuration.
\<close>

lemma stk_simps [simp]:
  "stk (set_stk s b) = s" "stk (b\<lparr>bt_enable_count := n\<rparr>) = stk b" "stk (b\<lparr>events := e\<rparr>) = stk b"
  "stk (b\<lparr>conn_data_conn := c\<rparr>) = stk b" "stk (b\<lparr>conn_data_addr := a\<rparr>) = stk b" "stk (b\<lparr>conn_params_prev := p\<rparr>) = stk b"
  "stk (b\<lparr>conn_params_next := p\<rparr>) = stk b"
  by (simp_all add: stk_def set_stk_def)

lemma set_stk_simps [simp]:
  "bt_enable_count (set_stk s b) = bt_enable_count b" "conn_data_conn (set_stk s b) = conn_data_conn b"
  "events (set_stk s b) = events b" "connection_cb (set_stk s b) = connection_cb b" "conn_data_addr (set_stk s b) = conn_data_addr b"
  "conn_params_next (set_stk s b) = conn_params_next b" "advert_params (advert (set_stk s b)) = advert_params (advert b)"
  by (simp_all add: set_stk_def)

section \<open>Counted use of the stack\<close>

text \<open>
  The stack is on after a successful enable and off after a successful disable; a call that
  fails leaves it as it was.
\<close>

definition bt_switch_contract :: "'s bt_ops \<Rightarrow> ('s \<Rightarrow> bool) \<Rightarrow> bool" where
  "bt_switch_contract ops on \<longleftrightarrow>
     (\<forall>s. case bt_enable ops s of (ret, s1) \<Rightarrow> on s1 = (ret = 0 \<or> on s)) \<and>
     (\<forall>s. case bt_disable ops s of (ret, s1) \<Rightarrow> on s1 = (ret \<noteq> 0 \<and> on s))"

lemma bt_enableD: "bt_switch_contract ops on \<Longrightarrow> bt_enable ops s = (ret, s1) \<Longrightarrow> on s1 = (ret = 0 \<or> on s)"
  unfolding bt_switch_contract_def by (drule conjunct1, drule spec [of _ s]) simp

lemma bt_disableD: "bt_switch_contract ops on \<Longrightarrow> bt_disable ops s = (ret, s1) \<Longrightarrow> on s1 = (ret \<noteq> 0 \<and> on s)"
  unfolding bt_switch_contract_def by (drule conjunct2, drule spec [of _ s]) simp

text \<open>
  The users of the stack: each successful enable adds one, each disable that finds one removes
  it, even when it fails. The flag says that the last user's disable failed to switch the
  stack off and nobody has enabled it since.
\<close>

inductive bt_use :: "'s bt_ops \<Rightarrow> 's ble \<Rightarrow> nat \<Rightarrow> bool \<Rightarrow> 's ble \<Rightarrow> bool" for ops b0 where
  none: "bt_use ops b0 0 False b0"
| enable: "bt_use ops b0 n stuck b \<Longrightarrow> n < 2147483647 \<Longrightarrow> sid_ble_bt_enable ops b = (ret, b') \<Longrightarrow>
    bt_use ops b0 (if ret = 0 then Suc n else n) (stuck \<and> ret \<noteq> 0) b'"
| disable: "bt_use ops b0 n stuck b \<Longrightarrow> sid_ble_bt_disable ops b = (ret, b') \<Longrightarrow>
    bt_use ops b0 (n - 1) (if n = 1 then ret \<noteq> 0 else stuck) b'"

lemma bt_use_inv:
  assumes c: "bt_switch_contract ops on" and b0: "bt_enable_count b0 = 0" "\<not> on (stk b0)" and u: "bt_use ops b0 n stuck b"
  shows "n \<le> 2147483647 \<and> unat (bt_enable_count b) = n \<and> (on (stk b) \<longleftrightarrow> n > 0 \<or> stuck) \<and> (stuck \<longrightarrow> n = 0)"
  using u
proof (induction rule: bt_use.induct)
  case none
  with b0 show ?case by simp
next
  case (enable n stuck b ret b')
  obtain r s where e: "bt_enable ops (stk b) = (r, s)" by fastforce
  note on = bt_enableD [OF c e]
  have "unat (bt_enable_count b + 1) = n + 1" using enable by (subst unat_add_nowrap) simp_all
  moreover have "bt_enable_count b = 0 \<longleftrightarrow> n = 0" using enable.IH by (auto simp: word_unat_eq_iff)
  ultimately show ?case using enable e on by (auto simp: sid_ble_bt_enable_def Let_def split: if_splits)
next
  case (disable n stuck b ret b')
  obtain r s where e: "bt_disable ops (stk b) = (r, s)" by fastforce
  note off = bt_disableD [OF c e]
  consider "n = 0" | "n = 1" | "n > 1" by linarith
  then show ?case
  proof cases
    case 3
    then have "bt_enable_count b \<noteq> 0" "bt_enable_count b \<noteq> 1" using disable.IH by auto
    moreover have "unat (bt_enable_count b - 1) = n - 1" using disable.IH 3 by (simp add: unat_sub word_le_nat_alt)
    ultimately show ?thesis using disable 3 by (auto simp: sid_ble_bt_disable_def Let_def)
  next
    case 1
    then have "bt_enable_count b = 0" using disable.IH by (simp add: word_unat_eq_iff)
    with disable 1 show ?thesis by (auto simp: sid_ble_bt_disable_def)
  next
    case 2
    then have "bt_enable_count b = 1" using disable.IH by (simp add: word_unat_eq_iff)
    with disable 2 e off show ?thesis by (auto simp: sid_ble_bt_disable_def)
  qed
qed

text \<open>
  C26. The Bluetooth stack is shared by counting: after any sequence of enabling and disabling,
  whichever calls of the stack fail, the count is the number of users, and the stack is on if
  and only if there is one, with one exception: when the last user's disable failed to switch
  it off, the user is gone but the stack stays on until it is enabled again.
\<close>

theorem bt_use_counted:
  assumes "bt_switch_contract ops on" "bt_enable_count b0 = 0" "\<not> on (stk b0)" "bt_use ops b0 n stuck b"
  shows "unat (bt_enable_count b) = n \<and> (on (stk b) \<longleftrightarrow> n > 0 \<or> stuck) \<and> (stuck \<longrightarrow> n = 0)"
  using bt_use_inv [OF assms] by simp

text \<open>
  The count is set to zero before the stack is switched off: when that fails, the stack is on
  without users, and disabling again does not try again but reports that it is off already.
\<close>

lemma bt_disable_failure_sticks:
  assumes "bt_switch_contract ops on" "on (stk b)" "bt_enable_count b = 1" "bt_disable ops (stk b) = (ret, s)" "ret < 0"
  shows "\<exists>b'. sid_ble_bt_disable ops b = (ret, b') \<and> on (stk b') \<and> bt_enable_count b' = 0 \<and>
    fst (sid_ble_bt_disable ops b') = - EALREADY \<and> on (stk (snd (sid_ble_bt_disable ops b')))"
  using assms(2-5) bt_disableD [OF assms(1,4)] by (simp add: sid_ble_bt_disable_def)

section \<open>The connection\<close>

text \<open>
  References to connections are counted; the other calls leave the counts alone, and a
  connection of the Sidewalk identity stays one.
\<close>

definition bt_conn_contract :: "'s bt_ops \<Rightarrow> ('s \<Rightarrow> nat \<Rightarrow> nat) \<Rightarrow> bool" where
  "bt_conn_contract ops refs \<longleftrightarrow>
     (\<forall>c s. refs (bt_conn_ref ops c s) = (refs s)(c := refs s c + 1)) \<and>
     (\<forall>c s. refs (bt_conn_unref ops c s) = (refs s)(c := refs s c - 1)) \<and>
     (\<forall>c p s. refs (snd (bt_conn_le_param_update ops c p s)) = refs s)"

text \<open>The connection callbacks; a connection is only made while none is tracked.\<close>

inductive conn_run :: "'s bt_ops \<Rightarrow> 's ble \<Rightarrow> 's ble \<Rightarrow> bool" for ops b0 where
  start: "conn_run ops b0 b0"
| connect: "conn_run ops b0 b \<Longrightarrow> conn_data_conn b = None \<Longrightarrow> conn_run ops b0 (ble_connect_cb ops c err b)"
| disconnect: "conn_run ops b0 b \<Longrightarrow> conn_run ops b0 (ble_disconnect_cb ops c b)"
| mtu: "conn_run ops b0 b \<Longrightarrow> conn_run ops b0 (ble_mtu_cb c tx rx b)"

text \<open>The connection events, the latest first, and: they alternate and end with the given one.\<close>

definition conn_events :: "'s ble \<Rightarrow> bool list" where
  "conn_events b = List.map_filter (\<lambda>e. case e of EvConnection f up a \<Rightarrow> Some up | _ \<Rightarrow> None) (events b)"

fun alternates :: "bool list \<Rightarrow> bool \<Rightarrow> bool" where
  "alternates [] up = (\<not> up)"
| "alternates (x # xs) up = (x = up \<and> alternates xs (\<not> up))"

lemma conn_events_simps [simp]:
  "conn_events (set_stk s b) = conn_events b" "conn_events (b\<lparr>conn_data_conn := c\<rparr>) = conn_events b"
  "conn_events (b\<lparr>events := EvConnection f up a # events b\<rparr>) = up # conn_events b"
  "conn_events (b\<lparr>events := EvMtu f m # events b\<rparr>) = conn_events b"
  by (simp_all add: conn_events_def List.map_filter_simps)

definition conn_inv :: "('s \<Rightarrow> nat \<Rightarrow> nat) \<Rightarrow> (nat \<Rightarrow> nat) \<Rightarrow> nat \<Rightarrow> 's ble \<Rightarrow> bool" where
  "conn_inv refs r0 f b \<longleftrightarrow>
     connection_cb b = Some f \<and> alternates (conn_events b) (conn_data_conn b \<noteq> None) \<and>
     refs (stk b) = (\<lambda>c. r0 c + (if conn_data_conn b = Some c then 1 else 0))"

lemma connect_inv:
  assumes k: "bt_conn_contract ops refs" and inv: "conn_inv refs r0 f b" and n: "conn_data_conn b = None"
  shows "conn_inv refs r0 f (ble_connect_cb ops c err b)"
proof (cases "ble_conn_is_valid ops c (stk b) \<and> err = 0")
  case False
  with inv show ?thesis by (auto simp: ble_connect_cb_def)
next
  case True
  then obtain d where c: "c = Some d" by (auto simp: ble_conn_is_valid_def split: option.splits)
  let ?b = "ble_connect_cb ops c err b"
  have s: "stk (b\<lparr>advert := sid_ble_advert_notify_connection (advert b)\<rparr>) = stk b"
    by (simp add: stk_def sid_ble_advert_notify_connection_def)
  have ev: "conn_events (b\<lparr>advert := x, conn_data_addr := a, conn_data_conn := y\<rparr>) = conn_events b" for x a y
    by (simp add: conn_events_def)
  have "conn_data_conn ?b = Some d" "connection_cb ?b = Some f" "conn_events ?b = True # conn_events b"
    using True inv
    by (simp_all add: ble_connect_cb_def c conn_inv_def Let_def sid_ble_adapter_conn_connected_def conn_events_def set_stk_def
        List.map_filter_simps)
  moreover have "refs (stk ?b) = (refs (stk b))(d := refs (stk b) d + 1)"
    using True k inv
    by (simp add: ble_connect_cb_def c conn_inv_def Let_def sid_ble_adapter_conn_connected_def bt_conn_contract_def s)
  ultimately show ?thesis using inv n by (auto simp: conn_inv_def fun_eq_iff)
qed

lemma disconnect_inv:
  assumes k: "bt_conn_contract ops refs" and inv: "conn_inv refs r0 f b"
  shows "conn_inv refs r0 f (ble_disconnect_cb ops c b)"
proof (cases "ble_conn_is_valid ops c (stk b) \<and> conn_data_conn b = c")
  case False
  with inv show ?thesis by (auto simp: ble_disconnect_cb_def)
next
  case True
  then obtain d where c: "c = Some d" "conn_data_conn b = Some d" by (auto simp: ble_conn_is_valid_def split: option.splits)
  define b1 where "b1 = (case ble_conn_param_get ops d (stk b) of Inl _ \<Rightarrow> b | Inr p \<Rightarrow> b\<lparr>conn_params_prev := p\<rparr>)"
  then have f: "events b1 = events b" "connection_cb b1 = Some f" "stk b1 = stk b"
    using inv by (simp_all add: conn_inv_def split: sum.splits)
  then have b1: "ble_disconnect_cb ops c b =
      set_stk (bt_conn_unref ops d (stk b)) ((b1\<lparr>events := EvConnection f False (conn_data_addr b1) # events b1\<rparr>)\<lparr>conn_data_conn := None\<rparr>)"
    using True c unfolding ble_disconnect_cb_def
    by (simp add: Let_def sid_ble_adapter_conn_disconnected_def flip: b1_def)
  have "conn_events (b1\<lparr>events := EvConnection f False (conn_data_addr b1) # events b\<rparr>) = False # conn_events b"
    by (simp add: conn_events_def List.map_filter_simps)
  moreover have "conn_events b1 = conn_events b" using f(1) by (simp add: conn_events_def)
  ultimately show ?thesis using b1 f inv c k
    by (auto simp: conn_inv_def bt_conn_contract_def fun_eq_iff)
qed

lemma conn_run_inv:
  assumes k: "bt_conn_contract ops refs" and r: "conn_run ops b0 b" and inv: "conn_inv refs r0 f b0"
  shows "conn_inv refs r0 f b"
  using r
proof (induction rule: conn_run.induct)
  case start
  show ?case by (rule inv)
next
  case (connect b c err)
  then show ?case by (intro connect_inv [OF k])
next
  case (disconnect b c)
  then show ?case by (intro disconnect_inv [OF k])
next
  case (mtu b c tx rx)
  then show ?case
    by (auto simp: ble_mtu_cb_def sid_ble_adapter_mtu_changed_def conn_inv_def split: option.splits)
qed

text \<open>
  C27. Over any run of connection callbacks in which a connection is only made while none is
  tracked, Sidewalk is told of connecting and disconnecting in turn and was last told what
  is the case, and the module holds one reference, to the tracked connection, and no other.
\<close>

theorem conn_reports_alternate:
  assumes "bt_conn_contract ops refs" "conn_run ops b0 b"
    and "connection_cb b0 = Some f" "conn_data_conn b0 = None" "events b0 = []"
  shows "alternates (conn_events b) (conn_data_conn b \<noteq> None) \<and>
    refs (stk b) = (\<lambda>c. refs (stk b0) c + (if conn_data_conn b = Some c then 1 else 0))"
proof -
  have "conn_inv refs (refs (stk b0)) f b0"
    using assms(3-5) by (simp add: conn_inv_def conn_events_def List.map_filter_simps)
  from conn_run_inv [OF assms(1,2) this] show ?thesis by (simp add: conn_inv_def)
qed

text \<open>
  A second connection replaces the tracked one: the disconnection of the first is then
  ignored, so Sidewalk is not told of it and the reference to it is kept for good.
\<close>

theorem conn_second_is_lost:
  assumes "ble_conn_is_valid ops (Some d) (stk b)" "conn_data_conn b = Some c" "d \<noteq> c"
  shows "ble_disconnect_cb ops (Some c) (ble_connect_cb ops (Some d) 0 b) = ble_connect_cb ops (Some d) 0 b"
proof -
  have "conn_data_conn (ble_connect_cb ops (Some d) 0 b) = Some d"
    using assms(1) by (simp add: ble_connect_cb_def Let_def sid_ble_adapter_conn_connected_def split: option.splits)
  with assms(3) show ?thesis by (simp add: ble_disconnect_cb_def)
qed

section \<open>Sending\<close>

text \<open>
  Sending over the initialised adapter: a service that the build does not have is
  refused, a missing attribute is a generic error, data that is missing, empty, longer than
  the MTU or not subscribed to is refused as invalid, and nothing is sent in these cases;
  otherwise exactly the given bytes go to the stack for the tracked connection, and only the
  stack's own error is reported. An adapter that is not initialised reads a null pointer.
\<close>

theorem adapter_send_outcomes:
  "ble_adapter_send_data ops i data len b =
    (if i \<noteq> AMA_SERVICE then Some (SID_ERROR_NOSUPPORT, b)
     else if \<not> conn_data_ptr b then None
     else
       (case bt_gatt_find_by_uuid ops (stk b) of
          None \<Rightarrow> Some (SID_ERROR_GENERIC, b)
        | Some attr \<Rightarrow>
            if data = None \<or> len = 0 \<or> unat (bt_gatt_get_mtu ops (conn_data_conn b) (stk b)) < unat len \<or>
               \<not> bt_gatt_is_subscribed ops (conn_data_conn b) attr (stk b)
            then Some (SID_ERROR_INVALID_ARGS, b)
            else
              (let (err, s) = bt_gatt_notify_cb ops (conn_data_conn b) attr (take (unat len) (the data)) (stk b)
               in Some (if err = - EINVAL then SID_ERROR_INVALID_ARGS else if err < 0 then SID_ERROR_GENERIC
                        else SID_ERROR_NONE, set_stk s b))))"
  by (cases i)
    (auto simp: ble_adapter_send_data_def get_srv_params_def sid_ble_conn_data_get_def sid_ble_send_data_def
      word_less_nat_alt split: option.splits prod.splits)

section \<open>Configuration\<close>

lemma advert_params_kept:
  "advert_params (snd (sid_ble_advert_stop a st)) = advert_params st"
  "advert_params (snd (adv_start_with_param a p ph t st)) = advert_params st"
  by (auto simp: sid_ble_advert_stop_def adv_start_with_param_def Let_def split: prod.splits)

lemma start_params_kept: "advert_params (snd (sid_ble_advert_start a pr st)) = advert_params st"
  by (simp add: sid_ble_advert_start_def Let_def advert_params_kept)

lemma adv_params_copies [simp]:
  "adv_params_to_cfg (cfg_to_adv_params p) c = p\<lparr>cfg_service := cfg_service c\<rparr>"
  "conn_params_to_cfg (cfg_to_conn_params q) d = q"
  by (simp_all add: adv_params_to_cfg_def cfg_to_adv_params_def conn_params_to_cfg_def cfg_to_conn_params_def)

text \<open>A request that reads the given kind of parameters.\<close>

abbreviation reads :: "sid_ble_user_config_type \<Rightarrow> sid_ble_user_config \<Rightarrow> bool" where
  "reads ty g \<equiv> \<not> is_set g \<and> cfg_type g = ty"

lemma read_adv:
  "reads SID_BLE_USER_CFG_ADV g \<Longrightarrow>
   ble_adapter_user_config ops pr (Some g) b =
     (SID_ERROR_NONE, Some (g\<lparr>cfg_adv_param := adv_params_to_cfg (advert_params (advert b)) (cfg_adv_param g)\<rparr>), b)"
  by (simp add: ble_adapter_user_config_def user_config_get_def cfg_has_adv_def cfg_has_conn_def sid_ble_advert_params_get_def)

lemma read_conn_none:
  "reads SID_BLE_USER_CFG_CONN g \<Longrightarrow> conn_data_conn b = None \<Longrightarrow>
   ble_adapter_user_config ops pr (Some g) b =
     (SID_ERROR_NONE, Some (g\<lparr>cfg_conn_param := conn_params_to_cfg (conn_params_prev b) (cfg_conn_param g)\<rparr>), b)"
  by (simp add: ble_adapter_user_config_def user_config_get_def cfg_has_adv_def cfg_has_conn_def sid_ble_conn_param_get_def)

text \<open>Setting, and what it keeps.\<close>

lemma user_config_set_conn_effect:
  assumes "user_config_set_conn ops cfg u = (e, u')"
  shows "e = SID_ERROR_NONE \<and> advert_params (advert u') = advert_params (advert u) \<and> conn_params_prev u' = conn_params_prev u \<and>
    conn_data_conn u' = conn_data_conn u \<and> connection_cb u' = connection_cb u \<and>
    conn_params_next u' = (if cfg_has_conn cfg then cfg_to_conn_params (cfg_conn_param cfg) else conn_params_next u) \<and>
    stk u' = (case conn_data_conn u of
        Some c \<Rightarrow> if cfg_has_conn cfg
                  then snd (bt_conn_le_param_update ops c (cfg_to_conn_params (cfg_conn_param cfg)) (stk u)) else stk u
      | None \<Rightarrow> stk u)"
  using assms
  by (auto simp: user_config_set_conn_def sid_ble_conn_param_update_def Let_def set_stk_def stk_def split: if_splits option.splits)

lemma user_config_set_effect:
  assumes r: "user_config_set ops pr cfg b = (e, b1)"
  shows "advert_params (advert b1) =
      (if cfg_has_adv cfg then cfg_to_adv_params (cfg_adv_param cfg) else advert_params (advert b)) \<and>
    (e = SID_ERROR_NONE \<longrightarrow> conn_params_next b1 =
       (if cfg_has_conn cfg then cfg_to_conn_params (cfg_conn_param cfg) else conn_params_next b)) \<and>
    conn_params_prev b1 = conn_params_prev b \<and> conn_data_conn b1 = conn_data_conn b"
proof (cases "cfg_has_adv cfg")
  case False
  with r user_config_set_conn_effect [of ops cfg b e b1] show ?thesis by (auto simp: user_config_set_def)
next
  case True
  let ?p = "cfg_to_adv_params (cfg_adv_param cfg)"
  let ?a = "snd (sid_ble_advert_stop (adv ops) ((advert b)\<lparr>advert_params := ?p\<rparr>))"
  obtain err a where a: "sid_ble_advert_start (adv ops) pr ?a = (err, a)" by fastforce
  then have p: "advert_params a = ?p"
    using start_params_kept [of "adv ops" pr ?a] advert_params_kept(1) [of "adv ops" "(advert b)\<lparr>advert_params := ?p\<rparr>"]
    by simp
  have u: "user_config_set ops pr cfg b =
      (if err \<noteq> 0 then (SID_ERROR_IO_ERROR, b\<lparr>advert := a\<rparr>) else user_config_set_conn ops cfg (b\<lparr>advert := a\<rparr>))"
    using True a
    by (cases "sid_ble_advert_stop (adv ops) ((advert b)\<lparr>advert_params := ?p\<rparr>)")
      (simp add: user_config_set_def on_advert_def sid_ble_advert_params_set_def Let_def)
  show ?thesis
    using r p True user_config_set_conn_effect [of ops cfg "b\<lparr>advert := a\<rparr>" e b1] unfolding u by (auto split: if_splits)
qed

text \<open>
  The configuration. Advertising parameters that were set are read back field by field,
  whether or not advertising could be restarted with them, and a configuration that does not
  concern advertising leaves them alone. Connection parameters that were set are what the
  next connection requests from its peer; when a connection exists and only they are set, they
  are requested from it at once. Read, in contrast, are the parameters of the connection that
  ended last: the interval in units of 1.25 ms, the latency and the supervision timeout that the
  stack reported for it when it ended.
\<close>

theorem user_config_roundtrip:
  assumes set: "is_set cfg" "ble_adapter_user_config ops pr (Some cfg) b = (e, cfg', b1)"
    and adv: "reads SID_BLE_USER_CFG_ADV g" and conn: "reads SID_BLE_USER_CFG_CONN h"
    and last: "conn_data_conn b2 = Some c" "bt_conn_get_info ops c (stk b2) = (0, info)" "info_id info = BT_ID_SIDEWALK"
  shows "cfg' = Some cfg \<and>
    fst (snd (ble_adapter_user_config ops pr (Some g) b1)) =
      (if cfg_has_adv cfg then Some (g\<lparr>cfg_adv_param := (cfg_adv_param cfg)\<lparr>cfg_service := cfg_service (cfg_adv_param g)\<rparr>\<rparr>)
       else fst (snd (ble_adapter_user_config ops pr (Some g) b))) \<and>
    (e = SID_ERROR_NONE \<and> cfg_has_conn cfg \<and> ble_conn_is_valid ops (Some d) (stk b1) \<longrightarrow>
       stk (ble_connect_cb ops (Some d) 0 b1) =
         snd (bt_conn_le_param_update ops d (cfg_to_conn_params (cfg_conn_param cfg)) (bt_conn_ref ops d (stk b1)))) \<and>
    (cfg_type cfg = SID_BLE_USER_CFG_CONN \<longrightarrow> e = SID_ERROR_NONE \<and>
       stk b1 = (case conn_data_conn b of None \<Rightarrow> stk b
         | Some c \<Rightarrow> snd (bt_conn_le_param_update ops c (cfg_to_conn_params (cfg_conn_param cfg)) (stk b)))) \<and>
    ble_adapter_user_config ops pr (Some h) (ble_disconnect_cb ops (Some c) b2) =
      (SID_ERROR_NONE,
       Some (h\<lparr>cfg_conn_param := \<lparr>min_conn_interval = ucast (info_interval_us info div 1250),
         max_conn_interval = ucast (info_interval_us info div 1250), slave_latency = info_latency info,
         conn_sup_timeout = info_timeout info\<rparr>\<rparr>), ble_disconnect_cb ops (Some c) b2)"
proof (intro conjI impI)
  have r: "user_config_set ops pr cfg b = (e, b1)" and same: "cfg' = Some cfg"
    using set by (auto simp: ble_adapter_user_config_def split: prod.splits)
  note eff = user_config_set_effect [OF r]
  show "cfg' = Some cfg" by (rule same)
  show "fst (snd (ble_adapter_user_config ops pr (Some g) b1)) =
      (if cfg_has_adv cfg then Some (g\<lparr>cfg_adv_param := (cfg_adv_param cfg)\<lparr>cfg_service := cfg_service (cfg_adv_param g)\<rparr>\<rparr>)
       else fst (snd (ble_adapter_user_config ops pr (Some g) b)))"
    using eff by (simp add: read_adv [OF adv])
  show "stk (ble_connect_cb ops (Some d) 0 b1) =
      snd (bt_conn_le_param_update ops d (cfg_to_conn_params (cfg_conn_param cfg)) (bt_conn_ref ops d (stk b1)))"
    if "e = SID_ERROR_NONE \<and> cfg_has_conn cfg \<and> ble_conn_is_valid ops (Some d) (stk b1)"
  proof -
    have s: "stk (b1\<lparr>advert := sid_ble_advert_notify_connection (advert b1)\<rparr>) = stk b1"
      by (simp add: stk_def sid_ble_advert_notify_connection_def)
    show ?thesis
      using that eff
      by (simp add: ble_connect_cb_def Let_def sid_ble_adapter_conn_connected_def s split: option.splits)
  qed
  assume cc: "cfg_type cfg = SID_BLE_USER_CFG_CONN"
  then have "user_config_set_conn ops cfg b = (e, b1)" "cfg_has_conn cfg"
    using r by (simp_all add: user_config_set_def cfg_has_adv_def cfg_has_conn_def)
  from user_config_set_conn_effect [OF this(1)] this(2)
  show "e = SID_ERROR_NONE"
    "stk b1 = (case conn_data_conn b of None \<Rightarrow> stk b
       | Some c \<Rightarrow> snd (bt_conn_le_param_update ops c (cfg_to_conn_params (cfg_conn_param cfg)) (stk b)))"
    by (simp_all split: option.splits)
next
  have "conn_data_conn (ble_disconnect_cb ops (Some c) b2) = None \<and>
      conn_params_prev (ble_disconnect_cb ops (Some c) b2) =
        \<lparr>conn_interval_min = ucast (info_interval_us info div 1250), conn_interval_max = ucast (info_interval_us info div 1250),
         latency = info_latency info, timeout = info_timeout info\<rparr>"
    using last
    by (simp add: ble_disconnect_cb_def ble_conn_is_valid_def ble_conn_param_get_def Let_def set_stk_def
        sid_ble_adapter_conn_disconnected_def split: option.splits)
  then show "ble_adapter_user_config ops pr (Some h) (ble_disconnect_cb ops (Some c) b2) =
      (SID_ERROR_NONE,
       Some (h\<lparr>cfg_conn_param := \<lparr>min_conn_interval = ucast (info_interval_us info div 1250),
         max_conn_interval = ucast (info_interval_us info div 1250), slave_latency = info_latency info,
         conn_sup_timeout = info_timeout info\<rparr>\<rparr>), ble_disconnect_cb ops (Some c) b2)"
    by (simp add: read_conn_none [OF conn] conn_params_to_cfg_def)
qed

section \<open>A concrete stack\<close>

text \<open>Whether the stack is on, and the references to each connection; every call succeeds.\<close>

definition demo_ops :: "(bool \<times> (nat \<Rightarrow> nat)) bt_ops" where
  "demo_ops =
     \<lparr>adv = \<lparr>bt_le_ext_adv_create = (\<lambda>p s. (0, 1, s)), bt_le_ext_adv_set_data = (\<lambda>h d s. (0, s)),
        bt_le_ext_adv_start = (\<lambda>h s. (0, s)), bt_le_ext_adv_stop = (\<lambda>h s. (0, s)), bt_le_ext_adv_delete = (\<lambda>h s. (0, s))\<rparr>,
      bt_enable = (\<lambda>s. (0, (True, snd s))), bt_disable = (\<lambda>s. (0, (False, snd s))),
      bt_id_addrs = (\<lambda>s. [replicate 6 0, replicate 6 1]), bt_id_create = (\<lambda>s. (1, s)),
      bt_id_delete = (\<lambda>i s. s), bt_id_reset = (\<lambda>i s. s),
      bt_conn_get_info = (\<lambda>c s. (0, \<lparr>info_id = 1, info_interval_us = 50000, info_latency = 0, info_timeout = 400\<rparr>)),
      bt_conn_get_dst = (\<lambda>c s. Some (replicate 6 7)),
      bt_conn_ref = (\<lambda>c s. (fst s, (snd s)(c := snd s c + 1))), bt_conn_unref = (\<lambda>c s. (fst s, (snd s)(c := snd s c - 1))),
      bt_conn_le_param_update = (\<lambda>c p s. (0, s)), bt_conn_disconnect = (\<lambda>c s. (0, s)),
      bt_conn_cb_register = (\<lambda>s. (0, s)), bt_gatt_cb_register = (\<lambda>s. s),
      bt_gatt_find_by_uuid = (\<lambda>s. Some 3), bt_gatt_get_mtu = (\<lambda>c s. 247), bt_gatt_is_subscribed = (\<lambda>c a s. True),
      bt_gatt_notify_cb = (\<lambda>c a d s. (0, s)), bt_hci_get_conn_handle = (\<lambda>c s. (0, 0)), bt_hci_cmd_alloc = (\<lambda>s. True),
      bt_hci_read_rssi = (\<lambda>h s. (0, 0)), bt_hci_write_tx_power = (\<lambda>h p s. (0, s)), bt_hci_read_tx_power = (\<lambda>h s. (0, 0))\<rparr>"

definition demo_params :: bt_le_conn_param where
  "demo_params = \<lparr>conn_interval_min = 24, conn_interval_max = 40, latency = 0, timeout = 42\<rparr>"

definition demo_ble :: "(bool \<times> (nat \<Rightarrow> nat)) ble" where
  "demo_ble =
     \<lparr>advert = \<lparr>adv_set = None,
        advert_params = \<lparr>fast_enabled = True, slow_enabled = True, fast_interval = 256, fast_timeout = 3000,
          slow_interval = 1600, slow_timeout = 0\<rparr>,
        adv_param_fast = \<lparr>interval_min = 0, interval_max = 0\<rparr>, adv_param_slow = \<lparr>interval_min = 0, interval_max = 0\<rparr>,
        adv_state = BLE_ADV_DISABLE, bt_adv_manuf_data = replicate 22 0, manuf_data_len = 22, change_adv_work = None,
        bt_stack = (False, \<lambda>_. 0)\<rparr>,
      bt_enable_count = 0, conn_data_conn = None, conn_data_addr = replicate 6 0, conn_data_ptr = True,
      conn_params_next = demo_params, conn_params_prev = demo_params, bt_conn_registered = True,
      data_cb = Some 1, notify_changed_cb = Some 2, notify_sent_cb = Some 3, connection_cb = Some 4, mtu_changed_cb = Some 5,
      adv_start_cb = Some 6, events = []\<rparr>"

lemma demo_simps: "stk demo_ble = (False, \<lambda>_. 0)" "bt_enable_count demo_ble = 0" "conn_data_conn demo_ble = None"
  "connection_cb demo_ble = Some 4" "events demo_ble = []"
  by (simp_all add: demo_ble_def stk_def)

lemma demo_contracts: "bt_switch_contract demo_ops fst" "bt_conn_contract demo_ops snd"
  by (simp_all add: bt_switch_contract_def bt_conn_contract_def demo_ops_def)

definition demo_old :: sid_ble_cfg_adv_param where
  "demo_old = \<lparr>cfg_service = AMA_SERVICE, cfg_fast_enabled = False, cfg_slow_enabled = False, cfg_fast_interval = 0,
     cfg_fast_timeout = 0, cfg_slow_interval = 0, cfg_slow_timeout = 0\<rparr>"

definition demo_cfg :: sid_ble_user_config where
  "demo_cfg = \<lparr>cfg_adv_param = demo_old\<lparr>cfg_fast_enabled := True, cfg_fast_interval := 320\<rparr>,
     cfg_conn_param = \<lparr>min_conn_interval = 24, max_conn_interval = 40, slave_latency = 0, conn_sup_timeout = 42\<rparr>,
     is_set = True, cfg_type = SID_BLE_USER_CFG_ADV, inactivity_timeout = 0\<rparr>"

theorem bt_use_counted_witness:
  "\<exists>b. sid_ble_bt_enable demo_ops demo_ble = (0, b) \<and> bt_enable_count b = 1 \<and> fst (stk b)"
proof -
  let ?b = "snd (sid_ble_bt_enable demo_ops demo_ble)"
  have e: "sid_ble_bt_enable demo_ops demo_ble = (0, ?b)" by (simp add: sid_ble_bt_enable_def demo_ops_def demo_simps Let_def)
  have "bt_use demo_ops demo_ble 1 False ?b"
    using bt_use.enable [OF bt_use.none _ e] by simp
  from bt_use_counted [OF demo_contracts(1) _ _ this] e show ?thesis
    by (auto simp: demo_simps word_unat_eq_iff intro!: exI [of _ ?b])
qed

theorem conn_reports_alternate_witness:
  "conn_events (ble_connect_cb demo_ops (Some 9) 0 demo_ble) = [True] \<and>
   snd (stk (ble_connect_cb demo_ops (Some 9) 0 demo_ble)) 9 = 1"
proof -
  let ?b = "ble_connect_cb demo_ops (Some 9) 0 demo_ble"
  have run: "conn_run demo_ops demo_ble ?b" by (rule conn_run.connect [OF conn_run.start]) (simp add: demo_simps)
  have c: "conn_data_conn ?b = Some 9"
    by (simp add: ble_connect_cb_def ble_conn_is_valid_def demo_ops_def Let_def sid_ble_adapter_conn_connected_def split: option.splits)
  have e: "conn_events ?b = [True]"
    by (simp add: ble_connect_cb_def ble_conn_is_valid_def demo_ops_def Let_def sid_ble_adapter_conn_connected_def demo_ble_def
        conn_events_def set_stk_def stk_def List.map_filter_simps)
  show ?thesis
    using conn_reports_alternate [OF demo_contracts(2) run] c e by (simp add: demo_simps)
qed

theorem adapter_send_outcomes_witness:
  "\<exists>s. ble_adapter_send_data demo_ops AMA_SERVICE (Some [1, 2, 3]) 2 demo_ble = Some (SID_ERROR_NONE, s)"
  unfolding adapter_send_outcomes by (simp add: demo_ops_def demo_ble_def)

theorem user_config_roundtrip_witness:
  "\<exists>e cfg' b1. ble_adapter_user_config demo_ops 5 (Some demo_cfg) demo_ble = (e, cfg', b1) \<and>
     fst (snd (ble_adapter_user_config demo_ops 5 (Some (demo_cfg\<lparr>is_set := False, cfg_adv_param := demo_old\<rparr>)) b1)) =
       Some (demo_cfg\<lparr>is_set := False\<rparr>) \<and>
     fst (ble_adapter_user_config demo_ops 5 (Some (demo_cfg\<lparr>is_set := False, cfg_type := SID_BLE_USER_CFG_CONN\<rparr>))
       (ble_disconnect_cb demo_ops (Some 9) (demo_ble\<lparr>conn_data_conn := Some 9\<rparr>))) = SID_ERROR_NONE"
proof -
  obtain e cfg' b1 where r: "ble_adapter_user_config demo_ops 5 (Some demo_cfg) demo_ble = (e, cfg', b1)" by (metis prod_cases3)
  have i: "bt_conn_get_info demo_ops 9 s = (0, \<lparr>info_id = 1, info_interval_us = 50000, info_latency = 0, info_timeout = 400\<rparr>)" for s
    by (simp add: demo_ops_def)
  have c: "is_set demo_cfg" "cfg_has_adv demo_cfg" "cfg_type demo_cfg = SID_BLE_USER_CFG_ADV"
    "cfg_service (cfg_adv_param demo_cfg) = AMA_SERVICE" "cfg_service demo_old = AMA_SERVICE"
    "(cfg_adv_param demo_cfg)\<lparr>cfg_service := AMA_SERVICE\<rparr> = cfg_adv_param demo_cfg"
    by (simp_all add: demo_cfg_def cfg_has_adv_def demo_old_def)
  show ?thesis
    using user_config_roundtrip [OF c(1) r, of "demo_cfg\<lparr>is_set := False, cfg_adv_param := demo_old\<rparr>"
        "demo_cfg\<lparr>is_set := False, cfg_type := SID_BLE_USER_CFG_CONN\<rparr>" "demo_ble\<lparr>conn_data_conn := Some 9\<rparr>" 9, OF _ _ _ i] r c
    by simp
qed

end
