(* ===== verification/Gpio.thy ===== *)
theory Gpio
  imports Sidewalk_Prelude
begin

text \<open>
  The GPIO layer: the register of pins, \<^verbatim>\<open>sid_gpio_utils.c\<close>, and the interface on top of it,
  \<^verbatim>\<open>sid_gpio.c\<close>. Zephyr's flag values and driver calls are parameters.
\<close>

section \<open>Parameters\<close>

text \<open>The flag constants of Zephyr's GPIO header.\<close>

record gpio_flag_values =
  GPIO_INPUT :: u32
  GPIO_OUTPUT :: u32
  GPIO_DISCONNECTED :: u32
  GPIO_OPEN_DRAIN :: u32
  GPIO_PUSH_PULL :: u32
  GPIO_PULL_UP :: u32
  GPIO_PULL_DOWN :: u32
  GPIO_INT_MASK :: u32
  GPIO_INT_DISABLE :: u32
  GPIO_INT_EDGE_RISING :: u32
  GPIO_INT_EDGE_FALLING :: u32
  GPIO_INT_EDGE_BOTH :: u32
  GPIO_INT_LEVEL_LOW :: u32
  GPIO_INT_LEVEL_HIGH :: u32

text \<open>The driver's calls on a port and a pin, over the hardware's state.\<close>

record 'h gpio_ops =
  gpio_pin_configure :: "nat \<Rightarrow> nat \<Rightarrow> u32 \<Rightarrow> 'h \<Rightarrow> int \<times> 'h"
  gpio_pin_get_raw :: "nat \<Rightarrow> nat \<Rightarrow> 'h \<Rightarrow> int"
  gpio_pin_set_raw :: "nat \<Rightarrow> nat \<Rightarrow> u8 \<Rightarrow> 'h \<Rightarrow> int \<times> 'h"
  gpio_pin_toggle :: "nat \<Rightarrow> nat \<Rightarrow> 'h \<Rightarrow> int \<times> 'h"
  gpio_add_callback :: "nat \<Rightarrow> nat \<Rightarrow> 'h \<Rightarrow> int \<times> 'h"
  gpio_remove_callback :: "nat \<Rightarrow> nat \<Rightarrow> 'h \<Rightarrow> int \<times> 'h"
  gpio_pin_interrupt_configure :: "nat \<Rightarrow> nat \<Rightarrow> u32 \<Rightarrow> 'h \<Rightarrow> int \<times> 'h"

section \<open>The register of pins\<close>

text \<open>
  A pin's entry: its port and pin, the cached flags, the pin mask of its callback structure,
  and its interrupt handler with the argument.
\<close>

record sid_gpio_util_pin =
  port :: nat
  pin :: nat
  configuration_cache :: u32
  cb_pin_mask :: u32
  gpio_irq_handler :: "nat option"
  handler_arg :: nat
  worker_ready :: bool

text \<open>The entries in use; \<^verbatim>\<open>next_free_slot\<close> is their number.\<close>

record 'h gpio_ctx =
  supported_pins :: "sid_gpio_util_pin list"
  gpio_hw :: 'h

abbreviation (input) GPIO_UNUSED_PIN :: u32 where "GPIO_UNUSED_PIN \<equiv> 128"
abbreviation (input) ENOSPC :: int where "ENOSPC \<equiv> 28"
abbreviation (input) ENOTSUP :: int where "ENOTSUP \<equiv> 134"
abbreviation (input) EBUSY :: int where "EBUSY \<equiv> 16"

definition pin_at :: "'h gpio_ctx \<Rightarrow> u32 \<Rightarrow> sid_gpio_util_pin" where
  "pin_at ctx n = supported_pins ctx ! unat n"

definition upd_pin :: "u32 \<Rightarrow> (sid_gpio_util_pin \<Rightarrow> sid_gpio_util_pin) \<Rightarrow> 'h gpio_ctx \<Rightarrow> 'h gpio_ctx" where
  "upd_pin n f ctx = ctx\<lparr>supported_pins := (supported_pins ctx)[unat n := f (pin_at ctx n)]\<rparr>"

definition CHECK_IF_GPIO_IS_REGISTERED :: "'h gpio_ctx \<Rightarrow> u32 \<Rightarrow> int option" where
  "CHECK_IF_GPIO_IS_REGISTERED ctx n =
     (if n = GPIO_UNUSED_PIN then Some (- ENOTSUP)
      else if length (supported_pins ctx) \<le> unat n then Some (- EINVAL) else None)"

definition sid_gpio_utils_clear_register :: "'h gpio_ctx \<Rightarrow> 'h gpio_ctx" where
  "sid_gpio_utils_clear_register ctx = ctx\<lparr>supported_pins := []\<rparr>"

text \<open>The index of the entry, or the number of entries.\<close>

fun find_gpio_in_register :: "nat \<Rightarrow> nat \<Rightarrow> sid_gpio_util_pin list \<Rightarrow> nat" where
  "find_gpio_in_register p n [] = 0"
| "find_gpio_in_register p n (e # es) =
     (if port e = p \<and> pin e = n then 0 else Suc (find_gpio_in_register p n es))"

definition sid_gpio_utils_gpio_set_flags ::
  "gpio_flag_values \<Rightarrow> 'h gpio_ops \<Rightarrow> u32 \<Rightarrow> u32 \<Rightarrow> 'h gpio_ctx \<Rightarrow> int \<times> 'h gpio_ctx" where
  "sid_gpio_utils_gpio_set_flags F ops n flag ctx =
     (case CHECK_IF_GPIO_IS_REGISTERED ctx n of
        Some e \<Rightarrow> (e, ctx)
      | None \<Rightarrow>
          (let c = (configuration_cache (pin_at ctx n) AND GPIO_INT_MASK F) OR (flag AND NOT (GPIO_INT_MASK F));
               ctx1 = upd_pin n (\<lambda>p. p\<lparr>configuration_cache := c\<rparr>) ctx
           in case gpio_pin_configure ops (port (pin_at ctx1 n)) (pin (pin_at ctx1 n)) (c AND NOT (GPIO_INT_MASK F)) (gpio_hw ctx1) of
                (e, h) \<Rightarrow> (e, ctx1\<lparr>gpio_hw := h\<rparr>)))"

text \<open>
  \<open>gpio_max\<close> is \<^verbatim>\<open>CONFIG_SIDEWALK_GPIO_MAX\<close>; a device tree entry without a port is \<open>None\<close>. The flags
  are set before the entry is counted.
\<close>

definition sid_gpio_utils_register_gpio ::
  "gpio_flag_values \<Rightarrow> 'h gpio_ops \<Rightarrow> nat \<Rightarrow> (nat \<times> nat \<times> u32) option \<Rightarrow> 'h gpio_ctx \<Rightarrow> u32 \<times> 'h gpio_ctx" where
  "sid_gpio_utils_register_gpio F ops gpio_max dt ctx =
     (if gpio_max \<le> length (supported_pins ctx) then (word_of_int (- ENOSPC), ctx)
      else
        (case dt of
           None \<Rightarrow> (GPIO_UNUSED_PIN, ctx)
         | Some (p, n, dt_flags) \<Rightarrow>
             let gpio = find_gpio_in_register p n (supported_pins ctx) in
             if gpio < length (supported_pins ctx) then (word_of_nat gpio, ctx)
             else
               (let slot = length (supported_pins ctx);
                    e = \<lparr>port = p, pin = n, configuration_cache = dt_flags, cb_pin_mask = 0, gpio_irq_handler = None,
                         handler_arg = 0, worker_ready = False\<rparr>;
                    ctx1 = snd (sid_gpio_utils_gpio_set_flags F ops (word_of_nat slot) dt_flags ctx)
                in (word_of_nat slot, ctx1\<lparr>supported_pins := supported_pins ctx1 @ [e]\<rparr>))))"

text \<open>The return value and the value read.\<close>

definition sid_gpio_utils_gpio_read :: "gpio_flag_values \<Rightarrow> 'h gpio_ops \<Rightarrow> u32 \<Rightarrow> u8 \<Rightarrow> 'h gpio_ctx \<Rightarrow> int \<times> u8" where
  "sid_gpio_utils_gpio_read F ops n value ctx =
     (case CHECK_IF_GPIO_IS_REGISTERED ctx n of
        Some e \<Rightarrow> (e, value)
      | None \<Rightarrow>
          if configuration_cache (pin_at ctx n) AND GPIO_INPUT F = 0 then (- EINVAL, value)
          else
            (let r = gpio_pin_get_raw ops (port (pin_at ctx n)) (pin (pin_at ctx n)) (gpio_hw ctx)
             in if r < 0 then (- EIO, value) else (0, word_of_int r)))"

definition sid_gpio_utils_gpio_set :: "gpio_flag_values \<Rightarrow> 'h gpio_ops \<Rightarrow> u32 \<Rightarrow> u8 \<Rightarrow> 'h gpio_ctx \<Rightarrow> int \<times> 'h gpio_ctx" where
  "sid_gpio_utils_gpio_set F ops n value ctx =
     (case CHECK_IF_GPIO_IS_REGISTERED ctx n of
        Some e \<Rightarrow> (e, ctx)
      | None \<Rightarrow>
          if configuration_cache (pin_at ctx n) AND GPIO_OUTPUT F = 0 then (- EINVAL, ctx)
          else (case gpio_pin_set_raw ops (port (pin_at ctx n)) (pin (pin_at ctx n)) value (gpio_hw ctx) of
                  (e, h) \<Rightarrow> (e, ctx\<lparr>gpio_hw := h\<rparr>)))"

definition sid_gpio_utils_gpio_toggle :: "gpio_flag_values \<Rightarrow> 'h gpio_ops \<Rightarrow> u32 \<Rightarrow> 'h gpio_ctx \<Rightarrow> int \<times> 'h gpio_ctx" where
  "sid_gpio_utils_gpio_toggle F ops n ctx =
     (case CHECK_IF_GPIO_IS_REGISTERED ctx n of
        Some e \<Rightarrow> (e, ctx)
      | None \<Rightarrow>
          if configuration_cache (pin_at ctx n) AND GPIO_OUTPUT F = 0 then (- EINVAL, ctx)
          else (case gpio_pin_toggle ops (port (pin_at ctx n)) (pin (pin_at ctx n)) (gpio_hw ctx) of
                  (e, h) \<Rightarrow> (e, ctx\<lparr>gpio_hw := h\<rparr>)))"

definition sid_gpio_utils_disconnect :: "gpio_flag_values \<Rightarrow> 'h gpio_ops \<Rightarrow> u32 \<Rightarrow> 'h gpio_ctx \<Rightarrow> int \<times> 'h gpio_ctx" where
  "sid_gpio_utils_disconnect F ops n ctx =
     (case CHECK_IF_GPIO_IS_REGISTERED ctx n of
        Some e \<Rightarrow> (e, ctx)
      | None \<Rightarrow> (case gpio_pin_configure ops (port (pin_at ctx n)) (pin (pin_at ctx n)) (GPIO_DISCONNECTED F) (gpio_hw ctx) of
                  (e, h) \<Rightarrow> (e, ctx\<lparr>gpio_hw := h\<rparr>)))"

text \<open>The callers pass a valid flag pointer; without one the result is \<^verbatim>\<open>-ENOENT\<close>.\<close>

definition sid_gpio_utils_gpio_get_flags :: "u32 \<Rightarrow> bool \<Rightarrow> 'h gpio_ctx \<Rightarrow> int + u32" where
  "sid_gpio_utils_gpio_get_flags n has_flag ctx =
     (case CHECK_IF_GPIO_IS_REGISTERED ctx n of
        Some e \<Rightarrow> Inl e
      | None \<Rightarrow> if \<not> has_flag then Inl (- ENOENT) else Inr (configuration_cache (pin_at ctx n)))"

section \<open>Interrupts\<close>

text \<open>The worker calls the pin's handler with the pin's index and the argument.\<close>

definition sid_gpio_utils_irq_worker :: "u32 \<Rightarrow> 'h gpio_ctx \<Rightarrow> (nat \<times> u32 \<times> nat) option" where
  "sid_gpio_utils_irq_worker n ctx =
     map_option (\<lambda>f. (f, n, handler_arg (pin_at ctx n))) (gpio_irq_handler (pin_at ctx n))"

definition sid_gpio_utils_irq_handler_set :: "u32 \<Rightarrow> nat option \<Rightarrow> nat \<Rightarrow> 'h gpio_ctx \<Rightarrow> int \<times> 'h gpio_ctx" where
  "sid_gpio_utils_irq_handler_set n handler arg ctx =
     (case CHECK_IF_GPIO_IS_REGISTERED ctx n of
        Some e \<Rightarrow> (e, ctx)
      | None \<Rightarrow> (0, upd_pin n (\<lambda>p. p\<lparr>gpio_irq_handler := handler, handler_arg := arg, worker_ready := True\<rparr>) ctx))"

text \<open>
  The driver's callback puts the pin's work item on the queue, given as the indices of the pins
  whose work is pending; an item that is already pending is not queued again.
\<close>

definition sid_gpio_irq_callback :: "bool \<Rightarrow> u32 \<Rightarrow> u32 list \<Rightarrow> u32 list" where
  "sid_gpio_irq_callback has_gpio n q = (if \<not> has_gpio \<or> n \<in> set q then q else q @ [n])"

definition write_bit :: "u32 \<Rightarrow> nat \<Rightarrow> bool \<Rightarrow> u32" where
  "write_bit m i b = (if b then m OR push_bit i 1 else m AND NOT (push_bit i 1))"

text \<open>The last part of the configuration: caching the interrupt flags and handing them to the driver.\<close>

definition irq_configure_tail ::
  "gpio_flag_values \<Rightarrow> 'h gpio_ops \<Rightarrow> u32 \<Rightarrow> u32 \<Rightarrow> 'h gpio_ctx \<Rightarrow> int \<times> 'h gpio_ctx" where
  "irq_configure_tail F ops n irq_flags ctx =
     (let ctx1 = upd_pin n (\<lambda>p. p\<lparr>configuration_cache :=
            (configuration_cache p AND NOT (GPIO_INT_MASK F)) OR (irq_flags AND GPIO_INT_MASK F)\<rparr>) ctx
      in case gpio_pin_interrupt_configure ops (port (pin_at ctx1 n)) (pin (pin_at ctx1 n))
                (configuration_cache (pin_at ctx1 n) AND GPIO_INT_MASK F) (gpio_hw ctx1) of
           (e, h) \<Rightarrow> (e, ctx1\<lparr>gpio_hw := h\<rparr>))"

definition sid_gpio_utils_irq_configure ::
  "gpio_flag_values \<Rightarrow> 'h gpio_ops \<Rightarrow> u32 \<Rightarrow> u32 \<Rightarrow> 'h gpio_ctx \<Rightarrow> int \<times> 'h gpio_ctx" where
  "sid_gpio_utils_irq_configure F ops n irq_flags ctx =
     (case CHECK_IF_GPIO_IS_REGISTERED ctx n of
        Some e \<Rightarrow> (e, ctx)
      | None \<Rightarrow>
          (let p0 = pin_at ctx n;
               is_initialized = (cb_pin_mask p0 \<noteq> 0);
               mask = write_bit (cb_pin_mask p0) (pin p0) (irq_flags AND GPIO_INT_DISABLE F \<noteq> GPIO_INT_DISABLE F);
               ctx1 = upd_pin n (\<lambda>p. p\<lparr>cb_pin_mask := mask\<rparr>) ctx
           in if \<not> is_initialized then
                (if irq_flags \<noteq> GPIO_INT_DISABLE F then
                   (case gpio_add_callback ops (port p0) (pin p0) (gpio_hw ctx1) of (e, h) \<Rightarrow>
                      let ctx2 = ctx1\<lparr>gpio_hw := h\<rparr> in
                      if e \<noteq> 0 then (e, upd_pin n (\<lambda>p. p\<lparr>cb_pin_mask := write_bit mask (pin p0) False\<rparr>) ctx2)
                      else
                        (let ctx3 = upd_pin n (\<lambda>p. p\<lparr>configuration_cache :=
                               (configuration_cache p AND NOT (GPIO_INPUT F OR GPIO_OUTPUT F)) OR GPIO_INPUT F\<rparr>) ctx2;
                             h3 = snd (gpio_pin_configure ops (port p0) (pin p0)
                               (configuration_cache (pin_at ctx3 n) AND NOT (GPIO_INT_MASK F)) (gpio_hw ctx3))
                         in irq_configure_tail F ops n irq_flags (ctx3\<lparr>gpio_hw := h3\<rparr>)))
                 else irq_configure_tail F ops n irq_flags ctx1)
              else if mask = 0 then
                (case gpio_remove_callback ops (port p0) (pin p0) (gpio_hw ctx1) of (e, h) \<Rightarrow>
                   let ctx2 = ctx1\<lparr>gpio_hw := h\<rparr> in
                   if e \<noteq> 0 then (e, ctx2) else irq_configure_tail F ops n irq_flags ctx2)
              else irq_configure_tail F ops n irq_flags ctx1))"

definition sid_gpio_utils_irq_set :: "gpio_flag_values \<Rightarrow> 'h gpio_ops \<Rightarrow> u32 \<Rightarrow> bool \<Rightarrow> 'h gpio_ctx \<Rightarrow> int \<times> 'h gpio_ctx" where
  "sid_gpio_utils_irq_set F ops n on ctx =
     (case CHECK_IF_GPIO_IS_REGISTERED ctx n of
        Some e \<Rightarrow> (e, ctx)
      | None \<Rightarrow>
          (let flags = (if on then configuration_cache (pin_at ctx n) AND GPIO_INT_MASK F else GPIO_INT_DISABLE F)
           in if on \<and> flags = 0 then (0, ctx)
              else (case gpio_pin_interrupt_configure ops (port (pin_at ctx n)) (pin (pin_at ctx n)) flags (gpio_hw ctx) of
                      (e, h) \<Rightarrow> (e, ctx\<lparr>gpio_hw := h\<rparr>))))"

section \<open>Interface\<close>

definition sid_error_get :: "int \<Rightarrow> sid_error" where
  "sid_error_get e =
     (if e < 0 then
        (if e = - EINVAL then SID_ERROR_INVALID_ARGS
         else if e = - ENOTSUP then SID_ERROR_NOSUPPORT
         else if e = - EIO then SID_ERROR_IO_ERROR
         else if e = - EBUSY then SID_ERROR_BUSY
         else SID_ERROR_GENERIC)
      else SID_ERROR_NONE)"

text \<open>Enumeration arguments are numbers, as a caller may pass any.\<close>

abbreviation (input) SID_PAL_GPIO_DIRECTION_INPUT :: nat where "SID_PAL_GPIO_DIRECTION_INPUT \<equiv> 0"
abbreviation (input) SID_PAL_GPIO_DIRECTION_OUTPUT :: nat where "SID_PAL_GPIO_DIRECTION_OUTPUT \<equiv> 1"
abbreviation (input) SID_PAL_GPIO_INPUT_CONNECT :: nat where "SID_PAL_GPIO_INPUT_CONNECT \<equiv> 0"
abbreviation (input) SID_PAL_GPIO_INPUT_DISCONNECT :: nat where "SID_PAL_GPIO_INPUT_DISCONNECT \<equiv> 1"
abbreviation (input) SID_PAL_GPIO_OUTPUT_PUSH_PULL :: nat where "SID_PAL_GPIO_OUTPUT_PUSH_PULL \<equiv> 0"
abbreviation (input) SID_PAL_GPIO_OUTPUT_OPEN_DRAIN :: nat where "SID_PAL_GPIO_OUTPUT_OPEN_DRAIN \<equiv> 1"
abbreviation (input) SID_PAL_GPIO_PULL_NONE :: nat where "SID_PAL_GPIO_PULL_NONE \<equiv> 0"
abbreviation (input) SID_PAL_GPIO_PULL_UP :: nat where "SID_PAL_GPIO_PULL_UP \<equiv> 1"
abbreviation (input) SID_PAL_GPIO_PULL_DOWN :: nat where "SID_PAL_GPIO_PULL_DOWN \<equiv> 2"

definition sid_pal_gpio_read :: "gpio_flag_values \<Rightarrow> 'h gpio_ops \<Rightarrow> u32 \<Rightarrow> u8 option \<Rightarrow> 'h gpio_ctx \<Rightarrow> sid_error \<times> u8 option" where
  "sid_pal_gpio_read F ops n value ctx =
     (if n = GPIO_UNUSED_PIN then (SID_ERROR_NONE, value)
      else (case value of
              None \<Rightarrow> (SID_ERROR_NULL_POINTER, None)
            | Some v \<Rightarrow> (case sid_gpio_utils_gpio_read F ops n v ctx of (e, v1) \<Rightarrow> (sid_error_get e, Some v1))))"

definition gpio_result :: "int \<times> 'h gpio_ctx \<Rightarrow> sid_error \<times> 'h gpio_ctx" where
  "gpio_result r = (sid_error_get (fst r), snd r)"

definition sid_pal_gpio_write :: "gpio_flag_values \<Rightarrow> 'h gpio_ops \<Rightarrow> u32 \<Rightarrow> u8 \<Rightarrow> 'h gpio_ctx \<Rightarrow> sid_error \<times> 'h gpio_ctx" where
  "sid_pal_gpio_write F ops n value ctx =
     (if n = GPIO_UNUSED_PIN then (SID_ERROR_NONE, ctx) else gpio_result (sid_gpio_utils_gpio_set F ops n value ctx))"

definition sid_pal_gpio_toggle :: "gpio_flag_values \<Rightarrow> 'h gpio_ops \<Rightarrow> u32 \<Rightarrow> 'h gpio_ctx \<Rightarrow> sid_error \<times> 'h gpio_ctx" where
  "sid_pal_gpio_toggle F ops n ctx =
     (if n = GPIO_UNUSED_PIN then (SID_ERROR_NONE, ctx) else gpio_result (sid_gpio_utils_gpio_toggle F ops n ctx))"

definition sid_pal_gpio_set_direction :: "gpio_flag_values \<Rightarrow> 'h gpio_ops \<Rightarrow> u32 \<Rightarrow> nat \<Rightarrow> 'h gpio_ctx \<Rightarrow> sid_error \<times> 'h gpio_ctx" where
  "sid_pal_gpio_set_direction F ops n direction ctx =
     (if n = GPIO_UNUSED_PIN then (SID_ERROR_NONE, ctx)
      else if direction > SID_PAL_GPIO_DIRECTION_OUTPUT then (SID_ERROR_INVALID_ARGS, ctx)
      else (case sid_gpio_utils_gpio_get_flags n True ctx of
              Inl e \<Rightarrow> (sid_error_get e, ctx)
            | Inr flags \<Rightarrow>
                gpio_result (sid_gpio_utils_gpio_set_flags F ops n
                  ((flags AND NOT (GPIO_INPUT F OR GPIO_OUTPUT F)) OR
                   (if direction = SID_PAL_GPIO_DIRECTION_INPUT then GPIO_INPUT F else GPIO_OUTPUT F)) ctx)))"

definition sid_pal_gpio_input_mode :: "gpio_flag_values \<Rightarrow> 'h gpio_ops \<Rightarrow> u32 \<Rightarrow> nat \<Rightarrow> 'h gpio_ctx \<Rightarrow> sid_error \<times> 'h gpio_ctx" where
  "sid_pal_gpio_input_mode F ops n mode ctx =
     (if n = GPIO_UNUSED_PIN then (SID_ERROR_NONE, ctx)
      else if mode > SID_PAL_GPIO_INPUT_DISCONNECT then (SID_ERROR_NOSUPPORT, ctx)
      else (case sid_gpio_utils_gpio_get_flags n True ctx of
              Inl e \<Rightarrow> (sid_error_get e, ctx)
            | Inr flags \<Rightarrow>
                if flags AND GPIO_INPUT F \<noteq> GPIO_INPUT F then (SID_ERROR_INVALID_ARGS, ctx)
                else if mode = SID_PAL_GPIO_INPUT_DISCONNECT then gpio_result (sid_gpio_utils_disconnect F ops n ctx)
                else gpio_result (sid_gpio_utils_gpio_set_flags F ops n flags ctx)))"

definition sid_pal_gpio_output_mode :: "gpio_flag_values \<Rightarrow> 'h gpio_ops \<Rightarrow> u32 \<Rightarrow> nat \<Rightarrow> 'h gpio_ctx \<Rightarrow> sid_error \<times> 'h gpio_ctx" where
  "sid_pal_gpio_output_mode F ops n mode ctx =
     (if n = GPIO_UNUSED_PIN then (SID_ERROR_NONE, ctx)
      else if mode > SID_PAL_GPIO_OUTPUT_OPEN_DRAIN then (SID_ERROR_NOSUPPORT, ctx)
      else (case sid_gpio_utils_gpio_get_flags n True ctx of
              Inl e \<Rightarrow> (sid_error_get e, ctx)
            | Inr flags \<Rightarrow>
                if flags AND GPIO_OUTPUT F \<noteq> GPIO_OUTPUT F then (SID_ERROR_INVALID_ARGS, ctx)
                else gpio_result (sid_gpio_utils_gpio_set_flags F ops n
                  (if mode = SID_PAL_GPIO_OUTPUT_OPEN_DRAIN
                   then (flags AND NOT (GPIO_PUSH_PULL F)) OR GPIO_OPEN_DRAIN F
                   else (flags AND NOT (GPIO_OPEN_DRAIN F)) OR GPIO_PUSH_PULL F) ctx)))"

definition sid_pal_gpio_pull_mode :: "gpio_flag_values \<Rightarrow> 'h gpio_ops \<Rightarrow> u32 \<Rightarrow> nat \<Rightarrow> 'h gpio_ctx \<Rightarrow> sid_error \<times> 'h gpio_ctx" where
  "sid_pal_gpio_pull_mode F ops n pull ctx =
     (if n = GPIO_UNUSED_PIN then (SID_ERROR_NONE, ctx)
      else (case sid_gpio_utils_gpio_get_flags n True ctx of
              Inl e \<Rightarrow> (sid_error_get e, ctx)
            | Inr flags \<Rightarrow>
                if pull = SID_PAL_GPIO_PULL_NONE then
                  gpio_result (sid_gpio_utils_gpio_set_flags F ops n (flags AND NOT (GPIO_PULL_UP F OR GPIO_PULL_DOWN F)) ctx)
                else if pull = SID_PAL_GPIO_PULL_UP then
                  gpio_result (sid_gpio_utils_gpio_set_flags F ops n ((flags AND NOT (GPIO_PULL_DOWN F)) OR GPIO_PULL_UP F) ctx)
                else if pull = SID_PAL_GPIO_PULL_DOWN then
                  gpio_result (sid_gpio_utils_gpio_set_flags F ops n ((flags AND NOT (GPIO_PULL_UP F)) OR GPIO_PULL_DOWN F) ctx)
                else (SID_ERROR_INVALID_ARGS, ctx)))"

datatype gpio_irq_trigger =
    SID_PAL_GPIO_IRQ_TRIGGER_NONE | SID_PAL_GPIO_IRQ_TRIGGER_RISING | SID_PAL_GPIO_IRQ_TRIGGER_FALLING
  | SID_PAL_GPIO_IRQ_TRIGGER_EDGE | SID_PAL_GPIO_IRQ_TRIGGER_LOW | SID_PAL_GPIO_IRQ_TRIGGER_HIGH
  | SID_PAL_GPIO_IRQ_TRIGGER_OTHER

fun irq_trigger_flags :: "gpio_flag_values \<Rightarrow> gpio_irq_trigger \<Rightarrow> u32 option" where
  "irq_trigger_flags F SID_PAL_GPIO_IRQ_TRIGGER_NONE = Some (GPIO_INT_DISABLE F)"
| "irq_trigger_flags F SID_PAL_GPIO_IRQ_TRIGGER_RISING = Some (GPIO_INT_EDGE_RISING F)"
| "irq_trigger_flags F SID_PAL_GPIO_IRQ_TRIGGER_FALLING = Some (GPIO_INT_EDGE_FALLING F)"
| "irq_trigger_flags F SID_PAL_GPIO_IRQ_TRIGGER_EDGE = Some (GPIO_INT_EDGE_BOTH F)"
| "irq_trigger_flags F SID_PAL_GPIO_IRQ_TRIGGER_LOW = Some (GPIO_INT_LEVEL_LOW F)"
| "irq_trigger_flags F SID_PAL_GPIO_IRQ_TRIGGER_HIGH = Some (GPIO_INT_LEVEL_HIGH F)"
| "irq_trigger_flags F SID_PAL_GPIO_IRQ_TRIGGER_OTHER = None"

definition sid_pal_gpio_set_irq ::
  "gpio_flag_values \<Rightarrow> 'h gpio_ops \<Rightarrow> u32 \<Rightarrow> gpio_irq_trigger \<Rightarrow> nat option \<Rightarrow> nat \<Rightarrow> 'h gpio_ctx \<Rightarrow> sid_error \<times> 'h gpio_ctx" where
  "sid_pal_gpio_set_irq F ops n trigger handler arg ctx =
     (if n = GPIO_UNUSED_PIN then (SID_ERROR_NONE, ctx)
      else (case irq_trigger_flags F trigger of
              None \<Rightarrow> (SID_ERROR_INVALID_ARGS, ctx)
            | Some irq_flags \<Rightarrow>
                (let ctx1 = snd (if trigger \<noteq> SID_PAL_GPIO_IRQ_TRIGGER_NONE
                                 then sid_gpio_utils_irq_handler_set n handler arg ctx
                                 else sid_gpio_utils_irq_handler_set n None 0 ctx)
                 in gpio_result (sid_gpio_utils_irq_configure F ops n irq_flags ctx1))))"

definition sid_pal_gpio_irq_enable :: "gpio_flag_values \<Rightarrow> 'h gpio_ops \<Rightarrow> u32 \<Rightarrow> 'h gpio_ctx \<Rightarrow> sid_error \<times> 'h gpio_ctx" where
  "sid_pal_gpio_irq_enable F ops n ctx =
     (if n = GPIO_UNUSED_PIN then (SID_ERROR_NONE, ctx) else gpio_result (sid_gpio_utils_irq_set F ops n True ctx))"

definition sid_pal_gpio_irq_disable :: "gpio_flag_values \<Rightarrow> 'h gpio_ops \<Rightarrow> u32 \<Rightarrow> 'h gpio_ctx \<Rightarrow> sid_error \<times> 'h gpio_ctx" where
  "sid_pal_gpio_irq_disable F ops n ctx =
     (if n = GPIO_UNUSED_PIN then (SID_ERROR_NONE, ctx) else gpio_result (sid_gpio_utils_irq_set F ops n False ctx))"

end
