(* ===== verification/Gpio_Props.thy ===== *)
theory Gpio_Props
  imports Gpio
begin

text \<open>
  The properties of the GPIO layer: the numbers given to pins, the direction of a pin and what
  it permits, and the life of an interrupt handler.
\<close>

section \<open>The register\<close>

definition gpio_inv :: "'h gpio_ctx \<Rightarrow> bool" where
  "gpio_inv ctx \<longleftrightarrow> distinct (map (\<lambda>e. (port e, pin e)) (supported_pins ctx))"

lemma find_gpio:
  "if \<exists>e \<in> set es. port e = p \<and> pin e = n
   then find_gpio_in_register p n es < length es \<and> port (es ! find_gpio_in_register p n es) = p \<and>
        pin (es ! find_gpio_in_register p n es) = n
   else find_gpio_in_register p n es = length es"
  by (induction es) auto

lemma find_gpio_append:
  "\<forall>e \<in> set es. \<not> (port e = p \<and> pin e = n) \<Longrightarrow> port x = p \<Longrightarrow> pin x = n \<Longrightarrow>
   find_gpio_in_register p n (es @ [x]) = length es"
  by (induction es) auto

text \<open>
  Registering a pin while the table has room: the number returned addresses an entry for
  exactly this port and pin, the numbers given before keep their entries, no pin has two
  numbers, and a pin registered before gets its old number and changes nothing. The hardware
  is not touched: the flags of the device tree are cached only. A device tree entry without a
  port gets the number of the unused pin. Registering the pin again gives the same number and
  changes nothing while the table has room; once its last slot is taken every registration,
  also that of a pin with a number, returns \<^verbatim>\<open>-ENOSPC\<close> and changes nothing.
\<close>

theorem gpio_register_numbers:
  assumes inv: "gpio_inv ctx" and room: "length (supported_pins ctx) < gpio_max" "gpio_max < 2 ^ 32"
    and r: "sid_gpio_utils_register_gpio F ops gpio_max (Some (p, n, fl)) ctx = (i, ctx')"
  shows "unat i < length (supported_pins ctx') \<and> port (pin_at ctx' i) = p \<and> pin (pin_at ctx' i) = n \<and> gpio_inv ctx' \<and>
    (\<forall>j < length (supported_pins ctx). supported_pins ctx' ! j = supported_pins ctx ! j) \<and> gpio_hw ctx' = gpio_hw ctx \<and>
    ((\<exists>e \<in> set (supported_pins ctx). port e = p \<and> pin e = n) \<longrightarrow> ctx' = ctx) \<and>
    sid_gpio_utils_register_gpio F ops gpio_max None ctx = (GPIO_UNUSED_PIN, ctx) \<and>
    (if length (supported_pins ctx') < gpio_max
     then sid_gpio_utils_register_gpio F ops gpio_max (Some (p, n, fl)) ctx' = (i, ctx')
     else (\<forall>dt. sid_gpio_utils_register_gpio F ops gpio_max dt ctx' = (word_of_int (- ENOSPC), ctx')))"
proof -
  let ?es = "supported_pins ctx"
  let ?k = "find_gpio_in_register p n ?es"
  have len: "length ?es < 4294967296" using room by simp
  show ?thesis
  proof (cases "\<exists>e \<in> set ?es. port e = p \<and> pin e = n")
    case True
    then have k: "?k < length ?es" "port (?es ! ?k) = p" "pin (?es ! ?k) = n" using find_gpio [where es = ?es and p = p and n = n] by auto
    then have "i = word_of_nat ?k" "ctx' = ctx" "unat i = ?k"
      using r room len by (auto simp: sid_gpio_utils_register_gpio_def Let_def unat_of_nat_u32)
    with True k inv room show ?thesis by (simp add: pin_at_def sid_gpio_utils_register_gpio_def)
  next
    case False
    then have k: "?k = length ?es" using find_gpio [where es = ?es and p = p and n = n] by auto
    let ?e = "\<lparr>port = p, pin = n, configuration_cache = fl, cb_pin_mask = 0, gpio_irq_handler = None, handler_arg = 0,
      worker_ready = False\<rparr>"
    have i: "unat (word_of_nat (length ?es) :: u32) = length ?es" using len by (rule unat_of_nat_u32)
    then have "CHECK_IF_GPIO_IS_REGISTERED ctx (word_of_nat (length ?es)) \<noteq> None" by (simp add: CHECK_IF_GPIO_IS_REGISTERED_def)
    then have "snd (sid_gpio_utils_gpio_set_flags F ops (word_of_nat (length ?es)) fl ctx) = ctx"
      by (auto simp: sid_gpio_utils_gpio_set_flags_def)
    then have c: "i = word_of_nat (length ?es)" "ctx' = ctx\<lparr>supported_pins := ?es @ [?e]\<rparr>"
      using r room k by (auto simp: sid_gpio_utils_register_gpio_def Let_def)
    have "find_gpio_in_register p n (?es @ [?e]) = length ?es"
      using False by (intro find_gpio_append) auto
    with c i inv False room show ?thesis
      by (auto simp: gpio_inv_def pin_at_def nth_append sid_gpio_utils_register_gpio_def Let_def)
  qed
qed

section \<open>Flags\<close>

text \<open>What the header says of the flags: they are single groups of bits that do not overlap.\<close>

definition gpio_flags_ok :: "gpio_flag_values \<Rightarrow> bool" where
  "gpio_flags_ok F \<longleftrightarrow>
     GPIO_INPUT F \<noteq> 0 \<and> GPIO_OUTPUT F \<noteq> 0 \<and> GPIO_INPUT F AND GPIO_OUTPUT F = 0 \<and>
     GPIO_INPUT F AND GPIO_INT_MASK F = 0 \<and> GPIO_OUTPUT F AND GPIO_INT_MASK F = 0 \<and>
     GPIO_INT_DISABLE F \<noteq> 0 \<and> GPIO_INT_DISABLE F AND GPIO_INT_MASK F = GPIO_INT_DISABLE F \<and>
     (\<forall>x \<in> {GPIO_INT_EDGE_RISING F, GPIO_INT_EDGE_FALLING F, GPIO_INT_EDGE_BOTH F, GPIO_INT_LEVEL_LOW F, GPIO_INT_LEVEL_HIGH F}.
        x \<noteq> 0 \<and> x AND GPIO_INT_MASK F = x \<and> x AND GPIO_INT_DISABLE F = 0)"

definition registered :: "'h gpio_ctx \<Rightarrow> u32 \<Rightarrow> bool" where
  "registered ctx n \<longleftrightarrow> n \<noteq> GPIO_UNUSED_PIN \<and> unat n < length (supported_pins ctx)"

lemma check_registered: "registered ctx n \<Longrightarrow> CHECK_IF_GPIO_IS_REGISTERED ctx n = None"
  by (simp add: registered_def CHECK_IF_GPIO_IS_REGISTERED_def)

lemma upd_pin_simps:
  "registered ctx n \<Longrightarrow> pin_at (upd_pin n f ctx) n = f (pin_at ctx n)"
  "registered (upd_pin n f ctx) m = registered ctx m" "registered (ctx\<lparr>gpio_hw := h\<rparr>) m = registered ctx m"
  "gpio_hw (upd_pin n f ctx) = gpio_hw ctx" "pin_at (ctx\<lparr>gpio_hw := h\<rparr>) n = pin_at ctx n"
  "m \<noteq> n \<Longrightarrow> pin_at (upd_pin n f ctx) m = pin_at ctx m"
  by (auto simp: registered_def pin_at_def upd_pin_def nth_list_update word_unat_eq_iff)

lemma flags_replace:
  fixes x y m f :: u32
  assumes "f AND m = 0"
  shows "((x AND m) OR (((y AND NOT k) OR f) AND NOT m)) AND f = f"
  using assms by (intro bit_word_eqI) (auto simp: bit_simps bit_eq_iff)

lemma dir_flags:
  fixes c a b m :: u32
  assumes "a AND b = 0" "a AND m = 0" "b AND m = 0"
  shows "((c AND m) OR (((c AND NOT (a OR b)) OR a) AND NOT m)) AND (a OR b) = a"
    and "((c AND m) OR (((c AND NOT (a OR b)) OR a) AND NOT m)) AND NOT (a OR b) = c AND NOT (a OR b)"
  using assms by (auto simp: bit_simps bit_eq_iff intro!: bit_word_eqI)

lemma set_flags_conv:
  assumes "registered ctx n"
  shows "\<exists>e ctx'. sid_gpio_utils_gpio_set_flags F ops n fl ctx = (e, ctx') \<and> registered ctx' n \<and>
    pin_at ctx' n = (pin_at ctx n)\<lparr>configuration_cache :=
      (configuration_cache (pin_at ctx n) AND GPIO_INT_MASK F) OR (fl AND NOT (GPIO_INT_MASK F))\<rparr> \<and>
    (\<forall>m. m \<noteq> n \<longrightarrow> pin_at ctx' m = pin_at ctx m) \<and>
    (e, gpio_hw ctx') = gpio_pin_configure ops (port (pin_at ctx n)) (pin (pin_at ctx n))
      (configuration_cache (pin_at ctx' n) AND NOT (GPIO_INT_MASK F)) (gpio_hw ctx)"
  using assms
  by (auto simp: sid_gpio_utils_gpio_set_flags_def check_registered upd_pin_simps Let_def split: prod.splits)

text \<open>
  C28. Setting the direction of a registered pin records exactly that direction, keeps every
  other flag of the pin and every other pin, and configures the hardware with the flags it
  recorded, without the interrupt bits. Afterwards an output can be written and not read,
  and an input read and not written.
\<close>

theorem gpio_direction:
  assumes F: "gpio_flags_ok F" and n: "registered ctx n" and d: "d \<le> 1"
    and r: "sid_pal_gpio_set_direction F ops n d ctx = (e, ctx')"
  shows "configuration_cache (pin_at ctx' n) AND (GPIO_INPUT F OR GPIO_OUTPUT F) =
      (if d = SID_PAL_GPIO_DIRECTION_INPUT then GPIO_INPUT F else GPIO_OUTPUT F) \<and>
    configuration_cache (pin_at ctx' n) AND NOT (GPIO_INPUT F OR GPIO_OUTPUT F) =
      configuration_cache (pin_at ctx n) AND NOT (GPIO_INPUT F OR GPIO_OUTPUT F) \<and>
    (\<forall>m. m \<noteq> n \<longrightarrow> pin_at ctx' m = pin_at ctx m) \<and>
    (e, gpio_hw ctx') = map_prod sid_error_get id (gpio_pin_configure ops (port (pin_at ctx n)) (pin (pin_at ctx n))
      (configuration_cache (pin_at ctx' n) AND NOT (GPIO_INT_MASK F)) (gpio_hw ctx)) \<and>
    (if d = SID_PAL_GPIO_DIRECTION_INPUT
     then sid_pal_gpio_write F ops n v ctx' = (SID_ERROR_INVALID_ARGS, ctx') \<and>
       sid_pal_gpio_read F ops n (Some w) ctx' =
         (let x = gpio_pin_get_raw ops (port (pin_at ctx n)) (pin (pin_at ctx n)) (gpio_hw ctx')
          in if x < 0 then (SID_ERROR_IO_ERROR, Some w) else (SID_ERROR_NONE, Some (word_of_int x)))
     else sid_pal_gpio_read F ops n (Some w) ctx' = (SID_ERROR_INVALID_ARGS, Some w) \<and>
       (let (x, h) = gpio_pin_set_raw ops (port (pin_at ctx n)) (pin (pin_at ctx n)) v (gpio_hw ctx')
        in sid_pal_gpio_write F ops n v ctx' = (sid_error_get x, ctx'\<lparr>gpio_hw := h\<rparr>)))"
proof -
  define f where "f = (if d = SID_PAL_GPIO_DIRECTION_INPUT then GPIO_INPUT F else GPIO_OUTPUT F)"
  let ?io = "GPIO_INPUT F OR GPIO_OUTPUT F" and ?c = "configuration_cache (pin_at ctx n)"
  have fl: "sid_gpio_utils_gpio_get_flags n True ctx = Inr ?c" using n by (simp add: sid_gpio_utils_gpio_get_flags_def check_registered)
  have "sid_pal_gpio_set_direction F ops n d ctx = gpio_result (sid_gpio_utils_gpio_set_flags F ops n ((?c AND NOT ?io) OR f) ctx)"
    using d n unfolding sid_pal_gpio_set_direction_def fl f_def registered_def by auto
  moreover obtain e1 c1 where "sid_gpio_utils_gpio_set_flags F ops n ((?c AND NOT ?io) OR f) ctx = (e1, c1)" by fastforce
  ultimately have u: "sid_gpio_utils_gpio_set_flags F ops n ((?c AND NOT ?io) OR f) ctx = (e1, ctx')" "e = sid_error_get e1"
    using r by (simp_all add: gpio_result_def)
  obtain e2 c2 where s: "(e1, ctx') = (e2, c2)" "registered c2 n"
    "pin_at c2 n = (pin_at ctx n)\<lparr>configuration_cache := (?c AND GPIO_INT_MASK F) OR (((?c AND NOT ?io) OR f) AND NOT (GPIO_INT_MASK F))\<rparr>"
    "\<forall>m. m \<noteq> n \<longrightarrow> pin_at c2 m = pin_at ctx m"
    "(e2, gpio_hw c2) = gpio_pin_configure ops (port (pin_at ctx n)) (pin (pin_at ctx n))
      (configuration_cache (pin_at c2 n) AND NOT (GPIO_INT_MASK F)) (gpio_hw ctx)"
    using set_flags_conv [OF n, of F ops "(?c AND NOT ?io) OR f"] u(1) by auto
  then have eq: "e2 = e1" "c2 = ctx'" by simp_all
  note s = s [unfolded eq]
  have ok: "GPIO_INPUT F AND GPIO_OUTPUT F = 0" "GPIO_INPUT F AND GPIO_INT_MASK F = 0" "GPIO_OUTPUT F AND GPIO_INT_MASK F = 0"
    "GPIO_INPUT F \<noteq> 0" "GPIO_OUTPUT F \<noteq> 0"
    using F by (simp_all add: gpio_flags_ok_def)
  then have ok': "GPIO_OUTPUT F AND GPIO_INPUT F = 0" by (simp add: and.commute)
  have c: "configuration_cache (pin_at ctx' n) AND ?io = f" "configuration_cache (pin_at ctx' n) AND NOT ?io = ?c AND NOT ?io"
    using dir_flags [OF ok(1-3), of ?c] dir_flags [OF ok' ok(3,2), of ?c] unfolding s(3) f_def by (auto simp: or.commute)
  have mask: "x AND GPIO_INPUT F = f AND GPIO_INPUT F" "x AND GPIO_OUTPUT F = f AND GPIO_OUTPUT F" if "x AND ?io = f" for x
    unfolding that [symmetric] by (auto intro!: bit_word_eqI simp: bit_simps)
  have dir: "configuration_cache (pin_at ctx' n) AND GPIO_INPUT F = (if d = SID_PAL_GPIO_DIRECTION_INPUT then GPIO_INPUT F else 0)"
    "configuration_cache (pin_at ctx' n) AND GPIO_OUTPUT F = (if d = SID_PAL_GPIO_DIRECTION_INPUT then 0 else GPIO_OUTPUT F)"
    using mask [OF c(1)] ok ok' by (simp_all add: f_def)
  have p: "port (pin_at ctx' n) = port (pin_at ctx n)" "pin (pin_at ctx' n) = pin (pin_at ctx n)" using s(3) by simp_all
  have hw: "(e, gpio_hw ctx') = map_prod sid_error_get id (gpio_pin_configure ops (port (pin_at ctx n)) (pin (pin_at ctx n))
      (configuration_cache (pin_at ctx' n) AND NOT (GPIO_INT_MASK F)) (gpio_hw ctx))"
    unfolding s(5) [symmetric] using u(2) by simp
  have un: "n \<noteq> 128" using n by (simp add: registered_def)
  have wr: "sid_pal_gpio_write F ops n v ctx' = (if d = SID_PAL_GPIO_DIRECTION_INPUT then (SID_ERROR_INVALID_ARGS, ctx')
      else (let (x, h) = gpio_pin_set_raw ops (port (pin_at ctx n)) (pin (pin_at ctx n)) v (gpio_hw ctx')
            in (sid_error_get x, ctx'\<lparr>gpio_hw := h\<rparr>)))"
    using un check_registered [OF s(2)] dir(2) ok(5)
    by (simp add: sid_pal_gpio_write_def sid_gpio_utils_gpio_set_def gpio_result_def p sid_error_get_def split: prod.splits)
  have rd: "sid_pal_gpio_read F ops n (Some w) ctx' = (if d = SID_PAL_GPIO_DIRECTION_INPUT
      then (let x = gpio_pin_get_raw ops (port (pin_at ctx n)) (pin (pin_at ctx n)) (gpio_hw ctx')
          in if x < 0 then (SID_ERROR_IO_ERROR, Some w) else (SID_ERROR_NONE, Some (word_of_int x)))
      else (SID_ERROR_INVALID_ARGS, Some w))"
    using un check_registered [OF s(2)] dir(1) ok(4)
    by (simp add: sid_pal_gpio_read_def sid_gpio_utils_gpio_read_def p sid_error_get_def Let_def)
  show ?thesis
    using c s(4) hw wr rd by (cases "d = 0") (simp_all add: f_def Let_def split: prod.splits)
qed

section \<open>Interrupts\<close>

text \<open>
  What Zephyr's driver promises, over three views of its state: the callbacks registered with
  it, the interrupt configuration of every pin and the configuration of every pin. A call that
  returns 0 has its effect, a failing one returns a negative code; nothing else is promised
  of a failing call but that it does not touch the set of callbacks.
\<close>

type_synonym pin_spec = "nat \<times> nat"

definition gpio_driver ::
  "'h gpio_ops \<Rightarrow> ('h \<Rightarrow> pin_spec set) \<Rightarrow> ('h \<Rightarrow> pin_spec \<Rightarrow> u32) \<Rightarrow> ('h \<Rightarrow> pin_spec \<Rightarrow> u32) \<Rightarrow> bool" where
  "gpio_driver ops cbs ints conf \<longleftrightarrow>
     (\<forall>p n h. case gpio_add_callback ops p n h of (e, h') \<Rightarrow>
        e \<le> 0 \<and> cbs h' = (if e = 0 then insert (p, n) (cbs h) else cbs h)) \<and>
     (\<forall>p n h. case gpio_remove_callback ops p n h of (e, h') \<Rightarrow>
        e \<le> 0 \<and> cbs h' = (if e = 0 then cbs h - {(p, n)} else cbs h)) \<and>
     (\<forall>p n f h. case gpio_pin_interrupt_configure ops p n f h of (e, h') \<Rightarrow>
        e \<le> 0 \<and> cbs h' = cbs h \<and> conf h' = conf h \<and> (e = 0 \<longrightarrow> ints h' = (ints h)((p, n) := f))) \<and>
     (\<forall>p n f h. case gpio_pin_configure ops p n f h of (e, h') \<Rightarrow>
        e \<le> 0 \<and> cbs h' = cbs h \<and> (e = 0 \<longrightarrow> conf h' = (conf h)((p, n) := f)))"

lemma driver_add: "gpio_driver ops cbs ints conf \<Longrightarrow> gpio_add_callback ops p n h = (e, h') \<Longrightarrow>
    e \<le> 0 \<and> cbs h' = (if e = 0 then insert (p, n) (cbs h) else cbs h)"
  unfolding gpio_driver_def by (drule conjunct1, drule spec [of _ p], drule spec [of _ n], drule spec [of _ h]) simp

lemma driver_remove: "gpio_driver ops cbs ints conf \<Longrightarrow> gpio_remove_callback ops p n h = (e, h') \<Longrightarrow>
    e \<le> 0 \<and> cbs h' = (if e = 0 then cbs h - {(p, n)} else cbs h)"
  unfolding gpio_driver_def by (drule conjunct2, drule conjunct1, drule spec [of _ p], drule spec [of _ n], drule spec [of _ h]) simp

lemma driver_interrupt: "gpio_driver ops cbs ints conf \<Longrightarrow> gpio_pin_interrupt_configure ops p n f h = (e, h') \<Longrightarrow>
    e \<le> 0 \<and> cbs h' = cbs h \<and> conf h' = conf h \<and> (e = 0 \<longrightarrow> ints h' = (ints h)((p, n) := f))"
  unfolding gpio_driver_def
  by (drule conjunct2, drule conjunct2, drule conjunct1, drule spec [of _ p], drule spec [of _ n], drule spec [of _ f], drule spec [of _ h]) simp

lemma driver_configure: "gpio_driver ops cbs ints conf \<Longrightarrow> gpio_pin_configure ops p n f h = (e, h') \<Longrightarrow>
    e \<le> 0 \<and> cbs h' = cbs h \<and> (e = 0 \<longrightarrow> conf h' = (conf h)((p, n) := f))"
  unfolding gpio_driver_def
  by (drule conjunct2, drule conjunct2, drule conjunct2, drule spec [of _ p], drule spec [of _ n], drule spec [of _ f], drule spec [of _ h]) simp

definition gpio_reliable :: "'h gpio_ops \<Rightarrow> bool" where
  "gpio_reliable ops \<longleftrightarrow>
     (\<forall>p n h. fst (gpio_add_callback ops p n h) = 0) \<and> (\<forall>p n h. fst (gpio_remove_callback ops p n h) = 0) \<and>
     (\<forall>p n f h. fst (gpio_pin_interrupt_configure ops p n f h) = 0) \<and> (\<forall>p n f h. fst (gpio_pin_configure ops p n f h) = 0)"

lemma reliable_calls:
  assumes "gpio_reliable ops"
  shows "gpio_add_callback ops p n h = (e, h') \<Longrightarrow> e = 0" "gpio_remove_callback ops p n h = (e, h') \<Longrightarrow> e = 0"
    "gpio_pin_interrupt_configure ops p n f h = (e, h') \<Longrightarrow> e = 0" "gpio_pin_configure ops p n f h = (e, h') \<Longrightarrow> e = 0"
  using assms unfolding gpio_reliable_def by (metis fst_conv)+

lemma sid_error_get_none: "e \<le> 0 \<Longrightarrow> sid_error_get e = SID_ERROR_NONE \<longleftrightarrow> e = 0"
  by (auto simp: sid_error_get_def)

abbreviation (input) spec_of :: "'h gpio_ctx \<Rightarrow> u32 \<Rightarrow> pin_spec" where
  "spec_of ctx n \<equiv> (port (pin_at ctx n), pin (pin_at ctx n))"

text \<open>
  What an interrupt of the pin's line leads to: the driver calls the pin's callback when it is
  registered with it and its mask has the pin, the callback queues the pin's work and the worker
  runs.
\<close>

definition gpio_interrupt :: "('h \<Rightarrow> pin_spec set) \<Rightarrow> u32 \<Rightarrow> 'h gpio_ctx \<Rightarrow> (nat \<times> u32 \<times> nat) option list" where
  "gpio_interrupt cbs n ctx =
     (if spec_of ctx n \<in> cbs (gpio_hw ctx) \<and> bit (cb_pin_mask (pin_at ctx n)) (pin (pin_at ctx n))
      then map (\<lambda>i. sid_gpio_utils_irq_worker i ctx) (sid_gpio_irq_callback True n []) else [])"

lemma irq_tail:
  assumes "registered ctx n" "gpio_driver ops cbs ints conf"
  shows "\<exists>e ctx'. irq_configure_tail F ops n fl ctx = (e, ctx') \<and> registered ctx' n \<and> e \<le> 0 \<and>
    pin_at ctx' n = (pin_at ctx n)\<lparr>configuration_cache :=
      (configuration_cache (pin_at ctx n) AND NOT (GPIO_INT_MASK F)) OR (fl AND GPIO_INT_MASK F)\<rparr> \<and>
    (\<forall>m. m \<noteq> n \<longrightarrow> pin_at ctx' m = pin_at ctx m) \<and>
    cbs (gpio_hw ctx') = cbs (gpio_hw ctx) \<and> conf (gpio_hw ctx') = conf (gpio_hw ctx) \<and>
    (e = 0 \<longrightarrow> ints (gpio_hw ctx') = (ints (gpio_hw ctx))(spec_of ctx n := (fl AND GPIO_INT_MASK F))) \<and>
    (gpio_reliable ops \<longrightarrow> e = 0)"
proof -
  let ?c = "((configuration_cache (pin_at ctx n) AND NOT (GPIO_INT_MASK F)) OR (fl AND GPIO_INT_MASK F))"
  have m: "?c AND GPIO_INT_MASK F = fl AND GPIO_INT_MASK F" by (auto simp: bit_simps bit_eq_iff)
  obtain e h where h: "gpio_pin_interrupt_configure ops (port (pin_at ctx n)) (pin (pin_at ctx n))
      (?c AND GPIO_INT_MASK F) (gpio_hw ctx) = (e, h)" by fastforce
  let ?c' = "(upd_pin n (\<lambda>p. p\<lparr>configuration_cache :=
      (configuration_cache p AND NOT (GPIO_INT_MASK F)) OR (fl AND GPIO_INT_MASK F)\<rparr>) ctx)\<lparr>gpio_hw := h\<rparr>"
  have t: "irq_configure_tail F ops n fl ctx = (e, ?c')"
    using assms(1) h by (simp add: irq_configure_tail_def upd_pin_simps Let_def)
  show ?thesis
    by (rule exI [of _ e], rule exI [of _ ?c'])
      (use t assms(1) driver_interrupt [OF assms(2) h] reliable_calls(3) [OF _ h] m in \<open>auto simp: upd_pin_simps\<close>)
qed

text \<open>Configuring the interrupt of a pin that has none, and of a pin that has one.\<close>

lemma irq_configure_first:
  assumes n: "registered ctx n" and ok: "gpio_driver ops cbs ints conf" and new: "cb_pin_mask (pin_at ctx n) = 0"
    and m: "pin (pin_at ctx n) < 32"
    and fl: "fl \<noteq> GPIO_INT_DISABLE F" "fl AND GPIO_INT_DISABLE F \<noteq> GPIO_INT_DISABLE F"
  shows "\<exists>e ctx'. sid_gpio_utils_irq_configure F ops n fl ctx = (e, ctx') \<and> registered ctx' n \<and> e \<le> 0 \<and>
    (\<forall>m. m \<noteq> n \<longrightarrow> pin_at ctx' m = pin_at ctx m) \<and>
    (if fst (gpio_add_callback ops (port (pin_at ctx n)) (pin (pin_at ctx n)) (gpio_hw ctx)) = 0
     then pin_at ctx' n = (pin_at ctx n)\<lparr>cb_pin_mask := push_bit (pin (pin_at ctx n)) 1, configuration_cache :=
      (((configuration_cache (pin_at ctx n) AND NOT (GPIO_INPUT F OR GPIO_OUTPUT F)) OR GPIO_INPUT F) AND NOT (GPIO_INT_MASK F)) OR
      (fl AND GPIO_INT_MASK F)\<rparr> \<and>
      cbs (gpio_hw ctx') = insert (spec_of ctx n) (cbs (gpio_hw ctx)) \<and>
      (e = 0 \<longrightarrow> ints (gpio_hw ctx') (spec_of ctx n) = fl AND GPIO_INT_MASK F)
     else e \<noteq> 0 \<and> pin_at ctx' n = pin_at ctx n \<and> cbs (gpio_hw ctx') = cbs (gpio_hw ctx)) \<and>
    (gpio_reliable ops \<longrightarrow> e = 0 \<and> conf (gpio_hw ctx') (spec_of ctx n) =
      ((configuration_cache (pin_at ctx n) AND NOT (GPIO_INPUT F OR GPIO_OUTPUT F)) OR GPIO_INPUT F) AND NOT (GPIO_INT_MASK F))"
proof -
  let ?p = "pin_at ctx n"
  let ?f = "((configuration_cache ?p AND NOT (GPIO_INPUT F OR GPIO_OUTPUT F)) OR GPIO_INPUT F) AND NOT (GPIO_INT_MASK F)"
  obtain e0 h where h: "gpio_add_callback ops (port ?p) (pin ?p) (gpio_hw ctx) = (e0, h)" by fastforce
  obtain e1 h1 where h1: "gpio_pin_configure ops (port ?p) (pin ?p) ?f h = (e1, h1)" by fastforce
  let ?c2 = "(upd_pin n (\<lambda>q. q\<lparr>cb_pin_mask := push_bit (pin ?p) 1\<rparr>) ctx)\<lparr>gpio_hw := h\<rparr>"
  let ?c3 = "upd_pin n (\<lambda>q. q\<lparr>configuration_cache :=
    (configuration_cache q AND NOT (GPIO_INPUT F OR GPIO_OUTPUT F)) OR GPIO_INPUT F\<rparr>) ?c2"
  let ?c4 = "?c3\<lparr>gpio_hw := h1\<rparr>"
  show ?thesis
  proof (cases "e0 = 0")
    case True
    have u: "sid_gpio_utils_irq_configure F ops n fl ctx = irq_configure_tail F ops n fl ?c4"
      using n new fl h h1 True unfolding sid_gpio_utils_irq_configure_def check_registered [OF n]
      by (simp add: write_bit_def upd_pin_simps Let_def)
    have r4: "registered ?c4 n" using n by (simp add: upd_pin_simps)
    have c4: "pin_at ?c4 n = ?p\<lparr>cb_pin_mask := push_bit (pin ?p) 1,
        configuration_cache := (configuration_cache ?p AND NOT (GPIO_INPUT F OR GPIO_OUTPUT F)) OR GPIO_INPUT F\<rparr>"
      "\<forall>m. m \<noteq> n \<longrightarrow> pin_at ?c4 m = pin_at ctx m" "gpio_hw ?c4 = h1"
      using n by (simp_all add: upd_pin_simps)
    obtain e ctx' where t: "irq_configure_tail F ops n fl ?c4 = (e, ctx')" "registered ctx' n" "e \<le> 0"
      "pin_at ctx' n = (pin_at ?c4 n)\<lparr>configuration_cache :=
        (configuration_cache (pin_at ?c4 n) AND NOT (GPIO_INT_MASK F)) OR (fl AND GPIO_INT_MASK F)\<rparr>"
      "\<forall>m. m \<noteq> n \<longrightarrow> pin_at ctx' m = pin_at ?c4 m" "cbs (gpio_hw ctx') = cbs (gpio_hw ?c4)" "conf (gpio_hw ctx') = conf (gpio_hw ?c4)"
      "e = 0 \<longrightarrow> ints (gpio_hw ctx') = (ints (gpio_hw ?c4))(spec_of ?c4 n := (fl AND GPIO_INT_MASK F))"
      "gpio_reliable ops \<longrightarrow> e = 0"
      using irq_tail [OF r4 ok, of F fl] by blast
    note d = driver_add [OF ok h] driver_configure [OF ok h1]
    have cb: "cbs (gpio_hw ctx') = insert (spec_of ctx n) (cbs (gpio_hw ctx))" using t(6) d True by simp
    have ii: "e = 0 \<longrightarrow> ints (gpio_hw ctx') (spec_of ctx n) = fl AND GPIO_INT_MASK F" using t(8) c4(1) by simp
    have rel: "gpio_reliable ops \<longrightarrow> e = 0 \<and> conf (gpio_hw ctx') (spec_of ctx n) = ?f"
      using t(7,9) d(2) reliable_calls(4) [OF _ h1] by auto
    show ?thesis unfolding u using t(1-5) c4 cb ii rel h True by auto
  next
    case False
    let ?c5 = "upd_pin n (\<lambda>q. q\<lparr>cb_pin_mask := write_bit (push_bit (pin ?p) 1) (pin ?p) False\<rparr>) ?c2"
    have u: "sid_gpio_utils_irq_configure F ops n fl ctx = (e0, ?c5)"
      using n new fl h False unfolding sid_gpio_utils_irq_configure_def check_registered [OF n]
      by (simp add: write_bit_def upd_pin_simps Let_def)
    have z: "write_bit (push_bit (pin ?p) 1) (pin ?p) False = 0" by (simp add: write_bit_def)
    have p: "pin_at ?c5 n = ?p" "\<forall>m. m \<noteq> n \<longrightarrow> pin_at ?c5 m = pin_at ctx m" "registered ?c5 n" "gpio_hw ?c5 = h"
      using n new z by (simp_all add: upd_pin_simps)
    show ?thesis unfolding u using p driver_add [OF ok h] False h reliable_calls(1) [OF _ h] by auto
  qed
qed

lemma irq_configure_off:
  assumes n: "registered ctx n" and ok: "gpio_driver ops cbs ints conf"
    and old: "cb_pin_mask (pin_at ctx n) = push_bit (pin (pin_at ctx n)) 1"
    and m: "pin (pin_at ctx n) < 32" and dis: "GPIO_INT_DISABLE F AND GPIO_INT_MASK F = GPIO_INT_DISABLE F"
  shows "\<exists>e ctx'. sid_gpio_utils_irq_configure F ops n (GPIO_INT_DISABLE F) ctx = (e, ctx') \<and> registered ctx' n \<and> e \<le> 0 \<and>
    gpio_irq_handler (pin_at ctx' n) = gpio_irq_handler (pin_at ctx n) \<and> spec_of ctx' n = spec_of ctx n \<and>
    (\<forall>m. m \<noteq> n \<longrightarrow> pin_at ctx' m = pin_at ctx m) \<and> cb_pin_mask (pin_at ctx' n) = 0 \<and>
    (if fst (gpio_remove_callback ops (port (pin_at ctx n)) (pin (pin_at ctx n)) (gpio_hw ctx)) = 0
     then cbs (gpio_hw ctx') = cbs (gpio_hw ctx) - {spec_of ctx n} else e \<noteq> 0 \<and> cbs (gpio_hw ctx') = cbs (gpio_hw ctx)) \<and>
    (e = 0 \<longrightarrow> ints (gpio_hw ctx') (spec_of ctx n) = GPIO_INT_DISABLE F) \<and> (gpio_reliable ops \<longrightarrow> e = 0)"
proof -
  let ?p = "pin_at ctx n"
  obtain e0 h where h: "gpio_remove_callback ops (port ?p) (pin ?p) (gpio_hw ctx) = (e0, h)" by fastforce
  let ?c = "(upd_pin n (\<lambda>q. q\<lparr>cb_pin_mask := 0\<rparr>) ctx)\<lparr>gpio_hw := h\<rparr>"
  have "push_bit (pin ?p) 1 \<noteq> (0 :: u32)" using m by (auto simp: bit_eq_iff bit_simps)
  moreover have "push_bit (pin ?p) 1 AND NOT (push_bit (pin ?p) 1) = (0 :: u32)" by simp
  ultimately have u: "sid_gpio_utils_irq_configure F ops n (GPIO_INT_DISABLE F) ctx =
      (if e0 \<noteq> 0 then (e0, ?c) else irq_configure_tail F ops n (GPIO_INT_DISABLE F) ?c)"
    using n old h unfolding sid_gpio_utils_irq_configure_def check_registered [OF n]
    by (simp add: write_bit_def upd_pin_simps Let_def)
  have r: "registered ?c n" "pin_at ?c n = ?p\<lparr>cb_pin_mask := 0\<rparr>" "\<forall>m. m \<noteq> n \<longrightarrow> pin_at ?c m = pin_at ctx m"
    using n by (simp_all add: upd_pin_simps)
  note d = driver_remove [OF ok h]
  show ?thesis
  proof (cases "e0 = 0")
    case False
    then show ?thesis unfolding u using r d h reliable_calls(2) [OF _ h] by auto
  next
    case True
    obtain e ctx' where t: "irq_configure_tail F ops n (GPIO_INT_DISABLE F) ?c = (e, ctx')" "registered ctx' n" "e \<le> 0"
      "pin_at ctx' n = (pin_at ?c n)\<lparr>configuration_cache :=
        (configuration_cache (pin_at ?c n) AND NOT (GPIO_INT_MASK F)) OR (GPIO_INT_DISABLE F AND GPIO_INT_MASK F)\<rparr>"
      "\<forall>m. m \<noteq> n \<longrightarrow> pin_at ctx' m = pin_at ?c m" "cbs (gpio_hw ctx') = cbs (gpio_hw ?c)"
      "e = 0 \<longrightarrow> ints (gpio_hw ctx') = (ints (gpio_hw ?c))(spec_of ?c n := (GPIO_INT_DISABLE F AND GPIO_INT_MASK F))"
      "gpio_reliable ops \<longrightarrow> e = 0"
      using irq_tail [OF r(1) ok, of F "GPIO_INT_DISABLE F"] by blast
    show ?thesis unfolding u using True t r d h dis by auto
  qed
qed

lemma irq_flag_bits:
  fixes c m x f :: u32
  assumes "x AND m = x" "f AND m = 0"
  shows "((c AND NOT m) OR (x AND m)) AND m = x" "(((c OR f) AND NOT m) OR (x AND m)) AND f = f"
  using assms by (auto simp: bit_simps bit_eq_iff)

lemma trigger_flags:
  assumes "gpio_flags_ok F" "irq_trigger_flags F t = Some fl" "t \<noteq> SID_PAL_GPIO_IRQ_TRIGGER_NONE"
  shows "fl \<noteq> 0" "fl AND GPIO_INT_MASK F = fl" "fl AND GPIO_INT_DISABLE F \<noteq> GPIO_INT_DISABLE F" "fl \<noteq> GPIO_INT_DISABLE F"
  using assms by (cases t; auto simp: gpio_flags_ok_def)+

text \<open>
  C29. The life of an interrupt handler on a pin that had none, whatever the driver's calls
  return. Setting it registers the pin's callback with the driver and nothing else: when the
  call succeeds, the pin is cached as an input, the driver's interrupt configuration of the pin
  is that of the trigger, and an interrupt of the line calls the handler with the pin's number
  and the given argument; when the callback cannot be registered the call fails and the next
  one starts anew. Disabling and enabling hand \<^verbatim>\<open>GPIO_INT_DISABLE\<close> and exactly the trigger's flags to
  the driver and keep the callback. After the trigger \<^verbatim>\<open>NONE\<close> is set an interrupt calls nothing; when
  the call succeeds the callback is removed from the driver and the interrupt is disabled.
  With a driver that never fails every call succeeds and the pin is configured as an input.
\<close>

theorem gpio_irq_life:
  assumes F: "gpio_flags_ok F" and n: "registered ctx n" and ok: "gpio_driver ops cbs ints conf"
    and new: "cb_pin_mask (pin_at ctx n) = 0" "pin (pin_at ctx n) < 32"
    and t: "irq_trigger_flags F t = Some fl" "t \<noteq> SID_PAL_GPIO_IRQ_TRIGGER_NONE"
  shows "\<exists>e1 ctx1. sid_pal_gpio_set_irq F ops n t (Some f) arg ctx = (e1, ctx1) \<and>
    (if fst (gpio_add_callback ops (port (pin_at ctx n)) (pin (pin_at ctx n)) (gpio_hw ctx)) \<noteq> 0
     then e1 \<noteq> SID_ERROR_NONE \<and> cbs (gpio_hw ctx1) = cbs (gpio_hw ctx) \<and> cb_pin_mask (pin_at ctx1 n) = 0
     else cbs (gpio_hw ctx1) = insert (spec_of ctx n) (cbs (gpio_hw ctx)) \<and>
       configuration_cache (pin_at ctx1 n) AND GPIO_INT_MASK F = fl \<and>
       configuration_cache (pin_at ctx1 n) AND GPIO_INPUT F = GPIO_INPUT F \<and>
       gpio_interrupt cbs n ctx1 = [Some (f, n, arg)] \<and>
       (e1 = SID_ERROR_NONE \<longrightarrow> ints (gpio_hw ctx1) (spec_of ctx n) = fl) \<and>
       (\<exists>e2 ctx2. sid_pal_gpio_irq_disable F ops n ctx1 = (e2, ctx2) \<and> gpio_interrupt cbs n ctx2 = [Some (f, n, arg)] \<and>
          (e2 = SID_ERROR_NONE \<longrightarrow> ints (gpio_hw ctx2) (spec_of ctx n) = GPIO_INT_DISABLE F) \<and>
          (\<exists>e3 ctx3. sid_pal_gpio_irq_enable F ops n ctx2 = (e3, ctx3) \<and> gpio_interrupt cbs n ctx3 = [Some (f, n, arg)] \<and>
             (e3 = SID_ERROR_NONE \<longrightarrow> ints (gpio_hw ctx3) (spec_of ctx n) = fl) \<and>
             (\<exists>e4 ctx4. sid_pal_gpio_set_irq F ops n SID_PAL_GPIO_IRQ_TRIGGER_NONE None 0 ctx3 = (e4, ctx4) \<and>
                gpio_interrupt cbs n ctx4 = [] \<and>
                (e4 = SID_ERROR_NONE \<longrightarrow> cbs (gpio_hw ctx4) = cbs (gpio_hw ctx) - {spec_of ctx n} \<and>
                   ints (gpio_hw ctx4) (spec_of ctx n) = GPIO_INT_DISABLE F) \<and>
                (\<forall>m. m \<noteq> n \<longrightarrow> pin_at ctx4 m = pin_at ctx m) \<and>
                (gpio_reliable ops \<longrightarrow> [e1, e2, e3, e4] = replicate 4 SID_ERROR_NONE))))) \<and>
    (gpio_reliable ops \<longrightarrow> conf (gpio_hw ctx1) (spec_of ctx n) AND (GPIO_INPUT F OR GPIO_OUTPUT F) = GPIO_INPUT F)"
proof -
  note fl = trigger_flags [OF F t]
  have un: "n \<noteq> 128" using n by (simp add: registered_def)
  have fi: "GPIO_INPUT F AND GPIO_INT_MASK F = 0" "GPIO_OUTPUT F AND GPIO_INT_MASK F = 0" "GPIO_INPUT F AND GPIO_OUTPUT F = 0"
    "GPIO_INT_DISABLE F AND GPIO_INT_MASK F = GPIO_INT_DISABLE F"
    using F by (simp_all add: gpio_flags_ok_def)
  let ?s = "spec_of ctx n" and ?p = "pin_at ctx n"
  let ?c0 = "upd_pin n (\<lambda>p. p\<lparr>gpio_irq_handler := Some f, handler_arg := arg, worker_ready := True\<rparr>) ctx"
  let ?add = "fst (gpio_add_callback ops (port ?p) (pin ?p) (gpio_hw ctx))"
  let ?in = "(configuration_cache ?p AND NOT (GPIO_INPUT F OR GPIO_OUTPUT F)) OR GPIO_INPUT F"
  have r0: "registered ?c0 n" "cb_pin_mask (pin_at ?c0 n) = 0" "pin (pin_at ?c0 n) < 32" "gpio_hw ?c0 = gpio_hw ctx"
    "spec_of ?c0 n = ?s" "configuration_cache (pin_at ?c0 n) = configuration_cache ?p" "\<forall>m. m \<noteq> n \<longrightarrow> pin_at ?c0 m = pin_at ctx m"
    "pin_at ?c0 n = ?p\<lparr>gpio_irq_handler := Some f, handler_arg := arg, worker_ready := True\<rparr>"
    using n new by (simp_all add: upd_pin_simps)
  obtain x1 ctx1 where 1: "sid_gpio_utils_irq_configure F ops n fl ?c0 = (x1, ctx1)" "registered ctx1 n" "x1 \<le> 0"
    "\<forall>m. m \<noteq> n \<longrightarrow> pin_at ctx1 m = pin_at ?c0 m"
    and a0: "if fst (gpio_add_callback ops (port (pin_at ?c0 n)) (pin (pin_at ?c0 n)) (gpio_hw ?c0)) = 0
     then pin_at ctx1 n = (pin_at ?c0 n)\<lparr>cb_pin_mask := push_bit (pin (pin_at ?c0 n)) 1, configuration_cache :=
      (((configuration_cache (pin_at ?c0 n) AND NOT (GPIO_INPUT F OR GPIO_OUTPUT F)) OR GPIO_INPUT F) AND NOT (GPIO_INT_MASK F)) OR
      (fl AND GPIO_INT_MASK F)\<rparr> \<and>
      cbs (gpio_hw ctx1) = insert (spec_of ?c0 n) (cbs (gpio_hw ?c0)) \<and>
      (x1 = 0 \<longrightarrow> ints (gpio_hw ctx1) (spec_of ?c0 n) = fl AND GPIO_INT_MASK F)
     else x1 \<noteq> 0 \<and> pin_at ctx1 n = pin_at ?c0 n \<and> cbs (gpio_hw ctx1) = cbs (gpio_hw ?c0)"
    and rel0: "gpio_reliable ops \<longrightarrow> x1 = 0 \<and> conf (gpio_hw ctx1) (spec_of ?c0 n) =
      ((configuration_cache (pin_at ?c0 n) AND NOT (GPIO_INPUT F OR GPIO_OUTPUT F)) OR GPIO_INPUT F) AND NOT (GPIO_INT_MASK F)"
    using irq_configure_first [OF r0(1) ok r0(2,3) fl(4,3)] by blast
  have pc: "port (pin_at ?c0 n) = port ?p" "pin (pin_at ?c0 n) = pin ?p" using r0(8) by simp_all
  have others: "\<forall>m. m \<noteq> n \<longrightarrow> pin_at ctx1 m = pin_at ctx m" using 1(4) r0(7) by auto
  have add: "if ?add = 0
      then pin_at ctx1 n = ?p\<lparr>gpio_irq_handler := Some f, handler_arg := arg, worker_ready := True,
          cb_pin_mask := push_bit (pin ?p) 1, configuration_cache := (?in AND NOT (GPIO_INT_MASK F)) OR (fl AND GPIO_INT_MASK F)\<rparr> \<and>
        cbs (gpio_hw ctx1) = insert ?s (cbs (gpio_hw ctx)) \<and> (x1 = 0 \<longrightarrow> ints (gpio_hw ctx1) ?s = fl)
      else x1 \<noteq> 0 \<and> cb_pin_mask (pin_at ctx1 n) = 0 \<and> cbs (gpio_hw ctx1) = cbs (gpio_hw ctx)"
    using a0 unfolding r0(8,4) fl(2) using new(1) by (auto split: if_splits)
  have rel: "gpio_reliable ops \<longrightarrow> x1 = 0 \<and> conf (gpio_hw ctx1) ?s = ?in AND NOT (GPIO_INT_MASK F)"
    using rel0 unfolding r0(8) by simp
  have s1: "sid_pal_gpio_set_irq F ops n t (Some f) arg ctx = (sid_error_get x1, ctx1)"
    using un t 1(1) check_registered [OF n]
    by (simp add: sid_pal_gpio_set_irq_def sid_gpio_utils_irq_handler_set_def gpio_result_def)
  have dir: "(?in AND NOT (GPIO_INT_MASK F)) AND (GPIO_INPUT F OR GPIO_OUTPUT F) = GPIO_INPUT F"
    using fi by (auto simp: bit_simps bit_eq_iff)
  have relc: "gpio_reliable ops \<longrightarrow> conf (gpio_hw ctx1) ?s AND (GPIO_INPUT F OR GPIO_OUTPUT F) = GPIO_INPUT F"
    using rel dir by simp
  show ?thesis
  proof (cases "?add = 0")
    case False
    then show ?thesis using s1 add relc 1(3) by (auto simp: sid_error_get_none)
  next
    case True
    have p1: "pin_at ctx1 n = ?p\<lparr>gpio_irq_handler := Some f, handler_arg := arg, worker_ready := True,
          cb_pin_mask := push_bit (pin ?p) 1, configuration_cache := (?in AND NOT (GPIO_INT_MASK F)) OR (fl AND GPIO_INT_MASK F)\<rparr>"
      and cb1: "cbs (gpio_hw ctx1) = insert ?s (cbs (gpio_hw ctx))" and in1: "x1 = 0 \<longrightarrow> ints (gpio_hw ctx1) ?s = fl"
      using add True by auto
    have c1: "configuration_cache (pin_at ctx1 n) AND GPIO_INT_MASK F = fl"
      "configuration_cache (pin_at ctx1 n) AND GPIO_INPUT F = GPIO_INPUT F"
      unfolding p1 using irq_flag_bits [OF fl(2) fi(1)] by simp_all
    have sp: "spec_of ctx1 n = ?s" "bit (cb_pin_mask (pin_at ctx1 n)) (pin ?p)"
      using new(2) by (simp_all add: p1 bit_simps)
    have run: "gpio_interrupt cbs n (ctx1\<lparr>gpio_hw := h\<rparr>) = [Some (f, n, arg)]" if "cbs h = cbs (gpio_hw ctx1)" for h
      using that sp cb1 p1 unfolding gpio_interrupt_def
      by (simp add: sid_gpio_irq_callback_def sid_gpio_utils_irq_worker_def pin_at_def)
    obtain x2 h2 where h2: "gpio_pin_interrupt_configure ops (port ?p) (pin ?p) (GPIO_INT_DISABLE F) (gpio_hw ctx1) = (x2, h2)"
      by fastforce
    obtain x3 h3 where h3: "gpio_pin_interrupt_configure ops (port ?p) (pin ?p) fl h2 = (x3, h3)" by fastforce
    note d2 = driver_interrupt [OF ok h2] and d3 = driver_interrupt [OF ok h3]
    let ?c2 = "ctx1\<lparr>gpio_hw := h2\<rparr>" and ?c3 = "ctx1\<lparr>gpio_hw := h3\<rparr>"
    have s2: "sid_pal_gpio_irq_disable F ops n ctx1 = (sid_error_get x2, ?c2)"
      using un check_registered [OF 1(2)] h2 p1
      by (simp add: sid_pal_gpio_irq_disable_def sid_gpio_utils_irq_set_def gpio_result_def Let_def)
    have g2: "registered ?c2 n" "pin_at ?c2 n = pin_at ctx1 n" using 1(2) by (simp_all add: upd_pin_simps)
    have s3: "sid_pal_gpio_irq_enable F ops n ?c2 = (sid_error_get x3, ?c3)"
      using un check_registered [OF g2(1)] h3 c1(1) fl(1) sp(1)
      by (simp add: sid_pal_gpio_irq_enable_def sid_gpio_utils_irq_set_def gpio_result_def Let_def g2(2))
    let ?c4 = "upd_pin n (\<lambda>p. p\<lparr>gpio_irq_handler := None, handler_arg := 0, worker_ready := True\<rparr>) ?c3"
    have r4: "registered ?c4 n" "cb_pin_mask (pin_at ?c4 n) = push_bit (pin (pin_at ?c4 n)) 1" "pin (pin_at ?c4 n) < 32"
      "spec_of ?c4 n = ?s" "gpio_irq_handler (pin_at ?c4 n) = None" "gpio_hw ?c4 = h3"
      "\<forall>m. m \<noteq> n \<longrightarrow> pin_at ?c4 m = pin_at ctx m" "registered ?c3 n"
      using 1(2) others p1 new(2) by (simp_all add: upd_pin_simps)
    obtain x4 ctx4 where q: "sid_gpio_utils_irq_configure F ops n (GPIO_INT_DISABLE F) ?c4 = (x4, ctx4)" "x4 \<le> 0"
      "gpio_irq_handler (pin_at ctx4 n) = gpio_irq_handler (pin_at ?c4 n)" "\<forall>m. m \<noteq> n \<longrightarrow> pin_at ctx4 m = pin_at ?c4 m"
      "cb_pin_mask (pin_at ctx4 n) = 0"
      "if fst (gpio_remove_callback ops (port (pin_at ?c4 n)) (pin (pin_at ?c4 n)) (gpio_hw ?c4)) = 0
       then cbs (gpio_hw ctx4) = cbs (gpio_hw ?c4) - {spec_of ?c4 n} else x4 \<noteq> 0 \<and> cbs (gpio_hw ctx4) = cbs (gpio_hw ?c4)"
      "x4 = 0 \<longrightarrow> ints (gpio_hw ctx4) (spec_of ?c4 n) = GPIO_INT_DISABLE F" "gpio_reliable ops \<longrightarrow> x4 = 0"
      using irq_configure_off [OF r4(1) ok r4(2,3) fi(4)] by blast
    note 4 = q(1,2) q(3) [unfolded r4(5)] q(4,5) q(6,7) [unfolded r4(4,6)] q(8)
    have oth4: "\<forall>m. m \<noteq> n \<longrightarrow> pin_at ctx4 m = pin_at ctx m" using q(4) r4(7) by auto
    have s4: "sid_pal_gpio_set_irq F ops n SID_PAL_GPIO_IRQ_TRIGGER_NONE None 0 ?c3 = (sid_error_get x4, ctx4)"
      using un 4(1) check_registered [OF r4(8)]
      by (simp add: sid_pal_gpio_set_irq_def sid_gpio_utils_irq_handler_set_def gpio_result_def)
    have e: "sid_error_get x1 = SID_ERROR_NONE \<longleftrightarrow> x1 = 0" "sid_error_get x2 = SID_ERROR_NONE \<longleftrightarrow> x2 = 0"
      "sid_error_get x3 = SID_ERROR_NONE \<longleftrightarrow> x3 = 0" "sid_error_get x4 = SID_ERROR_NONE \<longleftrightarrow> x4 = 0"
      using 1(3) 4(2) d2 d3 by (simp_all add: sid_error_get_none)
    have off: "gpio_interrupt cbs n ctx4 = []" using 4(5) by (simp add: gpio_interrupt_def)
    have all: "gpio_reliable ops \<longrightarrow> [sid_error_get x1, sid_error_get x2, sid_error_get x3, sid_error_get x4] = replicate 4 SID_ERROR_NONE"
      using rel q(8) reliable_calls(3) [OF _ h2] reliable_calls(3) [OF _ h3]
      by (auto simp: e eval_nat_numeral sid_error_get_def)
    have cb4: "sid_error_get x4 = SID_ERROR_NONE \<longrightarrow> cbs (gpio_hw ctx4) = cbs (gpio_hw ctx) - {?s} \<and>
        ints (gpio_hw ctx4) ?s = GPIO_INT_DISABLE F"
      using 4(6,7) d2 d3 cb1 by (auto simp: e split: if_splits)
    have i2: "sid_error_get x2 = SID_ERROR_NONE \<longrightarrow> ints (gpio_hw ?c2) ?s = GPIO_INT_DISABLE F"
      and i3: "sid_error_get x3 = SID_ERROR_NONE \<longrightarrow> ints (gpio_hw ?c3) ?s = fl"
      using d2 d3 by (simp_all add: e)
    have f1: "sid_error_get x1 = SID_ERROR_NONE \<longrightarrow> ints (gpio_hw ctx1) ?s = fl" using in1 by (simp add: e)
    have rr: "gpio_interrupt cbs n ctx1 = [Some (f, n, arg)]" "gpio_interrupt cbs n ?c2 = [Some (f, n, arg)]"
      "gpio_interrupt cbs n ?c3 = [Some (f, n, arg)]"
      using run [of "gpio_hw ctx1"] run [of h2] run [of h3] d2 d3 by simp_all
    have "\<exists>e4 ctx4. sid_pal_gpio_set_irq F ops n SID_PAL_GPIO_IRQ_TRIGGER_NONE None 0 ?c3 = (e4, ctx4) \<and>
        gpio_interrupt cbs n ctx4 = [] \<and>
        (e4 = SID_ERROR_NONE \<longrightarrow> cbs (gpio_hw ctx4) = cbs (gpio_hw ctx) - {?s} \<and> ints (gpio_hw ctx4) ?s = GPIO_INT_DISABLE F) \<and>
        (\<forall>m. m \<noteq> n \<longrightarrow> pin_at ctx4 m = pin_at ctx m) \<and>
        (gpio_reliable ops \<longrightarrow> [sid_error_get x1, sid_error_get x2, sid_error_get x3, e4] = replicate 4 SID_ERROR_NONE)"
      using s4 off cb4 oth4 all by blast
    with s3 i3 rr(3) have "\<exists>e3 ctx3. sid_pal_gpio_irq_enable F ops n ?c2 = (e3, ctx3) \<and> gpio_interrupt cbs n ctx3 = [Some (f, n, arg)] \<and>
        (e3 = SID_ERROR_NONE \<longrightarrow> ints (gpio_hw ctx3) ?s = fl) \<and>
        (\<exists>e4 ctx4. sid_pal_gpio_set_irq F ops n SID_PAL_GPIO_IRQ_TRIGGER_NONE None 0 ctx3 = (e4, ctx4) \<and>
          gpio_interrupt cbs n ctx4 = [] \<and>
          (e4 = SID_ERROR_NONE \<longrightarrow> cbs (gpio_hw ctx4) = cbs (gpio_hw ctx) - {?s} \<and> ints (gpio_hw ctx4) ?s = GPIO_INT_DISABLE F) \<and>
          (\<forall>m. m \<noteq> n \<longrightarrow> pin_at ctx4 m = pin_at ctx m) \<and>
          (gpio_reliable ops \<longrightarrow> [sid_error_get x1, sid_error_get x2, e3, e4] = replicate 4 SID_ERROR_NONE))"
      by blast
    with s2 i2 rr(2) show ?thesis
      using s1 True cb1 c1 rr(1) f1 relc by (intro exI [of _ "sid_error_get x1"] exI [of _ ctx1]) auto
  qed
qed

section \<open>A concrete board\<close>

definition zephyr_flags :: gpio_flag_values where
  "zephyr_flags = \<lparr>GPIO_INPUT = 0x10000, GPIO_OUTPUT = 0x20000, GPIO_DISCONNECTED = 0, GPIO_OPEN_DRAIN = 0x6, GPIO_PUSH_PULL = 0,
     GPIO_PULL_UP = 0x10, GPIO_PULL_DOWN = 0x20, GPIO_INT_MASK = 0x7E00000, GPIO_INT_DISABLE = 0x200000,
     GPIO_INT_EDGE_RISING = 0x5400000, GPIO_INT_EDGE_FALLING = 0x3400000, GPIO_INT_EDGE_BOTH = 0x7400000,
     GPIO_INT_LEVEL_LOW = 0x2400000, GPIO_INT_LEVEL_HIGH = 0x4400000\<rparr>"

lemma zephyr_flags_ok: "gpio_flags_ok zephyr_flags"
  by (simp add: gpio_flags_ok_def zephyr_flags_def)

text \<open>A board whose driver keeps the callbacks, the interrupt and the pin configuration.\<close>

type_synonym board_hw = "pin_spec set \<times> (pin_spec \<Rightarrow> u32) \<times> (pin_spec \<Rightarrow> u32)"

definition board_ops :: "board_hw gpio_ops" where
  "board_ops = \<lparr>gpio_pin_configure = (\<lambda>p n f (c, i, g). (0, (c, i, g((p, n) := f)))), gpio_pin_get_raw = (\<lambda>p n h. 1),
     gpio_pin_set_raw = (\<lambda>p n v h. (0, h)), gpio_pin_toggle = (\<lambda>p n h. (0, h)),
     gpio_add_callback = (\<lambda>p n (c, i, g). (0, (insert (p, n) c, i, g))),
     gpio_remove_callback = (\<lambda>p n (c, i, g). (0, (c - {(p, n)}, i, g))),
     gpio_pin_interrupt_configure = (\<lambda>p n f (c, i, g). (0, (c, i((p, n) := f), g)))\<rparr>"

lemma board_driver: "gpio_driver board_ops fst (fst \<circ> snd) (snd \<circ> snd)"
  by (simp add: gpio_driver_def board_ops_def)

lemma board_reliable: "gpio_reliable board_ops"
  by (simp add: gpio_reliable_def board_ops_def split_beta)

definition board :: "board_hw gpio_ctx" where
  "board = \<lparr>supported_pins = [\<lparr>port = 1, pin = 5, configuration_cache = 0x10, cb_pin_mask = 0, gpio_irq_handler = None,
     handler_arg = 0, worker_ready = False\<rparr>], gpio_hw = ({}, \<lambda>_. 0, \<lambda>_. 0)\<rparr>"

lemma board_registered: "registered board 0"
  by (simp add: registered_def board_def)

theorem gpio_register_numbers_witness:
  "\<exists>ctx'. sid_gpio_utils_register_gpio zephyr_flags board_ops 2 (Some (1, 6, 0)) board = (1, ctx') \<and> pin (pin_at ctx' 1) = 6 \<and>
     gpio_hw ctx' = gpio_hw board \<and>
     sid_gpio_utils_register_gpio zephyr_flags board_ops 2 (Some (1, 6, 0)) ctx' = (word_of_int (- ENOSPC), ctx')"
proof -
  obtain i ctx' where r: "sid_gpio_utils_register_gpio zephyr_flags board_ops 2 (Some (1, 6, 0)) board = (i, ctx')" by fastforce
  moreover have "i = 1" "length (supported_pins ctx') = 2"
    using r by (auto simp: sid_gpio_utils_register_gpio_def board_def Let_def sid_gpio_utils_gpio_set_flags_def
      CHECK_IF_GPIO_IS_REGISTERED_def)
  ultimately show ?thesis
    using gpio_register_numbers [OF _ _ _ r] by (simp add: gpio_inv_def board_def)
qed

theorem gpio_direction_witness:
  "\<exists>e ctx'. sid_pal_gpio_set_direction zephyr_flags board_ops 0 1 board = (e, ctx') \<and>
     sid_pal_gpio_read zephyr_flags board_ops 0 (Some 9) ctx' = (SID_ERROR_INVALID_ARGS, Some 9)"
proof -
  obtain e ctx' where r: "sid_pal_gpio_set_direction zephyr_flags board_ops 0 1 board = (e, ctx')" by fastforce
  with gpio_direction [OF zephyr_flags_ok board_registered _ r, of 0 9] show ?thesis by simp
qed

theorem gpio_irq_life_witness:
  "\<exists>ctx1. sid_pal_gpio_set_irq zephyr_flags board_ops 0 SID_PAL_GPIO_IRQ_TRIGGER_RISING (Some 4) 7 board = (SID_ERROR_NONE, ctx1) \<and>
     fst (gpio_hw ctx1) = {(1, 5)} \<and> gpio_interrupt fst 0 ctx1 = [Some (4, 0, 7)] \<and>
     fst (snd (gpio_hw ctx1)) (1, 5) = 0x5400000"
proof -
  have "cb_pin_mask (pin_at board 0) = 0" "pin (pin_at board 0) < 32" by (simp_all add: board_def pin_at_def)
  moreover have "irq_trigger_flags zephyr_flags SID_PAL_GPIO_IRQ_TRIGGER_RISING = Some 0x5400000" by (simp add: zephyr_flags_def)
  moreover have "fst (gpio_add_callback board_ops (port (pin_at board 0)) (pin (pin_at board 0)) (gpio_hw board)) = 0"
    by (simp add: board_ops_def split_beta)
  moreover have "spec_of board 0 = (1, 5)" "fst (gpio_hw board) = {}" by (simp_all add: board_def pin_at_def)
  ultimately obtain e1 ctx1 where r: "sid_pal_gpio_set_irq zephyr_flags board_ops 0 SID_PAL_GPIO_IRQ_TRIGGER_RISING (Some 4) 7 board = (e1, ctx1)"
    "fst (gpio_hw ctx1) = {(1, 5)}" "gpio_interrupt fst 0 ctx1 = [Some (4, 0, 7)]"
    "e1 = SID_ERROR_NONE \<longrightarrow> fst (snd (gpio_hw ctx1)) (1, 5) = 0x5400000"
    "e1 = SID_ERROR_NONE"
    using gpio_irq_life [OF zephyr_flags_ok board_registered board_driver, where t = SID_PAL_GPIO_IRQ_TRIGGER_RISING and fl = "0x5400000" and f = 4 and arg = 7] board_reliable
    by (auto simp: eval_nat_numeral)
  then show ?thesis by auto
qed

end
