(* ===== verification/Radio_Env.thy ===== *)
theory Radio_Env
  imports Pal_Timer "HOL-Library.State_Monad"
begin

text \<open>
  The ground the SX126x radio layer stands on (\<^verbatim>\<open>sx126x_config.h\<close>, \<^verbatim>\<open>sx126x_radio.h\<close>,
  \<^verbatim>\<open>sid_pal_radio_ifc.h\<close>): the driver's context, the calls it makes to the platform and to the
  board's callbacks, and the state monad its functions are written in. The platform's answers
  are a parameter: any function of the history of calls. A Hoare triple with its rules carries
  the proofs about the functions.
\<close>

section \<open>Codes\<close>

type_synonym radio_error = int

abbreviation (input) RADIO_ERROR_NONE :: radio_error where "RADIO_ERROR_NONE \<equiv> 0"
abbreviation (input) RADIO_ERROR_NOT_SUPPORTED :: radio_error where "RADIO_ERROR_NOT_SUPPORTED \<equiv> - 1"
abbreviation (input) RADIO_ERROR_INVALID_PARAMS :: radio_error where "RADIO_ERROR_INVALID_PARAMS \<equiv> - 2"
abbreviation (input) RADIO_ERROR_IO_ERROR :: radio_error where "RADIO_ERROR_IO_ERROR \<equiv> - 3"
abbreviation (input) RADIO_ERROR_BUSY :: radio_error where "RADIO_ERROR_BUSY \<equiv> - 4"
abbreviation (input) RADIO_ERROR_NOMEM :: radio_error where "RADIO_ERROR_NOMEM \<equiv> - 5"
abbreviation (input) RADIO_ERROR_HARDWARE_ERROR :: radio_error where "RADIO_ERROR_HARDWARE_ERROR \<equiv> - 6"
abbreviation (input) RADIO_ERROR_INVALID_STATE :: radio_error where "RADIO_ERROR_INVALID_STATE \<equiv> - 7"
abbreviation (input) RADIO_ERROR_GENERIC :: radio_error where "RADIO_ERROR_GENERIC \<equiv> - 8"

text \<open>The driver's status; \<^verbatim>\<open>sx126x_hal_status_t\<close> has the values 0 and 3 and is cast to it.\<close>

type_synonym sx126x_status = int

abbreviation (input) SX126X_STATUS_OK :: sx126x_status where "SX126X_STATUS_OK \<equiv> 0"
abbreviation (input) SX126X_STATUS_UNKNOWN_VALUE :: sx126x_status where "SX126X_STATUS_UNKNOWN_VALUE \<equiv> 2"
abbreviation (input) SX126X_STATUS_ERROR :: sx126x_status where "SX126X_STATUS_ERROR \<equiv> 3"

datatype radio_state_t = RADIO_UNKNOWN | RADIO_STANDBY | RADIO_SLEEP | RADIO_RX | RADIO_TX
  | RADIO_CAD | RADIO_STANDBY_XOSC | RADIO_RX_DC | RADIO_BUSY_STATE

datatype radio_modem_mode = MODEM_MODE_FSK | MODEM_MODE_LORA

datatype radio_event = EVENT_UNKNOWN | EVENT_TX_DONE | EVENT_RX_DONE | EVENT_CAD_DONE
  | EVENT_CAD_TIMEOUT | EVENT_RX_ERROR | EVENT_TX_TIMEOUT | EVENT_RX_TIMEOUT | EVENT_CS_DONE
  | EVENT_CS_TIMEOUT | EVENT_HEADER_ERROR | EVENT_SYNC_DET

datatype cad_exit_mode_t = CAD_EXIT_CS_ONLY | CAD_EXIT_CS_RX | CAD_EXIT_CS_LBT | CAD_EXIT_CS_LBT_RX
  | CAD_EXIT_ED_ONLY | CAD_EXIT_ED_RX | CAD_EXIT_ED_LBT | CAD_EXIT_NONE

datatype tcxo_ctrl_t = TCXO_CTRL_NONE | TCXO_CTRL_VDD | TCXO_CTRL_DIO3

abbreviation (input) HALO_GPIO_NOT_CONNECTED :: "'a::len word" where
  "HALO_GPIO_NOT_CONNECTED \<equiv> 128"

section \<open>The configuration and the driver's context\<close>

record radio_pa_cfg =
  pa_duty_cycle :: u8
  hp_max :: u8
  device_sel :: u8
  pa_lut :: u8
  pa_tx_power :: u8
  ramp_time :: u8
  enable_ext_pa :: bool

record radio_regional_param =
  param_region :: u8
  max_tx_power :: "u8 list"
  cca_level_adjust :: "u8 list"
  ant_dbi :: u16

record radio_state_timings =
  sleep_to_full_power_us :: u32
  full_power_to_sleep_us :: u32
  rx_to_tx_us :: u32
  tx_to_rx_us :: u32
  tcxo_delay_us :: u32
  tx_delay_us :: u16
  rx_delay_us :: u16

text \<open>
  A callback of the configuration is optional or not; what it does is an answer of the
  platform. \<open>internal_buffer\<close> is the buffer's size, \<open>None\<close> for a null pointer.
\<close>

record radio_config =
  cfg_id :: u8
  regulator_mode :: u8
  rx_boost :: bool
  lna_gain :: u8
  has_pa_cfg_cb :: bool
  has_trim_cb :: bool
  has_dio3_cb :: bool
  has_rf_switch_cb :: bool
  gpio_power :: u32
  gpio_int1 :: u32
  gpio_radio_busy :: u32
  gpio_rf_sw_ena :: u32
  gpio_tx_bypass :: u32
  client_selector :: u32
  tcxo_ctrl :: tcxo_ctrl_t
  dio3_to_mcu_pin :: u8
  tcxo_voltage :: u8
  tcxo_timeout :: u32
  state_timings :: radio_state_timings
  internal_buffer :: "nat option"
  cfg_radio_region :: u8
  reg_param_table :: "radio_regional_param list"

record fsk_cad_params_t =
  fsk_ed_rssi_threshold :: u16
  fsk_ed_duration_mus :: u16
  fsk_cs_min_prm_det :: u8
  fsk_cs_duration_us :: u32
  fsk_cs_lbt_rx_timeout :: u32
  fsk_cs_lbt_preamble_len :: u16

record lora_rx_packet_status_t =
  lora_rssi :: u16
  lora_snr :: u8
  lora_signal_rssi :: u8
  is_crc_present :: u8

record fsk_rx_packet_status_t =
  fsk_rssi_avg :: u8
  fsk_rssi_sync :: u8
  fsk_snr :: u8

record radio_rx_packet =
  lora_rx_packet_status :: lora_rx_packet_status_t
  fsk_rx_packet_status :: fsk_rx_packet_status_t
  rcv_tm :: sid_timespec
  rcv_payload :: "u8 list"
  rx_payload_len :: u8

text \<open>The calls that leave the driver.\<close>

datatype gpio_dir = DIRECTION_INPUT | DIRECTION_OUTPUT
datatype gpio_input = INPUT_CONNECT | INPUT_DISCONNECT

datatype io =
    Gpio_set_direction u32 gpio_dir
  | Gpio_write u32 bool
  | Gpio_read u32
  | Gpio_input_mode u32 gpio_input
  | Gpio_pull_none u32
  | Gpio_irq_enable u32
  | Gpio_irq_disable u32
  | Gpio_set_irq_edge u32
  | Bus_create
  | Bus_xfer "u8 list"
  | Delay_us nat
  | Enter_critical
  | Exit_critical
  | Clock_now
  | Pa_cfg_cb u8
  | Trim_cb
  | Dio3_cfg_cb nat
  | Rf_switch_cb bool bool
  | Irq_handler_cb

text \<open>
  The platform: what the last call of a history returns (0 is \<^verbatim>\<open>SID_ERROR_NONE\<close>), the level
  of a pin read, the bytes clocked in by a transfer, the clock, the amplifier's settings and
  the trim value the callbacks fill in, and the contents of a local variable that is never
  initialised. Histories are written newest first.
\<close>

record platform =
  ret_of :: "io list \<Rightarrow> int"
  pin_of :: "io list \<Rightarrow> bool"
  bus_in :: "io list \<Rightarrow> nat \<Rightarrow> u8"
  clock_of :: "io list \<Rightarrow> sid_timespec"
  pa_of :: "io list \<Rightarrow> radio_pa_cfg \<Rightarrow> radio_pa_cfg"
  trim_of :: "io list \<Rightarrow> u16"
  junk_of :: "io list \<Rightarrow> u8"

text \<open>The driver's context \<^verbatim>\<open>drv_ctx\<close>, the received packet it points to, and the history.\<close>

record radio =
  rcfg :: radio_config
  modem :: radio_modem_mode
  radio_rx_packet :: radio_rx_packet
  radio_state :: radio_state_t
  cad_exit_mode :: cad_exit_mode_t
  pa_cfg :: radio_pa_cfg
  irq_mask :: u16
  trim :: u16
  radio_freq_hz :: u32
  fsk_cad_params :: fsk_cad_params_t
  regional_radio_param :: radio_regional_param
  calls :: "io list"

section \<open>The monad of the driver's functions\<close>

type_synonym 'a rm = "(radio, 'a) state"

abbreviation (input) return :: "'a \<Rightarrow> 'a rm" where "return \<equiv> State_Monad.return"

definition gets :: "(radio \<Rightarrow> 'a) \<Rightarrow> 'a rm" where
  "gets f = State (\<lambda>s. (f s, s))"

definition modify :: "(radio \<Rightarrow> radio) \<Rightarrow> unit rm" where
  "modify f = State (\<lambda>s. ((), f s))"

definition cfg :: "(radio_config \<Rightarrow> 'a) \<Rightarrow> 'a rm" where
  "cfg f = gets (f \<circ> rcfg)"

text \<open>A call to the platform joins the history; its answer depends on the history.\<close>

definition emit :: "io \<Rightarrow> unit rm" where
  "emit c = modify (calls_update (Cons c))"

definition call :: "platform \<Rightarrow> io \<Rightarrow> int rm" where
  "call P c = do { _ \<leftarrow> emit c; gets (ret_of P \<circ> calls) }"

text \<open>
  The two shapes of an early exit: \<^verbatim>\<open>if ((err = m) != RADIO_ERROR_NONE) break;\<close>, and
  \<^verbatim>\<open>if (m != OK) { err = e; break; }\<close>.
\<close>

definition chk :: "radio_error rm \<Rightarrow> radio_error rm \<Rightarrow> radio_error rm" where
  "chk m k = do { e \<leftarrow> m; if e \<noteq> RADIO_ERROR_NONE then return e else k }"

definition ok_else :: "int \<Rightarrow> int rm \<Rightarrow> int rm \<Rightarrow> int rm" where
  "ok_else e m k = do { r \<leftarrow> m; if r \<noteq> 0 then return e else k }"

definition only_if :: "bool \<Rightarrow> int rm \<Rightarrow> int rm" where
  "only_if b m = (if b then m else return 0)"

lemma run_monad [simp]:
  "run_state (gets f) s = (f s, s)"
  "run_state (modify g) s = ((), g s)"
  "run_state (cfg h) s = (h (rcfg s), s)"
  "run_state (emit c) s = ((), s\<lparr>calls := c # calls s\<rparr>)"
  "run_state (call P c) s = (ret_of P (c # calls s), s\<lparr>calls := c # calls s\<rparr>)"
  by (simp_all add: gets_def modify_def cfg_def emit_def call_def)

lemma run_chk: "run_state (chk m k) s =
    (case run_state m s of (e, s') \<Rightarrow> if e \<noteq> 0 then (e, s') else run_state k s')"
  by (simp add: chk_def split: prod.split)

lemma run_ok_else: "run_state (ok_else e m k) s =
    (case run_state m s of (r, s') \<Rightarrow> if r \<noteq> 0 then (e, s') else run_state k s')"
  by (simp add: ok_else_def split: prod.split)

lemma run_only_if: "run_state (only_if b m) s = (if b then run_state m s else (0, s))"
  by (simp add: only_if_def)

section \<open>Hoare triples\<close>

text \<open>
  \<open>spec P m Q\<close>: from a state with \<open>P\<close>, \<open>m\<close> ends with a result and a state related by \<open>Q\<close>. All
  functions of the driver are total, so this is total correctness.
\<close>

definition spec :: "(radio \<Rightarrow> bool) \<Rightarrow> 'a rm \<Rightarrow> ('a \<Rightarrow> radio \<Rightarrow> bool) \<Rightarrow> bool" where
  "spec P m Q \<longleftrightarrow> (\<forall>s r s'. P s \<longrightarrow> run_state m s = (r, s') \<longrightarrow> Q r s')"

named_theorems spec_rules

lemma specI: "(\<And>s r s'. P s \<Longrightarrow> run_state m s = (r, s') \<Longrightarrow> Q r s') \<Longrightarrow> spec P m Q"
  by (simp add: spec_def)

lemma specD: "spec P m Q \<Longrightarrow> P s \<Longrightarrow> run_state m s = (r, s') \<Longrightarrow> Q r s'"
  by (simp add: spec_def)

lemma spec_conseq:
  "spec P' m Q' \<Longrightarrow> (\<And>s. P s \<Longrightarrow> P' s) \<Longrightarrow> (\<And>r s. Q' r s \<Longrightarrow> Q r s) \<Longrightarrow> spec P m Q"
  by (fastforce simp: spec_def)

lemma spec_return [spec_rules]: "spec (Q r) (return r) Q"
  by (simp add: spec_def)

lemma spec_gets [spec_rules]: "spec (\<lambda>s. Q (f s) s) (gets f) Q"
  by (simp add: spec_def)

lemma spec_bind: "spec P m R \<Longrightarrow> (\<And>x. spec (R x) (k x) Q) \<Longrightarrow> spec P (State_Monad.bind m k) Q"
  by (fastforce simp: spec_def split: prod.splits)

lemma spec_chk:
  "spec P m (\<lambda>e s. if e \<noteq> 0 then Q e s else R s) \<Longrightarrow> spec R k Q \<Longrightarrow> spec P (chk m k) Q"
  by (fastforce simp: spec_def run_chk split: prod.splits if_splits)

lemma spec_ok_else:
  "spec P m (\<lambda>r s. if r \<noteq> 0 then Q e s else R s) \<Longrightarrow> spec R k Q \<Longrightarrow> spec P (ok_else e m k) Q"
  by (fastforce simp: spec_def run_ok_else split: prod.splits if_splits)

text \<open>An invariant of the state is kept by a function.\<close>

definition keeps :: "(radio \<Rightarrow> bool) \<Rightarrow> 'a rm \<Rightarrow> bool" where
  "keeps I m \<longleftrightarrow> (\<forall>s. I s \<longrightarrow> I (snd (run_state m s)))"

named_theorems keeps_intros

lemma keepsD: "keeps I m \<Longrightarrow> I s \<Longrightarrow> run_state m s = (r, s') \<Longrightarrow> I s'"
  by (metis keeps_def snd_conv)

lemma keeps_return [keeps_intros]: "keeps I (return r)"
  and keeps_gets [keeps_intros]: "keeps I (gets f)"
  and keeps_cfg [keeps_intros]: "keeps I (cfg h)"
  by (simp_all add: keeps_def)

lemma keeps_bind [keeps_intros]:
  "keeps I m \<Longrightarrow> (\<And>x. keeps I (k x)) \<Longrightarrow> keeps I (State_Monad.bind m k)"
  by (fastforce simp: keeps_def split: prod.split)

lemma keeps_chk [keeps_intros]: "keeps I m \<Longrightarrow> keeps I k \<Longrightarrow> keeps I (chk m k)"
  by (fastforce simp: keeps_def run_chk split: prod.split)

lemma keeps_ok_else [keeps_intros]: "keeps I m \<Longrightarrow> keeps I k \<Longrightarrow> keeps I (ok_else e m k)"
  by (fastforce simp: keeps_def run_ok_else split: prod.split)

lemma keeps_if [keeps_intros]: "(b \<Longrightarrow> keeps I m) \<Longrightarrow> (\<not> b \<Longrightarrow> keeps I k) \<Longrightarrow> keeps I (if b then m else k)"
  by simp

lemma keeps_only_if [keeps_intros]: "(b \<Longrightarrow> keeps I m) \<Longrightarrow> keeps I (only_if b m)"
  by (simp add: keeps_def only_if_def)

end
