(* ===== verification/Sx126x_Hal.thy ===== *)
theory Sx126x_Hal
  imports Radio_Env
begin

text \<open>
  The hardware abstraction under the SX126x driver, \<^verbatim>\<open>sx126x_hal.c\<close>, with the functions of
  \<^verbatim>\<open>sx126x_radio.c\<close> it calls: waiting for the busy line, a transfer on the serial bus, the
  position of the antenna switch, waking the chip up.
\<close>

section \<open>Busy line, bus and antenna switch\<close>

definition sx126x_check_status :: "platform \<Rightarrow> radio_error rm" where
  "sx126x_check_status P = do {
     pin \<leftarrow> cfg gpio_radio_busy;
     ok_else RADIO_ERROR_HARDWARE_ERROR (call P (Gpio_read pin)) (do {
       is_radio_busy \<leftarrow> gets (pin_of P \<circ> calls);
       return (if is_radio_busy then RADIO_ERROR_BUSY else RADIO_ERROR_NONE) }) }"

abbreviation (input) SEMTECH_STDBY_STATE_DELAY_US :: nat where "SEMTECH_STDBY_STATE_DELAY_US \<equiv> 10"
abbreviation (input) SEMTECH_MAX_WAIT_ON_BUSY_CNT_US :: int where "SEMTECH_MAX_WAIT_ON_BUSY_CNT_US \<equiv> 2000"

text \<open>The loop of \<^verbatim>\<open>sx126x_wait_on_busy\<close>: it ends with the value of the counter \<^verbatim>\<open>cnt\<close>.\<close>

function busy_poll :: "platform \<Rightarrow> int \<Rightarrow> radio \<Rightarrow> int \<times> radio" where
  "busy_poll P cnt s =
     (if cnt < SEMTECH_MAX_WAIT_ON_BUSY_CNT_US
      then case run_state (sx126x_check_status P) s of (r, s') \<Rightarrow>
        if r = RADIO_ERROR_NONE then (cnt + 1, s')
        else busy_poll P (cnt + 1) (s'\<lparr>calls := Delay_us SEMTECH_STDBY_STATE_DELAY_US # calls s'\<rparr>)
      else (cnt + 1, s))"
  by pat_completeness auto
termination
  by (relation "measure (\<lambda>(P, cnt, s). nat (2000 - cnt))") auto

declare busy_poll.simps [simp del]

definition sx126x_wait_on_busy :: "platform \<Rightarrow> radio_error rm" where
  "sx126x_wait_on_busy P = do {
     cnt \<leftarrow> State (busy_poll P 0);
     return (if cnt \<ge> SEMTECH_MAX_WAIT_ON_BUSY_CNT_US then RADIO_ERROR_HARDWARE_ERROR
             else RADIO_ERROR_NONE) }"

text \<open>
  A transfer sends the command and the contents of the data buffer. A read gives back the bytes
  clocked in after the command; the result is the code and the data buffer afterwards.
\<close>

definition sx126x_radio_bus_xfer ::
  "platform \<Rightarrow> u8 list \<Rightarrow> u8 list \<Rightarrow> bool \<Rightarrow> (radio_error \<times> u8 list) rm" where
  "sx126x_radio_bus_xfer P cmd_buffer buffer rd = do {
     ib \<leftarrow> cfg internal_buffer;
     case ib of
       None \<Rightarrow> return (RADIO_ERROR_INVALID_PARAMS, buffer)
     | Some n \<Rightarrow>
         if n < length buffer + length cmd_buffer then return (RADIO_ERROR_NOMEM, buffer)
         else do {
           r \<leftarrow> call P (Bus_xfer (cmd_buffer @ buffer));
           if r \<noteq> SID_ERROR_NONE then return (RADIO_ERROR_IO_ERROR, buffer)
           else do {
             rx \<leftarrow> gets (bus_in P \<circ> calls);
             return (RADIO_ERROR_NONE,
               if rd then map (\<lambda>i. rx (length cmd_buffer + i)) [0..<length buffer] else buffer) } } }"

definition radio_sx126x_set_radio_mode :: "platform \<Rightarrow> bool \<Rightarrow> bool \<Rightarrow> radio_error rm" where
  "radio_sx126x_set_radio_mode P rf_en tx_en =
     (if \<not> rf_en \<and> tx_en then return RADIO_ERROR_INVALID_PARAMS
      else do {
        sw \<leftarrow> cfg gpio_rf_sw_ena;
        byp \<leftarrow> cfg gpio_tx_bypass;
        ext \<leftarrow> gets (enable_ext_pa \<circ> pa_cfg);
        cb \<leftarrow> cfg has_rf_switch_cb;
        ok_else RADIO_ERROR_IO_ERROR
          (only_if (sw \<noteq> HALO_GPIO_NOT_CONNECTED) (call P (Gpio_write sw rf_en)))
        (ok_else RADIO_ERROR_IO_ERROR
          (only_if (byp \<noteq> HALO_GPIO_NOT_CONNECTED)
            (call P (Gpio_write byp (if tx_en then ext else tx_en))))
        (ok_else RADIO_ERROR_IO_ERROR
          (only_if cb (call P (Rf_switch_cb rf_en tx_en)))
        (return RADIO_ERROR_NONE))) })"

section \<open>Waking the chip\<close>

definition set_gpio_power :: "platform \<Rightarrow> gpio_dir \<Rightarrow> radio_error rm" where
  "set_gpio_power P dir = do {
     pin \<leftarrow> cfg gpio_power;
     ok_else RADIO_ERROR_HARDWARE_ERROR (call P (Gpio_set_direction pin dir)) (return RADIO_ERROR_NONE) }"

definition set_gpio_config :: "platform \<Rightarrow> gpio_input \<Rightarrow> radio_error rm" where
  "set_gpio_config P mode = do {
     int1 \<leftarrow> cfg gpio_int1;
     busy \<leftarrow> cfg gpio_radio_busy;
     ok_else RADIO_ERROR_HARDWARE_ERROR (call P (Gpio_input_mode int1 mode))
     (ok_else RADIO_ERROR_HARDWARE_ERROR (call P (Gpio_input_mode busy mode))
     (return RADIO_ERROR_NONE)) }"

definition set_radio_int :: "platform \<Rightarrow> bool \<Rightarrow> radio_error rm" where
  "set_radio_int P int_enable = do {
     int1 \<leftarrow> cfg gpio_int1;
     _ \<leftarrow> call P (if int_enable then Gpio_irq_enable int1 else Gpio_irq_disable int1);
     return RADIO_ERROR_NONE }"

definition set_gpio_cfg_awake :: "platform \<Rightarrow> radio_error rm" where
  "set_gpio_cfg_awake P = do {
     _ \<leftarrow> set_gpio_power P DIRECTION_INPUT;
     _ \<leftarrow> set_gpio_config P INPUT_CONNECT;
     set_radio_int P True }"

definition set_gpio_cfg_sleep :: "platform \<Rightarrow> radio_error rm" where
  "set_gpio_cfg_sleep P = do {
     _ \<leftarrow> set_radio_int P False;
     _ \<leftarrow> set_gpio_config P INPUT_DISCONNECT;
     set_gpio_power P DIRECTION_INPUT }"

definition sx126x_hal_reset :: "platform \<Rightarrow> sx126x_status rm" where
  "sx126x_hal_reset P = do {
     pin \<leftarrow> cfg gpio_power;
     _ \<leftarrow> emit (Delay_us 10000);
     ok_else SX126X_STATUS_ERROR (call P (Gpio_set_direction pin DIRECTION_OUTPUT))
     (ok_else SX126X_STATUS_ERROR (call P (Gpio_write pin False)) (do {
       _ \<leftarrow> emit (Delay_us 20000);
       ok_else SX126X_STATUS_ERROR (call P (Gpio_pull_none pin)) (do {
         _ \<leftarrow> emit (Delay_us 10000);
         return SX126X_STATUS_OK }) })) }"

definition sx126x_hal_wakeup :: "platform \<Rightarrow> sx126x_status rm" where
  "sx126x_hal_wakeup P = do {
     nss \<leftarrow> cfg client_selector;
     _ \<leftarrow> emit Enter_critical;
     _ \<leftarrow> set_gpio_cfg_awake P;
     ok_else SX126X_STATUS_ERROR (call P (Gpio_set_direction nss DIRECTION_OUTPUT))
     (ok_else SX126X_STATUS_ERROR (call P (Gpio_write nss False))
     (ok_else SX126X_STATUS_ERROR (sx126x_wait_on_busy P)
     (ok_else SX126X_STATUS_ERROR (call P (Gpio_write nss True)) (do {
       _ \<leftarrow> emit Exit_critical;
       return SX126X_STATUS_OK })))) }"

section \<open>Reading and writing\<close>

text \<open>A chip that sleeps, also between two windows of the duty cycle, is woken up first.\<close>

definition sx126x_wait_for_device_ready :: "platform \<Rightarrow> radio_error rm" where
  "sx126x_wait_for_device_ready P = do {
     st \<leftarrow> gets radio_state;
     if st = RADIO_SLEEP \<or> st = RADIO_RX_DC then do {
       _ \<leftarrow> sx126x_hal_wakeup P;
       chk (radio_sx126x_set_radio_mode P True True) (sx126x_wait_on_busy P) }
     else return RADIO_ERROR_NONE }"

definition sx126x_hal_rdwr ::
  "platform \<Rightarrow> u8 list \<Rightarrow> u8 list \<Rightarrow> bool \<Rightarrow> (radio_error \<times> u8 list) rm" where
  "sx126x_hal_rdwr P command data rd = do {
     err \<leftarrow> sx126x_wait_on_busy P;
     if err \<noteq> RADIO_ERROR_NONE then return (err, data)
     else sx126x_radio_bus_xfer P command data rd }"

definition sx126x_hal_read ::
  "platform \<Rightarrow> u8 list \<Rightarrow> u8 list \<Rightarrow> (sx126x_status \<times> u8 list) rm" where
  "sx126x_hal_read P command data =
     (if command = [] \<or> data = [] then return (SX126X_STATUS_ERROR, data)
      else do {
        r \<leftarrow> sx126x_wait_for_device_ready P;
        if r \<noteq> RADIO_ERROR_NONE then return (SX126X_STATUS_ERROR, data)
        else do {
          (e, data') \<leftarrow> sx126x_hal_rdwr P command data True;
          return (if e \<noteq> RADIO_ERROR_NONE then SX126X_STATUS_ERROR else SX126X_STATUS_OK, data') } })"

definition sx126x_hal_write :: "platform \<Rightarrow> u8 list \<Rightarrow> u8 list \<Rightarrow> sx126x_status rm" where
  "sx126x_hal_write P command data =
     (if command = [] then return SX126X_STATUS_ERROR
      else do {
        r \<leftarrow> sx126x_wait_for_device_ready P;
        if r \<noteq> RADIO_ERROR_NONE then return SX126X_STATUS_ERROR
        else do {
          (e, _) \<leftarrow> sx126x_hal_rdwr P command data False;
          return (if e \<noteq> RADIO_ERROR_NONE then SX126X_STATUS_ERROR else SX126X_STATUS_OK) } })"

end
