(* ===== verification/Sx126x_Driver.thy ===== *)
theory Sx126x_Driver
  imports Sx126x_Hal
begin

text \<open>
  The chip's commands, \<^verbatim>\<open>semtech/sx126x.c\<close>: each function builds a command's bytes and sends
  them, or reads an answer and decodes it. A function that fills a structure gives \<open>None\<close> where
  the C function returns an error and leaves the structure as it is.
\<close>

section \<open>Bytes\<close>

definition be_u16 :: "u16 \<Rightarrow> u8 list" where
  "be_u16 w = [ucast (drop_bit 8 w), ucast w]"

definition be_u24 :: "u32 \<Rightarrow> u8 list" where
  "be_u24 w = [ucast (drop_bit 16 w), ucast (drop_bit 8 w), ucast w]"

definition be_u32 :: "u32 \<Rightarrow> u8 list" where
  "be_u32 w = [ucast (drop_bit 24 w), ucast (drop_bit 16 w), ucast (drop_bit 8 w), ucast w]"

definition u16_of_be :: "u8 \<Rightarrow> u8 \<Rightarrow> u16" where
  "u16_of_be hi lo = push_bit 8 (ucast hi) + ucast lo"

text \<open>\<^verbatim>\<open>(int8_t)( -b >> 1 )\<close>: the shift of a negative number rounds down.\<close>

definition half_neg :: "u8 \<Rightarrow> int" where
  "half_neg b = (- int (unat b)) div 2"

section \<open>Mode commands\<close>

definition sx126x_set_sleep :: "platform \<Rightarrow> u8 \<Rightarrow> sx126x_status rm" where
  "sx126x_set_sleep P c = sx126x_hal_write P [0x84, c] []"

definition sx126x_set_standby :: "platform \<Rightarrow> u8 \<Rightarrow> sx126x_status rm" where
  "sx126x_set_standby P c = sx126x_hal_write P [0x80, c] []"

definition sx126x_set_fs :: "platform \<Rightarrow> sx126x_status rm" where
  "sx126x_set_fs P = sx126x_hal_write P [0xC1] []"

definition sx126x_set_tx :: "platform \<Rightarrow> u32 \<Rightarrow> sx126x_status rm" where
  "sx126x_set_tx P timeout = sx126x_hal_write P (0x83 # be_u24 timeout) []"

definition sx126x_set_rx :: "platform \<Rightarrow> u32 \<Rightarrow> sx126x_status rm" where
  "sx126x_set_rx P timeout = sx126x_hal_write P (0x82 # be_u24 timeout) []"

definition sx126x_stop_tmr_on_pbl :: "platform \<Rightarrow> bool \<Rightarrow> sx126x_status rm" where
  "sx126x_stop_tmr_on_pbl P enable = sx126x_hal_write P [0x9F, if enable then 1 else 0] []"

definition sx126x_set_rx_duty_cycle :: "platform \<Rightarrow> u32 \<Rightarrow> u32 \<Rightarrow> sx126x_status rm" where
  "sx126x_set_rx_duty_cycle P rx_time sleep_time =
     sx126x_hal_write P (0x94 # be_u24 rx_time @ be_u24 sleep_time) []"

definition sx126x_set_cad :: "platform \<Rightarrow> sx126x_status rm" where
  "sx126x_set_cad P = sx126x_hal_write P [0xC5] []"

definition sx126x_set_tx_cw :: "platform \<Rightarrow> sx126x_status rm" where
  "sx126x_set_tx_cw P = sx126x_hal_write P [0xD1] []"

definition sx126x_set_tx_cpbl :: "platform \<Rightarrow> sx126x_status rm" where
  "sx126x_set_tx_cpbl P = sx126x_hal_write P [0xD2] []"

definition sx126x_set_reg_mode :: "platform \<Rightarrow> u8 \<Rightarrow> sx126x_status rm" where
  "sx126x_set_reg_mode P mode = sx126x_hal_write P [0x96, mode] []"

definition sx126x_cal :: "platform \<Rightarrow> u8 \<Rightarrow> sx126x_status rm" where
  "sx126x_cal P param = sx126x_hal_write P [0x89, param] []"

definition sx126x_cal_img :: "platform \<Rightarrow> u32 \<Rightarrow> sx126x_status rm" where
  "sx126x_cal_img P freq_in_hz =
     sx126x_hal_write P (0x98 # (
       if freq_in_hz > 900000000 then [0xE1, 0xE9]
       else if freq_in_hz > 850000000 then [0xD7, 0xDB]
       else if freq_in_hz > 770000000 then [0xC1, 0xC5]
       else if freq_in_hz > 460000000 then [0x75, 0x81]
       else [0x6B, 0x6F])) []"

definition sx126x_set_pa_cfg :: "platform \<Rightarrow> radio_pa_cfg \<Rightarrow> sx126x_status rm" where
  "sx126x_set_pa_cfg P params =
     sx126x_hal_write P [0x95, pa_duty_cycle params, hp_max params, device_sel params, pa_lut params] []"

definition sx126x_set_rx_tx_fallback_mode :: "platform \<Rightarrow> u8 \<Rightarrow> sx126x_status rm" where
  "sx126x_set_rx_tx_fallback_mode P mode = sx126x_hal_write P [0x93, mode] []"

section \<open>Registers and buffer\<close>

definition sx126x_write_register :: "platform \<Rightarrow> u16 \<Rightarrow> u8 list \<Rightarrow> sx126x_status rm" where
  "sx126x_write_register P addr buffer = sx126x_hal_write P (0x0D # be_u16 addr) buffer"

definition sx126x_read_register ::
  "platform \<Rightarrow> u16 \<Rightarrow> u8 list \<Rightarrow> (sx126x_status \<times> u8 list) rm" where
  "sx126x_read_register P addr buffer = sx126x_hal_read P (0x1D # be_u16 addr @ [0]) buffer"

definition sx126x_write_buffer :: "platform \<Rightarrow> u8 \<Rightarrow> u8 list \<Rightarrow> sx126x_status rm" where
  "sx126x_write_buffer P offset buffer = sx126x_hal_write P [0x0E, offset] buffer"

definition sx126x_read_buffer ::
  "platform \<Rightarrow> u8 \<Rightarrow> u8 list \<Rightarrow> (sx126x_status \<times> u8 list) rm" where
  "sx126x_read_buffer P offset buffer = sx126x_hal_read P [0x1E, offset, 0] buffer"

definition sx126x_set_xtal_trim :: "platform \<Rightarrow> u8 \<Rightarrow> u8 \<Rightarrow> sx126x_status rm" where
  "sx126x_set_xtal_trim P xta xtb = sx126x_write_register P 0x0911 [xta, xtb]"

text \<open>Read one byte of a register into a variable with the given contents, change it, write it.\<close>

definition update_register ::
  "platform \<Rightarrow> u16 \<Rightarrow> u8 \<Rightarrow> (u8 \<Rightarrow> u8) \<Rightarrow> sx126x_status rm" where
  "update_register P addr reg_value f = do {
     (status, buf) \<leftarrow> sx126x_read_register P addr [reg_value];
     if status = SX126X_STATUS_OK then sx126x_write_register P addr [f (hd buf)]
     else return status }"

section \<open>Interrupts and pins of the chip\<close>

definition sx126x_set_dio_irq_params ::
  "platform \<Rightarrow> u16 \<Rightarrow> u16 \<Rightarrow> u16 \<Rightarrow> u16 \<Rightarrow> sx126x_status rm" where
  "sx126x_set_dio_irq_params P irqs dio1 dio2 dio3 =
     sx126x_hal_write P (0x08 # be_u16 irqs @ be_u16 dio1 @ be_u16 dio2 @ be_u16 dio3) []"

definition sx126x_get_irq_status :: "platform \<Rightarrow> u16 option rm" where
  "sx126x_get_irq_status P = do {
     (status, l) \<leftarrow> sx126x_hal_read P [0x12, 0] [0, 0];
     return (if status = SX126X_STATUS_OK then Some (u16_of_be (l ! 0) (l ! 1)) else None) }"

definition sx126x_clear_irq_status :: "platform \<Rightarrow> u16 \<Rightarrow> sx126x_status rm" where
  "sx126x_clear_irq_status P irqs = sx126x_hal_write P (0x02 # be_u16 irqs) []"

definition sx126x_get_and_clear_irq_status :: "platform \<Rightarrow> u16 option rm" where
  "sx126x_get_and_clear_irq_status P = do {
     irq \<leftarrow> sx126x_get_irq_status P;
     case irq of
       None \<Rightarrow> return None
     | Some irqs \<Rightarrow> do {
         status \<leftarrow> (if irqs \<noteq> 0 then sx126x_clear_irq_status P irqs else return SX126X_STATUS_OK);
         return (if status = SX126X_STATUS_OK then Some irqs else None) } }"

definition sx126x_set_dio2_as_rf_sw_ctrl :: "platform \<Rightarrow> bool \<Rightarrow> sx126x_status rm" where
  "sx126x_set_dio2_as_rf_sw_ctrl P enable = sx126x_hal_write P [0x9D, if enable then 1 else 0] []"

definition sx126x_set_dio3_as_tcxo_ctrl :: "platform \<Rightarrow> u8 \<Rightarrow> u32 \<Rightarrow> sx126x_status rm" where
  "sx126x_set_dio3_as_tcxo_ctrl P voltage timeout =
     sx126x_hal_write P (0x97 # voltage # be_u24 timeout) []"

section \<open>Modulation and packets\<close>

text \<open>\<^verbatim>\<open>SX126X_FREQ_IN_HZ_TO_PLL_STEP\<close>, in 32-bit arithmetic.\<close>

abbreviation (input) SX126X_PLL_STEP_RSH14 :: u32 where "SX126X_PLL_STEP_RSH14 \<equiv> 15625"

definition freq_to_pll_step :: "u32 \<Rightarrow> u32" where
  "freq_to_pll_step freq =
     (let steps_int = freq div SX126X_PLL_STEP_RSH14;
          steps_frac = freq - steps_int * SX126X_PLL_STEP_RSH14
      in push_bit 14 steps_int +
         (push_bit 14 steps_frac + drop_bit 1 SX126X_PLL_STEP_RSH14) div SX126X_PLL_STEP_RSH14)"

definition sx126x_set_rf_freq :: "platform \<Rightarrow> u32 \<Rightarrow> sx126x_status rm" where
  "sx126x_set_rf_freq P freq_in_hz = sx126x_hal_write P (0x86 # be_u32 (freq_to_pll_step freq_in_hz)) []"

definition sx126x_set_pkt_type :: "platform \<Rightarrow> u8 \<Rightarrow> sx126x_status rm" where
  "sx126x_set_pkt_type P pkt_type = sx126x_hal_write P [0x8A, pkt_type] []"

definition sx126x_get_pkt_type :: "platform \<Rightarrow> u8 \<Rightarrow> (sx126x_status \<times> u8 list) rm" where
  "sx126x_get_pkt_type P pkt_type = sx126x_hal_read P [0x11, 0, 0] [pkt_type]"

definition sx126x_set_tx_params :: "platform \<Rightarrow> u8 \<Rightarrow> u8 \<Rightarrow> sx126x_status rm" where
  "sx126x_set_tx_params P pwr_in_dbm ramp = sx126x_hal_write P [0x8E, pwr_in_dbm, ramp] []"

record mod_params_gfsk =
  br_in_bps :: u32
  fdev_in_hz :: u32
  gfsk_mod_shape :: u8
  bw_dsb_param :: u8

record mod_params_lora =
  lora_sf :: u8
  lora_bw :: u8
  lora_cr :: u8
  ldro :: u8

record pkt_params_gfsk =
  pbl_len_in_bits :: u16
  pbl_min_det :: u8
  sync_word_len_in_bits :: u8
  addr_cmp :: u8
  gfsk_hdr_type :: u8
  gfsk_pld_len_in_bytes :: u8
  gfsk_crc_type :: u8
  dc_free :: u8

record pkt_params_lora =
  pbl_len_in_symb :: u16
  lora_hdr_type :: u8
  lora_pld_len_in_bytes :: u8
  crc_is_on :: bool
  invert_iq_is_on :: bool

text \<open>
  The data sheet's workaround of chapter 15.1: bit 2 of the modulation register is cleared for
  a LoRa bandwidth of 500 kHz and set for every other modulation.
\<close>

definition sx126x_tx_modulation_workaround :: "platform \<Rightarrow> u8 \<Rightarrow> u8 \<Rightarrow> sx126x_status rm" where
  "sx126x_tx_modulation_workaround P pkt_type bw =
     update_register P 0x0889 0
       (if pkt_type = 1 \<and> bw = 6 then (\<lambda>r. r AND NOT 4) else (\<lambda>r. r OR 4))"

definition sx126x_set_gfsk_mod_params :: "platform \<Rightarrow> mod_params_gfsk \<Rightarrow> sx126x_status rm" where
  "sx126x_set_gfsk_mod_params P params =
     (let bitrate = 32 * 32000000 div br_in_bps params
      in chk (sx126x_hal_write P (0x8B # be_u24 bitrate @ gfsk_mod_shape params # bw_dsb_param params #
                be_u24 (freq_to_pll_step (fdev_in_hz params))) [])
           (sx126x_tx_modulation_workaround P 0 0))"

definition sx126x_set_lora_mod_params :: "platform \<Rightarrow> mod_params_lora \<Rightarrow> sx126x_status rm" where
  "sx126x_set_lora_mod_params P params =
     chk (sx126x_hal_write P
           [0x8B, lora_sf params, lora_bw params, lora_cr params, ldro params AND 1] [])
       (sx126x_tx_modulation_workaround P 1 (lora_bw params))"

definition sx126x_set_gfsk_pkt_params :: "platform \<Rightarrow> pkt_params_gfsk \<Rightarrow> sx126x_status rm" where
  "sx126x_set_gfsk_pkt_params P params =
     sx126x_hal_write P (0x8C # be_u16 (pbl_len_in_bits params) @
       [pbl_min_det params, sync_word_len_in_bits params, addr_cmp params, gfsk_hdr_type params,
        gfsk_pld_len_in_bytes params, gfsk_crc_type params, dc_free params]) []"

text \<open>The workaround of chapter 15.4: bit 2 of the polarity register for the inverted IQ.\<close>

definition iq_polarity :: "bool \<Rightarrow> u8 \<Rightarrow> u8" where
  "iq_polarity inverted r = (if inverted then r AND NOT 4 else r OR 4)"

definition sx126x_set_lora_pkt_params :: "platform \<Rightarrow> pkt_params_lora \<Rightarrow> sx126x_status rm" where
  "sx126x_set_lora_pkt_params P params =
     chk (sx126x_hal_write P (0x8C # be_u16 (pbl_len_in_symb params) @
           [lora_hdr_type params, lora_pld_len_in_bytes params,
            if crc_is_on params then 1 else 0, if invert_iq_is_on params then 1 else 0]) [])
       (update_register P 0x0736 0 (iq_polarity (invert_iq_is_on params)))"

record lora_cad_params =
  cad_symb_nb :: u8
  cad_det_peak :: u8
  cad_det_min :: u8
  lora_cad_exit_mode :: u8
  cad_timeout :: u32

definition sx126x_set_cad_params :: "platform \<Rightarrow> lora_cad_params \<Rightarrow> sx126x_status rm" where
  "sx126x_set_cad_params P params =
     sx126x_hal_write P (0x88 # cad_symb_nb params # cad_det_peak params # cad_det_min params #
       lora_cad_exit_mode params # be_u24 (cad_timeout params)) []"

definition sx126x_set_buffer_base_addr :: "platform \<Rightarrow> u8 \<Rightarrow> u8 \<Rightarrow> sx126x_status rm" where
  "sx126x_set_buffer_base_addr P tx_base rx_base = sx126x_hal_write P [0x8F, tx_base, rx_base] []"

text \<open>The mantissa and exponent of a symbol timeout of 64 and more.\<close>

function symb_mant_exp :: "u8 \<Rightarrow> u8 \<Rightarrow> u8 \<times> u8" where
  "symb_mant_exp mant ex = (if mant > 31 then symb_mant_exp (drop_bit 2 mant) (ex + 1) else (mant, ex))"
  by pat_completeness auto
termination
  by (relation "measure (\<lambda>(mant, ex). unat mant)")
    (auto simp: unsigned_drop_bit_eq drop_bit_eq_div word_less_nat_alt unat_div)

declare symb_mant_exp.simps [simp del]

definition sx126x_set_lora_symb_nb_timeout :: "platform \<Rightarrow> u8 \<Rightarrow> sx126x_status rm" where
  "sx126x_set_lora_symb_nb_timeout P nb_of_symbs =
     chk (sx126x_hal_write P [0xA0, nb_of_symbs] [])
       (if nb_of_symbs \<ge> 64
        then (let (mant, ex) = symb_mant_exp (drop_bit 1 nb_of_symbs) 0
              in sx126x_write_register P 0x0706 [ex + push_bit 3 mant])
        else return SX126X_STATUS_OK)"

section \<open>Status\<close>

text \<open>A read of a fixed number of bytes into a zeroed buffer, decoded when it succeeds.\<close>

definition read_decode :: "platform \<Rightarrow> u8 list \<Rightarrow> nat \<Rightarrow> (u8 list \<Rightarrow> 'a) \<Rightarrow> 'a option rm" where
  "read_decode P command n f = do {
     (status, l) \<leftarrow> sx126x_hal_read P command (replicate n 0);
     return (if status = SX126X_STATUS_OK then Some (f l) else None) }"

text \<open>The command status and the chip mode.\<close>

definition sx126x_get_status :: "platform \<Rightarrow> (u8 \<times> u8) option rm" where
  "sx126x_get_status P = read_decode P [0xC0] 1
     (\<lambda>l. (drop_bit 1 (hd l AND 0x0E), drop_bit 4 (hd l AND 0x70)))"

text \<open>The payload's length and start.\<close>

definition sx126x_get_rx_buffer_status :: "platform \<Rightarrow> (u8 \<times> u8) option rm" where
  "sx126x_get_rx_buffer_status P = read_decode P [0x13, 0] 2 (\<lambda>l. (l ! 0, l ! 1))"

text \<open>The status, and the signal strengths at the synchronisation word and on average.\<close>

definition sx126x_get_gfsk_pkt_status :: "platform \<Rightarrow> (u8 \<times> int \<times> int) option rm" where
  "sx126x_get_gfsk_pkt_status P = read_decode P [0x14, 0] 3
     (\<lambda>l. (l ! 0, half_neg (l ! 1), half_neg (l ! 2)))"

text \<open>The signal strength, the signal-to-noise ratio, and the strength after despreading.\<close>

definition sx126x_get_lora_pkt_status :: "platform \<Rightarrow> (int \<times> int \<times> int) option rm" where
  "sx126x_get_lora_pkt_status P = read_decode P [0x14, 0] 3
     (\<lambda>l. (half_neg (l ! 0), (sint (l ! 1) + 2) div 4, half_neg (l ! 2)))"

definition sx126x_get_rssi_inst :: "platform \<Rightarrow> int option rm" where
  "sx126x_get_rssi_inst P = read_decode P [0x15, 0] 1 (\<lambda>l. half_neg (hd l))"

text \<open>Packets received, with a bad CRC, and with a bad length or header.\<close>

definition sx126x_get_gfsk_stats :: "platform \<Rightarrow> (u16 \<times> u16 \<times> u16) option rm" where
  "sx126x_get_gfsk_stats P = read_decode P [0x10, 0] 6
     (\<lambda>l. (u16_of_be (l ! 0) (l ! 1), u16_of_be (l ! 2) (l ! 3), u16_of_be (l ! 4) (l ! 5)))"

definition sx126x_get_lora_stats :: "platform \<Rightarrow> (u16 \<times> u16 \<times> u16) option rm" where
  "sx126x_get_lora_stats P = read_decode P [0x10, 0] 6
     (\<lambda>l. (u16_of_be (l ! 0) (l ! 1), u16_of_be (l ! 2) (l ! 3), u16_of_be (l ! 4) (l ! 5)))"

definition sx126x_reset_stats :: "platform \<Rightarrow> sx126x_status rm" where
  "sx126x_reset_stats P = sx126x_hal_write P [0, 0, 0, 0, 0, 0, 0] []"

definition sx126x_reset :: "platform \<Rightarrow> sx126x_status rm" where
  "sx126x_reset P = sx126x_hal_reset P"

definition sx126x_wakeup :: "platform \<Rightarrow> sx126x_status rm" where
  "sx126x_wakeup P = sx126x_hal_wakeup P"

definition sx126x_get_device_errors :: "platform \<Rightarrow> u16 option rm" where
  "sx126x_get_device_errors P = read_decode P [0x17, 0] 2 (\<lambda>l. u16_of_be (l ! 0) (l ! 1))"

definition sx126x_clear_device_errors :: "platform \<Rightarrow> sx126x_status rm" where
  "sx126x_clear_device_errors P = sx126x_hal_write P [0x07, 0, 0] []"

section \<open>Random numbers\<close>

text \<open>The words are read in place, one after the other, until a read fails.\<close>

primrec read_randoms :: "platform \<Rightarrow> u32 list \<Rightarrow> (sx126x_status \<times> u32 list) rm" where
  "read_randoms P [] = return (SX126X_STATUS_OK, [])"
| "read_randoms P (w # ws) = do {
     (status, l) \<leftarrow> sx126x_read_register P 0x0819 (u32_to_le w);
     if status \<noteq> SX126X_STATUS_OK then return (status, u32_of_le l # ws)
     else do {
       (status', ws') \<leftarrow> read_randoms P ws;
       return (status', u32_of_le l # ws') } }"

definition sx126x_get_random_numbers :: "platform \<Rightarrow> u32 list \<Rightarrow> (sx126x_status \<times> u32 list) rm" where
  "sx126x_get_random_numbers P numbers = do {
     (status, lna) \<leftarrow> sx126x_read_register P 0x08E2 [0];
     if status \<noteq> SX126X_STATUS_OK then return (status, numbers) else do {
     status \<leftarrow> sx126x_write_register P 0x08E2 [hd lna AND NOT 1];
     if status \<noteq> SX126X_STATUS_OK then return (status, numbers) else do {
     (status, mixer) \<leftarrow> sx126x_read_register P 0x08E5 [0];
     if status \<noteq> SX126X_STATUS_OK then return (status, numbers) else do {
     status \<leftarrow> sx126x_write_register P 0x08E5 [hd mixer AND NOT 0x80];
     if status \<noteq> SX126X_STATUS_OK then return (status, numbers) else do {
     status \<leftarrow> sx126x_set_rx P 0xFFFFFF;
     if status \<noteq> SX126X_STATUS_OK then return (status, numbers) else do {
     (status, numbers') \<leftarrow> read_randoms P numbers;
     if status \<noteq> SX126X_STATUS_OK then return (status, numbers') else do {
     status \<leftarrow> chk (sx126x_set_standby P 0)
       (chk (sx126x_write_register P 0x08E2 lna)
         (sx126x_write_register P 0x08E5 mixer));
     return (status, numbers') }}}}}} }"

section \<open>Register settings\<close>

definition sx126x_cfg_rx_boosted :: "platform \<Rightarrow> bool \<Rightarrow> sx126x_status rm" where
  "sx126x_cfg_rx_boosted P state = sx126x_write_register P 0x08AC [if state then 0x96 else 0x94]"

definition sx126x_set_gfsk_sync_word :: "platform \<Rightarrow> u8 list \<Rightarrow> sx126x_status rm" where
  "sx126x_set_gfsk_sync_word P sync_word =
     (if length sync_word \<le> 8
      then sx126x_write_register P 0x06C0 (sync_word @ replicate (8 - length sync_word) 0)
      else return SX126X_STATUS_ERROR)"

definition sx126x_set_lora_sync_word :: "platform \<Rightarrow> u8 \<Rightarrow> sx126x_status rm" where
  "sx126x_set_lora_sync_word P sync_word = do {
     (status, b) \<leftarrow> sx126x_read_register P 0x0740 [0, 0];
     if status = SX126X_STATUS_OK
     then sx126x_write_register P 0x0740
       [(b ! 0 AND NOT 0xF0) + (sync_word AND 0xF0),
        (b ! 1 AND NOT 0xF0) + push_bit 4 (sync_word AND 0x0F)]
     else return status }"

definition sx126x_set_gfsk_crc_seed :: "platform \<Rightarrow> u16 \<Rightarrow> sx126x_status rm" where
  "sx126x_set_gfsk_crc_seed P seed = sx126x_write_register P 0x06BC (be_u16 seed)"

definition sx126x_set_gfsk_crc_polynomial :: "platform \<Rightarrow> u16 \<Rightarrow> sx126x_status rm" where
  "sx126x_set_gfsk_crc_polynomial P polynomial = sx126x_write_register P 0x06BE (be_u16 polynomial)"

definition sx126x_set_gfsk_whitening_seed :: "platform \<Rightarrow> u16 \<Rightarrow> sx126x_status rm" where
  "sx126x_set_gfsk_whitening_seed P seed =
     chk (update_register P 0x06B8 0 (\<lambda>r. (r AND 0xFE) OR (ucast (drop_bit 8 seed) AND 1)))
       (sx126x_write_register P 0x06B9 [ucast seed])"

definition sx126x_config_tx_clamp :: "platform \<Rightarrow> sx126x_status rm" where
  "sx126x_config_tx_clamp P = update_register P 0x08D8 0 (\<lambda>r. r OR 0x1E)"

definition sx126x_stop_rtc :: "platform \<Rightarrow> sx126x_status rm" where
  "sx126x_stop_rtc P =
     chk (sx126x_write_register P 0x0902 [0]) (update_register P 0x0944 0 (\<lambda>r. r OR 2))"

text \<open>The coding rate and whether the payload has a CRC, from the header received.\<close>

definition sx126x_get_lora_params_from_header :: "platform \<Rightarrow> (u8 \<times> bool) option rm" where
  "sx126x_get_lora_params_from_header P = do {
     junk_cr \<leftarrow> gets (junk_of P \<circ> calls);
     (status, c) \<leftarrow> sx126x_read_register P 0x0749 [junk_cr];
     if status \<noteq> SX126X_STATUS_OK then return None
     else do {
       junk_crc \<leftarrow> gets (junk_of P \<circ> calls);
       (status, d) \<leftarrow> sx126x_read_register P 0x076B [junk_crc];
       return (if status = SX126X_STATUS_OK
               then Some (drop_bit 4 (hd c AND 0x70), hd d AND 0x10 \<noteq> 0) else None) } }"

section \<open>Bandwidths\<close>

definition gfsk_bw :: "(u32 \<times> u8) list" where
  "gfsk_bw = [(4800, 0x1F), (5800, 0x17), (7300, 0x0F), (9700, 0x1E), (11700, 0x16), (14600, 0x0E),
     (19500, 0x1D), (23400, 0x15), (29300, 0x0D), (39000, 0x1C), (46900, 0x14), (58600, 0x0C),
     (78200, 0x1B), (93800, 0x13), (117300, 0x0B), (156200, 0x1A), (187200, 0x12), (234300, 0x0A),
     (312000, 0x19), (373600, 0x11), (467000, 0x09)]"

definition sx126x_get_gfsk_bw_param :: "u32 \<Rightarrow> u8 \<Rightarrow> sx126x_status \<times> u8" where
  "sx126x_get_gfsk_bw_param bw param =
     (if bw = 0 then (SX126X_STATUS_ERROR, param)
      else case find (\<lambda>(b, p). bw \<le> b) gfsk_bw of
        None \<Rightarrow> (SX126X_STATUS_UNKNOWN_VALUE, param)
      | Some (b, p) \<Rightarrow> (SX126X_STATUS_OK, p))"

end
