(* ===== verification/Sx126x_Hal_Props.thy ===== *)
theory Sx126x_Hal_Props
  imports Sx126x_Driver
begin

text \<open>
  What the layer under the radio interface guarantees: which calls a function can make, how long
  it waits for the chip, and how the critical region and the antenna switch are left.
\<close>

section \<open>Which calls a function makes\<close>

text \<open>
  \<open>adds I Q m\<close>: in a state of the radio with \<open>I\<close>, \<open>m\<close> changes nothing but the history, and every
  call it adds satisfies \<open>Q\<close>.
\<close>

definition adds :: "(radio_state_t \<Rightarrow> bool) \<Rightarrow> (io \<Rightarrow> bool) \<Rightarrow> 'a rm \<Rightarrow> bool" where
  "adds I Q m \<longleftrightarrow> (\<forall>s. I (radio_state s) \<longrightarrow>
     (\<exists>h. snd (run_state m s) = s\<lparr>calls := h @ calls s\<rparr> \<and> (\<forall>c\<in>set h. Q c)))"

named_theorems adds_intros

lemma addsI:
  "(\<And>s. I (radio_state s) \<Longrightarrow> \<exists>h. snd (run_state m s) = s\<lparr>calls := h @ calls s\<rparr> \<and> (\<forall>c\<in>set h. Q c)) \<Longrightarrow>
    adds I Q m"
  by (simp add: adds_def)

lemma addsD:
  assumes "adds I Q m" and "run_state m s = (r, s')" and "I (radio_state s)"
  shows "\<exists>h. s' = s\<lparr>calls := h @ calls s\<rparr> \<and> (\<forall>c\<in>set h. Q c)"
  using assms unfolding adds_def by (metis snd_conv)

lemma adds_none [adds_intros]:
  "adds I Q (return r)" "adds I Q (gets f)" "adds I Q (cfg g)"
  by (rule addsI; rule exI [of _ "[]"]; simp)+

lemma adds_call [adds_intros]: "Q c \<Longrightarrow> adds I Q (call P c)" "Q c \<Longrightarrow> adds I Q (emit c)"
  by (rule addsI; rule exI [of _ "[c]"]; simp)+

lemma adds_bind [adds_intros]:
  assumes m: "adds I Q m" and k: "\<And>x. adds I Q (k x)"
  shows "adds I Q (State_Monad.bind m k)"
proof (rule addsI)
  fix s :: radio
  assume I: "I (radio_state s)"
  obtain r s1 where r1: "run_state m s = (r, s1)" by fastforce
  from addsD [OF m r1 I] obtain h1 where h1: "s1 = s\<lparr>calls := h1 @ calls s\<rparr>" "\<forall>c\<in>set h1. Q c" by blast
  obtain r' s2 where r2: "run_state (k r) s1 = (r', s2)" by fastforce
  from h1 I have "I (radio_state s1)" by simp
  from addsD [OF k r2 this] obtain h2 where "s2 = s1\<lparr>calls := h2 @ calls s1\<rparr>" "\<forall>c\<in>set h2. Q c" by blast
  with h1 r1 r2 show "\<exists>h. snd (run_state (State_Monad.bind m k) s) = s\<lparr>calls := h @ calls s\<rparr> \<and> (\<forall>c\<in>set h. Q c)"
    by - (rule exI [of _ "h2 @ h1"], auto)
qed

lemma adds_if [adds_intros]:
  "(b \<Longrightarrow> adds I Q m) \<Longrightarrow> (\<not> b \<Longrightarrow> adds I Q k) \<Longrightarrow> adds I Q (if b then m else k)"
  by simp

lemma adds_chk [adds_intros]: "adds I Q m \<Longrightarrow> adds I Q k \<Longrightarrow> adds I Q (chk m k)"
  unfolding chk_def by (intro adds_intros)

lemma adds_ok_else [adds_intros]: "adds I Q m \<Longrightarrow> adds I Q k \<Longrightarrow> adds I Q (ok_else e m k)"
  unfolding ok_else_def by (intro adds_intros)

lemma adds_only_if [adds_intros]: "(b \<Longrightarrow> adds I Q m) \<Longrightarrow> adds I Q (only_if b m)"
  unfolding only_if_def by (intro adds_intros)

lemma adds_prod [adds_intros]: "(\<And>a b. adds I Q (f a b)) \<Longrightarrow> adds I Q (case x of (a, b) \<Rightarrow> f a b)"
  by (cases x) simp

lemma adds_option [adds_intros]:
  "(x = None \<Longrightarrow> adds I Q m) \<Longrightarrow> (\<And>y. x = Some y \<Longrightarrow> adds I Q (f y)) \<Longrightarrow>
    adds I Q (case x of None \<Rightarrow> m | Some y \<Rightarrow> f y)"
  by (cases x) simp_all

lemma adds_Let [adds_intros]: "adds I Q (f t) \<Longrightarrow> adds I Q (Let t f)"
  by (simp add: Let_def)

lemma adds_mono: "adds I Q m \<Longrightarrow> (\<And>x. J x \<Longrightarrow> I x) \<Longrightarrow> (\<And>c. Q c \<Longrightarrow> R c) \<Longrightarrow> adds J R m"
  unfolding adds_def by meson

section \<open>Waiting for the chip\<close>

text \<open>The chip is ready: the line is read without error and is low.\<close>

definition chip_ready :: "platform \<Rightarrow> u32 \<Rightarrow> io list \<Rightarrow> bool" where
  "chip_ready P pin h \<longleftrightarrow> ret_of P (Gpio_read pin # h) = 0 \<and> \<not> pin_of P (Gpio_read pin # h)"

text \<open>The history after a number of polls that found the chip busy.\<close>

primrec after_polls :: "u32 \<Rightarrow> nat \<Rightarrow> io list \<Rightarrow> io list" where
  "after_polls pin 0 h = h"
| "after_polls pin (Suc n) h = Delay_us 10 # Gpio_read pin # after_polls pin n h"

lemma run_check_status:
  "run_state (sx126x_check_status P) s =
    (if ret_of P (Gpio_read (gpio_radio_busy (rcfg s)) # calls s) \<noteq> 0 then - 6
     else if pin_of P (Gpio_read (gpio_radio_busy (rcfg s)) # calls s) then - 4 else 0,
     s\<lparr>calls := Gpio_read (gpio_radio_busy (rcfg s)) # calls s\<rparr>)"
  by (simp add: sx126x_check_status_def run_ok_else)

lemma check_status_ready:
  "fst (run_state (sx126x_check_status P) s) = 0 \<longleftrightarrow> chip_ready P (gpio_radio_busy (rcfg s)) (calls s)"
  by (auto simp: run_check_status chip_ready_def)

lemma busy_poll_steps:
  assumes "\<forall>i<n. \<not> chip_ready P (gpio_radio_busy (rcfg s)) (after_polls (gpio_radio_busy (rcfg s)) i (calls s))"
    and "int n \<le> 2000"
  shows "busy_poll P 0 s =
    busy_poll P (int n) (s\<lparr>calls := after_polls (gpio_radio_busy (rcfg s)) n (calls s)\<rparr>)"
  using assms
proof (induction n)
  case (Suc n)
  let ?s = "s\<lparr>calls := after_polls (gpio_radio_busy (rcfg s)) n (calls s)\<rparr>"
  have "\<not> chip_ready P (gpio_radio_busy (rcfg ?s)) (calls ?s)" using Suc.prems(1) by simp
  then have busy: "fst (run_state (sx126x_check_status P) ?s) \<noteq> 0"
    using check_status_ready [of P ?s] by simp
  have "busy_poll P 0 s = busy_poll P (int n) ?s" using Suc by simp
  also have "\<dots> = busy_poll P (int n + 1)
      (s\<lparr>calls := after_polls (gpio_radio_busy (rcfg s)) (Suc n) (calls s)\<rparr>)"
    using busy Suc.prems(2) by (subst busy_poll.simps) (simp add: run_check_status split: if_splits)
  finally show ?case by (simp add: algebra_simps)
qed simp

text \<open>The wait in full: it succeeds at the first poll that finds the chip ready, up to the 1999th.\<close>

lemma wait_on_busy_ready:
  assumes "\<forall>i<n. \<not> chip_ready P (gpio_radio_busy (rcfg s)) (after_polls (gpio_radio_busy (rcfg s)) i (calls s))"
    and ready: "chip_ready P (gpio_radio_busy (rcfg s)) (after_polls (gpio_radio_busy (rcfg s)) n (calls s))"
    and "n < 2000"
  shows "run_state (sx126x_wait_on_busy P) s =
    (if n < 1999 then 0 else - 6,
     s\<lparr>calls := Gpio_read (gpio_radio_busy (rcfg s)) # after_polls (gpio_radio_busy (rcfg s)) n (calls s)\<rparr>)"
proof -
  let ?s = "s\<lparr>calls := after_polls (gpio_radio_busy (rcfg s)) n (calls s)\<rparr>"
  have "busy_poll P 0 s = busy_poll P (int n) ?s" using assms by (intro busy_poll_steps) simp_all
  also have "\<dots> = (int n + 1, ?s\<lparr>calls := Gpio_read (gpio_radio_busy (rcfg s)) # calls ?s\<rparr>)"
    using ready \<open>n < 2000\<close> by (subst busy_poll.simps) (simp add: run_check_status chip_ready_def)
  finally show ?thesis by (simp add: sx126x_wait_on_busy_def)
qed

lemma wait_on_busy_never:
  assumes "\<forall>i<2000. \<not> chip_ready P (gpio_radio_busy (rcfg s)) (after_polls (gpio_radio_busy (rcfg s)) i (calls s))"
  shows "run_state (sx126x_wait_on_busy P) s =
    (- 6, s\<lparr>calls := after_polls (gpio_radio_busy (rcfg s)) 2000 (calls s)\<rparr>)"
proof -
  let ?s = "s\<lparr>calls := after_polls (gpio_radio_busy (rcfg s)) 2000 (calls s)\<rparr>"
  have "busy_poll P 0 s = busy_poll P (int 2000) ?s" using assms by (intro busy_poll_steps) simp_all
  also have "\<dots> = (2001, ?s)" by (subst busy_poll.simps) simp
  finally show ?thesis by (simp add: sx126x_wait_on_busy_def)
qed

lemma first_below: "\<exists>n<N. R (n :: nat) \<Longrightarrow> \<exists>n<N. R n \<and> (\<forall>i<n. \<not> R i)"
proof -
  assume "\<exists>n<N. R n"
  then obtain m where "m < N" "R m" by blast
  have "R (LEAST n. R n)" using \<open>R m\<close> by (rule LeastI)
  moreover have "(LEAST n. R n) < N" using Least_le [of R, OF \<open>R m\<close>] \<open>m < N\<close> by (rule le_less_trans)
  moreover have "\<not> R i" if "i < (LEAST n. R n)" for i using that by (rule not_less_Least)
  ultimately show ?thesis by blast
qed

lemma after_polls_calls: "\<exists>k. after_polls pin n h = k @ h \<and> (\<forall>c\<in>set k. c = Gpio_read pin \<or> c = Delay_us 10)"
proof (induction n)
  case (Suc n)
  then obtain k where "after_polls pin n h = k @ h" "\<forall>c\<in>set k. c = Gpio_read pin \<or> c = Delay_us 10" by auto
  then show ?case by (intro exI [of _ "Delay_us 10 # Gpio_read pin # k"]) auto
qed simp

lemma adds_wait_on_busy [adds_intros]:
  assumes "\<And>p. Q (Gpio_read p)" and "Q (Delay_us 10)"
  shows "adds I Q (sx126x_wait_on_busy P)"
proof (rule addsI)
  fix s :: radio
  let ?pin = "gpio_radio_busy (rcfg s)"
  let ?R = "\<lambda>n. chip_ready P ?pin (after_polls ?pin n (calls s))"
  show "\<exists>h. snd (run_state (sx126x_wait_on_busy P) s) = s\<lparr>calls := h @ calls s\<rparr> \<and> (\<forall>c\<in>set h. Q c)"
  proof (cases "\<exists>n<2000. ?R n")
    case True
    from first_below [OF True] obtain n where "?R n" "\<forall>i<n. \<not> ?R i" "n < 2000" by blast
    moreover obtain k where "after_polls ?pin n (calls s) = k @ calls s"
        "\<forall>c\<in>set k. c = Gpio_read ?pin \<or> c = Delay_us 10" using after_polls_calls by blast
    ultimately show ?thesis using assms wait_on_busy_ready [of n P s]
      by (intro exI [of _ "Gpio_read ?pin # k"]) auto
  next
    case False
    moreover obtain k where "after_polls ?pin 2000 (calls s) = k @ calls s"
        "\<forall>c\<in>set k. c = Gpio_read ?pin \<or> c = Delay_us 10" using after_polls_calls by blast
    ultimately show ?thesis using assms wait_on_busy_never [of P s]
      by (intro exI [of _ k]) auto
  qed
qed

text \<open>The history before the \<open>n\<close>-th poll of a wait, and whether that poll finds the chip ready.\<close>

definition busy_hist :: "radio \<Rightarrow> nat \<Rightarrow> io list" where
  "busy_hist s n = after_polls (gpio_radio_busy (rcfg s)) n (calls s)"

definition busy_ready :: "platform \<Rightarrow> radio \<Rightarrow> nat \<Rightarrow> bool" where
  "busy_ready P s n \<longleftrightarrow> chip_ready P (gpio_radio_busy (rcfg s)) (busy_hist s n)"

text \<open>CN. Waiting for the chip ends after at most 2000 polls of its busy line: it reports success
  exactly if one of the first 1999 polls finds the chip ready, and stops polling at the first
  that does. A chip that is ready only at the last poll is reported as a hardware error.\<close>

theorem sx126x_wait_on_busy_bounded:
  "fst (run_state (sx126x_wait_on_busy P) s) = (if \<exists>n<1999. busy_ready P s n then 0 else - 6) \<and>
    (\<exists>n\<le>2000. (\<forall>i<n. \<not> busy_ready P s i) \<and>
       calls (snd (run_state (sx126x_wait_on_busy P) s)) =
         (if n < 2000 then [Gpio_read (gpio_radio_busy (rcfg s))] else []) @ busy_hist s n)"
proof (cases "\<exists>n<2000. busy_ready P s n")
  case True
  from first_below [OF True] obtain n where n: "busy_ready P s n" "\<forall>i<n. \<not> busy_ready P s i" "n < 2000"
    by blast
  then have least: "(\<exists>i<1999. busy_ready P s i) \<longleftrightarrow> n < 1999"
    by (meson linorder_not_less le_less_trans)
  from n have "run_state (sx126x_wait_on_busy P) s =
      (if n < 1999 then 0 else - 6, s\<lparr>calls := Gpio_read (gpio_radio_busy (rcfg s)) # busy_hist s n\<rparr>)"
    unfolding busy_ready_def busy_hist_def by (intro wait_on_busy_ready) simp_all
  with n(2,3) show ?thesis unfolding least by (auto intro!: exI [of _ n])
next
  case False
  then have "run_state (sx126x_wait_on_busy P) s = (- 6, s\<lparr>calls := busy_hist s 2000\<rparr>)"
    unfolding busy_ready_def busy_hist_def by (intro wait_on_busy_never) simp
  moreover have "\<not> (\<exists>n<1999. busy_ready P s n)" using False by auto
  ultimately show ?thesis using False by (auto intro!: exI [of _ 2000])
qed

section \<open>Calls of the driver's functions\<close>

text \<open>
  A radio that is awake gets its commands without a wake-up. Calls other than a change of the
  antenna switch are quiet; only the wake-up before a command changes the switch.
\<close>

definition awake :: "radio_state_t \<Rightarrow> bool" where
  "awake st \<longleftrightarrow> st \<noteq> RADIO_SLEEP \<and> st \<noteq> RADIO_RX_DC"

fun quiet :: "io \<Rightarrow> bool" where
  "quiet (Rf_switch_cb a b) = False"
| "quiet c = True"

definition covers :: "(radio_state_t \<Rightarrow> bool) \<Rightarrow> (io \<Rightarrow> bool) \<Rightarrow> bool" where
  "covers I Q \<longleftrightarrow> (\<forall>c. quiet c \<longrightarrow> Q c) \<and> (\<forall>st a b. I st \<longrightarrow> \<not> awake st \<longrightarrow> Q (Rf_switch_cb a b))"

lemma covers_simps [simp]: "covers awake quiet" "covers I (\<lambda>_. True)"
  by (simp_all add: covers_def)

lemma covers_quiet: "covers I Q \<Longrightarrow> quiet c \<Longrightarrow> Q c"
  by (simp add: covers_def)

lemma adds_quiet_wakeup:
  "adds I quiet (set_gpio_power P d)" "adds I quiet (set_gpio_config P m)"
  "adds I quiet (set_radio_int P b)" "adds I quiet (set_gpio_cfg_awake P)"
  "adds I quiet (set_gpio_cfg_sleep P)" "adds I quiet (sx126x_hal_reset P)"
  "adds I quiet (sx126x_hal_wakeup P)"
  unfolding set_gpio_cfg_awake_def set_gpio_cfg_sleep_def sx126x_hal_wakeup_def sx126x_hal_reset_def
    set_gpio_power_def set_gpio_config_def set_radio_int_def
  by (intro adds_intros; simp)+

lemma adds_set_radio_mode: "adds I (\<lambda>_. True) (radio_sx126x_set_radio_mode P a b)"
  unfolding radio_sx126x_set_radio_mode_def by (intro adds_intros) simp_all

lemma adds_wakeup [adds_intros]:
  assumes "covers I Q"
  shows "adds I Q (sx126x_hal_wakeup P)" "adds I Q (sx126x_hal_reset P)" "adds I Q (set_gpio_cfg_sleep P)"
  using assms by (auto intro: adds_mono adds_quiet_wakeup dest: covers_quiet)

lemma adds_wait_for_device_ready [adds_intros]:
  assumes "covers I Q"
  shows "adds I Q (sx126x_wait_for_device_ready P)"
proof -
  have 1: "adds (\<lambda>st. I st \<and> awake st) Q (sx126x_wait_for_device_ready P)"
    by (rule addsI, rule exI [of _ "[]"]) (simp add: sx126x_wait_for_device_ready_def awake_def)
  have 2: "adds (\<lambda>st. I st \<and> \<not> awake st) Q (sx126x_wait_for_device_ready P)"
  proof (cases "\<exists>st. I st \<and> \<not> awake st")
    case True
    then have all: "Q c" for c using assms by (cases c) (auto simp: covers_def)
    show ?thesis unfolding sx126x_wait_for_device_ready_def
      by (intro adds_intros adds_mono [OF adds_set_radio_mode] adds_mono [OF adds_quiet_wakeup(7)])
        (simp_all add: all)
  next
    case False
    then show ?thesis unfolding adds_def by blast
  qed
  from 1 2 show ?thesis unfolding adds_def by blast
qed

lemma adds_rdwr [adds_intros]:
  assumes "covers I Q"
  shows "adds I Q (sx126x_hal_rdwr P c d b)"
  unfolding sx126x_hal_rdwr_def sx126x_radio_bus_xfer_def
  using assms by (intro adds_intros) (simp_all add: covers_quiet)

lemma adds_hal [adds_intros]:
  assumes "covers I Q"
  shows "adds I Q (sx126x_hal_read P c d)" "adds I Q (sx126x_hal_write P c d)"
  unfolding sx126x_hal_read_def sx126x_hal_write_def
  using assms by (intro adds_intros; simp)+

lemma adds_driver_base [adds_intros]:
  assumes "covers I Q"
  shows "adds I Q (sx126x_write_register P a b)" "adds I Q (sx126x_read_register P a b)"
    "adds I Q (sx126x_write_buffer P off b)" "adds I Q (sx126x_read_buffer P off b)"
    "adds I Q (update_register P a v f)" "adds I Q (read_decode P cm n g)"
  unfolding sx126x_write_register_def sx126x_read_register_def sx126x_write_buffer_def
    sx126x_read_buffer_def update_register_def read_decode_def
  using assms by (intro adds_intros; simp)+

lemma adds_driver_modes [adds_intros]:
  assumes "covers I Q"
  shows "adds I Q (sx126x_set_sleep P c)" "adds I Q (sx126x_set_standby P c)"
    "adds I Q (sx126x_set_tx P t)" "adds I Q (sx126x_set_rx P t)"
    "adds I Q (sx126x_stop_tmr_on_pbl P b)" "adds I Q (sx126x_set_rx_duty_cycle P t u)"
    "adds I Q (sx126x_set_cad P)" "adds I Q (sx126x_set_tx_cw P)" "adds I Q (sx126x_set_tx_cpbl P)"
    "adds I Q (sx126x_set_reg_mode P c)" "adds I Q (sx126x_cal P c)" "adds I Q (sx126x_cal_img P t)"
    "adds I Q (sx126x_set_pa_cfg P pa)" "adds I Q (sx126x_set_xtal_trim P c d)"
    "adds I Q (sx126x_set_dio_irq_params P w x y z)" "adds I Q (sx126x_clear_irq_status P w)"
    "adds I Q (sx126x_set_dio2_as_rf_sw_ctrl P b)" "adds I Q (sx126x_set_dio3_as_tcxo_ctrl P c t)"
    "adds I Q (sx126x_set_rf_freq P t)" "adds I Q (sx126x_set_pkt_type P c)"
    "adds I Q (sx126x_set_tx_params P c d)" "adds I Q (sx126x_set_buffer_base_addr P c d)"
    "adds I Q (sx126x_reset P)" "adds I Q (sx126x_wakeup P)" "adds I Q (sx126x_clear_device_errors P)"
    "adds I Q (sx126x_cfg_rx_boosted P b)"
  unfolding sx126x_set_sleep_def sx126x_set_standby_def sx126x_set_tx_def sx126x_set_rx_def
    sx126x_stop_tmr_on_pbl_def sx126x_set_rx_duty_cycle_def sx126x_set_cad_def sx126x_set_tx_cw_def
    sx126x_set_tx_cpbl_def sx126x_set_reg_mode_def sx126x_cal_def sx126x_cal_img_def
    sx126x_set_pa_cfg_def sx126x_set_xtal_trim_def sx126x_set_dio_irq_params_def
    sx126x_clear_irq_status_def sx126x_set_dio2_as_rf_sw_ctrl_def sx126x_set_dio3_as_tcxo_ctrl_def
    sx126x_set_rf_freq_def sx126x_set_pkt_type_def sx126x_set_tx_params_def
    sx126x_set_buffer_base_addr_def sx126x_reset_def sx126x_wakeup_def sx126x_clear_device_errors_def
    sx126x_cfg_rx_boosted_def
  using assms by (intro adds_intros; simp)+

lemma adds_driver_status [adds_intros]:
  assumes "covers I Q"
  shows "adds I Q (sx126x_get_irq_status P)" "adds I Q (sx126x_get_and_clear_irq_status P)"
    "adds I Q (sx126x_get_rx_buffer_status P)" "adds I Q (sx126x_get_gfsk_pkt_status P)"
    "adds I Q (sx126x_get_lora_pkt_status P)" "adds I Q (sx126x_get_rssi_inst P)"
    "adds I Q (sx126x_get_device_errors P)" "adds I Q (sx126x_get_lora_params_from_header P)"
  unfolding sx126x_get_irq_status_def sx126x_get_and_clear_irq_status_def
    sx126x_get_rx_buffer_status_def sx126x_get_gfsk_pkt_status_def sx126x_get_lora_pkt_status_def
    sx126x_get_rssi_inst_def sx126x_get_device_errors_def sx126x_get_lora_params_from_header_def
  using assms by (intro adds_intros; simp)+

lemma adds_driver_random [adds_intros]:
  assumes "covers I Q"
  shows "adds I Q (read_randoms P ws)" "adds I Q (sx126x_get_random_numbers P ws)"
proof -
  show 1: "adds I Q (read_randoms P ws)" for ws
    by (induction ws) (simp_all, (intro adds_intros assms; simp)+)
  show "adds I Q (sx126x_get_random_numbers P ws)"
    unfolding sx126x_get_random_numbers_def by (intro adds_intros 1 assms)
qed

lemma adds_driver_settings [adds_intros]:
  assumes "covers I Q"
  shows "adds I Q (sx126x_set_gfsk_mod_params P mg)" "adds I Q (sx126x_set_lora_mod_params P ml)"
    "adds I Q (sx126x_set_gfsk_pkt_params P pg)" "adds I Q (sx126x_set_lora_pkt_params P pl)"
    "adds I Q (sx126x_set_cad_params P cp)" "adds I Q (sx126x_set_lora_symb_nb_timeout P c)"
    "adds I Q (sx126x_set_gfsk_sync_word P l)" "adds I Q (sx126x_set_lora_sync_word P c)"
  unfolding sx126x_set_gfsk_mod_params_def sx126x_set_lora_mod_params_def sx126x_set_gfsk_pkt_params_def
    sx126x_set_lora_pkt_params_def sx126x_set_cad_params_def sx126x_set_lora_symb_nb_timeout_def
    sx126x_set_gfsk_sync_word_def sx126x_set_lora_sync_word_def sx126x_tx_modulation_workaround_def
  using assms by (intro adds_intros; simp)+

section \<open>Critical region\<close>

text \<open>How often the critical region was entered and not left.\<close>

definition crit_depth :: "io list \<Rightarrow> int" where
  "crit_depth h = int (count_list h Enter_critical) - int (count_list h Exit_critical)"

lemma crit_depth_simps [simp]:
  "crit_depth [] = 0"
  "crit_depth (c # h) = crit_depth h + (if c = Enter_critical then 1 else if c = Exit_critical then - 1 else 0)"
  "crit_depth (k @ h) = crit_depth k + crit_depth h"
  by (auto simp: crit_depth_def)

definition plain :: "io \<Rightarrow> bool" where
  "plain c \<longleftrightarrow> c \<noteq> Enter_critical \<and> c \<noteq> Exit_critical"

lemma plain_depth: "\<forall>c\<in>set h. plain c \<Longrightarrow> crit_depth h = 0"
  by (induction h) (auto simp: plain_def)

lemma spec_plain:
  assumes "adds (\<lambda>_. True) plain m"
  shows "spec (\<lambda>s. crit_depth (calls s) = d) m (\<lambda>_ s. crit_depth (calls s) = d)"
  using addsD [OF assms] plain_depth by (fastforce simp: spec_def)

lemma adds_plain:
  "adds (\<lambda>_. True) plain (set_gpio_cfg_awake P)" "adds (\<lambda>_. True) plain (sx126x_wait_on_busy P)"
  "plain c \<Longrightarrow> adds (\<lambda>_. True) plain (call P c)"
  unfolding set_gpio_cfg_awake_def set_gpio_power_def set_gpio_config_def set_radio_int_def
  by (intro adds_intros; simp add: plain_def)+

lemma spec_plain_else:
  assumes "adds (\<lambda>_. True) plain m"
    and "spec (\<lambda>s. crit_depth (calls s) = d) k (\<lambda>r s. crit_depth (calls s) = d - (if r = 0 then 1 else 0))"
  shows "spec (\<lambda>s. crit_depth (calls s) = d) (ok_else 3 m k)
    (\<lambda>r s. crit_depth (calls s) = d - (if r = 0 then 1 else 0))"
  by (rule spec_ok_else [OF spec_conseq [OF spec_plain [OF assms(1), of d]] assms(2)]) auto

text \<open>CN. Waking the chip up leaves the critical region it entered exactly if it succeeds; every
  early return on an error leaves the processor inside of it.\<close>

theorem sx126x_hal_wakeup_critical:
  "crit_depth (calls (snd (run_state (sx126x_hal_wakeup P) s))) =
    crit_depth (calls s) + (if fst (run_state (sx126x_hal_wakeup P) s) = 0 then 0 else 1)"
proof -
  let ?d = "crit_depth (calls s) + 1"
  have "spec (\<lambda>t. t = s) (sx126x_hal_wakeup P)
      (\<lambda>r t. crit_depth (calls t) = ?d - (if r = 0 then 1 else 0))"
    unfolding sx126x_hal_wakeup_def
  proof (rule spec_bind [where R = "\<lambda>_ t. t = s"], simp add: spec_def,
      rule spec_bind [where R = "\<lambda>_ t. crit_depth (calls t) = ?d"], simp add: spec_def,
      rule spec_bind [OF spec_plain [OF adds_plain(1)]], intro spec_plain_else adds_plain)
    show "spec (\<lambda>t. crit_depth (calls t) = ?d) (do { _ \<leftarrow> emit Exit_critical; return 0 })
        (\<lambda>r t. crit_depth (calls t) = ?d - (if r = 0 then 1 else 0))"
      by (auto simp: spec_def)
  qed (simp_all add: plain_def)
  then show ?thesis by (auto dest!: specD simp: prod_eq_iff)
qed

section \<open>Antenna switch\<close>

text \<open>The position the switch was last told to take: enabled, and towards the transmitter.\<close>

fun rf_pos :: "io list \<Rightarrow> (bool \<times> bool) option" where
  "rf_pos [] = None"
| "rf_pos (Rf_switch_cb a b # h) = Some (a, b)"
| "rf_pos (_ # h) = rf_pos h"

lemma rf_pos_quiet: "\<forall>c\<in>set k. quiet c \<Longrightarrow> rf_pos (k @ h) = rf_pos h"
proof (induction k)
  case (Cons c k)
  then show ?case by (cases c) simp_all
qed simp

lemma rf_adds_quiet:
  assumes "adds I quiet m" and "run_state m s = (r, s')" and "I (radio_state s)"
  shows "rf_pos (calls s') = rf_pos (calls s)"
  using addsD [OF assms] rf_pos_quiet by fastforce

lemma run_only_call:
  "run_state (only_if b (call P c)) s =
    (if b then (ret_of P (c # calls s), s\<lparr>calls := c # calls s\<rparr>) else (0, s))"
  by (simp add: run_only_if)

lemma rf_set_radio_mode:
  assumes "has_rf_switch_cb (rcfg s)" and "run_state (radio_sx126x_set_radio_mode P a b) s = (0, s')"
  shows "rf_pos (calls s') = Some (a, b)"
  using assms
  by (auto simp: radio_sx126x_set_radio_mode_def run_ok_else run_only_call split: if_splits)

lemma wakeup_frame: "run_state (sx126x_hal_wakeup P) s = (r, s') \<Longrightarrow> \<exists>h. s' = s\<lparr>calls := h\<rparr>"
  using addsD [OF adds_quiet_wakeup(7) [of "\<lambda>_. True" P]] by blast

lemma rf_device_ready:
  assumes "has_rf_switch_cb (rcfg s)" and "run_state (sx126x_wait_for_device_ready P) s = (0, s')"
    and "\<not> awake (radio_state s)"
  shows "rf_pos (calls s') = Some (True, True)"
proof -
  obtain r s1 where 1: "run_state (sx126x_hal_wakeup P) s = (r, s1)" by fastforce
  then have c1: "has_rf_switch_cb (rcfg s1)" using wakeup_frame [OF 1] assms(1) by auto
  obtain s2 where 2: "run_state (radio_sx126x_set_radio_mode P True True) s1 = (0, s2)"
    and 3: "run_state (sx126x_wait_on_busy P) s2 = (0, s')"
    using assms(2,3) 1
    by (auto simp: sx126x_wait_for_device_ready_def awake_def run_chk split: prod.splits if_splits)
  have "adds (\<lambda>_. True) quiet (sx126x_wait_on_busy P)" by (intro adds_intros) simp_all
  from rf_adds_quiet [OF this 3] rf_set_radio_mode [OF c1 2] show ?thesis by simp
qed

text \<open>A command for a radio that sleeps turns the switch to the transmitter.\<close>

lemma rf_hal_write:
  assumes cb: "has_rf_switch_cb (rcfg s)" and run: "run_state (sx126x_hal_write P c d) s = (0, s')"
  shows "rf_pos (calls s') = (if awake (radio_state s) then rf_pos (calls s) else Some (True, True))"
proof (cases "awake (radio_state s)")
  case True
  have "adds awake quiet (sx126x_hal_write P c d)" by (intro adds_intros) simp
  from rf_adds_quiet [OF this run True] True show ?thesis by simp
next
  case False
  obtain s1 b where 1: "run_state (sx126x_wait_for_device_ready P) s = (0, s1)"
    and 2: "run_state (sx126x_hal_rdwr P c d False) s1 = ((0, b), s')"
    using run by (auto simp: sx126x_hal_write_def split: prod.splits if_splits)
  have "adds awake quiet (sx126x_hal_rdwr P c d False)" by (intro adds_intros) simp
  moreover have "adds (\<lambda>_. True) quiet (sx126x_hal_rdwr P c d False)"
    unfolding sx126x_hal_rdwr_def sx126x_radio_bus_xfer_def by (intro adds_intros) simp_all
  ultimately show ?thesis
    using rf_adds_quiet [OF _ 2, of "\<lambda>_. True"] rf_device_ready [OF cb 1 False] False by simp
qed

end
