(* ===== verification/Fsk_Codec.thy ===== *)
theory Fsk_Codec
  imports Sx126x_Driver
begin

text \<open>
  The FSK physical layer as far as it is pure computation: whitening and checksums
  (\<^verbatim>\<open>sx126x_halo.c\<close>), the frame that is transmitted, data rates and times on air
  (\<^verbatim>\<open>sx126x_radio_fsk.c\<close>).
\<close>

section \<open>Whitening\<close>

text \<open>One step of the shift register, four bits at a time.\<close>

definition lfsr_step :: "u16 \<Rightarrow> u16" where
  "lfsr_step lfsr =
     (let xor_out = (drop_bit 5 lfsr AND 0x0F) XOR (lfsr AND 0x0F)
      in drop_bit 4 lfsr OR push_bit 5 xor_out)"

definition reverse_bits :: "u8 \<Rightarrow> u8" where
  "reverse_bits r =
     drop_bit 7 (r AND 0x80) OR drop_bit 5 (r AND 0x40) OR drop_bit 3 (r AND 0x20) OR
     drop_bit 1 (r AND 0x10) OR push_bit 1 (r AND 0x08) OR push_bit 3 (r AND 0x04) OR
     push_bit 5 (r AND 0x02) OR push_bit 7 (r AND 0x01)"

text \<open>The whitening byte of a register, and the register afterwards.\<close>

definition whitening_byte :: "u16 \<Rightarrow> u8 \<times> u16" where
  "whitening_byte lfsr =
     (let l1 = lfsr_step lfsr;
          l2 = lfsr_step l1;
          r = ucast (drop_bit 5 l1 AND 0x0F) OR ucast (drop_bit 1 l2 AND 0xF0)
      in (reverse_bits r, l2))"

fun perform_data_whitening :: "u16 \<Rightarrow> u8 list \<Rightarrow> u8 list" where
  "perform_data_whitening lfsr [] = []"
| "perform_data_whitening lfsr (b # bs) =
     (let (w, lfsr') = whitening_byte lfsr in (b XOR w) # perform_data_whitening lfsr' bs)"

lemma length_whitening [simp]: "length (perform_data_whitening l bs) = length bs"
  by (induction l bs rule: perform_data_whitening.induct) (simp_all split: prod.split)

section \<open>Checksums\<close>

abbreviation (input) POLYNOMIAL_CRC16 :: u16 where "POLYNOMIAL_CRC16 \<equiv> 0x1021"
abbreviation (input) POLYNOMIAL_CRC32 :: u32 where "POLYNOMIAL_CRC32 \<equiv> 0x04C11DB7"

definition crc16_bit :: "u16 \<Rightarrow> u16" where
  "crc16_bit c = (if c AND 0x8000 \<noteq> 0 then push_bit 1 c XOR POLYNOMIAL_CRC16 else push_bit 1 c)"

definition crc16_byte :: "u16 \<Rightarrow> u8 \<Rightarrow> u16" where
  "crc16_byte crc b = (crc16_bit ^^ 8) (crc XOR push_bit 8 (ucast b))"

definition compute_crc16 :: "u8 list \<Rightarrow> u16" where
  "compute_crc16 buffer = (if buffer = [] then 0 else foldl crc16_byte 0 buffer)"

definition crc32_bit :: "u32 \<Rightarrow> u32" where
  "crc32_bit c = (if c AND 0x80000000 \<noteq> 0 then push_bit 1 c XOR POLYNOMIAL_CRC32 else push_bit 1 c)"

definition crc32_byte :: "u32 \<Rightarrow> u8 \<Rightarrow> u32" where
  "crc32_byte crc b = (crc32_bit ^^ 8) (crc XOR push_bit 24 (ucast b))"

text \<open>A buffer of fewer than four bytes is filled up with zeros.\<close>

definition compute_crc32 :: "u8 list \<Rightarrow> u32" where
  "compute_crc32 buffer =
     (if buffer = [] then 0
      else NOT (foldl crc32_byte 0xFFFFFFFF (buffer @ replicate (4 - length buffer) 0)))"

section \<open>Parameters of the modulation and of packets\<close>

record fsk_modulation_params =
  bit_rate :: u32
  freq_dev :: u32
  mod_shaping :: u8
  bandwidth :: u8

record fsk_packet_params =
  preamble_length :: u16
  preamble_min_detect :: u8
  sync_word_length :: u8
  addr_comp :: u8
  header_type :: u8
  payload_length :: u8
  crc_type :: u8
  radio_whitening_mode :: u8

definition radio_mp_to_sx126x_mp :: "fsk_modulation_params \<Rightarrow> mod_params_gfsk" where
  "radio_mp_to_sx126x_mp mp =
     \<lparr>br_in_bps = bit_rate mp, fdev_in_hz = freq_dev mp, gfsk_mod_shape = mod_shaping mp,
      bw_dsb_param = bandwidth mp\<rparr>"

definition radio_pp_to_sx126x_pp :: "fsk_packet_params \<Rightarrow> pkt_params_gfsk" where
  "radio_pp_to_sx126x_pp pp =
     \<lparr>pbl_len_in_bits = (if preamble_length pp > 1 then push_bit 3 (preamble_length pp - 1) else 0),
      pbl_min_det = preamble_min_detect pp,
      sync_word_len_in_bits = push_bit 3 (sync_word_length pp),
      addr_cmp = addr_comp pp,
      gfsk_hdr_type = header_type pp,
      gfsk_pld_len_in_bytes = payload_length pp,
      gfsk_crc_type = crc_type pp,
      dc_free = radio_whitening_mode pp\<rparr>"

datatype radio_data_rate = DATA_RATE_INVALID | DATA_RATE_2KBPS | DATA_RATE_22KBPS
  | DATA_RATE_50KBPS | DATA_RATE_150KBPS | DATA_RATE_250KBPS | DATA_RATE_12_5KBPS | DATA_RATE_CUSTOM

definition sid_pal_radio_fsk_mod_params_to_data_rate :: "fsk_modulation_params \<Rightarrow> radio_data_rate" where
  "sid_pal_radio_fsk_mod_params_to_data_rate mp =
     (if bit_rate mp = 50000 \<and> freq_dev mp = 25000 \<and> bandwidth mp = 0x1A then DATA_RATE_50KBPS
      else if bit_rate mp = 150000 \<and> freq_dev mp = 37500 \<and> bandwidth mp = 0x19 then DATA_RATE_150KBPS
      else if bit_rate mp = 250000 \<and> freq_dev mp = 62500 \<and> bandwidth mp = 0x09 then DATA_RATE_250KBPS
      else DATA_RATE_INVALID)"

definition sid_pal_radio_fsk_data_rate_to_mod_params ::
  "fsk_modulation_params option \<Rightarrow> radio_data_rate \<Rightarrow> radio_error \<times> fsk_modulation_params option" where
  "sid_pal_radio_fsk_data_rate_to_mod_params mod_params data_rate =
     (case mod_params of
        None \<Rightarrow> (RADIO_ERROR_INVALID_PARAMS, None)
      | Some mp \<Rightarrow> (case data_rate of
          DATA_RATE_50KBPS \<Rightarrow> (RADIO_ERROR_NONE,
            Some (mp\<lparr>bit_rate := 50000, freq_dev := 25000, bandwidth := 0x1A, mod_shaping := 0x0B\<rparr>))
        | DATA_RATE_150KBPS \<Rightarrow> (RADIO_ERROR_NONE,
            Some (mp\<lparr>bit_rate := 150000, freq_dev := 37500, bandwidth := 0x19, mod_shaping := 0x09\<rparr>))
        | DATA_RATE_250KBPS \<Rightarrow> (RADIO_ERROR_NONE,
            Some (mp\<lparr>bit_rate := 250000, freq_dev := 62500, bandwidth := 0x09, mod_shaping := 0x09\<rparr>))
        | _ \<Rightarrow> (RADIO_ERROR_INVALID_PARAMS, Some mp)))"

section \<open>Frames\<close>

abbreviation (input) SX126X_FSK_PHY_HEADER_LENGTH :: nat where "SX126X_FSK_PHY_HEADER_LENGTH \<equiv> 2"
abbreviation (input) SX126X_FSK_WHITENING_SEED :: u16 where "SX126X_FSK_WHITENING_SEED \<equiv> 0x01FF"
abbreviation (input) RADIO_FSK_FCS_TYPE_0 :: u8 where "RADIO_FSK_FCS_TYPE_0 \<equiv> 0"
abbreviation (input) RADIO_FSK_FCS_TYPE_1 :: u8 where "RADIO_FSK_FCS_TYPE_1 \<equiv> 1"

record fsk_phy_hdr =
  fcs_type :: u8
  is_data_whitening_enabled :: bool
  is_fec_enabled :: bool

text \<open>
  A packet's configuration; the fields are pointers, \<open>None\<close> the null pointer. The synchronisation
  word and the payload are buffers with the length of their lists.
\<close>

record fsk_pkt_cfg =
  phy_hdr :: "fsk_phy_hdr option"
  packet_params :: "fsk_packet_params option"
  sync_word :: "u8 list option"
  pkt_payload :: "u8 list option"

definition fsk_sync_word :: "bool \<Rightarrow> u8 list" where
  "fsk_sync_word fec = [0x55, if fec then 0x6F else 0x90, 0x4E]"

text \<open>
  Both functions write into the caller's buffers. The outer \<open>None\<close> stands for a write past the
  end of one of them.
\<close>

definition sid_pal_radio_prepare_fsk_for_rx :: "fsk_pkt_cfg \<Rightarrow> (radio_error \<times> fsk_pkt_cfg) option" where
  "sid_pal_radio_prepare_fsk_for_rx c =
     (case (phy_hdr c, packet_params c, sync_word c) of
        (Some phr, Some pp, Some sw) \<Rightarrow>
          if length sw < 3 then None
          else Some (RADIO_ERROR_NONE, c\<lparr>
            packet_params := Some (pp\<lparr>preamble_min_detect := 0x05, sync_word_length := 3,
              addr_comp := 0, header_type := 0, payload_length := 255, crc_type := 1,
              radio_whitening_mode := 0\<rparr>),
            sync_word := Some (fsk_sync_word (is_fec_enabled phr) @ drop 3 sw)\<rparr>)
      | _ \<Rightarrow> Some (RADIO_ERROR_INVALID_PARAMS, c))"

text \<open>
  The frame check sequence of a payload, most significant byte first; \<open>None\<close> is a type that is
  not supported.
\<close>

definition fsk_fcs :: "u8 \<Rightarrow> u8 list \<Rightarrow> u8 list option" where
  "fsk_fcs t payload =
     (if t = RADIO_FSK_FCS_TYPE_0 then Some (be_u32 (compute_crc32 payload))
      else if t = RADIO_FSK_FCS_TYPE_1 then Some (be_u16 (compute_crc16 payload))
      else None)"

definition fsk_phr0 :: "fsk_phy_hdr \<Rightarrow> u8" where
  "fsk_phr0 phr = push_bit 4 (fcs_type phr) + (if is_data_whitening_enabled phr then 8 else 0)"

definition sid_pal_radio_prepare_fsk_for_tx :: "fsk_pkt_cfg \<Rightarrow> (radio_error \<times> fsk_pkt_cfg) option" where
  "sid_pal_radio_prepare_fsk_for_tx c =
     (case (phy_hdr c, packet_params c, sync_word c, pkt_payload c) of
        (Some phr, Some pp, Some sw, Some buf) \<Rightarrow>
          if payload_length pp = 0 \<or> preamble_length pp = 0 then Some (RADIO_ERROR_INVALID_PARAMS, c)
          else if (fcs_type phr = RADIO_FSK_FCS_TYPE_0 \<and> payload_length pp > 251) \<or>
                  (fcs_type phr = RADIO_FSK_FCS_TYPE_1 \<and> payload_length pp > 253)
          then Some (RADIO_ERROR_INVALID_PARAMS, c)
          else (let n = unat (payload_length pp); payload = take n buf in
            case fsk_fcs (fcs_type phr) payload of
              None \<Rightarrow> Some (RADIO_ERROR_NOT_SUPPORTED, c)
            | Some fcs \<Rightarrow>
                (let psdu_length = payload_length pp + word_of_nat (length fcs);
                     psdu = payload @ fcs;
                     white = (if is_data_whitening_enabled phr
                              then perform_data_whitening SX126X_FSK_WHITENING_SEED psdu else psdu)
                 in if length buf < SX126X_FSK_PHY_HEADER_LENGTH + n + length fcs \<or> length sw < 3
                    then None
                    else Some (RADIO_ERROR_NONE, c\<lparr>
                      packet_params := Some (pp\<lparr>sync_word_length := 3, addr_comp := 0,
                        header_type := 0,
                        payload_length := word_of_nat SX126X_FSK_PHY_HEADER_LENGTH + psdu_length,
                        crc_type := 1, radio_whitening_mode := 0\<rparr>),
                      sync_word := Some (fsk_sync_word (is_fec_enabled phr) @ drop 3 sw),
                      pkt_payload := Some (fsk_phr0 phr # psdu_length # white @
                        drop (SX126X_FSK_PHY_HEADER_LENGTH + length psdu) buf)\<rparr>)))
      | _ \<Rightarrow> Some (RADIO_ERROR_INVALID_PARAMS, c))"

section \<open>Times\<close>

definition sx126x_get_gfsk_crc_len_in_bytes :: "u8 \<Rightarrow> u32" where
  "sx126x_get_gfsk_crc_len_in_bytes t =
     (if t = 0x01 then 0 else if t = 0x00 then 1 else if t = 0x02 then 2
      else if t = 0x04 then 1 else if t = 0x06 then 2 else 0)"

definition sx126x_get_gfsk_time_on_air_numerator :: "pkt_params_gfsk \<Rightarrow> u32" where
  "sx126x_get_gfsk_time_on_air_numerator p =
     ucast (pbl_len_in_bits p) + (if gfsk_hdr_type p = 1 then 8 else 0) +
     ucast (sync_word_len_in_bits p) +
     push_bit 3 (ucast (gfsk_pld_len_in_bytes p) + (if addr_cmp p = 0 then 0 else 1) +
       sx126x_get_gfsk_crc_len_in_bytes (gfsk_crc_type p))"

definition sx126x_get_gfsk_time_on_air_in_ms :: "pkt_params_gfsk \<Rightarrow> mod_params_gfsk \<Rightarrow> u32" where
  "sx126x_get_gfsk_time_on_air_in_ms p m =
     (let numerator = 1000 * sx126x_get_gfsk_time_on_air_numerator p; denominator = br_in_bps m
      in (numerator + denominator - 1) div denominator)"

text \<open>The length in the second argument's place is overwritten by that of the parameters.\<close>

definition sid_pal_radio_fsk_time_on_air ::
  "fsk_modulation_params option \<Rightarrow> fsk_packet_params option \<Rightarrow> u8 \<Rightarrow> u32" where
  "sid_pal_radio_fsk_time_on_air mod_params pkt_params packetLen =
     (case (mod_params, pkt_params) of
        (Some mp, Some pp) \<Rightarrow>
          sx126x_get_gfsk_time_on_air_in_ms (radio_pp_to_sx126x_pp pp) (radio_mp_to_sx126x_mp mp)
      | _ \<Rightarrow> 0)"

definition sid_pal_radio_fsk_get_fsk_number_of_symbols :: "fsk_modulation_params \<Rightarrow> u32 \<Rightarrow> u32" where
  "sid_pal_radio_fsk_get_fsk_number_of_symbols mp delay_micro_secs =
     ucast (((ucast delay_micro_secs :: u64) * ucast (bit_rate mp)) div 1000000)"

definition fsk_process_delay :: "u16 \<Rightarrow> u32" where
  "fsk_process_delay d = (if d < 1000 \<or> d > 5000 then 1000 else ucast d)"

definition sid_pal_radio_get_fsk_tx_process_delay :: "u32 rm" where
  "sid_pal_radio_get_fsk_tx_process_delay = cfg (fsk_process_delay \<circ> tx_delay_us \<circ> state_timings)"

definition sid_pal_radio_get_fsk_rx_process_delay :: "u32 rm" where
  "sid_pal_radio_get_fsk_rx_process_delay = cfg (fsk_process_delay \<circ> rx_delay_us \<circ> state_timings)"

end
