(* ===== verification/Sx126x_Fsk.thy ===== *)
theory Sx126x_Fsk
  imports Fsk_Codec
begin

text \<open>
  The part of \<^verbatim>\<open>sx126x_radio_fsk.c\<close> that talks to the chip: the synchronisation word found, a
  packet received, the settings of the modem.
\<close>

section \<open>Synchronisation word found\<close>

definition set_rcv_payload :: "u8 list \<Rightarrow> unit rm" where
  "set_rcv_payload bs = modify (radio_rx_packet_update (rcv_payload_update (\<lambda>_. bs)))"

definition get_rcv_payload :: "u8 list rm" where
  "get_rcv_payload = gets (rcv_payload \<circ> radio_rx_packet)"

text \<open>Reading from the chip's buffer into the first bytes of the receive buffer.\<close>

definition read_into_payload :: "platform \<Rightarrow> u8 \<Rightarrow> nat \<Rightarrow> sx126x_status rm" where
  "read_into_payload P offset n = do {
     b \<leftarrow> get_rcv_payload;
     (status, d) \<leftarrow> sx126x_read_buffer P offset (take n b);
     _ \<leftarrow> set_rcv_payload (d @ drop n b);
     return status }"

text \<open>
  The driver waits until the chip has received the two bytes of the header. Nothing bounds the
  wait; \<open>None\<close> is a loop that never ends.
\<close>

partial_function (option) sync_poll :: "platform \<Rightarrow> u8 \<Rightarrow> radio \<Rightarrow> (radio_error \<times> radio) option" where
  "sync_poll P tmp s =
     (if tmp < 2 then
        (case run_state (sx126x_read_register P 0x0803 [tmp]) s of ((status, b), s') \<Rightarrow>
           if status \<noteq> SX126X_STATUS_OK then Some (RADIO_ERROR_IO_ERROR, s')
           else sync_poll P (hd b) s')
      else Some (RADIO_ERROR_NONE, s))"

declare sync_poll.simps [code]

text \<open>The mark that the synchronisation word was seen, in the third and fourth byte.\<close>

definition mark_sync_word :: "radio_error rm" where
  "mark_sync_word = do {
     buffer \<leftarrow> get_rcv_payload;
     _ \<leftarrow> set_rcv_payload (buffer[2 := 0xAB, 3 := 0xBA]);
     return RADIO_ERROR_NONE }"

text \<open>The rest of the function, with the error of the loop.\<close>

definition sync_word_header :: "platform \<Rightarrow> radio_error \<Rightarrow> radio_error rm" where
  "sync_word_header P err = do {
     st \<leftarrow> sx126x_get_rx_buffer_status P;
     case st of
       None \<Rightarrow> return RADIO_ERROR_IO_ERROR
     | Some (_, start) \<Rightarrow>
         if err \<noteq> RADIO_ERROR_NONE then return err
         else ok_else RADIO_ERROR_IO_ERROR (read_into_payload P start 2) (do {
           buffer \<leftarrow> get_rcv_payload;
           ok_else RADIO_ERROR_IO_ERROR (sx126x_write_register P 0x06BB [buffer ! 1 + 2])
             mark_sync_word }) }"

definition radio_fsk_process_sync_word_detected :: "platform \<Rightarrow> radio_error option rm" where
  "radio_fsk_process_sync_word_detected P = State (\<lambda>s.
     case sync_poll P 0 s of
       None \<Rightarrow> (None, s)
     | Some (err, s') \<Rightarrow> apfst Some (run_state (sync_word_header P err) s'))"

section \<open>Packet received\<close>

abbreviation (input) RX_DONE_STATUS_BAD_CRC :: int where "RX_DONE_STATUS_BAD_CRC \<equiv> 3"
abbreviation (input) RX_DONE_STATUS_TIMEOUT :: int where "RX_DONE_STATUS_TIMEOUT \<equiv> 4"
abbreviation (input) RX_DONE_STATUS_UNKNOWN_ERROR :: int where "RX_DONE_STATUS_UNKNOWN_ERROR \<equiv> 5"
abbreviation (input) RX_DONE_STATUS_SW_MARK_NOT_PRESENT :: int where
  "RX_DONE_STATUS_SW_MARK_NOT_PRESENT \<equiv> 6"

definition set_fsk_rx_status :: "int \<Rightarrow> int \<Rightarrow> unit rm" where
  "set_fsk_rx_status sync avg = do {
     g \<leftarrow> cfg lna_gain;
     modify (radio_rx_packet_update (fsk_rx_packet_status_update (\<lambda>r. r\<lparr>
       fsk_rssi_sync := word_of_int (sync - sint g),
       fsk_rssi_avg := word_of_int (avg - sint g),
       fsk_snr := 0\<rparr>))) }"

definition set_rx_payload_len :: "u8 \<Rightarrow> unit rm" where
  "set_rx_payload_len n = modify (radio_rx_packet_update (rx_payload_len_update (\<lambda>_. n)))"

text \<open>
  After the payload is read: the checksum and the signal strengths. The status variable of the
  caller is read before it is written when the checksum's type is known.
\<close>

definition fsk_check_packet :: "platform \<Rightarrow> u8 \<Rightarrow> u8 \<Rightarrow> int \<Rightarrow> (radio_error \<times> int) rm" where
  "fsk_check_packet P fcs_t length_temp rx_done_status = do {
     buffer \<leftarrow> get_rcv_payload;
     let crc_length = (if fcs_t = RADIO_FSK_FCS_TYPE_0 then 4 else 2);
         plen = unat length_temp - crc_length
     in case fsk_fcs fcs_t (take plen buffer) of
       None \<Rightarrow> do {
         _ \<leftarrow> set_rx_payload_len 0;
         return (RADIO_ERROR_GENERIC, RX_DONE_STATUS_UNKNOWN_ERROR) }
     | Some crc \<Rightarrow>
         if rx_done_status = RX_DONE_STATUS_UNKNOWN_ERROR
         then return (RADIO_ERROR_NONE, rx_done_status)
         else do {
           _ \<leftarrow> set_rx_payload_len (length_temp - word_of_nat crc_length);
           let (err, rx_done_status) =
             (if take crc_length (drop plen buffer) \<noteq> crc
              then (RADIO_ERROR_GENERIC, RX_DONE_STATUS_BAD_CRC)
              else (RADIO_ERROR_NONE, rx_done_status))
           in do {
             st \<leftarrow> sx126x_get_gfsk_pkt_status P;
             case st of
               None \<Rightarrow> return (RADIO_ERROR_IO_ERROR, RX_DONE_STATUS_TIMEOUT)
             | Some (_, sync, avg) \<Rightarrow> do {
                 _ \<leftarrow> set_fsk_rx_status sync avg;
                 return (err, rx_done_status) } } } }"

definition whiten_payload :: "nat \<Rightarrow> unit rm" where
  "whiten_payload n = do {
     b \<leftarrow> get_rcv_payload;
     set_rcv_payload (perform_data_whitening SX126X_FSK_WHITENING_SEED (take n b) @ drop n b) }"

definition unmark_sync_word :: "unit rm" where
  "unmark_sync_word = do {
     b \<leftarrow> get_rcv_payload;
     set_rcv_payload (b[2 := 0, 3 := 0]) }"

definition radio_fsk_process_rx_done :: "platform \<Rightarrow> int \<Rightarrow> (radio_error \<times> int) rm" where
  "radio_fsk_process_rx_done P rx_done_status = do {
     buffer \<leftarrow> get_rcv_payload;
     if u16_of_be (buffer ! 2) (buffer ! 3) \<noteq> 0xABBA
     then return (RADIO_ERROR_GENERIC, RX_DONE_STATUS_SW_MARK_NOT_PRESENT)
     else do {
       _ \<leftarrow> unmark_sync_word;
       let fcs_t = drop_bit 4 (buffer ! 0);
           whitening = (buffer ! 0 AND 8 \<noteq> 0);
           length_temp = buffer ! 1
       in if (fcs_t = RADIO_FSK_FCS_TYPE_0 \<and> length_temp \<le> 4) \<or>
             (fcs_t = RADIO_FSK_FCS_TYPE_1 \<and> length_temp \<le> 2)
          then return (RADIO_ERROR_IO_ERROR, RX_DONE_STATUS_BAD_CRC)
          else do {
            st \<leftarrow> sx126x_get_rx_buffer_status P;
            case st of
              None \<Rightarrow> return (RADIO_ERROR_IO_ERROR, rx_done_status)
            | Some (_, start) \<Rightarrow> do {
                status \<leftarrow> read_into_payload P (start + 2) (unat length_temp);
                if status \<noteq> SX126X_STATUS_OK
                then return (RADIO_ERROR_IO_ERROR, RX_DONE_STATUS_TIMEOUT)
                else do {
                  _ \<leftarrow> (if whitening then whiten_payload (unat length_temp) else return ());
                  fsk_check_packet P fcs_t length_temp rx_done_status } } } } }"

section \<open>Settings\<close>

definition sid_pal_radio_set_fsk_sync_word :: "platform \<Rightarrow> u8 list \<Rightarrow> radio_error rm" where
  "sid_pal_radio_set_fsk_sync_word P sw =
     ok_else RADIO_ERROR_HARDWARE_ERROR (sx126x_set_gfsk_sync_word P sw) (return RADIO_ERROR_NONE)"

definition sid_pal_radio_set_fsk_whitening_seed :: "u16 \<Rightarrow> radio_error rm" where
  "sid_pal_radio_set_fsk_whitening_seed seed = return RADIO_ERROR_NONE"

definition sid_pal_radio_set_fsk_modulation_params ::
  "platform \<Rightarrow> fsk_modulation_params option \<Rightarrow> radio_error rm" where
  "sid_pal_radio_set_fsk_modulation_params P mod_params =
     (case mod_params of
        None \<Rightarrow> return RADIO_ERROR_INVALID_PARAMS
      | Some mp \<Rightarrow> ok_else RADIO_ERROR_HARDWARE_ERROR
          (sx126x_set_gfsk_mod_params P (radio_mp_to_sx126x_mp mp)) (return RADIO_ERROR_NONE))"

definition sid_pal_radio_set_fsk_packet_params ::
  "platform \<Rightarrow> fsk_packet_params option \<Rightarrow> radio_error rm" where
  "sid_pal_radio_set_fsk_packet_params P pkt_params =
     (case pkt_params of
        None \<Rightarrow> return RADIO_ERROR_INVALID_PARAMS
      | Some pp \<Rightarrow> ok_else RADIO_ERROR_HARDWARE_ERROR
          (sx126x_set_gfsk_pkt_params P (radio_pp_to_sx126x_pp pp)) (return RADIO_ERROR_NONE))"

end
