(* ===== verification/Sx126x_Lora.thy ===== *)
theory Sx126x_Lora
  imports Sx126x_Fsk "HOL-Library.Signed_Division"
begin

text \<open>
  The LoRa side of the radio layer, \<^verbatim>\<open>sx126x_radio_lora.c\<close>, with the times on air of
  \<^verbatim>\<open>sx126x.c\<close> and the delays of \<^verbatim>\<open>sx126x_timings.c\<close>.
\<close>

section \<open>Parameters\<close>

record lora_modulation_params =
  spreading_factor :: u8
  lora_bandwidth :: u8
  coding_rate :: u8

record lora_packet_params =
  lora_preamble_length :: u16
  lora_header_type :: u8
  lora_payload_length :: u8
  crc_mode :: u8
  invert_IQ :: u8

definition lora_low_data_rate_optimize :: "u8 \<Rightarrow> u8 \<Rightarrow> bool" where
  "lora_low_data_rate_optimize sf bw \<longleftrightarrow> (bw = 4 \<and> (sf = 11 \<or> sf = 12)) \<or> (bw = 5 \<and> sf = 12)"

definition radio_to_sx126x_lora_modulation_params :: "lora_modulation_params \<Rightarrow> mod_params_lora" where
  "radio_to_sx126x_lora_modulation_params m =
     \<lparr>lora_sf = spreading_factor m, lora_bw = lora_bandwidth m, lora_cr = coding_rate m,
      ldro = of_bool (lora_low_data_rate_optimize (spreading_factor m) (lora_bandwidth m))\<rparr>"

definition radio_to_sx126x_lora_packet_params :: "lora_packet_params \<Rightarrow> pkt_params_lora" where
  "radio_to_sx126x_lora_packet_params p =
     \<lparr>pbl_len_in_symb = lora_preamble_length p, lora_hdr_type = lora_header_type p,
      lora_pld_len_in_bytes = lora_payload_length p, crc_is_on = (crc_mode p \<noteq> 0),
      invert_iq_is_on = (invert_IQ p \<noteq> 0)\<rparr>"

definition sid_pal_radio_lora_mod_params_to_data_rate :: "lora_modulation_params \<Rightarrow> radio_data_rate" where
  "sid_pal_radio_lora_mod_params_to_data_rate m =
     (if spreading_factor m = 7 \<and> lora_bandwidth m = 6 \<and> coding_rate m = 2 then DATA_RATE_22KBPS
      else if spreading_factor m = 8 \<and> lora_bandwidth m = 6 \<and> coding_rate m = 5 then DATA_RATE_12_5KBPS
      else if spreading_factor m = 11 \<and> lora_bandwidth m = 6 \<and> (coding_rate m = 1 \<or> coding_rate m = 5)
      then DATA_RATE_2KBPS
      else DATA_RATE_INVALID)"

definition sid_pal_radio_lora_data_rate_to_mod_params ::
  "lora_modulation_params \<Rightarrow> radio_data_rate \<Rightarrow> u8 \<Rightarrow> radio_error \<times> lora_modulation_params" where
  "sid_pal_radio_lora_data_rate_to_mod_params m data_rate li_enable =
     (case data_rate of
        DATA_RATE_22KBPS \<Rightarrow>
          (RADIO_ERROR_NONE, m\<lparr>spreading_factor := 7, lora_bandwidth := 6, coding_rate := 2\<rparr>)
      | DATA_RATE_12_5KBPS \<Rightarrow>
          (RADIO_ERROR_NONE, m\<lparr>spreading_factor := 8, lora_bandwidth := 6, coding_rate := 5\<rparr>)
      | DATA_RATE_2KBPS \<Rightarrow>
          (RADIO_ERROR_NONE, m\<lparr>spreading_factor := 11, lora_bandwidth := 6,
             coding_rate := (if li_enable \<noteq> 0 then 5 else 1)\<rparr>)
      | _ \<Rightarrow> (RADIO_ERROR_NOT_SUPPORTED, m))"

section \<open>Packet received\<close>

text \<open>The payload is read into the first bytes of the buffer; its length is set on success.\<close>

definition get_payload :: "platform \<Rightarrow> nat \<Rightarrow> radio_error rm" where
  "get_payload P max_size = do {
     st \<leftarrow> sx126x_get_rx_buffer_status P;
     case st of
       None \<Rightarrow> return RADIO_ERROR_IO_ERROR
     | Some (pld_len, start) \<Rightarrow>
         if unat pld_len > max_size then return RADIO_ERROR_NOMEM
         else ok_else RADIO_ERROR_IO_ERROR (read_into_payload P start (unat pld_len)) (do {
           _ \<leftarrow> set_rx_payload_len pld_len;
           return RADIO_ERROR_NONE }) }"

definition upd_lora_status :: "(lora_rx_packet_status_t \<Rightarrow> lora_rx_packet_status_t) \<Rightarrow> unit rm" where
  "upd_lora_status f = modify (radio_rx_packet_update (lora_rx_packet_status_update f))"

definition get_lora_crc_present_in_header :: "platform \<Rightarrow> radio_error rm" where
  "get_lora_crc_present_in_header P = do {
     h \<leftarrow> sx126x_get_lora_params_from_header P;
     case h of
       None \<Rightarrow> do { _ \<leftarrow> upd_lora_status (is_crc_present_update (\<lambda>_. 0)); return RADIO_ERROR_GENERIC }
     | Some (cr, is_crc_on) \<Rightarrow> do {
         _ \<leftarrow> upd_lora_status (is_crc_present_update (\<lambda>_. if is_crc_on then 2 else 1));
         return RADIO_ERROR_NONE } }"

text \<open>A negative signal-to-noise ratio is added to the signal strength.\<close>

definition lora_set_status :: "int \<Rightarrow> int \<Rightarrow> int \<Rightarrow> unit rm" where
  "lora_set_status rssi snr signal = do {
     g \<leftarrow> cfg lna_gain;
     upd_lora_status (\<lambda>r. r\<lparr>
       lora_rssi := word_of_int (rssi - sint g) + (if snr < 0 then word_of_int snr else 0),
       lora_snr := word_of_int snr,
       lora_signal_rssi := word_of_int (signal - sint g)\<rparr>) }"

definition radio_lora_process_rx_done :: "platform \<Rightarrow> radio_error rm" where
  "radio_lora_process_rx_done P =
     chk (get_payload P 255) (do {
       st \<leftarrow> sx126x_get_lora_pkt_status P;
       case st of
         None \<Rightarrow> return RADIO_ERROR_IO_ERROR
       | Some (rssi, snr, signal) \<Rightarrow> do {
           _ \<leftarrow> lora_set_status rssi snr signal;
           get_lora_crc_present_in_header P } })"

section \<open>Settings\<close>

definition sid_pal_radio_set_lora_sync_word :: "platform \<Rightarrow> u16 \<Rightarrow> radio_error rm" where
  "sid_pal_radio_set_lora_sync_word P sw =
     ok_else RADIO_ERROR_HARDWARE_ERROR
       (sx126x_set_lora_sync_word P (if sw = 0x1424 then 0x12 else 0x34))
       (return RADIO_ERROR_NONE)"

definition sid_pal_radio_set_lora_symbol_timeout :: "platform \<Rightarrow> u8 \<Rightarrow> radio_error rm" where
  "sid_pal_radio_set_lora_symbol_timeout P num_of_symbols =
     ok_else RADIO_ERROR_HARDWARE_ERROR
       (sx126x_set_lora_symb_nb_timeout P num_of_symbols) (return RADIO_ERROR_NONE)"

definition sid_pal_radio_set_lora_modulation_params ::
  "platform \<Rightarrow> lora_modulation_params \<Rightarrow> radio_error rm" where
  "sid_pal_radio_set_lora_modulation_params P m =
     ok_else RADIO_ERROR_HARDWARE_ERROR
       (sx126x_set_lora_mod_params P (radio_to_sx126x_lora_modulation_params m))
       (return RADIO_ERROR_NONE)"

definition sid_pal_radio_set_lora_packet_params ::
  "platform \<Rightarrow> lora_packet_params \<Rightarrow> radio_error rm" where
  "sid_pal_radio_set_lora_packet_params P p =
     ok_else RADIO_ERROR_HARDWARE_ERROR
       (sx126x_set_lora_pkt_params P (radio_to_sx126x_lora_packet_params p)) (do {
         iq_reg \<leftarrow> gets (junk_of P \<circ> calls);
         ok_else RADIO_ERROR_HARDWARE_ERROR
           (update_register P 0x0736 iq_reg (iq_polarity (invert_IQ p \<noteq> 0)))
           (return RADIO_ERROR_NONE) })"

record lora_cad_params_t =
  cad_symbol_num :: u8
  cad_detect_peak :: u8
  cad_detect_min :: u8
  pal_cad_exit_mode :: u8
  pal_cad_timeout :: u32

definition set_lora_exit_mode :: "cad_exit_mode_t \<Rightarrow> unit rm" where
  "set_lora_exit_mode m = modify (cad_exit_mode_update (\<lambda>_. m))"

text \<open>The three exit modes the chip has, by their values.\<close>

definition lora_exit_mode_of :: "u8 \<Rightarrow> cad_exit_mode_t option" where
  "lora_exit_mode_of m =
     (if m = 0x00 then Some CAD_EXIT_CS_ONLY else if m = 0x01 then Some CAD_EXIT_CS_RX
      else if m = 0x10 then Some CAD_EXIT_CS_LBT else None)"

definition sid_pal_radio_set_lora_cad_params :: "platform \<Rightarrow> lora_cad_params_t \<Rightarrow> radio_error rm" where
  "sid_pal_radio_set_lora_cad_params P c =
     (case lora_exit_mode_of (pal_cad_exit_mode c) of
        None \<Rightarrow> return RADIO_ERROR_INVALID_PARAMS
      | Some m \<Rightarrow> do {
          _ \<leftarrow> set_lora_exit_mode m;
          ok_else RADIO_ERROR_HARDWARE_ERROR
            (sx126x_set_cad_params P \<lparr>cad_symb_nb = cad_symbol_num c, cad_det_peak = cad_detect_peak c,
               cad_det_min = cad_detect_min c, lora_cad_exit_mode = pal_cad_exit_mode c,
               cad_timeout = pal_cad_timeout c\<rparr>)
            (return RADIO_ERROR_NONE) })"

section \<open>Time on air\<close>

definition sx126x_get_lora_bw_in_hz :: "u8 \<Rightarrow> u32" where
  "sx126x_get_lora_bw_in_hz bw =
     (if bw = 0 then 7812 else if bw = 8 then 10417 else if bw = 1 then 15625
      else if bw = 9 then 20833 else if bw = 2 then 31250 else if bw = 10 then 41667
      else if bw = 3 then 62500 else if bw = 4 then 125000 else if bw = 5 then 250000
      else if bw = 6 then 500000 else 0)"

text \<open>
  The number of data symbols, in the signed 32-bit arithmetic of the source. For the parameters of
  the modem no intermediate value leaves the range, so the integers stand for themselves.
\<close>

definition lora_symbols_li :: "bool \<Rightarrow> int \<Rightarrow> int \<Rightarrow> int \<Rightarrow> int \<Rightarrow> int \<Rightarrow> int \<Rightarrow> int \<times> int" where
  "lora_symbols_li pld_is_fix sf fine_synch cr pld_len total_bytes_nb tx_bits_symbol =
     (let den = cr + (if cr = 7 then 1 else 0)
      in if pld_is_fix then
           (let start = sf - 2 + 2 * fine_synch
            in if 8 * total_bytes_nb * den \<le> 7 * 4 * start
               then (8 * total_bytes_nb * den, 4 * start)
               else (8 * 4 * tx_bits_symbol + 8 * total_bytes_nb * den - 4 * (start * 8), 4 * tx_bits_symbol))
         else
           (let h0 = (sf * 4 + fine_synch * 8 - 28) AND NOT 7;
                h = (if h0 < 8 * total_bytes_nb \<and> h0 > 8 * pld_len then 8 * pld_len else h0);
                p = max 0 (8 * total_bytes_nb - h)
            in (p * den + 8 * 4 * tx_bits_symbol, 4 * tx_bits_symbol)))"

definition sx126x_get_lora_time_on_air_numerator :: "pkt_params_lora \<Rightarrow> mod_params_lora \<Rightarrow> u32" where
  "sx126x_get_lora_time_on_air_numerator p m =
     (let pld_len = int (unat (lora_pld_len_in_bytes p));
          sf = int (unat (lora_sf m));
          cr = int (unat (lora_cr m));
          pld_is_fix = (lora_hdr_type p = 1);
          fine_synch = (if sf \<le> 6 then 1 else 0);
          long_interleaving = (cr > 4);
          total_bytes_nb = pld_len + (if crc_is_on p then 2 else 0);
          tx_bits_symbol = sf - 2 * (if ldro m \<noteq> 0 then 1 else 0);
          (num, den) =
            (if long_interleaving
             then lora_symbols_li pld_is_fix sf fine_synch cr pld_len total_bytes_nb tx_bits_symbol
             else (let h = sf * 4 + fine_synch * 8 - 8 - (if pld_is_fix then 0 else 20)
                   in (max 0 (8 * total_bytes_nb - h), 4 * tx_bits_symbol)));
          symbols = (num + den - 1) sdiv den;
          symbols_nb_data = (if long_interleaving then symbols else symbols * (cr + 4) + 8);
          intermed = int (unat (pbl_len_in_symb p)) + 4 + 2 * fine_synch + symbols_nb_data
      in word_of_int ((4 * intermed + 1) * 2 ^ nat (sf - 2)) - 1)"

definition sx126x_get_lora_time_on_air_in_ms :: "pkt_params_lora \<Rightarrow> mod_params_lora \<Rightarrow> u32" where
  "sx126x_get_lora_time_on_air_in_ms p m =
     (let numerator = 1000 * sx126x_get_lora_time_on_air_numerator p m;
          denominator = sx126x_get_lora_bw_in_hz (lora_bw m)
      in (numerator + denominator - 1) div denominator)"

definition sx126x_get_lora_cad_duration_microsecs :: "u8 \<Rightarrow> mod_params_lora \<Rightarrow> u32" where
  "sx126x_get_lora_cad_duration_microsecs symbol m = 2000"

definition sid_pal_radio_lora_cad_duration :: "u8 \<Rightarrow> lora_modulation_params \<Rightarrow> u32" where
  "sid_pal_radio_lora_cad_duration symbol m =
     sx126x_get_lora_cad_duration_microsecs symbol (radio_to_sx126x_lora_modulation_params m)"

definition sid_pal_radio_lora_time_on_air ::
  "lora_modulation_params \<Rightarrow> lora_packet_params \<Rightarrow> u8 \<Rightarrow> u32" where
  "sid_pal_radio_lora_time_on_air m p packet_len =
     sx126x_get_lora_time_on_air_in_ms
       ((radio_to_sx126x_lora_packet_params p)\<lparr>lora_pld_len_in_bytes := packet_len\<rparr>)
       (radio_to_sx126x_lora_modulation_params m)"

section \<open>Symbols and delays\<close>

text \<open>
  The duration of a symbol in microseconds, by bandwidth and spreading factor; \<open>None\<close> is an index
  outside of the table.
\<close>

definition radio_lora_symb_time :: "u32 list list" where
  "radio_lora_symb_time =
     [[32768, 16384, 8192, 4096, 2048, 1024, 512, 256],
      [16384, 8192, 4096, 2048, 1024, 512, 256, 128],
      [8192, 4096, 2048, 1024, 512, 256, 128, 64]]"

definition lora_symb_time :: "lora_modulation_params \<Rightarrow> u32 option" where
  "lora_symb_time m =
     (if 4 \<le> lora_bandwidth m \<and> lora_bandwidth m \<le> 6 \<and> 5 \<le> spreading_factor m \<and> spreading_factor m \<le> 12
      then Some (radio_lora_symb_time ! unat (lora_bandwidth m - 4) ! unat (12 - spreading_factor m))
      else None)"

definition sid_pal_radio_lora_get_lora_number_of_symbols ::
  "lora_modulation_params option \<Rightarrow> u32 \<Rightarrow> u32 option" where
  "sid_pal_radio_lora_get_lora_number_of_symbols mod_params delay_micro_sec =
     (case mod_params of
        None \<Rightarrow> Some 0
      | Some m \<Rightarrow> map_option (\<lambda>ts.
          let numsymbols = delay_micro_sec div ts
          in if delay_micro_sec > ts * numsymbols then numsymbols + 1 else numsymbols)
          (lora_symb_time m))"

definition sid_pal_radio_get_lora_symbol_timeout_us ::
  "lora_modulation_params option \<Rightarrow> u8 \<Rightarrow> u32 option" where
  "sid_pal_radio_get_lora_symbol_timeout_us mod_params number_of_symbol =
     (case mod_params of
        None \<Rightarrow> Some 0
      | Some m \<Rightarrow> map_option (\<lambda>ts. ts * ucast number_of_symbol) (lora_symb_time m))"

definition sid_pal_radio_get_lora_tx_process_delay :: u32 where
  "sid_pal_radio_get_lora_tx_process_delay = 336"

definition sid_pal_radio_get_lora_rx_process_delay :: u32 where
  "sid_pal_radio_get_lora_rx_process_delay = 286"

text \<open>The delays of \<^verbatim>\<open>sx126x_timings.c\<close>, in unsigned 32-bit arithmetic.\<close>

definition sx126x_timings_get_pa_ramp_time_in_us :: "u8 \<Rightarrow> u32" where
  "sx126x_timings_get_pa_ramp_time_in_us ramp =
     (if ramp = 0 then 10 else if ramp = 1 then 20 else if ramp = 2 then 40 else if ramp = 3 then 80
      else if ramp = 4 then 200 else if ramp = 5 then 800 else if ramp = 6 then 1700
      else if ramp = 7 then 3400 else 0)"

definition sx126x_timings_get_lora_clock_freq_in_hz :: "u8 \<Rightarrow> u32" where
  "sx126x_timings_get_lora_clock_freq_in_hz bw =
     (if bw = 6 then 32 * 500000 else if bw = 5 then 32 * 250000 else if bw = 4 then 32 * 125000 else 0)"

definition sx126x_timings_get_lora_rx_input_delay_in_us :: "u8 \<Rightarrow> u32" where
  "sx126x_timings_get_lora_rx_input_delay_in_us bw =
     (if bw = 6 then 16 else if bw = 5 then 31 else if bw = 4 then 57 else 0)"

definition sx126x_timings_get_lora_rx_base_delay_in_tick :: "u8 \<Rightarrow> u32" where
  "sx126x_timings_get_lora_rx_base_delay_in_tick sf = push_bit (unat sf + 1) (ucast sf + 1)"

definition sx126x_timings_get_lora_rx_symb_delay_in_tick :: "u8 \<Rightarrow> u32" where
  "sx126x_timings_get_lora_rx_symb_delay_in_tick sf = push_bit (unat sf) 1"

definition sx126x_timings_get_lora_rx_data_delay_in_tick :: "mod_params_lora \<Rightarrow> pkt_params_lora \<Rightarrow> u32" where
  "sx126x_timings_get_lora_rx_data_delay_in_tick m p =
     (let sf = ucast (lora_sf m);
          fine_sync = (if lora_sf m = 5 \<or> lora_sf m = 6 then 1 else 0);
          cr_len = (if lora_cr m = 7 then ucast (lora_cr m) + 1 else ucast (lora_cr m));
          crc_len = (if crc_is_on p then 1 else 0);
          pld = ucast (lora_pld_len_in_bytes p)
      in if lora_cr m \<in> {1, 2, 3, 4}
         then (2 * (pld + 2 * crc_len) - (sf + 2 * fine_sync - 7)) mod sf * 16 * (4 + cr_len) + 5
         else (let pld_len = pld + 2 * crc_len - (sf + 2 * fine_sync - 7) div 2
               in 2 * pld_len * (5 + cr_len) + (2 * pld_len * cr_len mod sf) + 4))"

definition sx126x_timings_get_lora_rx_phy_delay_in_us :: "mod_params_lora \<Rightarrow> pkt_params_lora \<Rightarrow> u32" where
  "sx126x_timings_get_lora_rx_phy_delay_in_us m p =
     (let cycles = sx126x_timings_get_lora_rx_base_delay_in_tick (lora_sf m) +
            sx126x_timings_get_lora_rx_symb_delay_in_tick (lora_sf m) +
            sx126x_timings_get_lora_rx_data_delay_in_tick m p;
          mhz = sx126x_timings_get_lora_clock_freq_in_hz (lora_bw m) div 1000000
      in if mhz \<noteq> 0 then (cycles + mhz - 1) div mhz else 0)"

definition sx126x_timings_get_delay_between_last_bit_sent_and_rx_done_in_us ::
  "mod_params_lora \<Rightarrow> pkt_params_lora \<Rightarrow> u32" where
  "sx126x_timings_get_delay_between_last_bit_sent_and_rx_done_in_us m p =
     sx126x_timings_get_lora_rx_input_delay_in_us (lora_bw m) +
     sx126x_timings_get_lora_rx_phy_delay_in_us m p + 54"

definition sx126x_timings_get_delay_between_last_bit_sent_and_tx_done_in_us :: "u8 \<Rightarrow> u32" where
  "sx126x_timings_get_delay_between_last_bit_sent_and_tx_done_in_us ramp =
     sx126x_timings_get_pa_ramp_time_in_us ramp + 53"

definition sid_pal_radio_get_lora_rx_done_delay ::
  "lora_modulation_params \<Rightarrow> lora_packet_params \<Rightarrow> u32" where
  "sid_pal_radio_get_lora_rx_done_delay m p =
     sx126x_timings_get_delay_between_last_bit_sent_and_rx_done_in_us
       (radio_to_sx126x_lora_modulation_params m) (radio_to_sx126x_lora_packet_params p)"

end
