(* ===== verification/Sx126x_Radio.thy ===== *)
theory Sx126x_Radio
  imports Sx126x_Lora
begin

text \<open>
  The radio interface over the SX126x, \<^verbatim>\<open>sx126x_radio.c\<close>: the state machine of sleep, standby,
  transmission, reception and channel activity detection, the interrupt handler, and the
  settings of frequency, power and region. The build does not define the transmit power
  workaround, the diagnostics or the board's expander, so their branches are left out.
\<close>

section \<open>Interrupts of the chip\<close>

abbreviation (input) RADIO_IRQ_NONE :: u16 where "RADIO_IRQ_NONE \<equiv> 0"
abbreviation (input) RADIO_IRQ_ALL :: u16 where "RADIO_IRQ_ALL \<equiv> 0x3FF"
abbreviation (input) SX126X_DEFAULT_LORA_IRQ_MASK :: u16 where
  "SX126X_DEFAULT_LORA_IRQ_MASK \<equiv> RADIO_IRQ_ALL AND NOT (0x4 OR 0x8)"
abbreviation (input) SX126X_DEFAULT_FSK_IRQ_MASK :: u16 where
  "SX126X_DEFAULT_FSK_IRQ_MASK \<equiv> RADIO_IRQ_ALL AND NOT 0x4"

definition radio_set_irq_mask :: "platform \<Rightarrow> u16 \<Rightarrow> radio_error rm" where
  "radio_set_irq_mask P irqs =
     ok_else RADIO_ERROR_IO_ERROR
       (sx126x_set_dio_irq_params P irqs irqs RADIO_IRQ_NONE RADIO_IRQ_NONE) (return RADIO_ERROR_NONE)"

definition radio_enable_irq :: "platform \<Rightarrow> radio_error rm" where
  "radio_enable_irq P = do {
     irqs \<leftarrow> gets irq_mask;
     ok_else RADIO_ERROR_IO_ERROR
       (sx126x_set_dio_irq_params P irqs irqs RADIO_IRQ_NONE RADIO_IRQ_NONE) (return RADIO_ERROR_NONE) }"

definition radio_disable_irq :: "platform \<Rightarrow> radio_error rm" where
  "radio_disable_irq P =
     ok_else RADIO_ERROR_IO_ERROR
       (sx126x_set_dio_irq_params P RADIO_IRQ_NONE RADIO_IRQ_NONE RADIO_IRQ_NONE RADIO_IRQ_NONE)
       (return RADIO_ERROR_NONE)"

definition radio_clear_irq_status_all :: "platform \<Rightarrow> radio_error rm" where
  "radio_clear_irq_status_all P =
     ok_else RADIO_ERROR_HARDWARE_ERROR (sx126x_clear_irq_status P 0x3FF) (return RADIO_ERROR_NONE)"

text \<open>The interrupt of the pin: the time of reception, then the handler of the upper layer.\<close>

definition radio_irq :: "platform \<Rightarrow> u32 \<Rightarrow> unit rm" where
  "radio_irq P pin = do {
     r \<leftarrow> call P (Gpio_read pin);
     level \<leftarrow> gets (pin_of P \<circ> calls);
     if r = SID_ERROR_NONE \<and> level then do {
       _ \<leftarrow> emit Clock_now;
       t \<leftarrow> gets (clock_of P \<circ> calls);
       _ \<leftarrow> modify (radio_rx_packet_update (rcv_tm_update (\<lambda>_. t)));
       emit Irq_handler_cb }
     else return () }"

section \<open>Modem mode\<close>

definition radio_set_modem_to_lora_mode :: "platform \<Rightarrow> radio_error rm" where
  "radio_set_modem_to_lora_mode P =
     ok_else RADIO_ERROR_HARDWARE_ERROR (sx126x_set_pkt_type P 1) (do {
       _ \<leftarrow> modify (\<lambda>s. s\<lparr>modem := MODEM_MODE_LORA, irq_mask := SX126X_DEFAULT_LORA_IRQ_MASK\<rparr>);
       ok_else RADIO_ERROR_HARDWARE_ERROR (radio_enable_irq P) (return RADIO_ERROR_NONE) })"

definition radio_set_modem_to_fsk_mode :: "platform \<Rightarrow> radio_error rm" where
  "radio_set_modem_to_fsk_mode P =
     ok_else RADIO_ERROR_HARDWARE_ERROR (sx126x_set_pkt_type P 0) (do {
       _ \<leftarrow> modify (\<lambda>s. s\<lparr>modem := MODEM_MODE_FSK, irq_mask := SX126X_DEFAULT_FSK_IRQ_MASK\<rparr>);
       ok_else RADIO_ERROR_HARDWARE_ERROR (radio_enable_irq P) (return RADIO_ERROR_NONE) })"

definition sid_pal_radio_set_modem_mode :: "platform \<Rightarrow> radio_modem_mode \<Rightarrow> radio_error rm" where
  "sid_pal_radio_set_modem_mode P mode =
     (case mode of MODEM_MODE_LORA \<Rightarrow> radio_set_modem_to_lora_mode P
      | MODEM_MODE_FSK \<Rightarrow> radio_set_modem_to_fsk_mode P)"

definition sid_pal_radio_get_modem_mode :: "radio_modem_mode rm" where
  "sid_pal_radio_get_modem_mode = gets modem"

definition sid_pal_radio_get_status :: "radio_state_t rm" where
  "sid_pal_radio_get_status = gets radio_state"

section \<open>Trim capacitors\<close>

definition set_trim_cap_val_to_radio :: "platform \<Rightarrow> u8 \<Rightarrow> u8 \<Rightarrow> radio_error rm" where
  "set_trim_cap_val_to_radio P xta xtb = do {
     tcxo \<leftarrow> cfg tcxo_ctrl;
     dio3 \<leftarrow> cfg has_dio3_cb;
     st \<leftarrow> gets radio_state;
     if tcxo \<noteq> TCXO_CTRL_NONE then return RADIO_ERROR_NONE
     else chk
       (if st = RADIO_SLEEP \<or> st = RADIO_UNKNOWN
        then ok_else RADIO_ERROR_HARDWARE_ERROR (sx126x_wakeup P)
          (ok_else RADIO_ERROR_HARDWARE_ERROR (only_if dio3 (call P (Dio3_cfg_cb 2)))
            (return RADIO_ERROR_NONE))
        else return RADIO_ERROR_NONE)
       (ok_else RADIO_ERROR_HARDWARE_ERROR (sx126x_set_standby P 1) (do {
         _ \<leftarrow> emit (Delay_us SEMTECH_STDBY_STATE_DELAY_US);
         ok_else RADIO_ERROR_IO_ERROR (sx126x_set_xtal_trim P xta xtb) (return RADIO_ERROR_NONE) })) }"

definition trim_to_radio :: "platform \<Rightarrow> radio_error rm" where
  "trim_to_radio P = do {
     t \<leftarrow> gets trim;
     set_trim_cap_val_to_radio P (ucast (drop_bit 8 t)) (ucast (t AND 0xFF)) }"

definition set_radio_sx126x_trim_cap_val :: "platform \<Rightarrow> u16 \<Rightarrow> radio_error rm" where
  "set_radio_sx126x_trim_cap_val P t =
     chk (set_trim_cap_val_to_radio P (ucast (drop_bit 8 t)) (ucast (t AND 0xFF))) (do {
       _ \<leftarrow> modify (trim_update (\<lambda>_. t));
       return RADIO_ERROR_NONE })"

definition get_radio_sx126x_trim_cap_val :: "u16 rm" where
  "get_radio_sx126x_trim_cap_val = gets trim"

section \<open>Sleep and standby\<close>

definition set_state :: "radio_state_t \<Rightarrow> radio_error rm" where
  "set_state st = do { _ \<leftarrow> modify (radio_state_update (\<lambda>_. st)); return RADIO_ERROR_NONE }"

definition sid_pal_radio_sleep :: "platform \<Rightarrow> u32 \<Rightarrow> radio_error rm" where
  "sid_pal_radio_sleep P sleep_us = do {
     st \<leftarrow> gets radio_state;
     dio3 \<leftarrow> cfg has_dio3_cb;
     if st = RADIO_SLEEP then return RADIO_ERROR_NONE
     else chk (radio_clear_irq_status_all P)
       (chk (radio_sx126x_set_radio_mode P False False)
       (ok_else RADIO_ERROR_HARDWARE_ERROR (only_if dio3 (call P (Dio3_cfg_cb 1)))
       (ok_else RADIO_ERROR_HARDWARE_ERROR (sx126x_set_sleep P 4) (do {
         _ \<leftarrow> set_gpio_cfg_sleep P;
         set_state RADIO_SLEEP })))) }"

text \<open>The wake-up of \<^verbatim>\<open>sid_pal_radio_standby\<close>; only a chip that slept is in standby at once.\<close>

definition standby_wakeup :: "platform \<Rightarrow> radio_error rm" where
  "standby_wakeup P = do {
     st \<leftarrow> gets radio_state;
     dio3 \<leftarrow> cfg has_dio3_cb;
     if st = RADIO_SLEEP \<or> st = RADIO_UNKNOWN
     then ok_else RADIO_ERROR_HARDWARE_ERROR (sx126x_wakeup P)
       (ok_else RADIO_ERROR_HARDWARE_ERROR (only_if dio3 (call P (Dio3_cfg_cb 2)))
         (if st = RADIO_SLEEP then set_state RADIO_STANDBY else return RADIO_ERROR_NONE))
     else return RADIO_ERROR_NONE }"

definition sid_pal_radio_standby :: "platform \<Rightarrow> radio_error rm" where
  "sid_pal_radio_standby P = do {
     st \<leftarrow> gets radio_state;
     if st = RADIO_STANDBY then return RADIO_ERROR_NONE
     else chk (standby_wakeup P)
       (chk (radio_clear_irq_status_all P)
       (chk (radio_sx126x_set_radio_mode P False False) (do {
         _ \<leftarrow> emit (Delay_us SEMTECH_STDBY_STATE_DELAY_US);
         st \<leftarrow> gets radio_state;
         ok_else RADIO_ERROR_HARDWARE_ERROR
           (only_if (st \<noteq> RADIO_STANDBY) (sx126x_set_standby P 0))
           (set_state RADIO_STANDBY) }))) }"

section \<open>Frequency, region and power\<close>

datatype sx126x_freq_cal_band = BAND_900M | BAND_850M | BAND_770M | BAND_460M | BAND_430M | BAND_INVALID

definition sx126x_get_freq_band :: "u32 \<Rightarrow> sx126x_freq_cal_band" where
  "sx126x_get_freq_band freq_hz =
     (if freq_hz > 900000000 then BAND_900M else if freq_hz > 850000000 then BAND_850M
      else if freq_hz > 770000000 then BAND_770M else if freq_hz > 460000000 then BAND_460M
      else if freq_hz > 430000000 then BAND_430M else BAND_INVALID)"

definition sid_pal_radio_set_frequency :: "platform \<Rightarrow> u32 \<Rightarrow> radio_error rm" where
  "sid_pal_radio_set_frequency P freq = do {
     st \<leftarrow> gets radio_state;
     cur \<leftarrow> gets radio_freq_hz;
     if st \<noteq> RADIO_STANDBY then return RADIO_ERROR_INVALID_STATE
     else ok_else RADIO_ERROR_HARDWARE_ERROR
       (only_if (sx126x_get_freq_band cur \<noteq> sx126x_get_freq_band freq) (sx126x_cal_img P freq))
       (ok_else RADIO_ERROR_HARDWARE_ERROR (sx126x_set_rf_freq P freq) (do {
         _ \<leftarrow> modify (radio_freq_hz_update (\<lambda>_. freq));
         return RADIO_ERROR_NONE })) }"

text \<open>The tables of a region are indexed by the data rate, which counts from 1 to 7.\<close>

definition sid_pal_radio_get_max_tx_power :: "nat \<Rightarrow> (radio_error \<times> u8 option) rm" where
  "sid_pal_radio_get_max_tx_power data_rate =
     (if data_rate = 0 \<or> data_rate > 7 then return (RADIO_ERROR_INVALID_PARAMS, None)
      else do {
        t \<leftarrow> gets (max_tx_power \<circ> regional_radio_param);
        return (RADIO_ERROR_NONE, Some (t ! (data_rate - 1))) })"

definition sid_pal_radio_get_cca_level_adjust :: "nat \<Rightarrow> (radio_error \<times> u8 option) rm" where
  "sid_pal_radio_get_cca_level_adjust data_rate =
     (if data_rate = 0 \<or> data_rate > 7 then return (RADIO_ERROR_INVALID_PARAMS, None)
      else do {
        t \<leftarrow> gets (cca_level_adjust \<circ> regional_radio_param);
        return (RADIO_ERROR_NONE, Some (t ! (data_rate - 1))) })"

definition sid_pal_radio_get_ant_dbi :: "u16 rm" where
  "sid_pal_radio_get_ant_dbi = gets (ant_dbi \<circ> regional_radio_param)"

definition sid_pal_radio_set_region :: "u8 \<Rightarrow> radio_error rm" where
  "sid_pal_radio_set_region region =
     (if region = 0 \<or> region \<ge> 4 then return RADIO_ERROR_INVALID_PARAMS
      else do {
        table \<leftarrow> cfg reg_param_table;
        case find (\<lambda>p. region = param_region p) table of
          None \<Rightarrow> return RADIO_ERROR_NOT_SUPPORTED
        | Some p \<Rightarrow> do {
            _ \<leftarrow> modify (regional_radio_param_update (\<lambda>_. p));
            return RADIO_ERROR_NONE } })"

definition get_radio_sx126x_pa_config :: "radio_pa_cfg rm" where
  "get_radio_sx126x_pa_config = gets pa_cfg"

definition sid_pal_radio_set_tx_power :: "platform \<Rightarrow> u8 \<Rightarrow> radio_error rm" where
  "sid_pal_radio_set_tx_power P pwr = do {
     st \<leftarrow> gets radio_state;
     chip \<leftarrow> cfg cfg_id;
     if st \<noteq> RADIO_STANDBY then return RADIO_ERROR_INVALID_STATE
     else do {
       r \<leftarrow> call P (Pa_cfg_cb pwr);
       h \<leftarrow> gets calls;
       _ \<leftarrow> modify (pa_cfg_update (pa_of P h));
       pa \<leftarrow> gets pa_cfg;
       if r < 0 then return RADIO_ERROR_INVALID_PARAMS
       else if chip \<noteq> 1 \<and> chip \<noteq> 2 then return RADIO_ERROR_NOT_SUPPORTED
       else ok_else RADIO_ERROR_IO_ERROR (sx126x_set_pa_cfg P pa)
         (ok_else RADIO_ERROR_IO_ERROR
           (sx126x_write_register P 0x08E7 [if chip = 1 then 0x18 else 0x38])
         (ok_else RADIO_ERROR_IO_ERROR (sx126x_set_tx_params P (pa_tx_power pa) (ramp_time pa))
           (return RADIO_ERROR_NONE))) } }"

section \<open>Transmission and reception\<close>

definition us_to_semtec_ticks :: "u32 \<Rightarrow> u32" where
  "us_to_semtec_ticks x = (x * 64) div 1000"

definition sid_pal_radio_set_tx_payload :: "platform \<Rightarrow> u8 list option \<Rightarrow> radio_error rm" where
  "sid_pal_radio_set_tx_payload P buffer =
     (case buffer of
        None \<Rightarrow> return RADIO_ERROR_INVALID_PARAMS
      | Some b \<Rightarrow> if b = [] then return RADIO_ERROR_INVALID_PARAMS
          else ok_else RADIO_ERROR_IO_ERROR (sx126x_write_buffer P 0 b) (return RADIO_ERROR_NONE))"

text \<open>
  The five operations that start the radio end in the same steps: trim capacitors, position of
  the antenna switch, no interrupt pending, the command, the new state.
\<close>

definition start_radio :: "platform \<Rightarrow> bool \<Rightarrow> sx126x_status rm \<Rightarrow> radio_state_t \<Rightarrow> radio_error rm" where
  "start_radio P tx_en command st =
     chk (trim_to_radio P)
     (chk (radio_sx126x_set_radio_mode P True tx_en)
     (chk (radio_clear_irq_status_all P)
     (ok_else RADIO_ERROR_HARDWARE_ERROR command (set_state st))))"

definition sid_pal_radio_start_tx :: "platform \<Rightarrow> u32 \<Rightarrow> radio_error rm" where
  "sid_pal_radio_start_tx P timeout =
     start_radio P True (sx126x_set_tx P (us_to_semtec_ticks timeout)) RADIO_TX"

text \<open>
  The continuous modes: \<^verbatim>\<open>err = f() != RADIO_ERROR_NONE\<close> assigns the outcome of the comparison,
  so a failure is reported as 1.
\<close>

definition sid_pal_radio_set_tx_continuous_wave :: "platform \<Rightarrow> u32 \<Rightarrow> u8 \<Rightarrow> radio_error rm" where
  "sid_pal_radio_set_tx_continuous_wave P freq pwr =
     ok_else 1 (sid_pal_radio_set_frequency P freq)
     (ok_else 1 (sid_pal_radio_set_tx_power P pwr)
     (start_radio P True (sx126x_set_tx_cw P) RADIO_TX))"

definition sid_pal_radio_set_tx_continuous_preamble :: "platform \<Rightarrow> u32 \<Rightarrow> u8 \<Rightarrow> radio_error rm" where
  "sid_pal_radio_set_tx_continuous_preamble P freq pwr =
     ok_else 1 (sid_pal_radio_set_frequency P freq)
     (ok_else 1 (sid_pal_radio_set_tx_power P pwr)
     (start_radio P True (sx126x_set_tx_cpbl P) RADIO_TX))"

definition sid_pal_radio_start_rx :: "platform \<Rightarrow> u32 \<Rightarrow> radio_error rm" where
  "sid_pal_radio_start_rx P timeout = do {
     m \<leftarrow> gets modem;
     ok_else RADIO_ERROR_HARDWARE_ERROR (sx126x_stop_tmr_on_pbl P (m = MODEM_MODE_FSK))
       (start_radio P False (sx126x_set_rx P (us_to_semtec_ticks timeout)) RADIO_RX) }"

definition sid_pal_radio_start_continuous_rx :: "platform \<Rightarrow> radio_error rm" where
  "sid_pal_radio_start_continuous_rx P = do {
     m \<leftarrow> gets modem;
     ok_else RADIO_ERROR_HARDWARE_ERROR (sx126x_stop_tmr_on_pbl P (m = MODEM_MODE_FSK))
       (start_radio P False (sx126x_set_rx P 0xFFFFFF) RADIO_RX) }"

definition sid_pal_radio_is_cad_exit_mode :: "cad_exit_mode_t \<Rightarrow> radio_error" where
  "sid_pal_radio_is_cad_exit_mode m =
     (if m \<in> {CAD_EXIT_CS_ONLY, CAD_EXIT_CS_RX, CAD_EXIT_CS_LBT, CAD_EXIT_ED_ONLY, CAD_EXIT_ED_RX,
        CAD_EXIT_ED_LBT} then RADIO_ERROR_NONE else RADIO_ERROR_INVALID_PARAMS)"

definition carrier_sense_started :: "fsk_cad_params_t \<Rightarrow> cad_exit_mode_t \<Rightarrow> radio_error rm" where
  "carrier_sense_started cad exit_mode = do {
     _ \<leftarrow> modify (\<lambda>s. s\<lparr>fsk_cad_params := cad, radio_state := RADIO_RX, cad_exit_mode := exit_mode\<rparr>);
     return RADIO_ERROR_NONE }"

definition sid_pal_radio_start_carrier_sense ::
  "platform \<Rightarrow> fsk_cad_params_t \<Rightarrow> cad_exit_mode_t \<Rightarrow> radio_error rm" where
  "sid_pal_radio_start_carrier_sense P cad exit_mode = do {
     m \<leftarrow> gets modem;
     if m \<noteq> MODEM_MODE_FSK then return RADIO_ERROR_INVALID_PARAMS
     else chk (return (sid_pal_radio_is_cad_exit_mode exit_mode))
       (ok_else RADIO_ERROR_HARDWARE_ERROR (sx126x_stop_tmr_on_pbl P True)
       (chk (trim_to_radio P)
       (chk (radio_sx126x_set_radio_mode P True False)
       (chk (radio_clear_irq_status_all P)
       (chk (radio_set_irq_mask P (RADIO_IRQ_ALL AND (0x200 OR 0x4)))
       (ok_else RADIO_ERROR_HARDWARE_ERROR
         (sx126x_set_rx P (us_to_semtec_ticks (fsk_cs_duration_us cad)))
         (carrier_sense_started cad exit_mode))))))) }"

definition sid_pal_radio_set_rx_duty_cycle :: "platform \<Rightarrow> u32 \<Rightarrow> u32 \<Rightarrow> radio_error rm" where
  "sid_pal_radio_set_rx_duty_cycle P rx_time sleep_time =
     (if rx_time = 0 \<or> sleep_time = 0 then return RADIO_ERROR_INVALID_PARAMS
      else start_radio P False (sx126x_set_rx_duty_cycle P rx_time sleep_time) RADIO_RX_DC)"

definition sid_pal_radio_lora_start_cad :: "platform \<Rightarrow> radio_error rm" where
  "sid_pal_radio_lora_start_cad P = start_radio P False (sx126x_set_cad P) RADIO_CAD"

section \<open>Measurements\<close>

definition sid_pal_radio_rssi :: "platform \<Rightarrow> int rm" where
  "sid_pal_radio_rssi P = do {
     g \<leftarrow> cfg lna_gain;
     r \<leftarrow> sx126x_get_rssi_inst P;
     return (case r of None \<Rightarrow> 32767 | Some rssi \<Rightarrow> rssi - sint g) }"

text \<open>The end both measurements share: interrupts on, standby; only failures change the error.\<close>

definition measure_end :: "platform \<Rightarrow> radio_error \<Rightarrow> radio_error rm" where
  "measure_end P err = chk (radio_enable_irq P) (chk (sid_pal_radio_standby P) (return err))"

text \<open>
  The loop over the signal strength, with the time operations as parameters; it gives the error
  and whether the channel is free. \<open>None\<close> is a loop that never ends.
\<close>

partial_function (option) channel_poll ::
  "time_ops \<Rightarrow> platform \<Rightarrow> sid_timespec \<Rightarrow> sid_timespec \<Rightarrow> int \<Rightarrow> radio \<Rightarrow>
     ((radio_error \<times> bool) \<times> radio) option" where
  "channel_poll T P t_threshold t_start threshold s =
     (case run_state (do { _ \<leftarrow> emit (Delay_us 1); sid_pal_radio_rssi P }) s of (rssi, s1) \<Rightarrow>
      case run_state (call P Clock_now) s1 of (r, s2) \<Rightarrow>
        if r \<noteq> SID_ERROR_NONE then Some ((RADIO_ERROR_GENERIC, False), s2)
        else if rssi > threshold then Some ((RADIO_ERROR_NONE, False), s2)
        else if sid_time_gt T t_threshold (sid_time_sub T (clock_of P (calls s2)) t_start)
        then channel_poll T P t_threshold t_start threshold s2
        else Some ((RADIO_ERROR_NONE, True), s2))"

declare channel_poll.simps [code]

definition sid_pal_radio_is_channel_free ::
  "time_ops \<Rightarrow> (u32 \<Rightarrow> sid_timespec) \<Rightarrow> platform \<Rightarrow> u32 \<Rightarrow> int \<Rightarrow> u32 \<Rightarrow> (radio_error \<times> bool) option rm" where
  "sid_pal_radio_is_channel_free T us_ts P freq threshold delay_us = do {
     e \<leftarrow> chk (sid_pal_radio_set_frequency P freq) (radio_disable_irq P);
     if e \<noteq> RADIO_ERROR_NONE then return (Some (e, False))
     else do {
       e \<leftarrow> sid_pal_radio_start_continuous_rx P;
       if e \<noteq> RADIO_ERROR_NONE then do { e' \<leftarrow> measure_end P 1; return (Some (e', False)) }
       else do {
         r \<leftarrow> call P Clock_now;
         t_start \<leftarrow> gets (clock_of P \<circ> calls);
         if r \<noteq> SID_ERROR_NONE
         then do { e' \<leftarrow> measure_end P RADIO_ERROR_GENERIC; return (Some (e', False)) }
         else State (\<lambda>s.
           case channel_poll T P (us_ts (if delay_us < 1 then 1 else delay_us)) t_start threshold s of
             None \<Rightarrow> (None, s)
           | Some ((err, free), s') \<Rightarrow>
               run_state (do { e' \<leftarrow> measure_end P err; return (Some (e', free)) }) s') } } }"

primrec sum_noise :: "platform \<Rightarrow> nat \<Rightarrow> u16 \<Rightarrow> u16 rm" where
  "sum_noise P 0 noise = return noise"
| "sum_noise P (Suc n) noise = do {
     _ \<leftarrow> emit (Delay_us 30);
     r \<leftarrow> sid_pal_radio_rssi P;
     sum_noise P n (noise + word_of_int r) }"

text \<open>The samples are added to what the caller's variable holds.\<close>

definition sid_pal_radio_get_chan_noise :: "platform \<Rightarrow> u32 \<Rightarrow> u16 \<Rightarrow> (radio_error \<times> u16) rm" where
  "sid_pal_radio_get_chan_noise P freq noise = do {
     e \<leftarrow> chk (sid_pal_radio_set_frequency P freq) (radio_disable_irq P);
     if e \<noteq> RADIO_ERROR_NONE then return (e, noise)
     else do {
       e \<leftarrow> sid_pal_radio_start_continuous_rx P;
       if e \<noteq> RADIO_ERROR_NONE then do { e' \<leftarrow> measure_end P e; return (e', noise) }
       else do {
         sum \<leftarrow> sum_noise P 32 noise;
         e' \<leftarrow> measure_end P RADIO_ERROR_NONE;
         return (e', word_of_int (sint sum sdiv 32)) } } }"

definition sid_pal_radio_random :: "platform \<Rightarrow> (radio_error \<times> u32) rm" where
  "sid_pal_radio_random P = do {
     e \<leftarrow> radio_disable_irq P;
     if e \<noteq> RADIO_ERROR_NONE then return (e, 0xFFFFFFFF)
     else do {
       (status, ws) \<leftarrow> sx126x_get_random_numbers P [0xFFFFFFFF];
       e \<leftarrow> chk (radio_enable_irq P)
         (return (if status \<noteq> SX126X_STATUS_OK then RADIO_ERROR_HARDWARE_ERROR else RADIO_ERROR_NONE));
       return (e, hd ws) } }"

definition sid_pal_radio_get_radio_state_transition_delays :: "radio_state_timings rm" where
  "sid_pal_radio_get_radio_state_transition_delays = do {
     t \<leftarrow> cfg state_timings;
     ctrl \<leftarrow> cfg tcxo_ctrl;
     timeout \<leftarrow> cfg tcxo_timeout;
     return (case ctrl of
         TCXO_CTRL_DIO3 \<Rightarrow> t\<lparr>tcxo_delay_us := timeout * 15\<rparr>
       | TCXO_CTRL_VDD \<Rightarrow> t\<lparr>tcxo_delay_us := 1 * 15\<rparr>
       | TCXO_CTRL_NONE \<Rightarrow> t) }"

section \<open>The interrupt handler\<close>

text \<open>
  The event of a status word and the error so far; a step that never returns makes it \<open>None\<close>. In
  the order of the source: transmission done, bad checksum, timeout, bad header, then what the
  modem's mode gives.
\<close>

definition irq_timeout :: "platform \<Rightarrow> radio_event rm" where
  "irq_timeout P = do {
     st \<leftarrow> gets radio_state;
     ce \<leftarrow> gets cad_exit_mode;
     if st = RADIO_TX then return EVENT_TX_TIMEOUT
     else if ce = CAD_EXIT_CS_LBT then do {
       _ \<leftarrow> modify (cad_exit_mode_update (\<lambda>_. CAD_EXIT_NONE));
       _ \<leftarrow> sid_pal_radio_start_tx P 0;
       return EVENT_UNKNOWN }
     else return EVENT_RX_TIMEOUT }"

definition irq_lora :: "platform \<Rightarrow> u16 \<Rightarrow> (radio_error \<times> radio_event) rm" where
  "irq_lora P irqs =
     (if bit irqs 3 then return (RADIO_ERROR_NONE, EVENT_UNKNOWN)
      else if bit irqs 7 then do {
        ce \<leftarrow> gets cad_exit_mode;
        ev \<leftarrow> (if bit irqs 8 then return EVENT_CAD_DONE
               else if ce = CAD_EXIT_CS_LBT then do {
                 _ \<leftarrow> sid_pal_radio_start_tx P 5000000;
                 return EVENT_UNKNOWN }
               else return EVENT_CAD_TIMEOUT);
        _ \<leftarrow> modify (cad_exit_mode_update (\<lambda>_. CAD_EXIT_NONE));
        return (RADIO_ERROR_NONE, ev) }
      else if bit irqs 1 \<and> \<not> bit irqs 6 then do {
        err \<leftarrow> radio_lora_process_rx_done P;
        if err = RADIO_ERROR_NONE then do {
          _ \<leftarrow> modify (radio_rx_packet_update (fsk_rx_packet_status_update
                (\<lambda>_. \<lparr>fsk_rssi_avg = 0, fsk_rssi_sync = 0, fsk_snr = 0\<rparr>)));
          return (err, EVENT_RX_DONE) }
        else return (err, EVENT_UNKNOWN) }
      else return (RADIO_ERROR_NONE, EVENT_UNKNOWN))"

text \<open>The status variable passed on is a local that nothing has initialised.\<close>

definition irq_fsk_rx_done :: "platform \<Rightarrow> (radio_error \<times> radio_event) rm" where
  "irq_fsk_rx_done P = do {
     _ \<leftarrow> emit Clock_now;
     t \<leftarrow> gets (clock_of P \<circ> calls);
     _ \<leftarrow> modify (radio_rx_packet_update (rcv_tm_update (\<lambda>_. t)));
     junk \<leftarrow> gets (junk_of P \<circ> calls);
     (err, st) \<leftarrow> radio_fsk_process_rx_done P (int (unat junk));
     if err = RADIO_ERROR_NONE then do {
       _ \<leftarrow> modify (radio_rx_packet_update (lora_rx_packet_status_update
             (\<lambda>_. \<lparr>lora_rssi = 0, lora_snr = 0, lora_signal_rssi = 0, is_crc_present = 0\<rparr>)));
       return (err, EVENT_RX_DONE) }
     else return (err,
       if err = RADIO_ERROR_GENERIC \<and> st \<in> {RX_DONE_STATUS_SW_MARK_NOT_PRESENT,
            RX_DONE_STATUS_UNKNOWN_ERROR, RX_DONE_STATUS_BAD_CRC}
       then EVENT_RX_ERROR else EVENT_UNKNOWN) }"

definition irq_fsk :: "platform \<Rightarrow> u16 \<Rightarrow> (radio_error \<times> radio_event) option rm" where
  "irq_fsk P irqs =
     (if bit irqs 3 then do {
        r \<leftarrow> radio_fsk_process_sync_word_detected P;
        return (map_option (\<lambda>_. (RADIO_ERROR_NONE, EVENT_UNKNOWN)) r) }
      else if bit irqs 2 then do {
        ce \<leftarrow> gets cad_exit_mode;
        if ce = CAD_EXIT_CS_LBT then do {
          r \<leftarrow> sid_pal_radio_rssi P;
          _ \<leftarrow> modify (\<lambda>s. s\<lparr>
                radio_rx_packet := fsk_rx_packet_status_update (fsk_rssi_sync_update (\<lambda>_. word_of_int r))
                  (radio_rx_packet s),
                cad_exit_mode := CAD_EXIT_NONE\<rparr>);
          _ \<leftarrow> sid_pal_radio_standby P;
          return (Some (RADIO_ERROR_NONE, EVENT_CS_DONE)) }
        else return (Some (RADIO_ERROR_NONE, EVENT_UNKNOWN)) }
      else if bit irqs 1 then do { r \<leftarrow> irq_fsk_rx_done P; return (Some r) }
      else return (Some (RADIO_ERROR_NONE, EVENT_UNKNOWN)))"

definition irq_dispatch :: "platform \<Rightarrow> u16 \<Rightarrow> (radio_error \<times> radio_event) option rm" where
  "irq_dispatch P irqs =
     (if bit irqs 0 then return (Some (RADIO_ERROR_NONE, EVENT_TX_DONE))
      else if bit irqs 6 then return (Some (RADIO_ERROR_NONE, EVENT_RX_ERROR))
      else if bit irqs 9 then do { ev \<leftarrow> irq_timeout P; return (Some (RADIO_ERROR_NONE, ev)) }
      else if bit irqs 5 then return (Some (RADIO_ERROR_NONE, EVENT_HEADER_ERROR))
      else do {
        m \<leftarrow> gets modem;
        case m of
          MODEM_MODE_LORA \<Rightarrow> do { r \<leftarrow> irq_lora P irqs; return (Some r) }
        | MODEM_MODE_FSK \<Rightarrow> irq_fsk P irqs })"

text \<open>\<open>notify\<close> is the callback of the upper layer, which may call the radio again.\<close>

definition sid_pal_radio_irq_process ::
  "platform \<Rightarrow> (radio_event \<Rightarrow> unit rm) \<Rightarrow> radio_error option rm" where
  "sid_pal_radio_irq_process P notify = do {
     e \<leftarrow> radio_disable_irq P;
     r \<leftarrow> (if e \<noteq> RADIO_ERROR_NONE then return (Some (e, EVENT_UNKNOWN))
           else do {
             irqs \<leftarrow> sx126x_get_and_clear_irq_status P;
             case irqs of
               None \<Rightarrow> return (Some (e, EVENT_UNKNOWN))
             | Some w \<Rightarrow> irq_dispatch P w });
     case r of
       None \<Rightarrow> return None
     | Some (err, ev) \<Rightarrow> do {
         _ \<leftarrow> (if ev \<noteq> EVENT_UNKNOWN then notify ev else return ());
         st \<leftarrow> gets radio_state;
         if st \<noteq> RADIO_SLEEP then do { e \<leftarrow> radio_enable_irq P; return (Some e) }
         else return (Some err) } }"

section \<open>Initialisation\<close>

definition pin_direction :: "platform \<Rightarrow> u32 \<Rightarrow> gpio_dir \<Rightarrow> int rm" where
  "pin_direction P pin dir =
     only_if (pin \<noteq> HALO_GPIO_NOT_CONNECTED) (call P (Gpio_set_direction pin dir))"

definition radio_sx126x_platform_init :: "platform \<Rightarrow> radio_error rm" where
  "radio_sx126x_platform_init P = do {
     c \<leftarrow> gets rcfg;
     ok_else RADIO_ERROR_INVALID_PARAMS (pin_direction P (gpio_radio_busy c) DIRECTION_INPUT)
     (ok_else RADIO_ERROR_INVALID_PARAMS (pin_direction P (gpio_tx_bypass c) DIRECTION_OUTPUT)
     (ok_else RADIO_ERROR_INVALID_PARAMS (pin_direction P (gpio_rf_sw_ena c) DIRECTION_OUTPUT)
     (ok_else RADIO_ERROR_INVALID_PARAMS (pin_direction P (gpio_power c) DIRECTION_OUTPUT)
     (if \<not> has_pa_cfg_cb c then return RADIO_ERROR_INVALID_PARAMS
      else do {
        _ \<leftarrow> (if has_trim_cb c then do {
               _ \<leftarrow> emit Trim_cb;
               h \<leftarrow> gets calls;
               modify (trim_update (\<lambda>_. trim_of P h)) }
             else modify (trim_update (\<lambda>_. 0x1212)));
        ok_else RADIO_ERROR_IO_ERROR (call P Bus_create) (return RADIO_ERROR_NONE) })))) }"

definition init_tcxo :: "platform \<Rightarrow> radio_error rm" where
  "init_tcxo P = do {
     c \<leftarrow> gets rcfg;
     if tcxo_ctrl c = TCXO_CTRL_NONE then return RADIO_ERROR_NONE
     else do {
       _ \<leftarrow> sx126x_clear_device_errors P;
       ok_else RADIO_ERROR_HARDWARE_ERROR
         (if tcxo_ctrl c = TCXO_CTRL_DIO3
          then sx126x_set_dio3_as_tcxo_ctrl P (tcxo_voltage c) (tcxo_timeout c)
          else do {
            _ \<leftarrow> (if dio3_to_mcu_pin c \<noteq> HALO_GPIO_NOT_CONNECTED then do {
                   _ \<leftarrow> call P (Gpio_pull_none (ucast (dio3_to_mcu_pin c)));
                   call P (Gpio_set_direction (ucast (dio3_to_mcu_pin c)) DIRECTION_INPUT) }
                 else return 0);
            sx126x_set_dio3_as_tcxo_ctrl P 2 1 })
         (ok_else RADIO_ERROR_HARDWARE_ERROR (sx126x_cal P 0x7F) (do {
           _ \<leftarrow> sx126x_get_device_errors P;
           _ \<leftarrow> sx126x_clear_device_errors P;
           return RADIO_ERROR_NONE })) } }"

definition sid_pal_radio_init :: "platform \<Rightarrow> bool \<Rightarrow> bool \<Rightarrow> radio_rx_packet option \<Rightarrow> radio_error rm" where
  "sid_pal_radio_init P has_notify has_handler rx_packet =
     (case rx_packet of
        None \<Rightarrow> return RADIO_ERROR_INVALID_PARAMS
      | Some rxp \<Rightarrow>
          if \<not> has_notify \<or> \<not> has_handler then return RADIO_ERROR_INVALID_PARAMS
          else do {
            _ \<leftarrow> modify (\<lambda>s. s\<lparr>radio_rx_packet := rxp, modem := MODEM_MODE_LORA\<rparr>);
            c \<leftarrow> gets rcfg;
            _ \<leftarrow> sid_pal_radio_set_region (cfg_radio_region c);
            chk (radio_sx126x_platform_init P)
            (chk (radio_sx126x_set_radio_mode P False False)
            (ok_else RADIO_ERROR_IO_ERROR (sx126x_reset P) (do {
              _ \<leftarrow> modify (irq_mask_update (\<lambda>_. SX126X_DEFAULT_LORA_IRQ_MASK));
              ok_else RADIO_ERROR_IO_ERROR (call P (Gpio_set_irq_edge (gpio_int1 c))) (do {
                _ \<leftarrow> modify (radio_state_update (\<lambda>_. RADIO_UNKNOWN));
                chk (sid_pal_radio_standby P)
                (ok_else RADIO_ERROR_HARDWARE_ERROR (sx126x_set_dio2_as_rf_sw_ctrl P True)
                (ok_else RADIO_ERROR_HARDWARE_ERROR (sx126x_set_reg_mode P (regulator_mode c))
                (ok_else RADIO_ERROR_HARDWARE_ERROR (sx126x_set_buffer_base_addr P 0 0)
                (ok_else RADIO_ERROR_HARDWARE_ERROR (sx126x_cfg_rx_boosted P (rx_boost c))
                (chk (init_tcxo P)
                (ok_else RADIO_ERROR_HARDWARE_ERROR
                  (only_if (has_dio3_cb c) (call P (Dio3_cfg_cb 0))) (do {
                    (e, tx_power) \<leftarrow> sid_pal_radio_get_max_tx_power 3;
                    chk (return e)
                    (chk (sid_pal_radio_set_tx_power P (the tx_power))
                      (radio_enable_irq P)) }))))))) }) }))) })"

definition sid_pal_radio_deinit :: "radio_error rm" where
  "sid_pal_radio_deinit = return RADIO_ERROR_NONE"

definition set_radio_sx126x_device_config :: "radio_config \<Rightarrow> unit rm" where
  "set_radio_sx126x_device_config c = modify (rcfg_update (\<lambda>_. c))"

end
