(* ===== verification/Sx126x_Demo.thy ===== *)
theory Sx126x_Demo
  imports Sx126x_Hal_Props Sx126x_Radio
begin

text \<open>
  A concrete radio for the witnesses: every call of the platform succeeds, the busy line is low,
  the bus reads zeros; the board has an antenna switch and a crystal.
\<close>

definition demo_platform :: platform where
  "demo_platform = \<lparr>ret_of = \<lambda>_. 0, pin_of = \<lambda>_. False, bus_in = \<lambda>_ _. 0,
     clock_of = \<lambda>_. Timespec 0 0, pa_of = \<lambda>_ p. p, trim_of = \<lambda>_. 0x1212, junk_of = \<lambda>_. 5\<rparr>"

definition demo_config :: radio_config where
  "demo_config = \<lparr>cfg_id = 1, regulator_mode = 0, rx_boost = True, lna_gain = 0, has_pa_cfg_cb = True,
     has_trim_cb = False, has_dio3_cb = False, has_rf_switch_cb = True, gpio_power = 1, gpio_int1 = 2,
     gpio_radio_busy = 3, gpio_rf_sw_ena = 128, gpio_tx_bypass = 128, client_selector = 4,
     tcxo_ctrl = TCXO_CTRL_NONE, dio3_to_mcu_pin = 128, tcxo_voltage = 0, tcxo_timeout = 0,
     state_timings = \<lparr>sleep_to_full_power_us = 0, full_power_to_sleep_us = 0, rx_to_tx_us = 0,
       tx_to_rx_us = 0, tcxo_delay_us = 0, tx_delay_us = 0, rx_delay_us = 0\<rparr>,
     internal_buffer = Some 300, cfg_radio_region = 1,
     reg_param_table = [\<lparr>param_region = 1, max_tx_power = replicate 7 20,
       cca_level_adjust = replicate 7 0, ant_dbi = 2\<rparr>]\<rparr>"

definition demo_packet :: radio_rx_packet where
  "demo_packet = \<lparr>lora_rx_packet_status = \<lparr>lora_rssi = 0, lora_snr = 0, lora_signal_rssi = 0, is_crc_present = 0\<rparr>,
     fsk_rx_packet_status = \<lparr>fsk_rssi_avg = 0, fsk_rssi_sync = 0, fsk_snr = 0\<rparr>,
     rcv_tm = Timespec 0 0, rcv_payload = replicate 255 0, rx_payload_len = 0\<rparr>"

definition demo_radio :: "radio_state_t \<Rightarrow> radio_modem_mode \<Rightarrow> radio" where
  "demo_radio st m = \<lparr>rcfg = demo_config, modem = m, radio_rx_packet = demo_packet, radio_state = st,
     cad_exit_mode = CAD_EXIT_NONE,
     pa_cfg = \<lparr>pa_duty_cycle = 4, hp_max = 0, device_sel = 1, pa_lut = 1, pa_tx_power = 14, ramp_time = 2,
       enable_ext_pa = False\<rparr>,
     irq_mask = 0x3F3, trim = 0x1212, radio_freq_hz = 0,
     fsk_cad_params = \<lparr>fsk_ed_rssi_threshold = 0, fsk_ed_duration_mus = 0, fsk_cs_min_prm_det = 0,
       fsk_cs_duration_us = 0, fsk_cs_lbt_rx_timeout = 0, fsk_cs_lbt_preamble_len = 0\<rparr>,
     regional_radio_param = \<lparr>param_region = 0, max_tx_power = [], cca_level_adjust = [], ant_dbi = 0\<rparr>,
     calls = []\<rparr>"

lemma demo_platform_simps [simp]:
  "ret_of demo_platform h = 0" "bus_in demo_platform h i = 0" "pin_of demo_platform h = False"
  "clock_of demo_platform h = Timespec 0 0" "pa_of demo_platform h p = p" "trim_of demo_platform h = 0x1212"
  "junk_of demo_platform h = 5"
  by (simp_all add: demo_platform_def)

lemma demo_config_simps [simp]:
  "gpio_rf_sw_ena demo_config = 128" "gpio_tx_bypass demo_config = 128" "has_rf_switch_cb demo_config"
  "internal_buffer demo_config = Some 300" "has_dio3_cb demo_config = False" "has_trim_cb demo_config = False"
  "has_pa_cfg_cb demo_config" "tcxo_ctrl demo_config = TCXO_CTRL_NONE" "cfg_id demo_config = 1"
  "cfg_radio_region demo_config = 1" "rx_boost demo_config"
  "reg_param_table demo_config = [\<lparr>param_region = 1, max_tx_power = replicate 7 20,
     cca_level_adjust = replicate 7 0, ant_dbi = 2\<rparr>]"
  by (simp_all add: demo_config_def)

lemma demo_radio_simps [simp]:
  "rcfg (demo_radio st m) = demo_config" "radio_state (demo_radio st m) = st"
  "calls (demo_radio st m) = []" "modem (demo_radio st m) = m" "irq_mask (demo_radio st m) = 0x3F3"
  "radio_rx_packet (demo_radio st m) = demo_packet" "trim (demo_radio st m) = 0x1212"
  "enable_ext_pa (pa_cfg (demo_radio st m)) = False" "radio_freq_hz (demo_radio st m) = 0"
  "cad_exit_mode (demo_radio st m) = CAD_EXIT_NONE"
  by (simp_all add: demo_radio_def)

text \<open>The layers below the commands, evaluated on the demonstration platform.\<close>

lemma demo_busy: "run_state (sx126x_wait_on_busy demo_platform) s =
    (0, s\<lparr>calls := Gpio_read (gpio_radio_busy (rcfg s)) # calls s\<rparr>)"
  by (simp add: sx126x_wait_on_busy_def busy_poll.simps [of _ 0] sx126x_check_status_def run_ok_else)

lemma demo_mode: "rcfg s = demo_config \<Longrightarrow> a \<or> \<not> b \<Longrightarrow>
    run_state (radio_sx126x_set_radio_mode demo_platform a b) s = (0, s\<lparr>calls := Rf_switch_cb a b # calls s\<rparr>)"
  by (auto simp: radio_sx126x_set_radio_mode_def run_ok_else run_only_if)

definition wakeup_calls :: "io list" where
  "wakeup_calls = [Exit_critical, Gpio_write 4 True, Gpio_read 3, Gpio_write 4 False,
     Gpio_set_direction 4 DIRECTION_OUTPUT, Gpio_irq_enable 2, Gpio_input_mode 3 INPUT_CONNECT,
     Gpio_input_mode 2 INPUT_CONNECT, Gpio_set_direction 1 DIRECTION_INPUT, Enter_critical]"

lemma demo_wakeup: "rcfg s = demo_config \<Longrightarrow>
    run_state (sx126x_hal_wakeup demo_platform) s = (0, s\<lparr>calls := wakeup_calls @ calls s\<rparr>)"
  by (simp add: sx126x_hal_wakeup_def set_gpio_cfg_awake_def set_gpio_power_def set_gpio_config_def
      set_radio_int_def run_ok_else demo_busy demo_config_def wakeup_calls_def)

lemma demo_ready: "rcfg s = demo_config \<Longrightarrow>
    run_state (sx126x_wait_for_device_ready demo_platform) s =
      (0, if awake (radio_state s) then s
          else s\<lparr>calls := Gpio_read 3 # Rf_switch_cb True True # wakeup_calls @ calls s\<rparr>)"
  by (simp add: sx126x_wait_for_device_ready_def run_chk demo_busy demo_mode demo_wakeup awake_def demo_config_def)

lemma demo_write: "rcfg s = demo_config \<Longrightarrow> c \<noteq> [] \<Longrightarrow> length c + length d \<le> 300 \<Longrightarrow>
    run_state (sx126x_hal_write demo_platform c d) s =
      (0, s\<lparr>calls := Bus_xfer (c @ d) # Gpio_read 3 # (if awake (radio_state s) then [] else
         Gpio_read 3 # Rf_switch_cb True True # wakeup_calls) @ calls s\<rparr>)"
  by (simp add: sx126x_hal_write_def sx126x_hal_rdwr_def sx126x_radio_bus_xfer_def demo_ready demo_busy)
    (simp add: demo_config_def)

lemma demo_read: "rcfg s = demo_config \<Longrightarrow> c \<noteq> [] \<Longrightarrow> d \<noteq> [] \<Longrightarrow> length c + length d \<le> 300 \<Longrightarrow>
    run_state (sx126x_hal_read demo_platform c d) s =
      ((0, replicate (length d) 0), s\<lparr>calls := Bus_xfer (c @ d) # Gpio_read 3 # (if awake (radio_state s) then [] else
         Gpio_read 3 # Rf_switch_cb True True # wakeup_calls) @ calls s\<rparr>)"
  by (simp add: sx126x_hal_read_def sx126x_hal_rdwr_def sx126x_radio_bus_xfer_def demo_ready demo_busy
      map_replicate_trivial)
    (simp add: demo_config_def)

lemmas demo_run = run_chk run_ok_else run_only_if demo_mode demo_wakeup demo_write demo_read awake_def

end
