(* ===== verification/Sx126x_Radio_Props.thy ===== *)
theory Sx126x_Radio_Props
  imports Sx126x_Demo
begin

text \<open>
  The state machine of the radio: what every operation does to the state, which command and which
  position of the antenna switch it leaves the radio with, and what the interrupt handler
  guarantees.
\<close>

section \<open>Frames\<close>

abbreviation any_calls :: "'a rm \<Rightarrow> bool" where
  "any_calls m \<equiv> adds (\<lambda>_. True) (\<lambda>_. True) m"

lemma adds_radio [adds_intros]:
  assumes "covers I Q"
  shows "adds I Q (radio_set_irq_mask P w)" "adds I Q (radio_enable_irq P)" "adds I Q (radio_disable_irq P)"
    "adds I Q (radio_clear_irq_status_all P)" "adds I Q (set_trim_cap_val_to_radio P x y)"
    "adds I Q (trim_to_radio P)" "adds I Q (sid_pal_radio_rssi P)"
  unfolding radio_set_irq_mask_def radio_enable_irq_def radio_disable_irq_def
    radio_clear_irq_status_all_def trim_to_radio_def set_trim_cap_val_to_radio_def sid_pal_radio_rssi_def
  using assms by (intro adds_intros; simp add: covers_quiet)+

lemma any_set_radio_mode [adds_intros]: "any_calls (radio_sx126x_set_radio_mode P a b)"
  by (rule adds_set_radio_mode)

text \<open>The state and the configuration of the radio; functions that leave them as they are.\<close>

definition same :: "radio_state_t \<Rightarrow> radio_config \<Rightarrow> radio \<Rightarrow> bool" where
  "same st c s \<longleftrightarrow> radio_state s = st \<and> rcfg s = c"

lemma keeps_any: "any_calls m \<Longrightarrow> keeps (same st c) m"
proof (unfold keeps_def, intro allI impI)
  fix s assume "any_calls m" and s: "same st c s"
  then obtain h where "snd (run_state m s) = s\<lparr>calls := h @ calls s\<rparr>" unfolding adds_def by blast
  with s show "same st c (snd (run_state m s))" by (simp add: same_def)
qed

lemma keeps_modify: "(\<And>s. I s \<Longrightarrow> I (f s)) \<Longrightarrow> keeps I (modify f)"
  by (simp add: keeps_def)

lemma keeps_option [keeps_intros]:
  "(x = None \<Longrightarrow> keeps I m) \<Longrightarrow> (\<And>y. x = Some y \<Longrightarrow> keeps I (f y)) \<Longrightarrow>
    keeps I (case x of None \<Rightarrow> m | Some y \<Rightarrow> f y)"
  by (cases x) simp_all

text \<open>\<open>goes t m\<close>: on success the radio is in state \<open>t\<close>, on an error in the state it was in.\<close>

definition goes :: "radio_state_t \<Rightarrow> radio_error rm \<Rightarrow> bool" where
  "goes t m \<longleftrightarrow> (\<forall>s e s'. run_state m s = (e, s') \<longrightarrow>
     radio_state s' = (if e = 0 then t else radio_state s))"

named_theorems goes_intros

lemma goesD: "goes t m \<Longrightarrow> run_state m s = (e, s') \<Longrightarrow> radio_state s' = (if e = 0 then t else radio_state s)"
  by (simp add: goes_def)

lemma sameD: "(\<And>st c. keeps (same st c) m) \<Longrightarrow> run_state m s = (r, s') \<Longrightarrow> radio_state s' = radio_state s"
  using keepsD [of "same (radio_state s) (rcfg s)" m s r s'] by (simp add: same_def)

lemma goes_chk [goes_intros]:
  assumes m: "\<And>st c. keeps (same st c) m" and k: "goes t k"
  shows "goes t (chk m k)"
  unfolding goes_def run_chk using sameD [OF m] goesD [OF k] by (auto split: prod.splits if_splits)

lemma goes_ok_else [goes_intros]:
  assumes "e \<noteq> 0" and m: "\<And>st c. keeps (same st c) m" and k: "goes t k"
  shows "goes t (ok_else e m k)"
  unfolding goes_def run_ok_else using sameD [OF m] goesD [OF k] \<open>e \<noteq> 0\<close>
  by (auto split: prod.splits if_splits)

lemma goes_bind [goes_intros]:
  assumes m: "\<And>st c. keeps (same st c) m" and k: "\<And>x. goes t (k x)"
  shows "goes t (State_Monad.bind m k)"
  unfolding goes_def using sameD [OF m] goesD [OF k] by (auto split: prod.splits)

lemma goes_if [goes_intros]: "(b \<Longrightarrow> goes t m) \<Longrightarrow> (\<not> b \<Longrightarrow> goes t k) \<Longrightarrow> goes t (if b then m else k)"
  by simp

lemma goes_error [goes_intros]: "e \<noteq> 0 \<Longrightarrow> goes t (return e)"
  and goes_set_state [goes_intros]: "goes t (set_state t)"
  by (simp_all add: goes_def set_state_def)

section \<open>The last command and the antenna switch\<close>

fun last_xfer :: "io list \<Rightarrow> u8 list option" where
  "last_xfer [] = None"
| "last_xfer (Bus_xfer bs # h) = Some bs"
| "last_xfer (_ # h) = last_xfer h"

lemma last_xfer_hal_write:
  assumes "run_state (sx126x_hal_write P c d) s = (0, s')"
  shows "last_xfer (calls s') = Some (c @ d)"
  using assms
  by (auto simp: sx126x_hal_write_def sx126x_hal_rdwr_def sx126x_radio_bus_xfer_def
      split: prod.splits if_splits option.splits)

lemma any_keeps:
  assumes "any_calls m" and "run_state m s = (r, s')"
  shows any_cfg: "rcfg s' = rcfg s" and "radio_state s' = radio_state s" and "irq_mask s' = irq_mask s"
    and "modem s' = modem s"
  using addsD [OF assms] by auto

lemma start_radio_effect:
  assumes cb: "has_rf_switch_cb (rcfg s)"
    and run: "run_state (start_radio P tx (sx126x_hal_write P c d) t) s = (0, s')"
  shows "last_xfer (calls s') = Some (c @ d)"
    and "rf_pos (calls s') = Some (True, tx \<or> \<not> awake (radio_state s))"
    and "radio_state s' = t"
proof -
  obtain s1 s2 s3 s4 where
      1: "run_state (trim_to_radio P) s = (0, s1)"
    and 2: "run_state (radio_sx126x_set_radio_mode P True tx) s1 = (0, s2)"
    and 3: "run_state (sx126x_hal_write P (0x02 # be_u16 0x3FF) []) s2 = (0, s3)"
    and 4: "run_state (sx126x_hal_write P c d) s3 = (0, s4)"
    and s': "s' = s4\<lparr>radio_state := t\<rparr>"
    using run
    by (auto simp: start_radio_def set_state_def radio_clear_irq_status_all_def
        sx126x_clear_irq_status_def run_chk run_ok_else split: prod.splits if_splits)
  have any: "any_calls (trim_to_radio P)" "any_calls (radio_sx126x_set_radio_mode P True tx)"
      "any_calls (sx126x_hal_write P c' d')" for c' d'
    by (intro adds_intros; simp)+
  note keep = any_keeps [OF any(1) 1] any_keeps [OF any(2) 2] any_keeps [OF any(3) 3]
  have "rf_pos (calls s2) = Some (True, tx)" using rf_set_radio_mode [OF _ 2] cb keep by simp
  then have "rf_pos (calls s3) = Some (True, tx \<or> \<not> awake (radio_state s))"
    using rf_hal_write [OF _ 3] cb keep by auto
  then show "rf_pos (calls s') = Some (True, tx \<or> \<not> awake (radio_state s))"
    using rf_hal_write [OF _ 4] cb keep s' by auto
  show "last_xfer (calls s') = Some (c @ d)" using last_xfer_hal_write [OF 4] s' by simp
  show "radio_state s' = t" using s' by simp
qed

section \<open>Operations\<close>

datatype radio_op =
    Sleep u32
  | Standby
  | Start_tx u32
  | Tx_continuous_wave u32 u8
  | Tx_continuous_preamble u32 u8
  | Start_rx u32
  | Start_continuous_rx
  | Start_carrier_sense fsk_cad_params_t cad_exit_mode_t
  | Rx_duty_cycle u32 u32
  | Lora_start_cad
  | Set_frequency u32
  | Set_tx_power u8
  | Set_modem_mode radio_modem_mode
  | Set_trim u16
  | Set_region u8
  | Set_tx_payload "u8 list option"

fun run_op :: "platform \<Rightarrow> radio_op \<Rightarrow> radio_error rm" where
  "run_op P (Sleep t) = sid_pal_radio_sleep P t"
| "run_op P Standby = sid_pal_radio_standby P"
| "run_op P (Start_tx t) = sid_pal_radio_start_tx P t"
| "run_op P (Tx_continuous_wave f p) = sid_pal_radio_set_tx_continuous_wave P f p"
| "run_op P (Tx_continuous_preamble f p) = sid_pal_radio_set_tx_continuous_preamble P f p"
| "run_op P (Start_rx t) = sid_pal_radio_start_rx P t"
| "run_op P Start_continuous_rx = sid_pal_radio_start_continuous_rx P"
| "run_op P (Start_carrier_sense c m) = sid_pal_radio_start_carrier_sense P c m"
| "run_op P (Rx_duty_cycle t u) = sid_pal_radio_set_rx_duty_cycle P t u"
| "run_op P Lora_start_cad = sid_pal_radio_lora_start_cad P"
| "run_op P (Set_frequency f) = sid_pal_radio_set_frequency P f"
| "run_op P (Set_tx_power p) = sid_pal_radio_set_tx_power P p"
| "run_op P (Set_modem_mode m) = sid_pal_radio_set_modem_mode P m"
| "run_op P (Set_trim t) = set_radio_sx126x_trim_cap_val P t"
| "run_op P (Set_region r) = sid_pal_radio_set_region r"
| "run_op P (Set_tx_payload b) = sid_pal_radio_set_tx_payload P b"

text \<open>
  The abstract state machine: the state an operation leads to, the operations that need the
  radio in standby, and the commands that start the radio.
\<close>

fun target :: "radio_op \<Rightarrow> radio_state_t option" where
  "target (Sleep t) = Some RADIO_SLEEP"
| "target Standby = Some RADIO_STANDBY"
| "target (Start_tx t) = Some RADIO_TX"
| "target (Tx_continuous_wave f p) = Some RADIO_TX"
| "target (Tx_continuous_preamble f p) = Some RADIO_TX"
| "target (Start_rx t) = Some RADIO_RX"
| "target Start_continuous_rx = Some RADIO_RX"
| "target (Start_carrier_sense c m) = Some RADIO_RX"
| "target (Rx_duty_cycle t u) = Some RADIO_RX_DC"
| "target Lora_start_cad = Some RADIO_CAD"
| "target op = None"

fun needs_standby :: "radio_op \<Rightarrow> bool" where
  "needs_standby (Tx_continuous_wave f p) = True"
| "needs_standby (Tx_continuous_preamble f p) = True"
| "needs_standby (Set_frequency f) = True"
| "needs_standby (Set_tx_power p) = True"
| "needs_standby op = False"

fun start_command :: "radio_op \<Rightarrow> (bool \<times> u8 list) option" where
  "start_command (Start_tx t) = Some (True, 0x83 # be_u24 (us_to_semtec_ticks t))"
| "start_command (Tx_continuous_wave f p) = Some (True, [0xD1])"
| "start_command (Tx_continuous_preamble f p) = Some (True, [0xD2])"
| "start_command (Start_rx t) = Some (False, 0x82 # be_u24 (us_to_semtec_ticks t))"
| "start_command Start_continuous_rx = Some (False, [0x82, 0xFF, 0xFF, 0xFF])"
| "start_command (Rx_duty_cycle t u) = Some (False, 0x94 # be_u24 t @ be_u24 u)"
| "start_command Lora_start_cad = Some (False, [0xC5])"
| "start_command op = None"

lemma be24_ffffff: "be_u24 0xFFFFFF = [0xFF, 0xFF, 0xFF]"
  by (simp add: be_u24_def)

lemma set_frequency_ok:
  assumes "run_state (sid_pal_radio_set_frequency P f) s = (0, s')"
  shows "radio_state s = RADIO_STANDBY \<and> (\<exists>h. s' = s\<lparr>calls := h @ calls s, radio_freq_hz := f\<rparr>)"
proof -
  obtain s1 s2 r where st: "radio_state s = RADIO_STANDBY"
    and 1: "run_state (only_if r (sx126x_cal_img P f)) s = (0, s1)"
    and 2: "run_state (sx126x_set_rf_freq P f) s1 = (0, s2)" and s': "s' = s2\<lparr>radio_freq_hz := f\<rparr>"
    using assms
    by (auto simp: sid_pal_radio_set_frequency_def run_ok_else split: prod.splits if_splits)
  have any: "any_calls (only_if r (sx126x_cal_img P f))" "any_calls (sx126x_set_rf_freq P f)"
    by (intro adds_intros; simp)+
  obtain h1 where h1: "s1 = s\<lparr>calls := h1 @ calls s\<rparr>" using addsD [OF any(1) 1] by blast
  obtain h2 where "s2 = s1\<lparr>calls := h2 @ calls s1\<rparr>" using addsD [OF any(2) 2] by blast
  with h1 st s' show ?thesis by (intro conjI exI [of _ "h2 @ h1"]) simp_all
qed

lemma same_settings:
  "keeps (same st c) (sid_pal_radio_set_frequency P f)" "keeps (same st c) (sid_pal_radio_set_tx_power P p)"
  "keeps (same st c) (radio_set_modem_to_lora_mode P)" "keeps (same st c) (radio_set_modem_to_fsk_mode P)"
  "keeps (same st c) (set_radio_sx126x_trim_cap_val P t)" "keeps (same st c) (sid_pal_radio_set_region r)"
  "keeps (same st c) (sid_pal_radio_set_tx_payload P b)"
  unfolding sid_pal_radio_set_frequency_def sid_pal_radio_set_tx_power_def
    radio_set_modem_to_lora_mode_def radio_set_modem_to_fsk_mode_def
    set_radio_sx126x_trim_cap_val_def sid_pal_radio_set_region_def sid_pal_radio_set_tx_payload_def
  by (intro keeps_intros keeps_modify keeps_any adds_intros; simp add: same_def)+

lemma set_tx_power_ok:
  "run_state (sid_pal_radio_set_tx_power P p) s = (0, s') \<Longrightarrow> radio_state s = RADIO_STANDBY"
  by (simp add: sid_pal_radio_set_tx_power_def split: if_splits)

text \<open>The definitions a run on the demonstration platform unfolds.\<close>

lemmas demo_op_defs = start_radio_def trim_to_radio_def set_trim_cap_val_to_radio_def
  radio_clear_irq_status_all_def set_state_def sx126x_wakeup_def sx126x_set_standby_def
  sx126x_set_xtal_trim_def sx126x_write_register_def sx126x_clear_irq_status_def
  sx126x_stop_tmr_on_pbl_def sid_pal_radio_standby_def standby_wakeup_def sx126x_set_sleep_def

section \<open>The state machine\<close>

lemma goes_start_radio [goes_intros]: "any_calls c \<Longrightarrow> goes t (start_radio P b c t)"
  unfolding start_radio_def by (intro goes_intros keeps_any adds_intros) simp_all

lemma goes_starts:
  "goes RADIO_TX (sid_pal_radio_start_tx P t)"
  "goes RADIO_TX (sid_pal_radio_set_tx_continuous_wave P f p)"
  "goes RADIO_TX (sid_pal_radio_set_tx_continuous_preamble P f p)"
  "goes RADIO_RX (sid_pal_radio_start_rx P t)"
  "goes RADIO_RX (sid_pal_radio_start_continuous_rx P)"
  "goes RADIO_RX_DC (sid_pal_radio_set_rx_duty_cycle P t u)"
  "goes RADIO_CAD (sid_pal_radio_lora_start_cad P)"
  unfolding sid_pal_radio_start_tx_def sid_pal_radio_set_tx_continuous_wave_def
    sid_pal_radio_set_tx_continuous_preamble_def sid_pal_radio_start_rx_def
    sid_pal_radio_start_continuous_rx_def sid_pal_radio_set_rx_duty_cycle_def
    sid_pal_radio_lora_start_cad_def
  by (intro goes_intros same_settings keeps_any adds_intros; simp)+

lemma goes_carrier_sense: "goes RADIO_RX (sid_pal_radio_start_carrier_sense P c m)"
proof -
  have "goes RADIO_RX (carrier_sense_started c m)"
    by (simp add: goes_def carrier_sense_started_def)
  then show ?thesis unfolding sid_pal_radio_start_carrier_sense_def
    by (intro goes_intros keeps_any adds_intros) simp_all
qed

lemma goes_sleep: "goes RADIO_SLEEP (sid_pal_radio_sleep P t)"
proof (unfold goes_def, intro allI impI)
  fix s :: radio and e s'
  assume run: "run_state (sid_pal_radio_sleep P t) s = (e, s')"
  let ?m = "\<lambda>dio3. chk (radio_clear_irq_status_all P)
       (chk (radio_sx126x_set_radio_mode P False False)
       (ok_else (- 6) (only_if dio3 (call P (Dio3_cfg_cb 1)))
       (ok_else (- 6) (sx126x_set_sleep P 4) (do { _ \<leftarrow> set_gpio_cfg_sleep P; set_state RADIO_SLEEP }))))"
  have g: "goes RADIO_SLEEP (?m d)" for d by (intro goes_intros keeps_any adds_intros) simp_all
  show "radio_state s' = (if e = 0 then RADIO_SLEEP else radio_state s)"
  proof (cases "radio_state s = RADIO_SLEEP")
    case True
    then show ?thesis using run by (auto simp: sid_pal_radio_sleep_def)
  next
    case False
    then have "run_state (?m (has_dio3_cb (rcfg s))) s = (e, s')"
      using run by (simp add: sid_pal_radio_sleep_def)
    then show ?thesis by (rule goesD [OF g])
  qed
qed

lemma standby_wakeup_outcome:
  assumes "run_state (standby_wakeup P) s = (e, s')"
  shows "radio_state s' = (if e = 0 \<and> radio_state s = RADIO_SLEEP then RADIO_STANDBY else radio_state s)"
proof (cases "radio_state s = RADIO_SLEEP")
  case True
  let ?m = "\<lambda>d. ok_else (- 6) (sx126x_wakeup P) (ok_else (- 6) (only_if d (call P (Dio3_cfg_cb 2))) (set_state RADIO_STANDBY))"
  have g: "goes RADIO_STANDBY (?m d)" for d by (intro goes_intros keeps_any adds_intros) simp_all
  have "run_state (?m (has_dio3_cb (rcfg s))) s = (e, s')"
    using assms True by (simp add: standby_wakeup_def)
  from goesD [OF g this] True show ?thesis by auto
next
  case False
  let ?m = "\<lambda>d. ok_else (- 6) (sx126x_wakeup P) (ok_else (- 6) (only_if d (call P (Dio3_cfg_cb 2))) (return 0))"
  have g: "any_calls (?m d)" for d by (intro adds_intros) simp_all
  have "s' = s \<or> run_state (?m (has_dio3_cb (rcfg s))) s = (e, s')"
    using assms False by (auto simp: standby_wakeup_def split: if_splits)
  with sameD [OF keeps_any [OF g]] False show ?thesis by auto
qed

lemma standby_wakeup_cfg:
  assumes "run_state (standby_wakeup P) s = (e, s')"
  shows "rcfg s' = rcfg s"
proof -
  have any: "any_calls m \<Longrightarrow> keeps (\<lambda>s. rcfg s = c) m" for m :: "radio_error rm" and c
    using any_cfg [of m] by (metis keeps_def prod.collapse)
  have set: "keeps (\<lambda>s. rcfg s = c) (set_state t)" for c t by (simp add: keeps_def set_state_def)
  have "keeps (\<lambda>t. rcfg t = rcfg s) (standby_wakeup P)" unfolding standby_wakeup_def
    by (intro keeps_intros set any adds_intros) simp_all
  from keepsD [OF this _ assms] show ?thesis by simp
qed

lemma standby_outcome:
  assumes "run_state (sid_pal_radio_standby P) s = (e, s')"
  shows "if e = 0 then radio_state s' = RADIO_STANDBY
    else radio_state s' = radio_state s \<or> radio_state s = RADIO_SLEEP \<and> radio_state s' = RADIO_STANDBY"
proof (cases "radio_state s = RADIO_STANDBY")
  case True
  then show ?thesis using assms by (auto simp: sid_pal_radio_standby_def)
next
  case False
  let ?k = "chk (radio_clear_irq_status_all P)
       (chk (radio_sx126x_set_radio_mode P False False) (do {
         _ \<leftarrow> emit (Delay_us SEMTECH_STDBY_STATE_DELAY_US);
         st \<leftarrow> gets radio_state;
         ok_else (- 6) (only_if (st \<noteq> RADIO_STANDBY) (sx126x_set_standby P 0)) (set_state RADIO_STANDBY) }))"
  have g: "goes RADIO_STANDBY ?k" by (intro goes_intros keeps_any adds_intros) simp_all
  obtain e1 s1 where 1: "run_state (standby_wakeup P) s = (e1, s1)" by fastforce
  have "if e1 = 0 then run_state ?k s1 = (e, s') else e = e1 \<and> s' = s1"
    using assms False 1 by (auto simp: sid_pal_radio_standby_def run_chk [of "standby_wakeup P"])
  then show ?thesis using standby_wakeup_outcome [OF 1] goesD [OF g, of s1 e s'] by (auto split: if_splits)
qed

text \<open>C36. Every operation of the radio refines the abstract state machine: a success leads to the
  operation's state (or leaves the state, for a setting) and a setting that needs standby found
  the radio there; an error leaves the state as it was, but for a standby that fails after the
  chip was woken up.\<close>

theorem radio_op_outcome:
  assumes "run_state (run_op P op) s = (e, s')"
  shows "if e = 0
    then radio_state s' = (case target op of None \<Rightarrow> radio_state s | Some t \<Rightarrow> t) \<and>
      (needs_standby op \<longrightarrow> radio_state s = RADIO_STANDBY)
    else radio_state s' = radio_state s \<or>
      op = Standby \<and> radio_state s = RADIO_SLEEP \<and> radio_state s' = RADIO_STANDBY"
proof (cases "\<exists>m. op = Set_modem_mode m")
  case True
  then show ?thesis using assms sameD [OF same_settings(3)] sameD [OF same_settings(4)]
    by (auto simp: sid_pal_radio_set_modem_mode_def split: radio_modem_mode.splits)
next
  case False
  have ns: "radio_state s = RADIO_STANDBY" if "needs_standby op" "e = 0"
  proof -
    have "\<exists>f s1. run_state (sid_pal_radio_set_frequency P f) s = (0, s1) \<or>
        (\<exists>p. run_state (sid_pal_radio_set_tx_power P p) s = (0, s1))"
      using that assms
      by (cases op) (fastforce simp: sid_pal_radio_set_tx_continuous_wave_def
          sid_pal_radio_set_tx_continuous_preamble_def run_ok_else split: prod.splits if_splits)+
    then show ?thesis using set_frequency_ok set_tx_power_ok by blast
  qed
  show ?thesis
    using assms False ns standby_outcome [of P s e s'] goesD [OF goes_sleep]
      goesD [OF goes_starts(1)] goesD [OF goes_starts(2)] goesD [OF goes_starts(3)]
      goesD [OF goes_starts(4)] goesD [OF goes_starts(5)] goesD [OF goes_starts(6)]
      goesD [OF goes_starts(7)] goesD [OF goes_carrier_sense]
      sameD [OF same_settings(1)] sameD [OF same_settings(2)] sameD [OF same_settings(5)]
      sameD [OF same_settings(6)] sameD [OF same_settings(7)]
    by (cases op) simp_all
qed

lemma radio_op_outcome_witness:
  "radio_state (snd (run_state (run_op demo_platform Standby) (demo_radio RADIO_SLEEP MODEM_MODE_LORA))) =
    RADIO_STANDBY"
proof -
  let ?m = "run_state (run_op demo_platform Standby) (demo_radio RADIO_SLEEP MODEM_MODE_LORA)"
  have "fst ?m = 0" by (simp add: demo_run demo_op_defs be_u16_def)
  then have "?m = (0, snd ?m)" by (simp add: prod_eq_iff)
  from radio_op_outcome [OF this] show ?thesis by simp
qed

section \<open>Commands and the antenna switch\<close>

lemma same_cfg: "(\<And>st c. keeps (same st c) m) \<Longrightarrow> run_state m s = (r, s') \<Longrightarrow> rcfg s' = rcfg s"
  using keepsD [of "same (radio_state s) (rcfg s)" m s r s'] by (simp add: same_def)

lemma start_after:
  assumes m: "\<And>st c. keeps (same st c) m" and "e \<noteq> 0" and cb: "has_rf_switch_cb (rcfg s)"
    and "run_state (ok_else e m (start_radio P tx (sx126x_hal_write P c d) t)) s = (0, s')"
  shows "last_xfer (calls s') = Some (c @ d) \<and> rf_pos (calls s') = Some (True, tx \<or> \<not> awake (radio_state s))"
proof -
  obtain s1 where 1: "run_state m s = (0, s1)"
    and 2: "run_state (start_radio P tx (sx126x_hal_write P c d) t) s1 = (0, s')"
    using assms(2,4) by (auto simp: run_ok_else split: prod.splits if_splits)
  show ?thesis
    using start_radio_effect [OF _ 2] same_cfg [OF m 1] sameD [OF m 1] cb by simp
qed

lemma start_after_settings:
  assumes cb: "has_rf_switch_cb (rcfg s)"
    and "run_state (ok_else 1 (sid_pal_radio_set_frequency P f) (ok_else 1 (sid_pal_radio_set_tx_power P p)
      (start_radio P tx (sx126x_hal_write P c d) t))) s = (0, s')"
  shows "last_xfer (calls s') = Some (c @ d) \<and> rf_pos (calls s') = Some (True, tx \<or> \<not> awake (radio_state s))"
proof -
  obtain s1 where 1: "run_state (sid_pal_radio_set_frequency P f) s = (0, s1)"
    and 2: "run_state (ok_else 1 (sid_pal_radio_set_tx_power P p)
      (start_radio P tx (sx126x_hal_write P c d) t)) s1 = (0, s')"
    using assms(2) by (auto simp: run_ok_else [of 1 "sid_pal_radio_set_frequency P f"] split: prod.splits if_splits)
  show ?thesis
    using start_after [OF same_settings(2) _ _ 2] same_cfg [OF same_settings(1) 1]
      sameD [OF same_settings(1) 1] cb by simp
qed

lemmas start_defs = sid_pal_radio_start_tx_def sid_pal_radio_set_tx_continuous_wave_def
  sid_pal_radio_set_tx_continuous_preamble_def sid_pal_radio_start_rx_def
  sid_pal_radio_start_continuous_rx_def sid_pal_radio_set_rx_duty_cycle_def
  sid_pal_radio_lora_start_cad_def
  sx126x_set_tx_def sx126x_set_rx_def sx126x_set_tx_cw_def sx126x_set_tx_cpbl_def
  sx126x_set_rx_duty_cycle_def sx126x_set_cad_def



lemma rf_rest:
  assumes cb: "has_rf_switch_cb (rcfg s)"
    and 1: "run_state (radio_sx126x_set_radio_mode P False False) s = (0, s1)"
    and 2: "run_state (only_if b (sx126x_hal_write P c d)) s2 = (0, s3)"
    and "rf_pos (calls s2) = rf_pos (calls s1)" "rcfg s2 = rcfg s1" "radio_state s2 = radio_state s1"
    and 3: "rf_pos (calls s') = rf_pos (calls s3)"
  shows "rf_pos (calls s') = (let x = b \<and> \<not> awake (radio_state s) in Some (x, x))"
proof -
  have "rcfg s1 = rcfg s" "radio_state s1 = radio_state s"
    using any_keeps [OF any_set_radio_mode 1] by simp_all
  with assms rf_set_radio_mode [OF cb 1] rf_hal_write [of s2 P c d s3] show ?thesis
    by (auto simp: run_only_if Let_def split: if_splits)
qed

text \<open>CN. When the radio is put to sleep or to standby and was not there before, the antenna switch is
  left disabled; from the duty cycle, though, it is left enabled towards the transmitter, because
  the last command wakes the chip up first.\<close>

theorem radio_rest_switch:
  assumes "op = Standby \<or> op = Sleep t" and "target op \<noteq> Some (radio_state s)"
    and cb: "has_rf_switch_cb (rcfg s)" and run: "run_state (run_op P op) s = (0, s')"
  shows "rf_pos (calls s') = Some (radio_state s = RADIO_RX_DC, radio_state s = RADIO_RX_DC)"
  using assms(1)
proof
  assume op: "op = Sleep t"
  obtain s1 s2 s3 s4 s5 r where
      1: "run_state (radio_clear_irq_status_all P) s = (0, s1)"
    and 2: "run_state (radio_sx126x_set_radio_mode P False False) s1 = (0, s2)"
    and 3: "run_state (only_if (has_dio3_cb (rcfg s)) (call P (Dio3_cfg_cb 1))) s2 = (0, s3)"
    and 4: "run_state (sx126x_set_sleep P 4) s3 = (0, s4)"
    and 5: "run_state (set_gpio_cfg_sleep P) s4 = (r, s5)" and s': "s' = s5\<lparr>radio_state := RADIO_SLEEP\<rparr>"
    using run assms(2) op
    by (auto simp: sid_pal_radio_sleep_def set_state_def run_chk run_ok_else split: prod.splits if_splits)
  have any: "any_calls (radio_clear_irq_status_all P)" by (intro adds_intros) simp
  have q: "adds (\<lambda>_. True) quiet (only_if b (call P (Dio3_cfg_cb 1)))" for b by (intro adds_intros) simp
  have w4: "run_state (only_if True (sx126x_hal_write P [0x84, 4] [])) s3 = (0, s4)"
    using 4 by (simp add: sx126x_set_sleep_def run_only_if)
  have "rf_pos (calls s') = (let x = True \<and> \<not> awake (radio_state s1) in Some (x, x))"
  proof (rule rf_rest [OF _ 2 w4])
    show "has_rf_switch_cb (rcfg s1)" using any_keeps [OF any 1] cb by simp
    show "rf_pos (calls s3) = rf_pos (calls s2)" using rf_adds_quiet [OF q 3] by simp
    show "rcfg s3 = rcfg s2" "radio_state s3 = radio_state s2" using addsD [OF q 3] by auto
    show "rf_pos (calls s') = rf_pos (calls s4)"
      using rf_adds_quiet [OF adds_quiet_wakeup(5) 5, of "\<lambda>_. True"] s' by simp
  qed
  then show ?thesis using any_keeps [OF any 1] assms(2) op by (auto simp: awake_def Let_def)
next
  assume op: "op = Standby"
  obtain s0 s1 s2 s3 where
      0: "run_state (standby_wakeup P) s = (0, s0)"
    and 1: "run_state (radio_clear_irq_status_all P) s0 = (0, s1)"
    and 2: "run_state (radio_sx126x_set_radio_mode P False False) s1 = (0, s2)"
    and 3: "run_state (only_if (radio_state s2 \<noteq> RADIO_STANDBY) (sx126x_set_standby P 0))
      (s2\<lparr>calls := Delay_us 10 # calls s2\<rparr>) = (0, s3)" and s': "s' = s3\<lparr>radio_state := RADIO_STANDBY\<rparr>"
    using run assms(2) op
    by (auto simp: sid_pal_radio_standby_def set_state_def run_chk run_ok_else split: prod.splits if_splits)
  have any: "any_calls (radio_clear_irq_status_all P)" by (intro adds_intros) simp
  have any0: "rcfg s0 = rcfg s" by (rule standby_wakeup_cfg [OF 0])
  have st0: "radio_state s0 = (if radio_state s = RADIO_SLEEP then RADIO_STANDBY else radio_state s)"
    using standby_wakeup_outcome [OF 0] by simp
  have w3: "run_state (only_if (radio_state s2 \<noteq> RADIO_STANDBY) (sx126x_hal_write P [0x80, 0] []))
      (s2\<lparr>calls := Delay_us 10 # calls s2\<rparr>) = (0, s3)"
    using 3 by (simp add: sx126x_set_standby_def)
  have "rf_pos (calls s') =
      (let x = radio_state s2 \<noteq> RADIO_STANDBY \<and> \<not> awake (radio_state s1) in Some (x, x))"
    using any_keeps [OF any 1] any0 cb s' by (intro rf_rest [OF _ 2 w3]) simp_all
  then show ?thesis
    using any_keeps [OF any 1] any_keeps [OF any_set_radio_mode 2] st0 assms(2) op
    by (auto simp: awake_def Let_def)
qed

lemma radio_rest_switch_witness:
  "rf_pos (calls (snd (run_state (run_op demo_platform Standby) (demo_radio RADIO_RX_DC MODEM_MODE_LORA)))) =
    Some (True, True)"
proof -
  let ?m = "run_state (run_op demo_platform Standby) (demo_radio RADIO_RX_DC MODEM_MODE_LORA)"
  have "fst ?m = 0" by (simp add: demo_run demo_op_defs be_u16_def)
  then have "?m = (0, snd ?m)" by (simp add: prod_eq_iff)
  then show ?thesis
    using radio_rest_switch [of Standby 0 "demo_radio RADIO_RX_DC MODEM_MODE_LORA" demo_platform "snd ?m"]
    by simp
qed

end
