(* ===== verification/Sx126x_Radio_Inv.thy ===== *)
theory Sx126x_Radio_Inv
  imports Sx126x_Radio_Props
begin

text \<open>
  The invariant of the radio's context over every sequence of operations, measurements and
  interrupts, and the interrupt handler.
\<close>

section \<open>The invariant\<close>

definition default_irq_mask :: "radio_modem_mode \<Rightarrow> u16" where
  "default_irq_mask m =
     (case m of MODEM_MODE_LORA \<Rightarrow> SX126X_DEFAULT_LORA_IRQ_MASK | MODEM_MODE_FSK \<Rightarrow> SX126X_DEFAULT_FSK_IRQ_MASK)"

definition radio_inv :: "radio \<Rightarrow> bool" where
  "radio_inv s \<longleftrightarrow>
     length (rcv_payload (radio_rx_packet s)) = 255 \<and>
     irq_mask s = default_irq_mask (modem s) \<and>
     radio_state s \<in> {RADIO_UNKNOWN, RADIO_STANDBY, RADIO_SLEEP, RADIO_RX, RADIO_TX, RADIO_CAD, RADIO_RX_DC}"

lemma inv_calls [simp]: "radio_inv (s\<lparr>calls := h\<rparr>) = radio_inv s"
  by (simp add: radio_inv_def)

lemma inv_any:
  assumes "any_calls m"
  shows "keeps radio_inv m"
proof (unfold keeps_def, intro allI impI)
  fix s assume "radio_inv s"
  moreover obtain h where "snd (run_state m s) = s\<lparr>calls := h @ calls s\<rparr>"
    using assms unfolding adds_def by blast
  ultimately show "radio_inv (snd (run_state m s))" by simp
qed

named_theorems inv_intros

lemma inv_modify [inv_intros]:
  "keeps radio_inv (modify (trim_update f))" "keeps radio_inv (modify (radio_freq_hz_update g))"
  "keeps radio_inv (modify (pa_cfg_update h))" "keeps radio_inv (modify (regional_radio_param_update r))"
  "keeps radio_inv (modify (cad_exit_mode_update c))"
  "keeps radio_inv (modify (radio_rx_packet_update (rcv_tm_update t)))"
  "keeps radio_inv (modify (radio_rx_packet_update (rx_payload_len_update n)))"
  "keeps radio_inv (modify (radio_rx_packet_update (fsk_rx_packet_status_update fs)))"
  "keeps radio_inv (modify (radio_rx_packet_update (lora_rx_packet_status_update ls)))"
  by (simp_all add: keeps_def radio_inv_def)

lemma inv_set_state [inv_intros]:
  "t \<in> {RADIO_UNKNOWN, RADIO_STANDBY, RADIO_SLEEP, RADIO_RX, RADIO_TX, RADIO_CAD, RADIO_RX_DC} \<Longrightarrow>
    keeps radio_inv (set_state t)"
  by (simp add: keeps_def radio_inv_def set_state_def)

lemma inv_start_radio [inv_intros]:
  "any_calls c \<Longrightarrow>
    t \<in> {RADIO_UNKNOWN, RADIO_STANDBY, RADIO_SLEEP, RADIO_RX, RADIO_TX, RADIO_CAD, RADIO_RX_DC} \<Longrightarrow>
    keeps radio_inv (start_radio P b c t)"
  unfolding start_radio_def by (intro keeps_intros inv_intros inv_any adds_intros) simp_all

lemma inv_ops [inv_intros]:
  "keeps radio_inv (sid_pal_radio_sleep P t)" "keeps radio_inv (sid_pal_radio_standby P)"
  "keeps radio_inv (sid_pal_radio_set_frequency P f)" "keeps radio_inv (sid_pal_radio_set_tx_power P p)"
  "keeps radio_inv (set_radio_sx126x_trim_cap_val P w)" "keeps radio_inv (sid_pal_radio_set_region r)"
  "keeps radio_inv (sid_pal_radio_set_tx_payload P b)" "keeps radio_inv (sid_pal_radio_start_tx P t)"
  "keeps radio_inv (sid_pal_radio_start_rx P t)" "keeps radio_inv (sid_pal_radio_start_continuous_rx P)"
  "keeps radio_inv (sid_pal_radio_set_rx_duty_cycle P t u)" "keeps radio_inv (sid_pal_radio_lora_start_cad P)"
  unfolding sid_pal_radio_sleep_def sid_pal_radio_standby_def standby_wakeup_def
    sid_pal_radio_set_frequency_def sid_pal_radio_set_tx_power_def set_radio_sx126x_trim_cap_val_def
    sid_pal_radio_set_region_def sid_pal_radio_set_tx_payload_def start_defs
  by (intro keeps_intros inv_intros inv_any adds_intros; simp)+

lemma inv_ops2 [inv_intros]:
  "keeps radio_inv (sid_pal_radio_set_tx_continuous_wave P f p)"
  "keeps radio_inv (sid_pal_radio_set_tx_continuous_preamble P f p)"
  "keeps radio_inv (carrier_sense_started c m)"
  "keeps radio_inv (sid_pal_radio_start_carrier_sense P c m)"
proof -
  show 1: "keeps radio_inv (carrier_sense_started c m)"
    by (simp add: keeps_def radio_inv_def carrier_sense_started_def)
  show "keeps radio_inv (sid_pal_radio_start_carrier_sense P c m)"
    unfolding sid_pal_radio_start_carrier_sense_def
    by (intro keeps_intros 1 inv_any adds_intros) simp_all
qed (unfold sid_pal_radio_set_tx_continuous_wave_def sid_pal_radio_set_tx_continuous_preamble_def,
    intro keeps_intros inv_intros adds_intros; simp)+

lemma inv_modem [inv_intros]: "keeps radio_inv (sid_pal_radio_set_modem_mode P m)"
proof -
  have set: "keeps radio_inv (modify (\<lambda>s. s\<lparr>modem := MODEM_MODE_LORA, irq_mask := SX126X_DEFAULT_LORA_IRQ_MASK\<rparr>))"
    "keeps radio_inv (modify (\<lambda>s. s\<lparr>modem := MODEM_MODE_FSK, irq_mask := SX126X_DEFAULT_FSK_IRQ_MASK\<rparr>))"
    by (simp_all add: keeps_def radio_inv_def default_irq_mask_def)
  have "keeps radio_inv (radio_set_modem_to_lora_mode P)" "keeps radio_inv (radio_set_modem_to_fsk_mode P)"
    unfolding radio_set_modem_to_lora_mode_def radio_set_modem_to_fsk_mode_def
    by (intro keeps_intros set inv_any adds_intros; simp)+
  then show ?thesis by (cases m) (simp_all add: sid_pal_radio_set_modem_mode_def)
qed

lemma inv_run_op [inv_intros]: "keeps radio_inv (run_op P op)"
  by (cases op) (simp_all add: inv_intros)

section \<open>Received packets\<close>

text \<open>The buffers of a read keep their length.\<close>

lemma hal_read_length:
  "run_state (sx126x_hal_read P c d) s = ((r, d'), s') \<Longrightarrow> length d' = length d"
  by (auto simp: sx126x_hal_read_def sx126x_hal_rdwr_def sx126x_radio_bus_xfer_def
      split: prod.splits if_splits option.splits)

lemma read_buffer_length:
  "run_state (sx126x_read_buffer P off d) s = ((r, d'), s') \<Longrightarrow> length d' = length d"
  unfolding sx126x_read_buffer_def by (rule hal_read_length)

lemma inv_set_payload: "radio_inv s \<Longrightarrow> length bs = 255 \<Longrightarrow>
    radio_inv (radio_rx_packet_update (rcv_payload_update (\<lambda>_. bs)) s)"
  by (simp add: radio_inv_def)

lemma inv_read_into [inv_intros]:
  assumes "n \<le> 255"
  shows "keeps radio_inv (read_into_payload P off n)"
proof (unfold keeps_def, intro allI impI)
  fix s assume s: "radio_inv s"
  let ?b = "rcv_payload (radio_rx_packet s)"
  obtain r d s1 where 1: "run_state (sx126x_read_buffer P off (take n ?b)) s = ((r, d), s1)"
    by (metis surj_pair)
  have any: "any_calls (sx126x_read_buffer P off (take n ?b))" by (intro adds_intros) simp
  have b: "length ?b = 255" using s by (simp add: radio_inv_def)
  then have "length (d @ drop n ?b) = 255" using read_buffer_length [OF 1] assms by simp
  with keepsD [OF inv_any [OF any] s 1]
  show "radio_inv (snd (run_state (read_into_payload P off n) s))"
    using 1 by (simp add: read_into_payload_def get_rcv_payload_def set_rcv_payload_def inv_set_payload)
qed

lemma inv_payload [inv_intros]:
  "keeps radio_inv mark_sync_word" "keeps radio_inv unmark_sync_word" "keeps radio_inv (whiten_payload n)"
  "keeps radio_inv get_rcv_payload" "keeps radio_inv (set_rx_payload_len l)"
  "keeps radio_inv (set_fsk_rx_status x y)" "keeps radio_inv (upd_lora_status f)"
  unfolding mark_sync_word_def unmark_sync_word_def whiten_payload_def set_rcv_payload_def
    get_rcv_payload_def set_rx_payload_len_def set_fsk_rx_status_def upd_lora_status_def
  by (simp_all add: keeps_def radio_inv_def min_def)

lemma keeps_prod [keeps_intros]: "(\<And>a b. keeps I (f a b)) \<Longrightarrow> keeps I (case x of (a, b) \<Rightarrow> f a b)"
  by (cases x) simp

lemma keeps_Let [keeps_intros]: "keeps I (f t) \<Longrightarrow> keeps I (Let t f)"
  by (simp add: Let_def)

lemma inv_packets [inv_intros]:
  "keeps radio_inv (radio_lora_process_rx_done P)" "keeps radio_inv (sync_word_header P e)"
  "keeps radio_inv (radio_fsk_process_rx_done P i)"
proof -
  have "unat (l :: u8) \<le> 255" for l using unat_u8_lt [of l] by linarith
  then show "keeps radio_inv (radio_lora_process_rx_done P)" "keeps radio_inv (sync_word_header P e)"
    "keeps radio_inv (radio_fsk_process_rx_done P i)"
    unfolding radio_lora_process_rx_done_def lora_set_status_def get_lora_crc_present_in_header_def
      get_payload_def sync_word_header_def radio_fsk_process_rx_done_def fsk_check_packet_def
    by (intro keeps_intros inv_intros inv_any adds_intros; simp)+
qed

section \<open>Waiting loops\<close>

text \<open>A state that differs from another only in the history.\<close>

definition same_but_calls :: "radio \<Rightarrow> radio \<Rightarrow> bool" where
  "same_but_calls s s' \<longleftrightarrow> (\<exists>h. s' = s\<lparr>calls := h\<rparr>)"

lemma sbc_refl: "same_but_calls s s"
  unfolding same_but_calls_def by (rule exI [of _ "calls s"]) simp

lemma sbc_trans: "same_but_calls s t \<Longrightarrow> same_but_calls t u \<Longrightarrow> same_but_calls s u"
  unfolding same_but_calls_def by auto

lemma sbc_any: "any_calls m \<Longrightarrow> run_state m s = (r, s') \<Longrightarrow> same_but_calls s s'"
  unfolding same_but_calls_def by (blast dest: addsD)

lemma sbc_inv: "same_but_calls s s' \<Longrightarrow> radio_inv s' = radio_inv s"
  unfolding same_but_calls_def by auto

lemma sync_poll_frame: "sync_poll P tmp s = Some y \<Longrightarrow> same_but_calls s (snd y)"
proof (erule sync_poll.raw_induct
    [where Pa = "\<lambda>((P, tmp), s) y. same_but_calls s (snd y)", simplified prod.case, rotated])
  fix poll P tmp s y
  assume IH: "\<And>P tmp s y. poll P tmp s = Some y \<Longrightarrow> same_but_calls s (snd (y :: int \<times> radio))"
    and body: "(if tmp < 2
      then case run_state (sx126x_read_register P 0x0803 [tmp]) s of ((status, b), s') \<Rightarrow>
        if status \<noteq> 0 then Some (- 3, s') else poll P (hd b) s'
      else Some (0, s)) = Some y"
  have any: "any_calls (sx126x_read_register P 0x0803 [tmp])" by (intro adds_intros) simp
  obtain st b s1 where run: "run_state (sx126x_read_register P 0x0803 [tmp]) s = ((st, b), s1)"
    by (metis surj_pair)
  note step = sbc_any [OF any run]
  show "same_but_calls s (snd y)"
  proof (cases "tmp < 2 \<and> st = 0")
    case True
    then have "poll P (hd b) s1 = Some y" using body run by simp
    then have "same_but_calls s1 (snd y)" by (rule IH)
    then show ?thesis by (rule sbc_trans [OF step])
  next
    case False
    then have "snd y = s \<or> snd y = s1" using body run by (auto split: if_splits)
    then show ?thesis using step sbc_refl by auto
  qed
qed

lemma channel_poll_frame:
  "channel_poll T P thr t0 lim s = Some y \<Longrightarrow> same_but_calls s (snd y)"
proof (erule channel_poll.raw_induct
    [where Pa = "\<lambda>(((((T, P), thr), t0), lim), s) y. same_but_calls s (snd y)", simplified prod.case, rotated])
  fix poll T P thr t0 lim s y
  assume IH: "\<And>T P thr t0 lim s y. poll T P thr t0 lim s = Some y \<Longrightarrow> same_but_calls s (snd (y :: (int \<times> bool) \<times> radio))"
    and body: "(case run_state (do { _ \<leftarrow> emit (Delay_us 1); sid_pal_radio_rssi P }) s of (rssi, s1) \<Rightarrow>
      case run_state (call P Clock_now) s1 of (r, s2) \<Rightarrow>
        if r \<noteq> 0 then Some ((- 8, False), s2)
        else if lim < rssi then Some ((0, False), s2)
        else if sid_time_gt T thr (sid_time_sub T (clock_of P (calls s2)) t0) then poll T P thr t0 lim s2
        else Some ((0, True), s2)) = Some y"
  let ?m = "do { _ \<leftarrow> emit (Delay_us 1); sid_pal_radio_rssi P }"
  obtain rssi s1 where 1: "run_state ?m s = (rssi, s1)" by fastforce
  obtain r s2 where 2: "run_state (call P Clock_now) s1 = (r, s2)" by fastforce
  have any: "any_calls ?m" "any_calls (call P Clock_now)" by (intro adds_intros; simp)+
  note step = sbc_trans [OF sbc_any [OF any(1) 1] sbc_any [OF any(2) 2]]
  have "snd y = s2 \<or> poll T P thr t0 lim s2 = Some y"
    using body unfolding 1 prod.case 2 by (auto split: if_splits)
  then show "same_but_calls s (snd y)"
  proof
    assume "poll T P thr t0 lim s2 = Some y"
    then show ?thesis by (rule sbc_trans [OF step IH])
  qed (use step in simp)
qed

section \<open>Interrupts, measurements, initialisation\<close>

lemma inv_state: "(\<And>s. radio_inv s \<Longrightarrow> radio_inv (snd (f s))) \<Longrightarrow> keeps radio_inv (State f)"
  by (simp add: keeps_def)

lemma inv_sync_word [inv_intros]: "keeps radio_inv (radio_fsk_process_sync_word_detected P)"
  unfolding radio_fsk_process_sync_word_detected_def
proof (rule inv_state)
  fix s assume s: "radio_inv s"
  show "radio_inv (snd (case sync_poll P 0 s of None \<Rightarrow> (None, s)
      | Some (err, s') \<Rightarrow> apfst Some (run_state (sync_word_header P err) s')))"
  proof (cases "sync_poll P 0 s")
    case (Some y)
    then obtain err s' where y: "y = (err, s')" by (cases y) auto
    with Some have "radio_inv s'" using sbc_inv [OF sync_poll_frame [OF Some]] s by simp
    then show ?thesis using inv_packets(2) [of P err] Some y by (auto simp: keeps_def apfst_def map_prod_def split: prod.splits)
  qed (use s in simp)
qed

lemma inv_measure_end [inv_intros]: "keeps radio_inv (measure_end P e)"
  unfolding measure_end_def by (intro keeps_intros inv_intros inv_any adds_intros) simp

lemma inv_channel_free [inv_intros]: "keeps radio_inv (sid_pal_radio_is_channel_free T us P f lim d)"
proof -
  let ?tail = "\<lambda>err free. do { e' \<leftarrow> measure_end P err; return (Some (e', free :: bool)) }"
  have tail: "keeps radio_inv (?tail err free)" for err free by (intro keeps_intros inv_intros)
  have poll: "keeps radio_inv (State (\<lambda>s. case channel_poll T P thr t0 lim s of
      None \<Rightarrow> (None, s) | Some ((err, free), s') \<Rightarrow> run_state (?tail err free) s'))" for thr t0
  proof (rule inv_state)
    fix s assume s: "radio_inv s"
    show "radio_inv (snd (case channel_poll T P thr t0 lim s of
      None \<Rightarrow> (None, s) | Some ((err, free), s') \<Rightarrow> run_state (?tail err free) s'))"
    proof (cases "channel_poll T P thr t0 lim s")
      case (Some y)
      then obtain err free s' where y: "y = ((err, free), s')" by (metis surj_pair)
      with Some have "radio_inv s'" using sbc_inv [OF channel_poll_frame [OF Some]] s by simp
      then show ?thesis using tail [of err free] Some y by (auto simp: keeps_def)
    qed (use s in simp)
  qed
  show ?thesis unfolding sid_pal_radio_is_channel_free_def
    by (intro keeps_intros poll tail inv_intros inv_any adds_intros) simp_all
qed

lemma any_sum_noise: "any_calls (sum_noise P n w)"
  by (induction n arbitrary: w) (simp_all, (intro adds_intros; simp)+)

lemma inv_sum_noise [inv_intros]: "keeps radio_inv (sum_noise P n w)"
  by (rule inv_any [OF any_sum_noise])

lemma inv_measure [inv_intros]:
  "keeps radio_inv (sid_pal_radio_get_chan_noise P f w)" "keeps radio_inv (sid_pal_radio_random P)"
  "keeps radio_inv (radio_irq P pin)"
  unfolding sid_pal_radio_get_chan_noise_def sid_pal_radio_random_def radio_irq_def
  by (intro keeps_intros inv_intros inv_any adds_intros; simp)+

lemma inv_irq_parts [inv_intros]:
  "keeps radio_inv (irq_timeout P)" "keeps radio_inv (irq_lora P w)" "keeps radio_inv (irq_fsk_rx_done P)"
  unfolding irq_timeout_def irq_lora_def irq_fsk_rx_done_def
  by (intro keeps_intros inv_intros inv_any adds_intros; simp)+

lemma inv_irq_dispatch [inv_intros]: "keeps radio_inv (irq_dispatch P w)"
proof -
  have pbl: "keeps radio_inv (modify (\<lambda>s. s\<lparr>radio_rx_packet :=
      fsk_rx_packet_status_update f (radio_rx_packet s), cad_exit_mode := c\<rparr>))" for f c
    by (simp add: keeps_def radio_inv_def)
  have "keeps radio_inv (irq_fsk P w)" unfolding irq_fsk_def
    by (intro keeps_intros pbl inv_intros inv_any adds_intros) simp_all
  moreover have "keeps radio_inv (do { r \<leftarrow> irq_lora P w; return (Some r) })"
    by (intro keeps_intros inv_intros)
  ultimately have "keeps radio_inv (case m of MODEM_MODE_FSK \<Rightarrow> irq_fsk P w
      | MODEM_MODE_LORA \<Rightarrow> do { r \<leftarrow> irq_lora P w; return (Some r) })" for m by (cases m) simp_all
  then show ?thesis unfolding irq_dispatch_def by (intro keeps_intros inv_intros)
qed

lemma inv_irq_process:
  assumes "\<And>ev. keeps radio_inv (notify ev)"
  shows "keeps radio_inv (sid_pal_radio_irq_process P notify)"
  unfolding sid_pal_radio_irq_process_def
  by (intro keeps_intros assms inv_intros inv_any adds_intros) simp_all

section \<open>Initialisation\<close>

lemma any_init_tcxo: "any_calls (init_tcxo P)"
  unfolding init_tcxo_def by (intro adds_intros) simp_all

text \<open>\<open>gives I m\<close>: from a state with \<open>I\<close>, success of \<open>m\<close> establishes the invariant.\<close>

definition gives :: "(radio \<Rightarrow> bool) \<Rightarrow> radio_error rm \<Rightarrow> bool" where
  "gives I m \<longleftrightarrow> (\<forall>s s'. I s \<longrightarrow> run_state m s = (0, s') \<longrightarrow> radio_inv s')"

lemma gives_chk: "keeps I m \<Longrightarrow> gives I k \<Longrightarrow> gives I (chk m k)"
  unfolding gives_def run_chk by (auto dest: keepsD split: prod.splits if_splits)

lemma gives_ok_else: "e \<noteq> 0 \<Longrightarrow> keeps I m \<Longrightarrow> gives I k \<Longrightarrow> gives I (ok_else e m k)"
  unfolding gives_def run_ok_else by (auto dest: keepsD split: prod.splits if_splits)

lemma gives_bind: "keeps I m \<Longrightarrow> (\<And>x. gives I (k x)) \<Longrightarrow> gives I (State_Monad.bind m k)"
  unfolding gives_def by (fastforce dest: keepsD split: prod.splits)

lemma gives_modify: "(\<And>s. I s \<Longrightarrow> J (f s)) \<Longrightarrow> gives J (k ()) \<Longrightarrow> gives I (State_Monad.bind (modify f) k)"
  unfolding gives_def by auto

lemma gives_keeps: "keeps radio_inv m \<Longrightarrow> gives radio_inv m"
  unfolding gives_def by (auto dest: keepsD)

text \<open>Before the mask is set, and after it.\<close>

definition pre_init :: "radio \<Rightarrow> bool" where
  "pre_init s \<longleftrightarrow> length (rcv_payload (radio_rx_packet s)) = 255 \<and> modem s = MODEM_MODE_LORA"

definition masked :: "radio \<Rightarrow> bool" where
  "masked s \<longleftrightarrow> pre_init s \<and> irq_mask s = SX126X_DEFAULT_LORA_IRQ_MASK"

lemma frame_any:
  assumes "any_calls m"
  shows keeps_pre_init: "keeps pre_init m" and keeps_masked: "keeps masked m"
proof -
  have "\<exists>h. snd (run_state m s) = s\<lparr>calls := h @ calls s\<rparr>" for s
    using assms unfolding adds_def by blast
  moreover have "pre_init (s\<lparr>calls := h\<rparr>) = pre_init s" "masked (s\<lparr>calls := h\<rparr>) = masked s" for s h
    by (simp_all add: pre_init_def masked_def)
  ultimately show "keeps pre_init m" "keeps masked m" by (metis keeps_def)+
qed

lemma pre_platform_init:
  "keeps pre_init (radio_sx126x_platform_init P)" "keeps pre_init (sid_pal_radio_set_region r)"
proof -
  have set: "keeps pre_init (modify (trim_update f))" "keeps pre_init (modify (regional_radio_param_update g))"
    for f g by (simp_all add: keeps_def pre_init_def)
  show "keeps pre_init (radio_sx126x_platform_init P)"
    unfolding radio_sx126x_platform_init_def pin_direction_def
    by (intro keeps_intros set frame_any adds_intros) simp_all
  show "keeps pre_init (sid_pal_radio_set_region r)"
    unfolding sid_pal_radio_set_region_def by (intro keeps_intros set)
qed

lemma init_establishes:
  assumes run: "run_state (sid_pal_radio_init P True True (Some rxp)) s = (0, s')"
    and len: "length (rcv_payload rxp) = 255"
  shows "radio_inv s'"
proof -
  have "gives (\<lambda>_. True) (sid_pal_radio_init P True True (Some rxp))"
    unfolding sid_pal_radio_init_def option.case simp_thms if_False
    apply (rule gives_modify [where J = pre_init], simp add: pre_init_def len)
    apply (rule gives_bind, rule keeps_gets)
    apply (rule gives_bind, rule pre_platform_init)
    apply (rule gives_chk, rule pre_platform_init)
    apply (rule gives_chk, rule keeps_pre_init, rule any_set_radio_mode)
    apply (rule gives_ok_else, simp, rule keeps_pre_init, (intro adds_intros; simp))
    apply (rule gives_modify [where J = masked], simp add: masked_def pre_init_def)
    apply (rule gives_ok_else, simp, rule keeps_masked, (intro adds_intros; simp))
    apply (rule gives_modify [where J = radio_inv])
     apply (simp add: masked_def pre_init_def radio_inv_def default_irq_mask_def)
    apply (rule gives_keeps)
    apply (intro keeps_intros inv_intros inv_any any_init_tcxo adds_intros)
    apply (simp_all add: sid_pal_radio_get_max_tx_power_def)
    apply (intro adds_intros; simp)
    done
  with run show ?thesis by (simp add: gives_def)
qed

section \<open>Every run of the radio\<close>

text \<open>
  The measurements of the interface, which switch the receiver on and off again, and the runs of
  the radio: a successful initialisation on a packet of the declared size, then operations,
  measurements, interrupts of the pin and calls of the interrupt handler, during which the upper
  layer may run any operations from its callback.
\<close>

primrec run_ops :: "platform \<Rightarrow> radio_op list \<Rightarrow> unit rm" where
  "run_ops P [] = return ()"
| "run_ops P (op # ops) = do { _ \<leftarrow> run_op P op; run_ops P ops }"

inductive radio_reach :: "platform \<Rightarrow> time_ops \<Rightarrow> (u32 \<Rightarrow> sid_timespec) \<Rightarrow> radio \<Rightarrow> bool"
  for P T us_ts where
  init: "run_state (sid_pal_radio_init P True True (Some rxp)) s = (0, s') \<Longrightarrow>
    length (rcv_payload rxp) = 255 \<Longrightarrow> radio_reach P T us_ts s'"
| op: "radio_reach P T us_ts s \<Longrightarrow> radio_reach P T us_ts (snd (run_state (run_op P op) s))"
| channel_free: "radio_reach P T us_ts s \<Longrightarrow>
    radio_reach P T us_ts (snd (run_state (sid_pal_radio_is_channel_free T us_ts P f lim d) s))"
| chan_noise: "radio_reach P T us_ts s \<Longrightarrow>
    radio_reach P T us_ts (snd (run_state (sid_pal_radio_get_chan_noise P f n) s))"
| random: "radio_reach P T us_ts s \<Longrightarrow> radio_reach P T us_ts (snd (run_state (sid_pal_radio_random P) s))"
| pin_irq: "radio_reach P T us_ts s \<Longrightarrow> radio_reach P T us_ts (snd (run_state (radio_irq P pin) s))"
| irq_process: "radio_reach P T us_ts s \<Longrightarrow>
    radio_reach P T us_ts (snd (run_state (sid_pal_radio_irq_process P (\<lambda>ev. run_ops P (ops ev))) s))"

lemma keeps_snd: "keeps I m \<Longrightarrow> I s \<Longrightarrow> I (snd (run_state m s))"
  by (simp add: keeps_def)

lemma inv_run_ops [inv_intros]: "keeps radio_inv (run_ops P ops)"
  by (induction ops) (simp_all add: keeps_intros inv_intros)

lemmas demo_init_defs = sid_pal_radio_init_def radio_sx126x_platform_init_def pin_direction_def
  sx126x_reset_def sx126x_hal_reset_def sx126x_set_dio2_as_rf_sw_ctrl_def sx126x_set_reg_mode_def
  sx126x_set_buffer_base_addr_def sx126x_cfg_rx_boosted_def init_tcxo_def
  sid_pal_radio_get_max_tx_power_def sid_pal_radio_set_tx_power_def sx126x_set_pa_cfg_def
  sx126x_set_tx_params_def sid_pal_radio_set_region_def radio_enable_irq_def sx126x_set_dio_irq_params_def

lemmas demo_irq_defs = sid_pal_radio_irq_process_def radio_disable_irq_def radio_enable_irq_def
  sx126x_set_dio_irq_params_def sx126x_get_and_clear_irq_status_def sx126x_get_irq_status_def
  sx126x_clear_irq_status_def irq_dispatch_def irq_lora_def u16_of_be_def


section \<open>The interrupt handler\<close>

text \<open>CN. When the interrupt handler returns success and does not leave the radio asleep, its last
  command to the chip enables the interrupts of the mask again; on every path, errors of the
  handled packet included.\<close>

theorem irq_process_reenables:
  assumes "run_state (sid_pal_radio_irq_process P notify) s = (Some 0, s')"
    and "radio_state s' \<noteq> RADIO_SLEEP"
  shows "last_xfer (calls s') =
    Some (0x08 # be_u16 (irq_mask s') @ be_u16 (irq_mask s') @ be_u16 RADIO_IRQ_NONE @ be_u16 RADIO_IRQ_NONE)"
proof -
  have en: "last_xfer (calls t') =
      Some (0x08 # be_u16 (irq_mask t') @ be_u16 (irq_mask t') @ be_u16 RADIO_IRQ_NONE @ be_u16 RADIO_IRQ_NONE)"
    if "run_state (radio_enable_irq P) t = (0, t')" for t t'
  proof -
    have any: "any_calls (radio_enable_irq P)" by (intro adds_intros) simp
    have "irq_mask t' = irq_mask t" by (rule any_keeps [OF any that])
    moreover have "run_state (sx126x_set_dio_irq_params P (irq_mask t) (irq_mask t)
        RADIO_IRQ_NONE RADIO_IRQ_NONE) t = (0, t')"
      using that by (simp add: radio_enable_irq_def run_ok_else split: prod.splits if_splits)
    ultimately show ?thesis
      using last_xfer_hal_write [of P _ _ t t'] by (simp add: sx126x_set_dio_irq_params_def)
  qed
  define tail :: "radio_error \<times> radio_event \<Rightarrow> radio_error option rm" where
    "tail = (\<lambda>(err, ev). do {
       _ \<leftarrow> (if ev \<noteq> EVENT_UNKNOWN then notify ev else return ());
       st \<leftarrow> gets radio_state;
       if st \<noteq> RADIO_SLEEP then do { e \<leftarrow> radio_enable_irq P; return (Some e) }
       else return (Some err) })"
  obtain x t where "run_state (tail x) t = (Some 0, s')"
    using assms(1) unfolding sid_pal_radio_irq_process_def tail_def
    by (auto split: prod.splits option.splits if_splits)
  moreover have any: "any_calls (radio_enable_irq P)" by (intro adds_intros) simp
  ultimately obtain t2 where "run_state (radio_enable_irq P) t2 = (0, s')"
    using assms(2) any_keeps(2) [OF any] unfolding tail_def by (auto split: prod.splits if_splits)
  then show ?thesis by (rule en)
qed



lemma irq_process_reenables_witness:
  "last_xfer (calls (snd (run_state (sid_pal_radio_irq_process demo_platform (\<lambda>_. return ()))
    (demo_radio RADIO_RX MODEM_MODE_LORA)))) = Some [0x08, 0x03, 0xF3, 0x03, 0xF3, 0, 0, 0, 0]"
proof -
  let ?m = "run_state (sid_pal_radio_irq_process demo_platform (\<lambda>_. return ())) (demo_radio RADIO_RX MODEM_MODE_LORA)"
  have run: "fst ?m = Some 0 \<and> radio_state (snd ?m) = RADIO_RX \<and> irq_mask (snd ?m) = 0x3F3"
    by (simp add: demo_run demo_irq_defs be_u16_def)
  then have "?m = (Some 0, snd ?m)" by (simp add: prod_eq_iff)
  then show ?thesis
    using irq_process_reenables [of demo_platform "\<lambda>_. return ()" _ "snd ?m"] run by (simp add: be_u16_def)
qed

end
