(* ===== verification/Fsk_Crc.thy ===== *)
theory Fsk_Crc
  imports Fsk_Codec
begin

text \<open>
  What the FSK layer's checksums and whitening promise. A locale states what makes a shift
  register a cyclic redundancy check; both checksums are instances of it. It gives the detection
  of every error confined to as many consecutive bytes as the checksum has, and the residue a
  correct frame leaves.
\<close>

section \<open>Shift registers\<close>

lemma xor_left_cancel [simp]: "(a :: 'a::len word) XOR b = a XOR c \<longleftrightarrow> b = c"
proof
  assume "a XOR b = a XOR c"
  then have "a XOR (a XOR b) = a XOR (a XOR c)" by simp
  then show "b = c" by (simp flip: xor.assoc)
qed simp

lemma xor_right_cancel [simp]: "(b :: 'a::len word) XOR a = c XOR a \<longleftrightarrow> b = c"
  by (simp add: xor.commute [of _ a])

lemma xor_eq_iff: "(a :: 'a::len word) XOR b = c \<longleftrightarrow> b = a XOR c"
  using xor_left_cancel [of a b "a XOR c"] by (simp flip: xor.assoc)

locale crc_register =
  fixes bit_step :: "'a::len word \<Rightarrow> 'a word"
    and byte_step :: "'a word \<Rightarrow> u8 \<Rightarrow> 'a word"
    and k :: nat
  assumes linear: "bit_step (a XOR b) = bit_step a XOR bit_step b"
    and kernel: "bit_step a = 0 \<Longrightarrow> a = 0"
    and shift: "\<not> bit a (LENGTH('a) - 1) \<Longrightarrow> bit_step a = push_bit 1 a"
    and byte: "byte_step c x = (bit_step ^^ 8) (c XOR push_bit (LENGTH('a) - 8) (ucast x))"
    and width: "LENGTH('a) = 8 * k"
begin

lemma steps_linear: "(bit_step ^^ n) (a XOR b) = (bit_step ^^ n) a XOR (bit_step ^^ n) b"
  by (induction n) (simp_all add: linear)

lemma steps_kernel: "(bit_step ^^ n) a = 0 \<Longrightarrow> a = 0"
  by (induction n) (auto dest: kernel)

lemma steps_inj: "(bit_step ^^ n) a = (bit_step ^^ n) b \<longleftrightarrow> a = b"
proof
  assume "(bit_step ^^ n) a = (bit_step ^^ n) b"
  then have "(bit_step ^^ n) (a XOR b) = 0" by (simp add: steps_linear)
  then have "a XOR b = 0" by (rule steps_kernel)
  then show "a = b" by (simp add: xor_eq_iff)
qed simp

text \<open>A byte that is far enough from the top only moves up.\<close>

lemma steps_shift:
  assumes "i + 8 + n \<le> LENGTH('a)"
  shows "(bit_step ^^ n) (push_bit i (ucast (b :: u8))) = push_bit (i + n) (ucast b)"
  using assms
proof (induction n)
  case (Suc n)
  have "\<not> bit (push_bit (i + n) (ucast b) :: 'a word) (LENGTH('a) - 1)"
    using Suc.prems by (auto simp: bit_simps dest: bit_imp_le_length)
  with Suc show ?case by (simp add: shift)
qed simp

text \<open>Bytes laid into the register from position \<open>i\<close> down.\<close>

fun lay :: "nat \<Rightarrow> u8 list \<Rightarrow> 'a word" where
  "lay i [] = 0"
| "lay i (b # bs) = push_bit (LENGTH('a) - 8 - 8 * i) (ucast b) XOR lay (Suc i) bs"

lemma lay_up: "Suc i + length bs \<le> k \<Longrightarrow> (bit_step ^^ 8) (lay (Suc i) bs) = lay i bs"
proof (induction bs arbitrary: i)
  case Nil
  then show ?case using steps_linear [of 8 0 0] by simp
next
  case (Cons b bs)
  have le: "8 * Suc i + 8 \<le> LENGTH('a)" using Cons.prems width by simp
  then have "(bit_step ^^ 8) (push_bit (LENGTH('a) - 8 - 8 * Suc i) (ucast b)) =
      push_bit (LENGTH('a) - 8 - 8 * i) (ucast b)"
    by (subst steps_shift) (simp_all add: algebra_simps)
  with Cons show ?case by (simp add: steps_linear)
qed

lemma block: "length bs \<le> k \<Longrightarrow> foldl byte_step c bs = (bit_step ^^ (8 * length bs)) (c XOR lay 0 bs)"
proof (induction bs arbitrary: c)
  case (Cons b bs)
  let ?d = "c XOR push_bit (LENGTH('a) - 8) (ucast b)"
  have "foldl byte_step c (b # bs) = (bit_step ^^ (8 * length bs)) ((bit_step ^^ 8) ?d XOR lay 0 bs)"
    using Cons by (simp add: byte [of c b])
  also have "(bit_step ^^ 8) ?d XOR lay 0 bs = (bit_step ^^ 8) (?d XOR lay 1 bs)"
    using Cons.prems by (simp add: steps_linear lay_up [symmetric])
  finally have "foldl byte_step c (b # bs) = (bit_step ^^ (8 * length bs + 8)) (?d XOR lay 1 bs)"
    by (simp only: funpow_add comp_apply)
  then show ?case by (simp add: xor.assoc algebra_simps)
qed simp

lemma drop_push: "8 + n \<le> LENGTH('a) \<Longrightarrow> drop_bit n (push_bit n (ucast (b :: u8)) :: 'a word) = ucast b"
  by (rule bit_eqI) (auto simp: bit_simps dest: bit_imp_le_length)

lemma lay_below: "i + length bs \<le> k \<Longrightarrow> drop_bit (LENGTH('a) - 8 * i) (lay i bs) = 0"
proof (induction bs arbitrary: i)
  case (Cons b bs)
  have "drop_bit (LENGTH('a) - 8 * i) (push_bit (LENGTH('a) - 8 - 8 * i) (ucast b) :: 'a word) =
      drop_bit 8 (ucast b)"
    using Cons.prems width drop_push [of "LENGTH('a) - 8 - 8 * i" b]
      drop_bit_drop_bit [of 8 "LENGTH('a) - 8 - 8 * i" "push_bit (LENGTH('a) - 8 - 8 * i) (ucast b) :: 'a word"]
    by (simp add: algebra_simps)
  also have "drop_bit 8 (ucast b) = (0 :: 'a word)"
    by (rule bit_eqI) (auto simp: bit_simps dest: bit_imp_le_length)
  finally have 1: "drop_bit (LENGTH('a) - 8 * i) (push_bit (LENGTH('a) - 8 - 8 * i) (ucast b) :: 'a word) = 0" .
  have "drop_bit (LENGTH('a) - 8 * Suc i) (lay (Suc i) bs) = 0"
    using Cons.IH [of "Suc i"] Cons.prems by simp
  then have "drop_bit 8 (drop_bit (LENGTH('a) - 8 * Suc i) (lay (Suc i) bs)) = 0" by simp
  then have "drop_bit (LENGTH('a) - 8 * i) (lay (Suc i) bs) = 0"
    using Cons.prems width by (simp add: algebra_simps)
  with 1 show ?case by simp
qed simp

lemma lay_inj:
  "i + length u \<le> k \<Longrightarrow> length v = length u \<Longrightarrow> lay i u = lay i v \<longleftrightarrow> u = v"
proof (induction u arbitrary: i v)
  case (Cons a u)
  then obtain b w where v: "v = b # w" and len: "length w = length u" by (cases v) auto
  let ?n = "LENGTH('a) - 8 - 8 * i"
  have top: "drop_bit ?n (lay i (c # z)) = ucast c" if "length z = length u" for c z
    using that Cons.prems(1) lay_below [of "Suc i" z] width
    by (simp add: drop_push algebra_simps)
  show ?case
  proof
    assume eq: "lay i (a # u) = lay i v"
    then have "(ucast a :: 'a word) = ucast b" using top [of u a] top [of w b] len v by simp
    then have bits: "bit (ucast a :: 'a word) n = bit (ucast b :: 'a word) n" for n by simp
    have wide: "8 \<le> LENGTH('a)" using Cons.prems(1) width by simp
    have "a = b"
    proof (rule bit_eqI)
      fix n assume "possible_bit TYPE(u8) n"
      then have "n < LENGTH('a)" using wide by simp
      then show "bit a n \<longleftrightarrow> bit b n" using bits [of n] by (simp add: bit_ucast_iff)
    qed
    then have "lay (Suc i) u = lay (Suc i) w"
      using eq v by simp
    then show "a # u = v" using \<open>a = b\<close> Cons.IH [of "Suc i" w] Cons.prems(1) len v by simp
  qed simp
qed simp

text \<open>Two messages that differ only in a stretch of at most \<open>k\<close> bytes leave different registers.\<close>

lemma byte_inj: "byte_step c x = byte_step d x \<longleftrightarrow> c = d"
  by (simp add: byte steps_inj)

lemma foldl_inj: "foldl byte_step c bs = foldl byte_step d bs \<longleftrightarrow> c = d"
  by (induction bs arbitrary: c d) (simp_all add: byte_inj)

lemma burst:
  assumes "length u \<le> k" and "length v = length u"
  shows "foldl byte_step c (p @ u @ q) = foldl byte_step c (p @ v @ q) \<longleftrightarrow> u = v"
proof -
  let ?c = "foldl byte_step c p"
  have "foldl byte_step c (p @ u @ q) = foldl byte_step c (p @ v @ q) \<longleftrightarrow>
      ?c XOR lay 0 u = ?c XOR lay 0 v"
    using assms by (simp add: foldl_inj block steps_inj)
  also have "\<dots> \<longleftrightarrow> lay 0 u = lay 0 v" by simp
  finally show ?thesis using assms lay_inj [of 0 u v] by simp
qed

text \<open>A checksum appended to its message: the register then depends on nothing but the final mask.\<close>

lemma residue:
  assumes "length fcs = k"
  shows "foldl byte_step c (p @ fcs) = (bit_step ^^ (8 * k)) m \<longleftrightarrow> lay 0 fcs = foldl byte_step c p XOR m"
  using assms by (simp add: block steps_inj xor_eq_iff)

end


section \<open>The two checksums\<close>

lemma crc16_bit_alt: "crc16_bit c = push_bit 1 c XOR (if bit c 15 then 0x1021 else 0)"
  using and_exp_eq_0_iff_not_bit [of c 15] by (auto simp: crc16_bit_def)

lemma crc32_bit_alt: "crc32_bit c = push_bit 1 c XOR (if bit c 31 then 0x04C11DB7 else 0)"
  using and_exp_eq_0_iff_not_bit [of c 31] by (auto simp: crc32_bit_def)

lemma push_bit_1_eq_0:
  assumes "push_bit 1 (a :: 'a::len word) = 0" and "\<not> bit a (LENGTH('a) - 1)"
  shows "a = 0"
proof (rule bit_eqI)
  fix n assume "possible_bit TYPE('a word) n"
  then have "n < LENGTH('a)" by simp
  have "\<not> bit (push_bit 1 a) (Suc n)" using assms(1) by simp
  then have "Suc n < LENGTH('a) \<Longrightarrow> \<not> bit a n" 
    by (simp only: bit_push_bit_iff possible_bit_word) simp
  with assms(2) \<open>n < LENGTH('a)\<close> show "bit a n \<longleftrightarrow> bit (0 :: 'a word) n"
    by (cases "Suc n < LENGTH('a)") (auto simp: less_Suc_eq not_less dest!: le_antisym)
qed

lemma feedback_linear:
  fixes a b p :: "'a::len word"
  shows "push_bit n (a XOR b) XOR (if bit (a XOR b) m then p else 0) =
    (push_bit n a XOR (if bit a m then p else 0)) XOR (push_bit n b XOR (if bit b m then p else 0))"
proof -
  have "p XOR (x XOR (p XOR y)) = x XOR y" for x y :: "'a word"
    by (simp add: xor.left_commute flip: xor.assoc)
  then show ?thesis
    by (cases "bit a m"; cases "bit b m")
      (simp_all add: push_bit_xor bit_xor_iff xor.assoc xor.commute xor.left_commute)
qed

interpretation crc16: crc_register crc16_bit crc16_byte 2
proof
  fix a b :: u16 and x :: u8
  show "crc16_bit (a XOR b) = crc16_bit a XOR crc16_bit b"
    by (simp only: crc16_bit_alt feedback_linear)
  show "crc16_bit a = 0 \<Longrightarrow> a = 0"
  proof -
    assume zero: "crc16_bit a = 0"
    then have "\<not> bit (crc16_bit a) 0" by simp
    then have "\<not> bit a 15" by (simp add: crc16_bit_alt bit_0 even_xor_iff split: if_splits)
    with zero show "a = 0" using push_bit_1_eq_0 [of a] by (simp add: crc16_bit_alt)
  qed
  show "\<not> bit a (LENGTH(16) - 1) \<Longrightarrow> crc16_bit a = push_bit 1 a"
    by (simp add: crc16_bit_alt)
  show "crc16_byte a x = (crc16_bit ^^ 8) (a XOR push_bit (LENGTH(16) - 8) (ucast x))"
    by (simp add: crc16_byte_def)
qed simp

interpretation crc32: crc_register crc32_bit crc32_byte 4
proof
  fix a b :: u32 and x :: u8
  show "crc32_bit (a XOR b) = crc32_bit a XOR crc32_bit b"
    by (simp only: crc32_bit_alt feedback_linear)
  show "crc32_bit a = 0 \<Longrightarrow> a = 0"
  proof -
    assume zero: "crc32_bit a = 0"
    then have "\<not> bit (crc32_bit a) 0" by simp
    then have "\<not> bit a 31" by (simp add: crc32_bit_alt bit_0 even_xor_iff split: if_splits)
    with zero show "a = 0" using push_bit_1_eq_0 [of a] by (simp add: crc32_bit_alt)
  qed
  show "\<not> bit a (LENGTH(32) - 1) \<Longrightarrow> crc32_bit a = push_bit 1 a"
    by (simp add: crc32_bit_alt)
  show "crc32_byte a x = (crc32_bit ^^ 8) (a XOR push_bit (LENGTH(32) - 8) (ucast x))"
    by (simp add: crc32_byte_def)
qed simp

section \<open>Frame check sequences\<close>

lemma lay_be16: "crc16.lay 0 (be_u16 c) = c"
  by (rule bit_eqI) (auto simp: be_u16_def bit_simps not_less dest: bit_imp_le_length)

lemma lay_be32: "crc32.lay 0 (be_u32 c) = c"
proof (rule bit_eqI)
  fix n assume "possible_bit TYPE(u32) n"
  then show "bit (crc32.lay 0 (be_u32 c)) n \<longleftrightarrow> bit c n"
    by (cases "n < 8"; cases "n < 16"; cases "n < 24")
      (auto simp: be_u32_def bit_simps not_less dest: bit_imp_le_length)
qed

lemma length_be [simp]: "length (be_u16 w) = 2" "length (be_u24 v) = 3" "length (be_u32 v) = 4"
  by (simp_all add: be_u16_def be_u24_def be_u32_def)

lemma be16_eq: "length fcs = 2 \<Longrightarrow> be_u16 c = fcs \<longleftrightarrow> crc16.lay 0 fcs = c"
  using crc16.lay_inj [of 0 fcs "be_u16 c"] by (auto simp: lay_be16)

lemma be32_eq: "length fcs = 4 \<Longrightarrow> be_u32 c = fcs \<longleftrightarrow> crc32.lay 0 fcs = c"
  using crc32.lay_inj [of 0 fcs "be_u32 c"] by (auto simp: lay_be32)

lemma compute_crc16_fold: "compute_crc16 m = foldl crc16_byte 0 m"
  by (simp add: compute_crc16_def)

lemma crc16_check:
  "fsk_fcs 1 m = Some fcs \<longleftrightarrow> length fcs = 2 \<and> foldl crc16_byte 0 (m @ fcs) = 0"
proof (cases "length fcs = 2")
  case True
  have "(crc16_bit ^^ n) 0 = 0" for n by (induction n) (simp_all add: crc16_bit_def)
  with True show ?thesis
    using crc16.residue [of fcs 0 m 0] by (simp add: fsk_fcs_def compute_crc16_fold be16_eq)
qed (auto simp: fsk_fcs_def)

text \<open>The register a correct frame with the long checksum leaves.\<close>

definition crc32_residue :: u32 where
  "crc32_residue = (crc32_bit ^^ 32) (- 1)"

lemma crc32_check:
  assumes "4 \<le> length m"
  shows "fsk_fcs 0 m = Some fcs \<longleftrightarrow>
    length fcs = 4 \<and> foldl crc32_byte 0xFFFFFFFF (m @ fcs) = crc32_residue"
proof (cases "length fcs = 4")
  case True
  have "NOT r = r XOR (- 1)" for r :: u32 by (rule bit_eqI) (simp add: bit_simps)
  with True assms show ?thesis
    using crc32.residue [of fcs "0xFFFFFFFF" m "- 1"]
    by (auto simp: fsk_fcs_def compute_crc32_def be32_eq crc32_residue_def)
qed (auto simp: fsk_fcs_def)

end
