(* ===== verification/Fsk_Props.thy ===== *)
theory Fsk_Props
  imports Fsk_Crc Sx126x_Fsk Sx126x_Radio_Props
begin

text \<open>
  What the FSK layer promises: transmission errors are detected, and a packet that is sent comes
  out of the receiver as it was given to the transmitter.
\<close>

section \<open>Errors on the air\<close>

text \<open>The receiver's comparison: the last bytes are the frame check sequence of those before.\<close>

definition fcs_length :: "u8 \<Rightarrow> nat" where
  "fcs_length t = (if t = RADIO_FSK_FCS_TYPE_0 then 4 else 2)"

definition psdu_ok :: "u8 \<Rightarrow> u8 list \<Rightarrow> bool" where
  "psdu_ok t psdu \<longleftrightarrow>
     (let n = length psdu - fcs_length t in fsk_fcs t (take n psdu) = Some (drop n psdu))"

lemma length_fcs: "fsk_fcs t m = Some fcs \<Longrightarrow> length fcs = fcs_length t"
  by (auto simp: fsk_fcs_def fcs_length_def split: if_splits)

lemma psdu_ok_residue:
  assumes "t = 0 \<Longrightarrow> 8 \<le> length psdu" and "fsk_fcs t m \<noteq> None" and "2 \<le> length psdu"
  shows "psdu_ok t psdu \<longleftrightarrow>
    (if t = 0 then foldl crc32_byte 0xFFFFFFFF psdu = crc32_residue else foldl crc16_byte 0 psdu = 0)"
proof -
  let ?n = "length psdu - fcs_length t"
  have t: "t = 0 \<or> t = 1" using assms(2) by (auto simp: fsk_fcs_def split: if_splits)
  have split: "take ?n psdu @ drop ?n psdu = psdu" by simp
  from t show ?thesis
  proof
    assume t: "t = 0"
    then have len: "4 \<le> length (take ?n psdu)" "length (drop ?n psdu) = 4"
      using assms(1) by (simp_all add: fcs_length_def)
    show ?thesis using crc32_check [OF len(1), of "drop ?n psdu"] len(2) t
      unfolding split by (simp add: psdu_ok_def)
  next
    assume t: "t = 1"
    then have len: "length (drop ?n psdu) = 2" using assms(3) by (simp add: fcs_length_def)
    show ?thesis using crc16_check [of "take ?n psdu" "drop ?n psdu"] len t
      unfolding split by (simp add: psdu_ok_def)
  qed
qed

text \<open>A change within a stretch no longer than the checksum breaks the comparison.\<close>

lemma burst_not_ok:
  assumes fcs: "fsk_fcs t payload = Some fcs" and pad: "t = RADIO_FSK_FCS_TYPE_0 \<Longrightarrow> 4 \<le> length payload"
    and frame: "payload @ fcs = p @ u @ q"
    and "length v = length u" "length u \<le> length fcs" "v \<noteq> u"
  shows "psdu_ok t (p @ u @ q) \<and> \<not> psdu_ok t (p @ v @ q)"
proof -
  have len: "length fcs = fcs_length t" by (rule length_fcs [OF fcs])
  have good: "psdu_ok t (p @ u @ q)"
    using fcs len by (simp add: psdu_ok_def flip: frame)
  have total: "length (p @ u @ q) = length payload + fcs_length t" "length (p @ v @ q) = length (p @ u @ q)"
    using arg_cong [OF frame, of length] len assms(4) by simp_all
  have t: "t = 0 \<or> t = 1" using fcs by (auto simp: fsk_fcs_def split: if_splits)
  then have "t = 0 \<Longrightarrow> 8 \<le> length payload + fcs_length t" "2 \<le> length payload + fcs_length t"
    using pad by (auto simp: fcs_length_def)
  then have res: "t = 0 \<Longrightarrow> 8 \<le> length (p @ u @ q)" "t = 0 \<Longrightarrow> 8 \<le> length (p @ v @ q)"
      "fsk_fcs t payload \<noteq> None" "2 \<le> length (p @ u @ q)" "2 \<le> length (p @ v @ q)"
    unfolding total using fcs by (simp_all only: option.distinct not_False_eq_True)
  note ok = psdu_ok_residue [OF res(1,3,4)] psdu_ok_residue [OF res(2,3,5)]
  have "\<not> psdu_ok t (p @ v @ q)"
  proof (cases "t = 0")
    case True
    have "length v \<le> 4" using assms(4,5) unfolding len fcs_length_def by (simp add: True)
    then have "foldl crc32_byte 0xFFFFFFFF (p @ v @ q) \<noteq> foldl crc32_byte 0xFFFFFFFF (p @ u @ q)"
      using crc32.burst [OF _ assms(4) [symmetric]] assms(6) by blast
    with ok good True show ?thesis by simp
  next
    case False
    have "length v \<le> 2" using assms(4,5) unfolding len fcs_length_def by (simp add: False)
    then have "foldl crc16_byte 0 (p @ v @ q) \<noteq> foldl crc16_byte 0 (p @ u @ q)"
      using crc16.burst [OF _ assms(4) [symmetric]] assms(6) by blast
    with ok good False show ?thesis by simp
  qed
  with good show ?thesis by blast
qed

text \<open>The receiver's check of the bytes it has read.\<close>

lemma check_packet_outcome:
  assumes t: "t = 0 \<or> t = 1" and l: "unat l = length psdu" "fcs_length t \<le> length psdu"
    and buf: "take (unat l) (rcv_payload (radio_rx_packet s)) = psdu" and i: "i \<noteq> RX_DONE_STATUS_UNKNOWN_ERROR"
    and run: "run_state (fsk_check_packet P t l i) s = (r, s')"
  shows "r \<in> {if psdu_ok t psdu then (RADIO_ERROR_NONE, i) else (RADIO_ERROR_GENERIC, RX_DONE_STATUS_BAD_CRC),
    (RADIO_ERROR_IO_ERROR, RX_DONE_STATUS_TIMEOUT)}"
proof -
  let ?b = "rcv_payload (radio_rx_packet s)" and ?c = "fcs_length t"
  let ?n = "unat l - ?c"
  have len: "(if t = RADIO_FSK_FCS_TYPE_0 then 4 else 2) = ?c" by (simp add: fcs_length_def)
  have "take ?n psdu = take ?n ?b" "drop ?n psdu = take ?c (drop ?n ?b)"
    using l unfolding buf [symmetric] by (simp_all add: min_absorb1 drop_take)
  then have ok: "psdu_ok t psdu \<longleftrightarrow> fsk_fcs t (take ?n ?b) = Some (take ?c (drop ?n ?b))"
    using l by (simp add: psdu_ok_def Let_def)
  obtain c where c: "fsk_fcs t (take ?n ?b) = Some c" using t by (auto simp: fsk_fcs_def)
  show ?thesis
    using run i unfolding fsk_check_packet_def len Let_def get_rcv_payload_def
    by (auto simp: c ok set_rx_payload_len_def set_fsk_rx_status_def split: prod.splits option.splits if_splits)
qed

text \<open>C39. A frame whose bytes were changed within a stretch no longer than its checksum is not
  accepted by the receiver: two consecutive bytes for the short checksum, four for the long one, on
  payloads that are not padded. The check then reports a bad checksum, or that the chip's packet
  status could not be read; for the unchanged frame it reports no error or the latter. The
  status variable must not start as the unknown error, for the check is then skipped.\<close>

theorem fsk_burst_detected:
  assumes fcs: "fsk_fcs t payload = Some fcs" and pad: "t = RADIO_FSK_FCS_TYPE_0 \<Longrightarrow> 4 \<le> length payload"
    and frame: "payload @ fcs = p @ u @ q" and v: "length v = length u" "length u \<le> length fcs"
    and l: "unat l = length (p @ v @ q)" and buf: "take (unat l) (rcv_payload (radio_rx_packet s)) = p @ v @ q"
    and i: "i \<noteq> RX_DONE_STATUS_UNKNOWN_ERROR" and run: "run_state (fsk_check_packet P t l i) s = (r, s')"
  shows "r \<in> {if v = u then (RADIO_ERROR_NONE, i) else (RADIO_ERROR_GENERIC, RX_DONE_STATUS_BAD_CRC),
    (RADIO_ERROR_IO_ERROR, RX_DONE_STATUS_TIMEOUT)}"
proof -
  have t: "t = 0 \<or> t = 1" using fcs by (auto simp: fsk_fcs_def split: if_splits)
  have "length (p @ v @ q) = length payload + length fcs" using arg_cong [OF frame, of length] v(1) by simp
  then have n: "fcs_length t \<le> length (p @ v @ q)" using length_fcs [OF fcs] by simp
  have "psdu_ok t (p @ v @ q) \<longleftrightarrow> v = u"
  proof (cases "v = u")
    case True
    then show ?thesis using fcs length_fcs [OF fcs] by (simp add: psdu_ok_def flip: frame)
  qed (use burst_not_ok [OF fcs pad frame v] in blast)
  then show ?thesis using check_packet_outcome [OF t l n buf i run] by simp
qed

section \<open>Whitening\<close>

lemma whitening_involution:
  "perform_data_whitening l (perform_data_whitening l bs) = bs"
  by (induction l bs rule: perform_data_whitening.induct) (simp_all add: xor.assoc split: prod.split)

section \<open>A packet sent and received\<close>

text \<open>
  The chip that has received a frame: transfers succeed and the chip is not busy, the register of
  the received bytes counts at least the header, the receive buffer starts at 0 and holds the
  frame.
\<close>

definition fsk_receives :: "platform \<Rightarrow> u8 list \<Rightarrow> bool" where
  "fsk_receives P frame \<longleftrightarrow>
     (\<forall>h. ret_of P h = 0 \<and> \<not> pin_of P h) \<and>
     (\<forall>d h. 2 \<le> bus_in P (Bus_xfer (0x1D # 0x08 # 0x03 # 0 # d) # h) 4) \<and>
     (\<forall>d h. bus_in P (Bus_xfer (0x13 # d) # h) 3 = 0) \<and>
     (\<forall>off d h i. unat off + i < length frame \<longrightarrow>
        bus_in P (Bus_xfer (0x1E # off # 0 # d) # h) (3 + i) = frame ! (unat off + i))"

text \<open>The radio receives with a transfer buffer that is large enough.\<close>

definition receiving :: "radio \<Rightarrow> bool" where
  "receiving s \<longleftrightarrow> awake (radio_state s) \<and> (\<exists>n \<ge> 300. internal_buffer (rcfg s) = Some n)"

lemma receiving_calls [simp]:
  "receiving (s\<lparr>calls := h\<rparr>) = receiving s" "receiving (radio_rx_packet_update f s) = receiving s"
  by (simp_all add: receiving_def)

abbreviation xfer :: "radio \<Rightarrow> u8 list \<Rightarrow> radio" where
  "xfer s bs \<equiv> s\<lparr>calls := Bus_xfer bs # Gpio_read (gpio_radio_busy (rcfg s)) # calls s\<rparr>"

lemma rdwr_ok:
  assumes P: "fsk_receives P frame" and s: "receiving s" and len: "length c + length d \<le> 300" "c \<noteq> []"
  shows hal_write_ok: "run_state (sx126x_hal_write P c d) s = (0, xfer s (c @ d))"
    and hal_read_ok: "d \<noteq> [] \<Longrightarrow> run_state (sx126x_hal_read P c d) s =
      ((0, map (\<lambda>i. bus_in P (calls (xfer s (c @ d))) (length c + i)) [0..<length d]), xfer s (c @ d))"
proof -
  have ok: "ret_of P h = 0" "pin_of P h = False" for h using P by (simp_all add: fsk_receives_def)
  have ready: "run_state (sx126x_wait_for_device_ready P) s = (0, s)"
    using s by (auto simp: sx126x_wait_for_device_ready_def receiving_def awake_def)
  have busy: "run_state (sx126x_wait_on_busy P) s =
      (0, s\<lparr>calls := Gpio_read (gpio_radio_busy (rcfg s)) # calls s\<rparr>)"
    by (simp add: sx126x_wait_on_busy_def busy_poll.simps [of _ 0] sx126x_check_status_def run_ok_else ok)
  obtain n where n: "internal_buffer (rcfg s) = Some n" "300 \<le> n" using s by (auto simp: receiving_def)
  then have "\<not> n < length d + length c" using len by simp
  note defs = sx126x_hal_write_def sx126x_hal_read_def sx126x_hal_rdwr_def sx126x_radio_bus_xfer_def
    ready busy ok n(1) this len(2)
  show "run_state (sx126x_hal_write P c d) s = (0, xfer s (c @ d))" by (simp add: defs)
  assume "d \<noteq> []"
  then show "run_state (sx126x_hal_read P c d) s =
      ((0, map (\<lambda>i. bus_in P (calls (xfer s (c @ d))) (length c + i)) [0..<length d]), xfer s (c @ d))"
    by (simp add: defs)
qed

lemma rx_status_ok:
  assumes "fsk_receives P frame" and "receiving s"
  shows "\<exists>l. run_state (sx126x_get_rx_buffer_status P) s = (Some (l, 0), xfer s [0x13, 0, 0, 0])"
  using hal_read_ok [OF assms, of "[0x13, 0]" "[0, 0]"] assms(1)
  by (auto simp: sx126x_get_rx_buffer_status_def read_decode_def fsk_receives_def numeral_eq_Suc)

lemma read_buffer_ok:
  assumes P: "fsk_receives P frame" and "receiving s"
    and d: "d \<noteq> []" "length d \<le> 255" and fits: "unat off + length d \<le> length frame"
  shows "run_state (sx126x_read_buffer P off d) s =
    ((0, take (length d) (drop (unat off) frame)), xfer s (0x1E # off # 0 # d))"
proof -
  have "map (\<lambda>i. bus_in P (Bus_xfer (0x1E # off # 0 # d) # h) (3 + i)) [0..<length d] =
      take (length d) (drop (unat off) frame)" for h
    using P fits by (intro nth_equalityI) (simp_all add: fsk_receives_def)
  then show ?thesis
    using hal_read_ok [OF assms(1,2), of "[0x1E, off, 0]" d] d
    by (simp add: sx126x_read_buffer_def numeral_eq_Suc)
qed

lemma be16_0803: "be_u16 0x0803 = [8, 3]" "be_u16 0x06BB = [6, 0xBB]"
  by (simp_all add: be_u16_def)

lemma sync_poll_ok:
  assumes "fsk_receives P frame" and "receiving s"
  shows "sync_poll P 0 s = Some (0, xfer s [0x1D, 0x08, 0x03, 0, 0])"
proof -
  let ?b = "bus_in P (calls (xfer s [0x1D, 0x08, 0x03, 0, 0])) 4"
  have "run_state (sx126x_read_register P 0x0803 [0]) s = ((0, [?b]), xfer s [0x1D, 0x08, 0x03, 0, 0])"
    using hal_read_ok [OF assms, of "[0x1D, 0x08, 0x03, 0]" "[0]"]
    by (simp add: sx126x_read_register_def be16_0803 eval_nat_numeral)
  moreover have "\<not> ?b < 2" using assms(1) by (simp add: fsk_receives_def not_less)
  ultimately show ?thesis
    by (subst sync_poll.simps, simp, subst sync_poll.simps, simp)
qed

text \<open>The synchronisation word: the two bytes of the header are read and marked.\<close>

lemma sync_detected_ok:
  assumes P: "fsk_receives P frame" and s: "receiving s" and len: "2 \<le> length frame"
    and buf: "length (rcv_payload (radio_rx_packet s)) = 255"
  shows "\<exists>s'. run_state (radio_fsk_process_sync_word_detected P) s = (Some 0, s') \<and> receiving s' \<and>
    rcv_payload (radio_rx_packet s') =
      frame ! 0 # frame ! 1 # 0xAB # 0xBA # drop 4 (rcv_payload (radio_rx_packet s))"
proof -
  let ?s1 = "xfer s [0x1D, 0x08, 0x03, 0, 0]"
  let ?s2 = "xfer ?s1 [0x13, 0, 0, 0]"
  have r: "receiving ?s1" "receiving ?s2" using s by simp_all
  obtain l where 2: "run_state (sx126x_get_rx_buffer_status P) ?s1 = (Some (l, 0), ?s2)"
    using rx_status_ok [OF P r(1)] by blast
  obtain b0 b1 b2 b3 rest where b: "rcv_payload (radio_rx_packet s) = b0 # b1 # b2 # b3 # rest"
    using buf by (auto simp: numeral_eq_Suc length_Suc_conv)
  obtain f0 f1 fs where f: "frame = f0 # f1 # fs" using len by (auto simp: numeral_eq_Suc Suc_le_length_iff)
  let ?s3 = "xfer ?s2 [0x1E, 0, 0, b0, b1]"
  have "run_state (sx126x_read_buffer P 0 [b0, b1]) ?s2 = ((0, [f0, f1]), ?s3)"
    using read_buffer_ok [OF P r(2), of "[b0, b1]" 0] len f by simp
  then have 3: "run_state (read_into_payload P 0 2) ?s2 =
      (0, radio_rx_packet_update (rcv_payload_update (\<lambda>_. f0 # f1 # b2 # b3 # rest)) ?s3)"
    by (simp add: read_into_payload_def get_rcv_payload_def set_rcv_payload_def b)
  let ?s4 = "radio_rx_packet_update (rcv_payload_update (\<lambda>_. f0 # f1 # b2 # b3 # rest)) ?s3"
  have "receiving ?s4" using s by simp
  then have 4: "run_state (sx126x_write_register P 0x06BB [f1 + 2]) ?s4 = (0, xfer ?s4 [0x0D, 6, 0xBB, f1 + 2])"
    using hal_write_ok [OF P, of ?s4 "[0x0D, 6, 0xBB]" "[f1 + 2]"]
    by (simp add: sx126x_write_register_def be16_0803)
  show ?thesis
    unfolding radio_fsk_process_sync_word_detected_def sync_word_header_def
    using sync_poll_ok [OF P s] 2 3 4 s
    by (simp add: run_ok_else get_rcv_payload_def mark_sync_word_def set_rcv_payload_def b f) 
qed

text \<open>A received packet with the mark, whose whitened bytes carry a correct check sequence.\<close>

lemma read_payload_ok:
  assumes P: "fsk_receives P frame" and s: "receiving s" and n: "0 < n" "n \<le> 255" "2 + n = length frame"
    and buf: "length (rcv_payload (radio_rx_packet s)) = 255"
  shows "\<exists>s'. run_state (read_into_payload P 2 n) s = (0, s') \<and> receiving s' \<and>
    rcv_payload (radio_rx_packet s') = drop 2 frame @ drop n (rcv_payload (radio_rx_packet s))"
proof -
  let ?d = "take n (rcv_payload (radio_rx_packet s))"
  have d: "length ?d = n" using buf n by simp
  then have "?d \<noteq> []" using n by auto
  with read_buffer_ok [OF P s, of ?d 2] d n
  have "run_state (sx126x_read_buffer P 2 ?d) s = ((0, drop 2 frame), xfer s (0x1E # 2 # 0 # ?d))"
    by simp
  then show ?thesis using s
    by (simp add: read_into_payload_def get_rcv_payload_def set_rcv_payload_def)
qed

lemma pkt_status_ok:
  assumes "fsk_receives P frame" and "receiving s"
  shows "\<exists>st. run_state (sx126x_get_gfsk_pkt_status P) s = (Some st, xfer s [0x14, 0, 0, 0, 0])"
  using hal_read_ok [OF assms, of "[0x14, 0]" "[0, 0, 0]"]
  by (simp add: sx126x_get_gfsk_pkt_status_def read_decode_def eval_nat_numeral)

lemma check_packet_ok:
  assumes P: "fsk_receives P frame" and s: "receiving s" and "i \<noteq> RX_DONE_STATUS_UNKNOWN_ERROR"
    and fcs: "fsk_fcs t m = Some c" and l: "unat l = length m + length c"
    and buf: "rcv_payload (radio_rx_packet s) = m @ c @ rest"
  shows "\<exists>s'. run_state (fsk_check_packet P t l i) s = ((0, i), s') \<and>
    rcv_payload (radio_rx_packet s') = m @ c @ rest \<and> unat (rx_payload_len (radio_rx_packet s')) = length m"
proof -
  have k: "(if t = 0 then 4 else 2) = length c" using length_fcs [OF fcs] by (simp add: fcs_length_def)
  have "length c < 256" using l unat_u8_lt [of l] by linarith
  note c = unat_of_nat_u8 [OF this]
  then have "word_of_nat (length c) \<le> l" using l by (simp add: word_le_nat_alt)
  then have lm: "unat (l - word_of_nat (length c)) = length m"
    using l c by (simp add: unat_sub)
  let ?s = "radio_rx_packet_update (rx_payload_len_update (\<lambda>_. l - word_of_nat (length c))) s"
  have "receiving ?s" using s by simp
  then obtain st where "run_state (sx126x_get_gfsk_pkt_status P) ?s = (Some st, xfer ?s [0x14, 0, 0, 0, 0])"
    using pkt_status_ok [OF P] by blast
  then show ?thesis
    using assms(3) fcs l lm buf unfolding fsk_check_packet_def k
    by (cases st) (simp add: get_rcv_payload_def set_rx_payload_len_def set_fsk_rx_status_def)
qed

lemma rx_done_ok:
  assumes P: "fsk_receives P frame" and s: "receiving s" and i: "i \<noteq> RX_DONE_STATUS_UNKNOWN_ERROR"
    and frame: "frame = a # l # white" and l: "unat l = length m + length c" "length white = unat l"
    and t: "drop_bit 4 a = t" and fcs: "fsk_fcs t m = Some c" and m: "m \<noteq> []"
    and white: "(if a AND 8 \<noteq> 0 then perform_data_whitening SX126X_FSK_WHITENING_SEED white else white) = m @ c"
    and buf: "rcv_payload (radio_rx_packet s) = a # l # 0xAB # 0xBA # rest" "length rest = 251"
  shows "\<exists>s'. run_state (radio_fsk_process_rx_done P i) s = ((0, i), s') \<and>
    take (length m) (rcv_payload (radio_rx_packet s')) = m \<and>
    unat (rx_payload_len (radio_rx_packet s')) = length m"
proof -
  have k: "length c = fcs_length t" by (rule length_fcs [OF fcs])
  have "length c < unat l" using l m by simp
  then have long: "\<not> (t = 0 \<and> l \<le> 4)" "\<not> (t = 1 \<and> l \<le> 2)"
    using k by (auto simp: word_le_nat_alt fcs_length_def)
  let ?s1 = "radio_rx_packet_update (rcv_payload_update (\<lambda>_. a # l # 0 # 0 # rest)) s"
  let ?s2 = "xfer ?s1 [0x13, 0, 0, 0]"
  have r: "receiving ?s1" "receiving ?s2" using s by simp_all
  obtain x where 2: "run_state (sx126x_get_rx_buffer_status P) ?s1 = (Some (x, 0), ?s2)"
    using rx_status_ok [OF P r(1)] by blast
  have n: "0 < unat l" "unat l \<le> 255" "2 + unat l = length frame"
    using l m frame unat_u8_lt [of l] by (auto simp: Suc_le_eq less_Suc_eq_le)
  obtain s3 where 3: "run_state (read_into_payload P 2 (unat l)) ?s2 = (0, s3)" "receiving s3"
      "rcv_payload (radio_rx_packet s3) = white @ drop (unat l) (a # l # 0 # 0 # rest)"
    using read_payload_ok [OF P r(2) n] buf frame by auto
  let ?rest = "drop (unat l) (a # l # 0 # 0 # rest)"
  let ?w = "if a AND 8 \<noteq> 0 then whiten_payload (unat l) else return ()"
  obtain s4 where 4: "run_state ?w s3 = ((), s4)" "receiving s4" "rcv_payload (radio_rx_packet s4) = m @ c @ ?rest"
  proof
    let ?s4 = "if a AND 8 \<noteq> 0 then radio_rx_packet_update (rcv_payload_update (\<lambda>_. m @ c @ ?rest)) s3 else s3"
    show "run_state ?w s3 = ((), ?s4)" using 3(3) white l(2)
      by (auto simp: whiten_payload_def get_rcv_payload_def set_rcv_payload_def)
    show "receiving ?s4" using 3(2) by simp
    show "rcv_payload (radio_rx_packet ?s4) = m @ c @ ?rest" using 3(3) white by (auto split: if_splits)
  qed
  from check_packet_ok [OF P 4(2) i fcs l(1) 4(3)] obtain s5 where
    5: "run_state (fsk_check_packet P t l i) s4 = ((0, i), s5)" "rcv_payload (radio_rx_packet s5) = m @ c @ ?rest"
      "unat (rx_payload_len (radio_rx_packet s5)) = length m" by blast
  have mark: "u16_of_be 0xAB 0xBA = 0xABBA" by (simp add: u16_of_be_def)
  have "run_state (radio_fsk_process_rx_done P i) s = ((0, i), s5)"
    unfolding radio_fsk_process_rx_done_def
    using buf(1) mark long t 2 3(1) 4(1) 5(1)
    by (simp add: get_rcv_payload_def unmark_sync_word_def set_rcv_payload_def Let_def numeral_eq_Suc)
  with 5 show ?thesis by simp
qed

lemma phr0_fields:
  assumes "fcs_type phr = 0 \<or> fcs_type phr = 1"
  shows "drop_bit 4 (fsk_phr0 phr) = fcs_type phr"
    and "fsk_phr0 phr AND 8 \<noteq> 0 \<longleftrightarrow> is_data_whitening_enabled phr"
  using assms by (auto simp: fsk_phr0_def)

lemma tx_frame:
  assumes "sid_pal_radio_prepare_fsk_for_tx c = Some (RADIO_ERROR_NONE, c')"
    and "phy_hdr c = Some phr" "packet_params c = Some pp" "pkt_payload c = Some buf"
    and "packet_params c' = Some pp'" "pkt_payload c' = Some air"
  obtains fcs where "fsk_fcs (fcs_type phr) (take (unat (payload_length pp)) buf) = Some fcs"
    and "payload_length pp \<noteq> 0" and "2 + unat (payload_length pp) + length fcs \<le> length buf"
    and "payload_length pp' = 2 + (payload_length pp + word_of_nat (length fcs))"
    and "air = fsk_phr0 phr # (payload_length pp + word_of_nat (length fcs)) #
      (if is_data_whitening_enabled phr
       then perform_data_whitening SX126X_FSK_WHITENING_SEED (take (unat (payload_length pp)) buf @ fcs)
       else take (unat (payload_length pp)) buf @ fcs) @
      drop (2 + length (take (unat (payload_length pp)) buf @ fcs)) buf"
  using assms
  by (auto simp: sid_pal_radio_prepare_fsk_for_tx_def Let_def split: option.splits if_splits)

text \<open>What the chip sends, and what undoing the whitening gives.\<close>

lemma tx_on_air:
  assumes tx: "sid_pal_radio_prepare_fsk_for_tx c = Some (RADIO_ERROR_NONE, c')"
    "phy_hdr c = Some phr" "packet_params c = Some pp" "pkt_payload c = Some buf"
    "packet_params c' = Some pp'" "pkt_payload c' = Some air"
    and fits: "unat (payload_length pp) + fcs_length (fcs_type phr) \<le> 253"
    and m_def: "m = take (unat (payload_length pp)) buf"
  obtains fcs l white where "fsk_fcs (fcs_type phr) m = Some fcs" "m \<noteq> []" "length m = unat (payload_length pp)"
    and "unat l = length m + length fcs" "length white = unat l" "drop_bit 4 (fsk_phr0 phr) = fcs_type phr"
    and "take (unat (payload_length pp')) air = fsk_phr0 phr # l # white"
    and "(if fsk_phr0 phr AND 8 \<noteq> 0 then perform_data_whitening SX126X_FSK_WHITENING_SEED white else white) =
      m @ fcs"
proof -
  let ?wh = "is_data_whitening_enabled phr"
  from tx_frame [OF tx] obtain fcs where fcs: "fsk_fcs (fcs_type phr) m = Some fcs"
    and pos: "payload_length pp \<noteq> 0" and room: "2 + unat (payload_length pp) + length fcs \<le> length buf"
    and pl: "payload_length pp' = 2 + (payload_length pp + word_of_nat (length fcs))"
    and air: "air = fsk_phr0 phr # (payload_length pp + word_of_nat (length fcs)) #
      (if ?wh then perform_data_whitening SX126X_FSK_WHITENING_SEED (m @ fcs) else m @ fcs) @
      drop (2 + length (m @ fcs)) buf" unfolding m_def by metis
  define l where "l = payload_length pp + word_of_nat (length fcs)"
  define white where "white = (if ?wh then perform_data_whitening SX126X_FSK_WHITENING_SEED (m @ fcs) else m @ fcs)"
  have m: "length m = unat (payload_length pp)" "m \<noteq> []"
    using room pos unfolding m_def by (auto simp: unat_eq_zero)
  have sum: "unat (payload_length pp) + length fcs \<le> 253" using fits length_fcs [OF fcs] by simp
  then have ul: "unat l = length m + length fcs"
    using m unat_of_nat_u8 [of "length fcs"] by (simp add: l_def unat_add_nowrap)
  then have "unat (payload_length pp') = 2 + unat l"
    using m sum unfolding pl l_def [symmetric] by (simp add: unat_add_nowrap)
  moreover have lw: "length white = unat l" using ul by (simp add: white_def)
  ultimately have frame: "take (unat (payload_length pp')) air = fsk_phr0 phr # l # white"
    unfolding air l_def [symmetric] white_def [symmetric] by simp
  have t: "fcs_type phr = 0 \<or> fcs_type phr = 1" using fcs by (auto simp: fsk_fcs_def split: if_splits)
  have "(if fsk_phr0 phr AND 8 \<noteq> 0 then perform_data_whitening SX126X_FSK_WHITENING_SEED white
      else white) = m @ fcs"
    using phr0_fields(2) [OF t] by (simp add: white_def whitening_involution)
  with that fcs m ul lw phr0_fields(1) [OF t] frame show thesis by blast
qed

text \<open>A packet prepared for transmission and received by a chip that holds exactly the bytes
  sent comes back as it was: the handling of the synchronisation word and of the end of reception
  succeed and leave the payload and its length, for both checksums, with or without whitening,
  as long as header, payload and checksum fit the 255 bytes of a packet. The status variable must
  not start as the unknown error, for the check is then skipped.\<close>

theorem fsk_frame_roundtrip:
  assumes tx: "sid_pal_radio_prepare_fsk_for_tx c = Some (RADIO_ERROR_NONE, c')"
    "phy_hdr c = Some phr" "packet_params c = Some pp" "pkt_payload c = Some buf"
    "packet_params c' = Some pp'" "pkt_payload c' = Some air"
    and fits: "unat (payload_length pp) + fcs_length (fcs_type phr) \<le> 253"
    and chip: "fsk_receives P (take (unat (payload_length pp')) air)" and s: "receiving s"
    and buffer: "length (rcv_payload (radio_rx_packet s)) = 255" and i: "i \<noteq> RX_DONE_STATUS_UNKNOWN_ERROR"
    and run: "run_state (do { _ \<leftarrow> radio_fsk_process_sync_word_detected P; radio_fsk_process_rx_done P i }) s = (r, s')"
  shows "r = (RADIO_ERROR_NONE, i) \<and> rx_payload_len (radio_rx_packet s') = payload_length pp \<and>
    take (unat (payload_length pp)) (rcv_payload (radio_rx_packet s')) = take (unat (payload_length pp)) buf"
proof -
  let ?m = "take (unat (payload_length pp)) buf"
  from tx_on_air [OF tx fits refl] obtain fcs l white where fcs: "fsk_fcs (fcs_type phr) ?m = Some fcs"
    and m: "?m \<noteq> []" "length ?m = unat (payload_length pp)"
    and ul: "unat l = length ?m + length fcs" "length white = unat l" "drop_bit 4 (fsk_phr0 phr) = fcs_type phr"
    and frame: "take (unat (payload_length pp')) air = fsk_phr0 phr # l # white"
    and unwhite: "(if fsk_phr0 phr AND 8 \<noteq> 0
      then perform_data_whitening SX126X_FSK_WHITENING_SEED white else white) = ?m @ fcs" by metis
  note P = chip [unfolded frame]
  obtain s1 where 1: "run_state (radio_fsk_process_sync_word_detected P) s = (Some 0, s1)" "receiving s1"
    "rcv_payload (radio_rx_packet s1) = fsk_phr0 phr # l # 0xAB # 0xBA # drop 4 (rcv_payload (radio_rx_packet s))"
    using sync_detected_ok [OF P s _ buffer] by auto
  have "length (drop 4 (rcv_payload (radio_rx_packet s))) = 251" using buffer by simp
  from rx_done_ok [OF P 1(2) i refl ul fcs m(1) unwhite 1(3) this]
  obtain s2 where 2: "run_state (radio_fsk_process_rx_done P i) s1 = ((0, i), s2)"
    "take (length ?m) (rcv_payload (radio_rx_packet s2)) = ?m"
    "unat (rx_payload_len (radio_rx_packet s2)) = length ?m" by blast
  then have "r = (0, i)" "s' = s2" using run 1(1) by simp_all
  then show ?thesis using 2(2,3) unfolding m(2) by (simp add: word_unat_eq_iff)
qed

text \<open>A chip that holds a frame, for the witness.\<close>

definition rx_platform :: "u8 list \<Rightarrow> platform" where
  "rx_platform frame = demo_platform\<lparr>bus_in := \<lambda>h i.
     (case h of
        Bus_xfer (c # off # bs) # _ \<Rightarrow>
          if c = 0x1E then frame ! (unat off + i - 3) else if c = 0x1D then 2 else 0
      | _ \<Rightarrow> 0)\<rparr>"

lemma rx_platform_receives: "fsk_receives (rx_platform frame) frame"
  by (simp add: fsk_receives_def rx_platform_def demo_platform_def split: list.split)

definition tx_packet :: fsk_pkt_cfg where
  "tx_packet = \<lparr>phy_hdr = Some \<lparr>fcs_type = 1, is_data_whitening_enabled = True, is_fec_enabled = False\<rparr>,
     packet_params = Some \<lparr>preamble_length = 8, preamble_min_detect = 5, sync_word_length = 3,
       addr_comp = 0, header_type = 0, payload_length = 3, crc_type = 1, radio_whitening_mode = 0\<rparr>,
     sync_word = Some [0, 0, 0], pkt_payload = Some [1, 2, 3, 0, 0, 0, 0]\<rparr>"

definition tx_prepared :: fsk_pkt_cfg where
  "tx_prepared = tx_packet\<lparr>
     packet_params := Some \<lparr>preamble_length = 8, preamble_min_detect = 5, sync_word_length = 3,
       addr_comp = 0, header_type = 0, payload_length = 7, crc_type = 1, radio_whitening_mode = 0\<rparr>,
     sync_word := Some [0x55, 0x90, 0x4E], pkt_payload := Some [24, 5, 14, 114, 176, 14, 114]\<rparr>"

lemma demo_whitening:
  "whitening_byte 0x1FF = (15, 481)" "whitening_byte 481 = (112, 29)" "whitening_byte 29 = (179, 410)"
  "whitening_byte 410 = (111, 493)" "whitening_byte 493 = (67, 389)"
  by code_simp+

lemma fsk_frame_roundtrip_witness:
  "take 3 (rcv_payload (radio_rx_packet (snd (run_state
     (do { _ \<leftarrow> radio_fsk_process_sync_word_detected (rx_platform [24, 5, 14, 114, 176, 14, 114]);
           radio_fsk_process_rx_done (rx_platform [24, 5, 14, 114, 176, 14, 114]) 0 })
     (demo_radio RADIO_RX MODEM_MODE_FSK))))) = [1, 2, 3]"
proof -
  let ?f = "[24, 5, 14, 114, 176, 14, 114] :: u8 list"
  have fcs: "fsk_fcs 1 [1, 2, 3] = Some [0x61, 0x31]" by code_simp
  have white: "perform_data_whitening 0x01FF [1, 2, 3, 0x61, 0x31] = [14, 114, 176, 14, 114]"
    by (simp add: demo_whitening)
  have tx: "sid_pal_radio_prepare_fsk_for_tx tx_packet = Some (0, tx_prepared)"
    using fcs white
    by (simp add: sid_pal_radio_prepare_fsk_for_tx_def tx_packet_def tx_prepared_def fsk_phr0_def fsk_sync_word_def)
  let ?s = "demo_radio RADIO_RX MODEM_MODE_FSK"
  have cfg: "phy_hdr tx_packet = Some \<lparr>fcs_type = 1, is_data_whitening_enabled = True, is_fec_enabled = False\<rparr>"
    "packet_params tx_packet = Some \<lparr>preamble_length = 8, preamble_min_detect = 5, sync_word_length = 3,
       addr_comp = 0, header_type = 0, payload_length = 3, crc_type = 1, radio_whitening_mode = 0\<rparr>"
    "pkt_payload tx_packet = Some [1, 2, 3, 0, 0, 0, 0]"
    "packet_params tx_prepared = Some \<lparr>preamble_length = 8, preamble_min_detect = 5, sync_word_length = 3,
       addr_comp = 0, header_type = 0, payload_length = 7, crc_type = 1, radio_whitening_mode = 0\<rparr>"
    "pkt_payload tx_prepared = Some ?f"
    by (simp_all add: tx_packet_def tx_prepared_def)
  have chip: "fsk_receives (rx_platform ?f) (take (unat (7 :: u8)) ?f)" using rx_platform_receives [of ?f] by simp
  have s: "receiving ?s" "length (rcv_payload (radio_rx_packet ?s)) = 255"
    by (simp_all add: receiving_def awake_def demo_packet_def)
  from fsk_frame_roundtrip [OF tx cfg, of "rx_platform ?f" ?s 0, OF _ _ s _ surjective_pairing] chip
  show ?thesis by (simp add: fcs_length_def)
qed

section \<open>Limits of the packet handling\<close>

text \<open>
  A packet that fills the chip's 255 bytes with payload and checksum wraps the length given to the
  chip: the length is right exactly when the header fits as well.
\<close>

lemma fsk_tx_length_wraps:
  assumes tx: "sid_pal_radio_prepare_fsk_for_tx c = Some (RADIO_ERROR_NONE, c')"
    "phy_hdr c = Some phr" "packet_params c = Some pp" "pkt_payload c = Some buf"
    "packet_params c' = Some pp'" "pkt_payload c' = Some air"
  shows "unat (payload_length pp') = (2 + unat (payload_length pp) + fcs_length (fcs_type phr)) mod 256"
proof -
  from tx_frame [OF tx] obtain fcs where
    "fsk_fcs (fcs_type phr) (take (unat (payload_length pp)) buf) = Some fcs"
    "payload_length pp' = 2 + (payload_length pp + word_of_nat (length fcs))" by metis
  moreover have "unat (2 + (x + word_of_nat k) :: u8) = (2 + unat x + k) mod 256" for x :: u8 and k
    by (simp add: unat_word_ariths unat_of_nat mod_simps add.assoc)
  ultimately show ?thesis by (simp add: length_fcs)
qed

text \<open>
  When the caller's status variable happens to hold the unknown error, a packet whose checksum has
  a known type is accepted unchecked, and its length is the one of an earlier packet.
\<close>

lemma fsk_check_skipped:
  assumes "t = RADIO_FSK_FCS_TYPE_0 \<or> t = RADIO_FSK_FCS_TYPE_1"
  shows "run_state (fsk_check_packet P t l RX_DONE_STATUS_UNKNOWN_ERROR) s =
    ((RADIO_ERROR_NONE, RX_DONE_STATUS_UNKNOWN_ERROR), s)"
  using assms by (auto simp: fsk_check_packet_def get_rcv_payload_def fsk_fcs_def Let_def)

lemma fsk_burst_detected_witness:
  "fst (run_state (fsk_check_packet demo_platform 1 5 0) (radio_rx_packet_update (rcv_payload_update
     (\<lambda>_. [1, 7, 9, 0x61, 0x31])) (demo_radio RADIO_STANDBY MODEM_MODE_FSK))) \<in>
   {(RADIO_ERROR_GENERIC, RX_DONE_STATUS_BAD_CRC), (RADIO_ERROR_IO_ERROR, RX_DONE_STATUS_TIMEOUT)}"
proof -
  let ?s = "radio_rx_packet_update (rcv_payload_update (\<lambda>_. [1, 7, 9, 0x61, 0x31])) (demo_radio RADIO_STANDBY MODEM_MODE_FSK)"
  obtain r s' where r: "run_state (fsk_check_packet demo_platform 1 5 0) ?s = (r, s')" by fastforce
  have fcs: "fsk_fcs 1 [1, 2, 3] = Some [0x61, 0x31]" by code_simp
  show ?thesis
    using fsk_burst_detected [OF fcs, of "[1]" "[2, 3]" "[0x61, 0x31]" "[7, 9]" 5 ?s 0 demo_platform r s'] r by simp
qed

end
