(* ===== verification/Lora_Props.thy ===== *)
theory Lora_Props
  imports Sx126x_Radio Complex_Main
begin

text \<open>
  The numbers of the radio layer: frequencies and times in the chip's units, LoRa symbols, data
  rates, and the time on air against the formula of the chip's datasheet. The words do not wrap on
  the ranges stated.
\<close>

section \<open>Frequencies in the chip's units\<close>

lemma unat_push_14: "unat (x :: u32) < 262144 \<Longrightarrow> unat (push_bit 14 x) = unat x * 16384"
  by (simp add: push_bit_eq_mult unat_word_ariths)

lemma unat_add_u32: "unat x + unat y < 4294967296 \<Longrightarrow> unat (x + y :: u32) = unat x + unat y"
  by (simp add: unat_word_ariths)

lemma scaled_div: "0 < c \<Longrightarrow> f div c * k + (f mod c * k + h) div c = (f * k + h) div (c :: nat)"
proof -
  assume "0 < c"
  have "f * k + h = (f div c * c + f mod c) * k + h" by simp
  also have "\<dots> = f mod c * k + h + f div c * k * c" by (simp only: algebra_simps)
  finally have eq: "f * k + h = f mod c * k + h + f div c * k * c" .
  show ?thesis unfolding eq using div_mult_self1 [of c "f mod c * k + h" "f div c * k"] \<open>0 < c\<close> by simp
qed

lemma pll_step_value:
  assumes "unat f < 4096000000"
  shows "unat (freq_to_pll_step f) = (unat f * 16384 + 7812) div 15625"
proof -
  have q: "unat (f div 15625) < 262144" using assms by (simp add: unat_div)
  have frac: "f - f div 15625 * 15625 = f mod 15625" by (rule minus_div_mult_eq_mod)
  have r: "unat (f mod 15625) < 15625" by (simp add: unat_mod)
  have 1: "unat (push_bit 14 (f mod 15625) + drop_bit 1 15625) = unat (f mod 15625) * 16384 + 7812"
    using r unat_push_14 [of "f mod 15625"] by (subst unat_add_u32) simp_all
  have "unat (freq_to_pll_step f) = unat (push_bit 14 (f div 15625)) + (unat (f mod 15625) * 16384 + 7812) div 15625"
    unfolding freq_to_pll_step_def Let_def frac
    using q r unat_push_14 [OF q] 1 by (subst unat_add_u32) (simp_all add: unat_div)
  also have "\<dots> = unat f div 15625 * 16384 + (unat f mod 15625 * 16384 + 7812) div 15625"
    using unat_push_14 [OF q] by (simp add: unat_div unat_mod)
  also have "\<dots> = (unat f * 16384 + 7812) div 15625"
    by (simp add: scaled_div)
  finally show ?thesis .
qed
text \<open>A frequency is given to the chip as its nearest multiple of the synthesiser's step of
  32 MHz / 2^25, that is 15625 / 2^14 Hz, for all frequencies below 4.096 GHz: the 32-bit
  arithmetic, which splits the frequency to avoid an overflow, does not wrap.\<close>

theorem pll_step_nearest:
  assumes "unat f < 4096000000"
  shows "\<bar>int (unat (freq_to_pll_step f)) * 15625 - int (unat f) * 16384\<bar> \<le> 7812"
  unfolding pll_step_value [OF assms] by linarith


lemma pll_step_nearest_witness:
  "\<bar>int (unat (freq_to_pll_step 915000000)) * 15625 - 915000000 * 16384\<bar> \<le> 7812"
  using pll_step_nearest [of 915000000] by simp

text \<open>
  A timeout in microseconds becomes ticks of 15.625 us without wrapping up to 67 s; the product of
  a longer one leaves the word.
\<close>

lemma semtec_ticks:
  assumes "unat t \<le> 67108863"
  shows "unat (us_to_semtec_ticks t) = unat t * 64 div 1000" and "unat (us_to_semtec_ticks t) < 2 ^ 24"
proof -
  show "unat (us_to_semtec_ticks t) = unat t * 64 div 1000"
    using assms by (simp add: us_to_semtec_ticks_def unat_div unat_word_ariths(2))
  then show "unat (us_to_semtec_ticks t) < 2 ^ 24" using assms by simp
qed

lemma semtec_ticks_wrap: "us_to_semtec_ticks 67108864 = 0"
  by (simp add: us_to_semtec_ticks_def)

section \<open>Symbols\<close>

lemma div_ceiling: "0 < b \<Longrightarrow> - (- a div b) = (a + b - 1) div (b :: int)"
proof -
  assume b: "0 < b"
  define q where "q = (a + b - 1) div b"
  have "q * b + (a + b - 1) mod b = a + b - 1" unfolding q_def by (rule div_mult_mod_eq)
  then have "q * b \<le> a + b - 1" "a + b - 1 < q * b + b"
    using pos_mod_bound [OF b, of "a + b - 1"] pos_mod_sign [OF b, of "a + b - 1"] by linarith+
  then have "- a div b = - q" using b
    by (intro int_div_pos_eq [where r = "q * b - a"]) (simp_all add: algebra_simps)
  then show ?thesis by (simp add: q_def)
qed

lemma ceiling_div: "0 < b \<Longrightarrow> \<lceil>real_of_int a / real_of_int b\<rceil> = (a + b - 1) div b"
  by (simp add: ceiling_divide_eq_div div_ceiling)

lemma word_ceiling:
  fixes d ts :: "u32"
  assumes ts: "2 \<le> unat ts"
  defines "w \<equiv> (let n = d div ts in if d > ts * n then n + 1 else n)"
  shows "unat w = nat \<lceil>real (unat d) / real (unat ts)\<rceil>"
proof -
  define a b where "a = unat d" and "b = unat ts"
  have b: "2 \<le> b" using ts by (simp add: b_def)
  have n: "unat (d div ts) = a div b" by (simp add: unat_div a_def b_def)
  have lt: "a < 4294967296" using unsigned_less [of d] by (simp add: a_def)
  have "b * (a div b) \<le> a" by simp
  then have "b * (a div b) < 4294967296" using lt by (rule le_less_trans)
  then have m: "unat (ts * (d div ts)) = b * (a div b)"
    by (simp add: unat_word_ariths(2) unat_div flip: a_def b_def)
  have "a div b \<le> a div 2" using b by (intro div_le_mono2) simp_all
  with lt have s: "unat (d div ts + 1) = a div b + 1"
    by (simp add: unat_word_ariths(1) unat_div flip: a_def b_def)
  have gt: "d > ts * (d div ts) \<longleftrightarrow> b * (a div b) < a"
    unfolding word_less_nat_alt m a_def ..
  have "\<lceil>real a / real b\<rceil> = (int a + int b - 1) div int b"
    using ceiling_div [of "int b" "int a"] b by simp
  also have "\<dots> = int (if b * (a div b) < a then a div b + 1 else a div b)"
  proof -
    define r where "r = int (a mod b)"
    have a: "int a = int b * int (a div b) + r"
      unfolding r_def by (metis mult_div_mod_eq of_nat_add of_nat_mult)
    have pos: "b * (a div b) < a \<longleftrightarrow> 0 < r"
      unfolding r_def using mult_div_mod_eq [of b a] by linarith
    have r: "0 \<le> r" "r < int b" using b by (simp_all add: r_def)
    show ?thesis unfolding pos
      by (rule int_div_pos_eq [where r = "if 0 < r then r - 1 else int b - 1"])
        (use a r b in \<open>simp_all add: algebra_simps\<close>)
  qed
  finally show ?thesis unfolding w_def Let_def gt a_def [symmetric] b_def [symmetric] using n s by auto
qed



text \<open>CN. The number of symbols for a delay is the delay divided by the duration of a symbol, rounded
  up, for every bandwidth and spreading factor of the table.\<close>

theorem lora_number_of_symbols_ceiling:
  assumes "sid_pal_radio_lora_get_lora_number_of_symbols (Some m) d = Some n"
    and "sid_pal_radio_get_lora_symbol_timeout_us (Some m) 1 = Some ts"
  shows "unat n = nat \<lceil>real (unat d) / real (unat ts)\<rceil>"
proof -
  have lt: "lora_symb_time m = Some ts"
    using assms(2) by (auto simp: sid_pal_radio_get_lora_symbol_timeout_us_def)
  then have "unat (lora_bandwidth m - 4) < 3 \<and> unat (12 - spreading_factor m) < 8 \<and>
      ts = radio_lora_symb_time ! unat (lora_bandwidth m - 4) ! unat (12 - spreading_factor m)"
    by (auto simp: lora_symb_time_def word_le_nat_alt unat_sub split: if_splits)
  moreover have "2 \<le> unat (radio_lora_symb_time ! i ! j)" if "i < 3" "j < 8" for i j
  proof -
    have "i \<in> {0, 1, 2}" "j \<in> {0, 1, 2, 3, 4, 5, 6, 7}" using that by auto
    then show ?thesis by (auto simp: radio_lora_symb_time_def)
  qed
  ultimately have "2 \<le> unat ts" by simp
  from word_ceiling [OF this, of d] show ?thesis
    using assms(1) lt by (simp add: sid_pal_radio_lora_get_lora_number_of_symbols_def)
qed

lemma lora_number_of_symbols_ceiling_witness:
  "nat \<lceil>real 1000 / real 256\<rceil> = 4"
proof -
  let ?m = "\<lparr>spreading_factor = 7, lora_bandwidth = 6, coding_rate = 2\<rparr>"
  have "sid_pal_radio_lora_get_lora_number_of_symbols (Some ?m) 1000 = Some 4"
    "sid_pal_radio_get_lora_symbol_timeout_us (Some ?m) 1 = Some 256"
    by (simp_all add: sid_pal_radio_lora_get_lora_number_of_symbols_def
        sid_pal_radio_get_lora_symbol_timeout_us_def lora_symb_time_def radio_lora_symb_time_def)
  from lora_number_of_symbols_ceiling [OF this] show ?thesis by simp
qed

section \<open>Time on air\<close>

lemma sdiv_nonneg: "0 \<le> a \<Longrightarrow> 0 < b \<Longrightarrow> a sdiv b = a div (b :: int)"
  by (simp add: signed_divide_int_def sgn_if)

lemma symbols_bound:
  fixes sf num den cr pre :: int
  assumes sf: "5 \<le> sf" "sf \<le> 12" and de: "de \<in> {0, 1}" and pl: "0 \<le> pl" "pl \<le> 255" and h: "0 \<le> x" "x \<le> 44"
    and cr: "1 \<le> cr" "cr \<le> 4" and pre: "0 \<le> pre" "pre \<le> 500" and f: "0 \<le> f" "f \<le> 2"
  defines "nsym \<equiv> (max 0 (8 * pl + x - 4 * sf) + 4 * (sf - 2 * de) - 1) div (4 * (sf - 2 * de))"
  shows "0 \<le> nsym" 
   and "(4 * (pre + 4 + f + (nsym * (cr + 4) + 8)) + 1) * 2 ^ nat (sf - 2) * 1000 \<le> 4294000000"
proof -
  have "0 < 4 * (sf - 2 * de)" using sf de by auto
  then show nn: "0 \<le> nsym" unfolding nsym_def by (intro pos_imp_zdiv_nonneg_iff [THEN iffD2]) simp_all
  have sf': "sf \<in> {5, 6, 7, 8, 9, 10, 11, 12}" using sf by auto
  have num: "max 0 (8 * pl + x - 4 * sf) \<le> 2084 - 4 * sf" using pl h sf by simp
  have "nsym \<le> (2084 - 4 * sf + 4 * (sf - 2 * de) - 1) div (4 * (sf - 2 * de))"
    unfolding nsym_def
  proof (rule zdiv_mono1)
    show "max 0 (8 * pl + x - 4 * sf) + 4 * (sf - 2 * de) - 1 \<le> 2084 - 4 * sf + 4 * (sf - 2 * de) - 1"
      using num by linarith
  qed (use \<open>0 < 4 * (sf - 2 * de)\<close> in simp)
  then have "nsym * 2 ^ nat (sf - 2) \<le> 2 ^ nat (sf - 2) * ((2084 - 4 * sf + 4 * (sf - 2 * de) - 1) div (4 * (sf - 2 * de)))"
    by simp
  also have "\<dots> \<le> 58400" using sf' de by (elim insertE emptyE) (simp_all)
  finally have s: "nsym * 2 ^ nat (sf - 2) \<le> 58400" .
  have p: "2 ^ nat (sf - 2) \<le> (1024 :: int)" using sf' by (elim insertE emptyE) simp_all
  have "(4 * (pre + 4 + f + (nsym * (cr + 4) + 8)) + 1) * 2 ^ nat (sf - 2) =
     4 * (nsym * 2 ^ nat (sf - 2)) * (cr + 4) + (4 * (pre + 12 + f) + 1) * 2 ^ nat (sf - 2)"
    by (simp add: algebra_simps)
  also have "\<dots> \<le> 4 * (nsym * 2 ^ nat (sf - 2)) * 8 + 2057 * 1024"
    using nn cr pre f p by (intro add_mono mult_mono mult_left_mono) simp_all
  also have "\<dots> \<le> 4294000" using s by simp
  finally show "(4 * (pre + 4 + f + (nsym * (cr + 4) + 8)) + 1) * 2 ^ nat (sf - 2) * 1000 \<le> 4294000000"
    by linarith
qed

text \<open>The whole-number arithmetic of the numerator, outside of long interleaving.\<close>

definition lora_nb_symbols :: "int \<Rightarrow> int \<Rightarrow> int \<Rightarrow> int \<Rightarrow> int \<Rightarrow> int" where
  "lora_nb_symbols sf de pl x cr = (max 0 (8 * pl + x - 4 * sf) + 4 * (sf - 2 * de) - 1) div (4 * (sf - 2 * de))"

lemma int_unat_pred:
  assumes "0 < N" "N \<le> 4294967296"
  shows "int (unat (word_of_int N - 1 :: u32)) = N - 1"
proof -
  have "word_of_int N - 1 = (word_of_int (N - 1) :: u32)" by simp
  moreover have "uint (word_of_int (N - 1) :: u32) = (N - 1) mod 4294967296"
    by (simp only: uint_word_of_int) simp
  ultimately show ?thesis using assms by simp
qed

lemma toa_numerator:
  assumes sf: "5 \<le> unat (lora_sf q)" "unat (lora_sf q) \<le> 12" and cr: "1 \<le> unat (lora_cr q)" "unat (lora_cr q) \<le> 4"
    and pre: "unat (pbl_len_in_symb p) \<le> 500"
  defines "sf \<equiv> int (unat (lora_sf q))" and "cr \<equiv> int (unat (lora_cr q))" and "pl \<equiv> int (unat (lora_pld_len_in_bytes p))"
    and "pre \<equiv> int (unat (pbl_len_in_symb p))" and "f \<equiv> (if unat (lora_sf q) \<le> 6 then 2 else 0)"
    and "de \<equiv> (if ldro q \<noteq> 0 then 1 else 0)"
    and "x \<equiv> (if crc_is_on p then 16 else 0) + (if unat (lora_sf q) \<le> 6 then 0 else 8) + (if lora_hdr_type p = 1 then 0 else 20)"
  defines "N \<equiv> (4 * (pre + 4 + f + (lora_nb_symbols sf de pl x cr * (cr + 4) + 8)) + 1) * 2 ^ nat (sf - 2)"
  shows "int (unat (sx126x_get_lora_time_on_air_numerator p q)) = N - 1" and "0 < N" and "N * 1000 \<le> 4294000000"
proof -
  have "5 \<le> sf" "sf \<le> 12" "0 \<le> pl" "pl \<le> 255" "1 \<le> cr" "cr \<le> 4" "0 \<le> pre" "pre \<le> 500"
    using assms(1-5) unat_u8_lt [of "lora_pld_len_in_bytes p"]
    unfolding sf_def cr_def pl_def pre_def by linarith+
  moreover have "de \<in> {0, 1}" "0 \<le> x" "x \<le> 44" "0 \<le> f" "f \<le> 2" by (simp_all add: de_def x_def f_def)
  ultimately have ranges: "5 \<le> sf" "sf \<le> 12" "de \<in> {0, 1}" "0 \<le> pl" "pl \<le> 255" "0 \<le> x" "x \<le> 44"
      "1 \<le> cr" "cr \<le> 4" "0 \<le> pre" "pre \<le> 500" "0 \<le> f" "f \<le> 2" by blast+
  note b = symbols_bound [OF ranges, folded lora_nb_symbols_def [of sf de pl x cr]]
  show hi: "N * 1000 \<le> 4294000000" unfolding N_def by (rule b(2))
  show "0 < N" unfolding N_def using b(1) ranges by (intro mult_pos_pos) (simp_all add: add_pos_nonneg)
  then have "int (unat (word_of_int N - 1 :: u32)) = N - 1"
    using hi by (intro int_unat_pred) linarith+
  moreover have "sx126x_get_lora_time_on_air_numerator p q = word_of_int N - 1"
  proof -
    have den: "0 < 4 * (sf - 2 * de)" using ranges by auto
    have "(max 0 (8 * pl + x - 4 * sf) + 4 * (sf - 2 * de) - 1) sdiv (4 * (sf - 2 * de)) = lora_nb_symbols sf de pl x cr"
      using den unfolding lora_nb_symbols_def by (intro sdiv_nonneg) simp_all
    moreover have "8 * (pl + (if crc_is_on p then 2 else 0)) - (sf * 4 + (if sf \<le> 6 then 1 else 0) * 8 - 8 -
        (if lora_hdr_type p = 1 then 0 else 20)) = 8 * pl + x - 4 * sf"
      unfolding x_def sf_def by (simp del: of_nat_unat)
    moreover have "2 * (if sf \<le> 6 then 1 else 0) = f" "\<not> cr > 4"
      using ranges unfolding f_def sf_def by (simp_all del: of_nat_unat)
    ultimately show ?thesis
      unfolding sx126x_get_lora_time_on_air_numerator_def Let_def N_def
        sf_def [symmetric] cr_def [symmetric] pl_def [symmetric] pre_def [symmetric] de_def [symmetric]
      by (simp only: prod.case if_False)
  qed
  ultimately show "int (unat (sx126x_get_lora_time_on_air_numerator p q)) = N - 1" by simp
qed

text \<open>
  The formula of the datasheet: the preamble with its quarter symbols, the header's eight symbols,
  and the blocks of data, each of \<open>cr + 4\<close> symbols.
\<close>

definition lora_air_symbols :: "lora_modulation_params \<Rightarrow> lora_packet_params \<Rightarrow> u8 \<Rightarrow> real" where
  "lora_air_symbols m p len =
     (let sf = int (unat (spreading_factor m)); cr = int (unat (coding_rate m));
          de = of_bool (lora_low_data_rate_optimize (spreading_factor m) (lora_bandwidth m)) :: int;
          bits = 8 * int (unat len) - 4 * sf + (if crc_mode p \<noteq> 0 then 16 else 0) +
            (if sf \<le> 6 then 0 else 8) + (if lora_header_type p = 1 then 0 else 20)
      in real (unat (lora_preamble_length p)) + (if sf \<le> 6 then 6.25 else 4.25) + 8 +
         of_int (\<lceil>real_of_int (max 0 bits) / real_of_int (4 * (sf - 2 * de))\<rceil> * (cr + 4)))"

lemma bw_in_hz:
  "bw \<in> {4, 5, 6} \<Longrightarrow> unat (sx126x_get_lora_bw_in_hz bw) \<in> {125000, 250000, 500000}"
  by (auto simp: sx126x_get_lora_bw_in_hz_def)

lemma toa_ms:
  fixes num bw :: u32
  assumes "int (unat num) = N - 1" "0 < N" "N * 1000 \<le> 4294000000" and bw: "unat bw \<in> {125000, 250000, 500000}"
  shows "int (unat ((1000 * num + bw - 1) div bw)) = (1000 * (N - 1) + int (unat bw) - 1) div int (unat bw)"
proof -
  have n: "1000 * unat num + unat bw < 4294967296" "1 \<le> unat bw"
    using assms(1-3) bw by (auto simp del: of_nat_unat)
  have 1: "unat (1000 * num) = 1000 * unat num" using n by (simp add: unat_word_ariths(2))
  have 2: "unat (1000 * num + bw) = 1000 * unat num + unat bw" using n 1 by (subst unat_add_u32) simp_all
  have "1 \<le> 1000 * num + bw" using n 2 by (simp add: word_le_nat_alt)
  then have "unat (1000 * num + bw - 1) = 1000 * unat num + unat bw - 1" using 2 by (simp add: unat_sub)
  then have "int (unat ((1000 * num + bw - 1) div bw)) = int (1000 * unat num + unat bw - 1) div int (unat bw)"
    by (simp only: Word.unat_div zdiv_int)
  also have "int (1000 * unat num + unat bw - 1) = 1000 * (N - 1) + int (unat bw) - 1"
    using n(2) assms(1) by (simp only: of_nat_diff of_nat_add of_nat_mult)
  finally show ?thesis .
qed



section \<open>Data rates\<close>

text \<open>CN. The parameters of a data rate are recognised as that data rate again, for LoRa with and
  without long interleaving and for FSK, whatever the parameters held before.\<close>

theorem data_rate_roundtrip:
  "(case sid_pal_radio_lora_data_rate_to_mod_params m r li of (e, m') \<Rightarrow>
      e = RADIO_ERROR_NONE \<longrightarrow> sid_pal_radio_lora_mod_params_to_data_rate m' = r) \<and>
   (case sid_pal_radio_fsk_data_rate_to_mod_params (Some mp) r of (e, mp') \<Rightarrow>
      e = RADIO_ERROR_NONE \<longrightarrow> map_option sid_pal_radio_fsk_mod_params_to_data_rate mp' = Some r)"
  by (cases r)
    (simp_all add: sid_pal_radio_lora_data_rate_to_mod_params_def sid_pal_radio_lora_mod_params_to_data_rate_def
      sid_pal_radio_fsk_data_rate_to_mod_params_def sid_pal_radio_fsk_mod_params_to_data_rate_def)

lemma data_rate_roundtrip_witness:
  "sid_pal_radio_lora_mod_params_to_data_rate (snd (sid_pal_radio_lora_data_rate_to_mod_params
    \<lparr>spreading_factor = 0, lora_bandwidth = 0, coding_rate = 0\<rparr> DATA_RATE_2KBPS 1)) = DATA_RATE_2KBPS"
  using data_rate_roundtrip [where m = "\<lparr>spreading_factor = 0, lora_bandwidth = 0, coding_rate = 0\<rparr>" and r = DATA_RATE_2KBPS and li = 1]
  by (simp add: sid_pal_radio_lora_data_rate_to_mod_params_def)

end
