(* ===== verification/Spec2Isabelle.thy ===== *)
theory Spec2Isabelle
  imports Mfg_Store_Props Cert_Inv Cert_Props Cert_Crypto Timer_Expiry Storage_Kv_Props Ble_Advert_Props Ble_Props Gpio_Props
    Sx126x_Hal_Props Sx126x_Radio_Inv Fsk_Props Lora_Props
begin

text \<open>
  The platform layer of the Sidewalk add-on for the nRF Connect SDK. The Amazon Sidewalk stack
  itself is a prebuilt library; what the repository implements is the platform abstraction
  layer (\<^verbatim>\<open>subsys/sal/sid_pal\<close>) that the library calls for storage, keys, cryptography, timers,
  Bluetooth and pins, the utilities below it (\<^verbatim>\<open>utils\<close>), and the radio layer of the SX126x
  (\<^verbatim>\<open>subsys/semtech/sx126x\<close>). This development models these and proves what makes them correct.

  The parts and how they use each other.

  \<^item> TLV storage, \<^verbatim>\<open>utils/tlv\<close>: type-length-value entries in a region of RAM or flash. Theories
    \<open>Tlv\<close> (the operations over a back end given by its three functions), \<open>Tlv_Refine\<close> (the
    locale \<open>tlv_backend\<close> of a back end that stores bytes, the region of a list of entries, and the
    lemmas about scanning and appending), \<open>Tlv_Props\<close>. A region implements an association list:
    lookup and read give the first entry of a type or the documented error, a write that fits
    appends and a write that does not changes nothing.
  \<^item> Persistent keys, \<^verbatim>\<open>sid_crypto_keys.c\<close>: theory \<open>Crypto_Keys\<close>. Keys live in the PSA key store
    under fixed identifiers; a buffer can carry a reference instead of key bytes.
  \<^item> Manufacturing store, \<^verbatim>\<open>sid_mfg_storage.c\<close> with its parsers \<^verbatim>\<open>sid_mfg_hex_v7.c\<close> and
    \<^verbatim>\<open>sid_mfg_hex_v8.c\<close>: theories \<open>Mfg_Parsers\<close>, \<open>Mfg_Refine\<close> (the locale \<open>tlv_rewritable\<close> adds erasing
    to \<open>tlv_backend\<close>), \<open>Mfg_Props\<close>, \<open>Mfg_Storage\<close>, \<open>Mfg_Store_Props\<close>. On the first start the provisioned
    partition is turned into a TLV region and the private keys move to the key store; later
    starts leave it alone; reading a private key gives a reference.
  \<^item> Cryptography, \<^verbatim>\<open>sid_crypto.c\<close>: theories \<open>Sid_Crypto\<close>, \<open>Sid_Crypto_Ecc\<close> (operations),
    \<open>Sid_Crypto_Props\<close> (over any run of calls no existing key is lost, and the volatile keys and
    operation objects that stay behind are counted), \<open>Sid_Crypto_Spec\<close> (message authentication and
    authenticated encryption compute what PSA promises).
  \<^item> On-device certification, \<^verbatim>\<open>sid_on_dev_cert.c\<close>: theories \<open>On_Dev_Cert\<close>, \<open>Cert_Inv\<close> (the order of
    the protocol as an invariant), \<open>Cert_Props\<close> (nothing is stored unless everything is verified,
    and then everything is stored), \<open>Cert_Crypto\<close> (its signature checks on the cryptography
    model).
  \<^item> Timers, \<^verbatim>\<open>sid_timer.c\<close> and \<^verbatim>\<open>sid_uptime.c\<close>: theories \<open>Pal_Timer\<close>, \<open>Timer_Props\<close> (the ordered list
    of armed timers), \<open>Timer_Expiry\<close> (which callbacks an expiry invokes, and that it returns). A
    callback is the calls on the timers it makes; the state keeps the log of callbacks invoked.
  \<^item> Key-value storage, \<^verbatim>\<open>sid_storage.c\<close> over \<^verbatim>\<open>utils/settings_utils\<close>: theories \<open>Storage_Kv\<close>,
    \<open>Storage_Kv_Props\<close>. A map from group and key to bytes, with the master keys in the key store.
  \<^item> Bluetooth, \<^verbatim>\<open>sid_ble_advert.c\<close>, \<^verbatim>\<open>sid_ble_connection.c\<close>, \<^verbatim>\<open>sid_ble_service.c\<close>, \<^verbatim>\<open>sid_ble_adapter.c\<close>
    and their callbacks: theories \<open>Ble_Advert\<close>, \<open>Ble_Advert_Props\<close>, \<open>Ble_Adapter\<close>, \<open>Ble_Interface\<close>,
    \<open>Ble_Props\<close>. Any call of the stack may fail; what holds only when the calls of the
    advertiser succeed has that as a hypothesis.
  \<^item> Pins, \<^verbatim>\<open>sid_gpio.c\<close> over \<^verbatim>\<open>sid_gpio_utils.c\<close>: theories \<open>Gpio\<close>, \<open>Gpio_Props\<close>. The driver is any
    state with views on its callbacks, interrupt configuration and pin flags.
  \<^item> Radio, \<^verbatim>\<open>subsys/semtech/sx126x\<close>. \<open>Radio_Env\<close>: the driver's context, the platform, whose answers
    are any function of the history of calls, a state monad and a Hoare triple with its rules.
    \<open>Sx126x_Hal\<close> (\<^verbatim>\<open>sx126x_hal.c\<close>) and \<open>Sx126x_Driver\<close> (\<^verbatim>\<open>semtech/sx126x.c\<close>): busy line, bus, antenna
    switch and the commands as bytes. \<open>Fsk_Codec\<close> (\<^verbatim>\<open>sx126x_halo.c\<close> and the pure part of
    \<^verbatim>\<open>sx126x_radio_fsk.c\<close>), \<open>Fsk_Crc\<close> (the locale \<open>crc_register\<close>, of which both checksums are
    instances), \<open>Sx126x_Fsk\<close>, \<open>Sx126x_Lora\<close> (\<^verbatim>\<open>sx126x_radio_lora.c\<close>), \<open>Sx126x_Radio\<close>
    (\<^verbatim>\<open>sx126x_radio.c\<close>: state machine, interrupts, measurements). \<open>Sx126x_Hal_Props\<close>: which calls a
    function makes, the bound of the wait for the chip, the critical region. \<open>Sx126x_Radio_Props\<close>:
    the operations refine an abstract state machine, and leave the antenna switch as stated.
    \<open>Sx126x_Radio_Inv\<close>: the invariant of all reachable states. \<open>Fsk_Props\<close>: a frame comes back
    through the receiver, and damage is reported. \<open>Lora_Props\<close>: frequencies, symbols and times on
    air against the formulas of the datasheet. \<open>Sx126x_Demo\<close>: a concrete radio for the witnesses.

  How the models correspond to the code. Each C function is one definition of the same name;
  a loop or a long block of one is a definition of its own named after it. A module's static
  variables are a record passed in and returned; a pointer argument is an option type whose
  \<open>None\<close> is the null pointer; a result is the C return value with the state after the call.
  Integers whose wrap-around matters are words of their width. Loops that could run forever are
  partial functions whose value \<open>None\<close> is not returning; that they return is proved, under the
  conditions that make them. Where the code can access memory outside an array the model has
  the outcome \<open>Fault\<close> or, in the functions that return an option anyway, \<open>None\<close>. Log output,
  mutexes and critical regions are left out: every function is modelled as one step, except
  that the callbacks of the timers, the Bluetooth stack and the pins are steps of their own. In the
  radio layer entering and leaving a critical region is a call in the history.

  What the code calls and the repository does not contain is a parameter: the flash driver,
  PSA Crypto, the settings subsystem, the time arithmetic of the prebuilt library, the Bluetooth
  stack, the GPIO driver, pins, bus and board of the radio. Their documented behaviour is stated as
  predicates on these parameters (\<open>flash_driver_ok\<close>, \<open>psa_contract\<close>, \<open>volatile_contract\<close>,
  \<open>mac_contract\<close>, \<open>aead_contract\<close>, \<open>verify_contract\<close>, \<open>settings_contract\<close>, \<open>adv_contract\<close>,
  \<open>bt_switch_contract\<close>, \<open>bt_conn_contract\<close>, \<open>gpio_driver\<close> and others), which the theorems assume and
  which each theory with such a theorem shows to hold for a concrete instance. A contract says
  what a successful call has done; whether calls succeed is a hypothesis of its own where a
  theorem needs it (\<open>adv_reliable\<close>, \<open>destroy_reliable\<close>). The radio theorems on states and times hold
  for every platform.

  Bounds. TLV regions end below 4294960000, so that the 32-bit offset arithmetic of the scan
  does not wrap before it stops. Raw manufacturing values fit the payload buffer of the parsers.
  Timer periods are positive where the handler is to return. The wait for the radio's busy line
  takes at most 2000 polls, the bound of the code; the wait for the two header bytes of an FSK
  frame has none, and is a partial function. The time on air of a LoRa packet is exact on the
  spreading factors, bandwidths and lengths its theorem names. These are hypotheses of the
  theorems, and theorems named in the texts show what happens without some of them.

  Not modelled: the sample applications and their command line, which drive the prebuilt
  library; the demonstration message codec, whose primitives are in that library; the deprecated
  manufacturing store; the state notifier, the software interrupts and the firmware update
  service; initialisation, logging and heap wrappers; static GATT and radio tables; the radio
  layer and drivers of the LR11xx chips, the modem, and of the SX126x the diagnostics, the
  transmit power workaround, the workaround for short packets and the board's expander, which
  macros switch on. The software interrupts, the state notifier and the firmware update service
  are the next to be added.
\<close>

end
